(* ===== verification/Prelude.thy ===== *)
theory Prelude
  imports Main "HOL-Library.Word"
begin

text \<open>
  Shared vocabulary of the development: the machine types of the C++ code, the collections of
  facts that carry the component proofs, and generic lemmas on lists that the components share.
  Fixed-width integers of the code are words where their bits or their wrap-around matter
  (status words, control words, protocol bytes, reset generations) and \<open>int\<close> for the
  nanosecond clocks, whose 64-bit range is never left.
\<close>

type_synonym u8 = "8 word"
type_synonym u16 = "16 word"
type_synonym u32 = "32 word"
type_synonym u64 = "64 word"

unbundle bit_operations_syntax

text \<open>
  \<open>bind_simps\<close>: facts about binding named hardware interfaces; \<open>frame\<close>: which part of
  a state an operation leaves alone; \<open>phase_simps\<close>: the classification of drive and phase
  values.
\<close>

named_theorems bind_simps "facts on bound interface handles"
named_theorems frame "fields an operation does not write"
named_theorems phase_simps "classification of enumeration values"

subsection \<open>Lists\<close>

lemma list_all_nth_iff: "list_all P xs \<longleftrightarrow> (\<forall>i < length xs. P (xs ! i))"
  by (simp add: list_all_length)

lemma nth_update_iff: "i < length xs \<Longrightarrow> xs[i := v] ! j = (if i = j then v else xs ! j)"
  by (cases "i = j") auto

text \<open>The first index at which a predicate holds, as the code's search loops compute it.\<close>

fun first_index_from :: "('a \<Rightarrow> bool) \<Rightarrow> nat \<Rightarrow> 'a list \<Rightarrow> nat option" where
  "first_index_from P n [] = None"
| "first_index_from P n (x # xs) = (if P x then Some n else first_index_from P (Suc n) xs)"

definition first_index :: "('a \<Rightarrow> bool) \<Rightarrow> 'a list \<Rightarrow> nat option" where
  "first_index P xs = first_index_from P 0 xs"

lemma first_index_from_Some:
  "first_index_from P n xs = Some i \<Longrightarrow>
     \<exists>k < length xs. i = n + k \<and> P (xs ! k) \<and> (\<forall>j < k. \<not> P (xs ! j))"
proof (induction xs arbitrary: n)
  case Nil
  then show ?case by simp
next
  case (Cons x xs)
  show ?case
  proof (cases "P x")
    case True
    with Cons.prems show ?thesis by auto
  next
    case False
    with Cons.prems have "first_index_from P (Suc n) xs = Some i" by simp
    from Cons.IH [OF this] obtain k where
      k: "k < length xs" "i = Suc n + k" "P (xs ! k)" "\<forall>j < k. \<not> P (xs ! j)"
      by blast
    with False show ?thesis
      by (intro exI [of _ "Suc k"]) (auto simp: nth_Cons')
  qed
qed

lemma first_index_from_None: "first_index_from P n xs = None \<longleftrightarrow> (\<forall>x \<in> set xs. \<not> P x)"
  by (induction xs arbitrary: n) auto

lemma first_index_Some:
  assumes "first_index P xs = Some i"
  shows "i < length xs" "P (xs ! i)" "\<And>j. j < i \<Longrightarrow> \<not> P (xs ! j)"
  using first_index_from_Some [of P 0 xs i] assms by (auto simp: first_index_def)

lemma first_index_None: "first_index P xs = None \<longleftrightarrow> (\<forall>x \<in> set xs. \<not> P x)"
  by (simp add: first_index_def first_index_from_None)

lemma first_index_None_nth:
  "first_index P xs = None \<Longrightarrow> i < length xs \<Longrightarrow> \<not> P (xs ! i)"
  by (simp add: first_index_None)

text \<open>The value of an optional index as the code's \<open>std::int8_t\<close> with \<open>-1\<close> for none.\<close>

definition index_or_minus1 :: "nat option \<Rightarrow> int" where
  "index_or_minus1 i = (case i of None \<Rightarrow> -1 | Some n \<Rightarrow> int n)"

lemma index_or_minus1_simps [simp]:
  "index_or_minus1 None = -1" "index_or_minus1 (Some n) = int n"
  "index_or_minus1 i < 0 \<longleftrightarrow> i = None" "0 \<le> index_or_minus1 i \<longleftrightarrow> i \<noteq> None"
  by (auto simp: index_or_minus1_def split: option.splits)

end
