(* ===== verification/Float64.thy ===== *)
theory Float64
  imports Prelude "HOL-Library.Log_Nat"
begin

text \<open>
  IEEE-754 binary64 values, the C++ type \<open>double\<close>. A finite value is the rational it denotes;
  arithmetic is exact rational arithmetic followed by \<open>f64_round\<close>, the rounding to nearest
  with ties to even that the target uses. The two zeros are one value here: no operation of the
  modelled code tells them apart except a division by zero, where the divisor's zero is taken
  as the positive one (every divisor of the code that can be zero is a difference of unsigned
  integers or an absolute value, so it is \<open>+0\<close>).
\<close>

datatype f64 = Fin rat | PInf | NInf | NaN

fun isfinite :: "f64 \<Rightarrow> bool" where
  "isfinite (Fin _) = True"
| "isfinite _ = False"

subsection \<open>Comparison: every comparison with a NaN is false\<close>

fun f64_less :: "f64 \<Rightarrow> f64 \<Rightarrow> bool" where
  "f64_less (Fin a) (Fin b) = (a < b)"
| "f64_less NInf (Fin _) = True"
| "f64_less NInf PInf = True"
| "f64_less (Fin _) PInf = True"
| "f64_less _ _ = False"

fun f64_eq :: "f64 \<Rightarrow> f64 \<Rightarrow> bool" where
  "f64_eq (Fin a) (Fin b) = (a = b)"
| "f64_eq PInf PInf = True"
| "f64_eq NInf NInf = True"
| "f64_eq _ _ = False"

definition f64_le :: "f64 \<Rightarrow> f64 \<Rightarrow> bool" where
  "f64_le a b = (f64_less a b \<or> f64_eq a b)"

lemma f64_le_simps [simp]:
  "f64_le (Fin a) (Fin b) \<longleftrightarrow> a \<le> b"
  "\<not> f64_le NaN u" "\<not> f64_le u NaN"
  by (auto simp: f64_le_def elim: f64_less.elims f64_eq.elims)

lemma isfinite_iff: "isfinite v \<longleftrightarrow> (\<exists>q. v = Fin q)"
  by (cases v) auto

subsection \<open>Rounding to nearest, ties to even\<close>

definition ilog2 :: "rat \<Rightarrow> int" where
  "ilog2 q = (let (n, d) = quotient_of q; b = bitlen n - bitlen d
              in if 2 powi b \<le> q then b else b - 1)"

definition round_half_even :: "rat \<Rightarrow> int" where
  "round_half_even x = (let f = \<lfloor>x\<rfloor>; r = x - of_int f
     in if r < 1 / 2 then f else if 1 / 2 < r then f + 1 else if even f then f else f + 1)"

definition f64_round :: "rat \<Rightarrow> f64" where
  "f64_round q =
     (if q = 0 then Fin 0
      else let e = max (ilog2 \<bar>q\<bar> - 52) (- 1074);
               r = of_int (round_half_even (q / 2 powi e)) * 2 powi e
           in if 2 ^ 1024 \<le> r then PInf else if r \<le> - (2 ^ 1024) then NInf else Fin r)"

subsection \<open>Arithmetic\<close>

fun f64_neg :: "f64 \<Rightarrow> f64" where
  "f64_neg (Fin a) = Fin (- a)"
| "f64_neg PInf = NInf"
| "f64_neg NInf = PInf"
| "f64_neg NaN = NaN"

fun f64_abs :: "f64 \<Rightarrow> f64" where
  "f64_abs (Fin a) = Fin \<bar>a\<bar>"
| "f64_abs PInf = PInf"
| "f64_abs NInf = PInf"
| "f64_abs NaN = NaN"

fun f64_add :: "f64 \<Rightarrow> f64 \<Rightarrow> f64" where
  "f64_add (Fin a) (Fin b) = f64_round (a + b)"
| "f64_add NaN _ = NaN"
| "f64_add _ NaN = NaN"
| "f64_add PInf NInf = NaN"
| "f64_add NInf PInf = NaN"
| "f64_add PInf _ = PInf"
| "f64_add _ PInf = PInf"
| "f64_add NInf _ = NInf"
| "f64_add _ NInf = NInf"

definition f64_sub :: "f64 \<Rightarrow> f64 \<Rightarrow> f64" where
  "f64_sub a b = f64_add a (f64_neg b)"

definition f64_inf_of_sign :: "rat \<Rightarrow> f64" where
  "f64_inf_of_sign s = (if 0 < s then PInf else if s < 0 then NInf else NaN)"

fun f64_sgn :: "f64 \<Rightarrow> rat" where
  "f64_sgn (Fin a) = sgn a"
| "f64_sgn PInf = 1"
| "f64_sgn NInf = -1"
| "f64_sgn NaN = 0"

fun f64_mul :: "f64 \<Rightarrow> f64 \<Rightarrow> f64" where
  "f64_mul (Fin a) (Fin b) = f64_round (a * b)"
| "f64_mul NaN _ = NaN"
| "f64_mul _ NaN = NaN"
| "f64_mul a b = f64_inf_of_sign (f64_sgn a * f64_sgn b)"

fun f64_div :: "f64 \<Rightarrow> f64 \<Rightarrow> f64" where
  "f64_div (Fin a) (Fin b) = (if b = 0 then f64_inf_of_sign a else f64_round (a / b))"
| "f64_div NaN _ = NaN"
| "f64_div _ NaN = NaN"
| "f64_div (Fin _) _ = Fin 0"
| "f64_div a (Fin b) = (if b = 0 then a else f64_inf_of_sign (f64_sgn a * sgn b))"
| "f64_div _ _ = NaN"

subsection \<open>Integral parts and conversions\<close>

definition rat_trunc :: "rat \<Rightarrow> int" where
  "rat_trunc q = (if 0 \<le> q then \<lfloor>q\<rfloor> else \<lceil>q\<rceil>)"

fun f64_trunc :: "f64 \<Rightarrow> f64" where
  "f64_trunc (Fin a) = Fin (of_int (rat_trunc a))"
| "f64_trunc v = v"

fun f64_floor :: "f64 \<Rightarrow> f64" where
  "f64_floor (Fin a) = Fin (of_int \<lfloor>a\<rfloor>)"
| "f64_floor v = v"

text \<open>
  \<open>static_cast\<close> to an integer type truncates. The code casts a value only after it has
  checked that it is finite and in range; on other values (undefined in C++) the model is 0.
\<close>

fun f64_to_int :: "f64 \<Rightarrow> int" where
  "f64_to_int (Fin a) = rat_trunc a"
| "f64_to_int _ = 0"

definition f64_of_int :: "int \<Rightarrow> f64" where
  "f64_of_int n = f64_round (of_int n)"

definition f64_of_bool :: "bool \<Rightarrow> f64" where
  "f64_of_bool b = (if b then Fin 1 else Fin 0)"

subsection \<open>Integers below \<open>2 ^ 53\<close> are exact\<close>

lemma ilog2_upper:
  assumes "0 < q" "q < 2 powi k"
  shows "ilog2 q < k"
proof -
  obtain n d where nd: "quotient_of q = (n, d)" by (cases "quotient_of q")
  define b where "b = bitlen n - bitlen d"
  have d0: "0 < d" using nd by (rule quotient_of_denom_pos)
  have q: "q = of_int n / of_int d" using nd by (rule quotient_of_div)
  have n0: "0 < n" using assms(1) d0 q by (simp add: zero_less_divide_iff)
  have lo: "2 ^ nat (bitlen n - 1) \<le> n" using bitlen_bounds [OF n0] by simp
  have hi: "d < 2 ^ nat (bitlen d)" using bitlen_bounds [OF d0] by simp
  have bn: "1 \<le> bitlen n" using n0 bitlen_nonneg [of n] bitlen_eq_zero_iff [of n] by linarith
  have "2 powi (b - 1) * of_int d \<le> (2 powi (b - 1) * 2 powi (bitlen d) :: rat)"
  proof (rule mult_left_mono)
    show "of_int d \<le> (2 powi (bitlen d) :: rat)"
      using hi by (simp add: power_int_def bitlen_nonneg)
  qed simp
  also have "\<dots> = 2 powi (bitlen n - 1)"
    by (simp add: b_def flip: power_int_add)
  also have "\<dots> \<le> of_int n"
    using lo bn by (simp add: power_int_def)
  finally have lb: "2 powi (b - 1) \<le> q"
    using d0 by (simp add: q pos_le_divide_eq)
  have "2 powi (ilog2 q) \<le> q"
    using lb by (simp add: ilog2_def nd b_def Let_def)
  with assms(2) have "(2 :: rat) powi (ilog2 q) < 2 powi k" by simp
  then show ?thesis
    using power_int_increasing [of k "ilog2 q" "2 :: rat"] by (meson leI not_le one_le_numeral)
qed

lemma round_half_even_of_int [simp]: "round_half_even (of_int n) = n"
  by (simp add: round_half_even_def)

text \<open>A value with at most 53 significant bits in the exponent range is its own rounding.\<close>

lemma f64_round_representable:
  assumes q: "q = of_int m * 2 powi e" and m: "\<bar>m\<bar> < 2 ^ 53"
    and e: "- 1074 \<le> e" and b: "\<bar>q\<bar> < 2 ^ 1024"
  shows "f64_round q = Fin q"
proof (cases "q = 0")
  case True
  then show ?thesis by (simp add: f64_round_def)
next
  case False
  define g where "g = max (ilog2 \<bar>q\<bar> - 52) (- 1074)"
  have "\<bar>q\<bar> < 2 ^ 53 * 2 powi e"
  proof -
    have "of_int \<bar>m\<bar> < (2 ^ 53 :: rat)"
      using m by (metis of_int_less_iff of_int_numeral of_int_power)
    then show ?thesis by (simp add: q abs_mult power_int_abs)
  qed
  also have "2 ^ 53 * 2 powi e = (2 :: rat) powi (53 + e)"
    by (simp add: power_int_add)
  finally have "ilog2 \<bar>q\<bar> < 53 + e"
    using False by (intro ilog2_upper) auto
  with e have ge: "g \<le> e" by (auto simp: g_def)
  have "q / 2 powi g = of_int m * 2 powi (e - g)"
    by (simp add: q power_int_diff)
  also have "\<dots> = of_int (m * 2 ^ nat (e - g))"
    using ge by (simp add: power_int_def)
  finally have div: "q / 2 powi g = of_int (m * 2 ^ nat (e - g))" .
  have "of_int (round_half_even (q / 2 powi g)) * 2 powi g = q / 2 powi g * 2 powi g"
    by (simp only: div round_half_even_of_int)
  then have "of_int (round_half_even (q / 2 powi g)) * 2 powi g = q"
    by simp
  with b False show ?thesis
    by (auto simp: f64_round_def Let_def g_def [symmetric] abs_less_iff not_le)
qed

lemma f64_of_int_exact:
  assumes "\<bar>n\<bar> < 2 ^ 53"
  shows "f64_of_int n = Fin (of_int n)"
proof -
  have "\<bar>of_int n :: rat\<bar> < 2 ^ 53"
    using assms by (metis of_int_abs of_int_less_iff of_int_numeral of_int_power)
  also have "(2 ^ 53 :: rat) \<le> 2 ^ 1024" by (rule power_increasing) auto
  finally show ?thesis
    unfolding f64_of_int_def using assms by (intro f64_round_representable [of _ n 0]) auto
qed

text \<open>The same as an equation to compute with: no rounding for the integers the code converts.\<close>

lemma f64_round_code [code]:
  "f64_round q = (if snd (quotient_of q) = 1 \<and> \<bar>fst (quotient_of q)\<bar> < 9007199254740992 then Fin q
     else if q = 0 then Fin 0
      else let e = max (ilog2 \<bar>q\<bar> - 52) (- 1074);
               r = of_int (round_half_even (q / 2 powi e)) * 2 powi e
           in if 2 ^ 1024 \<le> r then PInf else if r \<le> - (2 ^ 1024) then NInf else Fin r)"
proof (cases "snd (quotient_of q) = 1 \<and> \<bar>fst (quotient_of q)\<bar> < 9007199254740992")
  case True
  then obtain n where n: "quotient_of q = (n, 1)" "\<bar>n\<bar> < 2 ^ 53" by (cases "quotient_of q") auto
  have "q = of_int n" using quotient_of_div [OF n(1)] by simp
  then have "f64_round q = Fin q" using f64_of_int_exact [OF n(2)] by (simp add: f64_of_int_def)
  with True show ?thesis by simp
next
  case False
  show ?thesis unfolding f64_round_def if_not_P [OF False] by (rule refl)
qed

lemma rat_trunc_of_int [simp]: "rat_trunc (of_int n) = n"
  by (simp add: rat_trunc_def)

text \<open>The code's test "finite and equal to its own truncation" selects the integers.\<close>

lemma f64_eq_trunc_iff: "isfinite v \<and> f64_eq (f64_trunc v) v \<longleftrightarrow> (\<exists>n. v = Fin (of_int n))"
  by (cases v) (auto intro: sym)

lemma f64_eq_floor_iff: "isfinite v \<and> f64_eq (f64_floor v) v \<longleftrightarrow> (\<exists>n. v = Fin (of_int n))"
  by (cases v) (auto intro: sym)

end
