(* ===== verification/Semantic.thy ===== *)
theory Semantic
  imports Float64
begin

text \<open>
  The package \<open>hw_semantic_components\<close>: loaned hardware interfaces as the controllers see
  them, the CiA402 status-word decoder (\<open>cia402_state.hpp\<close>), the CiA402 axis
  (\<open>cia402_axis.hpp\<close>), the handshake phase (\<open>handshake_phase.hpp\<close>) and the feedback age
  (\<open>feedback_age.hpp\<close>).

  A loaned interface of ros2_control is its prefix name, its interface name and the
  \<open>double\<close> it holds; \<open>get_name()\<close> is the two names joined by a slash. A reference to
  an element of the interface vector is the index of the element.
\<close>

subsection \<open>Loaned interfaces\<close>

record loaned =
  prefix_name :: string
  interface_name :: string
  cell :: f64

definition full_name :: "loaned \<Rightarrow> string" where
  "full_name i = prefix_name i @ ''/'' @ interface_name i"

definition get_value :: "loaned list \<Rightarrow> nat \<Rightarrow> f64" where
  "get_value xs i = (if i < length xs then cell (xs ! i) else NaN)"

definition set_value :: "loaned list \<Rightarrow> nat \<Rightarrow> f64 \<Rightarrow> loaned list" where
  "set_value xs i v = (if i < length xs then xs[i := (xs ! i)\<lparr>cell := v\<rparr>] else xs)"

lemma length_set_value [simp, frame]: "length (set_value xs i v) = length xs"
  by (simp add: set_value_def)

lemma get_set_value [bind_simps]:
  "get_value (set_value xs i v) j = (if i = j \<and> j < length xs then v else get_value xs j)"
  by (auto simp: get_value_def set_value_def nth_list_update)

lemma full_name_set_value [simp, frame]:
  "j < length xs \<Longrightarrow> full_name (set_value xs i v ! j) = full_name (xs ! j)"
  by (auto simp: set_value_def full_name_def nth_list_update)

subsection \<open>CiA402 states\<close>

datatype cia402_state =
    kNotReadyToSwitchOn | kSwitchOnDisabled | kReadyToSwitchOn | kSwitchedOn
  | kOperationEnabled | kQuickStopActive | kFaultReactionActive | kFault | kUnknown

definition decode_cia402_state :: "u16 \<Rightarrow> cia402_state" where
  "decode_cia402_state status_word =
    (if status_word AND 0x004F = 0x0000 then kNotReadyToSwitchOn
     else if status_word AND 0x004F = 0x0040 then kSwitchOnDisabled
     else if status_word AND 0x006F = 0x0021 then kReadyToSwitchOn
     else if status_word AND 0x006F = 0x0023 then kSwitchedOn
     else if status_word AND 0x006F = 0x0027 then kOperationEnabled
     else if status_word AND 0x006F = 0x0007 then kQuickStopActive
     else if status_word AND 0x004F = 0x000F then kFaultReactionActive
     else if status_word AND 0x004F = 0x0008 then kFault
     else kUnknown)"

text \<open>
  The decoder reads bits 0 to 3, 5 and 6 only. Its reference is the table of state patterns of
  the drive profile: for each state the bits that count and the value they have.
\<close>

fun state_pattern :: "cia402_state \<Rightarrow> (u16 \<times> u16) option" where
  "state_pattern kNotReadyToSwitchOn = Some (0x004F, 0x0000)"
| "state_pattern kSwitchOnDisabled = Some (0x004F, 0x0040)"
| "state_pattern kReadyToSwitchOn = Some (0x006F, 0x0021)"
| "state_pattern kSwitchedOn = Some (0x006F, 0x0023)"
| "state_pattern kOperationEnabled = Some (0x006F, 0x0027)"
| "state_pattern kQuickStopActive = Some (0x006F, 0x0007)"
| "state_pattern kFaultReactionActive = Some (0x004F, 0x000F)"
| "state_pattern kFault = Some (0x004F, 0x0008)"
| "state_pattern kUnknown = None"

definition matches :: "u16 \<Rightarrow> cia402_state \<Rightarrow> bool" where
  "matches w s = (case state_pattern s of None \<Rightarrow> False | Some (m, v) \<Rightarrow> w AND m = v)"

text \<open>The wider mask decides what the narrower one sees.\<close>

lemma mask_6F_to_4F: "w AND 0x006F = v \<Longrightarrow> w AND 0x004F = v AND (0x004F :: u16)"
proof -
  assume v: "w AND 0x006F = v"
  have "(w AND 0x006F) AND 0x004F = w AND (0x004F :: u16)" by (simp add: and.assoc)
  then show ?thesis by (simp add: v)
qed

lemma matches_exclusive: "matches w s \<Longrightarrow> matches w t \<Longrightarrow> s = t"
  by (cases s; cases t) (auto simp: matches_def dest: mask_6F_to_4F)

lemma decode_matches: "decode_cia402_state w \<noteq> kUnknown \<Longrightarrow> matches w (decode_cia402_state w)"
  by (auto simp: decode_cia402_state_def matches_def split: if_splits)

lemma decode_eq_iff:
  assumes "s \<noteq> kUnknown"
  shows "decode_cia402_state w = s \<longleftrightarrow> matches w s"
proof
  assume "decode_cia402_state w = s"
  with assms show "matches w s" using decode_matches [of w] by simp
next
  assume m: "matches w s"
  have "decode_cia402_state w \<noteq> kUnknown"
    using m by (cases s) (auto simp: decode_cia402_state_def matches_def)
  with m show "decode_cia402_state w = s"
    using decode_matches [of w] matches_exclusive by blast
qed

text \<open>An unavailable status word reads as 0xFFFF, which no state pattern matches.\<close>

lemma decode_unavailable: "decode_cia402_state 0xFFFF = kUnknown"
  by (simp add: decode_cia402_state_def)

subsection \<open>Feedback age\<close>

definition feedback_fresh :: "f64 \<Rightarrow> f64 \<Rightarrow> bool" where
  "feedback_fresh age_ms limit_ms =
     (isfinite age_ms \<and> f64_le (Fin 0) age_ms \<and> f64_le age_ms limit_ms)"

subsection \<open>Handshake phase\<close>

datatype handshake_phase =
    disabled | enabling | enabled | disabling | reset_disabling | resetting | fault_latched

fun phase_code :: "handshake_phase \<Rightarrow> nat" where
  "phase_code disabled = 0"
| "phase_code enabling = 1"
| "phase_code enabled = 2"
| "phase_code disabling = 3"
| "phase_code reset_disabling = 4"
| "phase_code resetting = 5"
| "phase_code fault_latched = 6"

definition phase_of_code :: "nat \<Rightarrow> handshake_phase" where
  "phase_of_code n =
    (if n = 0 then disabled else if n = 1 then enabling else if n = 2 then enabled
     else if n = 3 then disabling else if n = 4 then reset_disabling
     else if n = 5 then resetting else fault_latched)"

definition decode_handshake_phase :: "f64 \<Rightarrow> handshake_phase option" where
  "decode_handshake_phase v =
    (if \<not> isfinite v \<or> f64_less v (Fin 0) \<or> f64_less (Fin 6) v \<or> \<not> f64_eq (f64_trunc v) v
     then None else Some (phase_of_code (nat (f64_to_int v))))"

lemma phase_of_code_phase_code [simp]: "phase_of_code (phase_code p) = p"
  by (cases p) (simp_all add: phase_of_code_def)

lemma phase_code_le: "phase_code p \<le> 6"
  by (cases p) simp_all

lemma phase_code_phase_of_code: "n \<le> 6 \<Longrightarrow> phase_code (phase_of_code n) = n"
  by (auto simp: phase_of_code_def)

lemma phase_code_eq_iff: "phase_code p = phase_code q \<longleftrightarrow> p = q"
  by (metis phase_of_code_phase_code)

lemma exact_integer_test:
  "\<not> (\<not> isfinite v \<or> P \<or> Q \<or> \<not> f64_eq (f64_trunc v) v) \<longleftrightarrow>
     (\<exists>n. v = Fin (of_int n)) \<and> \<not> P \<and> \<not> Q"
  using f64_eq_trunc_iff [of v] by blast

lemma decode_handshake_phase_eq_Some:
  "decode_handshake_phase v = Some p \<longleftrightarrow> v = Fin (of_nat (phase_code p))"
proof -
  have "decode_handshake_phase v = Some p \<longleftrightarrow>
      (\<exists>n. v = Fin (of_int n) \<and> 0 \<le> n \<and> n \<le> 6 \<and> phase_of_code (nat n) = p)"
    using exact_integer_test [of v "f64_less v (Fin 0)" "f64_less (Fin 6) v"]
    by (auto simp: decode_handshake_phase_def)
  also have "\<dots> \<longleftrightarrow> v = Fin (of_nat (phase_code p))"
  proof
    assume "\<exists>n. v = Fin (of_int n) \<and> 0 \<le> n \<and> n \<le> 6 \<and> phase_of_code (nat n) = p"
    then obtain n where "v = Fin (of_int n)" "0 \<le> n" "n \<le> 6" "phase_of_code (nat n) = p" by blast
    then show "v = Fin (of_nat (phase_code p))"
      using phase_code_phase_of_code [of "nat n"] by auto
  next
    assume "v = Fin (of_nat (phase_code p))"
    then show "\<exists>n. v = Fin (of_int n) \<and> 0 \<le> n \<and> n \<le> 6 \<and> phase_of_code (nat n) = p"
      using phase_code_le [of p] by (intro exI [of _ "int (phase_code p)"]) auto
  qed
  finally show ?thesis .
qed

subsection \<open>The CiA402 axis\<close>

record cia402_axis =
  joint_name :: string
  command_interface :: "nat option"
  state_interface :: "nat option"

definition new_axis :: "string \<Rightarrow> cia402_axis" where
  "new_axis name = \<lparr>joint_name = name, command_interface = None, state_interface = None\<rparr>"

definition axis_command_interface_names :: "cia402_axis \<Rightarrow> string list" where
  "axis_command_interface_names a = [joint_name a @ ''/control_word'']"

definition axis_state_interface_names :: "cia402_axis \<Rightarrow> string list" where
  "axis_state_interface_names a = [joint_name a @ ''/status_word'']"

text \<open>
  The template \<open>bind_exactly_once\<close>: the index of the only interface of the given names, none
  when there is no such interface or a second one.
\<close>

fun bind_loop :: "loaned list \<Rightarrow> nat \<Rightarrow> string \<Rightarrow> string \<Rightarrow> nat option \<Rightarrow> nat option" where
  "bind_loop [] i prefix iface match = match"
| "bind_loop (x # xs) i prefix iface match =
    (if prefix_name x \<noteq> prefix \<or> interface_name x \<noteq> iface
     then bind_loop xs (Suc i) prefix iface match
     else case match of
            Some _ \<Rightarrow> None
          | None \<Rightarrow> bind_loop xs (Suc i) prefix iface (Some i))"

definition bind_exactly_once :: "loaned list \<Rightarrow> string \<Rightarrow> string \<Rightarrow> nat option" where
  "bind_exactly_once xs prefix iface = bind_loop xs 0 prefix iface None"

definition assign_loaned_command_interfaces :: "cia402_axis \<Rightarrow> loaned list \<Rightarrow> bool \<times> cia402_axis" where
  "assign_loaned_command_interfaces a xs =
    (if command_interface a \<noteq> None then (False, a)
     else case bind_exactly_once xs (joint_name a) ''control_word'' of
            None \<Rightarrow> (False, a)
          | Some i \<Rightarrow> (True, a\<lparr>command_interface := Some i\<rparr>))"

definition assign_loaned_state_interfaces :: "cia402_axis \<Rightarrow> loaned list \<Rightarrow> bool \<times> cia402_axis" where
  "assign_loaned_state_interfaces a xs =
    (if state_interface a \<noteq> None then (False, a)
     else case bind_exactly_once xs (joint_name a) ''status_word'' of
            None \<Rightarrow> (False, a)
          | Some i \<Rightarrow> (True, a\<lparr>state_interface := Some i\<rparr>))"

definition release_axis :: "cia402_axis \<Rightarrow> cia402_axis" where
  "release_axis a = a\<lparr>command_interface := None, state_interface := None\<rparr>"

definition axis_is_bound :: "cia402_axis \<Rightarrow> bool" where
  "axis_is_bound a = (command_interface a \<noteq> None \<and> state_interface a \<noteq> None)"

definition set_control_word :: "cia402_axis \<Rightarrow> u16 \<Rightarrow> loaned list \<Rightarrow> bool \<times> loaned list" where
  "set_control_word a w commands =
    (case command_interface a of
       None \<Rightarrow> (False, commands)
     | Some i \<Rightarrow> (True, set_value commands i (f64_of_int (uint w))))"

definition get_status_word :: "cia402_axis \<Rightarrow> loaned list \<Rightarrow> u16 option" where
  "get_status_word a states =
    (case state_interface a of
       None \<Rightarrow> None
     | Some i \<Rightarrow>
         (let value = get_value states i
          in if \<not> isfinite value \<or> f64_less value (Fin 0) \<or> f64_less (Fin 65535) value
                \<or> \<not> f64_eq (f64_trunc value) value
             then None
             else Some (word_of_int (f64_to_int value))))"

definition axis_get_state :: "cia402_axis \<Rightarrow> loaned list \<Rightarrow> cia402_state" where
  "axis_get_state a states =
    (case get_status_word a states of
       Some w \<Rightarrow> decode_cia402_state w
     | None \<Rightarrow> kUnknown)"

text \<open>\<open>bind_exactly_once\<close> finds an index iff exactly one interface carries the two names.\<close>

definition named :: "string \<Rightarrow> string \<Rightarrow> loaned \<Rightarrow> bool" where
  "named prefix iface x = (prefix_name x = prefix \<and> interface_name x = iface)"

lemma bind_loop_spec:
  "bind_loop xs i prefix iface match =
     (case match of
        Some m \<Rightarrow> if filter (named prefix iface) xs = [] then Some m else None
      | None \<Rightarrow> if length (filter (named prefix iface) xs) = 1
                then first_index_from (named prefix iface) i xs else None)"
proof (induction xs arbitrary: i match)
  case Nil
  then show ?case by (cases match) auto
next
  case (Cons x xs)
  show ?case by (cases match) (auto simp: Cons.IH named_def)
qed

lemma bind_exactly_once_Some:
  assumes "bind_exactly_once xs prefix iface = Some i"
  shows "i < length xs" "prefix_name (xs ! i) = prefix" "interface_name (xs ! i) = iface"
proof -
  from assms have "first_index (named prefix iface) xs = Some i"
    by (simp add: bind_exactly_once_def bind_loop_spec first_index_def split: if_splits)
  from first_index_Some [OF this] show
    "i < length xs" "prefix_name (xs ! i) = prefix" "interface_name (xs ! i) = iface"
    by (auto simp: named_def)
qed

lemma bind_exactly_once_iff:
  "bind_exactly_once xs prefix iface \<noteq> None \<longleftrightarrow> length (filter (named prefix iface) xs) = 1"
proof -
  have "first_index_from (named prefix iface) 0 xs \<noteq> None"
    if "length (filter (named prefix iface) xs) = 1"
  proof -
    from that obtain y where "filter (named prefix iface) xs = [y]"
      by (auto simp: length_Suc_conv)
    then have "y \<in> set (filter (named prefix iface) xs)" by simp
    then show ?thesis unfolding first_index_from_None by auto
  qed
  then show ?thesis by (auto simp: bind_exactly_once_def bind_loop_spec)
qed

lemma get_status_word_eq_Some:
  "get_status_word a states = Some w \<longleftrightarrow>
     (\<exists>i. state_interface a = Some i \<and> get_value states i = Fin (of_int (uint w)))"
proof (cases "state_interface a")
  case None
  then show ?thesis by (simp add: get_status_word_def)
next
  case (Some i)
  let ?v = "get_value states i"
  have "get_status_word a states = Some w \<longleftrightarrow>
      (\<exists>n. ?v = Fin (of_int n) \<and> 0 \<le> n \<and> n \<le> 65535 \<and> word_of_int n = w)"
    using exact_integer_test [of ?v "f64_less ?v (Fin 0)" "f64_less (Fin 65535) ?v"] Some
    by (auto simp: get_status_word_def Let_def)
  also have "\<dots> \<longleftrightarrow> ?v = Fin (of_int (uint w))"
  proof
    assume "\<exists>n. ?v = Fin (of_int n) \<and> 0 \<le> n \<and> n \<le> 65535 \<and> word_of_int n = w"
    then obtain n where n: "?v = Fin (of_int n)" "0 \<le> n" "n \<le> 65535" "word_of_int n = w" by blast
    then have "uint w = n" by (auto simp: uint_word_of_int)
    with n show "?v = Fin (of_int (uint w))" by simp
  next
    assume "?v = Fin (of_int (uint w))"
    then show "\<exists>n. ?v = Fin (of_int n) \<and> 0 \<le> n \<and> n \<le> 65535 \<and> word_of_int n = w"
      using uint_lt2p [of w] by (intro exI [of _ "uint w"]) auto
  qed
  finally show ?thesis using Some by simp
qed

end
