(* ===== verification/Handshake.thy ===== *)
theory Handshake
  imports Semantic
begin

text \<open>
  \<open>HandshakeDevice\<close> of \<open>ctrl_enable_manager\<close> (\<open>handshake_device.hpp\<close>, \<open>handshake_device.cpp\<close>): a
  device whose hardware plugin runs its own enable sequence. The controller writes an enable
  request and a reset generation and reads back the plugin's phase, fault flag, motion flag and
  handled generation. The interface the enable manager relies on is the locale
  \<open>handshake_contract\<close>, interpreted on the device at the end.
\<close>

subsection \<open>State\<close>

record hs_device =
  hd_gpio :: string
  hd_enable_command :: "nat option"
  hd_reset_command :: "nat option"
  hd_states :: "nat option list"
  hd_enable_requested :: bool
  hd_reset_generation :: u64
  hd_reset_target :: u64
  hd_reset_pending :: bool
  hd_valid :: bool
  hd_phase :: handshake_phase
  hd_fault_latched :: bool
  hd_motion_allowed :: bool
  hd_handled_generation :: u64
  hd_published_status :: u32

record hs_status =
  st_valid :: bool
  st_phase :: handshake_phase
  st_fault_latched :: bool
  st_motion_allowed :: bool

definition new_device :: "string \<Rightarrow> hs_device" where
  "new_device gpio =
    \<lparr>hd_gpio = gpio, hd_enable_command = None, hd_reset_command = None,
     hd_states = replicate 4 None, hd_enable_requested = False, hd_reset_generation = 0,
     hd_reset_target = 0, hd_reset_pending = False, hd_valid = False, hd_phase = disabled,
     hd_fault_latched = False, hd_motion_allowed = False, hd_handled_generation = 0,
     hd_published_status = 0\<rparr>"

text \<open>Indices into \<open>hd_states\<close>.\<close>

abbreviation (input) "kPhase \<equiv> 0 :: nat"
abbreviation (input) "kFaultFlag \<equiv> 1 :: nat"
abbreviation (input) "kHandledGeneration \<equiv> 2 :: nat"
abbreviation (input) "kMotionAllowed \<equiv> 3 :: nat"

subsection \<open>Decoding of the state interfaces\<close>

definition exact_flag :: "f64 \<Rightarrow> bool option" where
  "exact_flag v = (if f64_eq v (Fin 0) then Some False
                   else if f64_eq v (Fin 1) then Some True else None)"

definition exact_generation :: "f64 \<Rightarrow> u64 option" where
  "exact_generation v =
    (if \<not> isfinite v \<or> f64_less v (Fin 0) \<or> f64_less (Fin 9007199254740991) v
        \<or> \<not> f64_eq (f64_trunc v) v
     then None else Some (word_of_int (f64_to_int v)))"

definition pack :: "bool \<Rightarrow> bool \<Rightarrow> bool \<Rightarrow> handshake_phase \<Rightarrow> u32" where
  "pack valid fault motion phase =
     of_bool valid OR push_bit 1 (of_bool fault) OR push_bit 2 (of_bool motion)
     OR push_bit 3 (word_of_nat (phase_code phase))"

subsection \<open>Names and binding\<close>

definition hd_command_interface_names :: "hs_device \<Rightarrow> string list" where
  "hd_command_interface_names d =
     [hd_gpio d @ ''/enable_request'', hd_gpio d @ ''/reset_generation'']"

definition hd_state_interface_names :: "hs_device \<Rightarrow> string list" where
  "hd_state_interface_names d =
     [hd_gpio d @ ''/phase'', hd_gpio d @ ''/fault_latched'',
      hd_gpio d @ ''/handled_reset_generation'', hd_gpio d @ ''/motion_allowed'']"

definition hd_release :: "hs_device \<Rightarrow> hs_device" where
  "hd_release d = d\<lparr>hd_enable_command := None, hd_reset_command := None,
                   hd_states := replicate 4 None\<rparr>"

fun bind_commands_loop :: "string list \<Rightarrow> nat \<Rightarrow> loaned list \<Rightarrow> hs_device \<Rightarrow> hs_device" where
  "bind_commands_loop names i [] d = d"
| "bind_commands_loop names i (x # xs) d =
    bind_commands_loop names (Suc i) xs
      (if full_name x = names ! 0 then d\<lparr>hd_enable_command := Some i\<rparr>
       else if full_name x = names ! 1 then d\<lparr>hd_reset_command := Some i\<rparr> else d)"

definition note_state_name :: "string list \<Rightarrow> nat \<Rightarrow> loaned \<Rightarrow> hs_device \<Rightarrow> hs_device" where
  "note_state_name names i x d =
     fold (\<lambda>k d. if full_name x = names ! k then d\<lparr>hd_states := (hd_states d)[k := Some i]\<rparr> else d)
          [0..<length names] d"

fun bind_states_loop :: "string list \<Rightarrow> nat \<Rightarrow> loaned list \<Rightarrow> hs_device \<Rightarrow> hs_device" where
  "bind_states_loop names i [] d = d"
| "bind_states_loop names i (x # xs) d =
    bind_states_loop names (Suc i) xs (note_state_name names i x d)"

definition hd_bind :: "hs_device \<Rightarrow> loaned list \<Rightarrow> loaned list \<Rightarrow> bool \<times> hs_device" where
  "hd_bind d commands states =
    (let d0 = hd_release d;
         d1 = bind_commands_loop (hd_command_interface_names d0) 0 commands d0;
         d2 = bind_states_loop (hd_state_interface_names d1) 0 states d1
     in if \<exists>s \<in> set (hd_states d2). s = None then (False, hd_release d2)
        else if hd_enable_command d2 = None \<or> hd_reset_command d2 = None then (False, hd_release d2)
        else (True, d2))"

subsection \<open>Cyclic read and write\<close>

text \<open>
  Reading through a pointer of an unbound device is undefined in C++; the model reads a NaN,
  which decodes to an invalid sample. \<open>hd_bound_reads\<close> shows that a device that was bound
  never does so.
\<close>

definition hd_state_value :: "hs_device \<Rightarrow> loaned list \<Rightarrow> nat \<Rightarrow> f64" where
  "hd_state_value d states k =
    (case hd_states d ! k of None \<Rightarrow> NaN | Some i \<Rightarrow> get_value states i)"

definition hd_read :: "loaned list \<Rightarrow> hs_device \<Rightarrow> hs_device" where
  "hd_read states d =
    (let phase = decode_handshake_phase (hd_state_value d states kPhase);
         fault = exact_flag (hd_state_value d states kFaultFlag);
         motion = exact_flag (hd_state_value d states kMotionAllowed);
         generation = exact_generation (hd_state_value d states kHandledGeneration);
         valid = (phase \<noteq> None \<and> fault \<noteq> None \<and> motion \<noteq> None \<and> generation \<noteq> None);
         d1 = d\<lparr>hd_valid := valid\<rparr>;
         d2 = (if valid
               then d1\<lparr>hd_phase := the phase, hd_fault_latched := the fault,
                       hd_motion_allowed := the motion, hd_handled_generation := the generation\<rparr>
               else d1)
     in d2\<lparr>hd_published_status :=
             pack (hd_valid d2) (hd_fault_latched d2) (hd_motion_allowed d2) (hd_phase d2)\<rparr>)"

definition set_command :: "nat option \<Rightarrow> f64 \<Rightarrow> loaned list \<Rightarrow> loaned list" where
  "set_command p v commands = (case p of None \<Rightarrow> commands | Some i \<Rightarrow> set_value commands i v)"

definition hd_write :: "hs_device \<Rightarrow> loaned list \<Rightarrow> loaned list" where
  "hd_write d commands =
     set_command (hd_reset_command d) (f64_of_int (uint (hd_reset_generation d)))
       (set_command (hd_enable_command d) (f64_of_bool (hd_enable_requested d)) commands)"

definition hd_baseline :: "loaned list \<Rightarrow> hs_device \<Rightarrow> loaned list \<Rightarrow> bool \<times> hs_device \<times> loaned list" where
  "hd_baseline states d commands =
    (let d1 = hd_read states d
     in if \<not> hd_valid d1 then (False, d1, commands)
        else let d2 = d1\<lparr>hd_enable_requested := False,
                         hd_reset_generation := hd_handled_generation d1,
                         hd_reset_pending := False\<rparr>
             in (True, d2, hd_write d2 commands))"

definition hd_request_enable :: "bool \<Rightarrow> hs_device \<Rightarrow> hs_device" where
  "hd_request_enable enable d = d\<lparr>hd_enable_requested := enable\<rparr>"

definition hd_start_reset :: "hs_device \<Rightarrow> hs_device" where
  "hd_start_reset d =
    (let g = hd_reset_generation d + 1
     in d\<lparr>hd_enable_requested := False, hd_reset_generation := g, hd_reset_target := g,
          hd_reset_pending := True\<rparr>)"

subsection \<open>Queries\<close>

definition hd_faulted :: "hs_device \<Rightarrow> bool" where
  "hd_faulted d = (\<not> hd_valid d \<or> hd_fault_latched d \<or> hd_phase d = fault_latched)"

definition hd_enabled :: "hs_device \<Rightarrow> bool" where
  "hd_enabled d = (\<not> hd_faulted d \<and> hd_phase d = enabled \<and> hd_motion_allowed d)"

definition hd_disabled :: "hs_device \<Rightarrow> bool" where
  "hd_disabled d = (\<not> hd_faulted d \<and> hd_phase d = disabled \<and> \<not> hd_motion_allowed d)"

definition hd_reset_complete :: "hs_device \<Rightarrow> bool" where
  "hd_reset_complete d =
     (hd_disabled d \<and> (\<not> hd_reset_pending d \<or> hd_reset_target d \<le> hd_handled_generation d))"

definition hd_status :: "hs_device \<Rightarrow> hs_status" where
  "hd_status d =
    (let bits = hd_published_status d
     in \<lparr>st_valid = (bits AND 1 \<noteq> 0),
         st_phase = phase_of_code (unat (drop_bit 3 bits)),
         st_fault_latched = (bits AND 2 \<noteq> 0),
         st_motion_allowed = (bits AND 4 \<noteq> 0)\<rparr>)"

subsection \<open>The published status word\<close>

lemma hd_status_pack:
  "hd_published_status d = pack v f m p \<Longrightarrow>
     hd_status d = \<lparr>st_valid = v, st_phase = p, st_fault_latched = f, st_motion_allowed = m\<rparr>"
  by (cases v; cases f; cases m; cases p) (simp_all add: hd_status_def pack_def phase_of_code_def)

text \<open>The status read from other threads is the sample the last cyclic read took.\<close>

lemma hd_status_read:
  "hd_status (hd_read states d) =
     \<lparr>st_valid = hd_valid (hd_read states d), st_phase = hd_phase (hd_read states d),
      st_fault_latched = hd_fault_latched (hd_read states d),
      st_motion_allowed = hd_motion_allowed (hd_read states d)\<rparr>"
  by (rule hd_status_pack) (simp add: hd_read_def Let_def)

subsection \<open>What a valid sample is\<close>

lemma exact_flag_eq_Some [simp]: "exact_flag v = Some b \<longleftrightarrow> v = f64_of_bool b"
  by (cases v; cases b) (auto simp: exact_flag_def f64_of_bool_def)

lemma exact_generation_eq_Some:
  "exact_generation v = Some g \<longleftrightarrow> v = Fin (of_int (uint g)) \<and> uint g \<le> 9007199254740991"
proof -
  have "exact_generation v = Some g \<longleftrightarrow>
      (\<exists>n. v = Fin (of_int n) \<and> 0 \<le> n \<and> n \<le> 9007199254740991 \<and> word_of_int n = g)"
    using exact_integer_test [of v "f64_less v (Fin 0)" "f64_less (Fin 9007199254740991) v"]
    by (auto simp: exact_generation_def)
  also have "\<dots> \<longleftrightarrow> v = Fin (of_int (uint g)) \<and> uint g \<le> 9007199254740991"
  proof
    assume "\<exists>n. v = Fin (of_int n) \<and> 0 \<le> n \<and> n \<le> 9007199254740991 \<and> word_of_int n = g"
    then obtain n where n: "v = Fin (of_int n)" "0 \<le> n" "n \<le> 9007199254740991" "word_of_int n = g"
      by blast
    then have "uint g = n" by (auto simp: uint_word_of_int)
    with n show "v = Fin (of_int (uint g)) \<and> uint g \<le> 9007199254740991" by simp
  next
    assume "v = Fin (of_int (uint g)) \<and> uint g \<le> 9007199254740991"
    then show "\<exists>n. v = Fin (of_int n) \<and> 0 \<le> n \<and> n \<le> 9007199254740991 \<and> word_of_int n = g"
      by (intro exI [of _ "uint g"]) auto
  qed
  finally show ?thesis .
qed

lemma hd_valid_read_iff:
  "hd_valid (hd_read states d) \<longleftrightarrow>
     (\<exists>p. hd_state_value d states 0 = Fin (of_nat (phase_code p))) \<and>
     (\<exists>f. hd_state_value d states 1 = f64_of_bool f) \<and>
     (\<exists>m. hd_state_value d states 3 = f64_of_bool m) \<and>
     (\<exists>g :: u64. hd_state_value d states 2 = Fin (of_int (uint g)) \<and> uint g \<le> 9007199254740991)"
  by (simp add: hd_read_def Let_def decode_handshake_phase_eq_Some exact_generation_eq_Some
        not_None_eq)

subsection \<open>Frame of the cyclic operations\<close>

lemma hd_read_frame [simp, frame]:
  "hd_gpio (hd_read states d) = hd_gpio d"
  "hd_enable_command (hd_read states d) = hd_enable_command d"
  "hd_reset_command (hd_read states d) = hd_reset_command d"
  "hd_states (hd_read states d) = hd_states d"
  "hd_enable_requested (hd_read states d) = hd_enable_requested d"
  "hd_reset_generation (hd_read states d) = hd_reset_generation d"
  "hd_reset_target (hd_read states d) = hd_reset_target d"
  "hd_reset_pending (hd_read states d) = hd_reset_pending d"
  by (simp_all add: hd_read_def Let_def)

lemma hd_request_enable_frame [simp, frame]:
  "hd_gpio (hd_request_enable b d) = hd_gpio d"
  "hd_enable_command (hd_request_enable b d) = hd_enable_command d"
  "hd_reset_command (hd_request_enable b d) = hd_reset_command d"
  "hd_states (hd_request_enable b d) = hd_states d"
  "hd_enable_requested (hd_request_enable b d) = b"
  by (simp_all add: hd_request_enable_def)

lemma hd_start_reset_frame [simp, frame]:
  "hd_gpio (hd_start_reset d) = hd_gpio d"
  "hd_enable_command (hd_start_reset d) = hd_enable_command d"
  "hd_reset_command (hd_start_reset d) = hd_reset_command d"
  "hd_states (hd_start_reset d) = hd_states d"
  "hd_enable_requested (hd_start_reset d) = False"
  by (simp_all add: hd_start_reset_def Let_def)

lemma length_set_command [simp]: "length (set_command p v cs) = length cs"
  by (simp add: set_command_def split: option.splits)

lemma length_hd_write [simp, frame]: "length (hd_write d cs) = length cs"
  by (simp add: hd_write_def)

lemma get_hd_write_other [bind_simps]:
  "hd_enable_command d \<noteq> Some i \<Longrightarrow> hd_reset_command d \<noteq> Some i \<Longrightarrow>
     get_value (hd_write d cs) i = get_value cs i"
  by (auto simp: hd_write_def set_command_def get_set_value split: option.splits)

lemma get_hd_write_enable [bind_simps]:
  "hd_enable_command d = Some i \<Longrightarrow> hd_reset_command d \<noteq> Some i \<Longrightarrow> i < length cs \<Longrightarrow>
     get_value (hd_write d cs) i = f64_of_bool (hd_enable_requested d)"
  by (auto simp: hd_write_def set_command_def get_set_value split: option.splits)

subsection \<open>Binding\<close>

definition ptr_named :: "loaned list \<Rightarrow> nat option \<Rightarrow> string \<Rightarrow> bool" where
  "ptr_named xs p name = (\<forall>i. p = Some i \<longrightarrow> i < length xs \<and> full_name (xs ! i) = name)"

lemma bind_commands_loop_named:
  assumes "ptr_named (pre @ xs) (hd_enable_command d) (names ! 0)"
    and "ptr_named (pre @ xs) (hd_reset_command d) (names ! 1)"
  shows "ptr_named (pre @ xs) (hd_enable_command (bind_commands_loop names (length pre) xs d)) (names ! 0)
    \<and> ptr_named (pre @ xs) (hd_reset_command (bind_commands_loop names (length pre) xs d)) (names ! 1)
    \<and> hd_states (bind_commands_loop names (length pre) xs d) = hd_states d
    \<and> hd_gpio (bind_commands_loop names (length pre) xs d) = hd_gpio d"
  using assms
proof (induction xs arbitrary: pre d)
  case Nil
  then show ?case by simp
next
  case (Cons x xs)
  define d' where "d' = (if full_name x = names ! 0 then d\<lparr>hd_enable_command := Some (length pre)\<rparr>
    else if full_name x = names ! 1 then d\<lparr>hd_reset_command := Some (length pre)\<rparr> else d)"
  have "ptr_named ((pre @ [x]) @ xs) (hd_enable_command d') (names ! 0)"
    and "ptr_named ((pre @ [x]) @ xs) (hd_reset_command d') (names ! 1)"
    using Cons.prems by (auto simp: d'_def ptr_named_def)
  from Cons.IH [OF this] show ?case
    by (auto simp: d'_def split: if_splits)
qed

text \<open>The state pointers: every pointer set so far names the interface it stands for.\<close>

definition states_named :: "loaned list \<Rightarrow> string list \<Rightarrow> nat option list \<Rightarrow> bool" where
  "states_named xs names ps = (length ps = length names \<and> (\<forall>k < length names. ptr_named xs (ps ! k) (names ! k)))"

lemma note_state_name_frame [simp]:
  "hd_gpio (note_state_name names i x d) = hd_gpio d"
  "hd_enable_command (note_state_name names i x d) = hd_enable_command d"
  "hd_reset_command (note_state_name names i x d) = hd_reset_command d"
proof -
  have "hd_gpio (fold (\<lambda>k d. if full_name x = names ! k then d\<lparr>hd_states := (hd_states d)[k := Some i]\<rparr> else d) ks d) = hd_gpio d
    \<and> hd_enable_command (fold (\<lambda>k d. if full_name x = names ! k then d\<lparr>hd_states := (hd_states d)[k := Some i]\<rparr> else d) ks d) = hd_enable_command d
    \<and> hd_reset_command (fold (\<lambda>k d. if full_name x = names ! k then d\<lparr>hd_states := (hd_states d)[k := Some i]\<rparr> else d) ks d) = hd_reset_command d" for ks
    by (induction ks arbitrary: d) auto
  then show "hd_gpio (note_state_name names i x d) = hd_gpio d"
    "hd_enable_command (note_state_name names i x d) = hd_enable_command d"
    "hd_reset_command (note_state_name names i x d) = hd_reset_command d"
    by (auto simp: note_state_name_def)
qed

lemma note_state_name_named:
  assumes "states_named xs names (hd_states d)" "i < length xs" "x = xs ! i"
  shows "states_named xs names (hd_states (note_state_name names i x d))"
proof -
  have "states_named xs names (hd_states (fold (\<lambda>k d. if full_name x = names ! k
      then d\<lparr>hd_states := (hd_states d)[k := Some i]\<rparr> else d) ks d))"
    if "set ks \<subseteq> {..< length names}" for ks
    using assms(1) that
  proof (induction ks arbitrary: d)
    case Nil
    then show ?case by simp
  next
    case (Cons k ks)
    have "states_named xs names ((hd_states d)[k := Some i])" if "full_name x = names ! k"
      using Cons.prems that assms(2,3)
      by (auto simp: states_named_def ptr_named_def nth_list_update)
    with Cons show ?case by simp
  qed
  from this [of "[0..<length names]"] show ?thesis
    unfolding note_state_name_def by (simp add: subset_iff)
qed

lemma bind_states_loop_named:
  assumes "states_named (pre @ xs) names (hd_states d)"
  shows "states_named (pre @ xs) names (hd_states (bind_states_loop names (length pre) xs d))
    \<and> hd_enable_command (bind_states_loop names (length pre) xs d) = hd_enable_command d
    \<and> hd_reset_command (bind_states_loop names (length pre) xs d) = hd_reset_command d
    \<and> hd_gpio (bind_states_loop names (length pre) xs d) = hd_gpio d"
  using assms
proof (induction xs arbitrary: pre d)
  case Nil
  then show ?case by simp
next
  case (Cons x xs)
  have "states_named ((pre @ [x]) @ xs) names (hd_states (note_state_name names (length pre) x d))"
    using Cons.prems by (intro note_state_name_named) auto
  from Cons.IH [OF this] show ?case by simp
qed

text \<open>A bound device: every handle points at an existing interface of the expected name.\<close>

definition hd_bound :: "hs_device \<Rightarrow> loaned list \<Rightarrow> loaned list \<Rightarrow> bool" where
  "hd_bound d commands states =
    ((\<exists>i < length commands. hd_enable_command d = Some i \<and>
        full_name (commands ! i) = hd_gpio d @ ''/enable_request'') \<and>
     (\<exists>i < length commands. hd_reset_command d = Some i \<and>
        full_name (commands ! i) = hd_gpio d @ ''/reset_generation'') \<and>
     length (hd_states d) = 4 \<and>
     (\<forall>k < 4. \<exists>i < length states. hd_states d ! k = Some i \<and>
        full_name (states ! i) = hd_state_interface_names d ! k))"

lemma hd_bind_bound:
  assumes "hd_bind d commands states = (True, d')"
  shows "hd_bound d' commands states \<and> hd_gpio d' = hd_gpio d"
proof -
  define d0 where "d0 = hd_release d"
  define cn where "cn = hd_command_interface_names d0"
  define d1 where "d1 = bind_commands_loop cn 0 commands d0"
  define sn where "sn = hd_state_interface_names d1"
  define d2 where "d2 = bind_states_loop sn 0 states d1"
  have d': "d' = d2" "None \<notin> set (hd_states d2)"
      "hd_enable_command d2 \<noteq> None" "hd_reset_command d2 \<noteq> None"
    using assms
    unfolding hd_bind_def Let_def d0_def [symmetric] cn_def [symmetric] d1_def [symmetric]
      sn_def [symmetric] d2_def [symmetric]
    by (auto split: if_splits)
  have g0: "hd_gpio d0 = hd_gpio d" by (simp add: d0_def hd_release_def)
  have c: "ptr_named commands (hd_enable_command d1) (cn ! 0)"
      "ptr_named commands (hd_reset_command d1) (cn ! 1)"
      "hd_states d1 = replicate 4 None" "hd_gpio d1 = hd_gpio d"
    using bind_commands_loop_named [of "[]" commands d0 cn] g0
    by (auto simp: d1_def d0_def hd_release_def ptr_named_def)
  have "states_named states sn (hd_states d1)"
    using c(3) by (auto simp: states_named_def ptr_named_def sn_def hd_state_interface_names_def nth_Cons')
  then have s: "states_named states sn (hd_states d2)"
      "hd_enable_command d2 = hd_enable_command d1" "hd_reset_command d2 = hd_reset_command d1"
      "hd_gpio d2 = hd_gpio d1"
    using bind_states_loop_named [of "[]" states sn d1] by (simp_all add: d2_def)
  have sn4: "length sn = 4" by (simp add: sn_def hd_state_interface_names_def)
  have "\<exists>i < length states. hd_states d2 ! k = Some i \<and> full_name (states ! i) = sn ! k"
    if "k < 4" for k
  proof -
    have "hd_states d2 ! k \<in> set (hd_states d2)"
      using that s(1) sn4 by (simp add: states_named_def)
    then obtain i where "hd_states d2 ! k = Some i" using d'(2) by (metis not_None_eq)
    with s(1) sn4 that show ?thesis by (auto simp: states_named_def ptr_named_def)
  qed
  moreover have "sn = hd_state_interface_names d2"
    using s(4) by (simp add: sn_def hd_state_interface_names_def)
  ultimately show ?thesis
    using c s d' g0 sn4
    by (auto simp: hd_bound_def ptr_named_def cn_def hd_command_interface_names_def states_named_def)
qed

lemma hd_bound_reads:
  assumes "hd_bound d commands states" "k < 4"
  shows "\<exists>i < length states. hd_state_value d states k = cell (states ! i) \<and>
           full_name (states ! i) = hd_state_interface_names d ! k"
proof -
  from assms obtain i where
    "i < length states" "hd_states d ! k = Some i" "full_name (states ! i) = hd_state_interface_names d ! k"
    by (auto simp: hd_bound_def)
  then show ?thesis by (auto simp: hd_state_value_def get_value_def)
qed

subsection \<open>The contract the enable manager relies on\<close>

text \<open>
  The manager asks a device for its condition, requests enable or disable and starts resets.
  The laws say how the conditions exclude each other and that a request changes no condition:
  only the plugin, through the next read, does.
\<close>

locale handshake_contract =
  fixes faulted enabled disabled reset_complete :: "'d \<Rightarrow> bool"
    and request_enable :: "bool \<Rightarrow> 'd \<Rightarrow> 'd"
    and requested :: "'d \<Rightarrow> bool"
    and start_reset :: "'d \<Rightarrow> 'd"
  assumes enabled_not_faulted: "enabled d \<Longrightarrow> \<not> faulted d"
    and disabled_not_faulted: "disabled d \<Longrightarrow> \<not> faulted d"
    and enabled_not_disabled: "enabled d \<Longrightarrow> \<not> disabled d"
    and reset_complete_disabled: "reset_complete d \<Longrightarrow> disabled d"
    and request_keeps: "faulted (request_enable b d) = faulted d"
      "enabled (request_enable b d) = enabled d"
      "disabled (request_enable b d) = disabled d"
      "reset_complete (request_enable b d) = reset_complete d"
    and request_sets: "requested (request_enable b d) = b"
    and start_reset_keeps: "faulted (start_reset d) = faulted d"
      "enabled (start_reset d) = enabled d" "disabled (start_reset d) = disabled d"
    and start_reset_clears: "\<not> requested (start_reset d)"
begin

lemma all_enabled_no_fault: "list_all enabled ds \<Longrightarrow> \<not> list_ex faulted ds"
  using enabled_not_faulted by (auto simp: list_all_iff list_ex_iff)

lemma all_resets_complete_disabled:
  "list_all reset_complete ds \<Longrightarrow> list_all disabled ds \<and> \<not> list_ex faulted ds"
  using reset_complete_disabled disabled_not_faulted by (auto simp: list_all_iff list_ex_iff)

lemma disabled_or_faulted_no_fault:
  "list_all (\<lambda>d. disabled d \<or> faulted d) ds \<Longrightarrow> \<not> list_ex faulted ds \<Longrightarrow> list_all disabled ds"
  by (auto simp: list_all_iff list_ex_iff)

lemma map_request_conditions:
  "list_ex faulted (map (request_enable b) ds) = list_ex faulted ds"
  "list_all enabled (map (request_enable b) ds) = list_all enabled ds"
  "list_all (\<lambda>d. disabled d \<or> faulted d) (map (request_enable b) ds)
     = list_all (\<lambda>d. disabled d \<or> faulted d) ds"
  "list_all reset_complete (map (request_enable b) ds) = list_all reset_complete ds"
  by (simp_all add: list_all_iff list_ex_iff request_keeps)

lemma map_request_requested: "d \<in> set (map (request_enable b) ds) \<Longrightarrow> requested d = b"
  by (auto simp: request_sets)

lemma map_reset_conditions:
  "list_ex faulted (map (\<lambda>d. if faulted d then start_reset d else d) ds) = list_ex faulted ds"
  by (induction ds) (auto simp: start_reset_keeps)

end

interpretation hd: handshake_contract hd_faulted hd_enabled hd_disabled hd_reset_complete
  hd_request_enable hd_enable_requested hd_start_reset
  by unfold_locales
     (auto simp: hd_faulted_def hd_enabled_def hd_disabled_def hd_reset_complete_def
        hd_request_enable_def hd_start_reset_def Let_def)

end
