(* ===== verification/EnableTypes.thy ===== *)
theory EnableTypes
  imports Handshake
begin

text \<open>
  The data model of \<open>EnableManagerController\<close> (\<open>enable_manager_controller.hpp\<close>): its
  enumerations, the configuration that \<open>on_configure\<close> writes once (\<open>em_cfg\<close>) and the members
  that the cyclic update and the service threads read and write (\<open>em\<close>). An atomic member is a
  field; a load or store is a read or an update of the field, an \<open>exchange\<close> or
  \<open>compare_exchange\<close> a read together with an update.
\<close>

subsection \<open>Enumerations\<close>

datatype phase =
    Phase_kInactive | Phase_kStartupSanitizing | Phase_kIdle | Phase_kEnabling
  | Phase_kInterBatchDelay | Phase_kJtcActivating | Phase_kEnabled | Phase_kJtcDeactivating
  | Phase_kDisabling | Phase_kRollback | Phase_kResetLow | Phase_kResetHigh
  | Phase_kResetDisabling | Phase_kEmergencyQuickStop | Phase_kEmergencyDisable | Phase_kFailed

datatype owner = Owner_kNone | Owner_kEnable | Owner_kDisable | Owner_kReset | Owner_kMode | Owner_kInternal

datatype switch_result = Switch_kSuccess | Switch_kFailed | Switch_kAmbiguous

datatype control_mode =
    Mode_kDisabled | Mode_kFjtReady | Mode_kRollingReady | Mode_kRestartRequired | Mode_kVelocityReady

datatype mode_switch_state =
    ModeSwitch_kTargetActive | ModeSwitch_kSourcePreserved | ModeSwitch_kAllInactive | ModeSwitch_kAmbiguous

datatype stage =
    Stage_kSuccess | Stage_kAlreadyEnabled | Stage_kAlreadyDisabled | Stage_kAlreadyClear
  | Stage_kOperationInProgress | Stage_kControllerInactive | Stage_kPreemptedByDisable
  | Stage_kEnableBatchTimeout | Stage_kEnableInvalidState | Stage_kModeMismatch
  | Stage_kModeNotConfirmed | Stage_kStateSourcesNotReady | Stage_kMotionFault
  | Stage_kFaultDetected | Stage_kUnexpectedDriveState | Stage_kDisableTimeout
  | Stage_kFaultRequiresReset | Stage_kFaultResetTimeout | Stage_kJtcActivateFailed
  | Stage_kJtcDeactivateFailed | Stage_kControllerUpdateTimeout | Stage_kRestartRequired
  | Stage_kDeviceOffline

text \<open>The numeric values of the enumerations, as the trace and the messages carry them.\<close>

fun phase_num :: "phase \<Rightarrow> int" where
  "phase_num Phase_kInactive = 0" | "phase_num Phase_kStartupSanitizing = 1"
| "phase_num Phase_kIdle = 2" | "phase_num Phase_kEnabling = 3"
| "phase_num Phase_kInterBatchDelay = 4" | "phase_num Phase_kJtcActivating = 5"
| "phase_num Phase_kEnabled = 6" | "phase_num Phase_kJtcDeactivating = 7"
| "phase_num Phase_kDisabling = 8" | "phase_num Phase_kRollback = 9"
| "phase_num Phase_kResetLow = 10" | "phase_num Phase_kResetHigh = 11"
| "phase_num Phase_kResetDisabling = 12" | "phase_num Phase_kEmergencyQuickStop = 13"
| "phase_num Phase_kEmergencyDisable = 14" | "phase_num Phase_kFailed = 15"

fun owner_num :: "owner \<Rightarrow> int" where
  "owner_num Owner_kNone = 0" | "owner_num Owner_kEnable = 1" | "owner_num Owner_kDisable = 2"
| "owner_num Owner_kReset = 3" | "owner_num Owner_kMode = 4" | "owner_num Owner_kInternal = 5"

fun mode_num :: "control_mode \<Rightarrow> int" where
  "mode_num Mode_kDisabled = 0" | "mode_num Mode_kFjtReady = 1" | "mode_num Mode_kRollingReady = 2"
| "mode_num Mode_kRestartRequired = 3" | "mode_num Mode_kVelocityReady = 4"

fun stage_num :: "stage \<Rightarrow> int" where
  "stage_num Stage_kSuccess = 0" | "stage_num Stage_kAlreadyEnabled = 1"
| "stage_num Stage_kAlreadyDisabled = 2" | "stage_num Stage_kAlreadyClear = 3"
| "stage_num Stage_kOperationInProgress = 4" | "stage_num Stage_kControllerInactive = 5"
| "stage_num Stage_kPreemptedByDisable = 6" | "stage_num Stage_kEnableBatchTimeout = 7"
| "stage_num Stage_kEnableInvalidState = 8" | "stage_num Stage_kModeMismatch = 9"
| "stage_num Stage_kModeNotConfirmed = 10" | "stage_num Stage_kStateSourcesNotReady = 11"
| "stage_num Stage_kMotionFault = 12" | "stage_num Stage_kFaultDetected = 13"
| "stage_num Stage_kUnexpectedDriveState = 14" | "stage_num Stage_kDisableTimeout = 15"
| "stage_num Stage_kFaultRequiresReset = 16" | "stage_num Stage_kFaultResetTimeout = 17"
| "stage_num Stage_kJtcActivateFailed = 18" | "stage_num Stage_kJtcDeactivateFailed = 19"
| "stage_num Stage_kControllerUpdateTimeout = 20" | "stage_num Stage_kRestartRequired = 21"
| "stage_num Stage_kDeviceOffline = 22"

fun stageName :: "stage \<Rightarrow> string" where
  "stageName Stage_kSuccess = ''success''"
| "stageName Stage_kAlreadyEnabled = ''already_enabled''"
| "stageName Stage_kAlreadyDisabled = ''already_disabled''"
| "stageName Stage_kAlreadyClear = ''already_clear''"
| "stageName Stage_kOperationInProgress = ''operation_in_progress''"
| "stageName Stage_kControllerInactive = ''controller_inactive''"
| "stageName Stage_kPreemptedByDisable = ''preempted_by_disable''"
| "stageName Stage_kEnableBatchTimeout = ''enable_batch_timeout''"
| "stageName Stage_kEnableInvalidState = ''enable_invalid_state''"
| "stageName Stage_kModeMismatch = ''mode_mismatch''"
| "stageName Stage_kModeNotConfirmed = ''mode_not_confirmed''"
| "stageName Stage_kStateSourcesNotReady = ''state_sources_not_ready''"
| "stageName Stage_kMotionFault = ''motion_fault''"
| "stageName Stage_kFaultDetected = ''fault_detected''"
| "stageName Stage_kUnexpectedDriveState = ''unexpected_drive_state''"
| "stageName Stage_kDisableTimeout = ''disable_timeout''"
| "stageName Stage_kFaultRequiresReset = ''fault_requires_reset''"
| "stageName Stage_kFaultResetTimeout = ''fault_reset_timeout''"
| "stageName Stage_kJtcActivateFailed = ''jtc_activate_failed''"
| "stageName Stage_kJtcDeactivateFailed = ''jtc_deactivate_failed''"
| "stageName Stage_kControllerUpdateTimeout = ''controller_update_timeout''"
| "stageName Stage_kRestartRequired = ''restart_required''"
| "stageName Stage_kDeviceOffline = ''device_offline''"

fun phaseName :: "phase \<Rightarrow> string" where
  "phaseName Phase_kInactive = ''INACTIVE''"
| "phaseName Phase_kStartupSanitizing = ''STARTUP_SANITIZING''"
| "phaseName Phase_kIdle = ''IDLE''"
| "phaseName Phase_kEnabling = ''ENABLING''"
| "phaseName Phase_kInterBatchDelay = ''INTER_BATCH_DELAY''"
| "phaseName Phase_kJtcActivating = ''JTC_ACTIVATING''"
| "phaseName Phase_kEnabled = ''ENABLED''"
| "phaseName Phase_kJtcDeactivating = ''JTC_DEACTIVATING''"
| "phaseName Phase_kDisabling = ''DISABLING''"
| "phaseName Phase_kRollback = ''ROLLBACK''"
| "phaseName Phase_kResetLow = ''RESET_LOW''"
| "phaseName Phase_kResetHigh = ''RESET_HIGH''"
| "phaseName Phase_kResetDisabling = ''RESET_DISABLING''"
| "phaseName Phase_kEmergencyQuickStop = ''EMERGENCY_QUICK_STOP''"
| "phaseName Phase_kEmergencyDisable = ''EMERGENCY_DISABLE''"
| "phaseName Phase_kFailed = ''FAILED''"

subsection \<open>Small records\<close>

record result_slot =
  rs_ready :: bool
  rs_ok :: bool
  rs_failed_batch :: int
  rs_failed_joint :: int
  rs_status_word :: u16
  rs_stage :: stage

record failure_rec =
  last_failure_stage :: stage
  last_failed_batch :: int
  last_failed_joint :: int
  last_failed_status_word :: u16
  last_failed_mode :: int
  last_expected_mode :: int

record primary_rec =
  primary_failure_stage :: stage
  primary_failed_batch :: int
  primary_failed_joint :: int
  primary_failed_status_word :: u16

record actual_sample =
  as_positions :: "f64 list"
  as_feedback_age_ms :: f64
  as_steady_time_ns :: u64
  as_sequence :: u64

record command_snapshot =
  cs_valid :: bool
  cs_positions :: "f64 list"
  cs_received_steady_ns :: u64
  cs_control_mode :: int
  cs_rolling_state :: int

definition empty_slot :: result_slot where
  "empty_slot = \<lparr>rs_ready = False, rs_ok = False, rs_failed_batch = -1, rs_failed_joint = -1,
     rs_status_word = 0, rs_stage = Stage_kOperationInProgress\<rparr>"

definition no_failure :: failure_rec where
  "no_failure = \<lparr>last_failure_stage = Stage_kSuccess, last_failed_batch = -1, last_failed_joint = -1,
     last_failed_status_word = 0, last_failed_mode = 256, last_expected_mode = 0\<rparr>"

definition no_primary :: primary_rec where
  "no_primary = \<lparr>primary_failure_stage = Stage_kSuccess, primary_failed_batch = -1,
     primary_failed_joint = -1, primary_failed_status_word = 0\<rparr>"

definition empty_snapshot :: command_snapshot where
  "empty_snapshot = \<lparr>cs_valid = False, cs_positions = [], cs_received_steady_ns = 0,
     cs_control_mode = 0, cs_rolling_state = 0\<rparr>"

subsection \<open>Configuration\<close>

record em_cfg =
  joint_names :: "string list"
  motion_joint_names :: "string list"
  enable_batches :: "nat list list"
  ready_to_switch_on_disable_terminal :: "bool list"
  expected_modes :: "int list"
  ready_state_names :: "string list"
  offline_source_names :: "string list"
  age_source_count :: nat
  diagnostic_state_names :: "string list"
  feedback_age_limit_ms :: f64
  ready_hold_seconds :: f64
  batch_timeout_seconds :: f64
  disable_stage_timeout_seconds :: f64
  inter_batch_delay_seconds :: f64
  fault_reset_timeout_seconds :: f64
  service_result_timeout_ms :: int
  enable_only :: bool
  motion_mode_switching :: bool
  managed_controllers :: "string list"
  default_motion_controller :: string
  rolling_motion_controller :: string
  trajectory_motion_controller :: string
  motion_controller_mode :: control_mode
  mode_switch_joint_names :: "string list"
  mode_switch_axes :: "nat list"
  mode_switch_axis :: "bool list"
  mode_switch_maximum_sample_period_ns :: u64
  mode_switch_source_state_max_age_ns :: u64
  mode_switch_stable_interval_count :: nat
  mode_switch_timeout_ms :: int
  mode_switch_feedback_age_limit_ms :: f64
  mode_switch_stable_velocity_thresholds :: "f64 list"
  mode_switch_takeover_tolerances :: "f64 list"

text \<open>
  Every timing parameter is a number of seconds that the code turns into nanoseconds with
  \<open>static_cast<std::int64_t>(seconds * 1e9)\<close>.
\<close>

definition to_ns :: "f64 \<Rightarrow> int" where
  "to_ns seconds = f64_to_int (f64_mul seconds (Fin 1000000000))"

subsection \<open>State\<close>

record em =
  active :: bool
  phase :: phase
  owner :: owner
  enable_request :: bool
  disable_request :: bool
  reset_request :: bool
  enable_hardware_ready :: bool
  jtc_activate_failed_request :: bool
  jtc_activated_request :: bool
  emergency_jtc_deactivate_request :: bool
  jtc_deactivation_required :: bool
  restart_required :: bool
  switch_in_progress :: bool
  enable_callback_active :: bool
  disable_callback_active :: bool
  reset_callback_active :: bool
  mode_callback_active :: bool
  mode_abort_requested :: bool
  current_control_mode :: control_mode
  actual_sample :: actual_sample
  actual_sample_version :: u64
  enable_result :: result_slot
  disable_result :: result_slot
  reset_result :: result_slot
  last_failure :: failure_rec
  primary :: primary_rec
  status_words :: "u16 list"
  actual_modes :: "int list"
  mode_state_indices :: "nat list"
  mode_confirmed :: "bool list"
  ready_state_indices :: "nat list"
  offline_source_indices :: "nat list"
  offline_now :: int
  offline_feedback :: int
  ready_since_ns :: int
  state_sources_qualified :: bool
  motion_fault_request :: bool
  motion_fault_pending :: bool
  reset_targets :: "bool list"
  cia402_axes :: "cia402_axis list"
  handshake_devices :: "hs_device list"
  device_stage :: bool
  diagnostic_state_indices :: "nat list"
  diagnostic_state_values :: "f64 list"
  current_batch :: nat
  downward_stage :: nat
  stage_deadline_ns :: int
  enable_preempt_requested :: bool
  interrupted_owner :: owner
  jtc_deactivate_failed :: bool
  drive_mode_command_offset :: nat
  drive_csp_requested :: bool
  drive_mode_display :: "int list"
  jtc_command_snapshot :: command_snapshot
  rolling_command_snapshot :: command_snapshot
  trace_ok :: bool
  trace_rows :: "(int \<times> int \<times> f64 list) list"
  command_interfaces :: "loaned list"
  state_interfaces :: "loaned list"

end
