(* ===== verification/EnableRt.thy ===== *)
theory EnableRt
  imports EnableTypes
begin

text \<open>
  The cyclic real-time part of \<open>EnableManagerController\<close> (\<open>enable_manager_controller.cpp\<close>, and the
  cyclic functions of \<open>enable_manager_drive_modes.cpp\<close>): one definition per member function, the
  state passed explicitly, in the order of the code. \<open>update\<close> is one control cycle. It runs here
  as one step; the interleaving with the service threads is the subject of \<open>EnableServices\<close>.
\<close>

subsection \<open>Drive states\<close>

definition isFaultState :: "cia402_state \<Rightarrow> bool" where
  "isFaultState st = (st = kFault \<or> st = kFaultReactionActive)"

lemma isFaultState_simps [simp, phase_simps]:
  "isFaultState kFault" "isFaultState kFaultReactionActive"
  "\<not> isFaultState kNotReadyToSwitchOn" "\<not> isFaultState kSwitchOnDisabled"
  "\<not> isFaultState kReadyToSwitchOn" "\<not> isFaultState kSwitchedOn"
  "\<not> isFaultState kOperationEnabled" "\<not> isFaultState kQuickStopActive" "\<not> isFaultState kUnknown"
  by (simp_all add: isFaultState_def)

definition isConfirmedDisableTerminal :: "em_cfg \<Rightarrow> nat \<Rightarrow> cia402_state \<Rightarrow> bool" where
  "isConfirmedDisableTerminal c axis st =
    (if st = kSwitchOnDisabled then True
     else axis < length (ready_to_switch_on_disable_terminal c) \<and>
          ready_to_switch_on_disable_terminal c ! axis \<and> st = kReadyToSwitchOn)"

definition axis_states :: "em \<Rightarrow> cia402_state list" where
  "axis_states s = map decode_cia402_state (status_words s)"

subsection \<open>Control words and interfaces\<close>

definition setControlWord :: "nat \<Rightarrow> u16 \<Rightarrow> em \<Rightarrow> em" where
  "setControlWord axis w s =
     s\<lparr>command_interfaces := snd (set_control_word (cia402_axes s ! axis) w (command_interfaces s))\<rparr>"

text \<open>A loop that writes one word per axis, in axis order.\<close>

fun setControlWordsFrom :: "nat \<Rightarrow> u16 list \<Rightarrow> em \<Rightarrow> em" where
  "setControlWordsFrom axis [] s = s"
| "setControlWordsFrom axis (w # ws) s = setControlWordsFrom (Suc axis) ws (setControlWord axis w s)"

definition setAllControlWords :: "u16 \<Rightarrow> em \<Rightarrow> em" where
  "setAllControlWords w s = setControlWordsFrom 0 (replicate (length (cia402_axes s)) w) s"

definition refreshStatusWords :: "em \<Rightarrow> em" where
  "refreshStatusWords s =
     s\<lparr>status_words := map (\<lambda>a. case get_status_word a (state_interfaces s) of
                               Some w \<Rightarrow> w | None \<Rightarrow> 0xFFFF) (cia402_axes s)\<rparr>"

subsection \<open>Drive modes (\<open>enable_manager_drive_modes.cpp\<close>)\<close>

abbreviation (input) "kCspMode \<equiv> 8 :: int"

definition modeConfirmed :: "em_cfg \<Rightarrow> em \<Rightarrow> nat \<Rightarrow> bool" where
  "modeConfirmed c s axis = (expected_modes c = [] \<or> actual_modes s ! axis = expected_modes c ! axis)"

definition modePending :: "em_cfg \<Rightarrow> em \<Rightarrow> nat \<Rightarrow> bool" where
  "modePending c s axis = (expected_modes c \<noteq> [] \<and> actual_modes s ! axis = 0)"

definition decode_mode :: "f64 \<Rightarrow> int" where
  "decode_mode v = (if isfinite v \<and> f64_le (Fin (- 128)) v \<and> f64_le v (Fin 127) \<and> f64_eq (f64_floor v) v
                    then f64_to_int v else 256)"

definition refreshModes :: "em_cfg \<Rightarrow> em \<Rightarrow> em" where
  "refreshModes c s =
     s\<lparr>actual_modes := map (\<lambda>axis. decode_mode (get_value (state_interfaces s) (mode_state_indices s ! axis)))
                          [0..<length (expected_modes c)]\<rparr>"

definition runningModeConfirmed :: "em_cfg \<Rightarrow> em \<Rightarrow> nat \<Rightarrow> bool" where
  "runningModeConfirmed c s axis =
     (modeConfirmed c s axis \<or>
      (mode_switch_axis c \<noteq> [] \<and> mode_switch_axis c ! axis \<and> actual_modes s ! axis = kCspMode))"

definition writeDriveModes :: "em_cfg \<Rightarrow> em \<Rightarrow> em" where
  "writeDriveModes c s =
    (if mode_switch_axes c = [] then s
     else let s1 = (if phase s \<noteq> Phase_kEnabled then s\<lparr>drive_csp_requested := False\<rparr> else s);
              csp = drive_csp_requested s1
          in fold (\<lambda>index s.
                 let axis = mode_switch_axes c ! index
                 in s\<lparr>command_interfaces :=
                        set_value (command_interfaces s) (drive_mode_command_offset s + index)
                          (f64_of_int (if csp then kCspMode else expected_modes c ! axis)),
                      drive_mode_display := (drive_mode_display s)[index := actual_modes s ! axis]\<rparr>)
               [0..<length (mode_switch_axes c)] s1)"

subsection \<open>Handshake devices\<close>

definition requestDevicesEnable :: "bool \<Rightarrow> em \<Rightarrow> em" where
  "requestDevicesEnable enable s =
     s\<lparr>handshake_devices := map (hd_request_enable enable) (handshake_devices s)\<rparr>"

definition startDeviceResets :: "em \<Rightarrow> em" where
  "startDeviceResets s =
     s\<lparr>handshake_devices := map (\<lambda>d. if hd_faulted d then hd_start_reset d else d) (handshake_devices s)\<rparr>"

definition anyDeviceFaulted :: "em \<Rightarrow> bool" where
  "anyDeviceFaulted s = list_ex hd_faulted (handshake_devices s)"

definition allDevicesEnabled :: "em \<Rightarrow> bool" where
  "allDevicesEnabled s = list_all hd_enabled (handshake_devices s)"

definition allDevicesDisabledOrFaulted :: "em \<Rightarrow> bool" where
  "allDevicesDisabledOrFaulted s = list_all (\<lambda>d. hd_disabled d \<or> hd_faulted d) (handshake_devices s)"

definition allDeviceResetsComplete :: "em \<Rightarrow> bool" where
  "allDeviceResetsComplete s = list_all hd_reset_complete (handshake_devices s)"

definition readDevices :: "em \<Rightarrow> em" where
  "readDevices s = s\<lparr>handshake_devices := map (hd_read (state_interfaces s)) (handshake_devices s)\<rparr>"

definition writeDevices :: "em \<Rightarrow> em" where
  "writeDevices s = s\<lparr>command_interfaces := fold hd_write (handshake_devices s) (command_interfaces s)\<rparr>"

subsection \<open>Results and failures\<close>

datatype slot_id = EnableSlot | DisableSlot | ResetSlot

definition publishResult :: "slot_id \<Rightarrow> bool \<Rightarrow> stage \<Rightarrow> int \<Rightarrow> int \<Rightarrow> u16 \<Rightarrow> em \<Rightarrow> em" where
  "publishResult slot ok stage failed_batch failed_joint status_word s =
    (let r = \<lparr>rs_ready = True, rs_ok = ok, rs_failed_batch = failed_batch,
              rs_failed_joint = failed_joint, rs_status_word = status_word, rs_stage = stage\<rparr>
     in case slot of
          EnableSlot \<Rightarrow> s\<lparr>enable_result := r\<rparr>
        | DisableSlot \<Rightarrow> s\<lparr>disable_result := r\<rparr>
        | ResetSlot \<Rightarrow> s\<lparr>reset_result := r\<rparr>)"

definition recordFailure :: "em_cfg \<Rightarrow> stage \<Rightarrow> int \<Rightarrow> int \<Rightarrow> u16 \<Rightarrow> em \<Rightarrow> em" where
  "recordFailure c stage failed_batch failed_joint status_word s =
    (let known = (0 \<le> failed_joint \<and> nat failed_joint < length (expected_modes c))
     in s\<lparr>last_failure :=
            \<lparr>last_failure_stage = stage, last_failed_batch = failed_batch,
             last_failed_joint = failed_joint, last_failed_status_word = status_word,
             last_failed_mode = (if known then actual_modes s ! nat failed_joint else 256),
             last_expected_mode = (if known then expected_modes c ! nat failed_joint else 0)\<rparr>\<rparr>)"

definition clearFailure :: "em \<Rightarrow> em" where
  "clearFailure s = s\<lparr>last_failure := no_failure\<rparr>"

definition set_primary :: "stage \<Rightarrow> int \<Rightarrow> int \<Rightarrow> u16 \<Rightarrow> em \<Rightarrow> em" where
  "set_primary stage failed_batch failed_joint status_word s =
     s\<lparr>primary := \<lparr>primary_failure_stage = stage, primary_failed_batch = failed_batch,
                   primary_failed_joint = failed_joint,
                   primary_failed_status_word = status_word\<rparr>\<rparr>"

definition publishPrimary :: "slot_id \<Rightarrow> em \<Rightarrow> em" where
  "publishPrimary slot s =
     publishResult slot False (primary_failure_stage (primary s)) (primary_failed_batch (primary s))
       (primary_failed_joint (primary s)) (primary_failed_status_word (primary s)) s"

definition kAlStateOp :: f64 where
  "kAlStateOp = Fin 8"

definition offlineSource :: "em_cfg \<Rightarrow> em \<Rightarrow> int" where
  "offlineSource c s =
     index_or_minus1 (first_index
       (\<lambda>(source, index).
          let value = get_value (state_interfaces s) index
          in \<not> (if source < age_source_count c
                then feedback_fresh value (feedback_age_limit_ms c)
                else f64_eq value kAlStateOp))
       (List.enumerate 0 (offline_source_indices s)))"

definition rejectIfOffline :: "slot_id \<Rightarrow> em \<Rightarrow> bool \<times> em" where
  "rejectIfOffline slot s =
    (let stale = offline_now s;
         s1 = s\<lparr>offline_feedback := stale\<rparr>
     in if stale < 0 then (False, s1)
        else (True, (publishResult slot False Stage_kDeviceOffline (-1) (-1) 0 s1)\<lparr>owner := Owner_kNone\<rparr>))"

definition stateSourcesReady :: "em \<Rightarrow> bool" where
  "stateSourcesReady s =
     (\<forall>index \<in> set (ready_state_indices s). f64_eq (get_value (state_interfaces s) index) (Fin 1))"

definition status_word_at :: "em \<Rightarrow> nat option \<Rightarrow> u16" where
  "status_word_at s i = (case i of None \<Rightarrow> 0 | Some n \<Rightarrow> status_words s ! n)"

subsection \<open>The downward path\<close>

definition startDownward :: "em_cfg \<Rightarrow> phase \<Rightarrow> int \<Rightarrow> em \<Rightarrow> em" where
  "startDownward c p now s =
     s\<lparr>downward_stage := 0, stage_deadline_ns := now + to_ns (disable_stage_timeout_seconds c), phase := p\<rparr>"

fun downward_command :: "cia402_state \<Rightarrow> u16" where
  "downward_command kOperationEnabled = 0x0007"
| "downward_command kSwitchedOn = 0x0006"
| "downward_command _ = 0x0000"

text \<open>What an axis contributes to \<open>all_nonfault_terminal\<close>; a faulted axis does not count.\<close>

fun axis_nonfault_terminal :: "em_cfg \<Rightarrow> nat \<times> cia402_state \<Rightarrow> bool" where
  "axis_nonfault_terminal c (axis, kReadyToSwitchOn) = isConfirmedDisableTerminal c axis kReadyToSwitchOn"
| "axis_nonfault_terminal c (axis, st) = (st = kSwitchOnDisabled \<or> isFaultState st)"

definition axis_nonterminal :: "em_cfg \<Rightarrow> nat \<times> cia402_state \<Rightarrow> bool" where
  "axis_nonterminal c = (\<lambda>(axis, st). \<not> isConfirmedDisableTerminal c axis st \<and> \<not> isFaultState st)"

definition finishDownward :: "em_cfg \<Rightarrow> em \<Rightarrow> em" where
  "finishDownward c s =
    (let completed_phase = phase s;
         states = axis_states s;
         first_fault = first_index isFaultState states;
         first_nonterminal = first_index (axis_nonterminal c) (List.enumerate 0 states);
         any_fault = (anyDeviceFaulted s \<or> first_fault \<noteq> None);
         all_terminal = (allDevicesDisabledOrFaulted s \<and> first_nonterminal = None);
         first_fault_status = status_word_at s first_fault
     in if completed_phase = Phase_kStartupSanitizing then
          let s1 = s\<lparr>current_control_mode := Mode_kDisabled\<rparr>;
              s2 = (if primary_failure_stage (primary s1) \<noteq> Stage_kSuccess then s1\<lparr>phase := Phase_kFailed\<rparr>
                    else if any_fault then
                      (recordFailure c Stage_kFaultRequiresReset (-1) (index_or_minus1 first_fault)
                         first_fault_status s1)\<lparr>phase := Phase_kFailed\<rparr>
                    else s1\<lparr>phase := Phase_kIdle\<rparr>)
          in s2\<lparr>owner := Owner_kNone\<rparr>
        else if completed_phase = Phase_kDisabling then
          let s1 = s\<lparr>current_control_mode := Mode_kDisabled\<rparr>;
              s2 = (if any_fault then
                      (recordFailure c Stage_kFaultRequiresReset (-1) (index_or_minus1 first_fault) first_fault_status
                        (publishResult DisableSlot False Stage_kFaultRequiresReset (-1)
                           (index_or_minus1 first_fault) first_fault_status s1))\<lparr>phase := Phase_kFailed\<rparr>
                    else if jtc_deactivate_failed s1 then
                      (publishResult DisableSlot False Stage_kJtcDeactivateFailed (-1) (-1) 0 s1)\<lparr>phase := Phase_kFailed\<rparr>
                    else if primary_failure_stage (primary s1) \<noteq> Stage_kSuccess then
                      (publishPrimary DisableSlot s1)\<lparr>phase := Phase_kFailed\<rparr>
                    else (publishResult DisableSlot True Stage_kSuccess (-1) (-1) 0 (clearFailure s1))
                           \<lparr>phase := Phase_kIdle\<rparr>)
          in s2\<lparr>owner := Owner_kNone\<rparr>
        else if completed_phase = Phase_kRollback then
          (publishPrimary EnableSlot (s\<lparr>current_control_mode := Mode_kDisabled\<rparr>))
            \<lparr>phase := (if any_fault \<or> restart_required s then Phase_kFailed else Phase_kIdle),
             owner := Owner_kNone\<rparr>
        else if completed_phase = Phase_kResetDisabling then
          let s1 = s\<lparr>current_control_mode := Mode_kDisabled\<rparr>;
              s2 = (if any_fault \<or> \<not> all_terminal then
                      let failed_joint = (case first_fault of Some n \<Rightarrow> Some n | None \<Rightarrow> first_nonterminal);
                          status_word = status_word_at s1 failed_joint
                      in (recordFailure c Stage_kFaultResetTimeout (-1) (index_or_minus1 failed_joint) status_word
                           (publishResult ResetSlot False Stage_kFaultResetTimeout (-1)
                              (index_or_minus1 failed_joint) status_word s1))\<lparr>phase := Phase_kFailed\<rparr>
                    else (publishResult ResetSlot True Stage_kSuccess (-1) (-1) 0 (clearFailure s1))
                           \<lparr>phase := Phase_kIdle\<rparr>)
          in s2\<lparr>owner := Owner_kNone\<rparr>
        else if completed_phase = Phase_kEmergencyDisable then
          let s1 = s\<lparr>current_control_mode :=
                      (if restart_required s then Mode_kRestartRequired else Mode_kDisabled)\<rparr>;
              s2 = (if interrupted_owner s1 = Owner_kEnable then publishPrimary EnableSlot s1
                    else if interrupted_owner s1 = Owner_kDisable then publishPrimary DisableSlot s1
                    else s1)
          in s2\<lparr>phase := (if any_fault \<or> \<not> all_terminal \<or> restart_required s then Phase_kFailed else Phase_kIdle),
                owner := Owner_kNone\<rparr>
        else s)"

text \<open>The part of \<open>updateDownward\<close> that runs when the stage deadline has passed.\<close>

definition downwardTimeout :: "em_cfg \<Rightarrow> phase \<Rightarrow> bool \<Rightarrow> nat option \<Rightarrow> int \<Rightarrow> em \<Rightarrow> em" where
  "downwardTimeout c active_phase any_fault first_nonterminal now s =
    (let failed = (if first_nonterminal = None \<and> any_fault
                   then first_index isFaultState (axis_states s) else first_nonterminal);
         status = status_word_at s failed
     in if active_phase = Phase_kResetDisabling then
          (setAllControlWords 0x0000
            (publishResult ResetSlot False Stage_kFaultResetTimeout (-1) (index_or_minus1 failed) status
              (recordFailure c Stage_kFaultResetTimeout (-1) (index_or_minus1 failed) status s)))
          \<lparr>phase := Phase_kFailed, owner := Owner_kNone\<rparr>
        else
          let s1 = (if primary_failure_stage (primary s) = Stage_kSuccess then
                      let stage = (if any_fault then Stage_kFaultRequiresReset else Stage_kDisableTimeout)
                      in recordFailure c stage (-1) (index_or_minus1 failed) status
                           (set_primary stage (primary_failed_batch (primary s)) (index_or_minus1 failed) status s)
                    else s)
          in if phase s1 \<noteq> Phase_kEmergencyDisable then
               s1\<lparr>interrupted_owner := owner s1,
                  stage_deadline_ns := now + to_ns (disable_stage_timeout_seconds c),
                  emergency_jtc_deactivate_request := True,
                  phase := Phase_kEmergencyQuickStop\<rparr>
             else finishDownward c s1)"

definition updateDownward :: "em_cfg \<Rightarrow> int \<Rightarrow> em \<Rightarrow> em" where
  "updateDownward c now s =
    (let active_phase = phase s;
         s1 = requestDevicesEnable False s;
         states = axis_states s1;
         any_operation_enabled = (kOperationEnabled \<in> set states);
         any_switched_on = (kSwitchedOn \<in> set states);
         all_nonfault_terminal = (list_all (\<lambda>d. hd_disabled d \<or> hd_faulted d) (handshake_devices s1)
                                  \<and> list_all (axis_nonfault_terminal c) (List.enumerate 0 states));
         any_fault = (list_ex hd_faulted (handshake_devices s1) \<or> list_ex isFaultState states);
         first_nonterminal = first_index (axis_nonterminal c) (List.enumerate 0 states);
         s2 = setControlWordsFrom 0 (map downward_command states) s1;
         advance_stage = (if downward_stage s2 = 0 then \<not> any_operation_enabled
                          else if downward_stage s2 = 1 then \<not> any_operation_enabled \<and> \<not> any_switched_on
                          else False)
     in if downward_stage s2 \<noteq> 0 \<and> downward_stage s2 \<noteq> 1 \<and> all_nonfault_terminal then finishDownward c s2
        else if advance_stage then
          let s3 = s2\<lparr>downward_stage := downward_stage s2 + 1,
                      stage_deadline_ns := now + to_ns (disable_stage_timeout_seconds c)\<rparr>
          in if 2 < downward_stage s3 \<and> all_nonfault_terminal then finishDownward c s3 else s3
        else if stage_deadline_ns s2 \<le> now then
          downwardTimeout c active_phase any_fault first_nonterminal now s2
        else s2)"

subsection \<open>Emergency stop\<close>

definition startEmergency :: "em_cfg \<Rightarrow> stage \<Rightarrow> int \<Rightarrow> u16 \<Rightarrow> int \<Rightarrow> em \<Rightarrow> em" where
  "startEmergency c stage failed_joint status_word now s =
    (let s1 = s\<lparr>interrupted_owner := owner s\<rparr>;
         batch = (if interrupted_owner s1 = Owner_kEnable then int (current_batch s1) else -1)
     in (recordFailure c stage batch failed_joint status_word
          (set_primary stage batch failed_joint status_word s1))
        \<lparr>owner := Owner_kInternal,
         stage_deadline_ns := now + to_ns (disable_stage_timeout_seconds c),
         emergency_jtc_deactivate_request := True,
         phase := Phase_kEmergencyQuickStop\<rparr>)"

fun quick_stop_command :: "cia402_state \<Rightarrow> u16" where
  "quick_stop_command kOperationEnabled = 0x0002"
| "quick_stop_command kQuickStopActive = 0x0002"
| "quick_stop_command kSwitchedOn = 0x0006"
| "quick_stop_command _ = 0x0000"

definition updateEmergencyQuickStop :: "em_cfg \<Rightarrow> int \<Rightarrow> em \<Rightarrow> em" where
  "updateEmergencyQuickStop c now s =
    (let s1 = requestDevicesEnable False s;
         states = axis_states s1;
         s2 = setControlWordsFrom 0 (map quick_stop_command states) s1
     in if kOperationEnabled \<notin> set states \<or> stage_deadline_ns s2 \<le> now
        then startDownward c Phase_kEmergencyDisable now s2 else s2)"

end
