(* ===== verification/EnableCycle.thy ===== *)
theory EnableCycle
  imports EnableRt
begin

text \<open>
  The upward path and the control cycle of \<open>EnableManagerController\<close>: \<open>failEnable\<close>, \<open>updateEnable\<close>,
  \<open>updateDeviceEnable\<close>, \<open>updateReset\<close> and \<open>update\<close> of \<open>enable_manager_controller.cpp\<close>.
\<close>

subsection \<open>Enabling\<close>

definition failEnable :: "em_cfg \<Rightarrow> stage \<Rightarrow> int \<Rightarrow> int \<Rightarrow> em \<Rightarrow> em" where
  "failEnable c stage axis now s =
    (let batch = int (current_batch s);
         word = (if 0 \<le> axis then status_words s ! nat axis else 0);
         s1 = recordFailure c stage batch axis word (set_primary stage batch axis word s);
         s2 = (if enable_preempt_requested s1
               then startDownward c Phase_kDisabling now
                      ((publishResult EnableSlot False stage batch axis word s1)
                         \<lparr>owner := Owner_kDisable, disable_request := False\<rparr>)
               else startDownward c Phase_kRollback now s1)
     in updateDownward c now s2)"

text \<open>A disable that arrives while enabling: the enable result is published and the drives go down.\<close>

definition preemptEnable :: "em_cfg \<Rightarrow> int \<Rightarrow> em \<Rightarrow> em" where
  "preemptEnable c now s =
     startDownward c Phase_kDisabling now
       ((publishResult EnableSlot False Stage_kPreemptedByDisable (-1) (-1) 0
           (s\<lparr>disable_request := False\<rparr>))
        \<lparr>owner := Owner_kDisable,
         primary := (primary s)\<lparr>primary_failure_stage := Stage_kSuccess\<rparr>\<rparr>)"

definition updateDeviceEnable :: "em_cfg \<Rightarrow> int \<Rightarrow> em \<Rightarrow> em" where
  "updateDeviceEnable c now s =
    (case first_index (\<lambda>st. st \<noteq> kOperationEnabled) (axis_states s) of
       Some axis \<Rightarrow>
         failEnable c Stage_kUnexpectedDriveState (int axis) now
           (setControlWordsFrom 0 (replicate axis 0x000F) s)
     | None \<Rightarrow>
         let s1 = setAllControlWords 0x000F s
         in if enable_preempt_requested s1 then preemptEnable c now s1
            else
              let s2 = requestDevicesEnable True s1
              in if allDevicesEnabled s2 then
                   s2\<lparr>device_stage := False, phase := Phase_kJtcActivating, enable_hardware_ready := True\<rparr>
                 else if stage_deadline_ns s2 \<le> now then failEnable c Stage_kEnableBatchTimeout (-1) now s2
                 else s2)"

text \<open>
  The role of an axis in the batch loop: the last batch up to the current one that lists it
  decides, \<open>None\<close> when no such batch does.
\<close>

definition last_batch_of :: "em_cfg \<Rightarrow> nat \<Rightarrow> nat \<Rightarrow> nat option" where
  "last_batch_of c current axis =
     fold (\<lambda>batch found. if axis \<in> set (enable_batches c ! batch) then Some batch else found)
       [0..<Suc current] None"

text \<open>
  The loop over the axes of \<open>updateEnable\<close>: it writes each axis' control word and returns the
  state, whether the batch is complete and the first axis in an invalid state; a mode mismatch
  ends the cycle (\<open>Inl\<close>).
\<close>

fun batch_loop :: "em_cfg \<Rightarrow> int \<Rightarrow> nat list \<Rightarrow> em \<times> bool \<times> nat option \<Rightarrow> em + (em \<times> bool \<times> nat option)" where
  "batch_loop c now [] acc = Inr acc"
| "batch_loop c now (axis # axes) (s, batch_complete, invalid_axis) =
    (let st = axis_states s ! axis
     in case last_batch_of c (current_batch s) axis of
          None \<Rightarrow> batch_loop c now axes (setControlWord axis 0x0000 s, batch_complete, invalid_axis)
        | Some batch \<Rightarrow>
            if batch < current_batch s then
              batch_loop c now axes
                (setControlWord axis 0x000F s, batch_complete,
                 if st \<noteq> kOperationEnabled \<and> invalid_axis = None then Some axis else invalid_axis)
            else if expected_modes c \<noteq> [] \<and> \<not> modeConfirmed c s axis \<and> \<not> modePending c s axis then
              Inl (failEnable c Stage_kModeMismatch (int axis) now s)
            else
              (case st of
                 kSwitchOnDisabled \<Rightarrow>
                   batch_loop c now axes (setControlWord axis 0x0006 s, False, invalid_axis)
               | kReadyToSwitchOn \<Rightarrow>
                   batch_loop c now axes (setControlWord axis 0x0007 s, False, invalid_axis)
               | kSwitchedOn \<Rightarrow>
                   batch_loop c now axes (setControlWord axis 0x000F s, False, invalid_axis)
               | kOperationEnabled \<Rightarrow>
                   (if \<not> modeConfirmed c s axis then
                      (if \<not> modePending c s axis then
                         Inl (failEnable c Stage_kModeMismatch (int axis) now s)
                       else batch_loop c now axes (setControlWord axis 0x000F s, False, invalid_axis))
                    else
                      batch_loop c now axes
                        (setControlWord axis 0x000F
                           (if mode_confirmed s \<noteq> []
                            then s\<lparr>mode_confirmed := (mode_confirmed s)[axis := True]\<rparr> else s),
                         batch_complete, invalid_axis))
               | _ \<Rightarrow>
                   batch_loop c now axes
                     (setControlWord axis 0x0000 s, False,
                      if invalid_axis = None then Some axis else invalid_axis)))"

definition batchTimeout :: "em_cfg \<Rightarrow> int \<Rightarrow> em \<Rightarrow> em" where
  "batchTimeout c now s =
    (let batch = enable_batches c ! current_batch s;
         failed_axis = (case find (\<lambda>axis. axis_states s ! axis \<noteq> kOperationEnabled
                                          \<or> \<not> modeConfirmed c s axis) batch of
                          Some axis \<Rightarrow> axis | None \<Rightarrow> batch ! 0);
         stage = (if axis_states s ! failed_axis = kOperationEnabled \<and> modePending c s failed_axis
                  then Stage_kModeNotConfirmed else Stage_kEnableBatchTimeout)
     in failEnable c stage (int failed_axis) now s)"

definition updateBatch :: "em_cfg \<Rightarrow> int \<Rightarrow> em \<Rightarrow> em" where
  "updateBatch c now s0 =
    (case batch_loop c now [0..<length (cia402_axes s0)] (s0, True, None) of
       Inl s \<Rightarrow> s
     | Inr (s, batch_complete, invalid_axis) \<Rightarrow>
         (case invalid_axis of
            Some axis \<Rightarrow> failEnable c Stage_kEnableInvalidState (int axis) now s
          | None \<Rightarrow>
              if batch_complete then
                if enable_preempt_requested s then preemptEnable c now s
                else if current_batch s + 1 = length (enable_batches c) \<and> handshake_devices s \<noteq> [] then
                  s\<lparr>device_stage := True, stage_deadline_ns := now + to_ns (batch_timeout_seconds c)\<rparr>
                else if current_batch s + 1 = length (enable_batches c) then
                  s\<lparr>phase := Phase_kJtcActivating, enable_hardware_ready := True\<rparr>
                else s\<lparr>stage_deadline_ns := now + to_ns (inter_batch_delay_seconds c),
                       phase := Phase_kInterBatchDelay\<rparr>
              else if stage_deadline_ns s \<le> now then batchTimeout c now s
              else s))"

definition updateInterBatchDelay :: "em_cfg \<Rightarrow> int \<Rightarrow> em \<Rightarrow> em" where
  "updateInterBatchDelay c now s =
    (let s1 = setControlWordsFrom 0
                (map (\<lambda>st. if st = kOperationEnabled then 0x000F else 0x0000) (axis_states s)) s
     in if enable_preempt_requested s1 then preemptEnable c now s1
        else if stage_deadline_ns s1 \<le> now then
          s1\<lparr>current_batch := current_batch s1 + 1,
             stage_deadline_ns := now + to_ns (batch_timeout_seconds c), phase := Phase_kEnabling\<rparr>
        else s1)"

text \<open>
  The gate on the required state sources: \<open>Inl\<close> when the cycle ends there (a failure, or the
  drives are held disabled), \<open>Inr\<close> when enabling may go on.
\<close>

definition readyGate :: "em_cfg \<Rightarrow> int \<Rightarrow> em \<Rightarrow> em + em" where
  "readyGate c now s =
    (if ready_state_indices s = [] then Inr s
     else if \<not> stateSourcesReady s \<and> state_sources_qualified s then
       Inl (failEnable c Stage_kStateSourcesNotReady (-1) now s)
     else
       let s1 = (if \<not> stateSourcesReady s then s\<lparr>ready_since_ns := -1\<rparr>
                 else if \<not> state_sources_qualified s then
                   let s' = (if ready_since_ns s < 0 then s\<lparr>ready_since_ns := now\<rparr> else s)
                   in if to_ns (ready_hold_seconds c) \<le> now - ready_since_ns s'
                      then s'\<lparr>state_sources_qualified := True,
                              stage_deadline_ns := now + to_ns (batch_timeout_seconds c)\<rparr>
                      else s'
                 else s)
       in if \<not> state_sources_qualified s1 then
            let s2 = setAllControlWords 0x0000 s1
            in Inl (if enable_preempt_requested s2 \<or> stage_deadline_ns s2 \<le> now
                    then failEnable c Stage_kStateSourcesNotReady (-1) now s2 else s2)
          else Inr s1)"

text \<open>The first axis already confirmed that is no longer enabled in its mode, with the stage to report.\<close>

definition lostConfirmed :: "em_cfg \<Rightarrow> em \<Rightarrow> (stage \<times> nat) option" where
  "lostConfirmed c s =
    (case first_index (\<lambda>(axis, conf). conf \<and> (axis_states s ! axis \<noteq> kOperationEnabled
                                               \<or> \<not> modeConfirmed c s axis))
            (List.enumerate 0 (mode_confirmed s)) of
       None \<Rightarrow> None
     | Some axis \<Rightarrow>
         Some (if axis_states s ! axis \<noteq> kOperationEnabled then Stage_kUnexpectedDriveState
               else Stage_kModeMismatch, axis))"

definition updateEnable :: "em_cfg \<Rightarrow> int \<Rightarrow> em \<Rightarrow> em" where
  "updateEnable c now s0 =
    (let s = (if disable_request s0 then s0\<lparr>enable_preempt_requested := True\<rparr> else s0)
     in case first_index isFaultState (axis_states s) of
          Some axis \<Rightarrow>
            updateEmergencyQuickStop c now
              (startEmergency c Stage_kFaultDetected (int axis) (status_words s ! axis) now
                 (s\<lparr>disable_request := False\<rparr>))
        | None \<Rightarrow>
            if anyDeviceFaulted s then
              updateEmergencyQuickStop c now
                (startEmergency c Stage_kFaultDetected (-1) 0 now (s\<lparr>disable_request := False\<rparr>))
            else (case lostConfirmed c s of
                    Some (stage, axis) \<Rightarrow> failEnable c stage (int axis) now s
                  | None \<Rightarrow>
                      (case readyGate c now s of
                         Inl s1 \<Rightarrow> s1
                       | Inr s1 \<Rightarrow>
                           if phase s0 = Phase_kInterBatchDelay then updateInterBatchDelay c now s1
                           else if device_stage s1 then updateDeviceEnable c now s1
                           else updateBatch c now s1)))"

subsection \<open>Fault reset\<close>

definition updateReset :: "em_cfg \<Rightarrow> int \<Rightarrow> em \<Rightarrow> em" where
  "updateReset c now s0 =
    (let p = phase s0
     in if disable_request s0 then
          startDownward c Phase_kDisabling now
            ((publishResult ResetSlot False Stage_kPreemptedByDisable (-1) (-1) 0
                (setAllControlWords 0x0000 (s0\<lparr>disable_request := False\<rparr>)))
             \<lparr>owner := Owner_kDisable,
              primary := (primary s0)\<lparr>primary_failure_stage := Stage_kSuccess\<rparr>\<rparr>)
        else if p = Phase_kResetLow then
          (setAllControlWords 0x0000 s0)
            \<lparr>stage_deadline_ns := now + to_ns (fault_reset_timeout_seconds c), phase := Phase_kResetHigh\<rparr>
        else
          let states = axis_states s0;
              first_pending = first_index isFaultState states;
              all_reset_targets_left_fault = (allDeviceResetsComplete s0 \<and> first_pending = None);
              words = map2 (\<lambda>target st. if target \<and> st = kFault then 0x0080 else 0x0000)
                        (reset_targets s0) states;
              s = (setControlWordsFrom 0 words s0)
                    \<lparr>reset_targets := map2 (\<lambda>target st. target \<and> isFaultState st) (reset_targets s0) states\<rparr>
          in if all_reset_targets_left_fault then startDownward c Phase_kResetDisabling now s
             else if stage_deadline_ns s \<le> now then
               let status = status_word_at s first_pending
               in (setAllControlWords 0x0000
                    (publishResult ResetSlot False Stage_kFaultResetTimeout (-1)
                       (index_or_minus1 first_pending) status
                      (recordFailure c Stage_kFaultResetTimeout (-1) (index_or_minus1 first_pending) status s)))
                  \<lparr>phase := Phase_kFailed, owner := Owner_kNone\<rparr>
             else s)"

subsection \<open>The control cycle\<close>

definition captureSample :: "em_cfg \<Rightarrow> u64 \<Rightarrow> em \<Rightarrow> em" where
  "captureSample c steady_now s =
    (if motion_mode_switching c then
       let motion_offset = length (cia402_axes s);
           n = length (motion_joint_names c)
       in s\<lparr>actual_sample :=
              \<lparr>as_positions = map (\<lambda>axis. get_value (state_interfaces s) (motion_offset + axis)) [0..<n],
               as_feedback_age_ms = get_value (state_interfaces s) (motion_offset + n),
               as_steady_time_ns = steady_now,
               as_sequence = as_sequence (actual_sample s) + 1\<rparr>,
            actual_sample_version := actual_sample_version s + 2\<rparr>
     else s)"

text \<open>
  Supervision while the drives run: what is wrong with an axis, and the reaction. The result
  is the phase the cycle continues with.
\<close>

definition axis_alarm :: "em_cfg \<Rightarrow> em \<Rightarrow> nat \<Rightarrow> stage option" where
  "axis_alarm c s axis =
    (let st = axis_states s ! axis
     in if isFaultState st then Some Stage_kFaultDetected
        else if st \<noteq> kOperationEnabled then Some Stage_kUnexpectedDriveState
        else if \<not> runningModeConfirmed c s axis then Some Stage_kModeMismatch
        else None)"

definition supervise :: "em_cfg \<Rightarrow> int \<Rightarrow> int \<Rightarrow> em \<Rightarrow> phase \<times> em" where
  "supervise c offline now s =
    (if phase s \<in> {Phase_kEnabled, Phase_kJtcActivating, Phase_kJtcDeactivating} then
       (if 0 \<le> offline then
          (Phase_kEmergencyQuickStop,
           startEmergency c Stage_kDeviceOffline (-1) 0 now
             (s\<lparr>offline_feedback := offline, restart_required := True\<rparr>))
        else (case first_index (\<lambda>axis. axis_alarm c s axis \<noteq> None) [0..<length (cia402_axes s)] of
                Some axis \<Rightarrow>
                  (Phase_kEmergencyQuickStop,
                   startEmergency c (the (axis_alarm c s axis)) (int axis) (status_words s ! axis) now s)
              | None \<Rightarrow>
                  if \<not> allDevicesEnabled s then
                    (Phase_kEmergencyQuickStop,
                     startEmergency c (if anyDeviceFaulted s then Stage_kFaultDetected
                                       else Stage_kUnexpectedDriveState) (-1) 0 now s)
                  else (phase s, s)))
     else (phase s, s))"

definition markResetTargets :: "em \<Rightarrow> em" where
  "markResetTargets s = s\<lparr>reset_targets := map isFaultState (axis_states s)\<rparr>"

text \<open>A reset request in \<open>kIdle\<close> or \<open>kFailed\<close>; the two phases differ in what a clear group does.\<close>

definition acceptReset :: "em \<Rightarrow> em" where
  "acceptReset s0 =
    (let (rejected, s) = rejectIfOffline ResetSlot s0
     in if rejected then s
        else
          let s1 = markResetTargets s;
              has_fault = (anyDeviceFaulted s1 \<or> list_ex isFaultState (axis_states s1))
          in if \<not> has_fault then
               let s2 = publishResult ResetSlot True Stage_kAlreadyClear (-1) (-1) 0 (clearFailure s1);
                   s3 = (if phase s2 = Phase_kFailed then s2\<lparr>phase := Phase_kIdle\<rparr> else s2)
               in s3\<lparr>owner := Owner_kNone\<rparr>
             else
               let s2 = startDeviceResets s1;
                   s3 = (if phase s2 = Phase_kFailed then s2 else setAllControlWords 0x0000 s2)
               in s3\<lparr>phase := Phase_kResetLow\<rparr>)"

definition acceptEnable :: "em_cfg \<Rightarrow> int \<Rightarrow> em \<Rightarrow> em" where
  "acceptEnable c now s0 =
    (let (rejected, s) = rejectIfOffline EnableSlot s0
     in if rejected then s
        else s\<lparr>current_batch := 0, device_stage := (enable_batches c = []), ready_since_ns := -1,
               state_sources_qualified := (ready_state_indices s = []),
               enable_preempt_requested := False, primary := no_primary,
               enable_hardware_ready := False, jtc_activated_request := False,
               jtc_activate_failed_request := False,
               mode_confirmed := replicate (length (mode_confirmed s)) False,
               stage_deadline_ns := now + to_ns (batch_timeout_seconds c),
               phase := Phase_kEnabling\<rparr>)"

definition updateIdle :: "em_cfg \<Rightarrow> int \<Rightarrow> em \<Rightarrow> em" where
  "updateIdle c now s0 =
    (let s = requestDevicesEnable False (setAllControlWords 0x0000 s0)
     in if enable_request s then acceptEnable c now (s\<lparr>enable_request := False\<rparr>)
        else if reset_request s then acceptReset (s\<lparr>reset_request := False\<rparr>)
        else if disable_request s then
          (publishResult DisableSlot True Stage_kAlreadyDisabled (-1) (-1) 0
             (clearFailure (s\<lparr>disable_request := False\<rparr>)))\<lparr>owner := Owner_kNone\<rparr>
        else s)"

definition updateJtcActivating :: "em_cfg \<Rightarrow> int \<Rightarrow> em \<Rightarrow> em" where
  "updateJtcActivating c now s =
    (if jtc_activate_failed_request s then
       startDownward c Phase_kRollback now
         (recordFailure c Stage_kJtcActivateFailed (-1) (-1) 0
           (set_primary Stage_kJtcActivateFailed (-1) (-1) 0 (s\<lparr>jtc_activate_failed_request := False\<rparr>)))
     else
       let s1 = setAllControlWords 0x000F s
       in if jtc_activated_request s1 then
            let s2 = clearFailure (s1\<lparr>jtc_activated_request := False\<rparr>);
                s3 = (if motion_mode_switching c
                      then s2\<lparr>current_control_mode := motion_controller_mode c\<rparr> else s2)
            in (publishResult EnableSlot True Stage_kSuccess (-1) (-1) 0 (s3\<lparr>phase := Phase_kEnabled\<rparr>))
                 \<lparr>owner := Owner_kNone\<rparr>
          else s1)"

definition updateEnabled :: "em_cfg \<Rightarrow> int \<Rightarrow> em \<Rightarrow> em" where
  "updateEnabled c now s0 =
    (let s = setAllControlWords 0x000F s0
     in if disable_request s then
          let s1 = s\<lparr>disable_request := False\<rparr>;
              s2 = (if motion_fault_pending s1 then
                      recordFailure c Stage_kMotionFault (-1) (-1) 0
                        (set_primary Stage_kMotionFault (-1) (-1) 0 (s1\<lparr>motion_fault_pending := False\<rparr>))
                    else s1)
          in startDownward c Phase_kDisabling now s2
        else s)"

definition updateFailed :: "em_cfg \<Rightarrow> int \<Rightarrow> em \<Rightarrow> em" where
  "updateFailed c now s0 =
    (let s = requestDevicesEnable False (setAllControlWords 0x0000 s0)
     in if disable_request s then startDownward c Phase_kDisabling now (s\<lparr>disable_request := False\<rparr>)
        else if reset_request s then acceptReset (s\<lparr>reset_request := False\<rparr>)
        else s)"

definition dispatch :: "em_cfg \<Rightarrow> int \<Rightarrow> phase \<Rightarrow> em \<Rightarrow> em" where
  "dispatch c now p s =
    (case p of
       Phase_kStartupSanitizing \<Rightarrow>
         updateDownward c now
           (if stage_deadline_ns s = 0 then startDownward c Phase_kStartupSanitizing now s else s)
     | Phase_kIdle \<Rightarrow> updateIdle c now s
     | Phase_kEnabling \<Rightarrow> updateEnable c now s
     | Phase_kInterBatchDelay \<Rightarrow> updateEnable c now s
     | Phase_kJtcActivating \<Rightarrow> updateJtcActivating c now s
     | Phase_kJtcDeactivating \<Rightarrow> updateEnabled c now s
     | Phase_kEnabled \<Rightarrow> updateEnabled c now s
     | Phase_kDisabling \<Rightarrow>
         updateDownward c now (if stage_deadline_ns s = 0 then startDownward c p now s else s)
     | Phase_kRollback \<Rightarrow>
         updateDownward c now (if stage_deadline_ns s = 0 then startDownward c p now s else s)
     | Phase_kResetDisabling \<Rightarrow>
         updateDownward c now (if stage_deadline_ns s = 0 then startDownward c p now s else s)
     | Phase_kEmergencyDisable \<Rightarrow>
         updateDownward c now (if stage_deadline_ns s = 0 then startDownward c p now s else s)
     | Phase_kResetLow \<Rightarrow> updateReset c now s
     | Phase_kResetHigh \<Rightarrow> updateReset c now s
     | Phase_kEmergencyQuickStop \<Rightarrow> updateEmergencyQuickStop c now s
     | Phase_kFailed \<Rightarrow> updateFailed c now s
     | Phase_kInactive \<Rightarrow> s)"

text \<open>The row of the runtime trace, in the order of \<open>kTraceFields\<close>.\<close>

definition trace_row :: "em \<Rightarrow> int \<Rightarrow> f64 list" where
  "trace_row s now =
    [f64_of_int (phase_num (phase s)),
     f64_of_int (owner_num (owner s)),
     f64_of_int (int (current_batch s)),
     f64_of_int (int (downward_stage s)),
     f64_of_int (mode_num (current_control_mode s)),
     (if stage_deadline_ns s = 0 then NaN
      else f64_mul (f64_of_int (stage_deadline_ns s - now)) (f64_round (1 / 1000000))),
     f64_of_int (stage_num (last_failure_stage (last_failure s))),
     f64_of_int (last_failed_batch (last_failure s)),
     f64_of_int (last_failed_joint (last_failure s)),
     f64_of_int (uint (last_failed_status_word (last_failure s))),
     f64_of_int (stage_num (primary_failure_stage (primary s))),
     f64_of_int (primary_failed_batch (primary s)),
     f64_of_int (primary_failed_joint (primary s)),
     f64_of_bool (motion_fault_pending s),
     f64_of_bool (enable_request s),
     f64_of_bool (disable_request s),
     f64_of_bool (reset_request s),
     f64_of_bool (switch_in_progress s),
     f64_of_bool (restart_required s),
     f64_of_bool (state_sources_qualified s),
     f64_of_bool (enable_hardware_ready s),
     f64_of_bool (jtc_deactivate_failed s)]"

definition writeTrace :: "int \<Rightarrow> int \<Rightarrow> em \<Rightarrow> em" where
  "writeTrace now period s =
    (if \<not> trace_ok s then s else s\<lparr>trace_rows := trace_rows s @ [(now, period, trace_row s now)]\<rparr>)"

text \<open>
  One cycle: the inputs are the ROS time and period in nanoseconds and the steady clock; the
  state interfaces hold what the hardware read this cycle.
\<close>

definition observe :: "em_cfg \<Rightarrow> u64 \<Rightarrow> em \<Rightarrow> em" where
  "observe c steady_now s =
    (let s1 = readDevices (refreshModes c (refreshStatusWords s));
         s2 = s1\<lparr>diagnostic_state_values := map (get_value (state_interfaces s1)) (diagnostic_state_indices s1)\<rparr>;
         s3 = captureSample c steady_now s2
     in s3\<lparr>offline_now := offlineSource c s3\<rparr>)"

definition update :: "em_cfg \<Rightarrow> int \<Rightarrow> int \<Rightarrow> u64 \<Rightarrow> em \<Rightarrow> em" where
  "update c now period steady_now s =
    (if \<not> active s then s
     else let s1 = observe c steady_now s;
              (p, s2) = supervise c (offline_now s1) now s1;
              s3 = dispatch c now p s2
          in writeTrace now period (writeDriveModes c (writeDevices s3)))"

end
