(* ===== verification/EnableFacts.thy ===== *)
theory EnableFacts
  imports EnableCycle
begin

text \<open>
  Facts about the operations of \<open>EnableRt\<close> and \<open>EnableCycle\<close> that the properties share: what each
  operation writes (as an update of the few fields it touches), the words it leaves on the axes,
  and the phases it ends in.
\<close>

subsection \<open>Writes to the command interfaces\<close>

fun write_words :: "cia402_axis list \<Rightarrow> nat \<Rightarrow> u16 list \<Rightarrow> loaned list \<Rightarrow> loaned list" where
  "write_words axes a [] cmds = cmds"
| "write_words axes a (w # ws) cmds =
     write_words axes (Suc a) ws (snd (set_control_word (axes ! a) w cmds))"

lemma setControlWord_eq:
  "setControlWord a w s =
     s\<lparr>command_interfaces := snd (set_control_word (cia402_axes s ! a) w (command_interfaces s))\<rparr>"
  by (simp add: setControlWord_def)

lemma setControlWordsFrom_eq:
  "setControlWordsFrom a ws s =
     s\<lparr>command_interfaces := write_words (cia402_axes s) a ws (command_interfaces s)\<rparr>"
  by (induction ws arbitrary: a s) (simp_all add: setControlWord_eq)

lemma setAllControlWords_eq:
  "setAllControlWords w s =
     s\<lparr>command_interfaces := write_words (cia402_axes s) 0
          (replicate (length (cia402_axes s)) w) (command_interfaces s)\<rparr>"
  by (simp add: setAllControlWords_def setControlWordsFrom_eq)

lemma length_set_control_word [simp]: "length (snd (set_control_word a w cmds)) = length cmds"
  by (simp add: set_control_word_def split: option.splits)

lemma length_write_words [simp]: "length (write_words axes a ws cmds) = length cmds"
  by (induction ws arbitrary: a cmds) simp_all

lemmas word_writes = setControlWord_eq setControlWordsFrom_eq setAllControlWords_eq

subsection \<open>Well-formed outputs\<close>

text \<open>
  Every axis writes to its own interface, which no handshake device and no drive-mode command
  writes; the per-axis vectors have one entry per axis. \<open>on_activate\<close> establishes this and
  every cycle keeps it.
\<close>

definition axes_bound :: "cia402_axis list \<Rightarrow> loaned list \<Rightarrow> bool" where
  "axes_bound axes cmds =
    ((\<forall>a < length axes. \<exists>i < length cmds. command_interface (axes ! a) = Some i) \<and>
     distinct (map command_interface axes))"

definition em_wf :: "em_cfg \<Rightarrow> em \<Rightarrow> bool" where
  "em_wf c s =
    (axes_bound (cia402_axes s) (command_interfaces s) \<and>
     (\<forall>d \<in> set (handshake_devices s). \<forall>a \<in> set (cia402_axes s).
        hd_enable_command d \<noteq> command_interface a \<and> hd_reset_command d \<noteq> command_interface a) \<and>
     (\<forall>k < length (mode_switch_axes c). \<forall>a \<in> set (cia402_axes s).
        command_interface a \<noteq> Some (drive_mode_command_offset s + k)) \<and>
     length (reset_targets s) = length (cia402_axes s) \<and>
     (\<forall>batch \<in> set (enable_batches c). \<forall>axis \<in> set batch. axis < length (cia402_axes s)))"

text \<open>The word an axis is commanded, as the hardware will read it.\<close>

definition control_word :: "em \<Rightarrow> nat \<Rightarrow> f64" where
  "control_word s a =
     (case command_interface (cia402_axes s ! a) of
        None \<Rightarrow> NaN | Some i \<Rightarrow> get_value (command_interfaces s) i)"

abbreviation (input) word_value :: "u16 \<Rightarrow> f64" where
  "word_value w \<equiv> f64_of_int (uint w)"

lemma axes_boundE:
  assumes "axes_bound axes cmds" "a < length axes"
  obtains i where "i < length cmds" "command_interface (axes ! a) = Some i"
  using assms unfolding axes_bound_def by blast

lemma axes_bound_inj:
  assumes "axes_bound axes cmds" "a < length axes" "b < length axes"
    and "command_interface (axes ! a) = command_interface (axes ! b)"
  shows "a = b"
proof -
  have d: "distinct (map command_interface axes)" using assms(1) by (simp add: axes_bound_def)
  have "map command_interface axes ! a = map command_interface axes ! b"
    using assms by simp
  with d assms(2,3) show ?thesis by (metis length_map nth_eq_iff_index_eq)
qed

lemma get_write_words_other:
  assumes "\<And>b. a \<le> b \<Longrightarrow> b < a + length ws \<Longrightarrow> command_interface (axes ! b) \<noteq> Some i"
  shows "get_value (write_words axes a ws cmds) i = get_value cmds i"
  using assms
proof (induction ws arbitrary: a cmds)
  case Nil
  then show ?case by simp
next
  case (Cons w ws)
  have "get_value (write_words axes (Suc a) ws (snd (set_control_word (axes ! a) w cmds))) i
      = get_value (snd (set_control_word (axes ! a) w cmds)) i"
    using Cons.prems by (intro Cons.IH) auto
  also have "\<dots> = get_value cmds i"
    using Cons.prems [of a] by (auto simp: set_control_word_def get_set_value split: option.splits)
  finally show ?case by simp
qed

lemma get_write_words:
  assumes "axes_bound axes cmds" "a \<le> b" "b < a + length ws" "a + length ws \<le> length axes"
    and "command_interface (axes ! b) = Some i"
  shows "get_value (write_words axes a ws cmds) i = word_value (ws ! (b - a))"
  using assms
proof (induction ws arbitrary: a cmds)
  case Nil
  then show ?case by simp
next
  case (Cons w ws)
  let ?cmds = "snd (set_control_word (axes ! a) w cmds)"
  have ab: "axes_bound axes ?cmds" using Cons.prems(1) by (simp add: axes_bound_def)
  show ?case
  proof (cases "b = a")
    case True
    have "command_interface (axes ! b') \<noteq> Some i" if "Suc a \<le> b'" "b' < Suc a + length ws" for b'
      using axes_bound_inj [OF Cons.prems(1), of b' a] Cons.prems(4,5) True that by auto
    then have "get_value (write_words axes (Suc a) ws ?cmds) i = get_value ?cmds i"
      by (rule get_write_words_other)
    moreover have "i < length cmds"
    proof -
      obtain j where "j < length cmds" "command_interface (axes ! b) = Some j"
        by (rule axes_boundE [OF Cons.prems(1), of b]) (use Cons.prems(3,4) in auto)
      with Cons.prems(5) show ?thesis by simp
    qed
    ultimately show ?thesis
      using Cons.prems(5) True by (simp add: set_control_word_def get_set_value)
  next
    case False
    then have "get_value (write_words axes (Suc a) ws ?cmds) i = word_value (ws ! (b - Suc a))"
      using Cons.prems ab by (intro Cons.IH) auto
    moreover have "(w # ws) ! (b - a) = ws ! (b - Suc a)"
      using False Cons.prems(2) by (simp add: nth_Cons' diff_Suc)
    ultimately show ?thesis by simp
  qed
qed

lemma control_word_setControlWordsFrom:
  assumes "axes_bound (cia402_axes s) (command_interfaces s)" "a < length ws"
    and "length ws \<le> length (cia402_axes s)"
  shows "control_word (setControlWordsFrom 0 ws s) a = word_value (ws ! a)"
proof -
  obtain i where i: "command_interface (cia402_axes s ! a) = Some i"
    using assms by (auto elim: axes_boundE [of _ _ a])
  then show ?thesis
    using get_write_words [of "cia402_axes s" "command_interfaces s" 0 a ws i] assms
    by (simp add: control_word_def setControlWordsFrom_eq)
qed

lemma control_word_setAll:
  "axes_bound (cia402_axes s) (command_interfaces s) \<Longrightarrow> a < length (cia402_axes s) \<Longrightarrow>
     control_word (setAllControlWords w s) a = word_value w"
  by (simp add: setAllControlWords_def control_word_setControlWordsFrom)

lemma word_value_inj [simp]: "word_value v = word_value w \<longleftrightarrow> v = w"
proof -
  have "\<bar>uint x\<bar> < 2 ^ 53" for x :: u16
    using uint_lt2p [of x] by simp
  then show ?thesis
    by (simp only: f64_of_int_exact f64.inject of_int_eq_iff word_uint_eq_iff)
qed

subsection \<open>What each operation writes\<close>

lemma requestDevicesEnable_eq:
  "requestDevicesEnable b s = s\<lparr>handshake_devices := map (hd_request_enable b) (handshake_devices s)\<rparr>"
  by (simp add: requestDevicesEnable_def)

lemma publishResult_eq:
  "publishResult slot ok st b j w s =
    (let r = \<lparr>rs_ready = True, rs_ok = ok, rs_failed_batch = b, rs_failed_joint = j,
              rs_status_word = w, rs_stage = st\<rparr>
     in s\<lparr>enable_result := (if slot = EnableSlot then r else enable_result s),
          disable_result := (if slot = DisableSlot then r else disable_result s),
          reset_result := (if slot = ResetSlot then r else reset_result s)\<rparr>)"
  by (cases slot) (simp_all add: publishResult_def)

lemmas small_ops = requestDevicesEnable_def publishResult_eq publishPrimary_def recordFailure_def
  clearFailure_def set_primary_def startDownward_def startDeviceResets_def markResetTargets_def Let_def

text \<open>
  The wiring of a state is what \<open>em_wf\<close> looks at. Every operation keeps it, so every operation
  keeps \<open>em_wf\<close>; the status words are kept by everything but the refresh and the activity by
  the whole cycle.
\<close>

definition wiring :: "em \<Rightarrow> cia402_axis list \<times> nat \<times> (nat option \<times> nat option) list \<times> nat \<times> nat \<times> u16 list \<times> bool" where
  "wiring s = (cia402_axes s, length (command_interfaces s),
     map (\<lambda>d. (hd_enable_command d, hd_reset_command d)) (handshake_devices s),
     drive_mode_command_offset s, length (reset_targets s), status_words s, active s)"

lemma em_wf_cong:
  assumes "em_wf c s" "wiring s' = wiring s"
  shows "em_wf c s'"
proof -
  let ?ptrs = "\<lambda>d. (hd_enable_command d, hd_reset_command d)"
  have ax: "cia402_axes s' = cia402_axes s" "length (command_interfaces s') = length (command_interfaces s)"
    "drive_mode_command_offset s' = drive_mode_command_offset s"
    "length (reset_targets s') = length (reset_targets s)"
    and mp: "map ?ptrs (handshake_devices s') = map ?ptrs (handshake_devices s)"
    using assms(2) by (simp_all only: wiring_def prod.inject)
  from mp have dv: "?ptrs ` set (handshake_devices s') = ?ptrs ` set (handshake_devices s)"
    by (metis set_map)
  have "hd_enable_command d \<noteq> command_interface a \<and> hd_reset_command d \<noteq> command_interface a"
    if "d \<in> set (handshake_devices s')" "a \<in> set (cia402_axes s)" for d a
  proof -
    have "?ptrs d \<in> ?ptrs ` set (handshake_devices s)"
      unfolding dv [symmetric] using that(1) by (rule imageI)
    then obtain d0 where d0: "d0 \<in> set (handshake_devices s)"
      "hd_enable_command d = hd_enable_command d0" "hd_reset_command d = hd_reset_command d0"
      by auto
    from assms(1) d0(1) that(2) have
      "hd_enable_command d0 \<noteq> command_interface a \<and> hd_reset_command d0 \<noteq> command_interface a"
      unfolding em_wf_def by blast
    with d0(2,3) show ?thesis by simp
  qed
  with assms(1) ax show ?thesis by (simp add: em_wf_def axes_bound_def)
qed

lemma wiring_setControlWordsFrom [simp, frame]: "wiring (setControlWordsFrom a ws s) = wiring s"
  by (simp add: wiring_def word_writes)

lemma wiring_setControlWord [simp, frame]: "wiring (setControlWord a w s) = wiring s"
  by (simp add: wiring_def word_writes)

lemma wiring_setAllControlWords [simp, frame]: "wiring (setAllControlWords w s) = wiring s"
  by (simp add: wiring_def word_writes)

lemma wiring_requestDevicesEnable [simp, frame]: "wiring (requestDevicesEnable b s) = wiring s"
  by (simp add: wiring_def small_ops)

lemma wiring_finishDownward [simp, frame]: "wiring (finishDownward c s) = wiring s"
  by (simp add: wiring_def finishDownward_def small_ops)

lemma wiring_startDownward [simp, frame]: "wiring (startDownward c p now s) = wiring s"
  by (simp add: wiring_def small_ops)

lemma wiring_downwardTimeout [simp, frame]: "wiring (downwardTimeout c p f i now s) = wiring s"
proof -
  have "wiring (s\<lparr>phase := p', owner := o'\<rparr>) = wiring s" for s p' o' by (simp add: wiring_def)
  then show ?thesis
    by (auto simp: downwardTimeout_def Let_def) (simp_all add: wiring_def small_ops)
qed

lemma wiring_updateDownward [simp, frame]: "wiring (updateDownward c now s) = wiring s"
proof -
  have "wiring (s\<lparr>downward_stage := k, stage_deadline_ns := d\<rparr>) = wiring s" for s k d
    by (simp add: wiring_def)
  then show ?thesis by (simp add: updateDownward_def Let_def)
qed

lemma wiring_startEmergency [simp, frame]: "wiring (startEmergency c st j w now s) = wiring s"
  by (simp add: wiring_def startEmergency_def small_ops)

lemma wiring_updateEmergencyQuickStop [simp, frame]: "wiring (updateEmergencyQuickStop c now s) = wiring s"
  by (simp add: updateEmergencyQuickStop_def Let_def)

lemma wiring_failEnable [simp, frame]: "wiring (failEnable c st axis now s) = wiring s"
  unfolding failEnable_def Let_def by (simp add: wiring_def [of s]) (simp add: wiring_def small_ops)

lemma wiring_preemptEnable [simp, frame]: "wiring (preemptEnable c now s) = wiring s"
  by (simp add: preemptEnable_def) (simp add: wiring_def small_ops)

lemma wiring_updateDeviceEnable [simp, frame]: "wiring (updateDeviceEnable c now s) = wiring s"
proof -
  have "wiring (s\<lparr>device_stage := b, phase := p, enable_hardware_ready := e\<rparr>) = wiring s" for s b p e
    by (simp add: wiring_def)
  then show ?thesis by (simp add: updateDeviceEnable_def Let_def split: option.splits)
qed

lemma wiring_mode_confirmed [simp]: "wiring (s\<lparr>mode_confirmed := m\<rparr>) = wiring s"
  by (simp add: wiring_def)

subsection \<open>The batch loop against a declarative reference\<close>

text \<open>
  What the loop computes for one axis: the word it writes, whether the axis keeps the batch from
  being complete, whether it is in an invalid state, and whether its mode is wrong.
\<close>

definition batch_command :: "em_cfg \<Rightarrow> em \<Rightarrow> nat \<Rightarrow> u16" where
  "batch_command c s axis =
    (case last_batch_of c (current_batch s) axis of
       None \<Rightarrow> 0x0000
     | Some batch \<Rightarrow>
         if batch < current_batch s then 0x000F
         else (case axis_states s ! axis of
                 kSwitchOnDisabled \<Rightarrow> 0x0006 | kReadyToSwitchOn \<Rightarrow> 0x0007
               | kSwitchedOn \<Rightarrow> 0x000F | kOperationEnabled \<Rightarrow> 0x000F | _ \<Rightarrow> 0x0000))"

definition axis_incomplete :: "em_cfg \<Rightarrow> em \<Rightarrow> nat \<Rightarrow> bool" where
  "axis_incomplete c s axis =
    (case last_batch_of c (current_batch s) axis of
       None \<Rightarrow> False
     | Some batch \<Rightarrow> \<not> batch < current_batch s \<and>
         (axis_states s ! axis \<noteq> kOperationEnabled \<or> \<not> modeConfirmed c s axis))"

definition axis_invalid :: "em_cfg \<Rightarrow> em \<Rightarrow> nat \<Rightarrow> bool" where
  "axis_invalid c s axis =
    (case last_batch_of c (current_batch s) axis of
       None \<Rightarrow> False
     | Some batch \<Rightarrow>
         if batch < current_batch s then axis_states s ! axis \<noteq> kOperationEnabled
         else axis_states s ! axis \<notin> {kSwitchOnDisabled, kReadyToSwitchOn, kSwitchedOn, kOperationEnabled})"

definition confirmed_after :: "em_cfg \<Rightarrow> em \<Rightarrow> nat \<Rightarrow> bool list" where
  "confirmed_after c s axis =
    (if (case last_batch_of c (current_batch s) axis of
           None \<Rightarrow> False | Some batch \<Rightarrow> \<not> batch < current_batch s) \<and>
        axis_states s ! axis = kOperationEnabled \<and> modeConfirmed c s axis
     then (mode_confirmed s)[axis := True] else mode_confirmed s)"

text \<open>One turn of the loop that does not end the cycle, in terms of the reference.\<close>

definition batch_turn :: "em_cfg \<Rightarrow> nat \<Rightarrow> em \<times> bool \<times> nat option \<Rightarrow> em \<times> bool \<times> nat option" where
  "batch_turn c axis = (\<lambda>(s, bc, bad).
     (setControlWord axis (batch_command c s axis) (s\<lparr>mode_confirmed := confirmed_after c s axis\<rparr>),
      bc \<and> \<not> axis_incomplete c s axis,
      if bad = None \<and> axis_invalid c s axis then Some axis else bad))"

lemma batch_turn_none:
  assumes "last_batch_of c (current_batch s) axis = None"
  shows "batch_loop c now (axis # axes) (s, bc, bad) = batch_loop c now axes (batch_turn c axis (s, bc, bad))"
  using assms
  by (simp add: batch_turn_def batch_command_def axis_incomplete_def axis_invalid_def confirmed_after_def)

lemma batch_turn_previous:
  assumes "last_batch_of c (current_batch s) axis = Some b" "b < current_batch s"
  shows "batch_loop c now (axis # axes) (s, bc, bad) = batch_loop c now axes (batch_turn c axis (s, bc, bad))"
  using assms
  by (simp add: batch_turn_def batch_command_def axis_incomplete_def axis_invalid_def confirmed_after_def)

text \<open>An axis of the current batch ends the cycle exactly when its mode is neither right nor pending.\<close>

definition mode_wrong :: "em_cfg \<Rightarrow> em \<Rightarrow> nat \<Rightarrow> bool" where
  "mode_wrong c s axis =
    ((case last_batch_of c (current_batch s) axis of
        None \<Rightarrow> False | Some batch \<Rightarrow> \<not> batch < current_batch s) \<and>
     \<not> modeConfirmed c s axis \<and> \<not> modePending c s axis)"

lemma batch_turn_current:
  assumes "last_batch_of c (current_batch s) axis = Some b" "\<not> b < current_batch s"
  shows "batch_loop c now (axis # axes) (s, bc, bad) =
    (if mode_wrong c s axis then Inl (failEnable c Stage_kModeMismatch (int axis) now s)
     else batch_loop c now axes (batch_turn c axis (s, bc, bad)))"
proof (cases "mode_wrong c s axis")
  case True
  then have "expected_modes c \<noteq> []" by (auto simp: mode_wrong_def modeConfirmed_def)
  with True assms show ?thesis by (simp add: mode_wrong_def)
next
  case False
  note defs = mode_wrong_def batch_turn_def batch_command_def axis_incomplete_def axis_invalid_def
    confirmed_after_def
  show ?thesis
  proof (cases "axis_states s ! axis = kOperationEnabled")
    case True
    have id: "s\<lparr>mode_confirmed := m\<rparr> = s" if "mode_confirmed s = m" for m using that by auto
    show ?thesis
    proof (cases "modeConfirmed c s axis")
      case conf: True
      show ?thesis
        using False assms True conf by (cases "mode_confirmed s = []") (simp_all add: defs id)
    next
      case conf: False
      with False assms have "modePending c s axis" by (simp add: mode_wrong_def)
      then show ?thesis using False assms True conf by (simp add: defs)
    qed
  next
    case other: False
    have "(expected_modes c \<noteq> [] \<and> \<not> modeConfirmed c s axis \<and> \<not> modePending c s axis) = False"
      using False assms by (simp add: mode_wrong_def)
    then show ?thesis
      using False assms other
      by (cases "axis_states s ! axis") (simp_all only: batch_loop.simps Let_def option.case if_False
          cia402_state.case, simp_all add: defs)
  qed
qed

lemma batch_loop_Cons_eq:
  "batch_loop c now (axis # axes) (s, bc, bad) =
    (if mode_wrong c s axis then Inl (failEnable c Stage_kModeMismatch (int axis) now s)
     else batch_loop c now axes (batch_turn c axis (s, bc, bad)))"
proof (cases "last_batch_of c (current_batch s) axis")
  case None
  then show ?thesis using batch_turn_none by (simp add: mode_wrong_def)
next
  case (Some b)
  then show ?thesis
    using batch_turn_previous [OF Some] batch_turn_current [OF Some]
    by (cases "b < current_batch s") (simp_all add: mode_wrong_def)
qed

declare batch_loop.simps(2) [simp del]

text \<open>
  The whole loop: with no wrong mode among the axes it runs to the end, writes the reference word of
  every axis, and its two flags say whether some axis is incomplete and which is the first invalid.
\<close>

definition batch_same :: "em \<Rightarrow> em \<Rightarrow> bool" where
  "batch_same s t \<longleftrightarrow>
     s\<lparr>command_interfaces := [], mode_confirmed := []\<rparr> = t\<lparr>command_interfaces := [], mode_confirmed := []\<rparr>"

lemma batch_same_refl [simp]: "batch_same s s"
  by (simp add: batch_same_def)

lemma batch_same_trans: "batch_same s t \<Longrightarrow> batch_same t u \<Longrightarrow> batch_same s u"
  by (simp add: batch_same_def)

lemma batch_same_turn: "batch_same s (fst (batch_turn c axis (s, bc, bad)))"
  by (simp add: batch_same_def batch_turn_def setControlWord_def)

lemma batch_same_fields:
  assumes "batch_same s t"
  shows "phase t = phase s"
    "cia402_axes t = cia402_axes s"
    "current_batch t = current_batch s"
    "actual_modes t = actual_modes s"
    "status_words t = status_words s"
    "handshake_devices t = handshake_devices s"
    "enable_preempt_requested t = enable_preempt_requested s"
    "drive_mode_command_offset t = drive_mode_command_offset s"
    "reset_targets t = reset_targets s"
    "stage_deadline_ns t = stage_deadline_ns s"
    "primary t = primary s"
    "owner t = owner s"
    "enable_result t = enable_result s"
    "disable_result t = disable_result s"
    "disable_request t = disable_request s"
    "downward_stage t = downward_stage s"
    "active t = active s"
proof -
  note eq = sym [OF assms [unfolded batch_same_def]]
  show "phase t = phase s" using arg_cong [OF eq, of phase] by simp
  show "cia402_axes t = cia402_axes s" using arg_cong [OF eq, of cia402_axes] by simp
  show "current_batch t = current_batch s" using arg_cong [OF eq, of current_batch] by simp
  show "actual_modes t = actual_modes s" using arg_cong [OF eq, of actual_modes] by simp
  show "status_words t = status_words s" using arg_cong [OF eq, of status_words] by simp
  show "handshake_devices t = handshake_devices s" using arg_cong [OF eq, of handshake_devices] by simp
  show "enable_preempt_requested t = enable_preempt_requested s" using arg_cong [OF eq, of enable_preempt_requested] by simp
  show "drive_mode_command_offset t = drive_mode_command_offset s" using arg_cong [OF eq, of drive_mode_command_offset] by simp
  show "reset_targets t = reset_targets s" using arg_cong [OF eq, of reset_targets] by simp
  show "stage_deadline_ns t = stage_deadline_ns s" using arg_cong [OF eq, of stage_deadline_ns] by simp
  show "primary t = primary s" using arg_cong [OF eq, of primary] by simp
  show "owner t = owner s" using arg_cong [OF eq, of owner] by simp
  show "enable_result t = enable_result s" using arg_cong [OF eq, of enable_result] by simp
  show "disable_result t = disable_result s" using arg_cong [OF eq, of disable_result] by simp
  show "disable_request t = disable_request s" using arg_cong [OF eq, of disable_request] by simp
  show "downward_stage t = downward_stage s" using arg_cong [OF eq, of downward_stage] by simp
  show "active t = active s" using arg_cong [OF eq, of active] by simp
qed

lemma batch_same_cong:
  assumes "batch_same s t" "length (command_interfaces t) = length (command_interfaces s)"
  shows "batch_command c t = batch_command c s" "axis_incomplete c t = axis_incomplete c s"
    "axis_invalid c t = axis_invalid c s" "mode_wrong c t = mode_wrong c s" "wiring t = wiring s"
proof -
  note f = batch_same_fields [OF assms(1)]
  have st: "axis_states t = axis_states s" using f by (simp add: axis_states_def)
  have mc: "modeConfirmed c t = modeConfirmed c s" "modePending c t = modePending c s"
    unfolding modeConfirmed_def modePending_def fun_eq_iff f by simp_all
  show "batch_command c t = batch_command c s" unfolding batch_command_def fun_eq_iff f st by simp
  show "axis_incomplete c t = axis_incomplete c s" unfolding axis_incomplete_def fun_eq_iff f st mc by simp
  show "axis_invalid c t = axis_invalid c s" unfolding axis_invalid_def fun_eq_iff f st by simp
  show "mode_wrong c t = mode_wrong c s" unfolding mode_wrong_def fun_eq_iff f mc by simp
  show "wiring t = wiring s" unfolding wiring_def f assms(2) by simp
qed

lemma length_cmds_turn:
  "length (command_interfaces (fst (batch_turn c axis (s, bc, bad)))) = length (command_interfaces s)"
  by (simp add: batch_turn_def setControlWord_def)

fun first_or :: "nat option \<Rightarrow> nat option \<Rightarrow> nat option" where
  "first_or (Some a) b = Some a"
| "first_or None b = b"

lemma batch_loop_complete:
  assumes "batch_loop c now axes (s, bc, bad) = Inr (s', bc', bad')"
  shows "batch_same s s' \<and> length (command_interfaces s') = length (command_interfaces s) \<and>
    (bc' \<longleftrightarrow> bc \<and> (\<forall>axis \<in> set axes. \<not> axis_incomplete c s axis)) \<and>
    bad' = first_or bad (find (axis_invalid c s) axes) \<and>
    (\<forall>axis \<in> set axes. \<not> mode_wrong c s axis)"
  using assms
proof (induction axes arbitrary: s bc bad)
  case Nil
  then show ?case by (cases bad) auto
next
  case (Cons axis axes)
  obtain t bc2 bad2 where turn: "batch_turn c axis (s, bc, bad) = (t, bc2, bad2)"
    by (cases "batch_turn c axis (s, bc, bad)") auto
  have st: "batch_same s t" "length (command_interfaces t) = length (command_interfaces s)"
    using batch_same_turn [of s c axis bc bad] length_cmds_turn [of c axis s bc bad] by (simp_all add: turn)
  have flags: "bc2 \<longleftrightarrow> bc \<and> \<not> axis_incomplete c s axis"
    "bad2 = (if bad = None \<and> axis_invalid c s axis then Some axis else bad)"
    using turn by (auto simp: batch_turn_def)
  from Cons.prems have ok: "\<not> mode_wrong c s axis"
    and rec: "batch_loop c now axes (t, bc2, bad2) = Inr (s', bc', bad')"
    by (auto simp: batch_loop_Cons_eq turn split: if_splits)
  note cong = batch_same_cong(1-4) [OF st]
  from Cons.IH [OF rec] have ih: "batch_same t s'"
    "length (command_interfaces s') = length (command_interfaces t)"
    "bc' \<longleftrightarrow> bc2 \<and> (\<forall>a \<in> set axes. \<not> axis_incomplete c s a)"
    "bad' = first_or bad2 (find (axis_invalid c s) axes)" "\<forall>a \<in> set axes. \<not> mode_wrong c s a"
    by (simp_all add: cong)
  have "batch_same s s'" using st(1) ih(1) by (rule batch_same_trans)
  then show ?case
    using ih st(2) flags ok by (cases bad) auto
qed

text \<open>The words the whole loop writes.\<close>

lemma batch_loop_words:
  assumes "batch_loop c now [k..<n] (s, bc, bad) = Inr (s', bc', bad')"
  shows "command_interfaces s' =
    write_words (cia402_axes s) k (map (batch_command c s) [k..<n]) (command_interfaces s)"
  using assms
proof (induction "n - k" arbitrary: k s bc bad)
  case 0
  then show ?case by simp
next
  case (Suc m)
  then have k: "[k..<n] = k # [Suc k..<n]" by (simp add: upt_conv_Cons)
  obtain t bc2 bad2 where turn: "batch_turn c k (s, bc, bad) = (t, bc2, bad2)"
    by (cases "batch_turn c k (s, bc, bad)") auto
  have st: "batch_same s t" "length (command_interfaces t) = length (command_interfaces s)"
    using batch_same_turn [of s c k bc bad] length_cmds_turn [of c k s bc bad] by (simp_all add: turn)
  have t: "command_interfaces t = snd (set_control_word (cia402_axes s ! k) (batch_command c s k) (command_interfaces s))"
    using turn by (auto simp: batch_turn_def setControlWord_def)
  from Suc.prems have "batch_loop c now [Suc k..<n] (t, bc2, bad2) = Inr (s', bc', bad')"
    by (auto simp: k batch_loop_Cons_eq turn split: if_splits)
  moreover have "m = n - Suc k" using Suc.hyps(2) by simp
  ultimately have "command_interfaces s' =
      write_words (cia402_axes t) (Suc k) (map (batch_command c t) [Suc k..<n]) (command_interfaces t)"
    using Suc.hyps(1) by blast
  then show ?case using batch_same_cong(1) [OF st] batch_same_fields(2) [OF st(1)] t by (simp add: k)
qed

text \<open>A wrong mode ends the cycle in \<open>failEnable\<close>, from a state that differs in the words written so far.\<close>

lemma batch_loop_Inl:
  assumes "batch_loop c now axes (s, bc, bad) = Inl s'"
  shows "\<exists>t axis. batch_same s t \<and> length (command_interfaces t) = length (command_interfaces s) \<and>
    axis \<in> set axes \<and> mode_wrong c s axis \<and> s' = failEnable c Stage_kModeMismatch (int axis) now t"
  using assms
proof (induction axes arbitrary: s bc bad)
  case Nil
  then show ?case by simp
next
  case (Cons axis axes)
  obtain t bc2 bad2 where turn: "batch_turn c axis (s, bc, bad) = (t, bc2, bad2)"
    by (cases "batch_turn c axis (s, bc, bad)") auto
  have st: "batch_same s t" "length (command_interfaces t) = length (command_interfaces s)"
    using batch_same_turn [of s c axis bc bad] length_cmds_turn [of c axis s bc bad] by (simp_all add: turn)
  show ?case
  proof (cases "mode_wrong c s axis")
    case True
    with Cons.prems have "s' = failEnable c Stage_kModeMismatch (int axis) now s"
      by (simp add: batch_loop_Cons_eq)
    with True show ?thesis by (intro exI [of _ s] exI [of _ axis]) simp
  next
    case False
    with Cons.prems have "batch_loop c now axes (t, bc2, bad2) = Inl s'"
      by (simp add: batch_loop_Cons_eq turn)
    from Cons.IH [OF this] obtain u a where "batch_same t u"
      "length (command_interfaces u) = length (command_interfaces t)"
      "a \<in> set axes" "mode_wrong c s a" "s' = failEnable c Stage_kModeMismatch (int a) now u"
      using batch_same_cong(4) [OF st] by metis
    with st show ?thesis
      by (intro exI [of _ u] exI [of _ a]) (auto intro: batch_same_trans)
  qed
qed

end
