(* ===== verification/EnableWords.thy ===== *)
theory EnableWords
  imports EnableFacts
begin

text \<open>
  The control words each part of the cycle leaves on the axes, and that the whole cycle keeps the
  wiring (\<open>em_wf\<close>). The safety properties of the enable manager rest on these facts.
\<close>

subsection \<open>The words on the axes\<close>

text \<open>Every axis is commanded a word of the set allowed for it.\<close>

definition words_in :: "(nat \<Rightarrow> u16 set) \<Rightarrow> em \<Rightarrow> bool" where
  "words_in W s = (\<forall>a < length (cia402_axes s). \<exists>w \<in> W a. control_word s a = word_value w)"

definition cycle_wf :: "em_cfg \<Rightarrow> em \<Rightarrow> bool" where
  "cycle_wf c s = (em_wf c s \<and> length (status_words s) = length (cia402_axes s))"

lemma cycle_wf_cong: "cycle_wf c s \<Longrightarrow> wiring s' = wiring s \<Longrightarrow> cycle_wf c s'"
  using em_wf_cong [of c s s'] by (simp add: cycle_wf_def wiring_def)

lemma wiring_axes: "wiring s' = wiring s \<Longrightarrow> length (cia402_axes s') = length (cia402_axes s)"
  by (simp add: wiring_def)

lemma wiring_states: "wiring s' = wiring s \<Longrightarrow> axis_states s' = axis_states s"
  by (simp add: wiring_def axis_states_def)

lemma cycle_wf_bound: "cycle_wf c s \<Longrightarrow> axes_bound (cia402_axes s) (command_interfaces s)"
  by (simp add: cycle_wf_def em_wf_def)

lemma cycle_wf_states: "cycle_wf c s \<Longrightarrow> length (axis_states s) = length (cia402_axes s)"
  by (simp add: cycle_wf_def axis_states_def)

lemma words_in_mono:
  "words_in V s \<Longrightarrow> (\<And>a. a < length (cia402_axes s) \<Longrightarrow> V a \<subseteq> W a) \<Longrightarrow> words_in W s"
  unfolding words_in_def by blast

lemma control_word_cong:
  assumes "cia402_axes s = cia402_axes t" "command_interfaces s = command_interfaces t"
  shows "control_word s a = control_word t a"
  unfolding control_word_def assms ..

lemma words_in_cong:
  assumes "cia402_axes s = cia402_axes t" "command_interfaces s = command_interfaces t"
  shows "words_in W s = words_in W t"
  unfolding words_in_def control_word_def assms ..

lemma words_in_setFrom:
  assumes "cycle_wf c s" "length ws = length (cia402_axes s)"
    and "\<And>a. a < length (cia402_axes s) \<Longrightarrow> ws ! a \<in> W a"
  shows "words_in W (setControlWordsFrom 0 ws s)"
proof -
  have "control_word (setControlWordsFrom 0 ws s) a = word_value (ws ! a) \<and> ws ! a \<in> W a"
    if "a < length (cia402_axes s)" for a
    using that assms control_word_setControlWordsFrom [OF cycle_wf_bound [OF assms(1)], of a ws]
    by simp
  then show ?thesis
    unfolding words_in_def by (simp add: setControlWordsFrom_eq)
qed

lemma words_in_setAll:
  assumes "cycle_wf c s" "\<And>a. a < length (cia402_axes s) \<Longrightarrow> w \<in> W a"
  shows "words_in W (setAllControlWords w s)"
  unfolding setAllControlWords_def using assms by (intro words_in_setFrom) auto

text \<open>Writing the word of each axis as a function of its drive state.\<close>

lemma words_in_setStates:
  assumes "cycle_wf c s" "\<And>a. a < length (cia402_axes s) \<Longrightarrow> f (axis_states s ! a) \<in> W a"
  shows "words_in W (setControlWordsFrom 0 (map f (axis_states s)) s)"
  using assms cycle_wf_states [OF assms(1)] by (intro words_in_setFrom) auto

subsection \<open>The downward path\<close>

definition down_words :: "cia402_state \<Rightarrow> u16 set" where
  "down_words st = {0x0000, downward_command st}"

lemma finishDownward_outputs [simp]:
  "command_interfaces (finishDownward c s) = command_interfaces s"
  "cia402_axes (finishDownward c s) = cia402_axes s"
  by (simp_all add: finishDownward_def small_ops)

lemma words_in_finishDownward [simp]: "words_in W (finishDownward c s) = words_in W s"
  by (rule words_in_cong) simp_all

lemma words_in_downwardTimeout:
  assumes "cycle_wf c s" "words_in W s" "\<And>a. a < length (cia402_axes s) \<Longrightarrow> 0 \<in> W a"
  shows "words_in W (downwardTimeout c p f i now s)"
proof (cases "p = Phase_kResetDisabling")
  case True
  define t where "t = publishResult ResetSlot False Stage_kFaultResetTimeout (-1)
    (index_or_minus1 (if i = None \<and> f then first_index isFaultState (axis_states s) else i))
    (status_word_at s (if i = None \<and> f then first_index isFaultState (axis_states s) else i))
    (recordFailure c Stage_kFaultResetTimeout (-1)
      (index_or_minus1 (if i = None \<and> f then first_index isFaultState (axis_states s) else i))
      (status_word_at s (if i = None \<and> f then first_index isFaultState (axis_states s) else i)) s)"
  have w: "wiring t = wiring s" by (simp add: t_def wiring_def small_ops)
  then have "words_in W (setAllControlWords 0 t)"
    using assms(3) wiring_axes [OF w] by (intro words_in_setAll [OF cycle_wf_cong [OF assms(1) w]]) simp
  moreover have "words_in W (t'\<lparr>phase := q, owner := r\<rparr>) = words_in W t'" for t' q r
    by (rule words_in_cong) simp_all
  ultimately show ?thesis
    using True by (simp add: downwardTimeout_def Let_def t_def)
next
  case False
  have "command_interfaces (downwardTimeout c p f i now s) = command_interfaces s"
    "cia402_axes (downwardTimeout c p f i now s) = cia402_axes s"
    using False by (simp_all add: downwardTimeout_def small_ops)
  then show ?thesis using assms(2) words_in_cong by blast
qed

lemma words_in_updateDownward:
  assumes "cycle_wf c s"
  shows "words_in (\<lambda>a. down_words (axis_states s ! a)) (updateDownward c now s)"
proof -
  let ?W = "\<lambda>a. down_words (axis_states s ! a)"
  define s1 where "s1 = requestDevicesEnable False s"
  define s2 where "s2 = setControlWordsFrom 0 (map downward_command (axis_states s1)) s1"
  have wi: "wiring s1 = wiring s" "wiring s2 = wiring s" by (simp_all add: s1_def s2_def)
  have w2: "cycle_wf c s2" using assms wi(2) by (rule cycle_wf_cong)
  have words: "words_in ?W s2"
    unfolding s2_def using wiring_states [OF wi(1)]
    by (intro words_in_setStates [OF cycle_wf_cong [OF assms wi(1)]]) (simp add: down_words_def)
  have stage: "words_in W (s2\<lparr>downward_stage := k, stage_deadline_ns := d\<rparr>) = words_in W s2" for W k d
    by (rule words_in_cong) simp_all
  show ?thesis
    using words stage words_in_downwardTimeout [OF w2 words]
    unfolding updateDownward_def Let_def s1_def [symmetric] s2_def [symmetric]
    by (simp add: down_words_def)
qed

lemma words_in_startDownward [simp]: "words_in W (startDownward c p now s) = words_in W s"
  by (rule words_in_cong) (simp_all add: small_ops)

lemma words_in_updateEmergencyQuickStop:
  assumes "cycle_wf c s"
  shows "words_in (\<lambda>a. {quick_stop_command (axis_states s ! a)}) (updateEmergencyQuickStop c now s)"
proof -
  define s1 where "s1 = requestDevicesEnable False s"
  have wi: "wiring s1 = wiring s" by (simp add: s1_def)
  have "words_in (\<lambda>a. {quick_stop_command (axis_states s ! a)})
      (setControlWordsFrom 0 (map quick_stop_command (axis_states s1)) s1)"
    using wiring_states [OF wi] by (intro words_in_setStates [OF cycle_wf_cong [OF assms wi]]) simp
  then show ?thesis
    unfolding updateEmergencyQuickStop_def Let_def s1_def [symmetric] by simp
qed

subsection \<open>The command table\<close>

text \<open>
  The words of the drive profile that make sense in each state: 0x0006 shuts down, 0x0007 switches
  on (or disables the operation of a running drive), 0x000F enables the operation, 0x0002 is the
  quick stop, 0x0080 resets a fault and 0x0000 removes the voltage, which is allowed everywhere.
\<close>

fun legal_words :: "cia402_state \<Rightarrow> u16 set" where
  "legal_words kSwitchOnDisabled = {0x0000, 0x0006}"
| "legal_words kReadyToSwitchOn = {0x0000, 0x0007}"
| "legal_words kSwitchedOn = {0x0000, 0x0006, 0x000F}"
| "legal_words kOperationEnabled = {0x0000, 0x0002, 0x0007, 0x000F}"
| "legal_words kQuickStopActive = {0x0000, 0x0002}"
| "legal_words kFault = {0x0000, 0x0080}"
| "legal_words _ = {0x0000}"

lemma zero_legal [simp]: "0 \<in> legal_words st"
  by (cases st) simp_all

lemma down_words_legal: "down_words st \<subseteq> legal_words st"
  by (cases st) (simp_all add: down_words_def)

lemma quick_stop_legal: "quick_stop_command st \<in> legal_words st"
  by (cases st) simp_all

lemma down_words_bound: "down_words st \<subseteq> {0x0000, 0x0006, 0x0007}"
  by (cases st) (simp_all add: down_words_def)

lemma quick_stop_bound: "quick_stop_command st \<in> {0x0000, 0x0002, 0x0006}"
  by (cases st) simp_all

abbreviation (input) "legal s \<equiv> words_in (\<lambda>a. legal_words (axis_states s ! a))"

lemma legal_updateDownward: "cycle_wf c s \<Longrightarrow> legal s (updateDownward c now s)"
  by (rule words_in_mono [OF words_in_updateDownward]) (auto intro: subsetD [OF down_words_legal])

lemma legal_updateEmergencyQuickStop: "cycle_wf c s \<Longrightarrow> legal s (updateEmergencyQuickStop c now s)"
  by (rule words_in_mono [OF words_in_updateEmergencyQuickStop]) (auto simp: quick_stop_legal)

subsection \<open>The upward path\<close>

lemma failEnable_down:
  "\<exists>t. wiring t = wiring s \<and> failEnable c st axis now s = updateDownward c now t"
  unfolding failEnable_def Let_def
  by (rule exI, rule conjI [OF _ refl]) (simp add: wiring_def small_ops)

lemma words_in_failEnable:
  assumes "cycle_wf c s"
  shows "words_in (\<lambda>a. down_words (axis_states s ! a)) (failEnable c st axis now s)"
proof -
  obtain t where t: "wiring t = wiring s" "failEnable c st axis now s = updateDownward c now t"
    using failEnable_down [of s c st axis now] by blast
  show ?thesis
    using words_in_updateDownward [OF cycle_wf_cong [OF assms t(1)], of now] wiring_states [OF t(1)]
    by (simp add: t(2))
qed

text \<open>
  The words the enabling cycle may give an axis: those of the shutdown it falls into on a failure,
  the word of the batch loop when the axis is in no invalid state, and 0x000F to keep a drive that
  already runs.
\<close>

definition enable_words :: "em_cfg \<Rightarrow> em \<Rightarrow> nat \<Rightarrow> u16 set" where
  "enable_words c s a =
    down_words (axis_states s ! a) \<union>
    (if axis_invalid c s a then {} else {batch_command c s a}) \<union>
    (if axis_states s ! a = kOperationEnabled then {0x000F} else {})"

lemma zero_enable [simp]: "0 \<in> enable_words c s a"
  by (simp add: enable_words_def down_words_def)

lemma enable_words_cong:
  assumes "axis_states t = axis_states s" "current_batch t = current_batch s"
  shows "enable_words c t = enable_words c s"
  unfolding enable_words_def fun_eq_iff axis_invalid_def batch_command_def assms by simp

abbreviation (input) "up c s \<equiv> words_in (enable_words c s)"

lemma up_failEnable: "cycle_wf c s \<Longrightarrow> up c s (failEnable c st axis now s)"
  by (rule words_in_mono [OF words_in_failEnable]) (auto simp: enable_words_def)

lemma up_failEnable_wired:
  assumes "cycle_wf c s" "wiring t = wiring s"
  shows "up c s (failEnable c st axis now t)"
  using words_in_failEnable [OF cycle_wf_cong [OF assms], of st axis now]
  unfolding wiring_states [OF assms(2)] by (rule words_in_mono) (auto simp: enable_words_def)

lemma words_in_preemptEnable [simp]: "words_in W (preemptEnable c now s) = words_in W s"
  by (rule words_in_cong) (simp_all add: preemptEnable_def small_ops)

text \<open>When every drive runs, the word 0x000F is legal for all.\<close>

lemma up_all_enabled:
  assumes "cycle_wf c s" "first_index (\<lambda>st. st \<noteq> kOperationEnabled) (axis_states s) = None"
  shows "up c s (setAllControlWords 0x000F s)"
proof (rule words_in_setAll [OF assms(1)])
  fix a assume "a < length (cia402_axes s)"
  then have "axis_states s ! a = kOperationEnabled"
    using assms(2) cycle_wf_states [OF assms(1)] by (auto simp: first_index_None)
  then show "0x000F \<in> enable_words c s a" by (simp add: enable_words_def)
qed

lemma up_updateDeviceEnable:
  assumes "cycle_wf c s"
  shows "up c s (updateDeviceEnable c now s)"
proof (cases "first_index (\<lambda>st. st \<noteq> kOperationEnabled) (axis_states s)")
  case None
  define s1 where "s1 = setAllControlWords 0x000F s"
  define s2 where "s2 = requestDevicesEnable True s1"
  have wi: "wiring s2 = wiring s" by (simp add: s1_def s2_def)
  have words: "up c s s1" unfolding s1_def by (rule up_all_enabled [OF assms None])
  then have words2: "up c s s2"
    using words_in_cong [of s2 s1] by (simp add: s2_def small_ops)
  have ready: "words_in W (s2\<lparr>device_stage := a, phase := p, enable_hardware_ready := e\<rparr>) = words_in W s2"
    for W a p e by (rule words_in_cong) simp_all
  show ?thesis
    unfolding updateDeviceEnable_def Let_def None option.case s1_def [symmetric] s2_def [symmetric]
    using words words2 ready up_failEnable_wired [OF assms wi] by simp
next
  case (Some axis)
  then show ?thesis
    unfolding updateDeviceEnable_def by (simp add: up_failEnable_wired [OF assms])
qed

text \<open>The words after a batch cycle that did not end in the loop.\<close>

lemma batch_command_legal:
  assumes "\<not> axis_invalid c s axis"
  shows "batch_command c s axis \<in> legal_words (axis_states s ! axis)"
proof (cases "last_batch_of c (current_batch s) axis")
  case None
  then show ?thesis by (simp add: batch_command_def)
next
  case (Some batch)
  then show ?thesis
    using assms
    by (cases "batch < current_batch s"; cases "axis_states s ! axis")
       (simp_all add: batch_command_def axis_invalid_def)
qed

lemma enable_words_legal: "enable_words c s a \<subseteq> legal_words (axis_states s ! a)"
  using down_words_legal [of "axis_states s ! a"] batch_command_legal [of c s a]
  by (auto simp: enable_words_def)

lemma batch_loop_cycle_wf:
  "batch_same s t \<Longrightarrow> length (command_interfaces t) = length (command_interfaces s) \<Longrightarrow>
     cycle_wf c s \<Longrightarrow> cycle_wf c t"
  using batch_same_cong(5) cycle_wf_cong by blast

lemma batch_loop_control_word:
  assumes loop: "batch_loop c now [0..<length (cia402_axes s)] (s, True, None) = Inr (s', bc, bad)"
    and wf: "cycle_wf c s" and a: "a < length (cia402_axes s)"
  shows "control_word s' a = word_value (batch_command c s a)"
proof -
  have same: "batch_same s s'" using batch_loop_complete [OF loop] by simp
  let ?ws = "map (batch_command c s) [0..<length (cia402_axes s)]"
  have "command_interfaces s' = command_interfaces (setControlWordsFrom 0 ?ws s)"
    using batch_loop_words [OF loop] by (simp add: setControlWordsFrom_eq)
  moreover have "cia402_axes s' = cia402_axes (setControlWordsFrom 0 ?ws s)"
    using batch_same_fields(2) [OF same] by (simp add: setControlWordsFrom_eq)
  ultimately have "control_word s' a = control_word (setControlWordsFrom 0 ?ws s) a"
    by (intro control_word_cong)
  also have "\<dots> = word_value (?ws ! a)"
    using a by (intro control_word_setControlWordsFrom [OF cycle_wf_bound [OF wf]]) auto
  finally show ?thesis using a by simp
qed

lemma batch_loop_wiring:
  assumes "batch_loop c now axes (s, bc0, bad0) = Inr (s', bc, bad)"
  shows "wiring s' = wiring s"
  using batch_loop_complete [OF assms] batch_same_cong(5) by blast

lemma up_updateBatch:
  assumes "cycle_wf c s"
  shows "up c s (updateBatch c now s)"
proof (cases "batch_loop c now [0..<length (cia402_axes s)] (s, True, None)")
  case (Inl s')
  from batch_loop_Inl [OF Inl] obtain t axis where t: "batch_same s t"
    "length (command_interfaces t) = length (command_interfaces s)"
    "s' = failEnable c Stage_kModeMismatch (int axis) now t" by blast
  show ?thesis
    using Inl t(3) up_failEnable_wired [OF assms batch_same_cong(5) [OF t(1,2)]]
    by (simp add: updateBatch_def)
next
  case (Inr r)
  obtain s' bc bad where r: "r = (s', bc, bad)" by (cases r)
  note loop = Inr [unfolded r]
  note fail = up_failEnable_wired [OF assms batch_loop_wiring [OF loop]]
  show ?thesis
  proof (cases bad)
    case (Some axis)
    then show ?thesis using Inr r fail by (simp add: updateBatch_def)
  next
    case None
    from batch_loop_complete [OF loop] have same: "batch_same s s'"
      and ok: "find (axis_invalid c s) [0..<length (cia402_axes s)] = None"
      using None by auto
    have "up c s s'"
      unfolding words_in_def batch_same_fields(2) [OF same]
    proof (intro allI impI)
      fix a assume a: "a < length (cia402_axes s)"
      with ok have "\<not> axis_invalid c s a" by (auto simp: find_None_iff)
      then show "\<exists>w \<in> enable_words c s a. control_word s' a = word_value w"
        using batch_loop_control_word [OF loop assms a] by (auto simp: enable_words_def)
    qed
    moreover have "words_in V (s'\<lparr>device_stage := b, stage_deadline_ns := d\<rparr>) = words_in V s'"
      "words_in V (s'\<lparr>phase := p, enable_hardware_ready := b\<rparr>) = words_in V s'"
      "words_in V (s'\<lparr>stage_deadline_ns := d, phase := p\<rparr>) = words_in V s'" for V b d p
      by (rule words_in_cong; simp)+
    ultimately show ?thesis
      using Inr r None fail by (simp add: updateBatch_def batchTimeout_def Let_def)
  qed
qed

lemma up_updateInterBatchDelay:
  assumes "cycle_wf c s"
  shows "up c s (updateInterBatchDelay c now s)"
proof -
  define s1 where "s1 = setControlWordsFrom 0
    (map (\<lambda>st. if st = kOperationEnabled then 0x000F else 0x0000) (axis_states s)) s"
  have "up c s s1"
    unfolding s1_def using assms by (intro words_in_setStates) (auto simp: enable_words_def down_words_def)
  moreover have "words_in V (s1\<lparr>current_batch := k, stage_deadline_ns := d, phase := p\<rparr>) = words_in V s1" for V k d p
    by (rule words_in_cong) simp_all
  ultimately show ?thesis
    unfolding updateInterBatchDelay_def Let_def s1_def [symmetric] by simp
qed

end
