(* ===== verification/EnableDispatch.thy ===== *)
theory EnableDispatch
  imports EnableWords
begin

text \<open>
  The control words and the wiring for the rest of the cycle: the gate on the state sources, the
  fault checks of \<open>updateEnable\<close>, the fault reset, the supervision and the dispatch on the phase.
\<close>

subsection \<open>Enabling\<close>

lemma wiring_updateInterBatchDelay [simp, frame]: "wiring (updateInterBatchDelay c now s) = wiring s"
proof -
  have "wiring (t\<lparr>current_batch := k, stage_deadline_ns := d, phase := p\<rparr>) = wiring t" for t k d p
    by (simp add: wiring_def)
  then show ?thesis by (simp add: updateInterBatchDelay_def Let_def)
qed

lemma wiring_updateBatch [simp, frame]: "wiring (updateBatch c now s) = wiring s"
proof (cases "batch_loop c now [0..<length (cia402_axes s)] (s, True, None)")
  case (Inl s')
  then obtain t axis where t: "batch_same s t"
    "length (command_interfaces t) = length (command_interfaces s)"
    "s' = failEnable c Stage_kModeMismatch (int axis) now t"
    using batch_loop_Inl by blast
  then show ?thesis using Inl batch_same_cong(5) [OF t(1,2)] by (simp add: updateBatch_def)
next
  case (Inr r)
  obtain s' bc bad where r: "r = (s', bc, bad)" by (cases r)
  have "wiring (t\<lparr>device_stage := b, stage_deadline_ns := d\<rparr>) = wiring t"
    "wiring (t\<lparr>phase := p, enable_hardware_ready := b\<rparr>) = wiring t"
    "wiring (t\<lparr>stage_deadline_ns := d, phase := p\<rparr>) = wiring t" for t b d p
    by (simp_all add: wiring_def)
  then show ?thesis
    using Inr batch_loop_wiring [OF Inr [unfolded r]]
    by (cases bad) (simp_all add: updateBatch_def batchTimeout_def Let_def r)
qed

text \<open>What the gate does to a state it lets pass: it only touches its own three fields.\<close>

definition gate_same :: "em \<Rightarrow> em \<Rightarrow> bool" where
  "gate_same s t \<longleftrightarrow>
     s\<lparr>ready_since_ns := 0, state_sources_qualified := False, stage_deadline_ns := 0\<rparr> =
     t\<lparr>ready_since_ns := 0, state_sources_qualified := False, stage_deadline_ns := 0\<rparr>"

lemma gate_same_fields:
  assumes "gate_same s t"
  shows "cia402_axes t = cia402_axes s" "command_interfaces t = command_interfaces s"
    "phase t = phase s" "wiring t = wiring s" "current_batch t = current_batch s"
    "actual_modes t = actual_modes s" "status_words t = status_words s"
    "handshake_devices t = handshake_devices s" "device_stage t = device_stage s"
proof -
  note eq = sym [OF assms [unfolded gate_same_def]]
  show "cia402_axes t = cia402_axes s" using arg_cong [OF eq, of cia402_axes] by simp
  show "command_interfaces t = command_interfaces s" using arg_cong [OF eq, of command_interfaces] by simp
  show "phase t = phase s" using arg_cong [OF eq, of phase] by simp
  show "wiring t = wiring s" using arg_cong [OF eq, of wiring] by (simp add: wiring_def)
  show "current_batch t = current_batch s" using arg_cong [OF eq, of current_batch] by simp
  show "actual_modes t = actual_modes s" using arg_cong [OF eq, of actual_modes] by simp
  show "status_words t = status_words s" using arg_cong [OF eq, of status_words] by simp
  show "handshake_devices t = handshake_devices s" using arg_cong [OF eq, of handshake_devices] by simp
  show "device_stage t = device_stage s" using arg_cong [OF eq, of device_stage] by simp
qed

lemma readyGate_Inr: "readyGate c now s = Inr t \<Longrightarrow> gate_same s t"
  by (auto simp: readyGate_def Let_def gate_same_def split: if_splits)

lemma readyGate_Inl:
  assumes "readyGate c now s = Inl t"
  shows "\<exists>s1. gate_same s s1 \<and>
    (t = failEnable c Stage_kStateSourcesNotReady (-1) now s1 \<or>
     t = setAllControlWords 0x0000 s1 \<or>
     t = failEnable c Stage_kStateSourcesNotReady (-1) now (setAllControlWords 0x0000 s1))"
proof -
  have same: "gate_same s s" "gate_same s (s\<lparr>ready_since_ns := d\<rparr>)" for d
    by (simp_all add: gate_same_def)
  from assms show ?thesis
    unfolding readyGate_def Let_def by (auto split: if_splits intro: same exI)
qed

lemma wiring_readyGate_Inl: "readyGate c now s = Inl t \<Longrightarrow> wiring t = wiring s"
  using readyGate_Inl [of c now s t] gate_same_fields(4) [of s] by auto

lemma up_readyGate_Inl:
  assumes "readyGate c now s = Inl t" "cycle_wf c s"
  shows "up c s t"
proof -
  from readyGate_Inl [OF assms(1)] obtain s1 where s1: "gate_same s s1"
    "t = failEnable c Stage_kStateSourcesNotReady (-1) now s1 \<or>
     t = setAllControlWords 0x0000 s1 \<or>
     t = failEnable c Stage_kStateSourcesNotReady (-1) now (setAllControlWords 0x0000 s1)" by blast
  note wi = gate_same_fields(4) [OF s1(1)]
  have "up c s (setAllControlWords 0x0000 s1)"
    by (rule words_in_setAll [OF cycle_wf_cong [OF assms(2) wi]]) simp
  with s1(2) show ?thesis
    using up_failEnable_wired [OF assms(2)] wi by auto
qed

text \<open>The part of \<open>updateEnable\<close> behind the fault checks.\<close>

definition enable_step :: "em_cfg \<Rightarrow> int \<Rightarrow> phase \<Rightarrow> em \<Rightarrow> em" where
  "enable_step c now p s =
    (case lostConfirmed c s of
       Some (stage, axis) \<Rightarrow> failEnable c stage (int axis) now s
     | None \<Rightarrow>
         (case readyGate c now s of
            Inl s1 \<Rightarrow> s1
          | Inr s1 \<Rightarrow>
              if p = Phase_kInterBatchDelay then updateInterBatchDelay c now s1
              else if device_stage s1 then updateDeviceEnable c now s1
              else updateBatch c now s1))"

definition enable_fault :: "em \<Rightarrow> (int \<times> u16) option" where
  "enable_fault s =
    (case first_index isFaultState (axis_states s) of
       Some axis \<Rightarrow> Some (int axis, status_words s ! axis)
     | None \<Rightarrow> if anyDeviceFaulted s then Some (-1, 0) else None)"

definition note_preempt :: "em \<Rightarrow> em" where
  "note_preempt s = (if disable_request s then s\<lparr>enable_preempt_requested := True\<rparr> else s)"

lemma updateEnable_cases:
  "updateEnable c now s =
    (case enable_fault (note_preempt s) of
       Some (axis, w) \<Rightarrow> updateEmergencyQuickStop c now
         (startEmergency c Stage_kFaultDetected axis w now (note_preempt s\<lparr>disable_request := False\<rparr>))
     | None \<Rightarrow> enable_step c now (phase s) (note_preempt s))"
  unfolding updateEnable_def Let_def note_preempt_def [symmetric] enable_fault_def
    enable_step_def [symmetric]
  by (cases "first_index isFaultState (axis_states (note_preempt s))")
     (simp_all only: option.case prod.case if_distrib split: if_split, simp_all)

lemma note_preempt_frame [simp]:
  "wiring (note_preempt s) = wiring s" "axis_states (note_preempt s) = axis_states s"
  "handshake_devices (note_preempt s) = handshake_devices s" "phase (note_preempt s) = phase s"
  "status_words (note_preempt s) = status_words s" "cia402_axes (note_preempt s) = cia402_axes s"
  "command_interfaces (note_preempt s) = command_interfaces s"
  by (simp_all add: note_preempt_def wiring_def axis_states_def)

lemma wiring_disable_request [simp]: "wiring (s\<lparr>disable_request := b\<rparr>) = wiring s"
  by (simp add: wiring_def)

lemma wiring_enable_step [simp, frame]: "wiring (enable_step c now p s) = wiring s"
proof (cases "lostConfirmed c s")
  case (Some sa)
  then show ?thesis by (cases sa) (simp add: enable_step_def)
next
  case None
  then show ?thesis
    using wiring_readyGate_Inl [of c now s] gate_same_fields(4) [OF readyGate_Inr, of c now s]
    by (cases "readyGate c now s") (simp_all add: enable_step_def)
qed

lemma up_enable_step:
  assumes "cycle_wf c s"
  shows "up c s (enable_step c now p s)"
proof (cases "lostConfirmed c s")
  case (Some sa)
  then show ?thesis using up_failEnable [OF assms] by (cases sa) (simp add: enable_step_def)
next
  case None
  show ?thesis
  proof (cases "readyGate c now s")
    case (Inl t)
    with None show ?thesis using up_readyGate_Inl [OF Inl assms] by (simp add: enable_step_def)
  next
    case (Inr t)
    note same = gate_same_fields [OF readyGate_Inr [OF Inr]]
    have wf: "cycle_wf c t" by (rule cycle_wf_cong [OF assms same(4)])
    have st: "axis_states t = axis_states s" by (rule wiring_states [OF same(4)])
    show ?thesis
      using None Inr up_updateInterBatchDelay [OF wf, of now] up_updateDeviceEnable [OF wf, of now]
        up_updateBatch [OF wf, of now]
      unfolding enable_words_cong [OF st same(5)] by (simp add: enable_step_def)
  qed
qed

lemma emergency_words:
  assumes "cycle_wf c s" "wiring t = wiring s"
  shows "words_in (\<lambda>a. {quick_stop_command (axis_states s ! a)}) (updateEmergencyQuickStop c now t)"
  using words_in_updateEmergencyQuickStop [OF cycle_wf_cong [OF assms], of now]
  unfolding wiring_states [OF assms(2)] .

lemma words_in_updateEnable:
  assumes "cycle_wf c s"
  shows "words_in (\<lambda>a. insert (quick_stop_command (axis_states s ! a)) (enable_words c s a)) (updateEnable c now s)"
proof (cases "enable_fault (note_preempt s)")
  case None
  have st: "axis_states (note_preempt s) = axis_states s" "current_batch (note_preempt s) = current_batch s"
    by simp (simp add: note_preempt_def)
  have "cycle_wf c (note_preempt s)" using assms by (rule cycle_wf_cong) simp
  from up_enable_step [OF this, of now "phase s"] None have "up c s (updateEnable c now s)"
    unfolding enable_words_cong [OF st] by (simp add: updateEnable_cases)
  then show ?thesis by (rule words_in_mono) auto
next
  case (Some aw)
  obtain axis w where aw: "aw = (axis, w)" by (cases aw)
  have "words_in (\<lambda>a. {quick_stop_command (axis_states s ! a)}) (updateEnable c now s)"
    using Some by (simp add: updateEnable_cases aw emergency_words [OF assms])
  then show ?thesis by (rule words_in_mono) simp
qed

lemma legal_updateEnable: "cycle_wf c s \<Longrightarrow> legal s (updateEnable c now s)"
  by (rule words_in_mono [OF words_in_updateEnable])
     (auto simp: quick_stop_legal intro: subsetD [OF enable_words_legal])

lemma wiring_updateEnable [simp, frame]: "wiring (updateEnable c now s) = wiring s"
  by (simp add: updateEnable_cases split: option.splits prod.splits)

text \<open>With a fault anywhere, the enabling cycle is the quick stop.\<close>

lemma updateEnable_fault:
  assumes "cycle_wf c s" "anyDeviceFaulted s \<or> list_ex isFaultState (axis_states s)"
  shows "words_in (\<lambda>a. {quick_stop_command (axis_states s ! a)}) (updateEnable c now s)"
proof -
  have "first_index isFaultState (axis_states s) = None \<Longrightarrow> anyDeviceFaulted s"
    using assms(2) by (auto simp: list_ex_iff first_index_None)
  then have "enable_fault (note_preempt s) \<noteq> None"
    by (auto simp: enable_fault_def anyDeviceFaulted_def split: option.splits)
  then obtain axis w where "enable_fault (note_preempt s) = Some (axis, w)" by auto
  then show ?thesis by (simp add: updateEnable_cases emergency_words [OF assms(1)])
qed

subsection \<open>Fault reset\<close>

lemma wiring_reset_targets: "length r = length (reset_targets s) \<Longrightarrow> wiring (s\<lparr>reset_targets := r\<rparr>) = wiring s"
  by (simp add: wiring_def)

lemma cycle_wf_targets: "cycle_wf c s \<Longrightarrow> length (reset_targets s) = length (cia402_axes s)"
  by (simp add: cycle_wf_def em_wf_def)

definition reset_words :: "em \<Rightarrow> nat \<Rightarrow> u16 set" where
  "reset_words s a = (if reset_targets s ! a \<and> axis_states s ! a = kFault then {0x0000, 0x0080} else {0x0000})"

lemma wiring_small [simp]:
  "wiring (s\<lparr>stage_deadline_ns := d, phase := p\<rparr>) = wiring s"
  "wiring (s\<lparr>stage_deadline_ns := d\<rparr>) = wiring s"
  "wiring (s\<lparr>phase := p, owner := r\<rparr>) = wiring s"
  "wiring (s\<lparr>phase := p\<rparr>) = wiring s"
  "wiring (s\<lparr>owner := r\<rparr>) = wiring s"
  "wiring (s\<lparr>owner := r, primary := q\<rparr>) = wiring s"
  "wiring (publishResult slot ok st b j w s) = wiring s"
  "wiring (recordFailure c st b j w s) = wiring s"
  "wiring (set_primary st b j w s) = wiring s"
  "wiring (clearFailure s) = wiring s"
  "wiring (startDeviceResets s) = wiring s"
  by (simp_all add: wiring_def small_ops)

lemma words_in_small [simp]:
  "words_in W (s\<lparr>stage_deadline_ns := d, phase := p\<rparr>) = words_in W s"
  "words_in W (s\<lparr>stage_deadline_ns := d\<rparr>) = words_in W s"
  "words_in W (s\<lparr>phase := p, owner := r\<rparr>) = words_in W s"
  "words_in W (s\<lparr>phase := p\<rparr>) = words_in W s"
  "words_in W (s\<lparr>owner := r\<rparr>) = words_in W s"
  "words_in W (s\<lparr>owner := r, primary := q\<rparr>) = words_in W s"
  "words_in W (s\<lparr>reset_targets := rt\<rparr>) = words_in W s"
  "words_in W (s\<lparr>disable_request := b\<rparr>) = words_in W s"
  "words_in W (publishResult slot ok st bt j w s) = words_in W s"
  "words_in W (recordFailure c st bt j w s) = words_in W s"
  "words_in W (set_primary st bt j w s) = words_in W s"
  "words_in W (clearFailure s) = words_in W s"
  "words_in W (startDeviceResets s) = words_in W s"
  "words_in W (requestDevicesEnable b s) = words_in W s"
  by (rule words_in_cong; simp add: small_ops)+

lemma updateReset_parts:
  assumes "cycle_wf c s"
  shows "wiring (updateReset c now s) = wiring s \<and> words_in (reset_words s) (updateReset c now s)"
proof -
  note len = cycle_wf_targets [OF assms] cycle_wf_states [OF assms]
  define words where "words = map2 (\<lambda>target st. if target \<and> st = kFault then 0x0080 else 0x0000 :: u16)
    (reset_targets s) (axis_states s)"
  define t where "t = (setControlWordsFrom 0 words s)
    \<lparr>reset_targets := map2 (\<lambda>target st. target \<and> isFaultState st) (reset_targets s) (axis_states s)\<rparr>"
  have wi: "wiring t = wiring s"
    unfolding t_def using len
    by (subst wiring_reset_targets) (simp add: setControlWordsFrom_eq, simp)
  have words: "words_in (reset_words s) t"
    unfolding t_def words_def words_in_small using len
    by (intro words_in_setFrom [OF assms]) (auto simp: reset_words_def)
  have zero: "words_in (reset_words s) (setAllControlWords 0x0000 u)" if "wiring u = wiring s" for u
    using that by (intro words_in_setAll [OF cycle_wf_cong [OF assms that]]) (simp add: reset_words_def)
  show ?thesis
    unfolding updateReset_def Let_def words_def [symmetric] t_def [symmetric]
    using wi words zero by simp
qed

lemma wiring_updateReset: "cycle_wf c s \<Longrightarrow> wiring (updateReset c now s) = wiring s"
  and words_in_updateReset: "cycle_wf c s \<Longrightarrow> words_in (reset_words s) (updateReset c now s)"
  using updateReset_parts by blast+

lemma legal_updateReset: "cycle_wf c s \<Longrightarrow> legal s (updateReset c now s)"
  by (rule words_in_mono [OF words_in_updateReset]) (auto simp: reset_words_def)

subsection \<open>Idle and failed\<close>

lemma rejectIfOffline_frame:
  "wiring (snd (rejectIfOffline slot s)) = wiring s"
  "words_in W (snd (rejectIfOffline slot s)) = words_in W s"
  "phase (snd (rejectIfOffline slot s)) = phase s"
proof -
  have fields: "wiring (s\<lparr>offline_feedback := k\<rparr>) = wiring s"
    "words_in W (s\<lparr>offline_feedback := k\<rparr>) = words_in W s" for k
    by (simp add: wiring_def) (rule words_in_cong; simp)
  show "wiring (snd (rejectIfOffline slot s)) = wiring s"
    "words_in W (snd (rejectIfOffline slot s)) = words_in W s"
    by (simp_all add: rejectIfOffline_def Let_def fields)
  show "phase (snd (rejectIfOffline slot s)) = phase s"
    by (simp add: rejectIfOffline_def small_ops)
qed

lemma acceptReset_parts:
  assumes "cycle_wf c s" "words_in (\<lambda>_. {0x0000}) s"
  shows "wiring (acceptReset s) = wiring s \<and> words_in (\<lambda>_. {0x0000}) (acceptReset s)"
proof -
  obtain rejected t where rt: "rejectIfOffline ResetSlot s = (rejected, t)"
    by (cases "rejectIfOffline ResetSlot s")
  have wi: "wiring t = wiring s" and wo: "words_in (\<lambda>_. {0x0000}) t"
    using rejectIfOffline_frame [where slot = ResetSlot and s = s] assms(2) by (simp_all add: rt)
  have wf: "cycle_wf c t" using assms(1) wi by (rule cycle_wf_cong)
  have mark: "wiring (markResetTargets t) = wiring s"
    using wi cycle_wf_targets [OF wf] cycle_wf_states [OF wf]
    by (simp add: markResetTargets_def wiring_reset_targets)
  have mark_wo: "words_in (\<lambda>_. {0x0000}) (markResetTargets t)"
    using wo by (simp add: markResetTargets_def)
  have zero: "words_in (\<lambda>_. {0x0000}) (setAllControlWords 0x0000 u)" if "wiring u = wiring s" for u
    using that by (intro words_in_setAll [OF cycle_wf_cong [OF assms(1) that]]) simp
  show ?thesis
    using wi wo mark mark_wo zero by (simp add: acceptReset_def rt Let_def)
qed

lemma wiring_acceptEnable [simp]: "wiring (acceptEnable c now s) = wiring s"
  and words_in_acceptEnable [simp]: "words_in W (acceptEnable c now s) = words_in W s"
proof -
  obtain rejected t where rt: "rejectIfOffline EnableSlot s = (rejected, t)"
    by (cases "rejectIfOffline EnableSlot s")
  have t: "wiring t = wiring s" "words_in W t = words_in W s"
    using rejectIfOffline_frame [where slot = EnableSlot and s = s] by (simp_all add: rt)
  show "wiring (acceptEnable c now s) = wiring s"
    using t(1) by (simp add: acceptEnable_def rt) (simp add: wiring_def)
  have "words_in W (acceptEnable c now s) = words_in W t"
    by (rule words_in_cong) (simp_all add: acceptEnable_def rt)
  then show "words_in W (acceptEnable c now s) = words_in W s" using t(2) by simp
qed

lemma zeroed_parts:
  assumes "cycle_wf c s"
  shows "wiring (requestDevicesEnable False (setAllControlWords 0x0000 s)) = wiring s"
    "words_in (\<lambda>_. {0x0000}) (requestDevicesEnable False (setAllControlWords 0x0000 s))"
    "phase (requestDevicesEnable False (setAllControlWords 0x0000 s)) = phase s"
  by (simp_all add: words_in_setAll [OF assms]) (simp add: small_ops setAllControlWords_eq)

lemma request_frame [simp]:
  "wiring (s\<lparr>enable_request := b\<rparr>) = wiring s" "words_in W (s\<lparr>enable_request := b\<rparr>) = words_in W s"
  "wiring (s\<lparr>reset_request := b\<rparr>) = wiring s" "words_in W (s\<lparr>reset_request := b\<rparr>) = words_in W s"
  by (simp_all add: wiring_def) (rule words_in_cong; simp)+

lemma updateIdle_parts:
  assumes "cycle_wf c s"
  shows "wiring (updateIdle c now s) = wiring s \<and> words_in (\<lambda>_. {0x0000}) (updateIdle c now s)"
proof -
  define t where "t = requestDevicesEnable False (setAllControlWords 0x0000 s)"
  note t = zeroed_parts(1,2) [OF assms, folded t_def]
  have wi: "wiring (t\<lparr>reset_request := False\<rparr>) = wiring s" using t(1) by simp
  have "words_in (\<lambda>_. {0x0000}) (t\<lparr>reset_request := False\<rparr>)" using t(2) by simp
  from acceptReset_parts [OF cycle_wf_cong [OF assms wi] this]
  show ?thesis unfolding updateIdle_def Let_def t_def [symmetric] using t by simp
qed

lemma updateFailed_parts:
  assumes "cycle_wf c s"
  shows "wiring (updateFailed c now s) = wiring s \<and> words_in (\<lambda>_. {0x0000}) (updateFailed c now s)"
proof -
  define t where "t = requestDevicesEnable False (setAllControlWords 0x0000 s)"
  note t = zeroed_parts(1,2) [OF assms, folded t_def]
  have wi: "wiring (t\<lparr>reset_request := False\<rparr>) = wiring s" using t(1) by simp
  have "words_in (\<lambda>_. {0x0000}) (t\<lparr>reset_request := False\<rparr>)" using t(2) by simp
  from acceptReset_parts [OF cycle_wf_cong [OF assms wi] this]
  show ?thesis unfolding updateFailed_def Let_def t_def [symmetric] using t by simp
qed

subsection \<open>Running\<close>

lemma wiring_updateEnabled [simp]: "wiring (updateEnabled c now s) = wiring s"
proof -
  have "wiring (t\<lparr>motion_fault_pending := b\<rparr>) = wiring t" for t b by (simp add: wiring_def)
  then show ?thesis by (simp add: updateEnabled_def Let_def)
qed

lemma words_in_updateEnabled [simp]: "words_in W (updateEnabled c now s) = words_in W (setAllControlWords 0x000F s)"
proof -
  have "words_in W (t\<lparr>motion_fault_pending := b\<rparr>) = words_in W t" for t b by (rule words_in_cong) simp_all
  then show ?thesis by (simp add: updateEnabled_def Let_def)
qed

lemma updateJtcActivating_parts:
  "wiring (updateJtcActivating c now s) = wiring s"
  "words_in W (updateJtcActivating c now s) =
     words_in W (if jtc_activate_failed_request s then s else setAllControlWords 0x000F s)"
proof -
  have fields: "wiring (t\<lparr>jtc_activate_failed_request := b\<rparr>) = wiring t"
    "wiring (t\<lparr>jtc_activated_request := b\<rparr>) = wiring t"
    "wiring (t\<lparr>current_control_mode := m\<rparr>) = wiring t" for t b m
    by (simp_all add: wiring_def)
  show "wiring (updateJtcActivating c now s) = wiring s"
    by (simp add: updateJtcActivating_def Let_def fields)
  have "words_in W (t\<lparr>jtc_activate_failed_request := b\<rparr>) = words_in W t"
    "words_in W (t\<lparr>jtc_activated_request := b\<rparr>) = words_in W t"
    "words_in W (t\<lparr>current_control_mode := m\<rparr>) = words_in W t" for t b m
    by (rule words_in_cong; simp)+
  then show "words_in W (updateJtcActivating c now s) =
     words_in W (if jtc_activate_failed_request s then s else setAllControlWords 0x000F s)"
    by (simp add: updateJtcActivating_def Let_def)
qed

end
