(* ===== verification/EnableUpdate.thy ===== *)
theory EnableUpdate
  imports EnableDispatch
begin

text \<open>
  Whole control cycles of the enable manager: the supervision, the dispatch on the phase, the
  output of the devices and drive modes, the invariant \<open>em_inv\<close> of the states between cycles, and
  the safety properties of a cycle.
\<close>

subsection \<open>Supervision\<close>

definition running :: "phase \<Rightarrow> bool" where
  "running p = (p \<in> {Phase_kEnabled, Phase_kJtcActivating, Phase_kJtcDeactivating})"

lemma running_simps [simp, phase_simps]:
  "running Phase_kEnabled" "running Phase_kJtcActivating" "running Phase_kJtcDeactivating"
  "\<not> running Phase_kInactive" "\<not> running Phase_kStartupSanitizing" "\<not> running Phase_kIdle"
  "\<not> running Phase_kEnabling" "\<not> running Phase_kInterBatchDelay" "\<not> running Phase_kDisabling"
  "\<not> running Phase_kRollback" "\<not> running Phase_kResetLow" "\<not> running Phase_kResetHigh"
  "\<not> running Phase_kResetDisabling" "\<not> running Phase_kEmergencyQuickStop"
  "\<not> running Phase_kEmergencyDisable" "\<not> running Phase_kFailed"
  by (simp_all add: running_def)

text \<open>Nothing is wrong: what the supervision asks of a running group.\<close>

definition group_ok :: "em_cfg \<Rightarrow> int \<Rightarrow> em \<Rightarrow> bool" where
  "group_ok c offline s =
    (offline < 0 \<and> (\<forall>axis < length (cia402_axes s). axis_alarm c s axis = None) \<and> allDevicesEnabled s)"

lemma startEmergency_frame [simp]:
  "words_in W (startEmergency c st j w now s) = words_in W s"
  "phase (startEmergency c st j w now s) = Phase_kEmergencyQuickStop"
  by (rule words_in_cong; simp add: startEmergency_def small_ops) (simp add: startEmergency_def small_ops)

definition group_alarm :: "em_cfg \<Rightarrow> int \<Rightarrow> em \<Rightarrow> (stage \<times> int \<times> u16) option" where
  "group_alarm c offline s =
    (if 0 \<le> offline then Some (Stage_kDeviceOffline, -1, 0)
     else case first_index (\<lambda>axis. axis_alarm c s axis \<noteq> None) [0..<length (cia402_axes s)] of
            Some axis \<Rightarrow> Some (the (axis_alarm c s axis), int axis, status_words s ! axis)
          | None \<Rightarrow>
              if \<not> allDevicesEnabled s
              then Some (if anyDeviceFaulted s then Stage_kFaultDetected else Stage_kUnexpectedDriveState, -1, 0)
              else None)"

definition note_offline :: "int \<Rightarrow> em \<Rightarrow> em" where
  "note_offline offline s =
     (if 0 \<le> offline then s\<lparr>offline_feedback := offline, restart_required := True\<rparr> else s)"

lemma supervise_cases:
  "supervise c offline now s =
    (case (if running (phase s) then group_alarm c offline s else None) of
       None \<Rightarrow> (phase s, s)
     | Some (st, j, w) \<Rightarrow>
         (Phase_kEmergencyQuickStop, startEmergency c st j w now (note_offline offline s)))"
  unfolding supervise_def running_def [symmetric] group_alarm_def note_offline_def
  by (simp split: option.split)

lemma group_alarm_None: "group_alarm c offline s = None \<longleftrightarrow> group_ok c offline s"
proof (cases "first_index (\<lambda>axis. axis_alarm c s axis \<noteq> None) [0..<length (cia402_axes s)]")
  case None
  then have "\<forall>axis < length (cia402_axes s). axis_alarm c s axis = None"
    by (simp add: first_index_None)
  then show ?thesis unfolding group_alarm_def group_ok_def None option.case by auto
next
  case (Some axis)
  have "axis < length (cia402_axes s)" using first_index_Some(1) [OF Some] by simp
  moreover from this have "[0..<length (cia402_axes s)] ! axis = axis" by simp
  ultimately have "\<not> (\<forall>axis < length (cia402_axes s). axis_alarm c s axis = None)"
    using first_index_Some(2) [OF Some] by metis
  then show ?thesis unfolding group_alarm_def group_ok_def Some option.case by simp
qed

lemma group_alarm_stage:
  assumes "group_alarm c offline s = Some (st, j, w)"
  shows "st \<in> {Stage_kDeviceOffline, Stage_kFaultDetected, Stage_kUnexpectedDriveState, Stage_kModeMismatch}"
    "st = Stage_kDeviceOffline \<longleftrightarrow> 0 \<le> offline"
proof -
  have alarm: "the (axis_alarm c s axis) \<in> {Stage_kFaultDetected, Stage_kUnexpectedDriveState, Stage_kModeMismatch}"
    if "axis_alarm c s axis \<noteq> None" for axis
    using that by (auto simp: axis_alarm_def Let_def split: if_splits)
  have "the (axis_alarm c s axis) \<in> {Stage_kFaultDetected, Stage_kUnexpectedDriveState, Stage_kModeMismatch}"
    if "first_index (\<lambda>axis. axis_alarm c s axis \<noteq> None) [0..<length (cia402_axes s)] = Some axis" for axis
    using alarm first_index_Some(1,2) [OF that] by simp
  with assms show "st \<in> {Stage_kDeviceOffline, Stage_kFaultDetected, Stage_kUnexpectedDriveState, Stage_kModeMismatch}"
    "st = Stage_kDeviceOffline \<longleftrightarrow> 0 \<le> offline"
    unfolding group_alarm_def by (force split: if_splits option.splits)+
qed

lemma note_offline_frame [simp]:
  "wiring (note_offline off s) = wiring s" "phase (note_offline off s) = phase s"
  "words_in W (note_offline off s) = words_in W s"
  by (simp_all add: note_offline_def wiring_def) (rule impI, rule words_in_cong; simp)

lemma group_ok_enabled: "group_ok c offline s \<Longrightarrow> a < length (cia402_axes s) \<Longrightarrow> axis_states s ! a = kOperationEnabled"
  unfolding group_ok_def axis_alarm_def Let_def by (metis option.distinct(1))

subsection \<open>Supervision and dispatch\<close>

definition react :: "em_cfg \<Rightarrow> int \<Rightarrow> em \<Rightarrow> em" where
  "react c now s = (let (p, s2) = supervise c (offline_now s) now s in dispatch c now p s2)"

lemma react_cases:
  "react c now s =
    (case (if running (phase s) then group_alarm c (offline_now s) s else None) of
       None \<Rightarrow> dispatch c now (phase s) s
     | Some (st, j, w) \<Rightarrow>
         updateEmergencyQuickStop c now (startEmergency c st j w now (note_offline (offline_now s) s)))"
  by (simp add: react_def supervise_cases dispatch_def split: option.split prod.split)

end
