(* ===== verification/EnablePhases.thy ===== *)
theory EnablePhases
  imports EnableUpdate
begin

text \<open>
  The phase graph of the enable manager: which phases one control cycle can lead to from each
  phase (\<open>phase_next\<close>), and that the cycle stays within it.
\<close>

subsection \<open>The graph\<close>

fun phase_next :: "phase \<Rightarrow> phase set" where
  "phase_next Phase_kInactive = {Phase_kInactive}"
| "phase_next Phase_kStartupSanitizing =
     {Phase_kStartupSanitizing, Phase_kIdle, Phase_kFailed, Phase_kEmergencyQuickStop}"
| "phase_next Phase_kIdle = {Phase_kIdle, Phase_kEnabling, Phase_kResetLow}"
| "phase_next Phase_kEnabling =
     {Phase_kEnabling, Phase_kInterBatchDelay, Phase_kJtcActivating, Phase_kDisabling,
      Phase_kRollback, Phase_kEmergencyQuickStop, Phase_kEmergencyDisable}"
| "phase_next Phase_kInterBatchDelay =
     {Phase_kInterBatchDelay, Phase_kEnabling, Phase_kDisabling, Phase_kRollback,
      Phase_kEmergencyQuickStop, Phase_kEmergencyDisable}"
| "phase_next Phase_kJtcActivating =
     {Phase_kJtcActivating, Phase_kEnabled, Phase_kRollback, Phase_kEmergencyQuickStop,
      Phase_kEmergencyDisable}"
| "phase_next Phase_kEnabled =
     {Phase_kEnabled, Phase_kDisabling, Phase_kEmergencyQuickStop, Phase_kEmergencyDisable}"
| "phase_next Phase_kJtcDeactivating =
     {Phase_kJtcDeactivating, Phase_kDisabling, Phase_kEmergencyQuickStop, Phase_kEmergencyDisable}"
| "phase_next Phase_kDisabling =
     {Phase_kDisabling, Phase_kIdle, Phase_kFailed, Phase_kEmergencyQuickStop}"
| "phase_next Phase_kRollback =
     {Phase_kRollback, Phase_kIdle, Phase_kFailed, Phase_kEmergencyQuickStop}"
| "phase_next Phase_kResetLow = {Phase_kResetHigh, Phase_kDisabling}"
| "phase_next Phase_kResetHigh =
     {Phase_kResetHigh, Phase_kResetDisabling, Phase_kDisabling, Phase_kFailed}"
| "phase_next Phase_kResetDisabling = {Phase_kResetDisabling, Phase_kIdle, Phase_kFailed}"
| "phase_next Phase_kEmergencyQuickStop = {Phase_kEmergencyQuickStop, Phase_kEmergencyDisable}"
| "phase_next Phase_kEmergencyDisable = {Phase_kEmergencyDisable, Phase_kIdle, Phase_kFailed}"
| "phase_next Phase_kFailed = {Phase_kFailed, Phase_kDisabling, Phase_kIdle, Phase_kResetLow}"

definition downward :: "phase \<Rightarrow> bool" where
  "downward p = (p \<in> {Phase_kStartupSanitizing, Phase_kDisabling, Phase_kRollback,
                      Phase_kResetDisabling, Phase_kEmergencyDisable})"

lemma downward_simps [simp, phase_simps]:
  "downward Phase_kStartupSanitizing" "downward Phase_kDisabling" "downward Phase_kRollback"
  "downward Phase_kResetDisabling" "downward Phase_kEmergencyDisable"
  "\<not> downward Phase_kInactive" "\<not> downward Phase_kIdle" "\<not> downward Phase_kEnabling"
  "\<not> downward Phase_kInterBatchDelay" "\<not> downward Phase_kJtcActivating" "\<not> downward Phase_kEnabled"
  "\<not> downward Phase_kJtcDeactivating" "\<not> downward Phase_kResetLow" "\<not> downward Phase_kResetHigh"
  "\<not> downward Phase_kEmergencyQuickStop" "\<not> downward Phase_kFailed"
  by (simp_all add: downward_def)

subsection \<open>Operations that keep the phase\<close>

lemma phase_frame [simp, frame]:
  "phase (setControlWordsFrom a ws s) = phase s"
  "phase (setAllControlWords w s) = phase s"
  "phase (requestDevicesEnable b s) = phase s"
  "phase (publishResult slot ok st bt j w s) = phase s"
  "phase (recordFailure c st bt j w s) = phase s"
  "phase (set_primary st bt j w s) = phase s"
  "phase (clearFailure s) = phase s"
  "phase (publishPrimary slot s) = phase s"
  "phase (startDeviceResets s) = phase s"
  "phase (markResetTargets s) = phase s"
  by (simp_all add: small_ops word_writes)

lemma phase_startDownward [simp]: "phase (startDownward c p now s) = p"
  by (simp add: startDownward_def)

text \<open>The fields of the staged shutdown that the same operations keep.\<close>

lemma stage_frame [simp, frame]:
  "downward_stage (setControlWordsFrom a ws s) = downward_stage s"
  "stage_deadline_ns (setControlWordsFrom a ws s) = stage_deadline_ns s"
  "downward_stage (requestDevicesEnable b s) = downward_stage s"
  "stage_deadline_ns (requestDevicesEnable b s) = stage_deadline_ns s"
  "downward_stage (startDownward c p now s) = 0"
  "stage_deadline_ns (startDownward c p now s) = now + to_ns (disable_stage_timeout_seconds c)"
  "downward_stage (recordFailure c st bt j w s) = downward_stage s"
  "downward_stage (set_primary st bt j w s) = downward_stage s"
  "stage_deadline_ns (recordFailure c st bt j w s) = stage_deadline_ns s"
  "stage_deadline_ns (set_primary st bt j w s) = stage_deadline_ns s"
  by (simp_all add: small_ops word_writes)

subsection \<open>The downward path\<close>

text \<open>\<open>finishDownward\<close> ends the shutdown in \<open>kIdle\<close> or \<open>kFailed\<close> and gives the ownership back.\<close>

lemma finishDownward_phase:
  assumes "downward (phase s)"
  shows "phase (finishDownward c s) \<in> {Phase_kIdle, Phase_kFailed}"
  using assms unfolding downward_def
  by (auto simp: finishDownward_def Let_def)

lemma finishDownward_owner:
  assumes "downward (phase s)"
  shows "owner (finishDownward c s) = Owner_kNone"
  using assms unfolding downward_def
  by (auto simp: finishDownward_def Let_def)

lemma downwardTimeout_phase:
  assumes "downward p" "phase s = p"
  shows "phase (downwardTimeout c p f i now s) \<in>
    (if p = Phase_kResetDisabling then {Phase_kFailed}
     else if p = Phase_kEmergencyDisable then {Phase_kIdle, Phase_kFailed}
     else {Phase_kEmergencyQuickStop})"
  using assms finishDownward_phase
  by (auto simp: downwardTimeout_def Let_def)

text \<open>
  What one cycle of \<open>updateDownward\<close> does to the phase, the stage and the deadline: the shutdown
  ends, moves on a stage with a new deadline, waits with its deadline still ahead, or times out.
\<close>

lemma updateDownward_step:
  assumes "downward (phase s)"
  obtains
    (finish) "phase (updateDownward c now s) \<in> {Phase_kIdle, Phase_kFailed}"
      "2 \<le> downward_stage s \<or> phase s \<in> {Phase_kResetDisabling, Phase_kEmergencyDisable}"
  | (advance) "phase (updateDownward c now s) = phase s" "downward_stage s < 2"
      "downward_stage (updateDownward c now s) = Suc (downward_stage s)"
      "stage_deadline_ns (updateDownward c now s) = now + to_ns (disable_stage_timeout_seconds c)"
  | (wait) "phase (updateDownward c now s) = phase s" "now < stage_deadline_ns s"
      "downward_stage (updateDownward c now s) = downward_stage s"
      "stage_deadline_ns (updateDownward c now s) = stage_deadline_ns s"
  | (timeout) "phase (updateDownward c now s) = Phase_kEmergencyQuickStop"
      "phase s \<notin> {Phase_kResetDisabling, Phase_kEmergencyDisable}"
      "stage_deadline_ns (updateDownward c now s) = now + to_ns (disable_stage_timeout_seconds c)"
proof -
  define s1 where "s1 = requestDevicesEnable False s"
  define s2 where "s2 = setControlWordsFrom 0 (map downward_command (axis_states s1)) s1"
  define fin where "fin = (list_all (\<lambda>d. hd_disabled d \<or> hd_faulted d) (handshake_devices s1)
    \<and> list_all (axis_nonfault_terminal c) (List.enumerate 0 (axis_states s1)))"
  define f where "f = (list_ex hd_faulted (handshake_devices s1) \<or> list_ex isFaultState (axis_states s1))"
  define i where "i = first_index (axis_nonterminal c) (List.enumerate 0 (axis_states s1))"
  define adv where "adv = (if downward_stage s2 = 0 then kOperationEnabled \<notin> set (axis_states s1)
     else if downward_stage s2 = 1 then kOperationEnabled \<notin> set (axis_states s1) \<and> kSwitchedOn \<notin> set (axis_states s1)
     else False)"
  have s2: "phase s2 = phase s" "downward_stage s2 = downward_stage s" "stage_deadline_ns s2 = stage_deadline_ns s"
    by (simp_all add: s2_def s1_def)
  have eq: "updateDownward c now s =
    (if downward_stage s2 \<noteq> 0 \<and> downward_stage s2 \<noteq> 1 \<and> fin then finishDownward c s2
     else if adv then s2\<lparr>downward_stage := downward_stage s2 + 1,
            stage_deadline_ns := now + to_ns (disable_stage_timeout_seconds c)\<rparr>
     else if stage_deadline_ns s2 \<le> now then downwardTimeout c (phase s) f i now s2 else s2)"
    unfolding updateDownward_def Let_def s1_def [symmetric] s2_def [symmetric] fin_def f_def i_def adv_def
    by (simp split: if_split)
  consider "downward_stage s2 \<noteq> 0 \<and> downward_stage s2 \<noteq> 1 \<and> fin"
    | "\<not> (downward_stage s2 \<noteq> 0 \<and> downward_stage s2 \<noteq> 1 \<and> fin)" "adv"
    | "\<not> (downward_stage s2 \<noteq> 0 \<and> downward_stage s2 \<noteq> 1 \<and> fin)" "\<not> adv" "now < stage_deadline_ns s2"
    | "\<not> (downward_stage s2 \<noteq> 0 \<and> downward_stage s2 \<noteq> 1 \<and> fin)" "\<not> adv" "stage_deadline_ns s2 \<le> now"
    by linarith
  then show ?thesis
  proof cases
    case 1
    then show ?thesis
      using finish finishDownward_phase [of s2 c] assms s2 by (simp add: eq)
  next
    case 2
    then have "updateDownward c now s = s2\<lparr>downward_stage := downward_stage s2 + 1,
            stage_deadline_ns := now + to_ns (disable_stage_timeout_seconds c)\<rparr>"
      using eq by (simp only: if_False if_True)
    moreover have "downward_stage s2 < 2" using 2(2) by (simp add: adv_def split: if_splits)
    ultimately show ?thesis using advance s2 by simp
  next
    case 3
    then have "updateDownward c now s = s2" using eq by (simp only: if_False not_le [symmetric])
    then show ?thesis using wait 3 s2 by simp
  next
    case 4
    then have eq4: "updateDownward c now s = downwardTimeout c (phase s) f i now s2"
      using eq by (simp only: if_False if_True)
    have to: "phase (downwardTimeout c (phase s) f i now s2) \<in>
      (if phase s = Phase_kResetDisabling then {Phase_kFailed}
       else if phase s = Phase_kEmergencyDisable then {Phase_kIdle, Phase_kFailed}
       else {Phase_kEmergencyQuickStop})"
      using downwardTimeout_phase [OF assms s2(1)] .
    show ?thesis
    proof (cases "phase s \<in> {Phase_kResetDisabling, Phase_kEmergencyDisable}")
      case True
      then show ?thesis using finish to by (auto simp: eq4 split: if_splits)
    next
      case False
      then have "stage_deadline_ns (downwardTimeout c (phase s) f i now s2) =
          now + to_ns (disable_stage_timeout_seconds c)"
        using s2(1) by (simp add: downwardTimeout_def Let_def)
      then show ?thesis using timeout False to by (simp add: eq4)
    qed
  qed
qed

subsection \<open>The rest of the cycle\<close>

lemma updateDownward_phase:
  assumes "downward (phase s)"
  shows "phase (updateDownward c now s) \<in> phase_next (phase s)"
  using assms
  by (rule updateDownward_step [of s c now]) (use assms in \<open>auto simp: downward_def\<close>)

lemma updateEmergencyQuickStop_phase:
  "phase s = Phase_kEmergencyQuickStop \<Longrightarrow>
     phase (updateEmergencyQuickStop c now s) \<in> {Phase_kEmergencyQuickStop, Phase_kEmergencyDisable}"
  by (simp add: updateEmergencyQuickStop_def Let_def)

text \<open>A failed enable starts a rollback or a shutdown, whose first cycle cannot finish.\<close>

lemma failEnable_phase:
  "phase (failEnable c st axis now s) \<in> {Phase_kDisabling, Phase_kRollback, Phase_kEmergencyQuickStop}"
proof -
  define s1 where "s1 = recordFailure c st (int (current_batch s)) axis
    (if 0 \<le> axis then status_words s ! nat axis else 0)
    (set_primary st (int (current_batch s)) axis (if 0 \<le> axis then status_words s ! nat axis else 0) s)"
  have eq: "failEnable c st axis now s = updateDownward c now
     (if enable_preempt_requested s1
      then startDownward c Phase_kDisabling now
        ((publishResult EnableSlot False st (int (current_batch s)) axis
            (if 0 \<le> axis then status_words s ! nat axis else 0) s1)
           \<lparr>owner := Owner_kDisable, disable_request := False\<rparr>)
      else startDownward c Phase_kRollback now s1)"
    unfolding failEnable_def Let_def s1_def ..
  obtain t p where t: "failEnable c st axis now s = updateDownward c now (startDownward c p now t)"
    "p \<in> {Phase_kDisabling, Phase_kRollback}"
    by (cases "enable_preempt_requested s1") (use eq in \<open>auto simp only: if_True if_False insert_iff\<close>)
  have "downward (phase (startDownward c p now t))" using t(2) by auto
  then show ?thesis
    by (rule updateDownward_step [where c = c and now = now]) (use t in auto)
qed

lemma preemptEnable_phase [simp]: "phase (preemptEnable c now s) = Phase_kDisabling"
  by (simp add: preemptEnable_def)

lemma updateDeviceEnable_phase:
  "phase (updateDeviceEnable c now s) \<in>
     {phase s, Phase_kJtcActivating, Phase_kDisabling, Phase_kRollback, Phase_kEmergencyQuickStop}"
proof (cases "first_index (\<lambda>st. st \<noteq> kOperationEnabled) (axis_states s)")
  case None
  have "phase (failEnable c Stage_kEnableBatchTimeout (-1) now t) \<in>
     {phase s, Phase_kJtcActivating, Phase_kDisabling, Phase_kRollback, Phase_kEmergencyQuickStop}" for t
    using failEnable_phase by blast
  then show ?thesis unfolding updateDeviceEnable_def Let_def None option.case by simp
next
  case (Some axis)
  show ?thesis unfolding updateDeviceEnable_def Some option.case using failEnable_phase by blast
qed

lemma updateInterBatchDelay_phase:
  "phase (updateInterBatchDelay c now s) \<in> {phase s, Phase_kEnabling, Phase_kDisabling}"
  by (simp add: updateInterBatchDelay_def Let_def)

lemma batchTimeout_phase:
  "phase (batchTimeout c now s) \<in> {Phase_kDisabling, Phase_kRollback, Phase_kEmergencyQuickStop}"
  unfolding batchTimeout_def Let_def by (rule failEnable_phase)

lemma updateBatch_phase:
  "phase (updateBatch c now s) \<in>
     {phase s, Phase_kJtcActivating, Phase_kInterBatchDelay, Phase_kDisabling, Phase_kRollback,
      Phase_kEmergencyQuickStop}"
proof (cases "batch_loop c now [0..<length (cia402_axes s)] (s, True, None)")
  case (Inl s')
  then obtain t axis where "s' = failEnable c Stage_kModeMismatch (int axis) now t"
    using batch_loop_Inl by blast
  then show ?thesis using Inl failEnable_phase [of c] by (auto simp: updateBatch_def)
next
  case (Inr r)
  obtain s' bc bad where r: "r = (s', bc, bad)" by (cases r)
  have "phase s' = phase s"
    using batch_loop_complete [OF Inr [unfolded r]] batch_same_fields(1) by blast
  then show ?thesis
    using Inr failEnable_phase [of c] batchTimeout_phase [of c]
    by (auto simp: updateBatch_def r split: option.split)
qed

lemma updateEnable_phase:
  assumes "phase s \<in> {Phase_kEnabling, Phase_kInterBatchDelay}"
  shows "phase (updateEnable c now s) \<in> phase_next (phase s)"
proof (cases "enable_fault (note_preempt s)")
  case (Some aw)
  then show ?thesis
    using assms updateEmergencyQuickStop_phase [of "startEmergency c Stage_kFaultDetected (fst aw) (snd aw) now
      (note_preempt s\<lparr>disable_request := False\<rparr>)" c now]
    by (auto simp: updateEnable_cases split: prod.split)
next
  case None
  show ?thesis
  proof (cases "lostConfirmed c (note_preempt s)")
    case (Some sa)
    then show ?thesis
      using None assms failEnable_phase [of c "fst sa" "int (snd sa)" now "note_preempt s"]
      by (auto simp: updateEnable_cases enable_step_def split: prod.split)
  next
    case lost: None
    show ?thesis
    proof (cases "readyGate c now (note_preempt s)")
      case (Inl t)
      then obtain s1 where s1: "gate_same (note_preempt s) s1"
        "t = failEnable c Stage_kStateSourcesNotReady (-1) now s1 \<or>
         t = setAllControlWords 0x0000 s1 \<or>
         t = failEnable c Stage_kStateSourcesNotReady (-1) now (setAllControlWords 0x0000 s1)"
        using readyGate_Inl by blast
      have "phase s1 = phase s" using gate_same_fields(3) [OF s1(1)] by simp
      then have "phase t \<in> {phase s, Phase_kDisabling, Phase_kRollback, Phase_kEmergencyQuickStop}"
        using s1(2) failEnable_phase [of c] by auto
      then show ?thesis
        using None lost Inl assms by (auto simp: updateEnable_cases enable_step_def)
    next
      case (Inr t)
      have "phase t = phase s" using gate_same_fields(3) [OF readyGate_Inr [OF Inr]] by simp
      then show ?thesis
        using None lost Inr assms updateInterBatchDelay_phase [of c now t]
          updateDeviceEnable_phase [of c now t] updateBatch_phase [of c now t]
        by (auto simp: updateEnable_cases enable_step_def)
    qed
  qed
qed

lemma updateReset_phase:
  assumes "phase s \<in> {Phase_kResetLow, Phase_kResetHigh}"
  shows "phase (updateReset c now s) \<in> phase_next (phase s)"
  using assms by (auto simp: updateReset_def Let_def)

lemma acceptReset_phase:
  assumes "phase s \<in> {Phase_kIdle, Phase_kFailed}"
  shows "phase (acceptReset s) \<in> {phase s, Phase_kIdle, Phase_kResetLow}"
  using assms rejectIfOffline_frame(3) [of ResetSlot s]
  by (auto simp: acceptReset_def Let_def split: prod.split)

lemma updateIdle_phase:
  assumes "phase s = Phase_kIdle"
  shows "phase (updateIdle c now s) \<in> phase_next (phase s)"
proof -
  define t where "t = requestDevicesEnable False (setAllControlWords 0x0000 s)"
  have t: "phase (t\<lparr>enable_request := False\<rparr>) = Phase_kIdle" "phase (t\<lparr>reset_request := False\<rparr>) = Phase_kIdle"
    "phase t = Phase_kIdle"
    using assms by (simp_all add: t_def)
  have "phase (acceptEnable c now (t\<lparr>enable_request := False\<rparr>)) \<in> {Phase_kIdle, Phase_kEnabling}"
    using rejectIfOffline_frame(3) [of EnableSlot "t\<lparr>enable_request := False\<rparr>"] t(1)
    by (auto simp: acceptEnable_def split: prod.split)
  moreover have "phase (acceptReset (t\<lparr>reset_request := False\<rparr>)) \<in> {Phase_kIdle, Phase_kResetLow}"
    using acceptReset_phase [of "t\<lparr>reset_request := False\<rparr>"] t(2) by simp
  ultimately show ?thesis
    using assms t(3) unfolding updateIdle_def Let_def t_def [symmetric] by auto
qed

lemma updateFailed_phase:
  assumes "phase s = Phase_kFailed"
  shows "phase (updateFailed c now s) \<in> phase_next (phase s)"
proof -
  define t where "t = requestDevicesEnable False (setAllControlWords 0x0000 s)"
  have t: "phase (t\<lparr>reset_request := False\<rparr>) = Phase_kFailed" "phase t = Phase_kFailed"
    using assms by (simp_all add: t_def)
  have "phase (acceptReset (t\<lparr>reset_request := False\<rparr>)) \<in> {Phase_kFailed, Phase_kIdle, Phase_kResetLow}"
    using acceptReset_phase [of "t\<lparr>reset_request := False\<rparr>"] t(1) by simp
  then show ?thesis
    using assms t(2) unfolding updateFailed_def Let_def t_def [symmetric] by auto
qed

lemma updateEnabled_phase: "phase (updateEnabled c now s) \<in> {phase s, Phase_kDisabling}"
  by (simp add: updateEnabled_def Let_def)

lemma updateJtcActivating_phase:
  "phase (updateJtcActivating c now s) \<in> {phase s, Phase_kEnabled, Phase_kRollback}"
  by (simp add: updateJtcActivating_def Let_def)

lemma dispatch_phase: "phase (dispatch c now (phase s) s) \<in> phase_next (phase s)"
proof (cases "phase s")
  case Phase_kStartupSanitizing
  then have "downward (phase (if stage_deadline_ns s = 0 then startDownward c Phase_kStartupSanitizing now s else s))"
    by simp
  from updateDownward_phase [OF this, of c now] Phase_kStartupSanitizing show ?thesis
    by (simp add: dispatch_def split: if_splits)
next
  case Phase_kDisabling
  then have "downward (phase (if stage_deadline_ns s = 0 then startDownward c Phase_kDisabling now s else s))" by simp
  from updateDownward_phase [OF this, of c now] Phase_kDisabling show ?thesis
    by (simp add: dispatch_def split: if_splits)
next
  case Phase_kRollback
  then have "downward (phase (if stage_deadline_ns s = 0 then startDownward c Phase_kRollback now s else s))" by simp
  from updateDownward_phase [OF this, of c now] Phase_kRollback show ?thesis
    by (simp add: dispatch_def split: if_splits)
next
  case Phase_kResetDisabling
  then have "downward (phase (if stage_deadline_ns s = 0 then startDownward c Phase_kResetDisabling now s else s))" by simp
  from updateDownward_phase [OF this, of c now] Phase_kResetDisabling show ?thesis
    by (simp add: dispatch_def split: if_splits)
next
  case Phase_kEmergencyDisable
  then have "downward (phase (if stage_deadline_ns s = 0 then startDownward c Phase_kEmergencyDisable now s else s))" by simp
  from updateDownward_phase [OF this, of c now] Phase_kEmergencyDisable show ?thesis
    by (simp add: dispatch_def split: if_splits)
next
  case Phase_kIdle
  then show ?thesis using updateIdle_phase [of s c now] by (simp add: dispatch_def)
next
  case Phase_kFailed
  then show ?thesis using updateFailed_phase [of s c now] by (simp add: dispatch_def)
next
  case Phase_kEnabling
  then show ?thesis using updateEnable_phase [of s c now] by (simp add: dispatch_def)
next
  case Phase_kInterBatchDelay
  then show ?thesis using updateEnable_phase [of s c now] by (simp add: dispatch_def)
next
  case Phase_kJtcActivating
  then show ?thesis using updateJtcActivating_phase [of c now s] by (auto simp: dispatch_def)
next
  case Phase_kEnabled
  then show ?thesis using updateEnabled_phase [of c now s] by (auto simp: dispatch_def)
next
  case Phase_kJtcDeactivating
  then show ?thesis using updateEnabled_phase [of c now s] by (auto simp: dispatch_def)
next
  case Phase_kResetLow
  then show ?thesis using updateReset_phase [of s c now] by (simp add: dispatch_def)
next
  case Phase_kResetHigh
  then show ?thesis using updateReset_phase [of s c now] by (simp add: dispatch_def)
next
  case Phase_kEmergencyQuickStop
  then show ?thesis using updateEmergencyQuickStop_phase [of s c now] by (simp add: dispatch_def)
next
  case Phase_kInactive
  then show ?thesis by (simp add: dispatch_def)
qed

lemma react_phase: "phase (react c now s) \<in> phase_next (phase s)"
proof (cases "if running (phase s) then group_alarm c (offline_now s) s else None")
  case None
  then show ?thesis using dispatch_phase [of c now s] by (simp add: react_cases)
next
  case (Some a)
  obtain st j w where a: "a = (st, j, w)" by (cases a)
  have "phase (react c now s) \<in> {Phase_kEmergencyQuickStop, Phase_kEmergencyDisable}"
    unfolding react_cases Some a option.case prod.case by (rule updateEmergencyQuickStop_phase) simp
  moreover have "running (phase s)" using Some by (simp split: if_splits)
  ultimately show ?thesis by (auto simp: running_def)
qed

subsection \<open>The outputs\<close>

definition emit :: "em_cfg \<Rightarrow> int \<Rightarrow> int \<Rightarrow> em \<Rightarrow> em" where
  "emit c now period s = writeTrace now period (writeDriveModes c (writeDevices s))"

lemma update_react:
  "active s \<Longrightarrow> update c now period steady s = emit c now period (react c now (observe c steady s))"
  by (simp add: update_def react_def emit_def Let_def case_prod_beta)

text \<open>What the outputs may touch: the cells of the command interfaces, the mode display, the trace.\<close>

definition emit_same :: "em \<Rightarrow> em \<Rightarrow> bool" where
  "emit_same s t \<longleftrightarrow>
     s\<lparr>command_interfaces := [], drive_csp_requested := False, drive_mode_display := [], trace_rows := []\<rparr> =
     t\<lparr>command_interfaces := [], drive_csp_requested := False, drive_mode_display := [], trace_rows := []\<rparr>"

lemma emit_same_trans: "emit_same s t \<Longrightarrow> emit_same t u \<Longrightarrow> emit_same s u"
  by (simp add: emit_same_def)

lemma emit_same_refl [simp]: "emit_same s s"
  by (simp add: emit_same_def)

lemma emit_same_fold:
  assumes "\<And>x t. emit_same t (f x t)"
  shows "emit_same s (fold f xs s)"
proof (induction xs arbitrary: s)
  case Nil
  then show ?case by simp
next
  case (Cons x xs)
  have "emit_same s (f x s)" by (rule assms)
  moreover have "emit_same (f x s) (fold f xs (f x s))" by (rule Cons.IH)
  ultimately show ?case unfolding fold_simps by (rule emit_same_trans)
qed

lemma emit_same_writeDriveModes: "emit_same s (writeDriveModes c s)"
proof (cases "mode_switch_axes c = []")
  case True
  then show ?thesis by (simp add: writeDriveModes_def)
next
  case False
  define s1 where "s1 = (if phase s \<noteq> Phase_kEnabled then s\<lparr>drive_csp_requested := False\<rparr> else s)"
  have "emit_same s s1" by (simp add: s1_def emit_same_def)
  moreover have "emit_same s1 (writeDriveModes c s)"
    unfolding writeDriveModes_def Let_def s1_def [symmetric] if_not_P [OF False]
    by (rule emit_same_fold) (simp add: emit_same_def)
  ultimately show ?thesis by (rule emit_same_trans)
qed

lemma emit_same_emit: "emit_same s (emit c now period s)"
proof -
  have "emit_same s (writeDevices s)" by (simp add: emit_same_def writeDevices_def)
  moreover note emit_same_writeDriveModes [of "writeDevices s" c]
  moreover have "emit_same t (writeTrace now period t)" for t by (simp add: emit_same_def writeTrace_def)
  ultimately show ?thesis unfolding emit_def by (blast intro: emit_same_trans)
qed

lemma emit_phase [simp]: "phase (emit c now period s) = phase s"
  using arg_cong [OF sym [OF emit_same_emit [unfolded emit_same_def]], of phase] by simp

end
