(* ===== verification/EnableSafety.thy ===== *)
theory EnableSafety
  imports EnablePhases
begin

text \<open>
  The invariant of the enable manager between cycles (\<open>em_inv\<close>), that every cycle keeps it, and
  the safety properties of a cycle: which control words the drives can be given.
\<close>

subsection \<open>Observation and output\<close>

lemma observe_fields:
  "cia402_axes (observe c steady s) = cia402_axes s"
  "command_interfaces (observe c steady s) = command_interfaces s"
  "state_interfaces (observe c steady s) = state_interfaces s"
  "phase (observe c steady s) = phase s"
  "active (observe c steady s) = active s"
  "reset_targets (observe c steady s) = reset_targets s"
  "drive_mode_command_offset (observe c steady s) = drive_mode_command_offset s"
  "handshake_devices (observe c steady s) = map (hd_read (state_interfaces s)) (handshake_devices s)"
  "status_words (observe c steady s) =
     map (\<lambda>a. case get_status_word a (state_interfaces s) of Some w \<Rightarrow> w | None \<Rightarrow> 0xFFFF) (cia402_axes s)"
  "downward_stage (observe c steady s) = downward_stage s"
  "stage_deadline_ns (observe c steady s) = stage_deadline_ns s"
  "jtc_activate_failed_request (observe c steady s) = jtc_activate_failed_request s"
  "jtc_activated_request (observe c steady s) = jtc_activated_request s"
  "enable_request (observe c steady s) = enable_request s"
  "disable_request (observe c steady s) = disable_request s"
  "reset_request (observe c steady s) = reset_request s"
  "last_failure (observe c steady s) = last_failure s"
  "owner (observe c steady s) = owner s"
  "current_batch (observe c steady s) = current_batch s"
  "offline_now (observe c steady s) = offlineSource c (observe c steady s)"
  by (simp_all add: observe_def captureSample_def readDevices_def refreshModes_def refreshStatusWords_def
        Let_def offlineSource_def)

lemma observe_wf:
  assumes "em_wf c s"
  shows "cycle_wf c (observe c steady s)"
proof -
  define t where "t = s\<lparr>status_words := status_words (observe c steady s)\<rparr>"
  have "em_wf c t" using assms by (simp add: t_def em_wf_def)
  moreover have "wiring (observe c steady s) = wiring t"
    by (simp add: wiring_def t_def observe_fields)
  ultimately have "em_wf c (observe c steady s)" by (rule em_wf_cong)
  then show ?thesis by (simp add: cycle_wf_def observe_fields)
qed

lemma words_in_observe: "words_in W (observe c steady s) = words_in W s"
  by (rule words_in_cong) (simp_all add: observe_fields)

text \<open>The drive states of this cycle, from the status words the hardware holds now.\<close>

definition drive_state :: "em \<Rightarrow> nat \<Rightarrow> cia402_state" where
  "drive_state s a = axis_get_state (cia402_axes s ! a) (state_interfaces s)"

lemma observed_state:
  "a < length (cia402_axes s) \<Longrightarrow> axis_states (observe c steady s) ! a = drive_state s a"
  by (simp add: axis_states_def observe_fields drive_state_def axis_get_state_def decode_unavailable
        split: option.split)

lemma emit_same_fields:
  assumes "emit_same s t"
  shows "cia402_axes t = cia402_axes s" "handshake_devices t = handshake_devices s"
    "drive_mode_command_offset t = drive_mode_command_offset s" "reset_targets t = reset_targets s"
    "status_words t = status_words s" "phase t = phase s" "downward_stage t = downward_stage s"
    "stage_deadline_ns t = stage_deadline_ns s" "active t = active s" "owner t = owner s"
    "restart_required t = restart_required s" "last_failure t = last_failure s"
    "offline_feedback t = offline_feedback s" "enable_result t = enable_result s"
    "disable_result t = disable_result s" "reset_result t = reset_result s"
    "current_batch t = current_batch s" "primary t = primary s"
proof -
  note eq = sym [OF assms [unfolded emit_same_def]]
  show "cia402_axes t = cia402_axes s" using arg_cong [OF eq, of cia402_axes] by simp
  show "handshake_devices t = handshake_devices s" using arg_cong [OF eq, of handshake_devices] by simp
  show "drive_mode_command_offset t = drive_mode_command_offset s"
    using arg_cong [OF eq, of drive_mode_command_offset] by simp
  show "reset_targets t = reset_targets s" using arg_cong [OF eq, of reset_targets] by simp
  show "status_words t = status_words s" using arg_cong [OF eq, of status_words] by simp
  show "phase t = phase s" using arg_cong [OF eq, of phase] by simp
  show "downward_stage t = downward_stage s" using arg_cong [OF eq, of downward_stage] by simp
  show "stage_deadline_ns t = stage_deadline_ns s" using arg_cong [OF eq, of stage_deadline_ns] by simp
  show "active t = active s" using arg_cong [OF eq, of active] by simp
  show "owner t = owner s" using arg_cong [OF eq, of owner] by simp
  show "restart_required t = restart_required s" using arg_cong [OF eq, of restart_required] by simp
  show "last_failure t = last_failure s" using arg_cong [OF eq, of last_failure] by simp
  show "offline_feedback t = offline_feedback s" using arg_cong [OF eq, of offline_feedback] by simp
  show "enable_result t = enable_result s" using arg_cong [OF eq, of enable_result] by simp
  show "disable_result t = disable_result s" using arg_cong [OF eq, of disable_result] by simp
  show "reset_result t = reset_result s" using arg_cong [OF eq, of reset_result] by simp
  show "current_batch t = current_batch s" using arg_cong [OF eq, of current_batch] by simp
  show "primary t = primary s" using arg_cong [OF eq, of primary] by simp
qed

lemma fold_hd_write_other:
  assumes "\<forall>d \<in> set ds. hd_enable_command d \<noteq> Some i \<and> hd_reset_command d \<noteq> Some i"
  shows "get_value (fold hd_write ds cmds) i = get_value cmds i"
  using assms by (induction ds arbitrary: cmds) (simp_all add: get_hd_write_other)

lemma length_fold_hd_write [simp]: "length (fold hd_write ds cmds) = length cmds"
  by (induction ds arbitrary: cmds) simp_all

text \<open>A loop over the switched drives writes the command interfaces from the offset on.\<close>

lemma drive_mode_fold:
  fixes off :: nat and g :: "em \<Rightarrow> nat \<Rightarrow> f64" and h :: "em \<Rightarrow> nat \<Rightarrow> int list"
  assumes "\<And>t k. drive_mode_command_offset (F k t) = drive_mode_command_offset t"
    and "\<And>t k. command_interfaces (F k t) =
        set_value (command_interfaces t) (drive_mode_command_offset t + k) (g t k)"
    and "\<forall>k \<in> set ks. i \<noteq> drive_mode_command_offset s + k"
  shows "get_value (command_interfaces (fold F ks s)) i = get_value (command_interfaces s) i"
    "length (command_interfaces (fold F ks s)) = length (command_interfaces s)"
  using assms(3)
  by (induction ks arbitrary: s) (simp_all add: assms(1,2) get_set_value)

lemma writeDriveModes_command:
  assumes "\<forall>k < length (mode_switch_axes c). i \<noteq> drive_mode_command_offset s + k"
  shows "get_value (command_interfaces (writeDriveModes c s)) i = get_value (command_interfaces s) i"
    "length (command_interfaces (writeDriveModes c s)) = length (command_interfaces s)"
proof -
  define s1 where "s1 = (if phase s \<noteq> Phase_kEnabled then s\<lparr>drive_csp_requested := False\<rparr> else s)"
  define F where "F = (\<lambda>index (t :: em). let axis = mode_switch_axes c ! index
                 in t\<lparr>command_interfaces :=
                        set_value (command_interfaces t) (drive_mode_command_offset t + index)
                          (f64_of_int (if drive_csp_requested s1 then kCspMode else expected_modes c ! axis)),
                      drive_mode_display := (drive_mode_display t)[index := actual_modes t ! axis]\<rparr>)"
  have s1: "command_interfaces s1 = command_interfaces s"
    "drive_mode_command_offset s1 = drive_mode_command_offset s"
    by (simp_all add: s1_def)
  have eq: "writeDriveModes c s = (if mode_switch_axes c = [] then s else fold F [0..<length (mode_switch_axes c)] s1)"
    by (simp only: writeDriveModes_def Let_def s1_def F_def)
  note f = drive_mode_fold [of F "\<lambda>t k. f64_of_int (if drive_csp_requested s1 then kCspMode
      else expected_modes c ! (mode_switch_axes c ! k))" "[0..<length (mode_switch_axes c)]" i s1]
  show "get_value (command_interfaces (writeDriveModes c s)) i = get_value (command_interfaces s) i"
    "length (command_interfaces (writeDriveModes c s)) = length (command_interfaces s)"
    using f assms s1 by (auto simp: eq F_def Let_def)
qed

lemma emit_command:
  assumes wf: "em_wf c s" and a: "a < length (cia402_axes s)"
  shows "control_word (emit c now period s) a = control_word s a"
proof -
  obtain i where i: "command_interface (cia402_axes s ! a) = Some i"
    using wf a by (auto simp: em_wf_def elim: axes_boundE)
  have mem: "cia402_axes s ! a \<in> set (cia402_axes s)" using a by simp
  have dev: "\<forall>d \<in> set (handshake_devices s). hd_enable_command d \<noteq> Some i \<and> hd_reset_command d \<noteq> Some i"
    and off: "\<forall>k < length (mode_switch_axes c). i \<noteq> drive_mode_command_offset s + k"
    using wf mem i unfolding em_wf_def by (metis, metis)
  have "get_value (command_interfaces (emit c now period s)) i = get_value (command_interfaces s) i"
    using writeDriveModes_command(1) [of c i "writeDevices s"] off fold_hd_write_other [OF dev]
    by (simp add: emit_def writeTrace_def writeDevices_def)
  then show ?thesis
    using i emit_same_fields(1) [OF emit_same_emit] by (simp add: control_word_def)
qed

lemma words_in_emit: "em_wf c s \<Longrightarrow> words_in W (emit c now period s) = words_in W s"
  unfolding words_in_def emit_same_fields(1) [OF emit_same_emit] using emit_command by auto

lemma length_emit: "length (command_interfaces (emit c now period s)) = length (command_interfaces s)"
proof -
  have "length (command_interfaces (writeDriveModes c s)) = length (command_interfaces s)" for s
  proof -
    obtain i where "\<forall>k < length (mode_switch_axes c). i \<noteq> drive_mode_command_offset s + k"
      by (metis add_left_cancel less_irrefl)
    then show ?thesis by (rule writeDriveModes_command(2))
  qed
  then show ?thesis by (simp add: emit_def writeTrace_def writeDevices_def)
qed

lemma wiring_emit [simp]: "wiring (emit c now period s) = wiring s"
  unfolding wiring_def length_emit emit_same_fields [OF emit_same_emit] ..

subsection \<open>The reaction of a cycle\<close>

lemma wiring_if_startDownward [simp]:
  "wiring (if b then startDownward c p now s else s) = wiring s" by simp

lemma wiring_dispatch: "cycle_wf c s \<Longrightarrow> wiring (dispatch c now p s) = wiring s"
  using updateIdle_parts [of c s now] updateFailed_parts [of c s now] wiring_updateReset [of c s now]
  by (cases p) (simp_all add: dispatch_def updateJtcActivating_parts(1))

lemma wiring_react:
  assumes "cycle_wf c s"
  shows "wiring (react c now s) = wiring s"
  using wiring_dispatch [OF assms] by (simp add: react_cases split: option.split prod.split)

lemma down_dispatch:
  assumes "cycle_wf c s"
  shows "legal s (updateDownward c now (if b then startDownward c p now s else s))"
proof -
  let ?t = "if b then startDownward c p now s else s"
  have wi: "wiring ?t = wiring s" by simp
  show ?thesis
    using legal_updateDownward [OF cycle_wf_cong [OF assms wi], of now]
    unfolding wiring_states [OF wi] .
qed

lemma zero_words_legal: "words_in (\<lambda>_. {0x0000}) t \<Longrightarrow> legal s t"
  by (rule words_in_mono) auto

text \<open>A running group that passed the supervision is all enabled, so 0x000F is legal.\<close>

lemma legal_running:
  assumes "cycle_wf c s" "group_ok c offline s"
  shows "legal s (setAllControlWords 0x000F s)"
  using group_ok_enabled [OF assms(2)] by (intro words_in_setAll [OF assms(1)]) simp

lemma legal_dispatch:
  assumes wf: "cycle_wf c s" and run: "running (phase s) \<Longrightarrow> group_ok c (offline_now s) s"
    and act: "phase s = Phase_kJtcActivating \<Longrightarrow> words_in (\<lambda>_. {0x000F}) s"
    and inactive: "phase s \<noteq> Phase_kInactive"
  shows "legal s (dispatch c now (phase s) s)"
proof (cases "running (phase s)")
  case True
  note ok = run [OF True]
  have F: "words_in (\<lambda>_. {0x000F}) s \<Longrightarrow> legal s s"
    unfolding words_in_def using group_ok_enabled [OF ok] by auto
  show ?thesis
    using True act F legal_running [OF wf ok]
    by (auto simp: running_def dispatch_def updateJtcActivating_parts(2))
next
  case False
  have zero: "legal s (updateIdle c now s)" "legal s (updateFailed c now s)"
    using updateIdle_parts [OF wf, of now] updateFailed_parts [OF wf, of now]
    by (auto intro: zero_words_legal)
  show ?thesis
    using False inactive zero down_dispatch [OF wf] legal_updateEnable [OF wf] legal_updateReset [OF wf]
      legal_updateEmergencyQuickStop [OF wf]
    by (cases "phase s") (simp_all only: dispatch_def phase.case running_simps simp_thms)
qed

lemma legal_react:
  assumes wf: "cycle_wf c s" and act: "phase s = Phase_kJtcActivating \<Longrightarrow> words_in (\<lambda>_. {0x000F}) s"
    and inactive: "phase s \<noteq> Phase_kInactive"
  shows "legal s (react c now s)"
proof (cases "if running (phase s) then group_alarm c (offline_now s) s else None")
  case None
  then have "running (phase s) \<Longrightarrow> group_ok c (offline_now s) s"
    using group_alarm_None by (simp split: if_splits)
  from legal_dispatch [OF wf this act inactive] show ?thesis
    unfolding react_cases None option.case by simp
next
  case (Some a)
  obtain st j w where a: "a = (st, j, w)" by (cases a)
  have "words_in (\<lambda>a. {quick_stop_command (axis_states s ! a)}) (react c now s)"
    unfolding react_cases Some a option.case prod.case by (rule emergency_words [OF wf]) simp
  then show ?thesis by (rule words_in_mono) (simp add: quick_stop_legal)
qed

subsection \<open>The invariant between cycles\<close>

text \<open>
  Every axis is in some enable batch (the composer checks the partition, see \<open>configureTopology\<close>)
  and while the motion controller is being activated every drive is held at 0x000F.
\<close>

definition covers :: "em_cfg \<Rightarrow> nat \<Rightarrow> bool" where
  "covers c n = (\<forall>axis < n. list_ex (\<lambda>batch. axis \<in> set batch) (enable_batches c))"

definition em_inv :: "em_cfg \<Rightarrow> em \<Rightarrow> bool" where
  "em_inv c s =
    (em_wf c s \<and> covers c (length (cia402_axes s)) \<and>
     (phase s = Phase_kJtcActivating \<longrightarrow> words_in (\<lambda>_. {0x000F}) s))"

lemma last_batch_fold:
  "fold (\<lambda>batch found. if P batch then Some batch else found) bs r = None \<longleftrightarrow>
     r = None \<and> (\<forall>b \<in> set bs. \<not> P b)"
  by (induction bs arbitrary: r) auto

lemma last_batch_covered:
  assumes "covers c n" "axis < n" "current + 1 = length (enable_batches c)"
  shows "last_batch_of c current axis \<noteq> None"
proof -
  from assms obtain batch where "batch \<in> set (enable_batches c)" "axis \<in> set batch"
    by (auto simp: covers_def list_ex_iff)
  then obtain b where "b < length (enable_batches c)" "axis \<in> set (enable_batches c ! b)"
    by (metis in_set_conv_nth)
  with assms(3) show ?thesis unfolding last_batch_of_def last_batch_fold by auto
qed

lemma words_in_all_F:
  assumes "words_in (\<lambda>_. {0x000F}) s" "cia402_axes t = cia402_axes s" "command_interfaces t = command_interfaces s"
  shows "words_in (\<lambda>_. {0x000F}) t"
  using assms words_in_cong by blast

lemma failEnable_not_activating: "phase (failEnable c st axis now s) \<noteq> Phase_kJtcActivating"
  using failEnable_phase [of c st axis now s] by auto

lemma updateDeviceEnable_activating:
  assumes wf: "cycle_wf c s" and "phase s \<noteq> Phase_kJtcActivating"
    and "phase (updateDeviceEnable c now s) = Phase_kJtcActivating"
  shows "words_in (\<lambda>_. {0x000F}) (updateDeviceEnable c now s)"
proof (cases "first_index (\<lambda>st. st \<noteq> kOperationEnabled) (axis_states s)")
  case (Some axis)
  then show ?thesis using assms(3) failEnable_not_activating by (simp add: updateDeviceEnable_def)
next
  case None
  define s1 where "s1 = setAllControlWords 0x000F s"
  define s2 where "s2 = requestDevicesEnable True s1"
  define s3 where "s3 = s2\<lparr>device_stage := False, phase := Phase_kJtcActivating, enable_hardware_ready := True\<rparr>"
  have eq: "updateDeviceEnable c now s =
    (if enable_preempt_requested s1 then preemptEnable c now s1
     else if allDevicesEnabled s2 then s3
     else if stage_deadline_ns s2 \<le> now then failEnable c Stage_kEnableBatchTimeout (-1) now s2 else s2)"
    unfolding updateDeviceEnable_def Let_def None option.case s1_def [symmetric] s2_def [symmetric] s3_def ..
  have "phase s2 = phase s" by (simp add: s2_def s1_def)
  with assms(2,3) have "updateDeviceEnable c now s = s3"
    unfolding eq using failEnable_not_activating by (auto split: if_splits)
  moreover have "words_in (\<lambda>_. {0x000F}) s1" unfolding s1_def by (rule words_in_setAll [OF wf]) simp
  then have "words_in (\<lambda>_. {0x000F}) s3"
    by (rule words_in_all_F) (simp_all add: s3_def s2_def small_ops)
  ultimately show ?thesis by simp
qed

lemma batch_complete_word:
  assumes "last_batch_of c (current_batch s) axis \<noteq> None" "\<not> axis_incomplete c s axis"
  shows "batch_command c s axis = 0x000F"
  using assms
  by (auto simp: batch_command_def axis_incomplete_def split: option.splits)

lemma updateBatch_activating:
  assumes wf: "cycle_wf c s" and cov: "covers c (length (cia402_axes s))"
    and ph: "phase s \<noteq> Phase_kJtcActivating"
    and act: "phase (updateBatch c now s) = Phase_kJtcActivating"
  shows "words_in (\<lambda>_. {0x000F}) (updateBatch c now s)"
proof (cases "batch_loop c now [0..<length (cia402_axes s)] (s, True, None)")
  case (Inl s')
  then obtain t axis where "s' = failEnable c Stage_kModeMismatch (int axis) now t"
    using batch_loop_Inl by blast
  then show ?thesis using Inl act failEnable_not_activating by (simp add: updateBatch_def)
next
  case (Inr r)
  obtain s' bc bad where r: "r = (s', bc, bad)" by (cases r)
  note loop = Inr [unfolded r]
  have same: "batch_same s s'" and bc: "bc \<Longrightarrow> \<forall>axis < length (cia402_axes s). \<not> axis_incomplete c s axis"
    using batch_loop_complete [OF loop] by auto
  define s3 where "s3 = s'\<lparr>phase := Phase_kJtcActivating, enable_hardware_ready := True\<rparr>"
  have "phase s' = phase s" using batch_same_fields(1) [OF same] .
  then have end3: "bc" "current_batch s' + 1 = length (enable_batches c)" "updateBatch c now s = s3"
    using act ph failEnable_not_activating batchTimeout_phase [of c now s']
    by (auto simp: updateBatch_def Inr r s3_def split: option.splits if_splits)
  have "words_in (\<lambda>_. {0x000F}) s'"
    unfolding words_in_def batch_same_fields(2) [OF same]
  proof (intro allI impI)
    fix a assume a: "a < length (cia402_axes s)"
    have "batch_command c s a = 0x000F"
      using last_batch_covered [OF cov a] end3(2) bc [OF end3(1)] a batch_same_fields(3) [OF same]
      by (intro batch_complete_word) auto
    then show "\<exists>w \<in> {0x000F}. control_word s' a = word_value w"
      using batch_loop_control_word [OF loop wf a] by simp
  qed
  then show ?thesis unfolding end3(3) by (rule words_in_all_F) (simp_all add: s3_def)
qed

lemma updateEnable_activating:
  assumes wf: "cycle_wf c s" and cov: "covers c (length (cia402_axes s))"
    and ph: "phase s \<in> {Phase_kEnabling, Phase_kInterBatchDelay}"
    and act: "phase (updateEnable c now s) = Phase_kJtcActivating"
  shows "words_in (\<lambda>_. {0x000F}) (updateEnable c now s)"
proof -
  have "enable_fault (note_preempt s) = None"
  proof (rule ccontr)
    assume "enable_fault (note_preempt s) \<noteq> None"
    then obtain axis w where "enable_fault (note_preempt s) = Some (axis, w)" by auto
    then show False
      using act updateEmergencyQuickStop_phase
        [of "startEmergency c Stage_kFaultDetected axis w now (note_preempt s\<lparr>disable_request := False\<rparr>)" c now]
      by (auto simp: updateEnable_cases)
  qed
  then have eq: "updateEnable c now s = enable_step c now (phase s) (note_preempt s)"
    by (simp add: updateEnable_cases)
  have lost: "lostConfirmed c (note_preempt s) = None"
  proof (rule ccontr)
    assume "lostConfirmed c (note_preempt s) \<noteq> None"
    then obtain st axis where "lostConfirmed c (note_preempt s) = Some (st, axis)" by auto
    then show False using act eq failEnable_not_activating by (simp add: enable_step_def)
  qed
  show ?thesis
  proof (cases "readyGate c now (note_preempt s)")
    case (Inl t)
    then obtain s1 where s1: "gate_same (note_preempt s) s1"
      "t = failEnable c Stage_kStateSourcesNotReady (-1) now s1 \<or>
       t = setAllControlWords 0x0000 s1 \<or>
       t = failEnable c Stage_kStateSourcesNotReady (-1) now (setAllControlWords 0x0000 s1)"
      using readyGate_Inl by blast
    have "phase s1 = phase s" using gate_same_fields(3) [OF s1(1)] by simp
    then have "phase t \<noteq> Phase_kJtcActivating" using s1(2) failEnable_not_activating ph by auto
    then show ?thesis using act eq lost Inl by (simp add: enable_step_def)
  next
    case (Inr t)
    note same = gate_same_fields [OF readyGate_Inr [OF Inr]]
    have wft: "cycle_wf c t" by (rule cycle_wf_cong [OF wf]) (simp add: same(4))
    have covt: "covers c (length (cia402_axes t))" using cov by (simp add: same(1))
    have pht: "phase t \<noteq> Phase_kJtcActivating" using ph by (auto simp: same(3))
    have "phase (updateInterBatchDelay c now t) \<noteq> Phase_kJtcActivating"
      using updateInterBatchDelay_phase [of c now t] pht by auto
    then show ?thesis
      using act lost Inr updateDeviceEnable_activating [OF wft pht] updateBatch_activating [OF wft covt pht]
      unfolding eq by (simp add: enable_step_def split: if_splits)
  qed
qed

lemma react_activating:
  assumes wf: "cycle_wf c s" and cov: "covers c (length (cia402_axes s))"
    and act: "phase (react c now s) = Phase_kJtcActivating"
  shows "words_in (\<lambda>_. {0x000F}) (react c now s)"
proof (cases "if running (phase s) then group_alarm c (offline_now s) s else None")
  case (Some a)
  obtain st j w where a: "a = (st, j, w)" by (cases a)
  have "phase (react c now s) \<in> {Phase_kEmergencyQuickStop, Phase_kEmergencyDisable}"
    unfolding react_cases Some a option.case prod.case by (rule updateEmergencyQuickStop_phase) simp
  with act show ?thesis by simp
next
  case None
  then have eq: "react c now s = dispatch c now (phase s) s" by (simp add: react_cases)
  with act dispatch_phase [of c now s] have "phase s \<in> {Phase_kEnabling, Phase_kJtcActivating}"
    by (cases "phase s") auto
  then show ?thesis
  proof
    assume "phase s = Phase_kEnabling"
    then show ?thesis using updateEnable_activating [OF wf cov, of now] act by (simp add: eq dispatch_def)
  next
    assume p: "phase s \<in> {Phase_kJtcActivating}"
    then have "\<not> jtc_activate_failed_request s"
      using act by (auto simp: eq dispatch_def updateJtcActivating_def)
    then show ?thesis
      using p words_in_setAll [OF wf, of "0x000F"] by (simp add: eq dispatch_def updateJtcActivating_parts(2))
  qed
qed

end
