(* ===== verification/EnableSample.thy ===== *)
theory EnableSample
  imports EnableSafety
begin

text \<open>
  A small concrete group, two axes in two batches and one handshake device, on which the
  properties of the enable manager are exercised.
\<close>

definition sample_cfg :: em_cfg where
  "sample_cfg =
    \<lparr>joint_names = [''a'', ''b''], motion_joint_names = [], enable_batches = [[0], [1]],
     ready_to_switch_on_disable_terminal = [False, True], expected_modes = [],
     ready_state_names = [], offline_source_names = [''d/age''], age_source_count = 1,
     diagnostic_state_names = [], feedback_age_limit_ms = Fin 500, ready_hold_seconds = Fin 0,
     batch_timeout_seconds = Fin 4, disable_stage_timeout_seconds = Fin 4,
     inter_batch_delay_seconds = Fin 1, fault_reset_timeout_seconds = Fin 4,
     service_result_timeout_ms = 30000, enable_only = True, motion_mode_switching = False,
     managed_controllers = [], default_motion_controller = [], rolling_motion_controller = [],
     trajectory_motion_controller = [], motion_controller_mode = Mode_kFjtReady,
     mode_switch_joint_names = [], mode_switch_axes = [], mode_switch_axis = [],
     mode_switch_maximum_sample_period_ns = 0, mode_switch_source_state_max_age_ns = 0,
     mode_switch_stable_interval_count = 0, mode_switch_timeout_ms = 0,
     mode_switch_feedback_age_limit_ms = Fin 0, mode_switch_stable_velocity_thresholds = [],
     mode_switch_takeover_tolerances = []\<rparr>"

definition sample_device :: hs_device where
  "sample_device = (new_device ''g'')
     \<lparr>hd_enable_command := Some 2, hd_reset_command := Some 3,
      hd_states := [Some 2, Some 3, Some 4, Some 5]\<rparr>"

text \<open>
  The group in a phase, with the status words of its two drives, the phase of its device and the
  age of its feedback.
\<close>

definition sample_em :: "phase \<Rightarrow> u16 \<Rightarrow> u16 \<Rightarrow> handshake_phase \<Rightarrow> f64 \<Rightarrow> em" where
  "sample_em p w0 w1 dp age =
    \<lparr>active = True, phase = p, owner = Owner_kNone, enable_request = False,
     disable_request = False, reset_request = False, enable_hardware_ready = False,
     jtc_activate_failed_request = False, jtc_activated_request = False,
     emergency_jtc_deactivate_request = False, jtc_deactivation_required = False,
     restart_required = False, switch_in_progress = False, enable_callback_active = False,
     disable_callback_active = False, reset_callback_active = False, mode_callback_active = False,
     mode_abort_requested = False, current_control_mode = Mode_kDisabled,
     actual_sample = \<lparr>as_positions = [], as_feedback_age_ms = NaN, as_steady_time_ns = 0, as_sequence = 0\<rparr>,
     actual_sample_version = 0, enable_result = empty_slot, disable_result = empty_slot,
     reset_result = empty_slot, last_failure = no_failure, primary = no_primary,
     status_words = [0, 0], actual_modes = [], mode_state_indices = [], mode_confirmed = [],
     ready_state_indices = [], offline_source_indices = [6], offline_now = -1, offline_feedback = -1,
     ready_since_ns = -1, state_sources_qualified = True, motion_fault_request = False,
     motion_fault_pending = False, reset_targets = [False, False],
     cia402_axes = [(new_axis ''a'')\<lparr>command_interface := Some 0, state_interface := Some 0\<rparr>,
                    (new_axis ''b'')\<lparr>command_interface := Some 1, state_interface := Some 1\<rparr>],
     handshake_devices = [sample_device], device_stage = False,
     diagnostic_state_indices = [], diagnostic_state_values = [], current_batch = 0,
     downward_stage = 0, stage_deadline_ns = 100, enable_preempt_requested = False,
     interrupted_owner = Owner_kNone, jtc_deactivate_failed = False, drive_mode_command_offset = 4,
     drive_csp_requested = False, drive_mode_display = [], jtc_command_snapshot = empty_snapshot,
     rolling_command_snapshot = empty_snapshot, trace_ok = False, trace_rows = [],
     command_interfaces =
       [\<lparr>prefix_name = ''a'', interface_name = ''control_word'', cell = Fin 15\<rparr>,
        \<lparr>prefix_name = ''b'', interface_name = ''control_word'', cell = Fin 15\<rparr>,
        \<lparr>prefix_name = ''g'', interface_name = ''enable_request'', cell = Fin 0\<rparr>,
        \<lparr>prefix_name = ''g'', interface_name = ''reset_generation'', cell = Fin 0\<rparr>],
     state_interfaces =
       [\<lparr>prefix_name = ''a'', interface_name = ''status_word'', cell = Fin (of_int (uint w0))\<rparr>,
        \<lparr>prefix_name = ''b'', interface_name = ''status_word'', cell = Fin (of_int (uint w1))\<rparr>,
        \<lparr>prefix_name = ''g'', interface_name = ''phase'', cell = Fin (of_nat (phase_code dp))\<rparr>,
        \<lparr>prefix_name = ''g'', interface_name = ''fault_latched'', cell = Fin 0\<rparr>,
        \<lparr>prefix_name = ''g'', interface_name = ''handled_reset_generation'', cell = Fin 0\<rparr>,
        \<lparr>prefix_name = ''g'', interface_name = ''motion_allowed'', cell = f64_of_bool (dp = enabled)\<rparr>,
        \<lparr>prefix_name = ''d'', interface_name = ''age'', cell = age\<rparr>]\<rparr>"

lemma sample_simps [simp]:
  "active (sample_em p w0 w1 dp age)" "phase (sample_em p w0 w1 dp age) = p"
  "length (cia402_axes (sample_em p w0 w1 dp age)) = 2"
  by (simp_all add: sample_em_def)

lemma less_2_cases: "(\<forall>a < 2. P (a :: nat)) \<longleftrightarrow> P 0 \<and> P 1"
  by (auto simp: less_Suc_eq numeral_2_eq_2)

lemma sample_status: "drive_state (sample_em p w0 w1 dp age) 0 = decode_cia402_state w0"
  "drive_state (sample_em p w0 w1 dp age) 1 = decode_cia402_state w1"
proof -
  have "get_status_word (cia402_axes (sample_em p w0 w1 dp age) ! 0) (state_interfaces (sample_em p w0 w1 dp age)) = Some w0"
    "get_status_word (cia402_axes (sample_em p w0 w1 dp age) ! 1) (state_interfaces (sample_em p w0 w1 dp age)) = Some w1"
    by (simp_all add: get_status_word_eq_Some sample_em_def get_value_def new_axis_def)
  then show "drive_state (sample_em p w0 w1 dp age) 0 = decode_cia402_state w0"
    "drive_state (sample_em p w0 w1 dp age) 1 = decode_cia402_state w1"
    by (simp_all add: drive_state_def axis_get_state_def)
qed

lemma sample_axes [simp]:
  "cia402_axes (sample_em p w0 w1 dp age) =
     [\<lparr>joint_name = ''a'', command_interface = Some 0, state_interface = Some 0\<rparr>,
      \<lparr>joint_name = ''b'', command_interface = Some 1, state_interface = Some 1\<rparr>]"
  by (simp add: sample_em_def new_axis_def)

lemma sample_commands [simp]:
  "length (command_interfaces (sample_em p w0 w1 dp age)) = 4"
  "get_value (command_interfaces (sample_em p w0 w1 dp age)) 0 = Fin 15"
  "get_value (command_interfaces (sample_em p w0 w1 dp age)) 1 = Fin 15"
  by (simp_all add: sample_em_def get_value_def)

lemma sample_bound: "axes_bound (cia402_axes (sample_em p w0 w1 dp age)) (command_interfaces (sample_em p w0 w1 dp age))"
  by (auto simp: axes_bound_def less_Suc_eq)

lemma sample_wf [simp]: "em_wf sample_cfg (sample_em p w0 w1 dp age)"
  using sample_bound [of p w0 w1 dp age]
  by (auto simp: em_wf_def sample_em_def sample_cfg_def sample_device_def new_device_def new_axis_def)

lemma sample_covers [simp]: "covers sample_cfg 2"
  by (auto simp: covers_def sample_cfg_def less_2_cases)

lemma sample_words: "words_in (\<lambda>_. {0x000F}) (sample_em p w0 w1 dp age)"
  using sample_commands [of p w0 w1 dp age]
  by (auto simp: words_in_def control_word_def less_Suc_eq f64_of_int_exact)

lemma sample_inv [simp]: "em_inv sample_cfg (sample_em p w0 w1 dp age)"
  using sample_words sample_covers by (simp add: em_inv_def numeral_2_eq_2)

end
