(* ===== verification/EnableClaims.thy ===== *)
theory EnableClaims
  imports EnableSample
begin

text \<open>
  The properties of a control cycle of the enable manager.
\<close>

subsection \<open>Commands\<close>

lemma update_words:
  assumes inv: "em_inv c s" and active: "active s"
  shows "words_in W (update c now period steady s) = words_in W (react c now (observe c steady s))"
proof -
  have wf: "cycle_wf c (observe c steady s)" using inv observe_wf by (simp add: em_inv_def)
  have "em_wf c (react c now (observe c steady s))"
    using cycle_wf_cong [OF wf wiring_react [OF wf]] by (simp add: cycle_wf_def)
  then show ?thesis by (simp add: update_react [OF active] words_in_emit)
qed

lemma inv_observe:
  assumes "em_inv c s"
  shows "cycle_wf c (observe c steady s)" "covers c (length (cia402_axes (observe c steady s)))"
    "phase (observe c steady s) = Phase_kJtcActivating \<Longrightarrow> words_in (\<lambda>_. {0x000F}) (observe c steady s)"
  using assms observe_wf by (simp_all add: em_inv_def observe_fields words_in_observe)

lemma update_axes:
  assumes "em_inv c s"
  shows "cia402_axes (update c now period steady s) = cia402_axes s"
proof (cases "active s")
  case True
  have "wiring (update c now period steady s) = wiring (observe c steady s)"
    using wiring_react [OF inv_observe(1) [OF assms]] by (simp add: update_react [OF True])
  then show ?thesis by (simp add: wiring_def observe_fields)
next
  case False
  then show ?thesis by (simp add: update_def)
qed

lemma words_in_states:
  assumes "words_in W t" "cia402_axes t = cia402_axes s" "a < length (cia402_axes s)"
  shows "\<exists>w \<in> W a. control_word t a = word_value w"
  using assms by (simp add: words_in_def)

lemma update_legal:
  assumes "em_inv c s" "active s" "phase s \<noteq> Phase_kInactive" "a < length (cia402_axes s)"
  shows "\<exists>w \<in> legal_words (drive_state s a).
    control_word (update c now period steady s) a = word_value w"
proof -
  have "legal (observe c steady s) (update c now period steady s)"
    unfolding update_words [OF assms(1,2)]
    using inv_observe [OF assms(1)] assms(3) by (intro legal_react) (simp_all add: observe_fields)
  then show ?thesis
    using words_in_states [OF _ update_axes [OF assms(1)] assms(4)] observed_state [OF assms(4)] by metis
qed

text \<open>
  C1: The word every drive is commanded by a cycle is one the drive profile allows in the state the
  drive reports in that cycle: for example 0x000F only in SwitchedOn or OperationEnabled, 0x0080
  only in Fault.
\<close>

theorem cycle_commands_legal:
  assumes "em_inv c s" "active s" "phase s \<noteq> Phase_kInactive" "a < length (cia402_axes s)"
  shows "\<exists>w \<in> legal_words (drive_state s a).
    control_word (update c now period steady s) a = word_value w"
  using assms by (rule update_legal)

theorem cycle_commands_legal_witness:
  "\<exists>w \<in> {0x0000, 0x0007}. control_word (update sample_cfg 5 1 0
     (sample_em Phase_kEnabling 0x0021 0x0040 disabled (Fin 3))) 0 = word_value w"
proof -
  have "\<exists>w \<in> legal_words (drive_state (sample_em Phase_kEnabling 0x0021 0x0040 disabled (Fin 3)) 0).
    control_word (update sample_cfg 5 1 0 (sample_em Phase_kEnabling 0x0021 0x0040 disabled (Fin 3))) 0 = word_value w"
    by (rule cycle_commands_legal) simp_all
  then show ?thesis unfolding sample_status by (simp add: decode_cia402_state_def)
qed

lemma update_inv:
  assumes "em_inv c s"
  shows "em_inv c (update c now period steady s)"
proof (cases "active s")
  case True
  note obs = inv_observe [OF assms, of steady]
  have wi: "wiring (update c now period steady s) = wiring (observe c steady s)"
    using wiring_react [OF obs(1)] by (simp add: update_react [OF True])
  then have "em_wf c (update c now period steady s)"
    using cycle_wf_cong [OF obs(1)] by (simp add: cycle_wf_def)
  moreover have "covers c (length (cia402_axes (update c now period steady s)))"
    using assms by (simp add: em_inv_def update_axes)
  moreover have "words_in (\<lambda>_. {0x000F}) (update c now period steady s)"
    if "phase (update c now period steady s) = Phase_kJtcActivating"
    using that react_activating [OF obs(1,2)] unfolding update_words [OF assms True]
    by (simp add: update_react [OF True])
  ultimately show ?thesis by (simp add: em_inv_def)
next
  case False
  with assms show ?thesis by (simp add: update_def)
qed

text \<open>
  A cycle keeps the invariant: the axes stay bound to their own command interfaces, apart from
  those of the devices and the drive modes, and while the motion controller is being activated all
  drives are held at 0x000F.
\<close>

theorem cycle_keeps_invariant:
  assumes "em_inv c s"
  shows "em_inv c (update c now period steady s)"
  using assms by (rule update_inv)

theorem cycle_keeps_invariant_witness:
  "em_inv sample_cfg (update sample_cfg 5 1 0 (sample_em Phase_kJtcActivating 0x0027 0x0027 enabled (Fin 3)))"
  by (rule cycle_keeps_invariant) simp

subsection \<open>Phases\<close>

lemma update_phase:
  "active s \<Longrightarrow> phase (update c now period steady s) = phase (react c now (observe c steady s))"
  by (simp add: update_react)

text \<open>
  C2: A cycle moves the phase only along the edges of the phase graph \<open>phase_next\<close>; in particular
  \<open>kEnabled\<close> is entered from \<open>kJtcActivating\<close> alone and \<open>kJtcActivating\<close> from \<open>kEnabling\<close> alone.
\<close>

theorem cycle_follows_graph:
  assumes "active s"
  shows "phase (update c now period steady s) \<in> phase_next (phase s)"
  using react_phase [of c now "observe c steady s"] by (simp add: update_phase [OF assms] observe_fields)

theorem cycle_follows_graph_witness:
  "phase (update sample_cfg 5 1 0 (sample_em Phase_kResetHigh 0x0008 0x0040 disabled (Fin 3)))
     \<in> {Phase_kResetHigh, Phase_kResetDisabling, Phase_kDisabling, Phase_kFailed}"
  using cycle_follows_graph [of "sample_em Phase_kResetHigh 0x0008 0x0040 disabled (Fin 3)" sample_cfg 5 1 0]
  by simp

subsection \<open>Faults\<close>

text \<open>What the cycle sees of the group: a drive in a fault state or a device that reports a fault.\<close>

definition group_faulted :: "em \<Rightarrow> bool" where
  "group_faulted s =
    (list_ex (\<lambda>a. isFaultState (drive_state s a)) [0..<length (cia402_axes s)] \<or>
     list_ex (\<lambda>d. hd_faulted (hd_read (state_interfaces s) d)) (handshake_devices s))"

lemma group_faulted_observe:
  assumes "group_faulted s"
  shows "anyDeviceFaulted (observe c steady s) \<or> list_ex isFaultState (axis_states (observe c steady s))"
proof -
  let ?o = "observe c steady s"
  from assms consider a where "a < length (cia402_axes s)" "isFaultState (drive_state s a)"
    | "list_ex (\<lambda>d. hd_faulted (hd_read (state_interfaces s) d)) (handshake_devices s)"
    by (auto simp: group_faulted_def list_ex_iff)
  then show ?thesis
  proof cases
    case 1
    have "a < length (axis_states ?o)" using 1(1) by (simp add: axis_states_def observe_fields)
    moreover have "isFaultState (axis_states ?o ! a)" using 1 by (simp add: observed_state)
    ultimately show ?thesis by (auto simp: list_ex_length)
  next
    case 2
    then show ?thesis by (simp add: anyDeviceFaulted_def observe_fields list_ex_iff)
  qed
qed

lemma faulted_not_ok:
  assumes "cycle_wf c s" "anyDeviceFaulted s \<or> list_ex isFaultState (axis_states s)"
  shows "\<not> group_ok c off s"
proof
  assume ok: "group_ok c off s"
  have "axis_states s ! a = kOperationEnabled" if "a < length (axis_states s)" for a
    using group_ok_enabled [OF ok] that cycle_wf_states [OF assms(1)] by simp
  then have "\<not> list_ex isFaultState (axis_states s)" by (auto simp: list_ex_length)
  moreover have "\<not> anyDeviceFaulted s"
    using ok by (auto simp: group_ok_def allDevicesEnabled_def anyDeviceFaulted_def list_all_iff list_ex_iff hd_enabled_def)
  ultimately show False using assms(2) by blast
qed

definition disarm_words :: "u16 set" where
  "disarm_words = {0x0000, 0x0002, 0x0006, 0x0007, 0x0080}"

lemma quick_disarm:
  "words_in (\<lambda>a. {quick_stop_command (axis_states s ! a)}) t \<Longrightarrow> words_in (\<lambda>_. disarm_words) t"
  by (rule words_in_mono, assumption) (use quick_stop_bound in \<open>force simp: disarm_words_def\<close>)

lemma down_disarm:
  "words_in (\<lambda>a. down_words (axis_states s ! a)) t \<Longrightarrow> words_in (\<lambda>_. disarm_words) t"
  by (rule words_in_mono, assumption) (use down_words_bound in \<open>force simp: disarm_words_def\<close>)

lemma react_alarm_words:
  assumes "cycle_wf c s" "running (phase s)" "\<not> group_ok c (offline_now s) s"
  shows "words_in (\<lambda>a. {quick_stop_command (axis_states s ! a)}) (react c now s)"
proof -
  have "group_alarm c (offline_now s) s \<noteq> None" using group_alarm_None assms(3) by simp
  then obtain st j w where a: "group_alarm c (offline_now s) s = Some (st, j, w)" by auto
  show ?thesis
    unfolding react_cases if_P [OF assms(2)] a option.case prod.case by (rule emergency_words [OF assms(1)]) simp
qed

lemma react_fault_words:
  assumes wf: "cycle_wf c s" and ph: "phase s \<noteq> Phase_kInactive"
    and fault: "anyDeviceFaulted s \<or> list_ex isFaultState (axis_states s)"
  shows "words_in (\<lambda>_. disarm_words) (react c now s)"
proof (cases "running (phase s)")
  case True
  then show ?thesis
    using react_alarm_words [OF wf True faulted_not_ok [OF wf fault]] quick_disarm by blast
next
  case False
  have eq: "react c now s = dispatch c now (phase s) s" using False by (simp add: react_cases)
  have zero: "words_in (\<lambda>_. {0x0000}) t \<Longrightarrow> words_in (\<lambda>_. disarm_words) t" for t
    by (rule words_in_mono, assumption) (simp add: disarm_words_def)
  have down: "words_in (\<lambda>_. disarm_words) (updateDownward c now (if b then startDownward c p now s else s))" for b p
    by (rule down_disarm [OF words_in_updateDownward], rule cycle_wf_cong [OF wf]) simp
  have idle: "words_in (\<lambda>_. disarm_words) (updateIdle c now s)" "words_in (\<lambda>_. disarm_words) (updateFailed c now s)"
    using updateIdle_parts [OF wf] updateFailed_parts [OF wf] zero by blast+
  have reset: "words_in (\<lambda>_. disarm_words) (updateReset c now s)"
    by (rule words_in_mono [OF words_in_updateReset [OF wf]]) (auto simp: reset_words_def disarm_words_def)
  have enable: "words_in (\<lambda>_. disarm_words) (updateEnable c now s)"
    by (rule quick_disarm [OF updateEnable_fault [OF wf fault]])
  have stop: "words_in (\<lambda>_. disarm_words) (updateEmergencyQuickStop c now s)"
    by (rule quick_disarm [OF words_in_updateEmergencyQuickStop [OF wf]])
  show ?thesis
    using False ph down idle reset enable stop unfolding eq
    by (cases "phase s") (simp_all only: dispatch_def phase.case running_simps simp_thms)
qed

text \<open>
  C3: In a cycle that sees a fault of any drive or device no drive of the group is given the word
  0x000F that enables or keeps it enabled, whatever the phase.
\<close>

theorem fault_disarms_group:
  assumes "em_inv c s" "active s" "phase s \<noteq> Phase_kInactive" "group_faulted s" "a < length (cia402_axes s)"
  shows "\<exists>w \<in> {0x0000, 0x0002, 0x0006, 0x0007, 0x0080}.
    control_word (update c now period steady s) a = word_value w"
proof -
  have "words_in (\<lambda>_. disarm_words) (update c now period steady s)"
    unfolding update_words [OF assms(1,2)]
    using inv_observe(1) [OF assms(1)] assms(3) group_faulted_observe [OF assms(4)]
    by (intro react_fault_words) (simp_all add: observe_fields)
  then show ?thesis
    using words_in_states [OF _ update_axes [OF assms(1)] assms(5)] unfolding disarm_words_def by blast
qed

theorem fault_disarms_group_witness:
  "\<exists>w \<in> {0x0000, 0x0002, 0x0006, 0x0007, 0x0080}. control_word
     (update sample_cfg 5 1 0 (sample_em Phase_kEnabled 0x0027 0x0008 enabled (Fin 3))) 0 = word_value w"
  by (rule fault_disarms_group)
     (simp_all add: group_faulted_def sample_status sample_status [unfolded One_nat_def] upt_rec
       decode_cia402_state_def)

subsection \<open>Devices that go offline\<close>

lemma emergency_fields:
  "restart_required (updateEmergencyQuickStop c now s) = restart_required s"
  "last_failure (updateEmergencyQuickStop c now s) = last_failure s"
  "offline_feedback (updateEmergencyQuickStop c now s) = offline_feedback s"
  "primary (updateEmergencyQuickStop c now s) = primary s"
  by (simp_all add: updateEmergencyQuickStop_def Let_def small_ops setControlWordsFrom_eq)

lemma startEmergency_fields:
  "restart_required (startEmergency c st j w now s) = restart_required s"
  "offline_feedback (startEmergency c st j w now s) = offline_feedback s"
  "last_failure_stage (last_failure (startEmergency c st j w now s)) = st"
  "primary_failure_stage (primary (startEmergency c st j w now s)) = st"
  by (simp_all add: startEmergency_def small_ops)

text \<open>
  C4: While the group runs, the first offline source (stale feedback or a slave out of OP) turns the
  same cycle into an emergency stop that requires a restart, records the source and the stage
  \<open>device_offline\<close>, and quick-stops every drive.
\<close>

theorem offline_stops_group:
  assumes "em_inv c s" "active s" "running (phase s)" "0 \<le> offlineSource c (observe c steady s)"
    "a < length (cia402_axes s)"
  shows "phase (update c now period steady s) \<in> {Phase_kEmergencyQuickStop, Phase_kEmergencyDisable}
    \<and> restart_required (update c now period steady s)
    \<and> offline_feedback (update c now period steady s) = offlineSource c (observe c steady s)
    \<and> last_failure_stage (last_failure (update c now period steady s)) = Stage_kDeviceOffline
    \<and> control_word (update c now period steady s) a = word_value (quick_stop_command (drive_state s a))"
proof -
  let ?o = "observe c steady s" and ?u = "update c now period steady s"
  have run: "running (phase ?o)" and off: "0 \<le> offline_now ?o"
    using assms(3,4) by (simp_all add: observe_fields)
  have al: "group_alarm c (offline_now ?o) ?o = Some (Stage_kDeviceOffline, -1, 0)"
    using off by (simp add: group_alarm_def)
  let ?t = "startEmergency c Stage_kDeviceOffline (-1) 0 now (note_offline (offline_now ?o) ?o)"
  have r: "react c now ?o = updateEmergencyQuickStop c now ?t"
    unfolding react_cases if_P [OF run] al option.case prod.case ..
  have noted: "restart_required (note_offline (offline_now ?o) ?o)"
    "offline_feedback (note_offline (offline_now ?o) ?o) = offlineSource c ?o"
    using off by (simp_all add: note_offline_def observe_fields)
  have u: "?u = emit c now period (updateEmergencyQuickStop c now ?t)"
    unfolding update_react [OF assms(2)] r ..
  have "words_in (\<lambda>a. {quick_stop_command (axis_states ?o ! a)}) ?u"
    unfolding update_words [OF assms(1,2)] r
    by (rule emergency_words [OF inv_observe(1) [OF assms(1)]]) simp
  then have "control_word ?u a = word_value (quick_stop_command (drive_state s a))"
    using words_in_states [OF _ update_axes [OF assms(1)] assms(5)] observed_state [OF assms(5)] by (metis singletonD)
  then show ?thesis
    using updateEmergencyQuickStop_phase [of ?t c now] noted
    unfolding u emit_same_fields [OF emit_same_emit] emergency_fields startEmergency_fields by simp
qed

lemma sample_offline:
  "offlineSource sample_cfg (observe sample_cfg st (sample_em p w0 w1 dp age)) =
     (if feedback_fresh age (Fin 500) then -1 else 0)"
  by (simp add: offlineSource_def observe_def captureSample_def sample_cfg_def sample_em_def Let_def
        refreshStatusWords_def refreshModes_def readDevices_def get_value_def first_index_def)

theorem offline_stops_group_witness:
  "phase (update sample_cfg 5 1 0 (sample_em Phase_kEnabled 0x0027 0x0027 enabled (Fin 501)))
     \<in> {Phase_kEmergencyQuickStop, Phase_kEmergencyDisable} \<and>
   control_word (update sample_cfg 5 1 0 (sample_em Phase_kEnabled 0x0027 0x0027 enabled (Fin 501))) 0
     = word_value 0x0002"
  using offline_stops_group [of sample_cfg "sample_em Phase_kEnabled 0x0027 0x0027 enabled (Fin 501)" 0 0 5 1]
  by (simp add: sample_offline feedback_fresh_def sample_status decode_cia402_state_def)



subsection \<open>Reaching and leaving the enabled state\<close>

text \<open>
  C6: \<open>kEnabled\<close> is entered only in a cycle in which every drive is in OperationEnabled in a mode
  that is allowed while running, every device is enabled, no source is offline and the service has
  reported that the motion controller is active; the enable result is then published as a success
  and the ownership given back.
\<close>

theorem enabled_entry:
  assumes "active s" "phase s \<noteq> Phase_kEnabled" "phase (update c now period steady s) = Phase_kEnabled"
  shows "phase s = Phase_kJtcActivating \<and> jtc_activated_request s
    \<and> offlineSource c (observe c steady s) < 0
    \<and> (\<forall>a \<in> {..<length (cia402_axes s)}. drive_state s a = kOperationEnabled
         \<and> runningModeConfirmed c (observe c steady s) a)
    \<and> list_all (\<lambda>d. hd_enabled (hd_read (state_interfaces s) d)) (handshake_devices s)
    \<and> rs_ok (enable_result (update c now period steady s))
    \<and> owner (update c now period steady s) = Owner_kNone"
proof -
  let ?o = "observe c steady s"
  have ph: "phase s = Phase_kJtcActivating"
    using assms(2,3) react_phase [of c now ?o] unfolding update_phase [OF assms(1)]
    by (cases "phase s") (auto simp: observe_fields)
  have ok: "group_alarm c (offline_now ?o) ?o = None"
  proof (rule ccontr)
    assume "group_alarm c (offline_now ?o) ?o \<noteq> None"
    then obtain st j w where al: "group_alarm c (offline_now ?o) ?o = Some (st, j, w)" by auto
    have "phase (react c now ?o) \<in> {Phase_kEmergencyQuickStop, Phase_kEmergencyDisable}"
      using ph al by (simp add: react_cases observe_fields updateEmergencyQuickStop_phase del: insert_iff)
    then show False using assms(3) by (simp add: update_phase [OF assms(1)])
  qed
  have r: "react c now ?o = updateJtcActivating c now ?o"
    using ph ok by (simp add: react_cases observe_fields dispatch_def)
  have u: "update c now period steady s = emit c now period (updateJtcActivating c now ?o)"
    unfolding update_react [OF assms(1)] r ..
  have p: "phase (updateJtcActivating c now ?o) = Phase_kEnabled" using assms(3) by (simp add: u)
  have act: "jtc_activated_request ?o" "\<not> jtc_activate_failed_request ?o"
    using p ph by (auto simp: updateJtcActivating_def Let_def observe_fields setAllControlWords_eq split: if_splits)
  have result: "rs_ok (enable_result (updateJtcActivating c now ?o))"
    "owner (updateJtcActivating c now ?o) = Owner_kNone"
    using act by (simp_all add: updateJtcActivating_def Let_def setAllControlWords_eq publishResult_eq)
  have g: "group_ok c (offline_now ?o) ?o" using ok group_alarm_None by blast
  have axes: "drive_state s a = kOperationEnabled \<and> runningModeConfirmed c ?o a" if "a < length (cia402_axes s)" for a
  proof
    have a: "a < length (cia402_axes ?o)" using that by (simp add: observe_fields)
    show "drive_state s a = kOperationEnabled"
      using group_ok_enabled [OF g a] that by (simp add: observed_state)
    show "runningModeConfirmed c ?o a"
      using g a unfolding group_ok_def axis_alarm_def Let_def by (metis option.distinct(1))
  qed
  have dev: "list_all (\<lambda>d. hd_enabled (hd_read (state_interfaces s) d)) (handshake_devices s)"
    using g by (simp add: group_ok_def allDevicesEnabled_def observe_fields list_all_iff)
  have off: "offlineSource c ?o < 0" using g by (simp add: group_ok_def observe_fields)
  show ?thesis
    unfolding u emit_same_fields [OF emit_same_emit]
    using ph act(1) off axes dev result by (simp add: observe_fields)
qed

definition sample_activated :: em where
  "sample_activated =
     (sample_em Phase_kJtcActivating 0x0027 0x0027 enabled (Fin 3))\<lparr>jtc_activated_request := True\<rparr>"

lemma sample_activated_enabled: "phase (update sample_cfg 5 1 0 sample_activated) = Phase_kEnabled"
  by code_simp

theorem enabled_entry_witness:
  "drive_state sample_activated 1 = kOperationEnabled \<and>
   rs_ok (enable_result (update sample_cfg 5 1 0 sample_activated))"
  using enabled_entry [OF _ _ sample_activated_enabled]
  by (simp add: sample_activated_def sample_em_def)

subsection \<open>Energising a drive\<close>

lemma not_F_down [simp]: "0x000F \<notin> down_words st" "quick_stop_command st \<noteq> 0x000F"
  by (cases st; simp add: down_words_def)+

lemma batch_command_new_F:
  assumes "batch_command c s a = 0x000F" "\<not> axis_invalid c s a" "axis_states s ! a \<noteq> kOperationEnabled"
  shows "last_batch_of c (current_batch s) a = Some (current_batch s)" "axis_states s ! a = kSwitchedOn"
proof -
  have le: "b \<le> current_batch s" if "last_batch_of c (current_batch s) a = Some b" for b
  proof -
    have "fold (\<lambda>batch found. if P batch then Some batch else found) bs r = Some b \<Longrightarrow>
        r = Some b \<or> b \<in> set bs" for P bs and r :: "nat option"
      by (induction bs arbitrary: r) (auto split: if_splits)
    from this [OF that [unfolded last_batch_of_def]] show ?thesis by auto
  qed
  obtain b where b: "last_batch_of c (current_batch s) a = Some b"
    using assms(1) by (cases "last_batch_of c (current_batch s) a") (simp_all add: batch_command_def)
  have nl: "\<not> b < current_batch s" using assms b by (auto simp: axis_invalid_def)
  with le [OF b] b show "last_batch_of c (current_batch s) a = Some (current_batch s)" by simp
  show "axis_states s ! a = kSwitchedOn"
    using assms b nl by (cases "axis_states s ! a") (simp_all add: batch_command_def axis_invalid_def)
qed

lemma react_new_F:
  assumes wf: "cycle_wf c s" and ph: "phase s \<noteq> Phase_kInactive" and a: "a < length (cia402_axes s)"
    and F: "control_word (react c now s) a = word_value 0x000F"
    and st: "axis_states s ! a \<noteq> kOperationEnabled"
  shows "phase s \<in> {Phase_kEnabling, Phase_kInterBatchDelay} \<and> axis_states s ! a = kSwitchedOn
    \<and> last_batch_of c (current_batch s) a = Some (current_batch s)"
proof -
  have F_in: "0x000F \<in> W a" if "words_in W (react c now s)" for W
  proof -
    have "cia402_axes (react c now s) = cia402_axes s"
      using wiring_react [OF wf] by (simp add: wiring_def)
    from words_in_states [OF that this a] obtain w where
      "w \<in> W a" "word_value w = word_value 0x000F" using F by metis
    then show ?thesis unfolding word_value_inj by simp
  qed
  have notrun: "\<not> running (phase s)"
  proof
    assume run: "running (phase s)"
    show False
    proof (cases "group_ok c (offline_now s) s")
      case True
      with st group_ok_enabled a show False by blast
    next
      case False
      from F_in [OF react_alarm_words [OF wf run False]] show False by auto
    qed
  qed
  then have eq: "react c now s = dispatch c now (phase s) s" by (simp add: react_cases)
  have F_dispatch: "0x000F \<in> W a" if "words_in W (dispatch c now (phase s) s)" for W
    using F_in that by (simp add: eq)
  have down: "words_in (\<lambda>a. down_words (axis_states s ! a)) (updateDownward c now (if b then startDownward c p now s else s))" for b p
    using words_in_updateDownward [of c "if b then startDownward c p now s else s" now]
      wiring_states [of "if b then startDownward c p now s else s" s] cycle_wf_cong [OF wf]
    by auto
  have "phase s \<in> {Phase_kEnabling, Phase_kInterBatchDelay}"
  proof (rule ccontr)
    assume not_en: "phase s \<notin> {Phase_kEnabling, Phase_kInterBatchDelay}"
    have zero: "words_in (\<lambda>_. {0x0000}) (updateIdle c now s)" "words_in (\<lambda>_. {0x0000}) (updateFailed c now s)"
      using updateIdle_parts [OF wf] updateFailed_parts [OF wf] by blast+
    show False
      using not_en notrun ph F_dispatch [of "\<lambda>a. down_words (axis_states s ! a)"]
        F_dispatch [of "\<lambda>_. {0x0000}"] F_dispatch [of "reset_words s"]
        F_dispatch [of "\<lambda>a. {quick_stop_command (axis_states s ! a)}"]
        down zero words_in_updateReset [OF wf, of now] words_in_updateEmergencyQuickStop [OF wf, of now]
      by (cases "phase s") (simp_all add: dispatch_def reset_words_def split: if_splits)
  qed
  moreover from this have "react c now s = updateEnable c now s" by (auto simp: eq dispatch_def)
  then have "0x000F \<in> enable_words c s a"
    using F_in [of "\<lambda>a. insert (quick_stop_command (axis_states s ! a)) (enable_words c s a)"]
      words_in_updateEnable [OF wf, of now] not_F_down(2) [of "axis_states s ! a"] by auto
  then have "\<not> axis_invalid c s a" "batch_command c s a = 0x000F"
    using st by (auto simp: enable_words_def split: if_splits)
  with batch_command_new_F st show ?thesis using calculation by blast
qed

text \<open>
  C7: A drive that does not run yet is given 0x000F only while the group is being enabled, only when
  it reports SwitchedOn, and only when the batch being enabled now is the last one that lists it:
  no drive of a later batch is energised early.
\<close>

theorem energised_only_in_its_batch:
  assumes "em_inv c s" "active s" "phase s \<noteq> Phase_kInactive" "a < length (cia402_axes s)"
    "drive_state s a \<noteq> kOperationEnabled"
    "phase s \<notin> {Phase_kEnabling, Phase_kInterBatchDelay} \<or> drive_state s a \<noteq> kSwitchedOn
     \<or> last_batch_of c (current_batch s) a \<noteq> Some (current_batch s)"
  shows "control_word (update c now period steady s) a \<noteq> word_value 0x000F"
proof
  assume F: "control_word (update c now period steady s) a = word_value 0x000F"
  let ?o = "observe c steady s"
  note obs = inv_observe(1) [OF assms(1), of steady]
  have "em_wf c (react c now ?o)"
    using cycle_wf_cong [OF obs wiring_react [OF obs]] by (simp add: cycle_wf_def)
  moreover have "a < length (cia402_axes (react c now ?o))"
    using wiring_axes [OF wiring_react [OF obs]] assms(4) by (simp add: observe_fields)
  ultimately have "control_word (react c now ?o) a = word_value 0x000F"
    using F emit_command unfolding update_react [OF assms(2)] by metis
  then show False
    using react_new_F [OF obs, of a now] assms(3-6) by (auto simp: observe_fields observed_state)
qed

theorem energised_only_in_its_batch_witness:
  "control_word (update sample_cfg 5 1 0 (sample_em Phase_kEnabling 0x0023 0x0023 disabled (Fin 3))) 1
     \<noteq> word_value 0x000F"
proof (rule energised_only_in_its_batch)
  show "drive_state (sample_em Phase_kEnabling 0x0023 0x0023 disabled (Fin 3)) 1 \<noteq> kOperationEnabled"
    unfolding sample_status by (simp add: decode_cia402_state_def)
  have "current_batch (sample_em Phase_kEnabling 0x0023 0x0023 disabled (Fin 3)) = 0"
    by (simp add: sample_em_def)
  then have "last_batch_of sample_cfg (current_batch (sample_em Phase_kEnabling 0x0023 0x0023 disabled (Fin 3))) 1 = None"
    by (simp add: last_batch_of_def sample_cfg_def)
  then show "phase (sample_em Phase_kEnabling 0x0023 0x0023 disabled (Fin 3)) \<notin> {Phase_kEnabling, Phase_kInterBatchDelay}
    \<or> drive_state (sample_em Phase_kEnabling 0x0023 0x0023 disabled (Fin 3)) 1 \<noteq> kSwitchedOn
    \<or> last_batch_of sample_cfg (current_batch (sample_em Phase_kEnabling 0x0023 0x0023 disabled (Fin 3))) 1
      \<noteq> Some (current_batch (sample_em Phase_kEnabling 0x0023 0x0023 disabled (Fin 3)))" by simp
qed simp_all

subsection \<open>Disabling\<close>

lemma hd_request_queries [simp]:
  "hd_faulted (hd_request_enable b d) = hd_faulted d" "hd_disabled (hd_request_enable b d) = hd_disabled d"
  "hd_enabled (hd_request_enable b d) = hd_enabled d"
  by (simp_all add: hd_request_enable_def hd_faulted_def hd_disabled_def hd_enabled_def)

text \<open>A shutdown that ends in \<open>kIdle\<close> went through \<open>finishDownward\<close> with everything terminal.\<close>

lemma finishDownward_disabled:
  assumes "phase s = Phase_kDisabling" "phase (finishDownward c s) = Phase_kIdle"
  shows "first_index isFaultState (axis_states s) = None" "\<not> anyDeviceFaulted s"
    "rs_ok (disable_result (finishDownward c s))" "owner (finishDownward c s) = Owner_kNone"
    "current_control_mode (finishDownward c s) = Mode_kDisabled"
  using assms by (auto simp: finishDownward_def Let_def publishResult_eq small_ops split: if_splits)

lemma updateDownward_disabled:
  assumes "phase s = Phase_kDisabling" "phase (updateDownward c now s) = Phase_kIdle"
  obtains t where "updateDownward c now s = finishDownward c t" "phase t = Phase_kDisabling"
    "wiring t = wiring s" "handshake_devices t = map (hd_request_enable False) (handshake_devices s)"
    "list_all (axis_nonfault_terminal c) (List.enumerate 0 (axis_states s))"
    "list_all (\<lambda>d. hd_disabled d \<or> hd_faulted d) (handshake_devices s)"
proof -
  define s1 where "s1 = requestDevicesEnable False s"
  define s2 where "s2 = setControlWordsFrom 0 (map downward_command (axis_states s1)) s1"
  define fin where "fin = (list_all (\<lambda>d. hd_disabled d \<or> hd_faulted d) (handshake_devices s1)
    \<and> list_all (axis_nonfault_terminal c) (List.enumerate 0 (axis_states s1)))"
  have wi: "wiring s1 = wiring s" by (simp add: s1_def)
  have s1: "axis_states s1 = axis_states s" "handshake_devices s1 = map (hd_request_enable False) (handshake_devices s)"
    using wiring_states [OF wi] by (simp_all add: s1_def requestDevicesEnable_def)
  have s2: "phase s2 = Phase_kDisabling" "wiring s2 = wiring s" "handshake_devices s2 = handshake_devices s1"
    by (simp_all add: s2_def s1_def assms(1)) (simp add: setControlWordsFrom_eq)
  have timeout: "phase (downwardTimeout c Phase_kDisabling f i now s2) = Phase_kEmergencyQuickStop" for f i
    using downwardTimeout_phase [of Phase_kDisabling s2 c f i now] s2(1) by simp
  have "updateDownward c now s = finishDownward c s2 \<and> fin"
    using assms(2) unfolding updateDownward_def Let_def s1_def [symmetric] s2_def [symmetric] fin_def [symmetric] assms(1)
    by (auto simp: timeout s2(1) split: if_splits)
  then show ?thesis
    using that [of s2] s2 s1 by (simp add: fin_def list_all_iff)
qed


definition sample_disabled :: em where
  "sample_disabled = (sample_em Phase_kDisabling 0x0040 0x0040 disabled (Fin 3))\<lparr>downward_stage := 2\<rparr>"

lemma sample_disabled_idle: "phase (update sample_cfg 5 1 0 sample_disabled) = Phase_kIdle"
  by code_simp


subsection \<open>Fault reset\<close>

lemma react_reset_word:
  assumes wf: "cycle_wf c s" and ph: "phase s \<noteq> Phase_kInactive" and a: "a < length (cia402_axes s)"
    and R: "control_word (react c now s) a = word_value 0x0080"
    and act: "phase s = Phase_kJtcActivating \<Longrightarrow> words_in (\<lambda>_. {0x000F}) s"
  shows "phase s \<in> {Phase_kResetLow, Phase_kResetHigh} \<and> reset_targets s ! a \<and> axis_states s ! a = kFault"
proof -
  have R_in: "0x0080 \<in> W a" if "words_in W (react c now s)" for W
  proof -
    have "cia402_axes (react c now s) = cia402_axes s"
      using wiring_react [OF wf] by (simp add: wiring_def)
    from words_in_states [OF that this a] obtain w where
      "w \<in> W a" "word_value w = word_value 0x0080" using R by metis
    then show ?thesis unfolding word_value_inj by simp
  qed
  have legal: "0x0080 \<in> legal_words (axis_states s ! a)"
    by (rule R_in [OF legal_react [OF wf act ph]])
  then have fault: "axis_states s ! a = kFault" by (cases "axis_states s ! a") simp_all
  then have any: "anyDeviceFaulted s \<or> list_ex isFaultState (axis_states s)"
    using a cycle_wf_states [OF wf] by (auto simp: list_ex_length)
  have notrun: "\<not> running (phase s)"
  proof
    assume run: "running (phase s)"
    have "0x0080 \<in> {quick_stop_command (axis_states s ! a)}"
      by (rule R_in [OF react_alarm_words [OF wf run faulted_not_ok [OF wf any]]])
    then show False by (simp add: fault)
  qed
  then have eq: "react c now s = dispatch c now (phase s) s" by (simp add: react_cases)
  have R_dispatch: "0x0080 \<in> W a" if "words_in W (dispatch c now (phase s) s)" for W
    using R_in that by (simp add: eq)
  have down: "words_in (\<lambda>a. down_words (axis_states s ! a)) (updateDownward c now (if b then startDownward c p now s else s))" for b p
    using words_in_updateDownward [of c "if b then startDownward c p now s else s" now]
      wiring_states [of "if b then startDownward c p now s else s" s] cycle_wf_cong [OF wf]
    by auto
  have zero: "words_in (\<lambda>_. {0x0000}) (updateIdle c now s)" "words_in (\<lambda>_. {0x0000}) (updateFailed c now s)"
    using updateIdle_parts [OF wf] updateFailed_parts [OF wf] by blast+
  have "phase s \<in> {Phase_kResetLow, Phase_kResetHigh}"
    using notrun ph R_dispatch [of "\<lambda>a. down_words (axis_states s ! a)"]
      R_dispatch [of "\<lambda>_. {0x0000}"]
      R_dispatch [of "\<lambda>a. {quick_stop_command (axis_states s ! a)}"]
      down zero updateEnable_fault [OF wf any, of now] words_in_updateEmergencyQuickStop [OF wf, of now] fault
    by (cases "phase s") (simp_all add: dispatch_def down_words_def split: if_splits)
  moreover from this have "0x0080 \<in> reset_words s a"
    using R_dispatch [of "reset_words s"] words_in_updateReset [OF wf, of now] by (auto simp: dispatch_def)
  ultimately show ?thesis using fault by (auto simp: reset_words_def split: if_splits)
qed

text \<open>
  The reset word 0x0080 goes only to a drive that was faulted when the reset was accepted and
  is still in Fault, in the phase \<open>kResetHigh\<close>.
\<close>

theorem reset_word_only_to_targets:
  assumes "em_inv c s" "active s" "phase s \<noteq> Phase_kInactive" "a < length (cia402_axes s)"
    "phase s \<notin> {Phase_kResetLow, Phase_kResetHigh} \<or> \<not> reset_targets s ! a \<or> drive_state s a \<noteq> kFault"
  shows "control_word (update c now period steady s) a \<noteq> word_value 0x0080"
proof
  assume R: "control_word (update c now period steady s) a = word_value 0x0080"
  let ?o = "observe c steady s"
  note obs = inv_observe [OF assms(1), of steady]
  have "em_wf c (react c now ?o)"
    using cycle_wf_cong [OF obs(1) wiring_react [OF obs(1)]] by (simp add: cycle_wf_def)
  moreover have "a < length (cia402_axes (react c now ?o))"
    using wiring_axes [OF wiring_react [OF obs(1)]] assms(4) by (simp add: observe_fields)
  ultimately have "control_word (react c now ?o) a = word_value 0x0080"
    using R emit_command unfolding update_react [OF assms(2)] by metis
  then show False
    using react_reset_word [OF obs(1), of a now] obs(3) assms(3-5)
    by (auto simp: observe_fields observed_state)
qed

theorem reset_word_only_to_targets_witness:
  "control_word (update sample_cfg 5 1 0 (sample_em Phase_kResetHigh 0x0008 0x0008 disabled (Fin 3))) 0
     \<noteq> word_value 0x0080"
proof (rule reset_word_only_to_targets)
  have "reset_targets (sample_em Phase_kResetHigh 0x0008 0x0008 disabled (Fin 3)) = [False, False]"
    by (simp add: sample_em_def)
  then show "phase (sample_em Phase_kResetHigh 0x0008 0x0008 disabled (Fin 3)) \<notin> {Phase_kResetLow, Phase_kResetHigh}
    \<or> \<not> reset_targets (sample_em Phase_kResetHigh 0x0008 0x0008 disabled (Fin 3)) ! 0
    \<or> drive_state (sample_em Phase_kResetHigh 0x0008 0x0008 disabled (Fin 3)) 0 \<noteq> kFault" by simp
qed simp_all

end
