(* ===== verification/EnableShutdown.thy ===== *)
theory EnableShutdown
  imports EnableSample
begin

text \<open>
  The shutdown of the group ends: every phase of the downward and emergency paths has a deadline,
  and a cycle either waits for it or moves on to a phase or stage of lower rank. The argument ins
  made once for any machine of this kind (locale \<open>staged_machine\<close>) and instantiated with the
  control cycle, in which the hardware and the services may change anything but the phase, the
  stage and the deadline between two cycles.
\<close>

subsection \<open>Machines with stages and deadlines\<close>

locale staged_machine =
  fixes step :: "'i \<Rightarrow> 's \<Rightarrow> 's" and time :: "'i \<Rightarrow> int" and good :: "'i \<Rightarrow> bool"
    and ready :: "'s \<Rightarrow> bool" and rank :: "'s \<Rightarrow> nat" and deadline :: "'s \<Rightarrow> int" and limit :: int
    and settled :: "'s \<Rightarrow> bool"
  assumes progress: "ready s \<Longrightarrow> good i \<Longrightarrow> 0 < rank s \<Longrightarrow>
    (rank (step i s) < rank s \<and> (0 < rank (step i s) \<longrightarrow> deadline (step i s) = time i + limit)) \<or>
    (rank (step i s) = rank s \<and> deadline (step i s) = deadline s \<and> time i < deadline s)"
    and ready_step: "ready s \<Longrightarrow> good i \<Longrightarrow> 0 < rank s \<Longrightarrow> 0 < rank (step i s) \<Longrightarrow> ready (step i s)"
    and settle: "ready s \<Longrightarrow> good i \<Longrightarrow> 0 < rank s \<Longrightarrow> rank (step i s) = 0 \<Longrightarrow> settled (step i s)"
begin

definition spaced :: "int \<Rightarrow> 'i list \<Rightarrow> bool" where
  "spaced delta ins = (\<forall>k. Suc k < length ins \<longrightarrow> time (ins ! k) + delta \<le> time (ins ! Suc k))"

lemma spaced_Cons: "spaced delta (i # ins) \<Longrightarrow> spaced delta ins"
  unfolding spaced_def by auto

lemma ends_aux:
  assumes "0 < delta" "limit \<le> int n * delta"
  shows "ready s \<Longrightarrow> list_all good ins \<Longrightarrow> spaced delta ins \<Longrightarrow>
    (ins \<noteq> [] \<longrightarrow> deadline s \<le> time (hd ins) + int m * delta) \<Longrightarrow>
    0 < rank s \<Longrightarrow> m + 1 + (rank s - 1) * (n + 1) \<le> length ins \<Longrightarrow>
    \<exists>k \<le> length ins. settled (fold step (take k ins) s)"
proof (induction "ins" arbitrary: s m)
  case Nil
  then show ?case by simp
next
  case (Cons i ins)
  let ?t = "step i s"
  have good: "good i" "list_all good ins" using Cons.prems(2) by auto
  note sp = spaced_Cons [OF Cons.prems(3)]
  have next_time: "ins \<noteq> [] \<Longrightarrow> time i + delta \<le> time (hd ins)"
    using Cons.prems(3) unfolding spaced_def by (cases "ins") (auto elim: allE [of _ 0])
  have lift: "\<exists>k \<le> length (i # ins). settled (fold step (take k (i # ins)) s)"
    if "\<exists>k \<le> length ins. settled (fold step (take k ins) ?t)"
  proof -
    from that obtain k where "k \<le> length ins" "settled (fold step (take k ins) ?t)" by blast
    then show ?thesis by (intro exI [of _ "Suc k"]) simp
  qed
  show ?case
  proof (cases "rank ?t = 0")
    case True
    then have "settled ?t" using settle Cons.prems(1,5) good(1) by blast
    then show ?thesis by (intro lift exI [of _ 0]) simp
  next
    case False
    have ready: "ready ?t" using ready_step Cons.prems(1,5) good(1) False by blast
    from progress [OF Cons.prems(1) good(1) Cons.prems(5)] False consider
      (down) "rank ?t < rank s" "deadline ?t = time i + limit"
      | (wait) "rank ?t = rank s" "deadline ?t = deadline s" "time i < deadline s" by auto
    then show ?thesis
    proof cases
      case down
      have "n + 1 + (rank ?t - 1) * (n + 1) = rank ?t * (n + 1)" using False
        by (cases "rank ?t") simp_all
      also have "\<dots> \<le> (rank s - 1) * (n + 1)" using down(1) by (intro mult_right_mono) auto
      also have "\<dots> \<le> length ins" using Cons.prems(6) by simp
      finally have len: "n + 1 + (rank ?t - 1) * (n + 1) \<le> length ins" .
      have "ins \<noteq> [] \<longrightarrow> deadline ?t \<le> time (hd ins) + int n * delta"
        using next_time assms down(2) by auto
      from Cons.IH [OF ready good(2) sp this _ len] False show ?thesis by (intro lift) simp
    next
      case wait
      have "m \<noteq> 0" using wait(3) Cons.prems(4) by (cases m) auto
      then obtain m' where m': "m = Suc m'" by (cases m) auto
      have "ins \<noteq> [] \<longrightarrow> deadline ?t \<le> time (hd ins) + int m' * delta"
        using next_time Cons.prems(4) wait(2) by (auto simp: m' algebra_simps)
      moreover have "m' + 1 + (rank ?t - 1) * (n + 1) \<le> length ins"
        using Cons.prems(6) by (simp add: wait(1) m')
      ultimately show ?thesis using Cons.IH [OF ready good(2) sp] False by (intro lift) simp
    qed
  qed
qed

lemma ends:
  assumes "0 < delta" "limit \<le> int n * delta" "ready s" "list_all good ins" "spaced delta ins"
    and "ins \<noteq> [] \<longrightarrow> deadline s \<le> time (hd ins) + limit"
    and "0 < rank s" "rank s * (n + 1) \<le> length ins"
  shows "\<exists>k \<le> length ins. settled (fold step (take k ins) s)"
proof (rule ends_aux [OF assms(1-5) _ assms(7), of n])
  show "ins \<noteq> [] \<longrightarrow> deadline s \<le> time (hd ins) + int n * delta" using assms(2,6) by auto
  obtain r where "rank s = Suc r" using assms(7) by (cases "rank s") auto
  then show "n + 1 + (rank s - 1) * (n + 1) \<le> length ins" using assms(8) by simp
qed

end

subsection \<open>The control cycle as such a machine\<close>

text \<open>
  One input is what happens between two cycles, the ROS time of the cycle, its period and the
  steady clock. \<open>shutdown_rank\<close> counts the deadlines still ahead.
\<close>

type_synonym cycle_input = "(em \<Rightarrow> em) \<times> int \<times> int \<times> u64"

definition cycle :: "em_cfg \<Rightarrow> cycle_input \<Rightarrow> em \<Rightarrow> em" where
  "cycle c = (\<lambda>(env, now, period, steady) s. update c now period steady (env s))"

definition input_time :: "cycle_input \<Rightarrow> int" where
  "input_time = (\<lambda>(env, now, period, steady). now)"

definition keeps_shutdown :: "(em \<Rightarrow> em) \<Rightarrow> bool" where
  "keeps_shutdown env = (\<forall>s. active (env s) = active s \<and> phase (env s) = phase s \<and>
     downward_stage (env s) = downward_stage s \<and> stage_deadline_ns (env s) = stage_deadline_ns s)"

definition input_good :: "cycle_input \<Rightarrow> bool" where
  "input_good = (\<lambda>(env, now, period, steady). keeps_shutdown env \<and> 0 \<le> now)"

definition stages_left :: "em \<Rightarrow> nat" where
  "stages_left s = 3 - min 2 (downward_stage s)"

definition shutdown_rank :: "em \<Rightarrow> nat" where
  "shutdown_rank s =
    (if phase s \<in> {Phase_kStartupSanitizing, Phase_kDisabling, Phase_kRollback} then 4 + stages_left s
     else if phase s = Phase_kEmergencyQuickStop then 4
     else if phase s \<in> {Phase_kEmergencyDisable, Phase_kResetDisabling} then stages_left s
     else 0)"

lemma stages_left_pos [simp]: "0 < stages_left s" "stages_left s \<le> 3"
  by (simp_all add: stages_left_def)

lemma shutdown_rank_pos:
  "0 < shutdown_rank s \<longleftrightarrow> downward (phase s) \<or> phase s = Phase_kEmergencyQuickStop"
  by (auto simp: shutdown_rank_def downward_def stages_left_def)

lemma shutdown_rank_simps:
  "phase s = Phase_kEmergencyQuickStop \<Longrightarrow> shutdown_rank s = 4"
  "phase s \<in> {Phase_kIdle, Phase_kFailed} \<Longrightarrow> shutdown_rank s = 0"
  by (auto simp: shutdown_rank_def)

lemma shutdown_rank_cong:
  "phase t = phase s \<Longrightarrow> downward_stage t = downward_stage s \<Longrightarrow> shutdown_rank t = shutdown_rank s"
  by (simp add: shutdown_rank_def stages_left_def)

lemma shutdown_rank_advance:
  assumes "downward (phase s)" "phase t = phase s" "downward_stage s < 2" "downward_stage t = Suc (downward_stage s)"
  shows "shutdown_rank t < shutdown_rank s"
  using assms by (auto simp: shutdown_rank_def downward_def stages_left_def)

lemma shutdown_rank_timeout:
  assumes "downward (phase s)" "phase s \<notin> {Phase_kResetDisabling, Phase_kEmergencyDisable}"
  shows "4 < shutdown_rank s"
  using assms by (auto simp: shutdown_rank_def downward_def)

lemma quick_stop_step:
  assumes "phase s = Phase_kEmergencyQuickStop"
  shows "(phase (updateEmergencyQuickStop c now s) = Phase_kEmergencyDisable \<and>
      stage_deadline_ns (updateEmergencyQuickStop c now s) = now + to_ns (disable_stage_timeout_seconds c))
    \<or> (phase (updateEmergencyQuickStop c now s) = Phase_kEmergencyQuickStop \<and>
       downward_stage (updateEmergencyQuickStop c now s) = downward_stage s \<and>
       stage_deadline_ns (updateEmergencyQuickStop c now s) = stage_deadline_ns s \<and> now < stage_deadline_ns s)"
  using assms by (simp add: updateEmergencyQuickStop_def Let_def not_le)

lemma react_shutdown:
  assumes "0 < shutdown_rank s" "stage_deadline_ns s \<noteq> 0"
  shows "react c now s = (if phase s = Phase_kEmergencyQuickStop then updateEmergencyQuickStop c now s
                          else updateDownward c now s)"
  using assms(1)
  unfolding shutdown_rank_pos downward_def
  by (auto simp: react_cases dispatch_def assms(2))

lemma react_progress:
  assumes "0 < shutdown_rank s" "stage_deadline_ns s \<noteq> 0"
  shows "(shutdown_rank (react c now s) < shutdown_rank s \<and>
      (0 < shutdown_rank (react c now s) \<longrightarrow>
        stage_deadline_ns (react c now s) = now + to_ns (disable_stage_timeout_seconds c)))
    \<or> (shutdown_rank (react c now s) = shutdown_rank s \<and>
       stage_deadline_ns (react c now s) = stage_deadline_ns s \<and> now < stage_deadline_ns s)"
proof (cases "phase s = Phase_kEmergencyQuickStop")
  case True
  then have r: "react c now s = updateEmergencyQuickStop c now s" using react_shutdown [OF assms] by simp
  have "shutdown_rank t < 4" if "phase t = Phase_kEmergencyDisable" for t
    using that le_imp_less_Suc [OF stages_left_pos(2) [of t]] by (simp add: shutdown_rank_def)
  then show ?thesis
    using quick_stop_step [OF True, of c now] True shutdown_rank_simps(1)
    unfolding r by (metis shutdown_rank_cong)
next
  case False
  then have down: "downward (phase s)" using assms(1) by (simp add: shutdown_rank_pos)
  have r: "react c now s = updateDownward c now s" using react_shutdown [OF assms] False by simp
  show ?thesis
  proof (rule updateDownward_step [OF down, of c now])
    assume "phase (updateDownward c now s) \<in> {Phase_kIdle, Phase_kFailed}"
    then show ?thesis unfolding r using assms(1) by (simp add: shutdown_rank_simps(2) del: insert_iff)
  next
    assume "phase (updateDownward c now s) = phase s" "downward_stage s < 2"
      "downward_stage (updateDownward c now s) = Suc (downward_stage s)"
      "stage_deadline_ns (updateDownward c now s) = now + to_ns (disable_stage_timeout_seconds c)"
    then show ?thesis unfolding r using shutdown_rank_advance [OF down] by blast
  next
    assume "phase (updateDownward c now s) = phase s" "now < stage_deadline_ns s"
      "downward_stage (updateDownward c now s) = downward_stage s"
      "stage_deadline_ns (updateDownward c now s) = stage_deadline_ns s"
    then show ?thesis unfolding r using shutdown_rank_cong by blast
  next
    assume "phase (updateDownward c now s) = Phase_kEmergencyQuickStop"
      "phase s \<notin> {Phase_kResetDisabling, Phase_kEmergencyDisable}"
      "stage_deadline_ns (updateDownward c now s) = now + to_ns (disable_stage_timeout_seconds c)"
    then show ?thesis unfolding r using shutdown_rank_timeout [OF down] shutdown_rank_simps(1) by metis
  qed
qed

lemma react_active:
  assumes "0 < shutdown_rank s" "stage_deadline_ns s \<noteq> 0"
  shows "active (react c now s) = active s"
proof -
  have "wiring (react c now s) = wiring s" using react_shutdown [OF assms] by simp
  then show ?thesis by (simp add: wiring_def)
qed

lemma react_settled:
  assumes "0 < shutdown_rank s" "shutdown_rank (react c now s) = 0"
  shows "phase (react c now s) \<in> {Phase_kIdle, Phase_kFailed}"
  using assms react_phase [of c now s] shutdown_rank_pos [of s] shutdown_rank_pos [of "react c now s"]
  by (cases "phase s"; cases "phase (react c now s)") simp_all

text \<open>A cycle as seen by the rank: it is the reaction to the state after the interleaved changes.\<close>

lemma cycle_react:
  assumes "active s" "keeps_shutdown env"
  obtains t where "active t" "shutdown_rank t = shutdown_rank s" "stage_deadline_ns t = stage_deadline_ns s"
    "emit_same (react c now t) (cycle c (env, now, period, steady) s)"
proof
  let ?t = "observe c steady (env s)"
  have env: "active (env s)" "phase (env s) = phase s" "downward_stage (env s) = downward_stage s"
    "stage_deadline_ns (env s) = stage_deadline_ns s"
    using assms by (simp_all add: keeps_shutdown_def)
  show "active ?t" "stage_deadline_ns ?t = stage_deadline_ns s" using env by (simp_all add: observe_fields)
  show "shutdown_rank ?t = shutdown_rank s" using env by (intro shutdown_rank_cong) (simp_all add: observe_fields)
  show "emit_same (react c now ?t) (cycle c (env, now, period, steady) s)"
    using env(1) emit_same_emit by (simp add: cycle_def update_react)
qed

lemma emit_same_rank: "emit_same s t \<Longrightarrow> shutdown_rank t = shutdown_rank s"
  using emit_same_fields by (intro shutdown_rank_cong) blast+

definition shutdown_ready :: "em \<Rightarrow> bool" where
  "shutdown_ready s = (active s \<and> 0 < stage_deadline_ns s)"

definition shutdown_limit :: "em_cfg \<Rightarrow> int" where
  "shutdown_limit c = to_ns (disable_stage_timeout_seconds c)"

text \<open>
  The interface holds for every configuration with a positive stage timeout; \<open>timed\<close> puts the
  timeout in range for the others, which no theorem below uses.
\<close>

definition timed :: "em_cfg \<Rightarrow> cycle_input \<Rightarrow> bool" where
  "timed c i = (input_good i \<and> 0 < shutdown_limit c)"

interpretation shutdown: staged_machine "cycle c" input_time "timed c" shutdown_ready shutdown_rank
  stage_deadline_ns "shutdown_limit c" "\<lambda>s. phase s \<in> {Phase_kIdle, Phase_kFailed}" for c
proof (unfold_locales, goal_cases)
  case (1 s i)
  obtain env now period steady where i: "i = (env, now, period, steady)" by (cases i)
  have env: "keeps_shutdown env" using 1(2) by (simp add: timed_def input_good_def i)
  obtain t where t: "active t" "shutdown_rank t = shutdown_rank s" "stage_deadline_ns t = stage_deadline_ns s"
    "emit_same (react c now t) (cycle c (env, now, period, steady) s)"
    using cycle_react [OF _ env] 1(1) unfolding shutdown_ready_def by metis
  have "stage_deadline_ns t \<noteq> 0" using 1(1) t(3) by (simp add: shutdown_ready_def)
  from react_progress [OF _ this, of c now] show ?case
    using 1(3) t emit_same_rank [OF t(4)] emit_same_fields(8) [OF t(4)]
    by (simp add: i input_time_def shutdown_limit_def)
next
  case (2 s i)
  obtain env now period steady where i: "i = (env, now, period, steady)" by (cases i)
  have env: "keeps_shutdown env" "0 \<le> now" "0 < shutdown_limit c"
    using 2(2) by (simp_all add: timed_def input_good_def i)
  obtain t where t: "active t" "shutdown_rank t = shutdown_rank s" "stage_deadline_ns t = stage_deadline_ns s"
    "emit_same (react c now t) (cycle c (env, now, period, steady) s)"
    using cycle_react [OF _ env(1)] 2(1) unfolding shutdown_ready_def by metis
  have d: "stage_deadline_ns t \<noteq> 0" "0 < stage_deadline_ns t" using 2(1) t(3) by (simp_all add: shutdown_ready_def)
  have r: "0 < shutdown_rank t" "0 < shutdown_rank (react c now t)"
    using 2(3,4) t(2) emit_same_rank [OF t(4)] by (simp_all add: i)
  have "0 < stage_deadline_ns (react c now t)"
    using react_progress [OF r(1) d(1), of c now] r(2) env(2,3) d(2) by (auto simp: shutdown_limit_def)
  then show ?case
    using react_active [OF r(1) d(1), of c now] t(1) emit_same_fields(8,9) [OF t(4)]
    by (simp add: shutdown_ready_def i)
next
  case (3 s i)
  obtain env now period steady where i: "i = (env, now, period, steady)" by (cases i)
  have env: "keeps_shutdown env" using 3(2) by (simp add: timed_def input_good_def i)
  obtain t where t: "active t" "shutdown_rank t = shutdown_rank s"
    "emit_same (react c now t) (cycle c (env, now, period, steady) s)"
    using cycle_react [OF _ env] 3(1) unfolding shutdown_ready_def by metis
  have "phase (react c now t) \<in> {Phase_kIdle, Phase_kFailed}"
    using 3(3,4) t(2) emit_same_rank [OF t(3)] by (intro react_settled) (simp_all add: i)
  then show ?case using emit_same_fields(6) [OF t(3)] by (simp add: i)
qed

lemma shutdown_rank_le: "shutdown_rank s \<le> 7"
  by (auto simp: shutdown_rank_def stages_left_def)

text \<open>
  C9: A shutdown ends in bounded time. From any downward or emergency phase, with cycles at least
  \<open>delta\<close> nanoseconds apart and whatever the drives, the devices and the services do between them
  short of moving the phase, the group is in \<open>kIdle\<close> or \<open>kFailed\<close> after at most 7 * (n + 1) cycles,
  where n cycles cover one stage timeout.
\<close>

theorem shutdown_ends:
  assumes "active s" "downward (phase s) \<or> phase s = Phase_kEmergencyQuickStop"
    and "0 < shutdown_limit c" "0 < delta" "shutdown_limit c \<le> int n * delta"
    and "\<forall>i \<in> set ins. input_good i"
    and "\<forall>k. Suc k < length ins \<longrightarrow> input_time (ins ! k) + delta \<le> input_time (ins ! Suc k)"
    and "0 < stage_deadline_ns s" "stage_deadline_ns s \<le> input_time (hd ins) + shutdown_limit c"
    and "7 * (n + 1) \<le> length ins"
  shows "\<exists>k \<le> length ins. phase (fold (cycle c) (take k ins) s) \<in> {Phase_kIdle, Phase_kFailed}"
proof (rule shutdown.ends [OF assms(4,5)])
  show "shutdown_ready s" using assms(1,8) by (simp add: shutdown_ready_def)
  show "list_all (timed c) ins" using assms(3,6) by (simp add: list_all_iff timed_def)
  show "shutdown.spaced delta ins" using assms(7) by (simp add: shutdown.spaced_def)
  show "ins \<noteq> [] \<longrightarrow> stage_deadline_ns s \<le> input_time (hd ins) + shutdown_limit c" using assms(9) by simp
  show "0 < shutdown_rank s" using assms(2) by (simp add: shutdown_rank_pos)
  have "shutdown_rank s * (n + 1) \<le> 7 * (n + 1)" using shutdown_rank_le by (rule mult_right_mono) simp
  then show "shutdown_rank s * (n + 1) \<le> length ins" using assms(10) by simp
qed

definition sample_inputs :: "cycle_input list" where
  "sample_inputs = map (\<lambda>k. (id, int k * 4000000000, 4000000000, 0)) [0..<14]"

theorem shutdown_ends_witness:
  "\<exists>k \<le> 14. phase (fold (cycle sample_cfg) (take k sample_inputs)
     (sample_em Phase_kEmergencyQuickStop 0x0027 0x0008 fault_latched NaN)) \<in> {Phase_kIdle, Phase_kFailed}"
proof -
  have lim: "shutdown_limit sample_cfg = 4000000000"
    using f64_of_int_exact [of 4000000000] rat_trunc_of_int [of 4000000000]
    by (simp add: shutdown_limit_def to_ns_def sample_cfg_def f64_of_int_def)
  have "\<exists>k \<le> length sample_inputs. phase (fold (cycle sample_cfg) (take k sample_inputs)
     (sample_em Phase_kEmergencyQuickStop 0x0027 0x0008 fault_latched NaN)) \<in> {Phase_kIdle, Phase_kFailed}"
  proof (rule shutdown_ends [where delta = 4000000000 and n = 1])
    show "\<forall>i \<in> set sample_inputs. input_good i"
      by (auto simp: sample_inputs_def input_good_def keeps_shutdown_def)
    have nth: "input_time (sample_inputs ! k) = int k * 4000000000" if "k < 14" for k
    proof -
      have "[0..<14] ! k = k" using that by (simp only: nth_upt add_0)
      with that show ?thesis by (simp add: sample_inputs_def input_time_def del: upt_rec_numeral)
    qed
    have len: "length sample_inputs = 14" by (simp add: sample_inputs_def)
    show "\<forall>k. Suc k < length sample_inputs \<longrightarrow>
        input_time (sample_inputs ! k) + 4000000000 \<le> input_time (sample_inputs ! Suc k)"
      unfolding len by (intro allI impI) (simp add: nth)
    show "stage_deadline_ns (sample_em Phase_kEmergencyQuickStop 0x0027 0x0008 fault_latched NaN)
        \<le> input_time (hd sample_inputs) + shutdown_limit sample_cfg"
      by (simp add: lim sample_em_def sample_inputs_def input_time_def hd_map)
  qed (simp_all add: lim sample_em_def sample_inputs_def)
  then show ?thesis by (simp add: sample_inputs_def)
qed

end
