(* ===== verification/EnableActivate.thy ===== *)
theory EnableActivate
  imports EnableSample
begin

text \<open>
  Activation and deactivation of \<open>EnableManagerController\<close> (\<open>on_activate\<close>, \<open>on_deactivate\<close>,
  \<open>releaseCia402Interfaces\<close>), the interfaces it claims and the binding of the drive-mode commands
  (\<open>bindDriveModeCommands\<close>). A callback returns \<open>True\<close> for \<open>SUCCESS\<close> and \<open>False\<close> for \<open>ERROR\<close>. An
  activation that succeeds establishes the invariant \<open>em_inv\<close> of the cycles.
\<close>

subsection \<open>Claimed interfaces\<close>

definition command_interface_configuration :: "em_cfg \<Rightarrow> em \<Rightarrow> string list" where
  "command_interface_configuration c s =
     concat (map axis_command_interface_names (cia402_axes s)) @
     concat (map hd_command_interface_names (handshake_devices s)) @
     map (\<lambda>joint. joint @ ''/mode_of_operation'') (mode_switch_joint_names c)"

definition add_new :: "string \<Rightarrow> string list \<Rightarrow> string list" where
  "add_new name names = (if name \<in> set names then names else names @ [name])"

definition state_interface_configuration :: "em_cfg \<Rightarrow> em \<Rightarrow> string list" where
  "state_interface_configuration c s =
    (let names = concat (map axis_state_interface_names (cia402_axes s)) @
           (if motion_mode_switching c
            then map (\<lambda>joint. joint @ ''/position'') (motion_joint_names c)
                 @ [''ethercat_domain/process_data_age_ms''] else []) @
           (if expected_modes c \<noteq> []
            then map (\<lambda>joint. joint @ ''/mode_of_operation_display'') (joint_names c) else []) @
           ready_state_names c @
           concat (map hd_state_interface_names (handshake_devices s)) @
           diagnostic_state_names c
     in fold add_new (offline_source_names c) names)"

subsection \<open>Binding\<close>

text \<open>Both assignments run for every axis, also after a failed one.\<close>

fun bind_axes :: "loaned list \<Rightarrow> loaned list \<Rightarrow> cia402_axis list \<Rightarrow> bool \<times> cia402_axis list" where
  "bind_axes commands states [] = (True, [])"
| "bind_axes commands states (a # axes) =
    (let (command_bound, a1) = assign_loaned_command_interfaces a commands;
         (state_bound, a2) = assign_loaned_state_interfaces a1 states;
         (rest_bound, axes') = bind_axes commands states axes
     in (command_bound \<and> state_bound \<and> rest_bound, a2 # axes'))"

text \<open>A device is only bound while everything before it was: \<open>&&\<close> does not call \<open>bind\<close> otherwise.\<close>

fun bind_devices :: "loaned list \<Rightarrow> loaned list \<Rightarrow> bool \<Rightarrow> hs_device list \<Rightarrow> bool \<times> hs_device list" where
  "bind_devices commands states bound [] = (bound, [])"
| "bind_devices commands states bound (d # ds) =
    (if bound then
       let (b, d') = hd_bind d commands states;
           (bound', ds') = bind_devices commands states b ds
       in (bound', d' # ds')
     else (False, d # ds))"

definition bindDriveModeCommands :: "em_cfg \<Rightarrow> em \<Rightarrow> bool \<times> em" where
  "bindDriveModeCommands c s =
    (let s1 = s\<lparr>drive_mode_command_offset := length (cia402_axes s) + length (handshake_devices s) * 2\<rparr>
     in if \<exists>index \<in> set [0..<length (mode_switch_joint_names c)].
             full_name (command_interfaces s1 ! (drive_mode_command_offset s1 + index))
               \<noteq> mode_switch_joint_names c ! index @ ''/mode_of_operation''
        then (False, s1)
        else (True, s1\<lparr>drive_csp_requested := False,
                       drive_mode_display := replicate 16 256\<rparr>))"

definition releaseCia402Interfaces :: "em \<Rightarrow> em" where
  "releaseCia402Interfaces s =
     s\<lparr>cia402_axes := map release_axis (cia402_axes s),
       handshake_devices := map hd_release (handshake_devices s)\<rparr>"

text \<open>
  The loops that look a list of names up in the state interfaces, writing the index of each source:
  one counts the matches and wants exactly one, the other takes the first.
\<close>

fun bind_sources_once :: "loaned list \<Rightarrow> string list \<Rightarrow> nat \<Rightarrow> nat list \<Rightarrow> bool \<times> nat list" where
  "bind_sources_once states [] k indices = (True, indices)"
| "bind_sources_once states (name # names) k indices =
    (let hits = filter (\<lambda>i. full_name (states ! i) = name) [0..<length states];
         indices' = (if hits = [] then indices else indices[k := last hits])
     in if length hits \<noteq> 1 then (False, indices')
        else bind_sources_once states names (Suc k) indices')"

fun bind_sources_first :: "loaned list \<Rightarrow> string list \<Rightarrow> nat \<Rightarrow> nat list \<Rightarrow> bool \<times> nat list" where
  "bind_sources_first states [] k indices = (True, indices)"
| "bind_sources_first states (name # names) k indices =
    (case first_index (\<lambda>i. full_name i = name) states of
       None \<Rightarrow> (False, indices)
     | Some i \<Rightarrow> bind_sources_first states names (Suc k) (indices[k := i]))"

fun baseline_devices :: "loaned list \<Rightarrow> hs_device list \<Rightarrow> loaned list \<Rightarrow> bool \<times> hs_device list \<times> loaned list" where
  "baseline_devices states [] commands = (True, [], commands)"
| "baseline_devices states (d # ds) commands =
    (case hd_baseline states d commands of
       (False, d', commands') \<Rightarrow> (False, d' # ds, commands')
     | (True, d', commands') \<Rightarrow>
         (case baseline_devices states ds commands' of
            (ok, ds', commands'') \<Rightarrow> (ok, d' # ds', commands'')))"

subsection \<open>Activation\<close>

definition activate_bind :: "em_cfg \<Rightarrow> em \<Rightarrow> bool \<times> em" where
  "activate_bind c s =
    (let (axes_ok, axes) = bind_axes (command_interfaces s) (state_interfaces s) (cia402_axes s);
         (bound, devices) = bind_devices (command_interfaces s) (state_interfaces s) axes_ok (handshake_devices s);
         s1 = s\<lparr>cia402_axes := axes, handshake_devices := devices\<rparr>
     in if bound then bindDriveModeCommands c s1 else (False, s1))"

definition activate_motion_order :: "em_cfg \<Rightarrow> em \<Rightarrow> bool" where
  "activate_motion_order c s =
    (\<not> motion_mode_switching c \<or>
     ((\<forall>axis \<in> set [0..<length (motion_joint_names c)].
         full_name (state_interfaces s ! (length (cia402_axes s) + axis)) = motion_joint_names c ! axis @ ''/position'') \<and>
      full_name (state_interfaces s ! (length (cia402_axes s) + length (motion_joint_names c)))
        = ''ethercat_domain/process_data_age_ms''))"

definition activate_sources :: "em_cfg \<Rightarrow> em \<Rightarrow> bool \<times> em" where
  "activate_sources c s =
    (let states = state_interfaces s;
         (ok1, ready) = bind_sources_once states (ready_state_names c) 0 (ready_state_indices s);
         s1 = s\<lparr>ready_state_indices := ready\<rparr>
     in if \<not> ok1 then (False, s1) else
    (let (ok2, modes) = bind_sources_once states
           (map (\<lambda>axis. joint_names c ! axis @ ''/mode_of_operation_display'') [0..<length (expected_modes c)])
           0 (mode_state_indices s1);
         s2 = s1\<lparr>mode_state_indices := modes\<rparr>
     in if \<not> ok2 then (False, s2) else
    (let (ok3, diag) = bind_sources_first states (diagnostic_state_names c) 0 (diagnostic_state_indices s2);
         s3 = s2\<lparr>diagnostic_state_indices := diag\<rparr>
     in if \<not> ok3 then (False, s3) else
    (let (ok4, offline) = bind_sources_first states (offline_source_names c) 0 (offline_source_indices s3)
     in (ok4, s3\<lparr>offline_source_indices := offline\<rparr>)))))"

definition activate_devices :: "em \<Rightarrow> bool \<times> em" where
  "activate_devices s =
    (case baseline_devices (state_interfaces s) (handshake_devices s) (command_interfaces s) of
       (ok, devices, commands) \<Rightarrow> (ok, s\<lparr>handshake_devices := devices, command_interfaces := commands\<rparr>))"

definition activate_reset :: "em_cfg \<Rightarrow> em \<Rightarrow> em" where
  "activate_reset c s0 =
    (let s = setAllControlWords 0x0000 (s0\<lparr>device_stage := False\<rparr>);
         s1 = s\<lparr>enable_request := False, disable_request := False, reset_request := False,
                enable_hardware_ready := False, jtc_activate_failed_request := False,
                jtc_activated_request := False, emergency_jtc_deactivate_request := False,
                jtc_deactivation_required := False, restart_required := False,
                mode_callback_active := False, mode_abort_requested := False,
                switch_in_progress := False, current_control_mode := Mode_kDisabled,
                jtc_command_snapshot := empty_snapshot, rolling_command_snapshot := empty_snapshot,
                actual_sample_version := 0,
                actual_sample := (actual_sample s)\<lparr>as_sequence := 0, as_steady_time_ns := 0\<rparr>\<rparr>;
         s2 = (if motion_mode_switching c then
                 let motion_offset = length (cia402_axes s1); n = length (motion_joint_names c)
                 in s1\<lparr>actual_sample := (actual_sample s1)
                        \<lparr>as_positions := map (\<lambda>axis. get_value (state_interfaces s1) (motion_offset + axis)) [0..<n],
                         as_feedback_age_ms := get_value (state_interfaces s1) (motion_offset + n)\<rparr>\<rparr>
               else s1)
     in (clearFailure s2)
          \<lparr>current_batch := 0, downward_stage := 0, stage_deadline_ns := 0,
           enable_preempt_requested := False, jtc_deactivate_failed := False, primary := no_primary,
           owner := Owner_kInternal, phase := Phase_kStartupSanitizing, active := True\<rparr>)"

definition on_activate :: "em_cfg \<Rightarrow> em \<Rightarrow> bool \<times> em" where
  "on_activate c s =
    (if length (command_interfaces s) \<noteq> length (cia402_axes s) + length (handshake_devices s) * 2
          + length (mode_switch_joint_names c)
        \<or> length (state_interfaces s) \<noteq> length (state_interface_configuration c s)
     then (False, s)
     else let (bound, s1) = activate_bind c s
     in if \<not> bound then (False, releaseCia402Interfaces s1)
     else if \<not> activate_motion_order c s1 then (False, releaseCia402Interfaces s1)
     else let (found, s2) = activate_sources c s1
     in if \<not> found then (False, releaseCia402Interfaces s2)
     else let (valid, s3) = activate_devices (s2\<lparr>offline_feedback := -1, offline_now := -1\<rparr>)
     in if \<not> valid then (False, releaseCia402Interfaces s3)
     else (True, activate_reset c s3))"

definition on_deactivate :: "em \<Rightarrow> bool \<times> em" where
  "on_deactivate s =
    (let s1 = setAllControlWords 0x0000 (s\<lparr>active := False, mode_abort_requested := True\<rparr>);
         s2 = writeDevices (requestDevicesEnable False s1)
     in (True, releaseCia402Interfaces
          (s2\<lparr>phase := Phase_kInactive, owner := Owner_kInternal, current_control_mode := Mode_kDisabled\<rparr>)))"

subsection \<open>The bound axes\<close>

lemma bind_axes_spec:
  assumes "bind_axes commands states axes = (True, axes')" "\<forall>a \<in> set axes. command_interface a = None"
  shows "length axes' = length axes \<and> (\<forall>k < length axes. joint_name (axes' ! k) = joint_name (axes ! k) \<and>
    (\<exists>i < length commands. command_interface (axes' ! k) = Some i \<and>
       prefix_name (commands ! i) = joint_name (axes ! k) \<and> interface_name (commands ! i) = ''control_word''))"
  using assms
proof (induction axes arbitrary: axes')
  case Nil
  then show ?case by simp
next
  case (Cons a axes)
  obtain cb a1 where c: "assign_loaned_command_interfaces a commands = (cb, a1)" by fastforce
  obtain sb a2 where s: "assign_loaned_state_interfaces a1 states = (sb, a2)" by fastforce
  obtain rb rest where r: "bind_axes commands states axes = (rb, rest)" by fastforce
  from Cons.prems have all: "cb" "sb" "rb" "axes' = a2 # rest" by (auto simp: c s r)
  from c all(1) Cons.prems(2) obtain i where i: "bind_exactly_once commands (joint_name a) ''control_word'' = Some i"
    "a1 = a\<lparr>command_interface := Some i\<rparr>"
    by (auto simp: assign_loaned_command_interfaces_def split: option.splits)
  have a2: "command_interface a2 = Some i" "joint_name a2 = joint_name a"
    using s i(2) by (auto simp: assign_loaned_state_interfaces_def split: option.splits if_splits)
  have tail: "length rest = length axes \<and> (\<forall>k < length axes. joint_name (rest ! k) = joint_name (axes ! k) \<and>
    (\<exists>i < length commands. command_interface (rest ! k) = Some i \<and>
       prefix_name (commands ! i) = joint_name (axes ! k) \<and> interface_name (commands ! i) = ''control_word''))"
    using Cons.IH [of rest] r all(3) Cons.prems(2) by simp
  show ?case
    using tail a2 bind_exactly_once_Some [OF i(1)] unfolding all(4)
    by (auto simp: less_Suc_eq_0_disj)
qed

lemma bind_devices_spec:
  assumes "bind_devices commands states b ds = (True, ds')"
  shows "b \<and> (\<forall>d \<in> set ds'. hd_bound d commands states) \<and> length ds' = length ds"
  using assms
proof (induction ds arbitrary: b ds')
  case Nil
  then show ?case by simp
next
  case (Cons d ds)
  then have b: "b" by (auto split: if_splits)
  obtain b1 d1 where d1: "hd_bind d commands states = (b1, d1)" by fastforce
  obtain b2 ds2 where ds2: "bind_devices commands states b1 ds = (b2, ds2)" by fastforce
  from Cons.prems b have all: "b2" "ds' = d1 # ds2" by (auto simp: d1 ds2)
  from Cons.IH [of b1 ds2] ds2 all(1) have ih: "b1" "\<forall>d \<in> set ds2. hd_bound d commands states" "length ds2 = length ds"
    by simp_all
  have "hd_bound d1 commands states" using hd_bind_bound [of d commands states d1] d1 ih(1) by simp
  with ih b show ?case by (simp add: all(2))
qed

text \<open>Names that end differently name different interfaces.\<close>

lemma name_ends_differ:
  "j @ ''/control_word'' \<noteq> g @ ''/enable_request''"
  "j @ ''/control_word'' \<noteq> g @ ''/reset_generation''"
  "j @ ''/control_word'' \<noteq> g @ ''/mode_of_operation''"
proof -
  have ends: "x @ p \<noteq> y @ q" if "p \<noteq> []" "q \<noteq> []" "last p \<noteq> last q" for x y p q :: string
    using that by (metis last_appendR)
  show "j @ ''/control_word'' \<noteq> g @ ''/enable_request''" by (rule ends) simp_all
  show "j @ ''/control_word'' \<noteq> g @ ''/reset_generation''" by (rule ends) simp_all
  show "j @ ''/control_word'' \<noteq> g @ ''/mode_of_operation''" by (rule ends) simp_all
qed

subsection \<open>Activation establishes the invariant\<close>

text \<open>
  What \<open>on_configure\<close> leaves behind: one unbound axis per managed joint, joints without duplicates,
  and enable batches over exactly these axes (the partition the composer checks).
\<close>

definition configured :: "em_cfg \<Rightarrow> em \<Rightarrow> bool" where
  "configured c s =
    (map joint_name (cia402_axes s) = joint_names c \<and> distinct (joint_names c) \<and>
     list_all (\<lambda>a. command_interface a = None \<and> state_interface a = None) (cia402_axes s) \<and>
     length (reset_targets s) = length (cia402_axes s) \<and>
     list_all (list_all (\<lambda>axis. axis < length (cia402_axes s))) (enable_batches c) \<and>
     covers c (length (cia402_axes s)) \<and>
     length (mode_switch_axes c) = length (mode_switch_joint_names c))"

lemma axes_bound_of_names:
  assumes "distinct (map joint_name axes)"
    and "\<And>k. k < length axes \<Longrightarrow> \<exists>i < length commands. command_interface (axes ! k) = Some i \<and>
       prefix_name (commands ! i) = joint_name (axes ! k)"
  shows "axes_bound axes commands"
  unfolding axes_bound_def
proof
  show "\<forall>a < length axes. \<exists>i < length commands. command_interface (axes ! a) = Some i"
    using assms(2) by blast
  show "distinct (map command_interface axes)"
    unfolding distinct_conv_nth
  proof (intro allI impI)
    fix a b assume ab: "a < length (map command_interface axes)" "b < length (map command_interface axes)" "a \<noteq> b"
    obtain i where i: "command_interface (axes ! a) = Some i" "prefix_name (commands ! i) = joint_name (axes ! a)"
      using assms(2) [of a] ab by auto
    obtain j where j: "command_interface (axes ! b) = Some j" "prefix_name (commands ! j) = joint_name (axes ! b)"
      using assms(2) [of b] ab by auto
    have "joint_name (axes ! a) \<noteq> joint_name (axes ! b)"
      using assms(1) ab by (simp add: distinct_conv_nth)
    then show "map command_interface axes ! a \<noteq> map command_interface axes ! b"
      using i j ab by auto
  qed
qed

lemma bindDriveModeCommands_True:
  assumes "bindDriveModeCommands c s = (True, t)"
  shows "t = s\<lparr>drive_mode_command_offset := length (cia402_axes s) + length (handshake_devices s) * 2,
           drive_csp_requested := False, drive_mode_display := replicate 16 256\<rparr>"
    and "k < length (mode_switch_joint_names c) \<Longrightarrow>
      full_name (command_interfaces s ! (drive_mode_command_offset t + k))
        = mode_switch_joint_names c ! k @ ''/mode_of_operation''"
  using assms by (auto simp: bindDriveModeCommands_def Let_def split: if_splits)

lemma activate_bind_wf:
  assumes conf: "configured c s" and bind: "activate_bind c s = (True, t)"
  shows "em_wf c t \<and> length (cia402_axes t) = length (cia402_axes s) \<and>
    command_interfaces t = command_interfaces s"
proof -
  obtain ok axes where ax: "bind_axes (command_interfaces s) (state_interfaces s) (cia402_axes s) = (ok, axes)"
    by fastforce
  obtain bound devices where dv: "bind_devices (command_interfaces s) (state_interfaces s) ok (handshake_devices s) = (bound, devices)"
    by fastforce
  define s1 where "s1 = s\<lparr>cia402_axes := axes, handshake_devices := devices\<rparr>"
  have bound: "bound" "bindDriveModeCommands c s1 = (True, t)"
    using bind by (auto simp: activate_bind_def ax dv Let_def s1_def split: if_splits)
  have devs: "ok" "\<forall>d \<in> set devices. hd_bound d (command_interfaces s) (state_interfaces s)"
    using bind_devices_spec [of _ _ ok "handshake_devices s" devices] dv bound(1) by auto
  have none: "\<forall>a \<in> set (cia402_axes s). command_interface a = None"
    using conf by (auto simp: configured_def list_all_iff)
  have axs: "length axes = length (cia402_axes s)"
    "\<And>k. k < length (cia402_axes s) \<Longrightarrow> joint_name (axes ! k) = joint_name (cia402_axes s ! k) \<and>
      (\<exists>i < length (command_interfaces s). command_interface (axes ! k) = Some i \<and>
         prefix_name (command_interfaces s ! i) = joint_name (cia402_axes s ! k) \<and>
         interface_name (command_interfaces s ! i) = ''control_word'')"
    using bind_axes_spec [of _ _ "cia402_axes s" axes] ax devs(1) none by auto
  note t = bindDriveModeCommands_True [OF bound(2)]
  have tf: "cia402_axes t = axes" "handshake_devices t = devices" "command_interfaces t = command_interfaces s"
    "reset_targets t = reset_targets s"
    by (simp_all add: t(1) s1_def)
  have names: "map joint_name axes = joint_names c"
  proof -
    have "map joint_name axes = map joint_name (cia402_axes s)"
      using axs by (intro nth_equalityI) auto
    then show ?thesis using conf by (simp add: configured_def)
  qed
  have bnd: "axes_bound axes (command_interfaces s)"
  proof (rule axes_bound_of_names)
    show "distinct (map joint_name axes)" using names conf by (simp add: configured_def)
  next
    fix k assume "k < length axes"
    then show "\<exists>i < length (command_interfaces s). command_interface (axes ! k) = Some i \<and>
       prefix_name (command_interfaces s ! i) = joint_name (axes ! k)"
      using axs(2) [of k] axs(1) by auto
  qed
  have axis_name: "\<exists>i j. command_interface a = Some i \<and> full_name (command_interfaces s ! i) = j @ ''/control_word''"
    if "a \<in> set axes" for a
  proof -
    from that obtain k where "k < length axes" "a = axes ! k" by (auto simp: in_set_conv_nth)
    then show ?thesis using axs(2) [of k] axs(1) by (auto simp: full_name_def)
  qed
  have dev: "hd_enable_command d \<noteq> command_interface a \<and> hd_reset_command d \<noteq> command_interface a"
    if d: "d \<in> set devices" and a: "a \<in> set axes" for d a
  proof -
    obtain i j where i: "command_interface a = Some i" "full_name (command_interfaces s ! i) = j @ ''/control_word''"
      using axis_name [OF a] by blast
    have "hd_bound d (command_interfaces s) (state_interfaces s)" using devs(2) d by blast
    then obtain e r where er: "hd_enable_command d = Some e"
      "full_name (command_interfaces s ! e) = hd_gpio d @ ''/enable_request''"
      "hd_reset_command d = Some r" "full_name (command_interfaces s ! r) = hd_gpio d @ ''/reset_generation''"
      by (auto simp: hd_bound_def)
    have "e \<noteq> i" "r \<noteq> i" using i(2) er(2,4) name_ends_differ(1,2) by metis+
    then show ?thesis using i(1) er(1,3) by simp
  qed
  have mode: "command_interface a \<noteq> Some (drive_mode_command_offset t + k)"
    if k: "k < length (mode_switch_axes c)" and a: "a \<in> set axes" for k a
  proof -
    obtain i j where i: "command_interface a = Some i" "full_name (command_interfaces s ! i) = j @ ''/control_word''"
      using axis_name [OF a] by blast
    have "full_name (command_interfaces s ! (drive_mode_command_offset t + k))
        = mode_switch_joint_names c ! k @ ''/mode_of_operation''"
      using t(2) [of k] k conf by (simp add: configured_def s1_def)
    then have "i \<noteq> drive_mode_command_offset t + k" using i(2) name_ends_differ(3) by metis
    then show ?thesis using i(1) by simp
  qed
  show ?thesis
    using bnd dev mode axs(1) conf
    by (auto simp: em_wf_def tf configured_def list_all_iff)
qed

lemma activate_sources_wiring:
  "wiring (snd (activate_sources c s)) = wiring s"
  by (simp add: activate_sources_def Let_def wiring_def split: prod.split)

lemma hd_baseline_frame:
  assumes "hd_baseline states d commands = (ok, d', commands')"
  shows "hd_enable_command d' = hd_enable_command d" "hd_reset_command d' = hd_reset_command d"
    "length commands' = length commands"
  using assms by (auto simp: hd_baseline_def Let_def split: if_splits)

lemma baseline_devices_frame:
  assumes "baseline_devices states ds commands = (ok, ds', commands')"
  shows "map (\<lambda>d. (hd_enable_command d, hd_reset_command d)) ds' = map (\<lambda>d. (hd_enable_command d, hd_reset_command d)) ds
    \<and> length commands' = length commands"
  using assms
proof (induction ds arbitrary: commands ds' ok commands')
  case Nil
  then show ?case by simp
next
  case (Cons d ds)
  obtain b d1 c1 where d1: "hd_baseline states d commands = (b, d1, c1)" by (cases "hd_baseline states d commands") auto
  obtain b2 ds2 c2 where ds2: "baseline_devices states ds c1 = (b2, ds2, c2)"
    by (cases "baseline_devices states ds c1") auto
  note f = hd_baseline_frame [OF d1]
  from Cons.IH [OF ds2] have ih: "map (\<lambda>d. (hd_enable_command d, hd_reset_command d)) ds2 =
      map (\<lambda>d. (hd_enable_command d, hd_reset_command d)) ds" "length c2 = length c1" by simp_all
  show ?case
    using Cons.prems f ih by (cases b) (auto simp: d1 ds2)
qed

lemma activate_devices_wiring: "wiring (snd (activate_devices s)) = wiring s"
proof -
  obtain ok ds commands where b: "baseline_devices (state_interfaces s) (handshake_devices s) (command_interfaces s) = (ok, ds, commands)"
    by (cases "baseline_devices (state_interfaces s) (handshake_devices s) (command_interfaces s)") auto
  then show ?thesis
    using baseline_devices_frame [OF b] by (simp add: activate_devices_def wiring_def)
qed

lemma activate_reset_parts:
  assumes "em_wf c s"
  shows "em_wf c (activate_reset c s)" "words_in (\<lambda>_. {0x0000}) (activate_reset c s)"
    "cia402_axes (activate_reset c s) = cia402_axes s"
    "phase (activate_reset c s) = Phase_kStartupSanitizing" "active (activate_reset c s)"
    "owner (activate_reset c s) = Owner_kInternal"
proof -
  define t where "t = s\<lparr>status_words := replicate (length (cia402_axes s)) 0, active := True\<rparr>"
  have wf: "cycle_wf c t" using assms by (simp add: cycle_wf_def em_wf_def t_def)
  let ?r = "activate_reset c s"
  have ci: "command_interfaces ?r = command_interfaces (setAllControlWords 0x0000 t)"
    and ax: "cia402_axes ?r = cia402_axes s"
    by (simp_all add: activate_reset_def Let_def clearFailure_def setAllControlWords_eq t_def)
  show "cia402_axes ?r = cia402_axes s" by (rule ax)
  have "words_in (\<lambda>_. {0x0000}) (setAllControlWords 0x0000 t)" by (rule words_in_setAll [OF wf]) simp
  moreover have "words_in (\<lambda>_. {0x0000}) ?r = words_in (\<lambda>_. {0x0000}) (setAllControlWords 0x0000 t)"
    by (rule words_in_cong) (simp_all add: ci ax setAllControlWords_eq t_def)
  ultimately show "words_in (\<lambda>_. {0x0000}) ?r" by simp
  define u where "u = s\<lparr>active := True\<rparr>"
  have "em_wf c u" using assms by (simp add: em_wf_def u_def)
  moreover have "wiring ?r = wiring u"
    by (simp add: wiring_def activate_reset_def Let_def clearFailure_def setAllControlWords_eq u_def)
  ultimately show "em_wf c ?r" by (rule em_wf_cong)
  show "phase ?r = Phase_kStartupSanitizing" "active ?r" "owner ?r = Owner_kInternal"
    by (simp_all add: activate_reset_def Let_def)
qed

text \<open>
  C10: A successful activation of a configured manager establishes the invariant of the control
  cycles: every axis is bound to its own command interface, which no device and no drive mode
  writes, all control words are 0, and the manager is active in \<open>kStartupSanitizing\<close>, owned by
  itself so that no service can start an operation.
\<close>

theorem activation_establishes_invariant:
  assumes "configured c s" "on_activate c s = (True, t)"
  shows "em_inv c t \<and> words_in (\<lambda>_. {0x0000}) t \<and> active t
    \<and> phase t = Phase_kStartupSanitizing \<and> owner t = Owner_kInternal"
proof -
  obtain bound s1 where s1: "activate_bind c s = (bound, s1)" by fastforce
  obtain found s2 where s2: "activate_sources c s1 = (found, s2)" by fastforce
  obtain valid s3 where s3: "activate_devices (s2\<lparr>offline_feedback := -1, offline_now := -1\<rparr>) = (valid, s3)"
    by fastforce
  have all: "bound" "found" "valid" "t = activate_reset c s3"
    using assms(2) by (auto simp: on_activate_def s1 s2 s3 split: if_splits)
  have wf1: "em_wf c s1" "length (cia402_axes s1) = length (cia402_axes s)"
    using activate_bind_wf [OF assms(1)] s1 all(1) by auto
  have "wiring s2 = wiring s1" using activate_sources_wiring [of c s1] by (simp add: s2)
  moreover have "wiring s3 = wiring (s2\<lparr>offline_feedback := -1, offline_now := -1\<rparr>)"
    using activate_devices_wiring [of "s2\<lparr>offline_feedback := -1, offline_now := -1\<rparr>"] by (simp add: s3)
  ultimately have w: "wiring s3 = wiring s1" by (simp add: wiring_def)
  have wf3: "em_wf c s3" using wf1(1) w by (rule em_wf_cong)
  note r = activate_reset_parts [OF wf3]
  have "covers c (length (cia402_axes t))"
    using assms(1) wf1(2) wiring_axes [OF w] by (simp add: all(4) r(3) configured_def)
  then show ?thesis using r by (simp add: em_inv_def all(4))
qed

text \<open>The sample group before its activation: nothing is bound yet.\<close>

definition sample_fresh :: em where
  "sample_fresh = (sample_em Phase_kInactive 0x0040 0x0040 disabled (Fin 3))
     \<lparr>active := False, cia402_axes := [new_axis ''a'', new_axis ''b''],
      handshake_devices := [new_device ''g''], offline_source_indices := [0]\<rparr>"

lemma sample_activates: "fst (on_activate sample_cfg sample_fresh)"
  by code_simp

lemma sample_fresh_configured: "configured sample_cfg sample_fresh"
  using sample_covers
  by (simp add: configured_def sample_fresh_def sample_em_def new_axis_def numeral_2_eq_2)
     (simp add: sample_cfg_def)

theorem activation_establishes_invariant_witness:
  "em_inv sample_cfg (snd (on_activate sample_cfg sample_fresh))"
proof -
  have "on_activate sample_cfg sample_fresh = (True, snd (on_activate sample_cfg sample_fresh))"
    using sample_activates by (simp add: prod_eq_iff)
  from activation_establishes_invariant [OF sample_fresh_configured this] show ?thesis by blast
qed

subsection \<open>Deactivation\<close>

text \<open>
  A deactivation removes the voltage command from every drive and the enable request of every
  device before it lets go of their interfaces, and no cycle acts afterwards.
\<close>

theorem deactivation_releases:
  assumes "em_wf c s"
  shows "(\<forall>a \<in> {..<length (cia402_axes s)}. \<forall>i \<in> set_option (command_interface (cia402_axes s ! a)).
      get_value (command_interfaces (snd (on_deactivate s))) i = word_value 0x0000)
    \<and> list_all (\<lambda>d. \<not> hd_enable_requested d) (handshake_devices (snd (on_deactivate s)))
    \<and> list_all (\<lambda>a. \<not> axis_is_bound a) (cia402_axes (snd (on_deactivate s)))
    \<and> update c now period steady (snd (on_deactivate s)) = snd (on_deactivate s)"
proof -
  define s0 where "s0 = s\<lparr>active := False, mode_abort_requested := True\<rparr>"
  define s1 where "s1 = setAllControlWords 0x0000 s0"
  have s0: "cia402_axes s0 = cia402_axes s" "command_interfaces s0 = command_interfaces s"
    "handshake_devices s0 = handshake_devices s"
    by (simp_all add: s0_def)
  have word: "get_value (command_interfaces (snd (on_deactivate s))) i = word_value 0x0000"
    if a: "a < length (cia402_axes s)" and i: "command_interface (cia402_axes s ! a) = Some i" for a i
  proof -
    have "cia402_axes s ! a \<in> set (cia402_axes s)" using a by simp
    then have dev: "\<forall>d \<in> set (map (hd_request_enable False) (handshake_devices s)).
        hd_enable_command d \<noteq> Some i \<and> hd_reset_command d \<noteq> Some i"
      using assms i unfolding em_wf_def by (auto) (metis+)
    have "command_interfaces (snd (on_deactivate s)) =
        fold hd_write (map (hd_request_enable False) (handshake_devices s)) (command_interfaces s1)"
      by (simp add: on_deactivate_def Let_def writeDevices_def requestDevicesEnable_def
            releaseCia402Interfaces_def s1_def s0_def setAllControlWords_eq)
    then have "get_value (command_interfaces (snd (on_deactivate s))) i = get_value (command_interfaces s1) i"
      using fold_hd_write_other [OF dev] by simp
    also have "\<dots> = control_word s1 a"
      using i by (simp add: control_word_def s1_def setAllControlWords_eq s0)
    also have "\<dots> = word_value 0x0000"
      unfolding s1_def by (rule control_word_setAll) (use assms a in \<open>simp_all add: s0 em_wf_def\<close>)
    finally show ?thesis .
  qed
  moreover have "list_all (\<lambda>d. \<not> hd_enable_requested d) (handshake_devices (snd (on_deactivate s)))"
    by (auto simp: on_deactivate_def Let_def writeDevices_def requestDevicesEnable_def
          releaseCia402Interfaces_def setAllControlWords_eq list_all_iff hd_release_def)
  moreover have "list_all (\<lambda>a. \<not> axis_is_bound a) (cia402_axes (snd (on_deactivate s)))"
    by (auto simp: on_deactivate_def Let_def releaseCia402Interfaces_def list_all_iff release_axis_def
          axis_is_bound_def)
  moreover have "\<not> active (snd (on_deactivate s))"
    by (simp add: on_deactivate_def Let_def writeDevices_def requestDevicesEnable_def
          releaseCia402Interfaces_def setAllControlWords_eq)
  ultimately show ?thesis by (auto simp: update_def)
qed

theorem deactivation_releases_witness:
  "get_value (command_interfaces (snd (on_deactivate
     (sample_em Phase_kEnabled 0x0027 0x0027 enabled (Fin 3))))) 1 = word_value 0x0000"
proof -
  let ?s = "sample_em Phase_kEnabled 0x0027 0x0027 enabled (Fin 3)"
  have "\<forall>a \<in> {..<length (cia402_axes ?s)}. \<forall>i \<in> set_option (command_interface (cia402_axes ?s ! a)).
      get_value (command_interfaces (snd (on_deactivate ?s))) i = word_value 0x0000"
    using deactivation_releases [of sample_cfg ?s] sample_wf by blast
  from bspec [OF this, of 1] show ?thesis by simp
qed

end
