(* ===== verification/EnableConfigure.thy ===== *)
theory EnableConfigure
  imports EnableActivate
begin

text \<open>
  The configuration of \<open>EnableManagerController\<close> (\<open>enable_manager_configure.cpp\<close>, and
  \<open>configureDriveModeSwitching\<close>): the topology of axes, batches and devices, the validation of the
  parameters and the guard that freezes the topology. The ROS parameters are a record; the services,
  subscriptions and timers \<open>on_configure\<close> creates are not modelled. An exception that the code lets
  escape and a read past the end of a vector are errors of their own.
\<close>

subsection \<open>Parameters\<close>

record em_params =
  p_managed_joints :: "string list"
  p_batch_joint_names :: "string list"
  p_batch_sizes :: "int list"
  p_ready_terminal_joints :: "string list"
  p_terminal_policy :: string
  p_handshake_devices :: "string list"
  p_explicit_mask :: u8
  p_expected_modes :: "int list"
  p_ready_states :: "string list"
  p_feedback_age :: "string list"
  p_al_states :: "string list"
  p_feedback_age_limit :: f64
  p_ready_hold :: f64
  p_diagnostic_joints :: "string list"
  p_diagnostic_interfaces :: "string list"
  p_batch_timeout :: f64
  p_disable_stage_timeout :: f64
  p_inter_batch_delay :: f64
  p_fault_reset_timeout :: f64
  p_service_result_timeout :: int
  p_motion_controller :: string
  p_rolling_controller :: string
  p_trajectory_controller :: string
  p_mode_service :: string
  p_mode_switch_joints :: "string list"
  p_companion_controllers :: "string list"
  p_motion_joints :: "string list"
  p_maximum_sample_period_ms :: int
  p_source_state_max_age_ms :: int
  p_stable_interval_count :: int
  p_mode_switch_timeout_ms :: int
  p_mode_feedback_age_limit :: f64
  p_stable_velocity_thresholds :: "f64 list"
  p_takeover_tolerances :: "f64 list"

datatype config_error =
    Terminal_policy_conflict | Unknown_terminal_policy | Topology_not_explicit | Topology_counts
  | Terminal_joints | Unknown_batch_joint | Batch_joints_overrun | Negative_batch_size

subsection \<open>Topology\<close>

abbreviation (input) "kAllTopologyParametersMask \<equiv> 0x0F :: u8"
abbreviation (input) "kMaximumIndexedCount \<equiv> 127 :: nat"

definition topologyParameterBit :: "nat \<Rightarrow> u8" where
  "topologyParameterBit index = push_bit index 1"

text \<open>The index \<open>axis_by_name\<close> holds for a name: \<open>emplace\<close> keeps the first of equal names.\<close>

definition axis_by_name :: "string list \<Rightarrow> string \<Rightarrow> nat option" where
  "axis_by_name joints name = first_index (\<lambda>j. j = name) joints"

text \<open>
  The joints of one batch, from position \<open>flat_index\<close> of the flat list: reading past its end is
  undefined in C++, \<open>at\<close> throws for a name that is not a managed joint, \<open>reserve\<close> for a negative
  size. The result is the batches and the position after them.
\<close>

fun read_batch :: "string list \<Rightarrow> string list \<Rightarrow> nat \<Rightarrow> nat \<Rightarrow> config_error + (nat list \<times> nat)" where
  "read_batch joints flat flat_index 0 = Inr ([], flat_index)"
| "read_batch joints flat flat_index (Suc items) =
    (if length flat \<le> flat_index then Inl Batch_joints_overrun
     else case axis_by_name joints (flat ! flat_index) of
            None \<Rightarrow> Inl Unknown_batch_joint
          | Some axis \<Rightarrow>
              (case read_batch joints flat (Suc flat_index) items of
                 Inl e \<Rightarrow> Inl e
               | Inr (batch, next) \<Rightarrow> Inr (axis # batch, next)))"

fun read_batches :: "string list \<Rightarrow> string list \<Rightarrow> nat \<Rightarrow> int list \<Rightarrow> config_error + nat list list" where
  "read_batches joints flat flat_index [] = Inr []"
| "read_batches joints flat flat_index (batch_size # sizes) =
    (if batch_size < 0 then Inl Negative_batch_size
     else case read_batch joints flat flat_index (nat batch_size) of
            Inl e \<Rightarrow> Inl e
          | Inr (batch, next) \<Rightarrow>
              (case read_batches joints flat next sizes of
                 Inl e \<Rightarrow> Inl e
               | Inr batches \<Rightarrow> Inr (batch # batches)))"

fun mark_terminal :: "string list \<Rightarrow> string list \<Rightarrow> bool list \<Rightarrow> bool list option" where
  "mark_terminal joints [] marks = Some marks"
| "mark_terminal joints (name # names) marks =
    (case axis_by_name joints name of
       None \<Rightarrow> None
     | Some axis \<Rightarrow> if marks ! axis then None else mark_terminal joints names (marks[axis := True]))"

record topology =
  tp_joint_names :: "string list"
  tp_batches :: "nat list list"
  tp_ready_terminal :: "bool list"

definition configureTopology :: "em_params \<Rightarrow> config_error + topology" where
  "configureTopology p =
    (if p_handshake_devices p \<noteq> [] \<and> p_explicit_mask p = 0
     then Inr \<lparr>tp_joint_names = [], tp_batches = [], tp_ready_terminal = []\<rparr>
     else if p_terminal_policy p = ''switch_on_disabled'' \<and> p_ready_terminal_joints p \<noteq> []
       then Inl Terminal_policy_conflict
     else if p_terminal_policy p \<noteq> ''switch_on_disabled'' \<and> p_terminal_policy p \<noteq> ''joint_list''
       then Inl Unknown_terminal_policy
     else
       let explicit_mask = (if p_terminal_policy p = ''switch_on_disabled''
                            then p_explicit_mask p OR topologyParameterBit 3 else p_explicit_mask p);
           joints = p_managed_joints p
       in if explicit_mask \<noteq> kAllTopologyParametersMask then Inl Topology_not_explicit
          else if joints = [] \<or> kMaximumIndexedCount < length joints
                  \<or> p_batch_sizes p = [] \<or> kMaximumIndexedCount < length (p_batch_sizes p)
            then Inl Topology_counts
          else case read_batches joints (p_batch_joint_names p) 0 (p_batch_sizes p) of
                 Inl e \<Rightarrow> Inl e
               | Inr batches \<Rightarrow>
                   (case mark_terminal joints (p_ready_terminal_joints p) (replicate (length joints) False) of
                      None \<Rightarrow> Inl Terminal_joints
                    | Some terminal \<Rightarrow>
                        Inr \<lparr>tp_joint_names = joints, tp_batches = batches, tp_ready_terminal = terminal\<rparr>))"

text \<open>What \<open>configureTopology\<close> writes into the members when it succeeds.\<close>

definition apply_topology :: "topology \<Rightarrow> string list \<Rightarrow> em_cfg \<Rightarrow> em \<Rightarrow> em_cfg \<times> em" where
  "apply_topology tp devices c s =
    (c\<lparr>joint_names := tp_joint_names tp, enable_batches := tp_batches tp,
       ready_to_switch_on_disable_terminal := tp_ready_terminal tp\<rparr>,
     s\<lparr>status_words := replicate (length (tp_joint_names tp)) 0,
       reset_targets := replicate (length (tp_joint_names tp)) False,
       cia402_axes := map new_axis (tp_joint_names tp),
       handshake_devices := map new_device devices\<rparr>)"

subsection \<open>Drive-mode switching\<close>

text \<open>
  \<open>None\<close> when the parameters are rejected, else the axes whose drive mode is switched and the mark
  of each axis.
\<close>

fun switched_axes :: "em_cfg \<Rightarrow> string list \<Rightarrow> nat list \<times> bool list \<Rightarrow> (nat list \<times> bool list) option" where
  "switched_axes c [] (axes, marks) = Some (axes, marks)"
| "switched_axes c (name # names) (axes, marks) =
    (case axis_by_name (joint_names c) name of
       None \<Rightarrow> None
     | Some axis \<Rightarrow>
         if name \<notin> set (motion_joint_names c) \<or> marks ! axis \<or> expected_modes c ! axis = kCspMode then None
         else switched_axes c names (axes @ [axis], marks[axis := True]))"

definition configureDriveModeSwitching :: "em_params \<Rightarrow> em_cfg \<Rightarrow> em_cfg option" where
  "configureDriveModeSwitching p c =
    (let names = p_mode_switch_joints p
     in if names = []
        then Some (c\<lparr>mode_switch_joint_names := [], mode_switch_axes := [], mode_switch_axis := []\<rparr>)
        else if trajectory_motion_controller c = [] \<or> expected_modes c = [] \<or> 16 < length names then None
        else map_option (\<lambda>(axes, marks). c\<lparr>mode_switch_joint_names := names, mode_switch_axes := axes,
                                           mode_switch_axis := marks\<rparr>)
               (switched_axes c names ([], replicate (length (joint_names c)) False)))"

subsection \<open>\<open>on_configure\<close>\<close>

text \<open>
  The result is the configuration and the members after a \<open>SUCCESS\<close>; after an \<open>ERROR\<close> (\<open>Inl\<close>, with
  the topology error if there is one) the node leaves the configured states and what was written so
  far is not kept by the model.
\<close>

definition alternates :: "em_params \<Rightarrow> string list" where
  "alternates p = filter (\<lambda>n. n \<noteq> []) [p_rolling_controller p, p_trajectory_controller p]"

definition configure_controllers :: "em_params \<Rightarrow> em_cfg \<Rightarrow> em_cfg" where
  "configure_controllers p c =
    (let managed = (if p_motion_controller p = [] then [] else [p_motion_controller p])
                   @ alternates p @ p_companion_controllers p
     in c\<lparr>batch_timeout_seconds := p_batch_timeout p,
          disable_stage_timeout_seconds := p_disable_stage_timeout p,
          inter_batch_delay_seconds := p_inter_batch_delay p,
          fault_reset_timeout_seconds := p_fault_reset_timeout p,
          default_motion_controller := p_motion_controller p,
          rolling_motion_controller := p_rolling_controller p,
          trajectory_motion_controller := p_trajectory_controller p,
          managed_controllers := managed,
          enable_only := (managed = []),
          motion_mode_switching := (p_rolling_controller p \<noteq> [] \<or> p_trajectory_controller p \<noteq> []),
          motion_controller_mode := (if p_trajectory_controller p = [] then Mode_kFjtReady else Mode_kVelocityReady)\<rparr>)"

definition controllers_valid :: "em_params \<Rightarrow> em_cfg \<Rightarrow> bool" where
  "controllers_valid p c =
    ((default_motion_controller c \<noteq> [] \<or> enable_only c) \<and>
     (rolling_motion_controller c = [] \<or> trajectory_motion_controller c = []) \<and>
     (\<not> motion_mode_switching c \<or> p_mode_service p \<noteq> []) \<and>
     list_all (\<lambda>n. n \<noteq> []) (managed_controllers c) \<and>
     distinct (managed_controllers c))"

definition modes_valid :: "em_params \<Rightarrow> em_cfg \<Rightarrow> bool" where
  "modes_valid p c =
    (p_expected_modes p = [] \<or>
     (length (p_expected_modes p) = length (joint_names c) \<and> rolling_motion_controller c = [] \<and>
      list_all (\<lambda>v. -128 \<le> v \<and> v \<le> 127 \<and> v \<noteq> 0) (p_expected_modes p)))"

definition configure_sources :: "em_params \<Rightarrow> em_cfg \<Rightarrow> em_cfg" where
  "configure_sources p c =
     c\<lparr>expected_modes := p_expected_modes p,
       ready_state_names := p_ready_states p,
       ready_hold_seconds := p_ready_hold p,
       offline_source_names := p_feedback_age p @ p_al_states p,
       age_source_count := length (p_feedback_age p),
       feedback_age_limit_ms := p_feedback_age_limit p,
       diagnostic_state_names :=
         concat (map (\<lambda>j. map (\<lambda>i. j @ ''/'' @ i) (p_diagnostic_interfaces p)) (p_diagnostic_joints p)),
       motion_joint_names := p_motion_joints p\<rparr>"

definition size_vectors :: "em_cfg \<Rightarrow> em \<Rightarrow> em" where
  "size_vectors c s =
     s\<lparr>ready_state_indices := replicate (length (ready_state_names c)) 0,
       offline_source_indices := replicate (length (offline_source_names c)) 0,
       diagnostic_state_indices := replicate (length (diagnostic_state_names c)) 0,
       diagnostic_state_values := replicate (length (diagnostic_state_names c)) (Fin 0),
       actual_modes := replicate (length (expected_modes c)) 256,
       mode_state_indices := replicate (length (expected_modes c)) 0,
       mode_confirmed := replicate (length (expected_modes c)) False\<rparr>"

definition valid_threshold_array :: "em_cfg \<Rightarrow> f64 list \<Rightarrow> bool" where
  "valid_threshold_array c values =
    (length values = length (motion_joint_names c) \<and> list_all (\<lambda>v. isfinite v \<and> f64_le (Fin 0) v) values)"

definition motion_joints_valid :: "em_cfg \<Rightarrow> bool" where
  "motion_joints_valid c =
    (motion_joint_names c \<noteq> [] \<and> length (motion_joint_names c) \<le> 16 \<and> distinct (motion_joint_names c) \<and>
     list_all (\<lambda>n. n \<in> set (joint_names c)) (motion_joint_names c))"

definition motion_parameters_valid :: "em_params \<Rightarrow> em_cfg \<Rightarrow> bool" where
  "motion_parameters_valid p c =
    (\<not> motion_mode_switching c \<or>
     (motion_joints_valid c \<and> 0 < p_maximum_sample_period_ms p \<and> 0 < p_source_state_max_age_ms p \<and>
      0 < p_stable_interval_count p \<and> 0 < p_mode_switch_timeout_ms p \<and>
      isfinite (p_mode_feedback_age_limit p) \<and> f64_less (Fin 0) (p_mode_feedback_age_limit p) \<and>
      valid_threshold_array c (p_stable_velocity_thresholds p) \<and>
      valid_threshold_array c (p_takeover_tolerances p)))"

definition configure_motion :: "em_params \<Rightarrow> em_cfg \<Rightarrow> em_cfg" where
  "configure_motion p c0 =
    (let c = c0\<lparr>service_result_timeout_ms := p_service_result_timeout p\<rparr>
     in if motion_mode_switching c then
          c\<lparr>mode_switch_maximum_sample_period_ns := word_of_int (p_maximum_sample_period_ms p) * 1000000,
            mode_switch_source_state_max_age_ns := word_of_int (p_source_state_max_age_ms p) * 1000000,
            mode_switch_stable_interval_count := nat (p_stable_interval_count p),
            mode_switch_timeout_ms := p_mode_switch_timeout_ms p,
            mode_switch_feedback_age_limit_ms := p_mode_feedback_age_limit p,
            mode_switch_stable_velocity_thresholds := p_stable_velocity_thresholds p,
            mode_switch_takeover_tolerances := p_takeover_tolerances p\<rparr>
        else c)"

definition on_configure :: "em_params \<Rightarrow> em_cfg \<Rightarrow> em \<Rightarrow> config_error option + (em_cfg \<times> em)" where
  "on_configure p c s =
    (case configureTopology p of
       Inl e \<Rightarrow> Inl (Some e)
     | Inr tp \<Rightarrow>
         let (c0, s0) = apply_topology tp (p_handshake_devices p) c s;
             c1 = configure_controllers p c0
         in if \<not> modes_valid p c1 then Inl None
            else let c2 = configure_sources p c1; s2 = size_vectors c2 s0
            in if \<not> controllers_valid p c2 \<or> \<not> motion_parameters_valid p c2 then Inl None
               else (case configureDriveModeSwitching p c2 of
                       None \<Rightarrow> Inl None
                     | Some c3 \<Rightarrow>
                         Inr (configure_motion p c3,
                              s2\<lparr>active := False, phase := Phase_kInactive, owner := Owner_kInternal,
                                 current_control_mode := Mode_kDisabled,
                                 jtc_command_snapshot := empty_snapshot,
                                 rolling_command_snapshot := empty_snapshot\<rparr>)))"

subsection \<open>The frozen topology\<close>

definition kTopologyParameterNames :: "string list" where
  "kTopologyParameterNames =
     [''managed_joints'', ''enable_batch_joint_names'', ''enable_batch_sizes'',
      ''ready_to_switch_on_disable_terminal_joints'']"

definition policyParameterNames :: "string list" where
  "policyParameterNames =
     [''motion_controller'', ''rolling_controller'', ''trajectory_controller'', ''mode_service'',
      ''mode_switch_joints'', ''companion_controllers'', ''disable_terminal_policy'',
      ''expected_modes'', ''ready_state_interfaces'', ''motion_fault_topic'', ''ready_hold_time'',
      ''motion_joints'', ''handshake_devices'', ''diagnostic_joints'', ''diagnostic_joint_interfaces'']"

text \<open>
  The verdict on a parameter update: \<open>Inl\<close> the reason it is rejected with, \<open>Inr\<close> the mask of the
  topology parameters set explicitly so far.
\<close>

fun validateTopologyParameterUpdate :: "bool \<Rightarrow> u8 \<Rightarrow> string list \<Rightarrow> string + u8" where
  "validateTopologyParameterUpdate frozen bits [] = Inr bits"
| "validateTopologyParameterUpdate frozen bits (name # names) =
    (if name \<in> set policyParameterNames \<and> frozen
     then Inl ''enable-manager controller policy is already configured''
     else case first_index (\<lambda>n. n = name) kTopologyParameterNames of
            None \<Rightarrow> validateTopologyParameterUpdate frozen bits names
          | Some index \<Rightarrow>
              if frozen
              then Inl ''enable-manager topology is already configured; topology parameters are immutable''
              else validateTopologyParameterUpdate frozen (bits OR topologyParameterBit index) names)"

subsection \<open>A configuration describes its axes\<close>

lemma axis_by_name_Some:
  "axis_by_name joints name = Some a \<Longrightarrow> a < length joints \<and> joints ! a = name"
  using first_index_Some(1,2) [of "\<lambda>j. j = name" joints a] by (simp add: axis_by_name_def)

lemma axis_by_name_distinct:
  assumes "distinct joints" "a < length joints"
  shows "axis_by_name joints (joints ! a) = Some a"
proof (cases "axis_by_name joints (joints ! a)")
  case None
  then show ?thesis using assms(2) by (auto simp: axis_by_name_def first_index_None)
next
  case (Some b)
  then show ?thesis using axis_by_name_Some [OF Some] assms Some by (metis nth_eq_iff_index_eq)
qed

lemma read_batch_spec:
  "read_batch joints flat k n = Inr (batch, next) \<Longrightarrow>
     next = k + n \<and> map Some batch = map (axis_by_name joints) (take n (drop k flat))"
proof (induction n arbitrary: k batch "next")
  case 0
  then show ?case by simp
next
  case (Suc n)
  then obtain axis batch' where r: "\<not> length flat \<le> k" "axis_by_name joints (flat ! k) = Some axis"
    "read_batch joints flat (Suc k) n = Inr (batch', next)" "batch = axis # batch'"
    by (auto split: if_splits option.splits sum.splits)
  have "drop k flat = flat ! k # drop (Suc k) flat" using r(1) by (simp add: Cons_nth_drop_Suc)
  with Suc.IH [OF r(3)] r(2,4) show ?case by simp
qed

lemma read_batches_spec:
  "read_batches joints flat k sizes = Inr batches \<Longrightarrow>
     list_all (\<lambda>n. 0 \<le> n) sizes \<and>
     map Some (concat batches) = map (axis_by_name joints) (take (nat (sum_list sizes)) (drop k flat))"
proof (induction sizes arbitrary: k batches)
  case Nil
  then show ?case by simp
next
  case (Cons n sizes)
  then obtain batch next' batches' where r: "\<not> n < 0" "read_batch joints flat k (nat n) = Inr (batch, next')"
    "read_batches joints flat next' sizes = Inr batches'" "batches = batch # batches'"
    by (auto split: if_splits sum.splits)
  note b = read_batch_spec [OF r(2)]
  note ih = Cons.IH [OF r(3)]
  have nn: "0 \<le> sum_list sizes" using ih by (simp add: list_all_iff sum_list_nonneg)
  have t: "take (nat n + nat (sum_list sizes)) (drop k flat) =
      take (nat n) (drop k flat) @ take (nat (sum_list sizes)) (drop (k + nat n) flat)"
    by (simp add: take_add add.commute)
  have "nat (n + sum_list sizes) = nat n + nat (sum_list sizes)" using r(1) nn by simp
  then show ?case using b ih r(1,4) t by simp
qed

lemma configureTopology_joints:
  assumes "configureTopology p = Inr tp"
  shows "(tp_joint_names tp = [] \<and> tp_batches tp = []) \<or>
    (tp_joint_names tp = p_managed_joints p \<and>
     read_batches (p_managed_joints p) (p_batch_joint_names p) 0 (p_batch_sizes p) = Inr (tp_batches tp))"
  using assms unfolding configureTopology_def Let_def
  by (auto split: if_splits sum.splits option.splits)

lemma switched_axes_length:
  "switched_axes c names (axes, marks) = Some (axes', marks') \<Longrightarrow> length axes' = length axes + length names"
  by (induction c names "(axes, marks)" arbitrary: axes marks rule: switched_axes.induct)
     (auto split: option.splits if_splits)

text \<open>
  What the composer promises about the topology parameters (see the comments in
  \<open>configureTopology\<close>): no joint is listed twice and the batches cover the managed joints.
\<close>

definition composed :: "em_params \<Rightarrow> bool" where
  "composed p =
    (distinct (p_managed_joints p) \<and>
     list_all (\<lambda>j. j \<in> set (take (nat (sum_list (p_batch_sizes p))) (p_batch_joint_names p))) (p_managed_joints p))"

lemma topology_covers:
  assumes "configureTopology p = Inr tp" "composed p"
  shows "distinct (tp_joint_names tp)"
    "list_all (list_all (\<lambda>axis. axis < length (tp_joint_names tp))) (tp_batches tp)"
    "axis < length (tp_joint_names tp) \<Longrightarrow> list_ex (\<lambda>batch. axis \<in> set batch) (tp_batches tp)"
proof -
  show "distinct (tp_joint_names tp)" using configureTopology_joints [OF assms(1)] assms(2) by (auto simp: composed_def)
  have rb: "map Some (concat (tp_batches tp)) = map (axis_by_name (p_managed_joints p))
      (take (nat (sum_list (p_batch_sizes p))) (p_batch_joint_names p))"
    if "tp_joint_names tp \<noteq> []"
    using configureTopology_joints [OF assms(1)] that read_batches_spec by fastforce
  have joints: "tp_joint_names tp \<noteq> [] \<Longrightarrow> tp_joint_names tp = p_managed_joints p"
    using configureTopology_joints [OF assms(1)] by auto
  show "list_all (list_all (\<lambda>axis. axis < length (tp_joint_names tp))) (tp_batches tp)"
  proof (cases "tp_joint_names tp = [] \<and> tp_batches tp = []")
    case True
    then show ?thesis by simp
  next
    case False
    then have r: "tp_joint_names tp = p_managed_joints p"
      "read_batches (p_managed_joints p) (p_batch_joint_names p) 0 (p_batch_sizes p) = Inr (tp_batches tp)"
      using configureTopology_joints [OF assms(1)] by auto
    have "axis < length (p_managed_joints p)" if "axis \<in> set (concat (tp_batches tp))" for axis
    proof -
      have "Some axis \<in> set (map Some (concat (tp_batches tp)))" using that by simp
      then obtain name where "Some axis = axis_by_name (p_managed_joints p) name"
        using read_batches_spec [OF r(2)] by auto
      then show ?thesis using axis_by_name_Some by metis
    qed
    then show ?thesis by (auto simp: list_all_iff r(1))
  qed
  show "list_ex (\<lambda>batch. axis \<in> set batch) (tp_batches tp)" if "axis < length (tp_joint_names tp)"
  proof -
    have ne: "tp_joint_names tp \<noteq> []" using that by auto
    note j = joints [OF ne]
    let ?name = "p_managed_joints p ! axis"
    have "?name \<in> set (take (nat (sum_list (p_batch_sizes p))) (p_batch_joint_names p))"
      using assms(2) that by (simp add: composed_def list_all_iff j)
    then have "axis_by_name (p_managed_joints p) ?name \<in> set (map Some (concat (tp_batches tp)))"
      unfolding rb [OF ne] by simp
    moreover have "axis_by_name (p_managed_joints p) ?name = Some axis"
      using assms(2) that by (intro axis_by_name_distinct) (simp_all add: composed_def j)
    ultimately show ?thesis by (auto simp: list_ex_iff)
  qed
qed

text \<open>
  A configuration that \<open>on_configure\<close> accepts, from parameters that keep the composer's promise,
  leaves the manager configured as the activation expects: one unbound axis per joint, batches over
  existing axes that reach every axis, and one output per switched drive.
\<close>

theorem configuration_is_complete:
  assumes "on_configure p c s = Inr (c', s')" "composed p"
  shows "configured c' s'"
proof -
  obtain tp where tp: "configureTopology p = Inr tp" using assms(1) by (auto simp: on_configure_def split: sum.splits)
  obtain c0 s0 where c0: "apply_topology tp (p_handshake_devices p) c s = (c0, s0)" by fastforce
  define c2 where "c2 = configure_sources p (configure_controllers p c0)"
  obtain c3 where c3: "configureDriveModeSwitching p c2 = Some c3" "c' = configure_motion p c3"
    "cia402_axes s' = cia402_axes s0" "reset_targets s' = reset_targets s0"
    using assms(1)
    by (auto simp: on_configure_def tp c0 Let_def c2_def size_vectors_def split: if_splits option.splits)
  have c2: "joint_names c2 = tp_joint_names tp" "enable_batches c2 = tp_batches tp"
    using c0 by (auto simp: c2_def configure_sources_def configure_controllers_def apply_topology_def Let_def)
  have c3f: "joint_names c3 = joint_names c2" "enable_batches c3 = enable_batches c2"
    "length (mode_switch_axes c3) = length (mode_switch_joint_names c3)"
    using c3(1) switched_axes_length [of c2 "p_mode_switch_joints p" "[]"]
    by (auto simp: configureDriveModeSwitching_def Let_def split: if_splits)
  have c': "joint_names c' = tp_joint_names tp" "enable_batches c' = tp_batches tp"
    "length (mode_switch_axes c') = length (mode_switch_joint_names c')"
    using c3f c2 by (simp_all add: c3(2) configure_motion_def Let_def)
  have s': "cia402_axes s' = map new_axis (tp_joint_names tp)" "length (reset_targets s') = length (tp_joint_names tp)"
    using c3(3,4) c0 by (auto simp: apply_topology_def)
  have names: "map joint_name (map new_axis js) = js" for js by (induction js) (simp_all add: new_axis_def)
  show ?thesis
    using topology_covers [OF tp assms(2)] unfolding configured_def c' s' names covers_def
    by (simp add: list_all_iff new_axis_def)
qed

definition sample_params :: em_params where
  "sample_params =
    \<lparr>p_managed_joints = [''a'', ''b''], p_batch_joint_names = [''b'', ''a''], p_batch_sizes = [1, 1],
     p_ready_terminal_joints = [''b''], p_terminal_policy = ''joint_list'', p_handshake_devices = [''g''],
     p_explicit_mask = 0x0F, p_expected_modes = [9, 8], p_ready_states = [], p_feedback_age = [''d/age''],
     p_al_states = [], p_feedback_age_limit = Fin 500, p_ready_hold = Fin 0, p_diagnostic_joints = [],
     p_diagnostic_interfaces = [], p_batch_timeout = Fin 4, p_disable_stage_timeout = Fin 4,
     p_inter_batch_delay = Fin 1, p_fault_reset_timeout = Fin 4, p_service_result_timeout = 30000,
     p_motion_controller = ''m'', p_rolling_controller = [], p_trajectory_controller = ''t'',
     p_mode_service = ''/mode'', p_mode_switch_joints = [''a''], p_companion_controllers = [],
     p_motion_joints = [''a''], p_maximum_sample_period_ms = 2, p_source_state_max_age_ms = 100,
     p_stable_interval_count = 5, p_mode_switch_timeout_ms = 500, p_mode_feedback_age_limit = Fin 500,
     p_stable_velocity_thresholds = [Fin 1], p_takeover_tolerances = [Fin 1]\<rparr>"

lemma sample_params_accepted: "\<not> isl (on_configure sample_params sample_cfg sample_fresh)"
  by code_simp

theorem configuration_is_complete_witness:
  "configured (fst (projr (on_configure sample_params sample_cfg sample_fresh)))
     (snd (projr (on_configure sample_params sample_cfg sample_fresh)))"
proof (rule configuration_is_complete)
  show "on_configure sample_params sample_cfg sample_fresh =
      Inr (fst (projr (on_configure sample_params sample_cfg sample_fresh)),
           snd (projr (on_configure sample_params sample_cfg sample_fresh)))"
    using sample_params_accepted by (cases "on_configure sample_params sample_cfg sample_fresh") auto
  show "composed sample_params" by (simp add: composed_def sample_params_def eval_nat_numeral)
qed

lemma frozen_rejects:
  "\<exists>n \<in> set names. n \<in> set policyParameterNames \<or> n \<in> set kTopologyParameterNames \<Longrightarrow>
     validateTopologyParameterUpdate True bits names \<noteq> Inr bits'"
proof (induction names)
  case Nil
  then show ?case by simp
next
  case (Cons n names)
  show ?case
  proof (cases "first_index (\<lambda>m. m = n) kTopologyParameterNames")
    case None
    then have "n \<notin> set kTopologyParameterNames" by (auto simp: first_index_None)
    then show ?thesis using Cons None by auto
  next
    case (Some i)
    then show ?thesis by simp
  qed
qed

text \<open>
  Once the manager is configured, every update that touches a topology or policy parameter is
  rejected as a whole.
\<close>

theorem frozen_topology_immutable:
  assumes "list_ex (\<lambda>n. n \<in> set policyParameterNames \<or> n \<in> set kTopologyParameterNames) names"
  shows "validateTopologyParameterUpdate True bits names \<noteq> Inr bits'"
  using assms by (intro frozen_rejects) (auto simp: list_ex_iff)

theorem frozen_topology_immutable_witness:
  "validateTopologyParameterUpdate True 0x0F [''use_sim_time'', ''enable_batch_sizes''] \<noteq> Inr 0x0F"
  by (rule frozen_topology_immutable) (simp add: kTopologyParameterNames_def)

end
