(* ===== verification/EnableModes.thy ===== *)
theory EnableModes
  imports EnableConfigure
begin

text \<open>
  The decisions of the motion mode switch (\<open>enable_manager_mode_switch.cpp\<close>): which managed
  controllers run in a mode, the request that brings them there, what mode a list of controller
  states amounts to, and the standstill that admits leaving a mode. The threads that take these
  decisions are in \<open>EnableServices\<close>. The reply of \<open>list_controllers\<close> is the list of the names and
  states of its controllers.
\<close>

subsection \<open>Controllers and modes\<close>

type_synonym controller_states = "(string \<times> string) list"

definition controllerRunsInMode :: "em_cfg \<Rightarrow> string \<Rightarrow> control_mode \<Rightarrow> bool" where
  "controllerRunsInMode c name target =
    (if target = Mode_kDisabled then False
     else if name = default_motion_controller c then target = motion_controller_mode c
     else if name = rolling_motion_controller c then target = Mode_kRollingReady
     else if name = trajectory_motion_controller c then target = Mode_kFjtReady
     else True)"

record switch_request =
  activate_controllers :: "string list"
  deactivate_controllers :: "string list"

text \<open>
  \<open>None\<close> stands for \<open>SwitchResult::kFailed\<close>; \<open>find_if\<close> takes the first controller of a name, which
  is what \<open>map_of\<close> returns.
\<close>

fun build_request :: "em_cfg \<Rightarrow> controller_states \<Rightarrow> control_mode \<Rightarrow> string list \<Rightarrow> switch_request \<Rightarrow>
    switch_request option" where
  "build_request c states target [] request = Some request"
| "build_request c states target (name # names) request =
    (case map_of states name of
       None \<Rightarrow> None
     | Some state \<Rightarrow>
         let is_active = (state = ''active'')
         in if controllerRunsInMode c name target then
              (if \<not> is_active then
                 (if state \<noteq> ''inactive'' then None
                  else build_request c states target names
                         (request\<lparr>activate_controllers := activate_controllers request @ [name]\<rparr>))
               else build_request c states target names request)
            else if is_active then
              build_request c states target names
                (request\<lparr>deactivate_controllers := deactivate_controllers request @ [name]\<rparr>)
            else build_request c states target names request)"

definition buildControllerSwitchRequest :: "em_cfg \<Rightarrow> controller_states \<Rightarrow> control_mode \<Rightarrow> switch_request option" where
  "buildControllerSwitchRequest c states target =
     build_request c states target (managed_controllers c)
       \<lparr>activate_controllers = [], deactivate_controllers = []\<rparr>"

definition expected_state :: "em_cfg \<Rightarrow> control_mode \<Rightarrow> string \<Rightarrow> string" where
  "expected_state c target name = (if controllerRunsInMode c name target then ''active'' else ''inactive'')"

definition controllerStateMatches :: "em_cfg \<Rightarrow> controller_states \<Rightarrow> control_mode \<Rightarrow> bool" where
  "controllerStateMatches c states target =
     list_all (\<lambda>name. map_of states name = Some (expected_state c target name)) (managed_controllers c)"

definition alternate_mode :: "em_cfg \<Rightarrow> control_mode" where
  "alternate_mode c = (if rolling_motion_controller c \<noteq> [] then Mode_kRollingReady
                       else if trajectory_motion_controller c \<noteq> [] then Mode_kFjtReady
                       else Mode_kDisabled)"

definition detectControlMode :: "em_cfg \<Rightarrow> controller_states \<Rightarrow> control_mode" where
  "detectControlMode c states =
    (if controllerStateMatches c states Mode_kDisabled then Mode_kDisabled
     else case filter (\<lambda>mode. mode \<noteq> Mode_kDisabled \<and> controllerStateMatches c states mode)
                 [motion_controller_mode c, alternate_mode c] of
            [] \<Rightarrow> Mode_kRestartRequired
          | mode # _ \<Rightarrow> mode)"

definition classifyModeSwitchState :: "em_cfg \<Rightarrow> controller_states \<Rightarrow> control_mode \<Rightarrow> control_mode \<Rightarrow> mode_switch_state" where
  "classifyModeSwitchState c states source target =
    (let observed = detectControlMode c states
     in if observed = target then ModeSwitch_kTargetActive
        else if observed = source then ModeSwitch_kSourcePreserved
        else if observed = Mode_kDisabled then ModeSwitch_kAllInactive
        else ModeSwitch_kAmbiguous)"

definition switchedDrivesUseCsp :: "em_cfg \<Rightarrow> control_mode \<Rightarrow> bool" where
  "switchedDrivesUseCsp c mode = (mode = Mode_kFjtReady \<and> motion_controller_mode c = Mode_kVelocityReady)"

text \<open>One poll of the drives by \<open>switchDriveModes\<close>: do all switched drives report their mode?\<close>

definition drives_confirmed :: "em_cfg \<Rightarrow> bool \<Rightarrow> em \<Rightarrow> bool" where
  "drives_confirmed c csp s =
     list_all (\<lambda>index. drive_mode_display s ! index
                 = (if csp then kCspMode else expected_modes c ! (mode_switch_axes c ! index)))
       [0..<length (mode_switch_axes c)]"

subsection \<open>Sources and samples\<close>

record jtc_state_message =
  jm_joint_names :: "string list"
  jm_positions :: "f64 list"

definition handleJtcState :: "em_cfg \<Rightarrow> jtc_state_message \<Rightarrow> u64 \<Rightarrow> em \<Rightarrow> em" where
  "handleJtcState c message now s =
    (if length (jm_joint_names message) \<noteq> length (motion_joint_names c)
        \<or> length (jm_positions message) \<noteq> length (motion_joint_names c)
     then s
     else if list_ex (\<lambda>axis. jm_joint_names message ! axis \<noteq> motion_joint_names c ! axis
                        \<or> \<not> isfinite (jm_positions message ! axis)) [0..<length (motion_joint_names c)]
     then s
     else s\<lparr>jtc_command_snapshot :=
              \<lparr>cs_valid = True, cs_positions = jm_positions message, cs_received_steady_ns = now,
               cs_control_mode = mode_num Mode_kFjtReady, cs_rolling_state = 0\<rparr>\<rparr>)"

definition handleRollingState :: "int \<Rightarrow> u64 \<Rightarrow> em \<Rightarrow> em" where
  "handleRollingState state now s =
     s\<lparr>rolling_command_snapshot :=
         \<lparr>cs_valid = True, cs_positions = [], cs_received_steady_ns = now,
          cs_control_mode = mode_num Mode_kRollingReady, cs_rolling_state = state\<rparr>\<rparr>"

text \<open>
  \<open>readActualSample\<close> over what its attempts read: the version before, the sample, the version
  after. At most five attempts are made.
\<close>

fun read_attempts :: "(u64 \<times> actual_sample \<times> u64) list \<Rightarrow> actual_sample option" where
  "read_attempts [] = None"
| "read_attempts ((version_before, sample, version_after) # attempts) =
    (if version_before AND 1 \<noteq> 0 then read_attempts attempts
     else if version_before = version_after \<and> version_after AND 1 = 0
       then if as_sequence sample \<noteq> 0 \<and> as_steady_time_ns sample \<noteq> 0 then Some sample else None
     else read_attempts attempts)"

definition readActualSample :: "(u64 \<times> actual_sample \<times> u64) list \<Rightarrow> actual_sample option" where
  "readActualSample attempts = read_attempts (take 5 attempts)"

definition readCommandSnapshot :: "control_mode \<Rightarrow> em \<Rightarrow> command_snapshot option" where
  "readCommandSnapshot mode s =
    (let checked = (\<lambda>snapshot. if cs_valid snapshot \<and> cs_control_mode snapshot = mode_num mode
                                then Some snapshot else None)
     in if mode = Mode_kFjtReady then checked (jtc_command_snapshot s)
        else if mode = Mode_kRollingReady then checked (rolling_command_snapshot s)
        else None)"

definition source_fresh :: "em_cfg \<Rightarrow> u64 \<Rightarrow> command_snapshot \<Rightarrow> bool" where
  "source_fresh c now snapshot =
     (\<not> (now < cs_received_steady_ns snapshot
         \<or> mode_switch_source_state_max_age_ns c < now - cs_received_steady_ns snapshot))"

definition stableActualInterval :: "em_cfg \<Rightarrow> actual_sample \<Rightarrow> actual_sample \<Rightarrow> bool" where
  "stableActualInterval c window_start current =
    (let elapsed_seconds = f64_div (f64_of_int (uint (as_steady_time_ns current - as_steady_time_ns window_start)))
                             (Fin 1000000000)
     in list_all (\<lambda>axis.
          let speed = f64_div (f64_abs (f64_sub (as_positions current ! axis) (as_positions window_start ! axis)))
                        elapsed_seconds
          in isfinite speed \<and> \<not> f64_less (mode_switch_stable_velocity_thresholds c ! axis) speed)
        [0..<length (motion_joint_names c)])"

definition sourceWithinTakeoverTolerance :: "em_cfg \<Rightarrow> f64 list \<Rightarrow> f64 list \<Rightarrow> bool" where
  "sourceWithinTakeoverTolerance c source actual =
     list_all (\<lambda>axis. isfinite (source ! axis) \<and> isfinite (actual ! axis)
        \<and> \<not> f64_less (mode_switch_takeover_tolerances c ! axis) (f64_abs (f64_sub (source ! axis) (actual ! axis))))
       [0..<length (motion_joint_names c)]"

text \<open>
  The standstill window of \<open>validateModeSource\<close>: the last sample, the sample the window starts with
  and the intervals in it. A sample is \<open>Stale\<close>, or it continues the window, restarts it, or
  completes one that is stable.
\<close>

record window =
  w_previous :: actual_sample
  w_start :: actual_sample
  w_intervals :: nat

datatype window_verdict = Window_stale | Window_open window | Window_stable window

definition contiguous :: "em_cfg \<Rightarrow> actual_sample \<Rightarrow> actual_sample \<Rightarrow> bool" where
  "contiguous c previous current =
     (as_steady_time_ns previous < as_steady_time_ns current \<and>
      as_steady_time_ns current - as_steady_time_ns previous \<le> mode_switch_maximum_sample_period_ns c)"

definition window_step :: "em_cfg \<Rightarrow> window \<Rightarrow> actual_sample \<Rightarrow> window_verdict" where
  "window_step c w current =
    (if \<not> feedback_fresh (as_feedback_age_ms current) (mode_switch_feedback_age_limit_ms c) then Window_stale
     else let restarted = \<lparr>w_previous = current, w_start = current, w_intervals = 0\<rparr>;
              continued = \<lparr>w_previous = current, w_start = w_start w, w_intervals = w_intervals w + 1\<rparr>
     in if \<not> contiguous c (w_previous w) current then Window_open restarted
        else if w_intervals continued < mode_switch_stable_interval_count c then Window_open continued
        else if \<not> stableActualInterval c (w_start w) current then Window_open restarted
        else Window_stable continued)"

text \<open>The loop over the samples that arrive.\<close>

fun watch :: "em_cfg \<Rightarrow> window \<Rightarrow> actual_sample list \<Rightarrow> window_verdict" where
  "watch c w [] = Window_open w"
| "watch c w (current # samples) =
    (case window_step c w current of
       Window_open w' \<Rightarrow> watch c w' samples
     | verdict \<Rightarrow> verdict)"

definition open_window :: "actual_sample \<Rightarrow> window" where
  "open_window previous = \<lparr>w_previous = previous, w_start = previous, w_intervals = 0\<rparr>"

subsection \<open>Outcomes\<close>

datatype mode_result =
    kModeOk | kModeNotEnabled | kModeNotReady | kModeWrongMode | kModeSourceStale | kModeSourceMoving
  | kModeFeedbackStale | kModeTakeoverMismatch | kModeSwitchRejected | kModeRestartRequired
  | kModeDriveModeTimeout

text \<open>
  The error codes and severities of the message package \<open>robot_system_interfaces\<close> are not part of
  this repository and are a parameter.
\<close>

record 'code error_codes =
  SUCCESS :: 'code
  NOT_READY :: 'code
  GOAL_REJECTED :: 'code
  RT_TOLERANCE_VIOLATED :: 'code
  RT_RESTART_REQUIRED :: 'code
  TIMEOUT :: 'code
  RT_OPERATION_IN_PROGRESS :: 'code
  RT_ENABLE_MANAGER_NOT_READY :: 'code
  RT_DEVICE_OFFLINE :: 'code

datatype severity = Severity_OK | Severity_WARN | Severity_FAULT

record error_info =
  ei_code :: u32
  ei_retryable :: bool
  ei_severity :: severity
  ei_message :: string
  ei_detail :: string

fun mode_error :: "u32 error_codes \<Rightarrow> mode_result \<Rightarrow> u32 \<times> string" where
  "mode_error ec kModeOk = (SUCCESS ec, ''ok'')"
| "mode_error ec kModeNotEnabled = (NOT_READY ec, ''not_enabled'')"
| "mode_error ec kModeNotReady = (NOT_READY ec, ''busy'')"
| "mode_error ec kModeSourceStale = (NOT_READY ec, ''source_state_stale'')"
| "mode_error ec kModeSourceMoving = (NOT_READY ec, ''source_moving'')"
| "mode_error ec kModeFeedbackStale = (NOT_READY ec, ''feedback_stale'')"
| "mode_error ec kModeWrongMode = (GOAL_REJECTED ec, ''wrong_mode'')"
| "mode_error ec kModeSwitchRejected = (GOAL_REJECTED ec, ''switch_rejected'')"
| "mode_error ec kModeTakeoverMismatch = (RT_TOLERANCE_VIOLATED ec, ''takeover_mismatch'')"
| "mode_error ec kModeRestartRequired = (RT_RESTART_REQUIRED ec, ''restart_required'')"
| "mode_error ec kModeDriveModeTimeout = (TIMEOUT ec, ''drive_mode_not_confirmed'')"

text \<open>The recovery digit of a code, the hundreds, is 1 for the errors that may be retried.\<close>

definition retryable :: "u32 error_codes \<Rightarrow> u32 \<Rightarrow> bool" where
  "retryable ec code = (code \<noteq> SUCCESS ec \<and> (code div 100) mod 10 = 1)"

definition code_severity :: "u32 error_codes \<Rightarrow> u32 \<Rightarrow> severity" where
  "code_severity ec code =
     (if code = SUCCESS ec then Severity_OK else if retryable ec code then Severity_WARN else Severity_FAULT)"

definition populateModeError :: "u32 error_codes \<Rightarrow> mode_result \<Rightarrow> error_info" where
  "populateModeError ec result =
    (let (code, detail) = mode_error ec result
     in \<lparr>ei_code = code, ei_retryable = retryable ec code, ei_severity = code_severity ec code,
         ei_message = (if code = SUCCESS ec then ''mode request accepted'' else ''mode request rejected''),
         ei_detail = detail\<rparr>)"

text \<open>
  \<open>convergeAfterUnsafeModeSwitch\<close> as the sequence of its stores; the service threads can be
  interrupted between any two of them.
\<close>

definition converge_store :: "bool \<Rightarrow> nat \<Rightarrow> em \<Rightarrow> em" where
  "converge_store require_restart k s =
    (if k = 0 then s\<lparr>restart_required := require_restart\<rparr>
     else if k = 1 then s\<lparr>current_control_mode := (if require_restart then Mode_kRestartRequired else Mode_kDisabled)\<rparr>
     else if k = 2 then s\<lparr>disable_result := (disable_result s)\<lparr>rs_ready := False\<rparr>\<rparr>
     else if k = 3 then s\<lparr>jtc_deactivation_required := True\<rparr>
     else if k = 4 then s\<lparr>owner := Owner_kDisable\<rparr>
     else if k = 5 then (if require_restart then s\<lparr>emergency_jtc_deactivate_request := True\<rparr> else s)
     else s\<lparr>disable_request := True\<rparr>)"

definition convergeAfterUnsafeModeSwitch :: "bool \<Rightarrow> em \<Rightarrow> em" where
  "convergeAfterUnsafeModeSwitch require_restart = fold (converge_store require_restart) [0..<7]"

definition releaseModeOwnership :: "em \<Rightarrow> em" where
  "releaseModeOwnership s = (if owner s = Owner_kMode then s\<lparr>owner := Owner_kNone\<rparr> else s)"

subsection \<open>Switching the controllers\<close>

text \<open>What a switch request does to the controllers when \<open>switch_controller\<close> carries it out.\<close>

definition switched :: "switch_request \<Rightarrow> (string \<Rightarrow> string option) \<Rightarrow> (string \<Rightarrow> string option) \<Rightarrow> bool" where
  "switched r before after =
     (\<forall>name. after name = (if name \<in> set (activate_controllers r) then Some ''active''
                           else if name \<in> set (deactivate_controllers r) then Some ''inactive''
                           else before name))"

lemma build_request_spec:
  assumes "build_request c states target names r = Some r'"
  shows "set (activate_controllers r') = set (activate_controllers r) \<union>
           {n \<in> set names. controllerRunsInMode c n target \<and> map_of states n \<noteq> Some ''active''}
       \<and> set (deactivate_controllers r') = set (deactivate_controllers r) \<union>
           {n \<in> set names. \<not> controllerRunsInMode c n target \<and> map_of states n = Some ''active''}
       \<and> (\<forall>n \<in> set names. map_of states n \<noteq> None \<and>
            (controllerRunsInMode c n target \<longrightarrow> map_of states n \<in> {Some ''active'', Some ''inactive''}))"
  using assms
proof (induction names arbitrary: r)
  case Nil
  then show ?case by simp
next
  case (Cons name names)
  from Cons.prems obtain state where st: "map_of states name = Some state" by (auto split: option.splits)
  show ?case
  proof (cases "controllerRunsInMode c name target")
    case runs: True
    then have s: "state = ''active'' \<or> state = ''inactive''"
      using Cons.prems st by (auto split: if_splits)
    show ?thesis
    proof (cases "state = ''active''")
      case True
      then have "build_request c states target names r = Some r'" using Cons.prems st runs by simp
      from Cons.IH [OF this] show ?thesis using st True runs by auto
    next
      case False
      then have "build_request c states target names
          (r\<lparr>activate_controllers := activate_controllers r @ [name]\<rparr>) = Some r'"
        using Cons.prems st runs s by simp
      from Cons.IH [OF this] show ?thesis using st False s runs by auto
    qed
  next
    case stops: False
    show ?thesis
    proof (cases "state = ''active''")
      case True
      then have "build_request c states target names
          (r\<lparr>deactivate_controllers := deactivate_controllers r @ [name]\<rparr>) = Some r'"
        using Cons.prems st stops by simp
      from Cons.IH [OF this] show ?thesis using st True stops by auto
    next
      case False
      then have "build_request c states target names r = Some r'" using Cons.prems st stops by simp
      from Cons.IH [OF this] show ?thesis using st False stops by auto
    qed
  qed
qed

lemma buildControllerSwitchRequest_spec:
  assumes "buildControllerSwitchRequest c states target = Some r"
  shows "set (activate_controllers r) =
           {n \<in> set (managed_controllers c). controllerRunsInMode c n target \<and> map_of states n \<noteq> Some ''active''}"
    "set (deactivate_controllers r) =
           {n \<in> set (managed_controllers c). \<not> controllerRunsInMode c n target \<and> map_of states n = Some ''active''}"
    "n \<in> set (managed_controllers c) \<Longrightarrow> map_of states n \<noteq> None"
    "n \<in> set (managed_controllers c) \<Longrightarrow> controllerRunsInMode c n target \<Longrightarrow>
       map_of states n \<in> {Some ''active'', Some ''inactive''}"
  using build_request_spec [OF assms [unfolded buildControllerSwitchRequest_def]] by auto

lemma matches_iff:
  "controllerStateMatches c states target \<longleftrightarrow>
     (\<forall>n \<in> set (managed_controllers c). map_of states n = Some (expected_state c target n))"
  by (simp add: controllerStateMatches_def list_all_iff)

text \<open>
  A request that was built and carried out leaves every managed controller in the state of the
  target mode, when the controllers that are not part of it were active or inactive before.
\<close>

lemma switched_matches:
  assumes "buildControllerSwitchRequest c before target = Some r"
    "switched r (map_of before) (map_of after)"
    "\<forall>n \<in> set (managed_controllers c). map_of before n \<in> {Some ''active'', Some ''inactive''}"
  shows "controllerStateMatches c after target"
  unfolding matches_iff
proof
  fix n assume n: "n \<in> set (managed_controllers c)"
  note r = buildControllerSwitchRequest_spec [OF assms(1)]
  have b: "map_of before n = Some ''active'' \<or> map_of before n = Some ''inactive''" using assms(3) n by auto
  show "map_of after n = Some (expected_state c target n)"
    using assms(2) b n unfolding switched_def r(1,2) expected_state_def by auto
qed

text \<open>The controllers of a configured mode switch, as \<open>configure_controllers\<close> and \<open>controllers_valid\<close> leave them.\<close>

definition modes_configured :: "em_cfg \<Rightarrow> bool" where
  "modes_configured c =
    (default_motion_controller c \<in> set (managed_controllers c) \<and> default_motion_controller c \<noteq> [] \<and>
     ((rolling_motion_controller c = [] \<and> trajectory_motion_controller c = [] \<and>
       motion_controller_mode c = Mode_kFjtReady) \<or>
      (rolling_motion_controller c \<in> set (managed_controllers c) - {[], default_motion_controller c} \<and>
       trajectory_motion_controller c = [] \<and> motion_controller_mode c = Mode_kFjtReady) \<or>
      (trajectory_motion_controller c \<in> set (managed_controllers c) - {[], default_motion_controller c} \<and>
       rolling_motion_controller c = [] \<and> motion_controller_mode c = Mode_kVelocityReady)))"

lemma configured_modes:
  assumes "on_configure p c s = Inr (c', s')" "default_motion_controller c' \<noteq> []"
  shows "modes_configured c'"
proof -
  obtain tp where tp: "configureTopology p = Inr tp" using assms(1) by (auto simp: on_configure_def split: sum.splits)
  obtain c0 s0 where c0: "apply_topology tp (p_handshake_devices p) c s = (c0, s0)" by fastforce
  define c2 where "c2 = configure_sources p (configure_controllers p c0)"
  obtain c3 where c3: "configureDriveModeSwitching p c2 = Some c3" "c' = configure_motion p c3"
    "controllers_valid p c2"
    using assms(1) by (auto simp: on_configure_def tp c0 Let_def c2_def split: if_splits option.splits)
  have f3: "default_motion_controller c' = default_motion_controller c2"
    "rolling_motion_controller c' = rolling_motion_controller c2"
    "trajectory_motion_controller c' = trajectory_motion_controller c2"
    "motion_controller_mode c' = motion_controller_mode c2"
    "managed_controllers c' = managed_controllers c2"
    using c3(1) by (auto simp: c3(2) configure_motion_def configureDriveModeSwitching_def Let_def split: if_splits)
  have f2: "default_motion_controller c2 = p_motion_controller p"
    "rolling_motion_controller c2 = p_rolling_controller p"
    "trajectory_motion_controller c2 = p_trajectory_controller p"
    "motion_controller_mode c2 = (if p_trajectory_controller p = [] then Mode_kFjtReady else Mode_kVelocityReady)"
    "managed_controllers c2 = (if p_motion_controller p = [] then [] else [p_motion_controller p])
       @ alternates p @ p_companion_controllers p"
    by (simp_all add: c2_def configure_sources_def configure_controllers_def Let_def)
  show ?thesis
    using c3(3) assms(2) unfolding controllers_valid_def modes_configured_def f3 f2
    by (auto simp: alternates_def split: if_splits)
qed

lemma detectControlMode_matches:
  assumes "detectControlMode c states = mode" "mode \<noteq> Mode_kRestartRequired"
  shows "controllerStateMatches c states mode"
  using assms by (auto simp: detectControlMode_def split: if_splits)

text \<open>The default controller runs in the motion mode only, the alternate one in its own only.\<close>

lemma runs_default:
  "modes_configured c \<Longrightarrow> controllerRunsInMode c (default_motion_controller c) m \<longleftrightarrow> m = motion_controller_mode c"
  by (cases m) (auto simp: modes_configured_def controllerRunsInMode_def)

lemma runs_alternate:
  assumes "modes_configured c" "alternate_mode c \<noteq> Mode_kDisabled"
  shows "\<exists>n \<in> set (managed_controllers c). \<forall>m. controllerRunsInMode c n m \<longleftrightarrow> m = alternate_mode c"
proof (cases "rolling_motion_controller c = []")
  case True
  then have t: "trajectory_motion_controller c \<noteq> []" "alternate_mode c = Mode_kFjtReady"
    using assms(2) by (auto simp: alternate_mode_def split: if_splits)
  have "controllerRunsInMode c (trajectory_motion_controller c) m \<longleftrightarrow> m = Mode_kFjtReady" for m
    using assms(1) t True by (cases m) (auto simp: modes_configured_def controllerRunsInMode_def)
  moreover have "trajectory_motion_controller c \<in> set (managed_controllers c)"
    using assms(1) t(1) by (auto simp: modes_configured_def)
  ultimately show ?thesis by (auto simp: t(2))
next
  case False
  then have t: "alternate_mode c = Mode_kRollingReady" by (simp add: alternate_mode_def)
  have "controllerRunsInMode c (rolling_motion_controller c) m \<longleftrightarrow> m = Mode_kRollingReady" for m
    using assms(1) False by (cases m) (auto simp: modes_configured_def controllerRunsInMode_def)
  moreover have "rolling_motion_controller c \<in> set (managed_controllers c)"
    using assms(1) False by (auto simp: modes_configured_def)
  ultimately show ?thesis by (auto simp: t)
qed

lemma matches_once:
  assumes "modes_configured c" "controllerStateMatches c states m" "controllerStateMatches c states m'"
    "m \<in> {Mode_kDisabled, motion_controller_mode c, alternate_mode c}"
    "m' \<in> {Mode_kDisabled, motion_controller_mode c, alternate_mode c}"
  shows "m = m'"
proof -
  have runs: "controllerRunsInMode c n m = controllerRunsInMode c n m'" if "n \<in> set (managed_controllers c)" for n
    using assms(2,3) that by (auto simp: matches_iff expected_state_def split: if_splits)
  have "default_motion_controller c \<in> set (managed_controllers c)" using assms(1) by (simp add: modes_configured_def)
  from runs [OF this] have d: "m = motion_controller_mode c \<longleftrightarrow> m' = motion_controller_mode c"
    by (simp add: runs_default [OF assms(1)])
  have a: "m = alternate_mode c \<longleftrightarrow> m' = alternate_mode c" if "alternate_mode c \<noteq> Mode_kDisabled"
    using runs_alternate [OF assms(1) that] runs by blast
  show ?thesis using assms(4,5) d a by (metis empty_iff insert_iff)
qed

lemma detectControlMode_complete:
  assumes "modes_configured c" "controllerStateMatches c states m"
    "m \<in> {Mode_kDisabled, motion_controller_mode c, alternate_mode c}"
  shows "detectControlMode c states = m"
proof -
  have eq: "controllerStateMatches c states m' \<longleftrightarrow> m' = m"
    if "m' \<in> {Mode_kDisabled, motion_controller_mode c, alternate_mode c}" for m'
    using matches_once [OF assms(1,2) _ assms(3) that] assms(2) by metis
  have e: "controllerStateMatches c states Mode_kDisabled \<longleftrightarrow> Mode_kDisabled = m"
    "controllerStateMatches c states (motion_controller_mode c) \<longleftrightarrow> motion_controller_mode c = m"
    "controllerStateMatches c states (alternate_mode c) \<longleftrightarrow> alternate_mode c = m"
    by (rule eq; simp)+
  show ?thesis
  proof (cases "m = Mode_kDisabled")
    case True
    then show ?thesis using e(1) by (simp add: detectControlMode_def)
  next
    case False
    then have "m = motion_controller_mode c \<or> m = alternate_mode c" using assms(3) by blast
    then show ?thesis
      using False by (cases "motion_controller_mode c = m") (simp_all add: detectControlMode_def e assms(2))
  qed
qed

text \<open>
  C11: A switch request that was built for a mode and carried out puts exactly the controllers of
  that mode into the state active, and the states then read back are classified as the target.
\<close>

theorem carried_out_switch_is_detected:
  assumes "on_configure p c s = Inr (c', s')" "default_motion_controller c' \<noteq> []"
    "buildControllerSwitchRequest c' before target = Some r"
    "target \<in> {Mode_kDisabled, motion_controller_mode c', alternate_mode c'}"
    "list_all (\<lambda>n. map_of before n \<in> {Some ''active'', Some ''inactive''}) (managed_controllers c')"
    "switched r (map_of before) (map_of after)"
  shows "controllerStateMatches c' after target \<and> detectControlMode c' after = target
    \<and> classifyModeSwitchState c' after source target = ModeSwitch_kTargetActive"
proof -
  have m: "controllerStateMatches c' after target"
    using assms(5) by (intro switched_matches [OF assms(3,6)]) (auto simp: list_all_iff)
  have "modes_configured c'" by (rule configured_modes [OF assms(1,2)])
  from detectControlMode_complete [OF this m assms(4)] m show ?thesis
    by (simp add: classifyModeSwitchState_def Let_def)
qed


definition sample_motion_params :: em_params where
  "sample_motion_params =
    \<lparr>p_managed_joints = [''a'', ''b''], p_batch_joint_names = [''b'', ''a''], p_batch_sizes = [1, 1],
     p_ready_terminal_joints = [], p_terminal_policy = ''joint_list'', p_handshake_devices = [],
     p_explicit_mask = 0x0F, p_expected_modes = [], p_ready_states = [], p_feedback_age = [''d/age''],
     p_al_states = [], p_feedback_age_limit = Fin 500, p_ready_hold = Fin 0, p_diagnostic_joints = [],
     p_diagnostic_interfaces = [], p_batch_timeout = Fin 4, p_disable_stage_timeout = Fin 4,
     p_inter_batch_delay = Fin 1, p_fault_reset_timeout = Fin 4, p_service_result_timeout = 30000,
     p_motion_controller = ''jtc'', p_rolling_controller = ''rolling'', p_trajectory_controller = [],
     p_mode_service = ''/mode'', p_mode_switch_joints = [], p_companion_controllers = [''gravity''],
     p_motion_joints = [''a'', ''b''], p_maximum_sample_period_ms = 1000, p_source_state_max_age_ms = 100,
     p_stable_interval_count = 2, p_mode_switch_timeout_ms = 500, p_mode_feedback_age_limit = Fin 500,
     p_stable_velocity_thresholds = [Fin 1, Fin 1], p_takeover_tolerances = [Fin 1, Fin 1]\<rparr>"

definition sample_motion_cfg :: em_cfg where
  "sample_motion_cfg = fst (projr (on_configure sample_motion_params sample_cfg sample_fresh))"

lemma sample_motion_configured:
  "on_configure sample_motion_params sample_cfg sample_fresh =
     Inr (sample_motion_cfg, snd (projr (on_configure sample_motion_params sample_cfg sample_fresh)))"
proof -
  have "\<not> isl (on_configure sample_motion_params sample_cfg sample_fresh)" by code_simp
  then show ?thesis
    by (cases "on_configure sample_motion_params sample_cfg sample_fresh") (auto simp: sample_motion_cfg_def)
qed

definition sample_before :: controller_states where
  "sample_before = [(''jtc'', ''active''), (''rolling'', ''inactive''), (''gravity'', ''active'')]"

definition sample_after :: controller_states where
  "sample_after = [(''jtc'', ''inactive''), (''rolling'', ''active''), (''gravity'', ''active'')]"

theorem carried_out_switch_is_detected_witness:
  "classifyModeSwitchState sample_motion_cfg sample_after Mode_kFjtReady Mode_kRollingReady = ModeSwitch_kTargetActive"
proof -
  have r: "buildControllerSwitchRequest sample_motion_cfg sample_before Mode_kRollingReady =
      Some \<lparr>activate_controllers = [''rolling''], deactivate_controllers = [''jtc'']\<rparr>"
    by code_simp
  have "controllerStateMatches sample_motion_cfg sample_after Mode_kRollingReady
    \<and> detectControlMode sample_motion_cfg sample_after = Mode_kRollingReady
    \<and> classifyModeSwitchState sample_motion_cfg sample_after Mode_kFjtReady Mode_kRollingReady = ModeSwitch_kTargetActive"
  proof (rule carried_out_switch_is_detected [OF sample_motion_configured _ r])
    show "default_motion_controller sample_motion_cfg \<noteq> []" by code_simp
    show "Mode_kRollingReady \<in> {Mode_kDisabled, motion_controller_mode sample_motion_cfg, alternate_mode sample_motion_cfg}"
      by code_simp
    show "list_all (\<lambda>n. map_of sample_before n \<in> {Some ''active'', Some ''inactive''}) (managed_controllers sample_motion_cfg)"
      by code_simp
    show "switched \<lparr>activate_controllers = [''rolling''], deactivate_controllers = [''jtc'']\<rparr>
        (map_of sample_before) (map_of sample_after)"
      by (simp add: switched_def sample_before_def sample_after_def)
  qed
  then show ?thesis by blast
qed

subsection \<open>Standstill before a switch\<close>

text \<open>What an open window has seen: its samples follow each other and end with the last one.\<close>

definition window_run :: "em_cfg \<Rightarrow> window \<Rightarrow> actual_sample list \<Rightarrow> bool" where
  "window_run c w run =
     (length run = Suc (w_intervals w) \<and> hd run = w_start w \<and> last run = w_previous w \<and>
      successively (contiguous c) run \<and>
      list_all (\<lambda>x. feedback_fresh (as_feedback_age_ms x) (mode_switch_feedback_age_limit_ms c)) (tl run))"

lemma window_run_extend:
  assumes "window_run c w run" "contiguous c (w_previous w) x"
    "feedback_fresh (as_feedback_age_ms x) (mode_switch_feedback_age_limit_ms c)"
  shows "window_run c \<lparr>w_previous = x, w_start = w_start w, w_intervals = w_intervals w + 1\<rparr> (run @ [x])"
proof -
  have "run \<noteq> []" using assms(1) by (auto simp: window_run_def)
  then show ?thesis using assms by (simp add: window_run_def successively_append_iff hd_append tl_append2)
qed

lemma window_run_single: "window_run c \<lparr>w_previous = x, w_start = x, w_intervals = 0\<rparr> [x]"
  by (simp add: window_run_def)

lemma watch_stable:
  assumes "watch c w samples = Window_stable w'" "window_run c w run"
    "w_intervals w < mode_switch_stable_interval_count c"
  shows "\<exists>pre run' post. run @ samples = pre @ run' @ post \<and> window_run c w' run' \<and>
    w_intervals w' = mode_switch_stable_interval_count c \<and> stableActualInterval c (w_start w') (w_previous w')"
  using assms
proof (induction samples arbitrary: w run)
  case Nil
  then show ?case by simp
next
  case (Cons x samples)
  let ?restarted = "\<lparr>w_previous = x, w_start = x, w_intervals = 0\<rparr>"
  let ?continued = "\<lparr>w_previous = x, w_start = w_start w, w_intervals = w_intervals w + 1\<rparr>"
  have n: "0 < mode_switch_stable_interval_count c" using Cons.prems(3) by simp
  have fresh: "feedback_fresh (as_feedback_age_ms x) (mode_switch_feedback_age_limit_ms c)"
  proof (rule ccontr)
    assume "\<not> feedback_fresh (as_feedback_age_ms x) (mode_switch_feedback_age_limit_ms c)"
    then have "window_step c w x = Window_stale" by (simp add: window_step_def)
    then show False using Cons.prems(1) by simp
  qed
  have shift: ?case if "\<exists>pre run' post. [x] @ samples = pre @ run' @ post \<and> window_run c w' run' \<and>
    w_intervals w' = mode_switch_stable_interval_count c \<and> stableActualInterval c (w_start w') (w_previous w')"
  proof -
    from that obtain pre run' post where "x # samples = pre @ run' @ post" and rest: "window_run c w' run'"
      "w_intervals w' = mode_switch_stable_interval_count c" "stableActualInterval c (w_start w') (w_previous w')" by auto
    then have "run @ x # samples = (run @ pre) @ run' @ post" by simp
    with rest show ?thesis by blast
  qed
  have step: "window_step c w x =
     (if \<not> contiguous c (w_previous w) x then Window_open ?restarted
      else if w_intervals w + 1 < mode_switch_stable_interval_count c then Window_open ?continued
      else if \<not> stableActualInterval c (w_start w) x then Window_open ?restarted
      else Window_stable ?continued)"
    using fresh by (simp add: window_step_def Let_def)
  consider "\<not> contiguous c (w_previous w) x
       \<or> (\<not> w_intervals w + 1 < mode_switch_stable_interval_count c \<and> \<not> stableActualInterval c (w_start w) x)"
    | "contiguous c (w_previous w) x" "w_intervals w + 1 < mode_switch_stable_interval_count c"
    | "contiguous c (w_previous w) x" "stableActualInterval c (w_start w) x"
      "\<not> w_intervals w + 1 < mode_switch_stable_interval_count c"
    by blast
  then show ?case
  proof cases
    case 1
    then have "window_step c w x = Window_open ?restarted" unfolding step by (metis (no_types))
    then have "watch c ?restarted samples = Window_stable w'" using Cons.prems(1) by simp
    from Cons.IH [OF this window_run_single] n show ?thesis by (intro shift) simp
  next
    case 2
    then have "watch c ?continued samples = Window_stable w'" using Cons.prems(1) by (simp add: step)
    from Cons.IH [OF this window_run_extend [OF Cons.prems(2) 2(1) fresh]] 2(2) show ?thesis by simp
  next
    case 3
    then have w': "w' = ?continued" using Cons.prems(1) by (simp add: step)
    have "window_run c w' (run @ [x])" unfolding w' by (rule window_run_extend [OF Cons.prems(2) 3(1) fresh])
    moreover have "run @ x # samples = [] @ (run @ [x]) @ samples" by simp
    moreover have "w_intervals w' = mode_switch_stable_interval_count c" using 3(3) Cons.prems(3) by (simp add: w')
    moreover have "stableActualInterval c (w_start w') (w_previous w')" using 3(2) by (simp add: w')
    ultimately show ?thesis by blast
  qed
qed


definition sample_at :: "nat \<Rightarrow> actual_sample" where
  "sample_at k = \<lparr>as_positions = [Fin 0, Fin 1], as_feedback_age_ms = Fin 3,
     as_steady_time_ns = of_nat k * 1000000000, as_sequence = of_nat k\<rparr>"

lemma sample_standstill:
  "watch sample_motion_cfg (open_window (sample_at 1)) [sample_at 5, sample_at 6, sample_at 7] =
     Window_stable \<lparr>w_previous = sample_at 7, w_start = sample_at 5, w_intervals = 2\<rparr>"
  by code_simp


end
