(* ===== verification/EnableServices.thy ===== *)
theory EnableServices
  imports EnableModes
begin

text \<open>
  The service threads of \<open>EnableManagerController\<close> (\<open>enable_manager_services.cpp\<close> and
  \<open>executeModeSwitch\<close>, \<open>validateModeSource\<close>, \<open>handleSetMode\<close>, \<open>switchDriveModes\<close>): one machine per
  handler, whose program counter stands before each access to a shared member, so that the control
  cycles and the other threads can run between any two accesses. A step reads what the world answers
  from a record of its own: the clock, the controller manager's replies. Reading the fields of a
  result slot or the drive displays, and \<open>recordFailure\<close>, are one step each.
\<close>

subsection \<open>What the world answers\<close>

text \<open>A reply that arrives as a null pointer counts as a refusal, as in the code.\<close>

datatype switch_reply = No_reply | Reply bool

record answers =
  an_timed_out :: bool
  an_time :: u64
  an_available :: bool
  an_states :: "controller_states option"
  an_reply :: switch_reply
  an_after :: "controller_states option"

subsection \<open>Responses\<close>

record rt_response =
  rr_ok :: bool
  rr_failed_batch :: int
  rr_failed_joint :: string
  rr_status_word :: u16
  rr_stage :: string

definition fillResponse :: "em_cfg \<Rightarrow> result_slot \<Rightarrow> rt_response" where
  "fillResponse c slot =
     \<lparr>rr_ok = rs_ok slot, rr_failed_batch = rs_failed_batch slot,
      rr_failed_joint = (if 0 \<le> rs_failed_joint slot then joint_names c ! nat (rs_failed_joint slot) else []),
      rr_status_word = rs_status_word slot, rr_stage = stageName (rs_stage slot)\<rparr>"

definition fillImmediateResponse :: "bool \<Rightarrow> stage \<Rightarrow> rt_response" where
  "fillImmediateResponse ok stage =
     \<lparr>rr_ok = ok, rr_failed_batch = -1, rr_failed_joint = [], rr_status_word = 0, rr_stage = stageName stage\<rparr>"

text \<open>The public error of a finished request; the summary is its decimal and textual rendering.\<close>

definition kStageCodes :: "u32 error_codes \<Rightarrow> (string \<times> u32) list" where
  "kStageCodes ec =
     [(''operation_in_progress'', RT_OPERATION_IN_PROGRESS ec),
      (''controller_inactive'', RT_ENABLE_MANAGER_NOT_READY ec),
      (''device_offline'', RT_DEVICE_OFFLINE ec),
      (''restart_required'', RT_RESTART_REQUIRED ec)]"

definition result_code :: "u32 error_codes \<Rightarrow> u32 \<Rightarrow> rt_response \<Rightarrow> u32" where
  "result_code ec failure_code r =
     (if rr_ok r then SUCCESS ec
      else case map_of (kStageCodes ec) (rr_stage r) of Some code \<Rightarrow> code | None \<Rightarrow> failure_code)"

definition reportResult :: "u32 error_codes \<Rightarrow> u32 \<Rightarrow> rt_response \<Rightarrow> (int \<Rightarrow> string) \<Rightarrow> error_info" where
  "reportResult ec failure_code r to_string =
    (let code = result_code ec failure_code r
     in \<lparr>ei_code = code, ei_retryable = retryable ec code, ei_severity = code_severity ec code,
         ei_message = ''stage='' @ rr_stage r
           @ (if rr_failed_joint r \<noteq> [] then '' failed_joint='' @ rr_failed_joint r else [])
           @ (if 0 \<le> rr_failed_batch r then '' failed_batch='' @ to_string (rr_failed_batch r) else []),
         ei_detail = []\<rparr>)"

subsection \<open>\<open>switchJtc\<close>\<close>

text \<open>
  It takes the flag \<open>switch_in_progress\<close> (or gives up), talks to the controller manager without
  touching a member, and clears the flag.
\<close>

definition switch_begin :: "em_cfg \<Rightarrow> em \<Rightarrow> switch_result option \<times> em" where
  "switch_begin c s =
    (if enable_only c then (Some Switch_kSuccess, s)
     else if switch_in_progress s then (Some Switch_kAmbiguous, s)
     else (None, s\<lparr>switch_in_progress := True\<rparr>))"

definition switch_outcome :: "em_cfg \<Rightarrow> bool \<Rightarrow> answers \<Rightarrow> switch_result" where
  "switch_outcome c activate an =
    (let target = (if activate then motion_controller_mode c else Mode_kDisabled)
     in if \<not> an_available an then Switch_kAmbiguous
        else case an_states an of
               None \<Rightarrow> Switch_kAmbiguous
             | Some before \<Rightarrow>
                 (case buildControllerSwitchRequest c before target of
                    None \<Rightarrow> Switch_kFailed
                  | Some request \<Rightarrow>
                      if activate_controllers request = [] \<and> deactivate_controllers request = []
                      then (if controllerStateMatches c before target then Switch_kSuccess else Switch_kFailed)
                      else (case an_reply an of
                              No_reply \<Rightarrow> Switch_kAmbiguous
                            | Reply ok \<Rightarrow>
                                if ok then (case an_after an of
                                       Some after \<Rightarrow>
                                         if controllerStateMatches c after target then Switch_kSuccess
                                         else Switch_kAmbiguous
                                     | None \<Rightarrow> Switch_kAmbiguous)
                                else Switch_kFailed)))"

definition switch_end :: "em \<Rightarrow> em" where
  "switch_end s = s\<lparr>switch_in_progress := False\<rparr>"

subsection \<open>Enable\<close>

datatype enable_pc =
    En_Callback | En_Active | En_Restart | En_Enabled | En_Idle | En_Owner
  | En_ClearReady | En_ClearHardware | En_Request
  | En_WaitActive | En_WaitHardware | En_WaitReady | En_CheckReady | En_CheckHardware
  | En_Required | En_Switch | En_Switching | En_Switched switch_result
  | En_SetEmergency | En_FailPhase | En_FailRequest | En_ActivatedRequest
  | En_ResultActive | En_ResultReady | En_ResultFinal | En_Fill
  | En_Release rt_response | En_Done rt_response

definition clear_ready :: "result_slot \<Rightarrow> result_slot" where
  "clear_ready slot = slot\<lparr>rs_ready := False\<rparr>"

fun enable_step_at :: "em_cfg \<Rightarrow> answers \<Rightarrow> enable_pc \<Rightarrow> em \<Rightarrow> enable_pc \<times> em" where
  "enable_step_at c an En_Callback s =
    (if enable_callback_active s
     then (En_Done (fillImmediateResponse False Stage_kOperationInProgress), s)
     else (En_Active, s\<lparr>enable_callback_active := True\<rparr>))"
| "enable_step_at c an En_Active s =
    (if \<not> active s then (En_Release (fillImmediateResponse False Stage_kControllerInactive), s)
     else (En_Restart, s))"
| "enable_step_at c an En_Restart s =
    (if restart_required s then (En_Release (fillImmediateResponse False Stage_kRestartRequired), s)
     else (En_Enabled, s))"
| "enable_step_at c an En_Enabled s =
    (if phase s = Phase_kEnabled then (En_Release (fillImmediateResponse True Stage_kAlreadyEnabled), s)
     else (En_Idle, s))"
| "enable_step_at c an En_Idle s =
    (if phase s \<noteq> Phase_kIdle then (En_Release (fillImmediateResponse False Stage_kOperationInProgress), s)
     else (En_Owner, s))"
| "enable_step_at c an En_Owner s =
    (if owner s \<noteq> Owner_kNone then (En_Release (fillImmediateResponse False Stage_kOperationInProgress), s)
     else (En_ClearReady, s\<lparr>owner := Owner_kEnable\<rparr>))"
| "enable_step_at c an En_ClearReady s = (En_ClearHardware, s\<lparr>enable_result := clear_ready (enable_result s)\<rparr>)"
| "enable_step_at c an En_ClearHardware s = (En_Request, s\<lparr>enable_hardware_ready := False\<rparr>)"
| "enable_step_at c an En_Request s = (En_WaitActive, s\<lparr>enable_request := True\<rparr>)"
| "enable_step_at c an En_WaitActive s = (if active s then En_WaitHardware else En_CheckReady, s)"
| "enable_step_at c an En_WaitHardware s = (if enable_hardware_ready s then En_CheckReady else En_WaitReady, s)"
| "enable_step_at c an En_WaitReady s =
    (if rs_ready (enable_result s) \<or> an_timed_out an then En_CheckReady else En_WaitActive, s)"
| "enable_step_at c an En_CheckReady s = (if rs_ready (enable_result s) then En_Fill else En_CheckHardware, s)"
| "enable_step_at c an En_CheckHardware s =
    (if \<not> enable_hardware_ready s
     then (En_Release (fillImmediateResponse False Stage_kControllerUpdateTimeout), s)
     else (En_Required, s))"
| "enable_step_at c an En_Required s = (En_Switch, s\<lparr>jtc_deactivation_required := True\<rparr>)"
| "enable_step_at c an En_Switch s =
    (case switch_begin c s of
       (Some result, s') \<Rightarrow> (En_Switched result, s')
     | (None, s') \<Rightarrow> (En_Switching, s'))"
| "enable_step_at c an En_Switching s = (En_Switched (switch_outcome c True an), switch_end s)"
| "enable_step_at c an (En_Switched Switch_kSuccess) s =
    (if phase s = Phase_kJtcActivating then En_ActivatedRequest else En_ResultActive, s)"
| "enable_step_at c an (En_Switched Switch_kFailed) s = (En_FailPhase, s\<lparr>jtc_deactivation_required := False\<rparr>)"
| "enable_step_at c an (En_Switched Switch_kAmbiguous) s = (En_SetEmergency, s\<lparr>restart_required := True\<rparr>)"
| "enable_step_at c an En_SetEmergency s = (En_FailPhase, s\<lparr>emergency_jtc_deactivate_request := True\<rparr>)"
| "enable_step_at c an En_FailPhase s =
    (if phase s = Phase_kJtcActivating then En_FailRequest else En_ResultActive, s)"
| "enable_step_at c an En_FailRequest s = (En_ResultActive, s\<lparr>jtc_activate_failed_request := True\<rparr>)"
| "enable_step_at c an En_ActivatedRequest s = (En_ResultActive, s\<lparr>jtc_activated_request := True\<rparr>)"
| "enable_step_at c an En_ResultActive s = (if active s then En_ResultReady else En_ResultFinal, s)"
| "enable_step_at c an En_ResultReady s =
    (if rs_ready (enable_result s) \<or> an_timed_out an then En_ResultFinal else En_ResultActive, s)"
| "enable_step_at c an En_ResultFinal s =
    (if rs_ready (enable_result s) then (En_Fill, s)
     else (En_Release (fillImmediateResponse False Stage_kControllerUpdateTimeout), s))"
| "enable_step_at c an En_Fill s = (En_Release (fillResponse c (enable_result s)), s)"
| "enable_step_at c an (En_Release r) s = (En_Done r, s\<lparr>enable_callback_active := False\<rparr>)"
| "enable_step_at c an (En_Done r) s = (En_Done r, s)"

subsection \<open>Disable\<close>

datatype disable_pc =
    Di_Callback | Di_Active | Di_Phase | Di_Owner phase
  | Di_Abort | Di_ModeActive | Di_ModeWait | Di_ModeOwner | Di_ModePhase owner | Di_Stop nat
  | Di_Take phase owner | Di_ClearReady phase | Di_ClearFailed phase
  | Di_StorePhase | Di_Switch | Di_Switching | Di_Switched switch_result | Di_Failed nat
  | Di_Request | Di_ResultActive | Di_ResultReady | Di_ResultFinal | Di_Fill
  | Di_Release rt_response | Di_Done rt_response

text \<open>The stores with which a disable gives up waiting for a mode switch, in their order.\<close>

definition stop_store :: "nat \<Rightarrow> em \<Rightarrow> em" where
  "stop_store k s =
    (if k = 0 then s\<lparr>restart_required := True\<rparr>
     else if k = 1 then s\<lparr>current_control_mode := Mode_kRestartRequired\<rparr>
     else if k = 2 then s\<lparr>jtc_deactivation_required := True\<rparr>
     else if k = 3 then s\<lparr>emergency_jtc_deactivate_request := True\<rparr>
     else s\<lparr>disable_request := True\<rparr>)"

text \<open>The stores after a controller switch that did not succeed.\<close>

definition failed_store :: "em_cfg \<Rightarrow> nat \<Rightarrow> em \<Rightarrow> em" where
  "failed_store c k s =
    (if k = 0 then s\<lparr>jtc_deactivate_failed := True\<rparr>
     else if k = 1 then s\<lparr>restart_required := True\<rparr>
     else recordFailure c Stage_kJtcDeactivateFailed (-1) (-1) 0 s)"

definition disable_busy :: "phase \<Rightarrow> bool" where
  "disable_busy p = (p \<in> {Phase_kStartupSanitizing, Phase_kEmergencyQuickStop, Phase_kEmergencyDisable,
     Phase_kJtcActivating, Phase_kDisabling, Phase_kRollback})"

definition preempts :: "phase \<Rightarrow> owner \<Rightarrow> bool" where
  "preempts p o1 =
     (o1 = Owner_kEnable \<and> (p = Phase_kEnabling \<or> p = Phase_kInterBatchDelay) \<or>
      o1 = Owner_kReset \<and> (p = Phase_kResetLow \<or> p = Phase_kResetHigh))"

fun disable_step_at :: "em_cfg \<Rightarrow> answers \<Rightarrow> disable_pc \<Rightarrow> em \<Rightarrow> disable_pc \<times> em" where
  "disable_step_at c an Di_Callback s =
    (if disable_callback_active s
     then (Di_Done (fillImmediateResponse False Stage_kOperationInProgress), s)
     else (Di_Active, s\<lparr>disable_callback_active := True\<rparr>))"
| "disable_step_at c an Di_Active s =
    (if \<not> active s then (Di_Release (fillImmediateResponse False Stage_kControllerInactive), s)
     else (Di_Phase, s))"
| "disable_step_at c an Di_Phase s =
    (if phase s = Phase_kIdle then (Di_Release (fillImmediateResponse True Stage_kAlreadyDisabled), s)
     else if disable_busy (phase s) then (Di_Release (fillImmediateResponse False Stage_kOperationInProgress), s)
     else (Di_Owner (phase s), s))"
| "disable_step_at c an (Di_Owner p) s =
    (if motion_mode_switching c \<and> owner s = Owner_kMode then (Di_Abort, s) else (Di_Take p (owner s), s))"
| "disable_step_at c an Di_Abort s = (Di_ModeActive, s\<lparr>mode_abort_requested := True\<rparr>)"
| "disable_step_at c an Di_ModeActive s = (if active s then Di_ModeWait else Di_ModeOwner, s)"
| "disable_step_at c an Di_ModeWait s =
    (if owner s = Owner_kMode \<and> \<not> an_timed_out an then Di_ModeActive else Di_ModeOwner, s)"
| "disable_step_at c an Di_ModeOwner s = (Di_ModePhase (owner s), s)"
| "disable_step_at c an (Di_ModePhase o1) s =
    (if o1 = Owner_kMode then (Di_Stop 0, s)
     else if phase s \<noteq> Phase_kEnabled then (Di_Release (fillImmediateResponse False Stage_kOperationInProgress), s)
     else (Di_Take (phase s) o1, s))"
| "disable_step_at c an (Di_Stop k) s =
    (if k < 4 then Di_Stop (Suc k) else Di_Release (fillImmediateResponse False Stage_kRestartRequired),
     stop_store k s)"
| "disable_step_at c an (Di_Take p o1) s =
    (if preempts p o1 then (Di_ClearReady p, s)
     else if owner s \<noteq> Owner_kNone then (Di_Release (fillImmediateResponse False Stage_kOperationInProgress), s)
     else (Di_ClearReady p, s\<lparr>owner := Owner_kDisable\<rparr>))"
| "disable_step_at c an (Di_ClearReady p) s =
    (Di_ClearFailed p, s\<lparr>disable_result := clear_ready (disable_result s)\<rparr>)"
| "disable_step_at c an (Di_ClearFailed p) s =
    (if p = Phase_kEnabled then Di_StorePhase else Di_Request, s\<lparr>jtc_deactivate_failed := False\<rparr>)"
| "disable_step_at c an Di_StorePhase s = (Di_Switch, s\<lparr>phase := Phase_kJtcDeactivating\<rparr>)"
| "disable_step_at c an Di_Switch s =
    (case switch_begin c s of
       (Some result, s') \<Rightarrow> (Di_Switched result, s')
     | (None, s') \<Rightarrow> (Di_Switching, s'))"
| "disable_step_at c an Di_Switching s = (Di_Switched (switch_outcome c False an), switch_end s)"
| "disable_step_at c an (Di_Switched result) s =
    (if result \<noteq> Switch_kSuccess then (Di_Failed 1, failed_store c 0 s)
     else (Di_Request, s\<lparr>jtc_deactivation_required := False\<rparr>))"
| "disable_step_at c an (Di_Failed k) s = (if k < 2 then Di_Failed (Suc k) else Di_Request, failed_store c k s)"
| "disable_step_at c an Di_Request s = (Di_ResultActive, s\<lparr>disable_request := True\<rparr>)"
| "disable_step_at c an Di_ResultActive s = (if active s then Di_ResultReady else Di_ResultFinal, s)"
| "disable_step_at c an Di_ResultReady s =
    (if rs_ready (disable_result s) \<or> an_timed_out an then Di_ResultFinal else Di_ResultActive, s)"
| "disable_step_at c an Di_ResultFinal s =
    (if rs_ready (disable_result s) then (Di_Fill, s)
     else (Di_Release (fillImmediateResponse False Stage_kControllerUpdateTimeout), s))"
| "disable_step_at c an Di_Fill s = (Di_Release (fillResponse c (disable_result s)), s)"
| "disable_step_at c an (Di_Release r) s = (Di_Done r, s\<lparr>disable_callback_active := False\<rparr>)"
| "disable_step_at c an (Di_Done r) s = (Di_Done r, s)"

subsection \<open>Reset of a fault\<close>

datatype reset_pc =
    Re_Callback | Re_Active | Re_Restart | Re_Phase | Re_Owner | Re_ClearReady | Re_Request
  | Re_ResultActive | Re_ResultReady | Re_ResultFinal | Re_Fill | Re_Release rt_response | Re_Done rt_response

fun reset_step_at :: "em_cfg \<Rightarrow> answers \<Rightarrow> reset_pc \<Rightarrow> em \<Rightarrow> reset_pc \<times> em" where
  "reset_step_at c an Re_Callback s =
    (if reset_callback_active s
     then (Re_Done (fillImmediateResponse False Stage_kOperationInProgress), s)
     else (Re_Active, s\<lparr>reset_callback_active := True\<rparr>))"
| "reset_step_at c an Re_Active s =
    (if \<not> active s then (Re_Release (fillImmediateResponse False Stage_kControllerInactive), s)
     else (Re_Restart, s))"
| "reset_step_at c an Re_Restart s =
    (if restart_required s then (Re_Release (fillImmediateResponse False Stage_kRestartRequired), s)
     else (Re_Phase, s))"
| "reset_step_at c an Re_Phase s =
    (if phase s \<noteq> Phase_kIdle \<and> phase s \<noteq> Phase_kFailed
     then (Re_Release (fillImmediateResponse False Stage_kOperationInProgress), s)
     else (Re_Owner, s))"
| "reset_step_at c an Re_Owner s =
    (if owner s \<noteq> Owner_kNone then (Re_Release (fillImmediateResponse False Stage_kOperationInProgress), s)
     else (Re_ClearReady, s\<lparr>owner := Owner_kReset\<rparr>))"
| "reset_step_at c an Re_ClearReady s = (Re_Request, s\<lparr>reset_result := clear_ready (reset_result s)\<rparr>)"
| "reset_step_at c an Re_Request s = (Re_ResultActive, s\<lparr>reset_request := True\<rparr>)"
| "reset_step_at c an Re_ResultActive s = (if active s then Re_ResultReady else Re_ResultFinal, s)"
| "reset_step_at c an Re_ResultReady s =
    (if rs_ready (reset_result s) \<or> an_timed_out an then Re_ResultFinal else Re_ResultActive, s)"
| "reset_step_at c an Re_ResultFinal s =
    (if rs_ready (reset_result s) then (Re_Fill, s)
     else (Re_Release (fillImmediateResponse False Stage_kControllerUpdateTimeout), s))"
| "reset_step_at c an Re_Fill s = (Re_Release (fillResponse c (reset_result s)), s)"
| "reset_step_at c an (Re_Release r) s = (Re_Done r, s\<lparr>reset_callback_active := False\<rparr>)"
| "reset_step_at c an (Re_Done r) s = (Re_Done r, s)"

subsection \<open>The worker timer and the motion-fault subscription\<close>

text \<open>
  \<open>handleNonRtFaultStop\<close> with \<open>handleMotionFault\<close> (the states \<open>Wo_Fault\<close> to \<open>Wo_FaultRequest\<close>), and the
  subscription that turns a fault message with \<open>data\<close> set into a request.
\<close>

datatype worker_pc =
    Wo_Fault | Wo_FaultPhase | Wo_FaultDrop | Wo_FaultOwner | Wo_FaultTake | Wo_FaultPending
  | Wo_FaultReady | Wo_FaultFailed | Wo_FaultStore | Wo_FaultSwitch | Wo_FaultSwitching
  | Wo_FaultSwitched switch_result | Wo_FaultFail nat | Wo_FaultRequest
  | Wo_Busy | Wo_Exchange | Wo_Required | Wo_Switch | Wo_Switching | Wo_Switched switch_result | Wo_Done

fun worker_step_at :: "em_cfg \<Rightarrow> answers \<Rightarrow> worker_pc \<Rightarrow> em \<Rightarrow> worker_pc \<times> em" where
  "worker_step_at c an Wo_Fault s = (if motion_fault_request s then Wo_FaultPhase else Wo_Busy, s)"
| "worker_step_at c an Wo_FaultPhase s = (if phase s \<noteq> Phase_kEnabled then Wo_FaultDrop else Wo_FaultOwner, s)"
| "worker_step_at c an Wo_FaultDrop s = (Wo_Busy, s\<lparr>motion_fault_request := False\<rparr>)"
| "worker_step_at c an Wo_FaultOwner s =
    (if owner s \<noteq> Owner_kNone then (Wo_Busy, s) else (Wo_FaultTake, s\<lparr>owner := Owner_kDisable\<rparr>))"
| "worker_step_at c an Wo_FaultTake s = (Wo_FaultPending, s\<lparr>motion_fault_request := False\<rparr>)"
| "worker_step_at c an Wo_FaultPending s = (Wo_FaultReady, s\<lparr>motion_fault_pending := True\<rparr>)"
| "worker_step_at c an Wo_FaultReady s = (Wo_FaultFailed, s\<lparr>disable_result := clear_ready (disable_result s)\<rparr>)"
| "worker_step_at c an Wo_FaultFailed s = (Wo_FaultStore, s\<lparr>jtc_deactivate_failed := False\<rparr>)"
| "worker_step_at c an Wo_FaultStore s = (Wo_FaultSwitch, s\<lparr>phase := Phase_kJtcDeactivating\<rparr>)"
| "worker_step_at c an Wo_FaultSwitch s =
    (case switch_begin c s of
       (Some result, s') \<Rightarrow> (Wo_FaultSwitched result, s')
     | (None, s') \<Rightarrow> (Wo_FaultSwitching, s'))"
| "worker_step_at c an Wo_FaultSwitching s = (Wo_FaultSwitched (switch_outcome c False an), switch_end s)"
| "worker_step_at c an (Wo_FaultSwitched result) s =
    (if result \<noteq> Switch_kSuccess then (Wo_FaultFail 1, failed_store c 0 s)
     else (Wo_FaultRequest, s\<lparr>jtc_deactivation_required := False\<rparr>))"
| "worker_step_at c an (Wo_FaultFail k) s =
    (if k < 2 then Wo_FaultFail (Suc k) else Wo_FaultRequest, failed_store c k s)"
| "worker_step_at c an Wo_FaultRequest s = (Wo_Busy, s\<lparr>disable_request := True\<rparr>)"
| "worker_step_at c an Wo_Busy s = (if switch_in_progress s then Wo_Done else Wo_Exchange, s)"
| "worker_step_at c an Wo_Exchange s =
    (if emergency_jtc_deactivate_request s then Wo_Required else Wo_Done,
     s\<lparr>emergency_jtc_deactivate_request := False\<rparr>)"
| "worker_step_at c an Wo_Required s = (if jtc_deactivation_required s then Wo_Switch else Wo_Done, s)"
| "worker_step_at c an Wo_Switch s =
    (case switch_begin c s of
       (Some result, s') \<Rightarrow> (Wo_Switched result, s')
     | (None, s') \<Rightarrow> (Wo_Switching, s'))"
| "worker_step_at c an Wo_Switching s = (Wo_Switched (switch_outcome c False an), switch_end s)"
| "worker_step_at c an (Wo_Switched result) s =
    (Wo_Done, if result \<noteq> Switch_kSuccess then s\<lparr>restart_required := True\<rparr>
              else s\<lparr>jtc_deactivation_required := False\<rparr>)"
| "worker_step_at c an Wo_Done s = (Wo_Done, s)"

datatype fault_pc = Fa_Phase | Fa_Store | Fa_Done

fun fault_step_at :: "fault_pc \<Rightarrow> em \<Rightarrow> fault_pc \<times> em" where
  "fault_step_at Fa_Phase s = (if phase s = Phase_kEnabled then Fa_Store else Fa_Done, s)"
| "fault_step_at Fa_Store s = (Fa_Done, s\<lparr>motion_fault_request := True\<rparr>)"
| "fault_step_at Fa_Done s = (Fa_Done, s)"

subsection \<open>Mode switch\<close>

text \<open>
  The values of the message \<open>JointControlMode\<close> and the state \<open>HOLDING\<close> of the rolling controller
  come from a message package outside the repository and are a parameter. The cast of a requested
  value to \<open>ControlMode\<close> happens before the value is checked; a value outside the enumeration
  compares unequal to every mode and is rejected by that check.
\<close>

record mode_codes =
  FJT_READY :: int
  VELOCITY_READY :: int
  ROLLING_READY :: int
  HOLDING :: int

definition mode_of_num :: "int \<Rightarrow> control_mode" where
  "mode_of_num v =
    (if v = 1 then Mode_kFjtReady else if v = 2 then Mode_kRollingReady
     else if v = 3 then Mode_kRestartRequired else if v = 4 then Mode_kVelocityReady else Mode_kDisabled)"

definition alternate_value :: "mode_codes \<Rightarrow> em_cfg \<Rightarrow> int" where
  "alternate_value mc c = (if rolling_motion_controller c = [] then VELOCITY_READY mc else ROLLING_READY mc)"

text \<open>The locals of a mode request.\<close>

record mode_locals =
  ml_requested :: int
  ml_source :: control_mode
  ml_target :: control_mode
  ml_window :: window
  ml_states :: controller_states
  ml_reply :: switch_reply
  ml_result :: mode_result

datatype admit_pc =
    Mo_Callback | Mo_Active | Mo_Restart | Mo_Current | Mo_Phase | Mo_Owner | Mo_ClearAbort | Mo_Take

datatype validate_pc = Mo_Source | Mo_First | Mo_Loop | Mo_LoopOwner | Mo_LoopPhase | Mo_Sample | Mo_Final

datatype execute_pc =
    Mo_Abort | Mo_Switch | Mo_Abort2 | Mo_Before | Mo_Owner2 | Mo_Phase2 | Mo_Abort3 | Mo_Service
  | Mo_Drives bool | Mo_DrivesOwner bool | Mo_DrivesPhase bool | Mo_DrivesPoll bool | Mo_DrivesStart bool
  | Mo_Build | Mo_Send switch_request | Mo_After | Mo_Owner3 | Mo_Phase3 | Mo_Preempted | Mo_Preempted2
  | Mo_Store | Mo_Clear "bool option" | Mo_Converge bool nat

datatype mode_pc =
    Admit admit_pc | Validate validate_pc | Execute execute_pc
  | Mo_Release bool | Mo_Mode | Mo_Finish mode_result control_mode | Mo_Done mode_result control_mode

text \<open>
  \<open>Mo_Release\<close> gives the ownership back; after a refused admission the answer carries the mode read
  at the start (\<open>False\<close>), else the mode read then.
\<close>

definition mode_result_of :: "mode_result \<Rightarrow> mode_locals \<Rightarrow> mode_locals" where
  "mode_result_of r l = l\<lparr>ml_result := r\<rparr>"

definition refuse :: "mode_result \<Rightarrow> mode_locals \<Rightarrow> em \<Rightarrow> (mode_pc \<times> mode_locals) \<times> em" where
  "refuse r l s = ((Mo_Release False, mode_result_of r l), s)"

definition clear_and :: "bool option \<Rightarrow> mode_result \<Rightarrow> mode_locals \<Rightarrow> em \<Rightarrow> (mode_pc \<times> mode_locals) \<times> em" where
  "clear_and converge r l s = ((Execute (Mo_Clear converge), mode_result_of r l), s)"

definition sample_attempts :: "em \<Rightarrow> (u64 \<times> actual_sample \<times> u64) list" where
  "sample_attempts s = replicate 5 (actual_sample_version s, actual_sample s, actual_sample_version s)"

definition source_check :: "mode_codes \<Rightarrow> em_cfg \<Rightarrow> u64 \<Rightarrow> control_mode \<Rightarrow> em \<Rightarrow> mode_result + command_snapshot" where
  "source_check mc c now source s =
    (case readCommandSnapshot source s of
       None \<Rightarrow> Inl kModeSourceStale
     | Some snapshot \<Rightarrow>
         if \<not> source_fresh c now snapshot then Inl kModeSourceStale
         else if source = Mode_kRollingReady \<and> cs_rolling_state snapshot \<noteq> HOLDING mc then Inl kModeSourceMoving
         else Inr snapshot)"

text \<open>\<open>handleSetMode\<close> up to the admission.\<close>

fun admit_step_at :: "mode_codes \<Rightarrow> em_cfg \<Rightarrow> admit_pc \<Rightarrow> mode_locals \<Rightarrow> em \<Rightarrow> (mode_pc \<times> mode_locals) \<times> em" where
  "admit_step_at mc c Mo_Callback l s =
    (if mode_callback_active s then ((Mo_Done kModeNotReady (current_control_mode s), l), s)
     else ((Admit Mo_Active, l), s\<lparr>mode_callback_active := True\<rparr>))"
| "admit_step_at mc c Mo_Active l s =
    ((if \<not> active s then Mo_Finish kModeNotEnabled Mode_kDisabled else Admit Mo_Restart, l), s)"
| "admit_step_at mc c Mo_Restart l s =
    ((if restart_required s then Mo_Finish kModeRestartRequired Mode_kRestartRequired else Admit Mo_Current, l), s)"
| "admit_step_at mc c Mo_Current l s =
    ((Admit Mo_Phase, l\<lparr>ml_source := current_control_mode s, ml_target := mode_of_num (ml_requested l)\<rparr>), s)"
| "admit_step_at mc c Mo_Phase l s =
    ((if phase s \<noteq> Phase_kEnabled
      then Mo_Finish (if phase s = Phase_kIdle then kModeNotEnabled else kModeNotReady) (ml_source l)
      else if ml_requested l \<noteq> FJT_READY mc \<and> ml_requested l \<noteq> alternate_value mc c
      then Mo_Finish kModeWrongMode (ml_source l) else Admit Mo_Owner, l), s)"
| "admit_step_at mc c Mo_Owner l s =
    ((if owner s \<noteq> Owner_kNone then Mo_Finish kModeNotReady (ml_source l)
      else if ml_target l = ml_source l then Mo_Finish kModeOk (ml_source l)
      else Admit Mo_ClearAbort, l), s)"
| "admit_step_at mc c Mo_ClearAbort l s = ((Admit Mo_Take, l), s\<lparr>mode_abort_requested := False\<rparr>)"
| "admit_step_at mc c Mo_Take l s =
    (if owner s \<noteq> Owner_kNone then ((Mo_Finish kModeNotReady (ml_source l), l), s)
     else ((Validate Mo_Source, l), s\<lparr>owner := Owner_kMode\<rparr>))"

text \<open>\<open>validateModeSource\<close>. Leaving the velocity mode needs no source state.\<close>

fun validate_step_at :: "mode_codes \<Rightarrow> em_cfg \<Rightarrow> answers \<Rightarrow> validate_pc \<Rightarrow> mode_locals \<Rightarrow> em \<Rightarrow>
    (mode_pc \<times> mode_locals) \<times> em" where
  "validate_step_at mc c an Mo_Source l s =
    (if ml_source l = Mode_kVelocityReady then ((Validate Mo_First, l), s)
     else case source_check mc c (an_time an) (ml_source l) s of
            Inl r \<Rightarrow> refuse r l s
          | Inr _ \<Rightarrow> ((Validate Mo_First, l), s))"
| "validate_step_at mc c an Mo_First l s =
    (case readActualSample (sample_attempts s) of
       None \<Rightarrow> refuse kModeNotReady l s
     | Some previous \<Rightarrow>
         if \<not> feedback_fresh (as_feedback_age_ms previous) (mode_switch_feedback_age_limit_ms c)
         then refuse kModeFeedbackStale l s
         else ((Validate Mo_Loop, l\<lparr>ml_window := open_window previous\<rparr>), s))"
| "validate_step_at mc c an Mo_Loop l s =
    (if an_timed_out an then refuse kModeSourceMoving l s
     else if mode_abort_requested s then refuse kModeNotReady l s
     else ((Validate Mo_LoopOwner, l), s))"
| "validate_step_at mc c an Mo_LoopOwner l s =
    (if owner s \<noteq> Owner_kMode then refuse kModeNotReady l s else ((Validate Mo_LoopPhase, l), s))"
| "validate_step_at mc c an Mo_LoopPhase l s =
    (if phase s \<noteq> Phase_kEnabled then refuse kModeNotReady l s else ((Validate Mo_Sample, l), s))"
| "validate_step_at mc c an Mo_Sample l s =
    (case readActualSample (sample_attempts s) of
       None \<Rightarrow> ((Validate Mo_Loop, l), s)
     | Some current \<Rightarrow>
         if as_sequence current = as_sequence (w_previous (ml_window l)) then ((Validate Mo_Loop, l), s)
         else (case window_step c (ml_window l) current of
                 Window_stale \<Rightarrow> refuse kModeFeedbackStale l s
               | Window_open w \<Rightarrow> ((Validate Mo_Loop, l\<lparr>ml_window := w\<rparr>), s)
               | Window_stable w \<Rightarrow>
                   ((if ml_source l = Mode_kVelocityReady then Execute Mo_Abort else Validate Mo_Final, l\<lparr>ml_window := w\<rparr>), s)))"
| "validate_step_at mc c an Mo_Final l s =
    (case source_check mc c (an_time an) (ml_source l) s of
       Inl r \<Rightarrow> refuse r l s
     | Inr snapshot \<Rightarrow>
         if ml_source l = Mode_kFjtReady
            \<and> \<not> sourceWithinTakeoverTolerance c (cs_positions snapshot) (as_positions (w_previous (ml_window l)))
         then refuse kModeTakeoverMismatch l s
         else ((Execute Mo_Abort, l), s))"

text \<open>
  \<open>executeModeSwitch\<close> with \<open>switchDriveModes\<close> (\<open>Mo_DrivesStart\<close> to \<open>Mo_DrivesPoll\<close>; the flag tells
  whether the drives enter CSP) and the stores of \<open>convergeAfterUnsafeModeSwitch\<close>.
\<close>

fun execute_step_at :: "em_cfg \<Rightarrow> answers \<Rightarrow> execute_pc \<Rightarrow> mode_locals \<Rightarrow> em \<Rightarrow> (mode_pc \<times> mode_locals) \<times> em" where
  "execute_step_at c an Mo_Abort l s =
    (if mode_abort_requested s then ((Mo_Release True, mode_result_of kModeNotReady l), s)
     else ((Execute Mo_Switch, l), s))"
| "execute_step_at c an Mo_Switch l s =
    (if switch_in_progress s then ((Mo_Release True, mode_result_of kModeNotReady l), s)
     else ((Execute Mo_Abort2, l), s\<lparr>switch_in_progress := True\<rparr>))"
| "execute_step_at c an Mo_Abort2 l s =
    (if mode_abort_requested s then clear_and None kModeNotReady l s else ((Execute Mo_Before, l), s))"
| "execute_step_at c an Mo_Before l s =
    (case an_states an of
       None \<Rightarrow> clear_and (Some True) kModeRestartRequired l s
     | Some before \<Rightarrow> ((Execute Mo_Owner2, l\<lparr>ml_states := before\<rparr>), s))"
| "execute_step_at c an Mo_Owner2 l s =
    ((Execute (if owner s \<noteq> Owner_kMode then Mo_Preempted else Mo_Phase2), l), s)"
| "execute_step_at c an Mo_Phase2 l s =
    (if phase s \<noteq> Phase_kEnabled then ((Execute Mo_Preempted, l), s)
     else if detectControlMode c (ml_states l) \<noteq> ml_source l
     then clear_and (Some True) kModeRestartRequired l s
     else ((Execute Mo_Abort3, l), s))"
| "execute_step_at c an Mo_Abort3 l s =
    (if mode_abort_requested s then clear_and None kModeNotReady l s else ((Execute Mo_Service, l), s))"
| "execute_step_at c an Mo_Service l s =
    (if \<not> an_available an then clear_and (Some True) kModeRestartRequired l s
     else if switchedDrivesUseCsp c (ml_source l) \<and> \<not> switchedDrivesUseCsp c (ml_target l)
     then ((Execute (Mo_DrivesStart False), l), s)
     else ((Execute Mo_Build, l), s))"
| "execute_step_at c an (Mo_DrivesStart csp) l s =
    (if mode_switch_axes c = [] then ((Execute (if csp then Mo_Store else Mo_Build), l), s)
     else ((Execute (Mo_Drives csp), l), s\<lparr>drive_csp_requested := csp\<rparr>))"
| "execute_step_at c an (Mo_Drives csp) l s =
    (if an_timed_out an then clear_and (Some False) kModeDriveModeTimeout l s
     else ((Execute (Mo_DrivesOwner csp), l), s))"
| "execute_step_at c an (Mo_DrivesOwner csp) l s =
    (if owner s \<noteq> Owner_kMode then clear_and (Some False) kModeDriveModeTimeout l s
     else ((Execute (Mo_DrivesPhase csp), l), s))"
| "execute_step_at c an (Mo_DrivesPhase csp) l s =
    (if phase s \<noteq> Phase_kEnabled then clear_and (Some False) kModeDriveModeTimeout l s
     else ((Execute (Mo_DrivesPoll csp), l), s))"
| "execute_step_at c an (Mo_DrivesPoll csp) l s =
    ((Execute (if drives_confirmed c csp s then (if csp then Mo_Store else Mo_Build) else Mo_Drives csp), l), s)"
| "execute_step_at c an Mo_Build l s =
    (case buildControllerSwitchRequest c (ml_states l) (ml_target l) of
       None \<Rightarrow> clear_and (Some True) kModeRestartRequired l s
     | Some request \<Rightarrow> ((Execute (Mo_Send request), l), s))"
| "execute_step_at c an (Mo_Send request) l s = ((Execute Mo_After, l\<lparr>ml_reply := an_reply an\<rparr>), s)"
| "execute_step_at c an Mo_After l s =
    (case an_after an of
       None \<Rightarrow> clear_and (Some True) kModeRestartRequired l s
     | Some after \<Rightarrow> ((Execute Mo_Owner3, l\<lparr>ml_states := after\<rparr>), s))"
| "execute_step_at c an Mo_Owner3 l s =
    ((Execute (if owner s \<noteq> Owner_kMode then Mo_Preempted else Mo_Phase3), l), s)"
| "execute_step_at c an Mo_Phase3 l s =
    (if phase s \<noteq> Phase_kEnabled then ((Execute Mo_Preempted, l), s)
     else let observed = classifyModeSwitchState c (ml_states l) (ml_source l) (ml_target l)
     in case ml_reply l of
          No_reply \<Rightarrow> clear_and (Some True) kModeRestartRequired l s
        | Reply ok \<Rightarrow>
            if ok \<and> observed = ModeSwitch_kTargetActive
            then ((Execute (if switchedDrivesUseCsp c (ml_target l) then Mo_DrivesStart True else Mo_Store), l), s)
            else if \<not> ok \<and> observed = ModeSwitch_kSourcePreserved then clear_and None kModeSwitchRejected l s
            else if observed = ModeSwitch_kAllInactive then clear_and (Some False) kModeSwitchRejected l s
            else clear_and (Some True) kModeRestartRequired l s)"
| "execute_step_at c an Mo_Preempted l s = ((Execute Mo_Preempted2, l), s\<lparr>restart_required := True\<rparr>)"
| "execute_step_at c an Mo_Preempted2 l s =
    clear_and None kModeRestartRequired l (s\<lparr>current_control_mode := Mode_kRestartRequired\<rparr>)"
| "execute_step_at c an Mo_Store l s = clear_and None kModeOk l (s\<lparr>current_control_mode := ml_target l\<rparr>)"
| "execute_step_at c an (Mo_Clear converge) l s =
    ((case converge of None \<Rightarrow> Mo_Release True | Some restart \<Rightarrow> Execute (Mo_Converge restart 0), l), switch_end s)"
| "execute_step_at c an (Mo_Converge restart k) l s =
    ((if k < 6 then Execute (Mo_Converge restart (Suc k)) else Mo_Release True, l), converge_store restart k s)"

fun mode_step_at :: "mode_codes \<Rightarrow> em_cfg \<Rightarrow> answers \<Rightarrow> mode_pc \<times> mode_locals \<Rightarrow> em \<Rightarrow> (mode_pc \<times> mode_locals) \<times> em" where
  "mode_step_at mc c an (Admit pc, l) s = admit_step_at mc c pc l s"
| "mode_step_at mc c an (Validate pc, l) s = validate_step_at mc c an pc l s"
| "mode_step_at mc c an (Execute pc, l) s = execute_step_at c an pc l s"
| "mode_step_at mc c an (Mo_Release executed, l) s =
    ((if executed then Mo_Mode else Mo_Finish (ml_result l) (ml_source l), l), releaseModeOwnership s)"
| "mode_step_at mc c an (Mo_Mode, l) s = ((Mo_Finish (ml_result l) (current_control_mode s), l), s)"
| "mode_step_at mc c an (Mo_Finish r m, l) s = ((Mo_Done r m, l), s\<lparr>mode_callback_active := False\<rparr>)"
| "mode_step_at mc c an (Mo_Done r m, l) s = ((Mo_Done r m, l), s)"

end
