(* ===== verification/EnableSystem.thy ===== *)
theory EnableSystem
  imports EnableServices
begin

text \<open>
  The enable manager as a system: the members, any number of service threads, and the events that
  interleave. A control cycle is one event; a thread makes one access per event.
\<close>

subsection \<open>Threads and events\<close>

datatype service_thread =
    Enabling enable_pc | Disabling disable_pc | Resetting reset_pc
  | Switching mode_pc mode_locals | Working worker_pc | Faulting fault_pc

record sys =
  sys_em :: em
  threads :: "service_thread list"

definition no_locals :: "int \<Rightarrow> mode_locals" where
  "no_locals requested =
    (let nowhere = \<lparr>as_positions = [], as_feedback_age_ms = NaN, as_steady_time_ns = 0, as_sequence = 0\<rparr>
     in \<lparr>ml_requested = requested, ml_source = Mode_kDisabled, ml_target = Mode_kDisabled,
         ml_window = open_window nowhere, ml_states = [], ml_reply = No_reply, ml_result = kModeOk\<rparr>)"

datatype request = Call_enable | Call_disable | Call_reset | Call_mode int | Call_worker | Call_fault

fun new_thread :: "request \<Rightarrow> service_thread" where
  "new_thread Call_enable = Enabling En_Callback"
| "new_thread Call_disable = Disabling Di_Callback"
| "new_thread Call_reset = Resetting Re_Callback"
| "new_thread (Call_mode v) = Switching (Admit Mo_Callback) (no_locals v)"
| "new_thread Call_worker = Working Wo_Fault"
| "new_thread Call_fault = Faulting Fa_Phase"

fun thread_step :: "mode_codes \<Rightarrow> em_cfg \<Rightarrow> answers \<Rightarrow> service_thread \<Rightarrow> em \<Rightarrow> service_thread \<times> em" where
  "thread_step mc c an (Enabling pc) s = (case enable_step_at c an pc s of (pc', s') \<Rightarrow> (Enabling pc', s'))"
| "thread_step mc c an (Disabling pc) s = (case disable_step_at c an pc s of (pc', s') \<Rightarrow> (Disabling pc', s'))"
| "thread_step mc c an (Resetting pc) s = (case reset_step_at c an pc s of (pc', s') \<Rightarrow> (Resetting pc', s'))"
| "thread_step mc c an (Switching pc l) s =
    (case mode_step_at mc c an (pc, l) s of ((pc', l'), s') \<Rightarrow> (Switching pc' l', s'))"
| "thread_step mc c an (Working pc) s = (case worker_step_at c an pc s of (pc', s') \<Rightarrow> (Working pc', s'))"
| "thread_step mc c an (Faulting pc) s = (case fault_step_at pc s of (pc', s') \<Rightarrow> (Faulting pc', s'))"

text \<open>
  \<open>Feedback\<close> is new contents of the state interfaces, whose names never change; \<open>Jtc_state\<close> and
  \<open>Rolling_state\<close> are the messages of the two motion controllers.
\<close>

datatype event =
    Cycle int int u64
  | Feedback "f64 list"
  | Call request
  | Thread nat answers
  | Jtc_state jtc_state_message u64
  | Rolling_state int u64

definition set_cells :: "f64 list \<Rightarrow> loaned list \<Rightarrow> loaned list" where
  "set_cells cells interfaces = map2 (\<lambda>i v. i\<lparr>cell := v\<rparr>) interfaces cells"

fun sys_step :: "mode_codes \<Rightarrow> em_cfg \<Rightarrow> event \<Rightarrow> sys \<Rightarrow> sys option" where
  "sys_step mc c (Cycle now period steady) y = Some (y\<lparr>sys_em := update c now period steady (sys_em y)\<rparr>)"
| "sys_step mc c (Feedback cells) y =
    (if length cells = length (state_interfaces (sys_em y))
     then Some (y\<lparr>sys_em := (sys_em y)\<lparr>state_interfaces := set_cells cells (state_interfaces (sys_em y))\<rparr>\<rparr>)
     else None)"
| "sys_step mc c (Call r) y = Some (y\<lparr>threads := threads y @ [new_thread r]\<rparr>)"
| "sys_step mc c (Thread i an) y =
    (if i < length (threads y)
     then (case thread_step mc c an (threads y ! i) (sys_em y) of
             (t, s) \<Rightarrow> Some \<lparr>sys_em = s, threads = (threads y)[i := t]\<rparr>)
     else None)"
| "sys_step mc c (Jtc_state message now) y = Some (y\<lparr>sys_em := handleJtcState c message now (sys_em y)\<rparr>)"
| "sys_step mc c (Rolling_state state now) y = Some (y\<lparr>sys_em := handleRollingState state now (sys_em y)\<rparr>)"

fun sys_run :: "mode_codes \<Rightarrow> em_cfg \<Rightarrow> event list \<Rightarrow> sys \<Rightarrow> sys option" where
  "sys_run mc c [] y = Some y"
| "sys_run mc c (e # es) y = Option.bind (sys_step mc c e y) (sys_run mc c es)"

text \<open>The states that a freshly activated manager can reach.\<close>

inductive reachable :: "mode_codes \<Rightarrow> em_cfg \<Rightarrow> em \<Rightarrow> sys \<Rightarrow> bool" for mc c s0 where
  start: "reachable mc c s0 \<lparr>sys_em = s0, threads = []\<rparr>"
| step: "reachable mc c s0 y \<Longrightarrow> sys_step mc c e y = Some y' \<Longrightarrow> reachable mc c s0 y'"

inductive_cases sys_reachableE: "reachable mc c s0 y"

lemma reachable_run: "reachable mc c s0 y \<Longrightarrow> sys_run mc c es y = Some y' \<Longrightarrow> reachable mc c s0 y'"
  by (induction es arbitrary: y) (auto simp: Option.bind_eq_Some_conv intro: reachable.step)

text \<open>An invariant that the start has and every event keeps holds in every reachable state.\<close>

lemma reachable_invariant:
  assumes "reachable mc c s0 y" "P \<lparr>sys_em = s0, threads = []\<rparr>"
    "\<And>e y y'. reachable mc c s0 y \<Longrightarrow> P y \<Longrightarrow> sys_step mc c e y = Some y' \<Longrightarrow> P y'"
  shows "P y"
  using assms by (induction rule: reachable.induct) blast+

end
