(* ===== verification/EnableFrames.thy ===== *)
theory EnableFrames
  imports EnableSystem
begin

text \<open>
  What the control cycle leaves to the service threads: the flags with which the handlers exclude
  each other and the flag that marks a controller switch in flight.
\<close>

definition flags :: "em \<Rightarrow> bool \<times> bool \<times> bool \<times> bool \<times> bool" where
  "flags s = (switch_in_progress s, enable_callback_active s, disable_callback_active s,
     reset_callback_active s, mode_callback_active s)"

lemma flags_upd [simp]:
  "flags (phase_update f1 s) = flags s"
  "flags (owner_update f2 s) = flags s"
  "flags (enable_request_update f3 s) = flags s"
  "flags (disable_request_update f4 s) = flags s"
  "flags (reset_request_update f5 s) = flags s"
  "flags (enable_hardware_ready_update f6 s) = flags s"
  "flags (jtc_activate_failed_request_update f7 s) = flags s"
  "flags (jtc_activated_request_update f8 s) = flags s"
  "flags (emergency_jtc_deactivate_request_update f9 s) = flags s"
  "flags (jtc_deactivation_required_update f10 s) = flags s"
  "flags (restart_required_update f11 s) = flags s"
  "flags (mode_abort_requested_update f12 s) = flags s"
  "flags (current_control_mode_update f13 s) = flags s"
  "flags (actual_sample_update f14 s) = flags s"
  "flags (actual_sample_version_update f15 s) = flags s"
  "flags (enable_result_update f16 s) = flags s"
  "flags (disable_result_update f17 s) = flags s"
  "flags (reset_result_update f18 s) = flags s"
  "flags (last_failure_update f19 s) = flags s"
  "flags (primary_update f20 s) = flags s"
  "flags (status_words_update f21 s) = flags s"
  "flags (actual_modes_update f22 s) = flags s"
  "flags (mode_state_indices_update f23 s) = flags s"
  "flags (mode_confirmed_update f24 s) = flags s"
  "flags (ready_state_indices_update f25 s) = flags s"
  "flags (offline_source_indices_update f26 s) = flags s"
  "flags (offline_now_update f27 s) = flags s"
  "flags (offline_feedback_update f28 s) = flags s"
  "flags (ready_since_ns_update f29 s) = flags s"
  "flags (state_sources_qualified_update f30 s) = flags s"
  "flags (motion_fault_request_update f31 s) = flags s"
  "flags (motion_fault_pending_update f32 s) = flags s"
  "flags (reset_targets_update f33 s) = flags s"
  "flags (cia402_axes_update f34 s) = flags s"
  "flags (handshake_devices_update f35 s) = flags s"
  "flags (device_stage_update f36 s) = flags s"
  "flags (diagnostic_state_indices_update f37 s) = flags s"
  "flags (diagnostic_state_values_update f38 s) = flags s"
  "flags (current_batch_update f39 s) = flags s"
  "flags (downward_stage_update f40 s) = flags s"
  "flags (stage_deadline_ns_update f41 s) = flags s"
  "flags (enable_preempt_requested_update f42 s) = flags s"
  "flags (interrupted_owner_update f43 s) = flags s"
  "flags (jtc_deactivate_failed_update f44 s) = flags s"
  "flags (drive_mode_command_offset_update f45 s) = flags s"
  "flags (drive_csp_requested_update f46 s) = flags s"
  "flags (drive_mode_display_update f47 s) = flags s"
  "flags (jtc_command_snapshot_update f48 s) = flags s"
  "flags (rolling_command_snapshot_update f49 s) = flags s"
  "flags (trace_ok_update f50 s) = flags s"
  "flags (trace_rows_update f51 s) = flags s"
  "flags (command_interfaces_update f52 s) = flags s"
  "flags (state_interfaces_update f53 s) = flags s"
  "flags (active_update f54 s) = flags s"
  by (simp_all add: flags_def)

lemma flags_setControlWord [simp]: "flags (setControlWord a w s) = flags s"
  by (simp add: setControlWord_def)

lemma flags_setControlWordsFrom [simp]: "flags (setControlWordsFrom a ws s) = flags s"
  by (induction ws arbitrary: a s) simp_all

lemma flags_setAllControlWords [simp]: "flags (setAllControlWords w s) = flags s"
  by (simp add: setAllControlWords_def)

lemma flags_publishResult [simp]: "flags (publishResult slot ok st b j w s) = flags s"
  by (cases slot) (simp_all add: publishResult_def)

lemma flags_small [simp]:
  "flags (requestDevicesEnable b s) = flags s" "flags (startDeviceResets s) = flags s"
  "flags (readDevices s) = flags s" "flags (writeDevices s) = flags s"
  "flags (recordFailure c st bt j w s) = flags s" "flags (clearFailure s) = flags s"
  "flags (set_primary st bt j w s) = flags s" "flags (startDownward c p now s) = flags s"
  "flags (refreshStatusWords s) = flags s" "flags (refreshModes c s) = flags s"
  "flags (markResetTargets s) = flags s" "flags (publishPrimary slot s) = flags s"
  by (simp_all add: requestDevicesEnable_def startDeviceResets_def readDevices_def writeDevices_def
      recordFailure_def clearFailure_def set_primary_def startDownward_def refreshStatusWords_def
      refreshModes_def markResetTargets_def publishPrimary_def Let_def)

lemma flags_if: "flags (if b then s else t) = (if b then flags s else flags t)"
  by simp

lemma flags_finishDownward [simp]: "flags (finishDownward c s) = flags s"
  by (simp add: finishDownward_def Let_def flags_if)

lemma flags_downwardTimeout [simp]: "flags (downwardTimeout c p f i now s) = flags s"
  by (simp add: downwardTimeout_def Let_def flags_if)

lemma flags_updateDownward [simp]: "flags (updateDownward c now s) = flags s"
  by (simp add: updateDownward_def Let_def flags_if)

lemma flags_startEmergency [simp]: "flags (startEmergency c st j w now s) = flags s"
  by (simp add: startEmergency_def Let_def)

lemma flags_updateEmergencyQuickStop [simp]: "flags (updateEmergencyQuickStop c now s) = flags s"
  by (simp add: updateEmergencyQuickStop_def Let_def flags_if)

lemma flags_failEnable [simp]: "flags (failEnable c st axis now s) = flags s"
  by (simp add: failEnable_def Let_def flags_if)

lemma flags_preemptEnable [simp]: "flags (preemptEnable c now s) = flags s"
  by (simp add: preemptEnable_def)

lemma flags_updateDeviceEnable [simp]: "flags (updateDeviceEnable c now s) = flags s"
  by (simp add: updateDeviceEnable_def Let_def flags_if split: option.split)

lemma flags_batch_turn [simp]: "flags (fst (batch_turn c axis (s, bc, bad))) = flags s"
  by (simp add: batch_turn_def)

lemma flags_batch_loop:
  "(\<forall>t. batch_loop c now axes (s, bc, bad) = Inl t \<longrightarrow> flags t = flags s) \<and>
   (\<forall>t bc' bad'. batch_loop c now axes (s, bc, bad) = Inr (t, bc', bad') \<longrightarrow> flags t = flags s)"
proof (induction axes arbitrary: s bc bad)
  case Nil
  then show ?case by simp
next
  case (Cons axis axes)
  obtain s' bc' bad' where turn: "batch_turn c axis (s, bc, bad) = (s', bc', bad')"
    by (cases "batch_turn c axis (s, bc, bad)") auto
  have f: "flags s' = flags s" using flags_batch_turn [of c axis s bc bad] by (simp add: turn)
  show ?case using Cons.IH [of s' bc' bad'] f by (auto simp: batch_loop_Cons_eq turn)
qed

lemma flags_batchTimeout [simp]: "flags (batchTimeout c now s) = flags s"
  by (simp add: batchTimeout_def Let_def)

lemma flags_updateBatch [simp]: "flags (updateBatch c now s) = flags s"
proof (cases "batch_loop c now [0..<length (cia402_axes s)] (s, True, None)")
  case (Inl t)
  then show ?thesis using flags_batch_loop [of c now "[0..<length (cia402_axes s)]" s True None]
    by (simp add: updateBatch_def)
next
  case (Inr r)
  obtain t bc bad where r: "r = (t, bc, bad)" by (cases r) auto
  have "flags t = flags s" using flags_batch_loop [of c now "[0..<length (cia402_axes s)]" s True None] Inr
    by (simp add: r)
  then show ?thesis by (simp add: updateBatch_def Inr r flags_if split: option.split)
qed

lemma flags_updateInterBatchDelay [simp]: "flags (updateInterBatchDelay c now s) = flags s"
  by (simp add: updateInterBatchDelay_def Let_def flags_if)

lemma flags_readyGate:
  "readyGate c now s = Inl t \<Longrightarrow> flags t = flags s" "readyGate c now s = Inr t \<Longrightarrow> flags t = flags s"
  by (auto simp: readyGate_def Let_def flags_if split: if_splits)

lemma flags_updateEnable [simp]: "flags (updateEnable c now s) = flags s"
  by (auto simp: updateEnable_def Let_def flags_if flags_readyGate split: option.split sum.split)

lemma flags_updateReset [simp]: "flags (updateReset c now s) = flags s"
  by (simp add: updateReset_def Let_def flags_if)

lemma flags_rejectIfOffline [simp]: "flags (snd (rejectIfOffline slot s)) = flags s"
  by (simp add: rejectIfOffline_def Let_def)

lemma flags_acceptReset [simp]: "flags (acceptReset s) = flags s"
  by (simp add: acceptReset_def Let_def flags_if case_prod_beta)

lemma flags_acceptEnable [simp]: "flags (acceptEnable c now s) = flags s"
  by (simp add: acceptEnable_def Let_def flags_if case_prod_beta)

lemma flags_idle [simp]:
  "flags (updateIdle c now s) = flags s" "flags (updateFailed c now s) = flags s"
  "flags (updateEnabled c now s) = flags s" "flags (updateJtcActivating c now s) = flags s"
  by (simp_all add: updateIdle_def updateFailed_def updateEnabled_def updateJtcActivating_def Let_def flags_if)

lemma flags_dispatch [simp]: "flags (dispatch c now p s) = flags s"
  by (cases p) (simp_all add: dispatch_def flags_if)

lemma flags_supervise [simp]: "flags (snd (supervise c off now s)) = flags s"
  by (simp add: supervise_def flags_if split: option.split)

lemma flags_observe [simp]: "flags (observe c steady s) = flags s"
  by (simp add: observe_def captureSample_def Let_def)

lemma flags_fold:
  assumes "\<And>x t. flags (f x t) = flags t"
  shows "flags (fold f xs s) = flags s"
  by (induction xs arbitrary: s) (simp_all add: assms)

lemma flags_writeDriveModes [simp]: "flags (writeDriveModes c s) = flags s"
  by (simp add: writeDriveModes_def Let_def flags_if flags_fold)

lemma flags_update [simp]: "flags (update c now period steady s) = flags s"
  by (simp add: update_def writeTrace_def Let_def case_prod_beta)

end
