(* ===== verification/EnableRegions.thy ===== *)
theory EnableRegions
  imports EnableFrames
begin

text \<open>
  Mutual exclusion among the service threads. A critical region is a part of the handlers that is
  entered by setting a flag with compare-exchange and left by clearing it; the interface says what
  every access of a thread, every cycle and every message keeps, and the locale draws the
  consequence for all reachable states.
\<close>

subsection \<open>The interface\<close>

lemma length_filter_update:
  "i < length xs \<Longrightarrow>
     length (filter P (xs[i := v])) + of_bool (P (xs ! i)) = length (filter P xs) + (of_bool (P v) :: nat)"
proof (induction xs arbitrary: i)
  case Nil
  then show ?case by simp
next
  case (Cons x xs)
  then show ?case by (cases i) auto
qed

locale critical_region =
  fixes inside :: "service_thread \<Rightarrow> bool"
    and flag :: "em \<Rightarrow> bool"
  assumes thread_law: "(inside t \<Longrightarrow> flag s) \<Longrightarrow> thread_step mc c an t s = (t', s') \<Longrightarrow>
      of_bool (inside t') + of_bool (flag s) = (of_bool (inside t) + of_bool (flag s') :: nat)"
    and flags_law: "flags s = flags s' \<Longrightarrow> flag s = flag s'"
    and new_law: "\<not> inside (new_thread r)"
begin

lemma count_inside:
  assumes "reachable mc c s0 y" "\<not> flag s0"
  shows "length (filter inside (threads y)) = of_bool (flag (sys_em y))"
  using assms(1)
proof (rule reachable_invariant)
  show "length (filter inside (threads \<lparr>sys_em = s0, threads = []\<rparr>)) =
      of_bool (flag (sys_em \<lparr>sys_em = s0, threads = []\<rparr>))"
    using assms(2) by simp
next
  fix e y y'
  assume ih: "length (filter inside (threads y)) = of_bool (flag (sys_em y))"
    and st: "sys_step mc c e y = Some y'"
  have keep: "length (filter inside (threads y')) = of_bool (flag (sys_em y'))"
    if "threads y' = threads y" "flags (sys_em y') = flags (sys_em y)"
  proof -
    have "flag (sys_em y') = flag (sys_em y)" by (rule flags_law) (rule that(2))
    then show ?thesis using ih that(1) by simp
  qed
  show "length (filter inside (threads y')) = of_bool (flag (sys_em y'))"
  proof (cases e)
    case (Thread i an)
    then have i: "i < length (threads y)" using st by (auto split: if_splits)
    obtain t' s' where t: "thread_step mc c an (threads y ! i) (sys_em y) = (t', s')" by fastforce
    then have y': "y' = \<lparr>sys_em = s', threads = (threads y)[i := t']\<rparr>" using st Thread i by simp
    have "flag (sys_em y)" if "inside (threads y ! i)"
    proof -
      have "threads y ! i \<in> set (filter inside (threads y))" using i that by simp
      then have "length (filter inside (threads y)) \<noteq> 0" by (metis length_0_conv list.set(1) empty_iff)
      then show ?thesis using ih by simp
    qed
    from thread_law [OF this t] show ?thesis
      using ih length_filter_update [OF i, of inside t'] by (simp add: y')
  next
    case (Call r)
    then show ?thesis using st ih new_law by auto
  qed (use st keep in \<open>auto simp: handleJtcState_def handleRollingState_def split: if_splits\<close>)
qed

lemma at_most_one:
  assumes "reachable mc c s0 y" "\<not> flag s0" "i < length (threads y)" "j < length (threads y)"
    "inside (threads y ! i)" "inside (threads y ! j)"
  shows "i = j"
proof (rule ccontr)
  assume ne: "i \<noteq> j"
  have inj: "distinct [i, j]" using ne by simp
  have "card {k. k < length (threads y) \<and> inside (threads y ! k)} \<ge> card {i, j}"
    using assms(3-6) by (intro card_mono) auto
  then have "2 \<le> length (filter inside (threads y))"
    using ne by (simp add: length_filter_conv_card)
  then show False using count_inside [OF assms(1,2)] by (cases "flag (sys_em y)") simp_all
qed

lemma flag_iff:
  assumes "reachable mc c s0 y" "\<not> flag s0"
  shows "flag (sys_em y) \<longleftrightarrow> (\<exists>i < length (threads y). inside (threads y ! i))"
proof
  assume "flag (sys_em y)"
  then have "filter inside (threads y) \<noteq> []" using count_inside [OF assms] by auto
  then show "\<exists>i < length (threads y). inside (threads y ! i)" by (auto simp: filter_empty_conv in_set_conv_nth)
next
  assume "\<exists>i < length (threads y). inside (threads y ! i)"
  then have "filter inside (threads y) \<noteq> []" by (auto simp: filter_empty_conv)
  then show "flag (sys_em y)" using count_inside [OF assms] by (cases "flag (sys_em y)") simp_all
qed

end

subsection \<open>The regions of the manager\<close>

text \<open>The body of each handler: after the compare-exchange of its flag and before the release.\<close>

fun in_enable :: "service_thread \<Rightarrow> bool" where
  "in_enable (Enabling pc) = (case pc of En_Callback \<Rightarrow> False | En_Done _ \<Rightarrow> False | _ \<Rightarrow> True)"
| "in_enable _ = False"

fun in_disable :: "service_thread \<Rightarrow> bool" where
  "in_disable (Disabling pc) = (case pc of Di_Callback \<Rightarrow> False | Di_Done _ \<Rightarrow> False | _ \<Rightarrow> True)"
| "in_disable _ = False"

fun in_reset :: "service_thread \<Rightarrow> bool" where
  "in_reset (Resetting pc) = (case pc of Re_Callback \<Rightarrow> False | Re_Done _ \<Rightarrow> False | _ \<Rightarrow> True)"
| "in_reset _ = False"

fun in_mode :: "service_thread \<Rightarrow> bool" where
  "in_mode (Switching pc l) = (case pc of Admit Mo_Callback \<Rightarrow> False | Mo_Done _ _ \<Rightarrow> False | _ \<Rightarrow> True)"
| "in_mode _ = False"

text \<open>A controller switch in flight, from any handler.\<close>

fun executing_switch :: "execute_pc \<Rightarrow> bool" where
  "executing_switch Mo_Abort = False"
| "executing_switch Mo_Switch = False"
| "executing_switch (Mo_Converge _ _) = False"
| "executing_switch _ = True"

fun in_switch :: "service_thread \<Rightarrow> bool" where
  "in_switch (Enabling pc) = (pc = En_Switching)"
| "in_switch (Disabling pc) = (pc = Di_Switching)"
| "in_switch (Working pc) = (pc = Wo_FaultSwitching \<or> pc = Wo_Switching)"
| "in_switch (Switching (Execute pc) l) = executing_switch pc"
| "in_switch _ = False"

text \<open>Stores that no region is concerned with.\<close>

lemma flags_stores [simp]:
  "flags (stop_store k s) = flags s" "flags (failed_store c k s) = flags s"
  "flags (converge_store b k s) = flags s" "flags (releaseModeOwnership s) = flags s"
  by (simp_all add: stop_store_def failed_store_def converge_store_def releaseModeOwnership_def)

text \<open>What the accesses of one handler do to the flags of the others.\<close>

lemma flag_fields:
  "flags s = flags t \<longleftrightarrow> switch_in_progress s = switch_in_progress t \<and>
     enable_callback_active s = enable_callback_active t \<and> disable_callback_active s = disable_callback_active t \<and>
     reset_callback_active s = reset_callback_active t \<and> mode_callback_active s = mode_callback_active t"
  by (simp add: flags_def)

lemmas stores_fields [simp] = flags_stores [unfolded flag_fields]

lemma enable_frame:
  "disable_callback_active (snd (enable_step_at c an pc s)) = disable_callback_active s"
  "reset_callback_active (snd (enable_step_at c an pc s)) = reset_callback_active s"
  "mode_callback_active (snd (enable_step_at c an pc s)) = mode_callback_active s"
  by (induction c an pc s rule: enable_step_at.induct) (simp_all add: switch_begin_def switch_end_def)

lemma disable_frame:
  "enable_callback_active (snd (disable_step_at c an pc s)) = enable_callback_active s"
  "reset_callback_active (snd (disable_step_at c an pc s)) = reset_callback_active s"
  "mode_callback_active (snd (disable_step_at c an pc s)) = mode_callback_active s"
  by (induction c an pc s rule: disable_step_at.induct) (simp_all add: switch_begin_def switch_end_def)

lemma reset_frame:
  "enable_callback_active (snd (reset_step_at c an pc s)) = enable_callback_active s"
  "disable_callback_active (snd (reset_step_at c an pc s)) = disable_callback_active s"
  "mode_callback_active (snd (reset_step_at c an pc s)) = mode_callback_active s"
  "switch_in_progress (snd (reset_step_at c an pc s)) = switch_in_progress s"
  by (induction c an pc s rule: reset_step_at.induct) simp_all

lemma worker_frame:
  "enable_callback_active (snd (worker_step_at c an pc s)) = enable_callback_active s"
  "disable_callback_active (snd (worker_step_at c an pc s)) = disable_callback_active s"
  "reset_callback_active (snd (worker_step_at c an pc s)) = reset_callback_active s"
  "mode_callback_active (snd (worker_step_at c an pc s)) = mode_callback_active s"
  by (induction c an pc s rule: worker_step_at.induct) (simp_all add: switch_begin_def switch_end_def)

lemma fault_frame: "flags (snd (fault_step_at pc s)) = flags s"
  by (induction pc s rule: fault_step_at.induct) simp_all

lemma admit_frame:
  "enable_callback_active (snd (admit_step_at mc c pc l s)) = enable_callback_active s"
  "disable_callback_active (snd (admit_step_at mc c pc l s)) = disable_callback_active s"
  "reset_callback_active (snd (admit_step_at mc c pc l s)) = reset_callback_active s"
  "switch_in_progress (snd (admit_step_at mc c pc l s)) = switch_in_progress s"
  by (induction mc c pc l s rule: admit_step_at.induct) simp_all

lemma validate_frame: "snd (validate_step_at mc c an pc l s) = s"
  by (induction mc c an pc l s rule: validate_step_at.induct)
     (simp_all add: refuse_def split: option.split sum.split window_verdict.split)

lemma execute_frame:
  "enable_callback_active (snd (execute_step_at c an pc l s)) = enable_callback_active s"
  "disable_callback_active (snd (execute_step_at c an pc l s)) = disable_callback_active s"
  "reset_callback_active (snd (execute_step_at c an pc l s)) = reset_callback_active s"
  "mode_callback_active (snd (execute_step_at c an pc l s)) = mode_callback_active s"
  by (induction c an pc l s rule: execute_step_at.induct)
     (simp_all add: clear_and_def switch_end_def Let_def split: option.split switch_reply.split)

lemma mode_frame:
  "enable_callback_active (snd (mode_step_at mc c an (pc, l) s)) = enable_callback_active s"
  "disable_callback_active (snd (mode_step_at mc c an (pc, l) s)) = disable_callback_active s"
  "reset_callback_active (snd (mode_step_at mc c an (pc, l) s)) = reset_callback_active s"
  by (cases pc; simp add: admit_frame validate_frame execute_frame releaseModeOwnership_def)+

subsection \<open>Interpretations\<close>

lemmas step_beta = thread_step.simps case_prod_beta prod.inject

lemma enable_law:
  assumes "in_enable (Enabling pc) \<Longrightarrow> enable_callback_active s"
  shows "of_bool (in_enable (Enabling (fst (enable_step_at c an pc s)))) + of_bool (enable_callback_active s)
    = (of_bool (in_enable (Enabling pc)) + of_bool (enable_callback_active (snd (enable_step_at c an pc s))) :: nat)"
  using assms
  by (induction c an pc s rule: enable_step_at.induct) (simp_all add: switch_begin_def switch_end_def)

lemma disable_law:
  assumes "in_disable (Disabling pc) \<Longrightarrow> disable_callback_active s"
  shows "of_bool (in_disable (Disabling (fst (disable_step_at c an pc s)))) + of_bool (disable_callback_active s)
    = (of_bool (in_disable (Disabling pc)) + of_bool (disable_callback_active (snd (disable_step_at c an pc s))) :: nat)"
  using assms
  by (induction c an pc s rule: disable_step_at.induct) (simp_all add: switch_begin_def switch_end_def)

lemma reset_law:
  assumes "in_reset (Resetting pc) \<Longrightarrow> reset_callback_active s"
  shows "of_bool (in_reset (Resetting (fst (reset_step_at c an pc s)))) + of_bool (reset_callback_active s)
    = (of_bool (in_reset (Resetting pc)) + of_bool (reset_callback_active (snd (reset_step_at c an pc s))) :: nat)"
  using assms
  by (induction c an pc s rule: reset_step_at.induct) simp_all

text \<open>The parts of a mode request stay inside its handler.\<close>

fun mode_body :: "mode_pc \<Rightarrow> bool" where
  "mode_body (Admit Mo_Callback) = False"
| "mode_body (Mo_Done _ _) = False"
| "mode_body _ = True"

lemma in_mode_body: "in_mode (Switching pc l) = mode_body pc"
  by (cases pc rule: mode_body.cases) simp_all

lemma admit_body: "mode_body (fst (fst (admit_step_at mc c pc l s))) \<longleftrightarrow> pc \<noteq> Mo_Callback \<or> \<not> mode_callback_active s"
  "pc \<noteq> Mo_Callback \<Longrightarrow> mode_callback_active (snd (admit_step_at mc c pc l s)) = mode_callback_active s"
  "pc = Mo_Callback \<Longrightarrow> mode_callback_active (snd (admit_step_at mc c pc l s))"
  by (induction mc c pc l s rule: admit_step_at.induct) simp_all

lemma validate_body: "mode_body (fst (fst (validate_step_at mc c an pc l s)))"
  by (induction mc c an pc l s rule: validate_step_at.induct)
     (simp_all add: refuse_def split: option.split sum.split window_verdict.split)

lemma execute_body: "mode_body (fst (fst (execute_step_at c an pc l s)))"
  by (induction c an pc l s rule: execute_step_at.induct)
     (simp_all add: clear_and_def Let_def split: option.split switch_reply.split)

lemma mode_body_Admit: "mode_body (Admit a) \<longleftrightarrow> a \<noteq> Mo_Callback"
  by (cases a) simp_all

lemma mode_law:
  assumes "mode_body pc \<Longrightarrow> mode_callback_active s"
  shows "of_bool (mode_body (fst (fst (mode_step_at mc c an (pc, l) s)))) + of_bool (mode_callback_active s)
    = (of_bool (mode_body pc) + of_bool (mode_callback_active (snd (mode_step_at mc c an (pc, l) s))) :: nat)"
proof (cases pc)
  case (Admit a)
  show ?thesis
    using assms admit_body(2) [of a mc c l s] admit_body(3) [of a mc c l s]
    by (cases "a = Mo_Callback") (simp_all add: Admit mode_body_Admit admit_body(1) del: admit_step_at.simps)
qed (use assms in \<open>simp_all add: validate_frame validate_body execute_frame execute_body releaseModeOwnership_def\<close>)

lemma switch_enable_law:
  assumes "pc = En_Switching \<Longrightarrow> switch_in_progress s"
  shows "of_bool (fst (enable_step_at c an pc s) = En_Switching) + of_bool (switch_in_progress s)
    = (of_bool (pc = En_Switching) + of_bool (switch_in_progress (snd (enable_step_at c an pc s))) :: nat)"
  using assms
  by (induction c an pc s rule: enable_step_at.induct) (simp_all add: switch_begin_def switch_end_def)

lemma switch_disable_law:
  assumes "pc = Di_Switching \<Longrightarrow> switch_in_progress s"
  shows "of_bool (fst (disable_step_at c an pc s) = Di_Switching) + of_bool (switch_in_progress s)
    = (of_bool (pc = Di_Switching) + of_bool (switch_in_progress (snd (disable_step_at c an pc s))) :: nat)"
  using assms
  by (induction c an pc s rule: disable_step_at.induct) (simp_all add: switch_begin_def switch_end_def)

lemma switch_worker_law:
  assumes "in_switch (Working pc) \<Longrightarrow> switch_in_progress s"
  shows "of_bool (in_switch (Working (fst (worker_step_at c an pc s)))) + of_bool (switch_in_progress s)
    = (of_bool (in_switch (Working pc)) + of_bool (switch_in_progress (snd (worker_step_at c an pc s))) :: nat)"
  using assms
  by (induction c an pc s rule: worker_step_at.induct) (simp_all add: switch_begin_def switch_end_def)

fun mode_switching :: "mode_pc \<Rightarrow> bool" where
  "mode_switching (Execute pc) = executing_switch pc"
| "mode_switching _ = False"

lemma in_switch_mode: "in_switch (Switching pc l) = mode_switching pc"
  by (cases pc) simp_all

lemma admit_switching: "\<not> mode_switching (fst (fst (admit_step_at mc c pc l s)))"
  by (induction mc c pc l s rule: admit_step_at.induct) simp_all

lemma validate_switching: "\<not> mode_switching (fst (fst (validate_step_at mc c an pc l s)))"
  by (induction mc c an pc l s rule: validate_step_at.induct)
     (simp_all add: refuse_def split: option.split sum.split window_verdict.split)

lemma execute_law:
  assumes "executing_switch pc \<Longrightarrow> switch_in_progress s"
  shows "of_bool (mode_switching (fst (fst (execute_step_at c an pc l s)))) + of_bool (switch_in_progress s)
    = (of_bool (executing_switch pc) + of_bool (switch_in_progress (snd (execute_step_at c an pc l s))) :: nat)"
  using assms
  by (induction c an pc l s rule: execute_step_at.induct)
     (simp_all add: clear_and_def switch_end_def Let_def split: option.split switch_reply.split)

lemmas fault_fields = fault_frame [unfolded flag_fields]

interpretation enable_region: critical_region in_enable enable_callback_active
proof
  fix t s mc c an t' s'
  assume inv: "in_enable t \<Longrightarrow> enable_callback_active s" and st: "thread_step mc c an t s = (t', s')"
  show "of_bool (in_enable t') + of_bool (enable_callback_active s) = (of_bool (in_enable t) + of_bool (enable_callback_active s') :: nat)"
  proof (cases t)
    case (Enabling pc)
    have eq: "t' = Enabling (fst (enable_step_at c an pc s))" "s' = snd (enable_step_at c an pc s)"
      using st Enabling by (simp_all add: step_beta)
    show ?thesis using inv enable_law [of pc s c an] unfolding Enabling eq by blast
  qed (use st in \<open>auto simp: step_beta enable_frame disable_frame reset_frame worker_frame mode_frame fault_fields\<close>)
next
  show "flags s = flags s' \<Longrightarrow> enable_callback_active s = enable_callback_active s'" for s s'
    by (simp add: flag_fields)
  show "\<not> in_enable (new_thread r)" for r by (cases r) simp_all
qed

interpretation disable_region: critical_region in_disable disable_callback_active
proof
  fix t s mc c an t' s'
  assume inv: "in_disable t \<Longrightarrow> disable_callback_active s" and st: "thread_step mc c an t s = (t', s')"
  show "of_bool (in_disable t') + of_bool (disable_callback_active s) = (of_bool (in_disable t) + of_bool (disable_callback_active s') :: nat)"
  proof (cases t)
    case (Disabling pc)
    have eq: "t' = Disabling (fst (disable_step_at c an pc s))" "s' = snd (disable_step_at c an pc s)"
      using st Disabling by (simp_all add: step_beta)
    show ?thesis using inv disable_law [of pc s c an] unfolding Disabling eq by blast
  qed (use st in \<open>auto simp: step_beta enable_frame disable_frame reset_frame worker_frame mode_frame fault_fields\<close>)
next
  show "flags s = flags s' \<Longrightarrow> disable_callback_active s = disable_callback_active s'" for s s'
    by (simp add: flag_fields)
  show "\<not> in_disable (new_thread r)" for r by (cases r) simp_all
qed

interpretation reset_region: critical_region in_reset reset_callback_active
proof
  fix t s mc c an t' s'
  assume inv: "in_reset t \<Longrightarrow> reset_callback_active s" and st: "thread_step mc c an t s = (t', s')"
  show "of_bool (in_reset t') + of_bool (reset_callback_active s) = (of_bool (in_reset t) + of_bool (reset_callback_active s') :: nat)"
  proof (cases t)
    case (Resetting pc)
    have eq: "t' = Resetting (fst (reset_step_at c an pc s))" "s' = snd (reset_step_at c an pc s)"
      using st Resetting by (simp_all add: step_beta)
    show ?thesis using inv reset_law [of pc s c an] unfolding Resetting eq by blast
  qed (use st in \<open>auto simp: step_beta enable_frame disable_frame reset_frame worker_frame mode_frame fault_fields\<close>)
next
  show "flags s = flags s' \<Longrightarrow> reset_callback_active s = reset_callback_active s'" for s s'
    by (simp add: flag_fields)
  show "\<not> in_reset (new_thread r)" for r by (cases r) simp_all
qed

interpretation mode_region: critical_region in_mode mode_callback_active
proof
  fix t s mc c an t' s'
  assume inv: "in_mode t \<Longrightarrow> mode_callback_active s" and st: "thread_step mc c an t s = (t', s')"
  show "of_bool (in_mode t') + of_bool (mode_callback_active s) = (of_bool (in_mode t) + of_bool (mode_callback_active s') :: nat)"
  proof (cases t)
    case (Switching pc l)
    obtain pc' l' where m: "mode_step_at mc c an (pc, l) s = ((pc', l'), s')" and t': "t' = Switching pc' l'"
      using st Switching by (auto split: prod.splits)
    show ?thesis
      using inv mode_law [of pc s mc c an l] unfolding Switching t' in_mode_body m by simp
  qed (use st in \<open>auto simp: step_beta enable_frame disable_frame reset_frame worker_frame fault_fields\<close>)
next
  show "flags s = flags s' \<Longrightarrow> mode_callback_active s = mode_callback_active s'" for s s'
    by (simp add: flag_fields)
  show "\<not> in_mode (new_thread r)" for r by (cases r) simp_all
qed

lemma mode_switch_law:
  assumes "mode_switching pc \<Longrightarrow> switch_in_progress s"
  shows "of_bool (mode_switching (fst (fst (mode_step_at mc c an (pc, l) s)))) + of_bool (switch_in_progress s)
    = (of_bool (mode_switching pc) + of_bool (switch_in_progress (snd (mode_step_at mc c an (pc, l) s))) :: nat)"
proof (cases pc)
  case (Execute a)
  then show ?thesis using assms execute_law [of a s c an l] by simp
qed (use assms in \<open>simp_all add: admit_switching admit_frame validate_switching validate_frame releaseModeOwnership_def\<close>)

interpretation switch_region: critical_region in_switch switch_in_progress
proof
  fix t s mc c an t' s'
  assume inv: "in_switch t \<Longrightarrow> switch_in_progress s" and st: "thread_step mc c an t s = (t', s')"
  show "of_bool (in_switch t') + of_bool (switch_in_progress s) = (of_bool (in_switch t) + of_bool (switch_in_progress s') :: nat)"
  proof (cases t)
    case (Enabling pc)
    have eq: "t' = Enabling (fst (enable_step_at c an pc s))" "s' = snd (enable_step_at c an pc s)"
      using st Enabling by (simp_all add: step_beta)
    show ?thesis using inv switch_enable_law [of pc s c an] unfolding Enabling eq by simp
  next
    case (Disabling pc)
    have eq: "t' = Disabling (fst (disable_step_at c an pc s))" "s' = snd (disable_step_at c an pc s)"
      using st Disabling by (simp_all add: step_beta)
    show ?thesis using inv switch_disable_law [of pc s c an] unfolding Disabling eq by simp
  next
    case (Working pc)
    have eq: "t' = Working (fst (worker_step_at c an pc s))" "s' = snd (worker_step_at c an pc s)"
      using st Working by (simp_all add: step_beta)
    show ?thesis using inv switch_worker_law [of pc s c an] unfolding Working eq by blast
  next
    case (Switching pc l)
    obtain pc' l' where m: "mode_step_at mc c an (pc, l) s = ((pc', l'), s')" and t': "t' = Switching pc' l'"
      using st Switching by (auto split: prod.splits)
    show ?thesis
      using inv mode_switch_law [of pc s mc c an l] unfolding Switching t' in_switch_mode m by simp
  qed (use st in \<open>auto simp: step_beta reset_frame fault_fields\<close>)
next
  show "flags s = flags s' \<Longrightarrow> switch_in_progress s = switch_in_progress s'" for s s'
    by (simp add: flag_fields)
  show "\<not> in_switch (new_thread r)" for r by (cases r) simp_all
qed

end
