(* ===== verification/EnableConcurrent.thy ===== *)
theory EnableConcurrent
  imports EnableRegions EnableClaims
begin

text \<open>
  The properties of the enable manager under every interleaving of its control cycles with any
  number of service threads.
\<close>

subsection \<open>What the threads leave to the control cycle\<close>

definition hardware :: "em \<Rightarrow> (cia402_axis list \<times> nat \<times> (nat option \<times> nat option) list \<times> nat \<times> nat \<times> u16 list \<times> bool) \<times> loaned list" where
  "hardware s = (wiring s, command_interfaces s)"

lemma hardware_stores [simp]:
  "hardware (stop_store k s) = hardware s" "hardware (failed_store c k s) = hardware s"
  "hardware (converge_store b k s) = hardware s" "hardware (releaseModeOwnership s) = hardware s"
  "phase (stop_store k s) = phase s" "phase (failed_store c k s) = phase s"
  "phase (converge_store b k s) = phase s" "phase (releaseModeOwnership s) = phase s"
  by (simp_all add: stop_store_def failed_store_def converge_store_def releaseModeOwnership_def
      hardware_def wiring_def recordFailure_def Let_def)

lemma enable_hardware:
  "hardware (snd (enable_step_at c an pc s)) = hardware s \<and> phase (snd (enable_step_at c an pc s)) = phase s"
  by (induction c an pc s rule: enable_step_at.induct)
     (simp_all add: switch_begin_def switch_end_def hardware_def wiring_def)

lemma disable_hardware:
  "hardware (snd (disable_step_at c an pc s)) = hardware s \<and>
   phase (snd (disable_step_at c an pc s)) \<in> {phase s, Phase_kJtcDeactivating}"
  by (induction c an pc s rule: disable_step_at.induct)
     (simp_all, simp_all add: switch_begin_def switch_end_def hardware_def wiring_def)

lemma reset_hardware:
  "hardware (snd (reset_step_at c an pc s)) = hardware s \<and> phase (snd (reset_step_at c an pc s)) = phase s"
  by (induction c an pc s rule: reset_step_at.induct) (simp_all add: hardware_def wiring_def)

lemma worker_hardware:
  "hardware (snd (worker_step_at c an pc s)) = hardware s \<and>
   phase (snd (worker_step_at c an pc s)) \<in> {phase s, Phase_kJtcDeactivating}"
  by (induction c an pc s rule: worker_step_at.induct)
     (simp_all, simp_all add: switch_begin_def switch_end_def hardware_def wiring_def)

lemma fault_hardware:
  "hardware (snd (fault_step_at pc s)) = hardware s \<and> phase (snd (fault_step_at pc s)) = phase s"
  by (induction pc s rule: fault_step_at.induct) (simp_all add: hardware_def wiring_def)

lemma admit_hardware:
  "hardware (snd (admit_step_at mc c pc l s)) = hardware s \<and> phase (snd (admit_step_at mc c pc l s)) = phase s"
  by (induction mc c pc l s rule: admit_step_at.induct) (simp_all add: hardware_def wiring_def)

lemma execute_hardware:
  "hardware (snd (execute_step_at c an pc l s)) = hardware s \<and> phase (snd (execute_step_at c an pc l s)) = phase s"
  by (induction c an pc l s rule: execute_step_at.induct)
     (simp_all add: clear_and_def Let_def split: option.split switch_reply.split,
      simp_all add: switch_end_def hardware_def wiring_def)

lemma mode_hardware:
  "hardware (snd (mode_step_at mc c an (pc, l) s)) = hardware s \<and> phase (snd (mode_step_at mc c an (pc, l) s)) = phase s"
proof (cases pc)
  case (Mo_Finish r m)
  then show ?thesis by (simp add: hardware_def wiring_def)
qed (simp_all add: admit_hardware validate_frame execute_hardware)

lemma thread_hardware:
  assumes "thread_step mc c an t s = (t', s')"
  shows "hardware s' = hardware s \<and> phase s' \<in> {phase s, Phase_kJtcDeactivating}"
proof (cases t)
  case (Switching pc l)
  then have "s' = snd (mode_step_at mc c an (pc, l) s)" using assms by (auto split: prod.splits)
  then show ?thesis using mode_hardware by simp
next
  case (Disabling pc)
  then have "s' = snd (disable_step_at c an pc s)" using assms by (simp add: step_beta)
  then show ?thesis using disable_hardware by blast
next
  case (Working pc)
  then have "s' = snd (worker_step_at c an pc s)" using assms by (simp add: step_beta)
  then show ?thesis using worker_hardware by blast
qed (use assms in \<open>auto simp: step_beta enable_hardware reset_hardware fault_hardware\<close>)

lemma inv_cong:
  assumes "em_inv c s" "hardware s' = hardware s" "phase s' = Phase_kJtcActivating \<Longrightarrow> phase s = Phase_kJtcActivating"
  shows "em_inv c s'"
proof -
  have w: "wiring s' = wiring s" and ci: "command_interfaces s' = command_interfaces s"
    using assms(2) by (simp_all add: hardware_def)
  have ax: "cia402_axes s' = cia402_axes s" using w by (simp add: wiring_def)
  have "words_in W s' = words_in W s" for W by (rule words_in_cong [OF ax ci])
  then show ?thesis
    using assms(1,3) em_wf_cong [OF _ w] by (auto simp: em_inv_def ax)
qed

lemma message_hardware:
  "hardware (handleJtcState c message now s) = hardware s" "phase (handleJtcState c message now s) = phase s"
  "hardware (handleRollingState state now s) = hardware s" "phase (handleRollingState state now s) = phase s"
  unfolding handleJtcState_def handleRollingState_def by (simp_all add: hardware_def wiring_def)

subsection \<open>Commands under interleaving\<close>

definition live :: "em_cfg \<Rightarrow> em \<Rightarrow> sys \<Rightarrow> bool" where
  "live c s0 y = (em_inv c (sys_em y) \<and> active (sys_em y) \<and> phase (sys_em y) \<noteq> Phase_kInactive \<and>
     cia402_axes (sys_em y) = cia402_axes s0)"

lemma update_active: "active s \<Longrightarrow> em_inv c s \<Longrightarrow> active (update c now period steady s)"
  using wiring_react [OF inv_observe(1), of c s now steady] emit_same_fields [OF emit_same_emit]
  by (simp add: update_react wiring_def observe_fields)

lemma update_not_inactive:
  "active s \<Longrightarrow> phase s \<noteq> Phase_kInactive \<Longrightarrow> phase (update c now period steady s) \<noteq> Phase_kInactive"
  using react_phase [of c now "observe c steady s"]
  by (cases "phase s") (auto simp: update_phase observe_fields)

lemma live_step:
  assumes "live c s0 y" "sys_step mc c e y = Some y'"
  shows "live c s0 y'"
proof -
  have keep: "live c s0 y'" if "hardware (sys_em y') = hardware (sys_em y)"
    "phase (sys_em y') \<in> {phase (sys_em y), Phase_kJtcDeactivating}"
  proof -
    have "em_inv c (sys_em y')"
      using assms(1) that(2) by (intro inv_cong [OF _ that(1)]) (auto simp: live_def)
    moreover have "wiring (sys_em y') = wiring (sys_em y)" using that(1) by (simp add: hardware_def)
    ultimately show ?thesis using assms(1) that(2) by (auto simp: live_def wiring_def)
  qed
  show ?thesis
  proof (cases e)
    case (Cycle now period steady)
    then show ?thesis
      using assms by (auto simp: live_def update_inv update_active update_not_inactive update_axes)
  next
    case (Thread i an)
    then obtain t s where t: "thread_step mc c an (threads y ! i) (sys_em y) = (t, s)"
      "y' = \<lparr>sys_em = s, threads = (threads y)[i := t]\<rparr>"
      using assms(2) by (auto split: if_splits prod.splits)
    then show ?thesis using thread_hardware [OF t(1)] by (intro keep) simp_all
  next
    case (Feedback cells)
    then have "y' = y\<lparr>sys_em := (sys_em y)\<lparr>state_interfaces := set_cells cells (state_interfaces (sys_em y))\<rparr>\<rparr>"
      using assms(2) by (simp split: if_splits)
    then show ?thesis by (intro keep) (simp_all add: hardware_def wiring_def)
  next
    case (Call r)
    then show ?thesis using assms(2) by (intro keep) auto
  next
    case (Jtc_state message now)
    then show ?thesis
      using assms(2) by (intro keep) (auto simp: message_hardware)
  next
    case (Rolling_state state now)
    then show ?thesis
      using assms(2) by (intro keep) (auto simp: message_hardware)
  qed
qed

lemma reachable_live:
  assumes "reachable mc c s0 y" "live c s0 \<lparr>sys_em = s0, threads = []\<rparr>"
  shows "live c s0 y"
  using assms by (rule reachable_invariant) (rule live_step)

text \<open>
  C13: From a successful activation on, under every interleaving of control cycles, feedback,
  service threads and messages, the invariant holds and the next cycle commands each drive a word
  that the drive profile allows in the state the drive reports.
\<close>

theorem interleaving_keeps_commands_legal:
  assumes "em_inv c s0" "active s0" "phase s0 = Phase_kStartupSanitizing"
    "reachable mc c s0 y" "a < length (cia402_axes s0)"
  shows "em_inv c (sys_em y) \<and>
    (\<exists>w \<in> legal_words (drive_state (sys_em y) a).
       control_word (update c now period steady (sys_em y)) a = word_value w)"
proof -
  have "live c s0 y" using assms(1-3) by (intro reachable_live [OF assms(4)]) (simp add: live_def)
  then show ?thesis
    using update_legal [of c "sys_em y" a now period steady] assms(5) by (simp add: live_def)
qed

theorem interleaving_keeps_commands_legal_witness:
  "\<exists>w \<in> legal_words (drive_state (sample_em Phase_kStartupSanitizing 0x0027 0x0040 enabled (Fin 3)) 0).
     control_word (update sample_cfg 5 1 0 (sample_em Phase_kStartupSanitizing 0x0027 0x0040 enabled (Fin 3))) 0
       = word_value w"
proof -
  let ?s = "sample_em Phase_kStartupSanitizing 0x0027 0x0040 enabled (Fin 3)"
  have "reachable mc sample_cfg ?s \<lparr>sys_em = ?s, threads = [new_thread Call_disable]\<rparr>" for mc
    by (rule reachable_run [OF reachable.start, of _ _ "[Call Call_disable]"]) simp
  from interleaving_keeps_commands_legal [OF _ _ _ this, of 0 5 1 0] show ?thesis by simp
qed

subsection \<open>Mutual exclusion\<close>

text \<open>
  At most one controller switch is in flight, whichever handlers run: two threads that have
  taken \<open>switch_in_progress\<close> and not yet cleared it are the same thread.
\<close>

theorem one_switch_in_flight:
  assumes "reachable mc c s0 y" "\<not> switch_in_progress s0"
    "i < length (threads y)" "j < length (threads y)" "in_switch (threads y ! i)" "in_switch (threads y ! j)"
  shows "i = j"
  by (rule switch_region.at_most_one [OF assms])

text \<open>
  Each service runs at most one request at a time: no two threads are inside the body of the
  same handler, and the callback flag of a service is set exactly while a thread is inside.
\<close>

theorem handlers_run_one_request:
  assumes "reachable mc c s0 y" "flags s0 = (False, False, False, False, False)"
    "i < length (threads y)" "j < length (threads y)"
    "(in_enable (threads y ! i) \<and> in_enable (threads y ! j)) \<or>
     (in_disable (threads y ! i) \<and> in_disable (threads y ! j)) \<or>
     (in_reset (threads y ! i) \<and> in_reset (threads y ! j)) \<or>
     (in_mode (threads y ! i) \<and> in_mode (threads y ! j))"
  shows "i = j"
  using assms(2-5) enable_region.at_most_one [OF assms(1)] disable_region.at_most_one [OF assms(1)]
    reset_region.at_most_one [OF assms(1)] mode_region.at_most_one [OF assms(1)]
  by (auto simp: flags_def)

definition patient :: answers where
  "patient = \<lparr>an_timed_out = False, an_time = 0, an_available = True, an_states = None,
     an_reply = No_reply, an_after = None\<rparr>"

definition sample_codes :: mode_codes where
  "sample_codes = \<lparr>FJT_READY = 1, VELOCITY_READY = 4, ROLLING_READY = 2, HOLDING = 3\<rparr>"

lemma sample_two_enables:
  "sys_run sample_codes sample_cfg
     [Call Call_enable, Call Call_enable, Thread 0 patient, Thread 1 patient]
     \<lparr>sys_em = sample_em Phase_kIdle 0x0040 0x0040 disabled (Fin 3), threads = []\<rparr>
   = Some \<lparr>sys_em = (sample_em Phase_kIdle 0x0040 0x0040 disabled (Fin 3))\<lparr>enable_callback_active := True\<rparr>,
       threads = [Enabling En_Active,
                  Enabling (En_Done (fillImmediateResponse False Stage_kOperationInProgress))]\<rparr>"
  by (simp add: sample_em_def)

lemma sample_two_enables_reachable:
  "reachable sample_codes sample_cfg (sample_em Phase_kIdle 0x0040 0x0040 disabled (Fin 3))
     \<lparr>sys_em = (sample_em Phase_kIdle 0x0040 0x0040 disabled (Fin 3))\<lparr>enable_callback_active := True\<rparr>,
       threads = [Enabling En_Active,
                  Enabling (En_Done (fillImmediateResponse False Stage_kOperationInProgress))]\<rparr>"
  by (rule reachable_run [OF reachable.start sample_two_enables])

theorem handlers_run_one_request_witness:
  "\<not> in_enable ([Enabling En_Active,
      Enabling (En_Done (fillImmediateResponse False Stage_kOperationInProgress))] ! 1) \<and>
   in_enable ([Enabling En_Active,
      Enabling (En_Done (fillImmediateResponse False Stage_kOperationInProgress))] ! 0)"
proof -
  note h = handlers_run_one_request [OF sample_two_enables_reachable, of 0 1]
  have "\<not> in_enable ([Enabling En_Active,
      Enabling (En_Done (fillImmediateResponse False Stage_kOperationInProgress))] ! 1)"
  proof
    assume "in_enable ([Enabling En_Active,
      Enabling (En_Done (fillImmediateResponse False Stage_kOperationInProgress))] ! 1)"
    then have "(0 :: nat) = 1" using h by (simp add: flags_def sample_em_def)
    then show False by simp
  qed
  then show ?thesis by simp
qed

definition sample_emergency :: em where
  "sample_emergency = (sample_em Phase_kEmergencyQuickStop 0x0027 0x0027 enabled (Fin 3))
     \<lparr>emergency_jtc_deactivate_request := True, jtc_deactivation_required := True\<rparr>"

lemma sample_two_workers:
  "sys_run sample_codes (sample_cfg\<lparr>enable_only := False\<rparr>)
     ([Call Call_worker, Call Call_worker] @ replicate 5 (Thread 0 patient) @ replicate 2 (Thread 1 patient))
     \<lparr>sys_em = sample_emergency, threads = []\<rparr>
   = Some \<lparr>sys_em = sample_emergency\<lparr>emergency_jtc_deactivate_request := False, switch_in_progress := True\<rparr>,
       threads = [Working Wo_Switching, Working Wo_Done]\<rparr>"
  by (simp add: sample_emergency_def sample_em_def sample_cfg_def eval_nat_numeral switch_begin_def)

theorem one_switch_in_flight_witness:
  "\<not> in_switch ([Working Wo_Switching, Working Wo_Done] ! 1) \<and> in_switch ([Working Wo_Switching, Working Wo_Done] ! 0)"
proof -
  note h = one_switch_in_flight [OF reachable_run [OF reachable.start sample_two_workers], of 0 1]
  have "\<not> in_switch ([Working Wo_Switching, Working Wo_Done] ! 1)"
  proof
    assume "in_switch ([Working Wo_Switching, Working Wo_Done] ! 1)"
    then have "(0 :: nat) = 1" using h by (simp add: sample_emergency_def sample_em_def)
    then show False by simp
  qed
  then show ?thesis by simp
qed

end
