(* ===== verification/EnableReturns.thy ===== *)
theory EnableReturns
  imports EnableConcurrent
begin

text \<open>
  The service handlers return: once no deadline lies ahead, a handler ends after a bounded number of
  its own accesses, whatever the control cycles and the other threads do to the members in between.
\<close>

subsection \<open>Ranks\<close>

fun enable_rank :: "enable_pc \<Rightarrow> nat" where
  "enable_rank En_Callback = 27"
| "enable_rank En_Active = 26"
| "enable_rank En_Restart = 25"
| "enable_rank En_Enabled = 24"
| "enable_rank En_Idle = 23"
| "enable_rank En_Owner = 22"
| "enable_rank En_ClearReady = 21"
| "enable_rank En_ClearHardware = 20"
| "enable_rank En_Request = 19"
| "enable_rank En_WaitActive = 18"
| "enable_rank En_WaitHardware = 17"
| "enable_rank En_WaitReady = 16"
| "enable_rank En_CheckReady = 15"
| "enable_rank En_CheckHardware = 14"
| "enable_rank En_Required = 13"
| "enable_rank En_Switch = 12"
| "enable_rank En_Switching = 11"
| "enable_rank (En_Switched r) = 10"
| "enable_rank En_SetEmergency = 9"
| "enable_rank En_FailPhase = 8"
| "enable_rank En_FailRequest = 7"
| "enable_rank En_ActivatedRequest = 6"
| "enable_rank En_ResultActive = 5"
| "enable_rank En_ResultReady = 4"
| "enable_rank En_ResultFinal = 3"
| "enable_rank En_Fill = 2"
| "enable_rank (En_Release r) = 1"
| "enable_rank (En_Done r) = 0"

fun disable_rank :: "disable_pc \<Rightarrow> nat" where
  "disable_rank (Di_Stop k) = 6 - min k 4"
| "disable_rank Di_Callback = 25"
| "disable_rank Di_Active = 24"
| "disable_rank Di_Phase = 23"
| "disable_rank (Di_Owner p) = 22"
| "disable_rank Di_Abort = 21"
| "disable_rank Di_ModeActive = 20"
| "disable_rank Di_ModeWait = 19"
| "disable_rank Di_ModeOwner = 18"
| "disable_rank (Di_ModePhase w) = 17"
| "disable_rank (Di_Take p w) = 16"
| "disable_rank (Di_ClearReady p) = 15"
| "disable_rank (Di_ClearFailed p) = 14"
| "disable_rank Di_StorePhase = 13"
| "disable_rank Di_Switch = 12"
| "disable_rank Di_Switching = 11"
| "disable_rank (Di_Switched r) = 10"
| "disable_rank (Di_Failed k) = 9 - min k 2"
| "disable_rank Di_Request = 6"
| "disable_rank Di_ResultActive = 5"
| "disable_rank Di_ResultReady = 4"
| "disable_rank Di_ResultFinal = 3"
| "disable_rank Di_Fill = 2"
| "disable_rank (Di_Release r) = 1"
| "disable_rank (Di_Done r) = 0"

fun reset_rank :: "reset_pc \<Rightarrow> nat" where
  "reset_rank Re_Callback = 12"
| "reset_rank Re_Active = 11"
| "reset_rank Re_Restart = 10"
| "reset_rank Re_Phase = 9"
| "reset_rank Re_Owner = 8"
| "reset_rank Re_ClearReady = 7"
| "reset_rank Re_Request = 6"
| "reset_rank Re_ResultActive = 5"
| "reset_rank Re_ResultReady = 4"
| "reset_rank Re_ResultFinal = 3"
| "reset_rank Re_Fill = 2"
| "reset_rank (Re_Release r) = 1"
| "reset_rank (Re_Done r) = 0"

fun execute_rank :: "execute_pc \<Rightarrow> nat" where
  "execute_rank Mo_Abort = 37"
| "execute_rank Mo_Switch = 36"
| "execute_rank Mo_Abort2 = 35"
| "execute_rank Mo_Before = 34"
| "execute_rank Mo_Owner2 = 33"
| "execute_rank Mo_Phase2 = 32"
| "execute_rank Mo_Abort3 = 31"
| "execute_rank Mo_Service = 30"
| "execute_rank (Mo_DrivesStart False) = 29"
| "execute_rank (Mo_DrivesOwner False) = 28"
| "execute_rank (Mo_DrivesPhase False) = 27"
| "execute_rank (Mo_DrivesPoll False) = 26"
| "execute_rank (Mo_Drives False) = 25"
| "execute_rank Mo_Build = 24"
| "execute_rank (Mo_Send r) = 23"
| "execute_rank Mo_After = 22"
| "execute_rank Mo_Owner3 = 21"
| "execute_rank Mo_Phase3 = 20"
| "execute_rank (Mo_DrivesStart True) = 19"
| "execute_rank (Mo_DrivesOwner True) = 18"
| "execute_rank (Mo_DrivesPhase True) = 17"
| "execute_rank (Mo_DrivesPoll True) = 16"
| "execute_rank (Mo_Drives True) = 15"
| "execute_rank Mo_Preempted = 14"
| "execute_rank Mo_Preempted2 = 13"
| "execute_rank Mo_Store = 12"
| "execute_rank (Mo_Clear b) = 11"
| "execute_rank (Mo_Converge b k) = 10 - min k 6"

fun validate_rank :: "validate_pc \<Rightarrow> nat" where
  "validate_rank Mo_Source = 44"
| "validate_rank Mo_First = 43"
| "validate_rank Mo_LoopOwner = 42"
| "validate_rank Mo_LoopPhase = 41"
| "validate_rank Mo_Sample = 40"
| "validate_rank Mo_Loop = 39"
| "validate_rank Mo_Final = 38"

fun admit_rank :: "admit_pc \<Rightarrow> nat" where
  "admit_rank Mo_Callback = 52"
| "admit_rank Mo_Active = 51"
| "admit_rank Mo_Restart = 50"
| "admit_rank Mo_Current = 49"
| "admit_rank Mo_Phase = 48"
| "admit_rank Mo_Owner = 47"
| "admit_rank Mo_ClearAbort = 46"
| "admit_rank Mo_Take = 45"

fun mode_rank :: "mode_pc \<Rightarrow> nat" where
  "mode_rank (Admit pc) = admit_rank pc"
| "mode_rank (Validate pc) = validate_rank pc"
| "mode_rank (Execute pc) = execute_rank pc"
| "mode_rank (Mo_Release executed) = 3"
| "mode_rank Mo_Mode = 2"
| "mode_rank (Mo_Finish r m) = 1"
| "mode_rank (Mo_Done r m) = 0"

lemma rank_drives:
  "execute_rank (Mo_DrivesStart csp) = (if csp then 19 else 29)"
  "execute_rank (Mo_DrivesOwner csp) = (if csp then 18 else 28)"
  "execute_rank (Mo_DrivesPhase csp) = (if csp then 17 else 27)"
  "execute_rank (Mo_DrivesPoll csp) = (if csp then 16 else 26)"
  "execute_rank (Mo_Drives csp) = (if csp then 15 else 25)"
  by (cases csp; simp)+

lemma enable_rank_less:
  "an_timed_out an \<Longrightarrow> 0 < enable_rank pc \<Longrightarrow> enable_rank (fst (enable_step_at c an pc s)) < enable_rank pc"
  by (induction c an pc s rule: enable_step_at.induct) (simp_all add: switch_begin_def)

lemma disable_rank_less:
  "an_timed_out an \<Longrightarrow> 0 < disable_rank pc \<Longrightarrow> disable_rank (fst (disable_step_at c an pc s)) < disable_rank pc"
  by (induction c an pc s rule: disable_step_at.induct) (auto simp: switch_begin_def min_def)

lemma reset_rank_less:
  "an_timed_out an \<Longrightarrow> 0 < reset_rank pc \<Longrightarrow> reset_rank (fst (reset_step_at c an pc s)) < reset_rank pc"
  by (induction c an pc s rule: reset_step_at.induct) simp_all

lemma admit_rank_less: "mode_rank (fst (fst (admit_step_at mc c pc l s))) < admit_rank pc"
  by (induction mc c pc l s rule: admit_step_at.induct) simp_all

lemma validate_rank_less:
  "an_timed_out an \<Longrightarrow> mode_rank (fst (fst (validate_step_at mc c an pc l s))) < validate_rank pc"
  by (induction mc c an pc l s rule: validate_step_at.induct)
     (simp_all add: refuse_def split: option.split sum.split window_verdict.split)

lemma execute_rank_less:
  "an_timed_out an \<Longrightarrow> mode_rank (fst (fst (execute_step_at c an pc l s))) < execute_rank pc"
  by (induction c an pc l s rule: execute_step_at.induct)
     (auto simp: clear_and_def Let_def rank_drives min_def split: option.split switch_reply.split)

lemma mode_rank_less:
  "an_timed_out an \<Longrightarrow> 0 < mode_rank pc \<Longrightarrow> mode_rank (fst (fst (mode_step_at mc c an (pc, l) s))) < mode_rank pc"
  by (cases pc) (simp_all add: admit_rank_less validate_rank_less execute_rank_less)

lemma enable_rank_done: "enable_rank pc = 0 \<Longrightarrow> \<exists>r. pc = En_Done r"
  by (cases pc) simp_all

lemma disable_rank_done: "disable_rank pc = 0 \<Longrightarrow> \<exists>r. pc = Di_Done r"
  by (cases pc) (simp_all add: min_def split: if_splits)

lemma reset_rank_done: "reset_rank pc = 0 \<Longrightarrow> \<exists>r. pc = Re_Done r"
  by (cases pc) simp_all

lemmas ranks_done = enable_rank_done disable_rank_done reset_rank_done

lemma admit_rank_pos: "0 < admit_rank pc"
  by (cases pc) simp_all

lemma validate_rank_pos: "0 < validate_rank pc"
  by (cases pc) simp_all

lemma execute_rank_pos: "0 < execute_rank pc"
  by (cases pc) (simp_all add: rank_drives min_def)

lemmas inner_ranks = admit_rank_pos validate_rank_pos execute_rank_pos

lemma mode_rank_done: "mode_rank pm = 0 \<Longrightarrow> \<exists>r m. pm = Mo_Done r m"
  by (cases pm) (simp_all add: inner_ranks [THEN gr_implies_not0])

subsection \<open>The bounded run of a thread\<close>

text \<open>
  The places a thread visits when access \<open>n\<close> finds the answers and the members that \<open>env n\<close> gives.
\<close>

fun visit :: "(nat \<Rightarrow> 'pc \<Rightarrow> 'pc) \<Rightarrow> nat \<Rightarrow> 'pc \<Rightarrow> 'pc" where
  "visit f 0 pc = pc"
| "visit f (Suc n) pc = f n (visit f n pc)"

locale ranked_thread =
  fixes access :: "answers \<Rightarrow> em \<Rightarrow> 'pc \<Rightarrow> 'pc"
    and rank :: "'pc \<Rightarrow> nat"
  assumes less: "an_timed_out an \<Longrightarrow> 0 < rank pc \<Longrightarrow> rank (access an s pc) < rank pc"
    and stays: "rank pc = 0 \<Longrightarrow> rank (access an s pc) = 0"
begin

lemma visit_rank:
  assumes "\<And>k. an_timed_out (answers k)"
  shows "rank (visit (\<lambda>k. access (answers k) (members k)) n pc) \<le> rank pc - n"
proof (induction n)
  case 0
  then show ?case by simp
next
  case (Suc n)
  let ?p = "visit (\<lambda>k. access (answers k) (members k)) n pc"
  show ?case
  proof (cases "rank ?p = 0")
    case True
    then show ?thesis using stays [of ?p] by simp
  next
    case False
    then have "rank (access (answers n) (members n) ?p) < rank ?p" using assms by (intro less) simp_all
    then show ?thesis using Suc.IH by simp
  qed
qed

lemma visit_done:
  assumes "\<And>k. an_timed_out (answers k)" "rank pc \<le> n"
  shows "rank (visit (\<lambda>k. access (answers k) (members k)) n pc) = 0"
  proof -
  have "rank (visit (\<lambda>k. access (answers k) (members k)) n pc) \<le> rank pc - n"
    by (rule visit_rank) (rule assms(1))
  then show ?thesis using assms(2) by simp
qed

end

interpretation enable_thread: ranked_thread "\<lambda>an s pc. fst (enable_step_at c an pc s)" enable_rank for c
  by unfold_locales (auto simp: enable_rank_less dest: ranks_done)

interpretation disable_thread: ranked_thread "\<lambda>an s pc. fst (disable_step_at c an pc s)" disable_rank for c
  by unfold_locales (auto simp: disable_rank_less dest: ranks_done)

interpretation reset_thread: ranked_thread "\<lambda>an s pc. fst (reset_step_at c an pc s)" reset_rank for c
  by unfold_locales (auto simp: reset_rank_less dest: ranks_done)

interpretation mode_thread: ranked_thread "\<lambda>an s p. fst (mode_step_at mc c an p s)" "\<lambda>p. mode_rank (fst p)" for mc c
  by unfold_locales (auto simp: mode_rank_less dest: mode_rank_done)



end
