(* ===== verification/EnableRaces.thy ===== *)
theory EnableRaces
  imports EnableConcurrent
begin

text \<open>
  Runs of the system in which a service thread undoes what a control cycle has decided: stores that
  the handlers make without comparing what they read before. Each is a concrete sequence of events.
\<close>

subsection \<open>A disable request overrides an emergency stop\<close>

text \<open>What the state interfaces of the sample group hold with both drives in a state.\<close>

definition sample_cells :: "u16 \<Rightarrow> f64 \<Rightarrow> f64 list" where
  "sample_cells w age = map cell (state_interfaces (sample_em Phase_kIdle w w enabled age))"

definition disable_meets_emergency :: "event list" where
  "disable_meets_emergency =
     [Call Call_disable] @ replicate 7 (Thread 0 patient) @ [Feedback (sample_cells 0x0027 NaN), Cycle 5 1 0]"

definition disable_overrides :: "event list" where
  "disable_overrides = [Thread 0 patient, Feedback (sample_cells 0x0027 (Fin 3)), Cycle 6 1 0]"

definition enabled_system :: sys where
  "enabled_system = \<lparr>sys_em = sample_em Phase_kEnabled 0x0027 0x0027 enabled (Fin 3), threads = []\<rparr>"

definition after_emergency :: sys where
  "after_emergency = the (sys_run sample_codes sample_cfg disable_meets_emergency enabled_system)"

definition after_override :: sys where
  "after_override = the (sys_run sample_codes sample_cfg disable_overrides after_emergency)"

lemma override_run:
  "(case sys_run sample_codes sample_cfg disable_meets_emergency enabled_system of
      None \<Rightarrow> False
    | Some y1 \<Rightarrow> phase (sys_em y1) = Phase_kEmergencyQuickStop \<and> restart_required (sys_em y1)
        \<and> control_word (sys_em y1) 0 = Fin 2
        \<and> (case sys_run sample_codes sample_cfg disable_overrides y1 of
              None \<Rightarrow> False
            | Some y2 \<Rightarrow> phase (sys_em y2) = Phase_kJtcDeactivating \<and> control_word (sys_em y2) 0 = Fin 15))"
  by code_simp

text \<open>
  A disable request can override an emergency stop. From a state in which the group is enabled
  there is a run in which a cycle finds a source offline, starts the emergency stop and commands the
  quick stop 0x0002, and then the thread of a disable that had read \<open>kEnabled\<close> before stores
  \<open>kJtcDeactivating\<close>; the next cycle commands 0x000F again.
\<close>

theorem disable_can_override_emergency:
  "\<exists>es1 es2 y1 y2. sys_run sample_codes sample_cfg es1 enabled_system = Some y1
     \<and> phase (sys_em y1) = Phase_kEmergencyQuickStop \<and> restart_required (sys_em y1)
     \<and> control_word (sys_em y1) 0 = Fin 2
     \<and> sys_run sample_codes sample_cfg es2 y1 = Some y2
     \<and> phase (sys_em y2) = Phase_kJtcDeactivating \<and> control_word (sys_em y2) 0 = Fin 15"
  using override_run by (auto split: option.splits)

subsection \<open>A mode switch that is interrupted drops the restart requirement\<close>

lemma thread_run:
  assumes "i < length (threads y)"
  shows "sys_run mc c (Thread i an # es) y =
    (case thread_step mc c an (threads y ! i) (sys_em y) of
       (t, s) \<Rightarrow> sys_run mc c es \<lparr>sys_em = s, threads = (threads y)[i := t]\<rparr>)"
  using assms by (simp split: prod.split)

text \<open>
  A mode request that waits for its drives when a cycle takes the ownership away, as every
  emergency stop does, clears \<open>restart_required\<close>, also when the emergency had set it, and takes the
  ownership over as a disable.
\<close>

theorem interrupted_switch_drops_restart:
  assumes "i < length (threads y)" "threads y ! i = Switching (Execute (Mo_DrivesOwner csp)) l"
    "owner (sys_em y) \<noteq> Owner_kMode"
  shows "\<exists>y'. sys_run mc c (replicate 9 (Thread i an)) y = Some y'
    \<and> \<not> restart_required (sys_em y') \<and> owner (sys_em y') = Owner_kDisable
    \<and> disable_request (sys_em y') \<and> phase (sys_em y') = phase (sys_em y)"
  using assms
  by (simp add: eval_nat_numeral thread_run clear_and_def converge_store_def mode_result_of_def switch_end_def
      del: sys_run.simps(2)) 

theorem interrupted_switch_drops_restart_witness:
  "\<exists>y'. sys_run sample_codes sample_cfg (replicate 9 (Thread 0 patient))
      \<lparr>sys_em = (sample_em Phase_kEmergencyQuickStop 0x0027 0x0027 enabled NaN)\<lparr>restart_required := True\<rparr>,
       threads = [Switching (Execute (Mo_DrivesOwner True)) (no_locals 1)]\<rparr> = Some y'
    \<and> \<not> restart_required (sys_em y')"
  using interrupted_switch_drops_restart [of 0 "\<lparr>sys_em = (sample_em Phase_kEmergencyQuickStop 0x0027 0x0027 enabled NaN)\<lparr>restart_required := True\<rparr>,
       threads = [Switching (Execute (Mo_DrivesOwner True)) (no_locals 1)]\<rparr>" True "no_locals 1" sample_codes sample_cfg patient]
  by (auto simp: sample_em_def)

subsection \<open>A disable that comes too late to preempt\<close>

definition managed_cfg :: em_cfg where
  "managed_cfg = sample_cfg\<lparr>enable_only := False, managed_controllers := [''jtc''],
     default_motion_controller := ''jtc''\<rparr>"

definition activates :: answers where
  "activates = patient\<lparr>an_states := Some [(''jtc'', ''inactive'')], an_reply := Reply True,
     an_after := Some [(''jtc'', ''active'')]\<rparr>"

definition enabling_system :: sys where
  "enabling_system =
     \<lparr>sys_em = (sample_em Phase_kEnabling 0x0027 0x0027 enabled (Fin 3))
        \<lparr>owner := Owner_kEnable, current_batch := 1, device_stage := True, enable_callback_active := True\<rparr>,
      threads = [Enabling En_WaitActive, Disabling Di_Callback]\<rparr>"

definition late_disable :: "event list" where
  "late_disable = replicate 7 (Thread 1 patient) @ [Cycle 5 1 0] @ replicate 9 (Thread 0 activates)
     @ [Cycle 6 1 0, Thread 1 patient, Cycle 7 1 0]"

lemma late_disable_run:
  "(case sys_run sample_codes managed_cfg late_disable enabling_system of
      None \<Rightarrow> False
    | Some y \<Rightarrow> phase (sys_em y) = Phase_kDisabling \<and> jtc_deactivation_required (sys_em y)
        \<and> \<not> emergency_jtc_deactivate_request (sys_em y) \<and> owner (sys_em y) = Owner_kNone
        \<and> threads y ! 1 = Disabling Di_ResultActive)"
  by code_simp

text \<open>
  A disable that reads \<open>kEnabling\<close> to preempt an enable, and stores its request after that enable
  has succeeded, takes the drives down without deactivating the motion controller, and without the
  ownership: the group is in \<open>kDisabling\<close>, the motion controller is still active and no worker is
  asked to stop it.
\<close>

theorem late_disable_leaves_controller_active:
  "\<exists>es y. sys_run sample_codes managed_cfg es enabling_system = Some y
     \<and> phase (sys_em y) = Phase_kDisabling \<and> owner (sys_em y) = Owner_kNone
     \<and> jtc_deactivation_required (sys_em y) \<and> \<not> emergency_jtc_deactivate_request (sys_em y)
     \<and> threads y ! 1 = Disabling Di_ResultActive"
  using late_disable_run by (auto split: option.splits)

end
