(* ===== verification/CanBus.thy ===== *)
theory CanBus
  imports Prelude
begin

text \<open>
  Classic CAN over Linux raw sockets: \<open>Socket\<close> of \<open>infra_socketcan\<close> (\<open>socket.cpp\<close>) and the
  eight-byte standard-frame socket \<open>SocketCan\<close> of \<open>hw_can_damiao\<close> (\<open>socketcan.cpp\<close>) built on it.

  The kernel and the clock are an explicit environment: the results of the system calls to come
  and the readings of the steady clock to come, consumed in order, and the frames handed to the
  bus. When a script is used up the kernel accepts every frame, has nothing to receive and
  reports a poll timeout, and the clock stands still; a run that ends uses up a finite part of
  its scripts, so the scripts lose no generality.
\<close>

subsection \<open>Exceptions\<close>

text \<open>
  A C++ exception is a value on the left of a sum; the state an operation leaves behind is
  returned with it, as what was done before a throw stays done.
\<close>

datatype exn =
    invalid_argument string | runtime_error string | logic_error string | system_error int

definition ebind :: "('s \<Rightarrow> (exn + 'a) \<times> 's) \<Rightarrow> ('a \<Rightarrow> 's \<Rightarrow> (exn + 'b) \<times> 's) \<Rightarrow> 's \<Rightarrow> (exn + 'b) \<times> 's" where
  "ebind m f s = (case m s of (Inl e, s') \<Rightarrow> (Inl e, s') | (Inr x, s') \<Rightarrow> f x s')"

definition ereturn :: "'a \<Rightarrow> 's \<Rightarrow> (exn + 'a) \<times> 's" where
  "ereturn x s = (Inr x, s)"

definition ethrow :: "exn \<Rightarrow> 's \<Rightarrow> (exn + 'a) \<times> 's" where
  "ethrow e s = (Inl e, s)"

text \<open>A pure computation that may throw, inside a stateful one.\<close>

definition elift :: "exn + 'a \<Rightarrow> 's \<Rightarrow> (exn + 'a) \<times> 's" where
  "elift r s = (r, s)"

definition eguard :: "bool \<Rightarrow> exn \<Rightarrow> 's \<Rightarrow> (exn + unit) \<times> 's" where
  "eguard ok e s = (if ok then (Inr (), s) else (Inl e, s))"

lemmas exn_simps = ebind_def ereturn_def ethrow_def elift_def eguard_def

subsection \<open>The kernel\<close>

record can_frame =
  cf_id :: u32
  cf_dlc :: u8
  cf_data :: "u8 list"

text \<open>Outcomes of \<open>send\<close>, \<open>recv\<close> and \<open>poll\<close>: a failure with its \<open>errno\<close>, or the size, frame and events.\<close>

datatype send_result = SendFailed int | SentBytes nat
datatype recv_result = RecvFailed int | RecvBytes nat can_frame
datatype poll_result = PollFailed int | Polled nat bool bool

text \<open>\<open>Polled n err pollin\<close>: \<open>n\<close> ready descriptors, POLLERR/POLLHUP/POLLNVAL set, POLLIN set.\<close>

record open_script =
  os_socket :: int
  os_filter_error :: int
  os_own_error :: int
  os_ioctl_error :: int
  os_ifindex :: int
  os_bind_error :: int

record can_io =
  descriptor :: int
  interface_index :: int
  k_open :: "open_script list"
  k_send :: "send_result list"
  k_recv :: "recv_result list"
  k_poll :: "poll_result list"
  k_clock :: "int list"
  k_now :: int
  k_filters :: "u32 list"
  k_wire :: "can_frame list"

definition sizeof_can_frame :: nat where
  "sizeof_can_frame = 16"

definition EIO :: int where "EIO = 5"
definition EINTR :: int where "EINTR = 4"
definition EAGAIN :: int where "EAGAIN = 11"

definition steady_now :: "can_io \<Rightarrow> int \<times> can_io" where
  "steady_now io = (case k_clock io of
       [] \<Rightarrow> (k_now io, io)
     | t # ts \<Rightarrow> (t, io\<lparr>k_clock := ts, k_now := t\<rparr>))"

subsection \<open>\<open>infra_socketcan::Socket\<close>\<close>

definition socket_close :: "can_io \<Rightarrow> can_io" where
  "socket_close io =
    (if 0 \<le> descriptor io then io\<lparr>descriptor := - 1, interface_index := 0\<rparr> else io)"

definition socket_is_open :: "can_io \<Rightarrow> bool" where
  "socket_is_open io \<longleftrightarrow> 0 \<le> descriptor io"

definition default_open :: open_script where
  "default_open = \<lparr>os_socket = 3, os_filter_error = 0, os_own_error = 0, os_ioctl_error = 0,
                   os_ifindex = 1, os_bind_error = 0\<rparr>"

definition pop_open :: "can_io \<Rightarrow> open_script \<times> can_io" where
  "pop_open io = (case k_open io of
     [] \<Rightarrow> (default_open, io) | o1 # os \<Rightarrow> (o1, io\<lparr>k_open := os\<rparr>))"

text \<open>An \<open>errno\<close> of 0 in the script stands for a call that succeeds.\<close>

definition socket_open :: "string \<Rightarrow> u32 list \<Rightarrow> can_io \<Rightarrow> (exn + unit) \<times> can_io" where
  "socket_open name filters io =
    (if name = [] \<or> 16 \<le> length name then (Inl (invalid_argument ''interface name''), io)
     else if filters = [] then (Inl (invalid_argument ''filters''), io)
     else let (k, io1) = pop_open io in
       if os_socket k < 0 then (Inl (system_error (- os_socket k)), io1)
       else if os_filter_error k \<noteq> 0 then (Inl (system_error (os_filter_error k)), io1)
       else if os_own_error k \<noteq> 0 then (Inl (system_error (os_own_error k)), io1)
       else if os_ioctl_error k \<noteq> 0 then (Inl (system_error (os_ioctl_error k)), io1)
       else if os_bind_error k \<noteq> 0 then (Inl (system_error (os_bind_error k)), io1)
       else (Inr (), (socket_close io1)\<lparr>descriptor := os_socket k,
                                      interface_index := os_ifindex k, k_filters := filters\<rparr>))"

definition socket_send :: "can_frame \<Rightarrow> can_io \<Rightarrow> int \<times> can_io" where
  "socket_send frame io =
    (let (r, io1) = (case k_send io of [] \<Rightarrow> (SentBytes sizeof_can_frame, io)
                                     | r # rs \<Rightarrow> (r, io\<lparr>k_send := rs\<rparr>))
     in case r of
          SendFailed err \<Rightarrow> (- err, io1)
        | SentBytes n \<Rightarrow>
            (if n = sizeof_can_frame then (0, io1\<lparr>k_wire := k_wire io1 @ [frame]\<rparr>)
             else (- EIO, io1)))"

definition socket_receive :: "can_io \<Rightarrow> (int \<times> can_frame option) \<times> can_io" where
  "socket_receive io =
    (let (r, io1) = (case k_recv io of [] \<Rightarrow> (RecvFailed EAGAIN, io)
                                     | r # rs \<Rightarrow> (r, io\<lparr>k_recv := rs\<rparr>))
     in case r of
          RecvFailed err \<Rightarrow> ((if err = EAGAIN then 0 else - err, None), io1)
        | RecvBytes n frame \<Rightarrow>
            (if n = sizeof_can_frame then ((1, Some frame), io1) else ((- EIO, Some frame), io1)))"

definition socket_wait_readable :: "int \<Rightarrow> can_io \<Rightarrow> int \<times> can_io" where
  "socket_wait_readable timeout_ms io =
    (let (r, io1) = (case k_poll io of [] \<Rightarrow> (Polled 0 False False, io)
                                     | r # rs \<Rightarrow> (r, io\<lparr>k_poll := rs\<rparr>))
     in case r of
          PollFailed err \<Rightarrow> (- err, io1)
        | Polled n bad ready \<Rightarrow>
            (if 0 < n \<and> bad then (- EIO, io1) else if 0 < n \<and> ready then (1, io1) else (0, io1)))"

subsection \<open>\<open>hw_can_damiao::SocketCan\<close>\<close>

record CanFrame =
  frame_id :: u16
  frame_length :: u8
  frame_data :: "u8 list"

definition CAN_SFF_MASK :: u16 where "CAN_SFF_MASK = 0x7FF"
definition CAN_MAX_DLEN :: u8 where "CAN_MAX_DLEN = 8"

text \<open>CAN_EFF_FLAG, CAN_RTR_FLAG and CAN_ERR_FLAG together.\<close>

definition CAN_FLAGS :: u32 where "CAN_FLAGS = 0xE0000000"

definition can_open :: "string \<Rightarrow> u16 list \<Rightarrow> can_io \<Rightarrow> (exn + unit) \<times> can_io" where
  "can_open name receive_ids io =
    (if receive_ids = [] \<or> list_ex (\<lambda>i. CAN_SFF_MASK < i) receive_ids
     then (Inl (invalid_argument ''receive IDs''), io)
     else socket_open name (map ucast receive_ids) io)"

definition can_send :: "CanFrame \<Rightarrow> can_io \<Rightarrow> (exn + unit) \<times> can_io" where
  "can_send frame io =
    (if \<not> socket_is_open io then (Inl (logic_error ''socket is not open''), io)
     else if CAN_SFF_MASK < frame_id frame \<or> frame_length frame \<noteq> CAN_MAX_DLEN
     then (Inl (invalid_argument ''outgoing frame''), io)
     else let (result, io1) =
            socket_send \<lparr>cf_id = ucast (frame_id frame), cf_dlc = frame_length frame, cf_data = frame_data frame\<rparr> io
          in if result = - EIO then (Inl (runtime_error ''partial write''), io1)
             else if result < 0 then (Inl (system_error (- result)), io1)
             else (Inr (), io1))"

text \<open>\<open>can_receive\<close> is the frame received, or \<open>None\<close> where the code returns false.\<close>

definition can_receive :: "can_io \<Rightarrow> (exn + CanFrame option) \<times> can_io" where
  "can_receive io =
    (if \<not> socket_is_open io then (Inl (logic_error ''socket is not open''), io)
     else let ((result, received), io1) = socket_receive io
          in if result = 0 then (Inr None, io1)
             else if result < 0 \<and> result \<noteq> - EIO then (Inl (system_error (- result)), io1)
             else case received of
                None \<Rightarrow> (Inl (runtime_error ''malformed frame''), io1)
              | Some native \<Rightarrow>
                  (if result < 0 \<or> cf_id native AND CAN_FLAGS \<noteq> 0 \<or> cf_dlc native \<noteq> CAN_MAX_DLEN
                   then (Inl (runtime_error ''malformed frame''), io1)
                   else (Inr (Some \<lparr>frame_id = ucast (cf_id native AND ucast CAN_SFF_MASK),
                                    frame_length = cf_dlc native, frame_data = cf_data native\<rparr>), io1)))"

text \<open>
  \<open>wait_readable\<close> repeats an interrupted poll. Every round uses up one result of the poll
  script, and a poll beyond the script is not interrupted.
\<close>

function wait_loop :: "int \<Rightarrow> can_io \<Rightarrow> int \<times> can_io" where
  "wait_loop timeout_ms io =
    (let (result, io1) = socket_wait_readable timeout_ms io
     in if result = - EINTR \<and> length (k_poll io1) < length (k_poll io)
        then wait_loop timeout_ms io1 else (result, io1))"
  by pat_completeness auto
termination
  by (relation "measure (\<lambda>(t, io). length (k_poll io))") auto

declare wait_loop.simps [simp del]

text \<open>The loop is the code's: an interrupted poll is always repeated.\<close>

lemma wait_loop_unfold:
  "wait_loop timeout_ms io =
    (let (result, io1) = socket_wait_readable timeout_ms io
     in if result = - EINTR then wait_loop timeout_ms io1 else (result, io1))"
  by (subst wait_loop.simps)
     (auto simp: socket_wait_readable_def EINTR_def EIO_def split: list.splits poll_result.splits
        if_splits)

lemma wait_loop_not_interrupted: "fst (wait_loop timeout_ms io) \<noteq> - EINTR"
  by (induction timeout_ms io rule: wait_loop.induct) 
     (subst wait_loop_unfold, auto simp: Let_def socket_wait_readable_def EINTR_def EIO_def
        split: list.splits poll_result.splits if_splits prod.splits)

definition can_wait_readable :: "int \<Rightarrow> can_io \<Rightarrow> (exn + bool) \<times> can_io" where
  "can_wait_readable timeout_ms io =
    (let (result, io1) = wait_loop timeout_ms io
     in if result = - EIO then (Inl (runtime_error ''I/O error''), io1)
        else if result < 0 then (Inl (system_error (- result)), io1)
        else (Inr (0 < result), io1))"

end
