(* ===== verification/Float32.thy ===== *)
theory Float32
  imports Float64
begin

text \<open>
  IEEE-754 binary32 values, the C++ type \<open>float\<close> of the motor protocol, as the 32 bits the code
  copies with \<open>memcpy\<close>. \<open>f32_value\<close> is the widening to \<open>double\<close>, which is exact;
  \<open>f32_of_f64\<close> is the narrowing \<open>static_cast<float>\<close>, rounding to nearest with ties to even.
  The narrowing of a zero is the positive zero, as \<open>f64\<close> has one zero.
\<close>

definition f32_exponent :: "u32 \<Rightarrow> int" where
  "f32_exponent w = uint (drop_bit 23 w AND 0xFF)"

definition f32_mantissa :: "u32 \<Rightarrow> int" where
  "f32_mantissa w = uint (w AND 0x7FFFFF)"

definition f32_negative :: "u32 \<Rightarrow> bool" where
  "f32_negative w = bit w 31"

definition f32_value :: "u32 \<Rightarrow> f64" where
  "f32_value w =
    (if f32_exponent w = 255
     then (if f32_mantissa w \<noteq> 0 then NaN else if f32_negative w then NInf else PInf)
     else let v = (if f32_exponent w = 0 then of_int (f32_mantissa w) * 2 powi (- 149)
                   else of_int (f32_mantissa w + 8388608) * 2 powi (f32_exponent w - 150))
          in Fin (if f32_negative w then - v else v))"

definition f32_magnitude :: "rat \<Rightarrow> int" where
  "f32_magnitude q =
    (if q = 0 then 0
     else let e = max (ilog2 q - 23) (- 149)
          in min (round_half_even (q / 2 powi e) + (e + 149) * 8388608) 0x7F800000)"

fun f32_of_f64 :: "f64 \<Rightarrow> u32" where
  "f32_of_f64 NaN = 0x7FC00000"
| "f32_of_f64 PInf = 0x7F800000"
| "f32_of_f64 NInf = 0xFF800000"
| "f32_of_f64 (Fin q) = 
    word_of_int (f32_magnitude \<bar>q\<bar> + (if q < 0 then 0x80000000 else 0))"

subsection \<open>The fields determine the word\<close>

lemma f32_mantissa_mod: "f32_mantissa w = uint w mod 8388608"
proof -
  have "w AND 0x7FFFFF = take_bit 23 w" by (simp add: take_bit_eq_mask mask_eq_exp_minus_1)
  then show ?thesis by (simp add: f32_mantissa_def take_bit_eq_mod uint_mod)
qed

lemma f32_exponent_mod: "f32_exponent w = uint w div 8388608 mod 256"
proof -
  have "drop_bit 23 w AND 0xFF = take_bit 8 (drop_bit 23 w)"
    by (simp add: take_bit_eq_mask mask_eq_exp_minus_1)
  then show ?thesis
    by (simp add: f32_exponent_def take_bit_eq_mod drop_bit_eq_div uint_mod uint_div)
qed

lemma f32_negative_div: "f32_negative w \<longleftrightarrow> uint w div 2147483648 = 1"
proof -
  have "0 \<le> uint w div 2147483648" "uint w div 2147483648 \<le> 1"
    using uint_lt2p [of w] by (simp_all add: pos_imp_zdiv_nonneg_iff)
  moreover have "f32_negative w \<longleftrightarrow> bit (uint w) 31"
    by (simp add: f32_negative_def bit_uint_iff)
  then have "f32_negative w \<longleftrightarrow> odd (uint w div 2147483648)"
    by (simp add: bit_iff_odd)
  moreover have "odd k \<longleftrightarrow> k = 1" if "0 \<le> k" "k \<le> 1" for k :: int
    using that by presburger
  ultimately show ?thesis by simp
qed

lemma f32_fields_bounds:
  "0 \<le> f32_exponent w" "f32_exponent w < 256" "0 \<le> f32_mantissa w" "f32_mantissa w < 8388608"
  by (simp_all add: f32_exponent_mod f32_mantissa_mod)

lemma f32_word_eq:
  "uint w = f32_exponent w * 8388608 + f32_mantissa w + (if f32_negative w then 2147483648 else 0)"
proof -
  define h where "h = uint w div 8388608"
  have u: "uint w = h * 8388608 + f32_mantissa w"
    by (simp add: h_def f32_mantissa_mod)
  have h: "h = (h div 256) * 256 + f32_exponent w"
    by (simp add: h_def f32_exponent_mod)
  have s: "h div 256 = uint w div 2147483648"
    by (simp add: h_def flip: zdiv_zmult2_eq)
  have "0 \<le> uint w div 2147483648" "uint w div 2147483648 \<le> 1"
    using uint_lt2p [of w] by (simp_all add: pos_imp_zdiv_nonneg_iff)
  then have "h div 256 = (if f32_negative w then 1 else 0)"
    by (auto simp: s f32_negative_div)
  with u h show ?thesis by auto
qed

subsection \<open>Narrowing inverts widening\<close>

lemma ilog2_lt:
  assumes "0 < q"
  shows "q < 2 powi (ilog2 q + 1)"
proof -
  obtain n d where nd: "quotient_of q = (n, d)" by (cases "quotient_of q")
  define b where "b = bitlen n - bitlen d"
  have d0: "0 < d" using nd by (rule quotient_of_denom_pos)
  have q: "q = of_int n / of_int d" using nd by (rule quotient_of_div)
  have n0: "0 < n" using assms d0 q by (simp add: zero_less_divide_iff)
  have hi: "n < 2 ^ nat (bitlen n)" using bitlen_bounds [OF n0] by simp
  have lo: "2 ^ nat (bitlen d - 1) \<le> d" using bitlen_bounds [OF d0] by simp
  have bd: "1 \<le> bitlen d" using d0 bitlen_nonneg [of d] bitlen_eq_zero_iff [of d] by linarith
  have "of_int n < (2 powi (bitlen n) :: rat)"
    using hi by (simp add: power_int_def bitlen_nonneg)
  also have "\<dots> = 2 powi (b + 1) * 2 powi (bitlen d - 1)"
    by (simp add: b_def flip: power_int_add)
  also have "\<dots> \<le> 2 powi (b + 1) * of_int d"
    using lo bd by (intro mult_left_mono) (simp_all add: power_int_def)
  finally have "q < 2 powi (b + 1)"
    using d0 by (simp add: q pos_divide_less_eq)
  then show ?thesis by (simp add: ilog2_def nd b_def Let_def not_le)
qed

lemma ilog2_eqI:
  assumes "2 powi k \<le> q" "q < 2 powi (k + 1)"
  shows "ilog2 q = k"
proof -
  have q0: "0 < q" using assms(1) by (rule less_le_trans [rotated]) simp
  have "ilog2 q < k + 1" using q0 assms(2) by (rule ilog2_upper)
  moreover have "\<not> ilog2 q < k"
  proof
    assume "ilog2 q < k"
    then have "2 powi (ilog2 q + 1) \<le> (2 powi k :: rat)"
      by (intro power_int_increasing) auto
    with assms(1) have "2 powi (ilog2 q + 1) \<le> q" by simp
    with ilog2_lt [OF q0] show False by simp
  qed
  ultimately show ?thesis by simp
qed

lemma f32_magnitude_normal:
  assumes "0 < E" "E < 255" "0 \<le> M" "M < 8388608"
  shows "f32_magnitude (of_int (M + 8388608) * 2 powi (E - 150)) = E * 8388608 + M"
proof -
  define q :: rat where "q = of_int (M + 8388608) * 2 powi (E - 150)"
  have "ilog2 q = E - 127"
  proof (rule ilog2_eqI)
    have "(2 :: rat) powi (E - 127) = 8388608 * 2 powi (E - 150)"
      using power_int_add [of "2 :: rat" 23 "E - 150"] by simp
    also have "\<dots> \<le> q" unfolding q_def using assms by (intro mult_right_mono) auto
    finally show "2 powi (E - 127) \<le> q" .
    have "q < 16777216 * 2 powi (E - 150)"
      unfolding q_def using assms by (intro mult_strict_right_mono) auto
    also have "\<dots> = 2 powi (E - 127 + 1)"
      using power_int_add [of "2 :: rat" 24 "E - 150"] by simp
    finally show "q < 2 powi (E - 127 + 1)" .
  qed
  then have e: "max (ilog2 q - 23) (- 149) = E - 150" using assms by simp
  have "q / 2 powi (E - 150) = of_int (M + 8388608)" by (simp add: q_def)
  moreover have "q \<noteq> 0" using assms by (auto simp: q_def add_pos_nonneg)
  ultimately have "f32_magnitude q = min (M + 8388608 + (E - 1) * 8388608) 0x7F800000"
    by (simp add: f32_magnitude_def e round_half_even_of_int del: of_int_add)
  also have "\<dots> = E * 8388608 + M" using assms by (auto simp: algebra_simps min_def)
  finally show ?thesis by (simp add: q_def)
qed

lemma f32_magnitude_subnormal:
  assumes "0 \<le> M" "M < 8388608"
  shows "f32_magnitude (of_int M * 2 powi (- 149)) = M"
proof (cases "M = 0")
  case True
  then show ?thesis by (simp add: f32_magnitude_def)
next
  case False
  define q :: rat where "q = of_int M * 2 powi (- 149)"
  have "q < 8388608 * 2 powi (- 149)"
    unfolding q_def using assms by (intro mult_strict_right_mono) auto
  also have "\<dots> = 2 powi (- 126)"
    using power_int_add [of "2 :: rat" 23 "- 149"] by simp
  finally have "ilog2 q < - 126"
    using assms False by (intro ilog2_upper) (auto simp: q_def)
  then have e: "max (ilog2 q - 23) (- 149) = - 149" by simp
  have "q / 2 powi (- 149) = of_int M" by (simp add: q_def)
  moreover have "q \<noteq> 0" using False by (simp add: q_def)
  ultimately have "f32_magnitude q = min M 0x7F800000"
    by (simp add: f32_magnitude_def e)
  with assms show ?thesis by (simp add: q_def)
qed

lemma f32_of_f64_f32_value:
  assumes "isfinite (f32_value w)" "w \<noteq> 0x80000000"
  shows "f32_of_f64 (f32_value w) = w"
proof -
  define E M where "E = f32_exponent w" and "M = f32_mantissa w"
  note b = f32_fields_bounds [of w, folded E_def M_def]
  have E: "E \<noteq> 255" using assms(1) by (auto simp: f32_value_def E_def split: if_splits)
  define v :: rat where
    "v = (if E = 0 then of_int M * 2 powi (- 149) else of_int (M + 8388608) * 2 powi (E - 150))"
  have val: "f32_value w = Fin (if f32_negative w then - v else v)"
    using E by (simp add: f32_value_def Let_def v_def E_def M_def)
  have v0: "0 \<le> v" using b by (simp add: v_def)
  have mag: "f32_magnitude v = E * 8388608 + M"
  proof (cases "E = 0")
    case True
    then show ?thesis using f32_magnitude_subnormal [of M] b by (simp add: v_def)
  next
    case False
    then show ?thesis using f32_magnitude_normal [of E M] b E by (simp add: v_def)
  qed
  have u: "uint w = E * 8388608 + M + (if f32_negative w then 2147483648 else 0)"
    unfolding E_def M_def by (rule f32_word_eq)
  show ?thesis
  proof (cases "f32_negative w")
    case True
    have "v \<noteq> 0"
    proof
      assume "v = 0"
      then have "f32_magnitude v = 0" by (simp add: f32_magnitude_def)
      with True u mag have "uint w = uint (0x80000000 :: u32)" by simp
      with assms(2) show False by (metis word_uint_eqI)
    qed
    with v0 have "f32_of_f64 (f32_value w) = word_of_int (E * 8388608 + M + 2147483648)"
      by (simp add: val True mag)
    also have "\<dots> = word_of_int (uint w)" by (simp add: u True)
    finally show ?thesis by simp
  next
    case False
    with v0 have "f32_of_f64 (f32_value w) = word_of_int (E * 8388608 + M)"
      by (simp add: val mag)
    also have "\<dots> = word_of_int (uint w)" by (simp add: u False)
    finally show ?thesis by simp
  qed
qed

subsection \<open>Rounding keeps bounds that are themselves doubles\<close>

lemma round_half_even_le: "x \<le> of_int n \<Longrightarrow> round_half_even x \<le> n"
proof -
  assume x: "x \<le> of_int n"
  show ?thesis
  proof (cases "\<lfloor>x\<rfloor> = n")
    case True
    with x have "x = of_int n" by (simp add: floor_eq_iff)
    then show ?thesis by simp
  next
    case False
    moreover have "\<lfloor>x\<rfloor> \<le> n" using x by (simp add: floor_le_iff)
    ultimately show ?thesis by (simp add: round_half_even_def Let_def)
  qed
qed

lemma round_half_even_ge: "of_int n \<le> x \<Longrightarrow> n \<le> round_half_even x"
proof -
  assume "of_int n \<le> x"
  then have "n \<le> \<lfloor>x\<rfloor>" by (simp add: le_floor_iff)
  then show ?thesis by (simp add: round_half_even_def Let_def)
qed

lemma ilog2_mono:
  assumes "0 < a" "a \<le> b"
  shows "ilog2 a \<le> ilog2 b"
proof -
  have "a < 2 powi (ilog2 b + 1)" using ilog2_lt [of b] assms by simp
  with assms(1) have "ilog2 a < ilog2 b + 1" by (rule ilog2_upper)
  then show ?thesis by simp
qed

text \<open>\<open>representable b\<close>: the rational is the value of a double.\<close>

definition representable :: "rat \<Rightarrow> bool" where
  "representable b \<longleftrightarrow> f64_round b = Fin b"

lemma representable_grid:
  assumes "representable b" "b \<noteq> 0"
  obtains m where "b = of_int m * 2 powi (max (ilog2 \<bar>b\<bar> - 52) (- 1074))" "\<bar>b\<bar> < 2 ^ 1024"
proof -
  define e where "e = max (ilog2 \<bar>b\<bar> - 52) (- 1074)"
  define r :: rat where "r = of_int (round_half_even (b / 2 powi e)) * 2 powi e"
  have "f64_round b = (if 2 ^ 1024 \<le> r then PInf else if r \<le> - (2 ^ 1024) then NInf else Fin r)"
    using assms(2) by (simp add: f64_round_def e_def [symmetric] r_def Let_def)
  with assms(1) have "r = b" "\<not> 2 ^ 1024 \<le> r" "\<not> r \<le> - (2 ^ 1024)"
    by (auto simp: representable_def split: if_splits)
  with that [of "round_half_even (b / 2 powi e)"] show thesis
    by (auto simp: r_def e_def abs_less_iff)
qed

lemma f64_round_bounded:
  assumes B: "representable b" and x: "\<bar>x\<bar> \<le> b"
  shows "\<exists>r. f64_round x = Fin r \<and> \<bar>r\<bar> \<le> b"
proof (cases "x = 0")
  case True
  then show ?thesis using x by (simp add: f64_round_def)
next
  case False
  with x have b0: "0 < b" by auto
  obtain m where m: "b = of_int m * 2 powi (max (ilog2 \<bar>b\<bar> - 52) (- 1074))" and lt: "\<bar>b\<bar> < 2 ^ 1024"
    using representable_grid [OF B] b0 by blast
  define e where "e = max (ilog2 \<bar>x\<bar> - 52) (- 1074)"
  define g where "g = max (ilog2 \<bar>b\<bar> - 52) (- 1074)"
  have "e \<le> g" using ilog2_mono [of "\<bar>x\<bar>" b] False x b0 by (auto simp: e_def g_def)
  have bg: "b = of_int m * 2 powi g" unfolding g_def by (rule m)
  have "b / 2 powi e = (of_int m * 2 powi g) / 2 powi e"
    by (rule arg_cong [OF bg])
  also have "\<dots> = of_int m * 2 powi (g - e)"
    by (simp add: power_int_diff)
  also have "\<dots> = of_int (m * 2 ^ nat (g - e))"
    using \<open>e \<le> g\<close> by (simp add: power_int_def)
  finally have be: "b / 2 powi e = of_int (m * 2 ^ nat (g - e))" .
  define n where "n = m * 2 ^ nat (g - e)"
  define k where "k = round_half_even (x / 2 powi e)"
  have bn: "b = of_int n * 2 powi e"
    using be by (simp add: n_def [symmetric] divide_eq_eq)
  have "x \<le> of_int n * 2 powi e" "of_int (- n) * 2 powi e \<le> x"
    using x bn by (auto simp: abs_le_iff)
  then have "x / 2 powi e \<le> of_int n" "of_int (- n) \<le> x / 2 powi e"
    by (simp_all only: pos_divide_le_eq pos_le_divide_eq zero_less_power_int zero_less_numeral)
  then have "k \<le> n" "- n \<le> k"
    by (auto simp: k_def intro: round_half_even_le round_half_even_ge)
  define r :: rat where "r = of_int k * 2 powi e"
  have "r \<le> b" "- b \<le> r"
    unfolding r_def bn using \<open>k \<le> n\<close> \<open>- n \<le> k\<close>
    by (simp_all flip: mult_minus_left of_int_minus)
  moreover have "f64_round x = Fin r"
    using False \<open>r \<le> b\<close> \<open>- b \<le> r\<close> lt b0
    by (auto simp: f64_round_def Let_def e_def [symmetric] k_def [symmetric] r_def [symmetric])
  ultimately show ?thesis by (auto simp: abs_le_iff)
qed

lemma f64_round_bounded':
  assumes "representable b" "0 \<le> x" "x \<le> b"
  shows "\<exists>r. f64_round x = Fin r \<and> 0 \<le> r \<and> r \<le> b"
proof -
  obtain r where r: "f64_round x = Fin r" "\<bar>r\<bar> \<le> b" using f64_round_bounded [of b x] assms by auto
  have "0 \<le> round_half_even (x / 2 powi e)" for e
    using assms(2) by (intro round_half_even_ge) simp
  with r(1) have "0 \<le> r"
    by (auto simp: f64_round_def Let_def split: if_splits)
  with r show ?thesis by auto
qed

subsection \<open>The widening as integers, to compute with\<close>

lemma scaled_code:
  "(of_int n * 2 powi k :: rat) =
     (if 0 \<le> k then of_int (n * 2 ^ nat k) else of_int n / of_int (2 ^ nat (- k)))"
  by (simp add: power_int_def power_one_over)

lemma f32_value_code [code]:
  "f32_value w =
    (if f32_exponent w = 255
     then (if f32_mantissa w \<noteq> 0 then NaN else if f32_negative w then NInf else PInf)
     else let n = (if f32_exponent w = 0 then f32_mantissa w else f32_mantissa w + 8388608);
              k = (if f32_exponent w = 0 then - 149 else f32_exponent w - 150);
              s = (if f32_negative w then - n else n)
          in Fin (if 0 \<le> k then of_int (s * 2 ^ nat k) else of_int s / of_int (2 ^ nat (- k))))"
proof -
  have neg: "Fin (if b then - (of_int n * 2 powi k) else of_int n * 2 powi k) =
      Fin (of_int (if b then - n else n) * 2 powi k)" for b n k
    by simp
  show ?thesis
    unfolding scaled_code [symmetric] f32_value_def Let_def neg [symmetric]
    by (cases "f32_exponent w = 0") simp_all
qed

end
