(* ===== verification/DamiaoProtocol.thy ===== *)
theory DamiaoProtocol
  imports CanBus Float32
begin

text \<open>
  The wire protocol of the DaMiao head motors (\<open>hw_can_damiao\<close>, \<open>protocol.hpp\<close> and
  \<open>protocol.cpp\<close>): construction of command frames, register access, decoding of replies and of
  the periodic feedback. A \<open>float\<close> is its 32 bits (\<open>Float32\<close>); an exception is an \<open>Inl\<close>.
\<close>

subsection \<open>Data\<close>

definition kPayloadSize :: u8 where "kPayloadSize = 8"
definition kRegisterRequestId :: u16 where "kRegisterRequestId = 0x7FF"
definition kPositionVelocityMode :: u32 where "kPositionVelocityMode = 2"
definition kOneMegabitCanCode :: u32 where "kOneMegabitCanCode = 4"
definition kStandardCanIdMaximum :: u16 where "kStandardCanIdMaximum = 0x7FF"
definition kPositionVelocityIdOffset :: u16 where "kPositionVelocityIdOffset = 0x100"

definition new_frame :: CanFrame where
  "new_frame = \<lparr>frame_id = 0, frame_length = kPayloadSize, frame_data = replicate 8 0\<rparr>"

record MotorLimits =
  position_max :: f64
  velocity_max :: f64
  torque_max :: f64

record TrapezoidalProfile =
  acceleration_krad_s2 :: f64
  deceleration_krad_s2 :: f64
  maximum_speed_rad_s :: f64

record MotorFeedback =
  mf_motor_id :: u8
  mf_status :: u8
  mf_position :: f64
  mf_velocity :: f64
  mf_effort :: f64
  mf_mos_temperature_c :: f64
  mf_motor_temperature_c :: f64

datatype special_command = clear_fault | enable_motor | disable_motor

fun special_code :: "special_command \<Rightarrow> u8" where
  "special_code clear_fault = 0xFB"
| "special_code enable_motor = 0xFC"
| "special_code disable_motor = 0xFD"

datatype motor_register =
    acceleration | deceleration | maximum_speed | master_id_register | can_id_register
  | can_timeout | control_mode | position_max_register | velocity_max_register
  | torque_max_register | can_bitrate

fun register_code :: "motor_register \<Rightarrow> u8" where
  "register_code acceleration = 0x04"
| "register_code deceleration = 0x05"
| "register_code maximum_speed = 0x06"
| "register_code master_id_register = 0x07"
| "register_code can_id_register = 0x08"
| "register_code can_timeout = 0x09"
| "register_code control_mode = 0x0A"
| "register_code position_max_register = 0x15"
| "register_code velocity_max_register = 0x16"
| "register_code torque_max_register = 0x17"
| "register_code can_bitrate = 0x23"

record MotorConfiguration =
  mc_can_id :: u32
  mc_master_id :: u32
  timeout_ticks :: u32
  bitrate_code :: u32

record RegisterReply =
  rr_motor_id :: u16
  rr_operation :: u8
  rr_register_id :: u8
  raw_value :: u32

subsection \<open>Validation\<close>

definition validate_motor_id :: "u16 \<Rightarrow> exn + unit" where
  "validate_motor_id motor_id =
    (if motor_id = 0 \<or> 0x0F < motor_id then Inl (invalid_argument ''motor ID'') else Inr ())"

definition validate_frame :: "CanFrame \<Rightarrow> exn + unit" where
  "validate_frame frame =
    (if kStandardCanIdMaximum < frame_id frame \<or> frame_length frame \<noteq> kPayloadSize
     then Inl (invalid_argument ''response frame'') else Inr ())"

definition limits_valid :: "MotorLimits \<Rightarrow> bool" where
  "limits_valid l \<longleftrightarrow>
     isfinite (position_max l) \<and> f64_less (Fin 0) (position_max l) \<and>
     isfinite (velocity_max l) \<and> f64_less (Fin 0) (velocity_max l) \<and>
     isfinite (torque_max l) \<and> f64_less (Fin 0) (torque_max l)"

definition profile_valid :: "TrapezoidalProfile \<Rightarrow> bool" where
  "profile_valid p \<longleftrightarrow>
     isfinite (acceleration_krad_s2 p) \<and> f64_less (Fin 0) (acceleration_krad_s2 p) \<and>
     isfinite (deceleration_krad_s2 p) \<and> f64_less (deceleration_krad_s2 p) (Fin 0) \<and>
     isfinite (maximum_speed_rad_s p) \<and> f64_less (Fin 0) (maximum_speed_rad_s p)"

definition validate_motor_configuration :: "MotorConfiguration \<Rightarrow> u16 \<Rightarrow> u16 \<Rightarrow> exn + unit" where
  "validate_motor_configuration configuration expected_can_id expected_master_id =
    (if mc_can_id configuration \<noteq> ucast expected_can_id then Inl (invalid_argument ''CAN ID'')
     else if mc_master_id configuration \<noteq> ucast expected_master_id
     then Inl (invalid_argument ''Master ID'')
     else if bitrate_code configuration \<noteq> kOneMegabitCanCode then Inl (invalid_argument ''bitrate'')
     else if timeout_ticks configuration = 0 then Inl (invalid_argument ''CAN timeout'')
     else Inr ())"

definition f64_max :: "f64 \<Rightarrow> f64 \<Rightarrow> f64" where
  "f64_max a b = (if f64_less a b then b else a)"

text \<open>The literals \<open>1.0e-6\<close> and \<open>1.0e-4\<close> of the code are the doubles next to these rationals.\<close>

definition profile_close :: "f64 \<Rightarrow> f64 \<Rightarrow> bool" where
  "profile_close lhs rhs =
     f64_le (f64_abs (f64_sub lhs rhs))
       (f64_max (f64_round (1 / 1000000)) (f64_mul (f64_abs rhs) (f64_round (1 / 10000))))"

definition validate_trapezoidal_profile :: "TrapezoidalProfile \<Rightarrow> TrapezoidalProfile \<Rightarrow> exn + unit" where
  "validate_trapezoidal_profile actual expected =
    (if \<not> profile_valid actual \<or> \<not> profile_valid expected
     then Inl (invalid_argument ''profile signs or ranges'')
     else if \<not> profile_close (acceleration_krad_s2 actual) (acceleration_krad_s2 expected)
        \<or> \<not> profile_close (deceleration_krad_s2 actual) (deceleration_krad_s2 expected)
        \<or> \<not> profile_close (maximum_speed_rad_s actual) (maximum_speed_rad_s expected)
     then Inl (invalid_argument ''stored profile'') else Inr ())"

subsection \<open>Little-endian fields\<close>

definition put_u32_le :: "u8 list \<Rightarrow> nat \<Rightarrow> u32 \<Rightarrow> u8 list" where
  "put_u32_le bytes offset raw =
     fold (\<lambda>byte bs. bs[offset + byte := ucast (drop_bit (8 * byte) raw AND 0xFF)]) [0..<4] bytes"

definition write_float_le :: "u8 list \<Rightarrow> nat \<Rightarrow> u32 \<Rightarrow> exn + u8 list" where
  "write_float_le bytes offset v =
    (if \<not> isfinite (f32_value v) then Inl (invalid_argument ''float command'')
     else Inr (put_u32_le bytes offset v))"

definition read_u32_le :: "u8 list \<Rightarrow> nat \<Rightarrow> u32" where
  "read_u32_le bytes offset =
     ucast (bytes ! offset) OR push_bit 8 (ucast (bytes ! (offset + 1)))
     OR push_bit 16 (ucast (bytes ! (offset + 2))) OR push_bit 24 (ucast (bytes ! (offset + 3)))"

definition map_unsigned :: "u32 \<Rightarrow> f64 \<Rightarrow> u32 \<Rightarrow> f64" where
  "map_unsigned raw maximum encoded_maximum =
     f64_sub (f64_div (f64_mul (f64_of_int (uint raw)) (f64_mul (Fin 2) maximum))
                      (f64_of_int (uint encoded_maximum)))
             maximum"

definition float_value :: "RegisterReply \<Rightarrow> u32" where
  "float_value r = raw_value r"

subsection \<open>Frames\<close>

definition make_position_velocity_command :: "u16 \<Rightarrow> u32 \<Rightarrow> u32 \<Rightarrow> exn + CanFrame" where
  "make_position_velocity_command motor_id position_rad velocity_limit_rad_s =
    (case validate_motor_id motor_id of Inl e \<Rightarrow> Inl e | Inr _ \<Rightarrow>
     if f64_le (f32_value velocity_limit_rad_s) (Fin 0) then Inl (invalid_argument ''velocity limit'')
     else case write_float_le (frame_data new_frame) 0 position_rad of Inl e \<Rightarrow> Inl e | Inr d1 \<Rightarrow>
       case write_float_le d1 4 velocity_limit_rad_s of Inl e \<Rightarrow> Inl e | Inr d2 \<Rightarrow>
         Inr (new_frame\<lparr>frame_id := kPositionVelocityIdOffset + motor_id, frame_data := d2\<rparr>))"

definition make_special_command :: "u16 \<Rightarrow> special_command \<Rightarrow> exn + CanFrame" where
  "make_special_command motor_id command =
    (case validate_motor_id motor_id of Inl e \<Rightarrow> Inl e | Inr _ \<Rightarrow>
     Inr (new_frame\<lparr>frame_id := kPositionVelocityIdOffset + motor_id,
                    frame_data := (replicate 8 0xFF)[7 := special_code command]\<rparr>))"

definition register_header :: "u16 \<Rightarrow> u8 \<Rightarrow> u8 \<Rightarrow> u8 list" where
  "register_header motor_id operation code =
     [ucast (motor_id AND 0xFF), ucast (drop_bit 8 motor_id AND 0xFF), operation, code, 0, 0, 0, 0]"

definition make_register_read :: "u16 \<Rightarrow> motor_register \<Rightarrow> exn + CanFrame" where
  "make_register_read motor_id register_id =
    (case validate_motor_id motor_id of Inl e \<Rightarrow> Inl e | Inr _ \<Rightarrow>
     Inr (new_frame\<lparr>frame_id := kRegisterRequestId,
                    frame_data := register_header motor_id 0x33 (register_code register_id)\<rparr>))"

definition make_register_write_float :: "u16 \<Rightarrow> motor_register \<Rightarrow> u32 \<Rightarrow> exn + CanFrame" where
  "make_register_write_float motor_id register_id v =
    (case validate_motor_id motor_id of Inl e \<Rightarrow> Inl e | Inr _ \<Rightarrow>
     case write_float_le (register_header motor_id 0x55 (register_code register_id)) 4 v of
       Inl e \<Rightarrow> Inl e
     | Inr d \<Rightarrow> Inr (new_frame\<lparr>frame_id := kRegisterRequestId, frame_data := d\<rparr>))"

definition make_parameter_save :: "u16 \<Rightarrow> exn + CanFrame" where
  "make_parameter_save motor_id =
    (case validate_motor_id motor_id of Inl e \<Rightarrow> Inl e | Inr _ \<Rightarrow>
     Inr (new_frame\<lparr>frame_id := kRegisterRequestId,
                    frame_data := register_header motor_id 0xAA 0x01\<rparr>))"

definition decode_register_reply :: "CanFrame \<Rightarrow> exn + RegisterReply" where
  "decode_register_reply frame =
    (case validate_frame frame of Inl e \<Rightarrow> Inl e | Inr _ \<Rightarrow>
     let d = frame_data frame in
     if d ! 2 \<noteq> 0x33 \<and> d ! 2 \<noteq> 0x55 then Inl (invalid_argument ''unknown operation'')
     else let motor_id = ucast (d ! 0) OR push_bit 8 (ucast (d ! 1)) in
       if kStandardCanIdMaximum < motor_id then Inl (invalid_argument ''invalid motor ID'')
       else Inr \<lparr>rr_motor_id = motor_id, rr_operation = d ! 2, rr_register_id = d ! 3,
                 raw_value = read_u32_le d 4\<rparr>)"

definition decode_feedback :: "CanFrame \<Rightarrow> MotorLimits \<Rightarrow> exn + MotorFeedback" where
  "decode_feedback frame limits =
    (case validate_frame frame of Inl e \<Rightarrow> Inl e | Inr _ \<Rightarrow>
     if \<not> limits_valid limits then Inl (invalid_argument ''mapping limits'')
     else let d = frame_data frame;
              position = push_bit 8 (ucast (d ! 1)) OR ucast (d ! 2);
              velocity = push_bit 4 (ucast (d ! 3)) OR ucast (drop_bit 4 (d ! 4));
              effort = push_bit 8 (ucast (d ! 4 AND 0x0F)) OR ucast (d ! 5)
       in Inr \<lparr>mf_motor_id = d ! 0 AND 0x0F, mf_status = drop_bit 4 (d ! 0),
               mf_position = map_unsigned position (position_max limits) 0xFFFF,
               mf_velocity = map_unsigned velocity (velocity_max limits) 0x0FFF,
               mf_effort = map_unsigned effort (torque_max limits) 0x0FFF,
               mf_mos_temperature_c = f64_of_int (uint (d ! 6)),
               mf_motor_temperature_c = f64_of_int (uint (d ! 7))\<rparr>)"

subsection \<open>Fields read back what was written\<close>

lemma put_u32_le_expand:
  "put_u32_le bytes offset raw =
     bytes[offset := ucast (raw AND 0xFF), offset + 1 := ucast (drop_bit 8 raw AND 0xFF),
           offset + 2 := ucast (drop_bit 16 raw AND 0xFF),
           offset + 3 := ucast (drop_bit 24 raw AND 0xFF)]"
  by (simp add: put_u32_le_def upt_rec numeral_3_eq_3)

lemma length_put_u32_le [simp]: "length (put_u32_le bytes offset raw) = length bytes"
  by (simp add: put_u32_le_expand)

lemma put_u32_le_nth_other:
  "i < offset \<or> offset + 4 \<le> i \<Longrightarrow> put_u32_le bytes offset raw ! i = bytes ! i"
  by (auto simp: put_u32_le_expand)

lemma bytes_of_u32_join:
  fixes raw :: u32
  shows "ucast (ucast (raw AND 0xFF) :: u8) OR push_bit 8 (ucast (ucast (drop_bit 8 raw AND 0xFF) :: u8))
     OR push_bit 16 (ucast (ucast (drop_bit 16 raw AND 0xFF) :: u8))
     OR push_bit 24 (ucast (ucast (drop_bit 24 raw AND 0xFF) :: u8)) = raw"
proof -
  have ff: "(0xFF :: u32) = mask 8" by (simp add: mask_eq_exp_minus_1)
  show ?thesis
  proof (rule bit_word_eqI)
    fix n assume "n < LENGTH(32)"
    then consider "n < 8" | "8 \<le> n" "n < 16" | "16 \<le> n" "n < 24" | "24 \<le> n" "n < 32"
      by fastforce
    then show "bit (ucast (ucast (raw AND 0xFF) :: u8)
        OR push_bit 8 (ucast (ucast (drop_bit 8 raw AND 0xFF) :: u8))
        OR push_bit 16 (ucast (ucast (drop_bit 16 raw AND 0xFF) :: u8))
        OR push_bit 24 (ucast (ucast (drop_bit 24 raw AND 0xFF) :: u8)) :: u32) n = bit raw n"
      by cases (auto simp: ff bit_simps less_diff_conv2)
  qed
qed

lemma read_put_u32_le:
  assumes "offset + 4 \<le> length bytes"
  shows "read_u32_le (put_u32_le bytes offset raw) offset = raw"
  using assms bytes_of_u32_join [of raw]
  by (simp add: read_u32_le_def put_u32_le_expand)

lemma read_put_u32_le_other:
  assumes "i + 4 \<le> offset \<or> offset + 4 \<le> i"
  shows "read_u32_le (put_u32_le bytes offset raw) i = read_u32_le bytes i"
  using assms by (auto simp: read_u32_le_def put_u32_le_nth_other)

lemma motor_id_bytes_join:
  fixes m :: u16
  shows "ucast (ucast (m AND 0xFF) :: u8) OR push_bit 8 (ucast (ucast (drop_bit 8 m AND 0xFF) :: u8)) = m"
proof -
  have ff: "(0xFF :: u16) = mask 8" by (simp add: mask_eq_exp_minus_1)
  show ?thesis
    by (rule bit_word_eqI) (auto simp: ff bit_simps not_less)
qed

subsection \<open>Every frame the code builds is one the bus accepts\<close>

definition frame_ok :: "CanFrame \<Rightarrow> bool" where
  "frame_ok f \<longleftrightarrow>
     frame_id f \<le> CAN_SFF_MASK \<and> frame_length f = CAN_MAX_DLEN \<and> length (frame_data f) = 8"

lemmas frame_consts = new_frame_def kPayloadSize_def kRegisterRequestId_def
  kPositionVelocityIdOffset_def kStandardCanIdMaximum_def CAN_SFF_MASK_def CAN_MAX_DLEN_def

lemma motor_id_offset_le:
  assumes "\<not> (0x0F :: u16) < m"
  shows "0x100 + m \<le> 0x7FF"
proof -
  have "unat m \<le> 15" using assms by (simp add: word_less_nat_alt)
  then show ?thesis by (simp add: word_le_nat_alt unat_word_ariths)
qed

lemma write_float_le_Inr:
  "write_float_le bytes offset v = Inr d \<longleftrightarrow>
     isfinite (f32_value v) \<and> d = put_u32_le bytes offset v"
  by (auto simp: write_float_le_def)

lemma validate_motor_id_Inr: "validate_motor_id m = Inr u \<longleftrightarrow> m \<noteq> 0 \<and> m \<le> 0x0F"
  by (auto simp: validate_motor_id_def)

lemma frame_ok_make:
  "make_position_velocity_command m p v = Inr f \<Longrightarrow> frame_ok f"
  "make_special_command m c = Inr f \<Longrightarrow> frame_ok f"
  "make_register_read m r = Inr f \<Longrightarrow> frame_ok f"
  "make_register_write_float m r v = Inr f \<Longrightarrow> frame_ok f"
  "make_parameter_save m = Inr f \<Longrightarrow> frame_ok f"
  unfolding make_position_velocity_command_def make_special_command_def make_register_read_def
    make_register_write_float_def make_parameter_save_def validate_motor_id_def
  by (auto simp: frame_ok_def frame_consts register_header_def write_float_le_Inr
      motor_id_offset_le split: if_splits sum.splits)

lemma can_send_frame_ok:
  assumes "frame_ok f" "socket_is_open io"
  shows "fst (can_send f io) \<noteq> Inl (invalid_argument s)" "fst (can_send f io) \<noteq> Inl (logic_error s)"
  using assms by (auto simp: can_send_def frame_ok_def Let_def split: prod.splits)

end
