(* ===== verification/DamiaoHead.thy ===== *)
theory DamiaoHead
  imports Semantic
begin

text \<open>
  The enable sequence of the two-motor head (\<open>hw_can_damiao\<close>, \<open>head_state_machine.hpp\<close> and
  \<open>head_state_machine.cpp\<close>): the state machine behind the phase, fault and motion interfaces,
  and the limiter of command frames. Times are nanoseconds of the steady clock.
\<close>

subsection \<open>State and actions\<close>

record MotorStatus =
  ms_valid :: bool
  ms_status :: u8
  ms_received_at :: int

record HeadActions =
  seed_hold :: bool
  send_hold :: bool
  send_enable :: bool
  send_disable :: bool
  send_clear_fault :: bool
  allow_motion :: bool

record head =
  feedback_timeout :: int
  transition_timeout :: int
  transition_started_at :: int
  head_phase :: handshake_phase
  fault_flag :: bool
  handled_generation :: u64
  pending_generation :: u64

definition actions :: "bool \<Rightarrow> bool \<Rightarrow> bool \<Rightarrow> bool \<Rightarrow> bool \<Rightarrow> bool \<Rightarrow> HeadActions" where
  "actions a b c d e f = \<lparr>seed_hold = a, send_hold = b, send_enable = c, send_disable = d,
                         send_clear_fault = e, allow_motion = f\<rparr>"

definition no_actions :: HeadActions where
  "no_actions = actions False False False False False False"

text \<open>The constructor throws, here \<open>None\<close>, unless both timeouts are positive.\<close>

definition new_head :: "int \<Rightarrow> int \<Rightarrow> head option" where
  "new_head feedback transition_limit =
    (if feedback \<le> 0 \<or> transition_limit \<le> 0 then None
     else Some \<lparr>feedback_timeout = feedback, transition_timeout = transition_limit,
                transition_started_at = 0, head_phase = disabled, fault_flag = False,
                handled_generation = 0, pending_generation = 0\<rparr>)"

subsection \<open>Conditions on the motors\<close>

definition any_fault :: "MotorStatus list \<Rightarrow> bool" where
  "any_fault motors = list_ex (\<lambda>m. ms_valid m \<and> 1 < ms_status m) motors"

definition all_status :: "MotorStatus list \<Rightarrow> u8 \<Rightarrow> bool" where
  "all_status motors expected = list_all (\<lambda>m. ms_valid m \<and> ms_status m = expected) motors"

definition none_enabled :: "MotorStatus list \<Rightarrow> bool" where
  "none_enabled motors = list_all (\<lambda>m. \<not> (ms_valid m \<and> ms_status m = 1)) motors"

definition all_fresh :: "head \<Rightarrow> int \<Rightarrow> MotorStatus list \<Rightarrow> bool" where
  "all_fresh h now motors =
     list_all (\<lambda>m. ms_valid m \<and> ms_received_at m \<le> now
                   \<and> now - ms_received_at m \<le> feedback_timeout h) motors"

definition all_received_after_transition :: "head \<Rightarrow> MotorStatus list \<Rightarrow> bool" where
  "all_received_after_transition h motors =
     list_all (\<lambda>m. ms_valid m \<and> transition_started_at h < ms_received_at m) motors"

subsection \<open>One step\<close>

definition transition :: "handshake_phase \<Rightarrow> int \<Rightarrow> head \<Rightarrow> head" where
  "transition p now h = h\<lparr>head_phase := p, transition_started_at := now\<rparr>"

definition latch_fault :: "head \<Rightarrow> HeadActions \<times> head" where
  "latch_fault h =
    (actions False False False True False False, h\<lparr>head_phase := fault_latched, fault_flag := True\<rparr>)"

definition force_fault :: "head \<Rightarrow> HeadActions \<times> head" where
  "force_fault h = latch_fault h"

definition head_step ::
  "int \<Rightarrow> bool \<Rightarrow> u64 \<Rightarrow> MotorStatus list \<Rightarrow> head \<Rightarrow> HeadActions \<times> head" where
  "head_step now enable_requested reset_generation motors h =
    (let fresh = all_fresh h now motors;
         transition_timed_out = (transition_timeout h < now - transition_started_at h)
     in case head_phase h of
       disabled \<Rightarrow>
         (if any_fault motors then latch_fault h
          else let h1 = (if reset_generation \<noteq> handled_generation h
                         then h\<lparr>handled_generation := reset_generation\<rparr> else h)
            in if enable_requested \<and> fresh \<and> all_status motors 0
               then (actions True True True False False False, transition enabling now h1)
               else (no_actions, h1))
     | enabling \<Rightarrow>
         (if \<not> enable_requested
          then (actions False False False True False False, transition disabling now h)
          else if \<not> fresh \<or> any_fault motors \<or> transition_timed_out then latch_fault h
          else if all_received_after_transition h motors \<and> all_status motors 1
          then (actions True True False False False True, transition enabled now h)
          else (actions False True True False False False, h))
     | enabled \<Rightarrow>
         (if \<not> enable_requested
          then (actions False False False True False False, transition disabling now h)
          else if \<not> fresh \<or> any_fault motors \<or> \<not> all_status motors 1 then latch_fault h
          else (actions False False False False False True, h))
     | disabling \<Rightarrow>
         (if \<not> fresh \<or> any_fault motors \<or> transition_timed_out then latch_fault h
          else if all_received_after_transition h motors \<and> all_status motors 0
          then (no_actions, transition disabled now h)
          else (actions False False False True False False, h))
     | fault_latched \<Rightarrow>
         (if \<not> enable_requested \<and> reset_generation \<noteq> handled_generation h
          then (actions False False False True False False,
                transition reset_disabling now (h\<lparr>pending_generation := reset_generation\<rparr>))
          else (actions False False False True False False, h))
     | reset_disabling \<Rightarrow>
         (if enable_requested \<or> \<not> fresh \<or> transition_timed_out then latch_fault h
          else if all_received_after_transition h motors \<and> none_enabled motors
          then (actions False False False False True False, transition resetting now h)
          else (actions False False False True False False, h))
     | resetting \<Rightarrow>
         (if enable_requested \<or> \<not> fresh \<or> transition_timed_out then latch_fault h
          else if all_received_after_transition h motors \<and> all_status motors 0
          then (no_actions, h\<lparr>head_phase := disabled, fault_flag := False,
                              handled_generation := pending_generation h\<rparr>)
          else (actions False False False False True False, h)))"

subsection \<open>The limiter of command frames\<close>

record limiter =
  limiter_period :: int
  last_emitted_at :: "int option"

definition new_limiter :: "int \<Rightarrow> limiter option" where
  "new_limiter period =
    (if period \<le> 0 then None else Some \<lparr>limiter_period = period, last_emitted_at = None\<rparr>)"

definition due :: "int \<Rightarrow> limiter \<Rightarrow> bool \<times> limiter" where
  "due now l =
    (if (case last_emitted_at l of None \<Rightarrow> True
         | Some t \<Rightarrow> now < t \<or> limiter_period l \<le> now - t)
     then (True, l\<lparr>last_emitted_at := Some now\<rparr>) else (False, l))"

definition limiter_reset :: "limiter \<Rightarrow> limiter" where
  "limiter_reset l = l\<lparr>last_emitted_at := None\<rparr>"

subsection \<open>The fault flag is a function of the phase\<close>

definition fault_phase :: "handshake_phase \<Rightarrow> bool" where
  "fault_phase p \<longleftrightarrow> p = fault_latched \<or> p = reset_disabling \<or> p = resetting"

lemma fault_phase_simps [simp]:
  "fault_phase fault_latched" "fault_phase reset_disabling" "fault_phase resetting"
  "\<not> fault_phase disabled" "\<not> fault_phase enabling" "\<not> fault_phase enabled" "\<not> fault_phase disabling"
  by (simp_all add: fault_phase_def)

definition head_inv :: "head \<Rightarrow> bool" where
  "head_inv h \<longleftrightarrow> 0 < feedback_timeout h \<and> 0 < transition_timeout h \<and>
     (fault_flag h \<longleftrightarrow> fault_phase (head_phase h)) \<and>
     (head_phase h = reset_disabling \<or> head_phase h = resetting
        \<longrightarrow> pending_generation h \<noteq> handled_generation h)"

lemmas action_simps = actions_def no_actions_def

lemma transition_simps [simp]:
  "head_phase (transition p now h) = p"
  "transition_started_at (transition p now h) = now"
  "fault_flag (transition p now h) = fault_flag h"
  "handled_generation (transition p now h) = handled_generation h"
  "pending_generation (transition p now h) = pending_generation h"
  "feedback_timeout (transition p now h) = feedback_timeout h"
  "transition_timeout (transition p now h) = transition_timeout h"
  by (simp_all add: transition_def)

lemmas step_defs = head_step_def latch_fault_def force_fault_def Let_def action_simps

lemma new_head_inv: "new_head f t = Some h \<Longrightarrow> head_inv h"
  by (auto simp: new_head_def head_inv_def split: if_splits)

lemma force_fault_inv: "head_inv h \<Longrightarrow> head_inv (snd (force_fault h))"
  by (simp add: head_inv_def step_defs)

lemma head_step_inv: "head_inv h \<Longrightarrow> head_inv (snd (head_step now en gen motors h))"
  by (cases "head_phase h") (simp_all add: head_inv_def step_defs)

lemma head_step_timeouts [simp]:
  "feedback_timeout (snd (head_step now en gen motors h)) = feedback_timeout h"
  "transition_timeout (snd (head_step now en gen motors h)) = transition_timeout h"
  by (cases "head_phase h"; simp add: step_defs)+

end
