(* ===== verification/DamiaoSystem.thy ===== *)
theory DamiaoSystem
  imports DamiaoProtocol DamiaoHead
begin

text \<open>
  The hardware plugin of the head (\<open>hw_can_damiao\<close>, \<open>damiao_system.hpp\<close> and the cyclic and lifecycle
  part of \<open>damiao_system.cpp\<close>): it exchanges frames with two motors, runs the state machine of
  \<open>DamiaoHead\<close> in every control cycle and shows its phase to the enable manager. The exported
  interfaces are the fields of the state that the controllers read and write.
\<close>

subsection \<open>State\<close>

record Motor =
  can_id :: u16
  master_id :: u16
  velocity_limit :: f64
  command_min :: f64
  command_max :: f64
  expected_profile :: TrapezoidalProfile
  m_limits :: MotorLimits
  m_command :: f64
  m_position :: f64
  m_velocity :: f64
  m_effort :: f64
  m_fault_code :: f64
  m_mos_temperature :: f64
  m_motor_temperature :: f64
  m_feedback_age_ms :: f64
  m_enabled :: f64
  m_status :: u8
  m_received_at :: int

record damiao =
  dm_io :: can_io
  joint_names :: "string list"
  gpio_name :: string
  can_interface :: string
  configure_timeout_ms :: int
  feedback_timeout_ms :: int
  transition_timeout_ms :: int
  disabled_poll_interval_ms :: int
  command_rate_hz :: f64
  max_rx_frames_per_cycle :: nat
  motors :: "Motor list"
  hardware_active :: bool
  command_interfaces_active :: bool
  enable_request :: f64
  reset_generation :: f64
  phase_state :: f64
  fault_latched_state :: f64
  handled_reset_generation_state :: f64
  motion_allowed_state :: f64
  state_machine :: "head option"
  command_rate_limiter :: "limiter option"
  special_rate_limiter :: "limiter option"
  last_disabled_poll_at :: int

datatype return_type = OK | ERROR

text \<open>Operations of the socket and readings of the clock, on the whole state.\<close>

definition with_io :: "(can_io \<Rightarrow> 'a \<times> can_io) \<Rightarrow> damiao \<Rightarrow> 'a \<times> damiao" where
  "with_io f d = (let (x, io) = f (dm_io d) in (x, d\<lparr>dm_io := io\<rparr>))"

definition clock_now :: "damiao \<Rightarrow> (exn + int) \<times> damiao" where
  "clock_now = with_io (\<lambda>io. let (t, io1) = steady_now io in (Inr t, io1))"

subsection \<open>Sending\<close>

fun send_to_motors :: "(Motor \<Rightarrow> exn + CanFrame) \<Rightarrow> Motor list \<Rightarrow> can_io \<Rightarrow> (exn + unit) \<times> can_io" where
  "send_to_motors build [] = ereturn ()"
| "send_to_motors build (m # ms) =
    ebind (elift (build m)) (\<lambda>frame. ebind (can_send frame) (\<lambda>_. send_to_motors build ms))"

definition send_special :: "special_command \<Rightarrow> damiao \<Rightarrow> (exn + unit) \<times> damiao" where
  "send_special command d =
     with_io (send_to_motors (\<lambda>m. make_special_command (can_id m) command) (motors d)) d"

definition position_frame :: "Motor \<Rightarrow> exn + CanFrame" where
  "position_frame m =
     make_position_velocity_command (can_id m) (f32_of_f64 (m_command m)) (f32_of_f64 (velocity_limit m))"

text \<open>\<open>send_disable\<close> tries every motor and ignores what goes wrong.\<close>

definition try_disable :: "Motor \<Rightarrow> can_io \<Rightarrow> can_io" where
  "try_disable m io =
     snd (ebind (elift (make_special_command (can_id m) disable_motor)) can_send io)"

definition dm_send_disable :: "damiao \<Rightarrow> damiao" where
  "dm_send_disable d =
    (if \<not> socket_is_open (dm_io d) then d
     else d\<lparr>dm_io := fold try_disable (motors d) (dm_io d)\<rparr>)"

subsection \<open>Receiving\<close>

definition is_register_reply :: "Motor \<Rightarrow> CanFrame \<Rightarrow> bool" where
  "is_register_reply m frame \<longleftrightarrow>
     frame_data frame ! 0 = ucast (can_id m AND 0xFF) \<and>
     frame_data frame ! 1 = ucast (drop_bit 8 (can_id m) AND 0xFF) \<and>
     (frame_data frame ! 2 = 0x33 \<or> frame_data frame ! 2 = 0x55 \<or> frame_data frame ! 2 = 0xAA)"

definition store_feedback :: "MotorFeedback \<Rightarrow> int \<Rightarrow> Motor \<Rightarrow> Motor" where
  "store_feedback fb stamp m =
     m\<lparr>m_position := mf_position fb, m_velocity := mf_velocity fb, m_effort := mf_effort fb,
       m_fault_code := (if mf_status fb \<le> 1 then Fin 0 else f64_of_int (uint (mf_status fb))),
       m_enabled := (if mf_status fb = 1 then Fin 1 else Fin 0), m_status := mf_status fb,
       m_mos_temperature := mf_mos_temperature_c fb,
       m_motor_temperature := mf_motor_temperature_c fb, m_received_at := stamp\<rparr>"

fun observe_loop :: "CanFrame \<Rightarrow> int \<Rightarrow> Motor list \<Rightarrow> exn + Motor list" where
  "observe_loop frame stamp [] = Inr []"
| "observe_loop frame stamp (m # ms) =
    (if frame_id frame \<noteq> master_id m then map_sum (\<lambda>e. e) ((#) m) (observe_loop frame stamp ms)
     else if is_register_reply m frame then Inr (m # ms)
     else if \<not> limits_valid (m_limits m) then Inr (m # ms)
     else case decode_feedback frame (m_limits m) of
            Inl e \<Rightarrow> Inl e
          | Inr fb \<Rightarrow>
              (if ucast (mf_motor_id fb) \<noteq> can_id m
               then map_sum (\<lambda>e. e) ((#) m) (observe_loop frame stamp ms)
               else Inr (store_feedback fb stamp m # ms)))"

definition observe_frame :: "CanFrame \<Rightarrow> int \<Rightarrow> damiao \<Rightarrow> (exn + unit) \<times> damiao" where
  "observe_frame frame stamp d =
    (case observe_loop frame stamp (motors d) of
       Inl e \<Rightarrow> (Inl e, d) | Inr ms \<Rightarrow> (Inr (), d\<lparr>motors := ms\<rparr>))"

fun receive_loop :: "nat \<Rightarrow> damiao \<Rightarrow> (exn + unit) \<times> damiao" where
  "receive_loop 0 = ereturn ()"
| "receive_loop (Suc n) =
    ebind (with_io can_receive) (\<lambda>received.
      case received of
        None \<Rightarrow> ereturn ()
      | Some frame \<Rightarrow> ebind clock_now (\<lambda>t. ebind (observe_frame frame t) (\<lambda>_. receive_loop n)))"

definition feedback_age :: "int \<Rightarrow> Motor \<Rightarrow> f64" where
  "feedback_age now m =
    (if m_received_at m = 0 then PInf
     else f64_div (f64_of_int (now - m_received_at m)) (Fin 1000000))"

definition read_body :: "damiao \<Rightarrow> (exn + unit) \<times> damiao" where
  "read_body d =
    ebind (receive_loop (max_rx_frames_per_cycle d)) (\<lambda>_. ebind clock_now (\<lambda>now d.
      (Inr (), d\<lparr>motors := map (\<lambda>m. m\<lparr>m_feedback_age_ms := feedback_age now m\<rparr>) (motors d)\<rparr>))) d"

definition dm_read :: "damiao \<Rightarrow> return_type \<times> damiao" where
  "dm_read d =
    (case read_body d of
       (Inr _, d1) \<Rightarrow> (OK, d1)
     | (Inl _, d1) \<Rightarrow> (ERROR, (dm_send_disable d1)\<lparr>command_interfaces_active := False\<rparr>))"

subsection \<open>The interfaces shown to the enable manager\<close>

definition update_control_states :: "damiao \<Rightarrow> damiao" where
  "update_control_states d =
    (case state_machine d of
       None \<Rightarrow> d\<lparr>phase_state := f64_of_int (int (phase_code disabled)), fault_latched_state := Fin 0,
                 handled_reset_generation_state := Fin 0, motion_allowed_state := Fin 0\<rparr>
     | Some h \<Rightarrow> d\<lparr>phase_state := f64_of_int (int (phase_code (head_phase h))),
                   fault_latched_state := (if fault_flag h then Fin 1 else Fin 0),
                   handled_reset_generation_state := f64_of_int (uint (handled_generation h)),
                   motion_allowed_state := (if head_phase h = enabled then Fin 1 else Fin 0)\<rparr>)"

subsection \<open>The cyclic write\<close>

text \<open>
  The enable request must be 0 or 1 and the generation a nonnegative integer. The cast of a
  generation of \<open>2 ^ 64\<close> or more is undefined in C++; the model wraps it.
\<close>

definition requests_readable :: "damiao \<Rightarrow> bool" where
  "requests_readable d \<longleftrightarrow>
     \<not> (\<not> isfinite (enable_request d)
        \<or> \<not> f64_eq (enable_request d) (Fin 0) \<and> \<not> f64_eq (enable_request d) (Fin 1)
        \<or> \<not> isfinite (reset_generation d) \<or> f64_less (reset_generation d) (Fin 0)
        \<or> \<not> f64_eq (f64_trunc (reset_generation d)) (reset_generation d))"

definition no_status :: MotorStatus where
  "no_status = \<lparr>ms_valid = False, ms_status = 0, ms_received_at = 0\<rparr>"

definition motor_statuses :: "Motor list \<Rightarrow> MotorStatus list" where
  "motor_statuses ms =
     fold (\<lambda>i statuses. statuses[i := \<lparr>ms_valid = m_received_at (ms ! i) \<noteq> 0,
                                   ms_status = m_status (ms ! i),
                                   ms_received_at = m_received_at (ms ! i)\<rparr>])
       [0..<length ms] [no_status, no_status]"

definition command_in_range :: "Motor \<Rightarrow> bool" where
  "command_in_range m \<longleftrightarrow> isfinite (m_command m) \<and> f64_le (command_min m) (m_command m)
     \<and> f64_le (m_command m) (command_max m)"

text \<open>From the requests to the actions of this cycle: one step of the machine and its checks.\<close>

definition advance :: "int \<Rightarrow> head \<Rightarrow> damiao \<Rightarrow> HeadActions \<times> damiao" where
  "advance now h d =
    (let (acts, h1) = head_step now (f64_eq (enable_request d) (Fin 1))
           (word_of_int (f64_to_int (reset_generation d))) (motor_statuses (motors d)) h;
         d1 = d\<lparr>state_machine := Some h1\<rparr>;
         d2 = (if head_phase h1 \<noteq> head_phase h
               then let e = d1\<lparr>special_rate_limiter := map_option limiter_reset (special_rate_limiter d1)\<rparr>
                    in if head_phase h1 = enabling \<or> head_phase h1 = enabled
                       then e\<lparr>command_rate_limiter := map_option limiter_reset (command_rate_limiter e)\<rparr>
                       else e
               else d1);
         d3 = (if seed_hold acts
               then d2\<lparr>motors := map (\<lambda>m. m\<lparr>m_command := m_position m\<rparr>) (motors d2)\<rparr> else d2);
         (acts1, d4) =
           (if allow_motion acts \<and> \<not> list_all command_in_range (motors d3)
            then let (a, h2) = force_fault h1
                 in (a, d3\<lparr>state_machine := Some h2,
                          special_rate_limiter := map_option limiter_reset (special_rate_limiter d3)\<rparr>)
            else (acts, d3))
     in (acts1, update_control_states d4))"

definition special_due :: "int \<Rightarrow> damiao \<Rightarrow> bool \<times> damiao" where
  "special_due now d =
    (let (answer, l) = due now (the (special_rate_limiter d)) in (answer, d\<lparr>special_rate_limiter := Some l\<rparr>))"

definition command_due :: "int \<Rightarrow> damiao \<Rightarrow> bool \<times> damiao" where
  "command_due now d =
    (let (answer, l) = due now (the (command_rate_limiter d)) in (answer, d\<lparr>command_rate_limiter := Some l\<rparr>))"

text \<open>
  \<open>a && due()\<close> asks the limiter only when \<open>a\<close> holds, so the three tests of the code consult it
  at most once each.
\<close>

definition and_due :: "bool \<Rightarrow> (damiao \<Rightarrow> bool \<times> damiao) \<Rightarrow> damiao \<Rightarrow> bool \<times> damiao" where
  "and_due wanted ask d = (if wanted then ask d else (False, d))"

definition transmit_special :: "int \<Rightarrow> HeadActions \<Rightarrow> damiao \<Rightarrow> (exn + unit) \<times> damiao" where
  "transmit_special now acts d =
    (let (go1, d1) = and_due (send_disable acts) (special_due now) d
     in if go1 then send_special disable_motor d1
        else let (go2, d2) = and_due (send_clear_fault acts) (special_due now) d1
     in if go2 then send_special clear_fault d2
        else let (go3, d3) = and_due (send_enable acts) (special_due now) d2
     in if go3 then send_special enable_motor d3 else (Inr (), d3))"

definition transmit_command :: "int \<Rightarrow> HeadActions \<Rightarrow> damiao \<Rightarrow> (exn + unit) \<times> damiao" where
  "transmit_command now acts d =
    (let (go, d1) = and_due (send_hold acts \<or> allow_motion acts) (command_due now) d
     in if go then with_io (send_to_motors position_frame (motors d1)) d1
        else if head_phase (the (state_machine d1)) = disabled
                \<and> disabled_poll_interval_ms d1 * 1000000 \<le> now - last_disabled_poll_at d1
        then ebind (send_special disable_motor) (\<lambda>_ d. (Inr (), d\<lparr>last_disabled_poll_at := now\<rparr>)) d1
        else (Inr (), d1))"

definition write_body :: "damiao \<Rightarrow> (exn + unit) \<times> damiao" where
  "write_body =
    ebind clock_now (\<lambda>now d.
      if \<not> requests_readable d
      then (Inr (), dm_send_disable (update_control_states
              (d\<lparr>state_machine := Some (snd (force_fault (the (state_machine d))))\<rparr>)))
      else let (acts, d1) = advance now (the (state_machine d)) d
           in ebind (transmit_special now acts) (\<lambda>_. transmit_command now acts) d1)"

definition dm_write :: "damiao \<Rightarrow> return_type \<times> damiao" where
  "dm_write d =
    (if \<not> hardware_active d \<or> \<not> socket_is_open (dm_io d) \<or> state_machine d = None
        \<or> command_rate_limiter d = None \<or> special_rate_limiter d = None
     then (OK, d)
     else case write_body d of
            (Inr _, d1) \<Rightarrow> (OK, d1)
          | (Inl _, d1) \<Rightarrow> (ERROR, (dm_send_disable d1)\<lparr>command_interfaces_active := False\<rparr>))"

subsection \<open>Command mode switches\<close>

definition relevant_interface_count :: "string list \<Rightarrow> damiao \<Rightarrow> nat" where
  "relevant_interface_count names d =
     length (filter (\<lambda>i. joint_names d ! i @ ''/position'' \<in> set names) [0..<length (motors d)])"

definition all_position_interfaces :: "string list \<Rightarrow> damiao \<Rightarrow> bool" where
  "all_position_interfaces names d \<longleftrightarrow> relevant_interface_count names d = length (motors d)"

definition prepare_command_mode_switch :: "string list \<Rightarrow> string list \<Rightarrow> damiao \<Rightarrow> return_type" where
  "prepare_command_mode_switch start stop d =
    (let starts = relevant_interface_count start d; stops = relevant_interface_count stop d
     in if starts \<noteq> 0 \<and> \<not> all_position_interfaces start d
           \<or> stops \<noteq> 0 \<and> \<not> all_position_interfaces stop d \<or> starts \<noteq> 0 \<and> stops \<noteq> 0
        then ERROR else OK)"

text \<open>
  The loop that seeds the commands stops at the first motor without bounded feedback; the motors
  before it keep the seeded command.
\<close>

fun seed_bounded :: "Motor list \<Rightarrow> bool \<times> Motor list" where
  "seed_bounded [] = (True, [])"
| "seed_bounded (m # ms) =
    (if \<not> isfinite (m_position m) \<or> f64_less (m_position m) (command_min m)
        \<or> f64_less (command_max m) (m_position m)
     then (False, m # ms)
     else let (ok, rest) = seed_bounded ms in (ok, m\<lparr>m_command := m_position m\<rparr> # rest))"

definition perform_command_mode_switch :: "string list \<Rightarrow> string list \<Rightarrow> damiao \<Rightarrow> return_type \<times> damiao" where
  "perform_command_mode_switch start stop d =
    (let d1 = (if relevant_interface_count stop d \<noteq> 0
               then d\<lparr>command_interfaces_active := False,
                      motors := map (\<lambda>m. if isfinite (m_position m)
                                         then m\<lparr>m_command := m_position m\<rparr> else m) (motors d)\<rparr>
               else d)
     in if relevant_interface_count start d1 = 0 then (OK, d1)
        else if \<not> hardware_active d1 \<or> \<not> socket_is_open (dm_io d1) then (ERROR, d1)
        else let (ok, ms) = seed_bounded (motors d1); d2 = d1\<lparr>motors := ms\<rparr>
             in if ok then (OK, d2\<lparr>command_interfaces_active := True\<rparr>) else (ERROR, d2))"

subsection \<open>Lifecycle\<close>

definition close_bus :: "damiao \<Rightarrow> damiao" where
  "close_bus d = d\<lparr>dm_io := socket_close (dm_io d)\<rparr>"

definition set_inactive :: "damiao \<Rightarrow> damiao" where
  "set_inactive d = d\<lparr>hardware_active := False, command_interfaces_active := False\<rparr>"

definition dm_on_cleanup :: "damiao \<Rightarrow> damiao" where
  "dm_on_cleanup d = set_inactive (close_bus (dm_send_disable d))"

definition dm_on_activate :: "damiao \<Rightarrow> return_type \<times> damiao" where
  "dm_on_activate d =
    (if \<not> socket_is_open (dm_io d) then (ERROR, d)
     else (OK, d\<lparr>hardware_active := True, command_interfaces_active := False,
                 last_disabled_poll_at := 0\<rparr>))"

definition dm_on_deactivate :: "damiao \<Rightarrow> damiao" where
  "dm_on_deactivate d = set_inactive ((dm_send_disable d)\<lparr>enable_request := Fin 0\<rparr>)"

definition dm_on_shutdown :: "damiao \<Rightarrow> damiao" where
  "dm_on_shutdown d = set_inactive (close_bus (dm_send_disable d))"

definition dm_on_error :: "damiao \<Rightarrow> damiao" where
  "dm_on_error d = set_inactive (close_bus (dm_send_disable d))"

definition dm_destroy :: "damiao \<Rightarrow> damiao" where
  "dm_destroy d = close_bus (dm_send_disable d)"

end
