(* ===== verification/DamiaoBus.thy ===== *)
theory DamiaoBus
  imports DamiaoSystem
begin

text \<open>
  What the plugin's cycle leaves alone and what it puts on the bus: frame lemmas of \<open>DamiaoSystem\<close>
  and the relation \<open>wire_ext\<close> that describes the frames an operation adds to the bus.
\<close>

subsection \<open>Frames added to the bus\<close>

definition native_of :: "CanFrame \<Rightarrow> can_frame" where
  "native_of f = \<lparr>cf_id = ucast (frame_id f), cf_dlc = frame_length f, cf_data = frame_data f\<rparr>"

definition wire_ext :: "(CanFrame \<Rightarrow> bool) \<Rightarrow> can_io \<Rightarrow> can_io \<Rightarrow> bool" where
  "wire_ext P io io' \<longleftrightarrow> (\<exists>fs. k_wire io' = k_wire io @ map native_of fs \<and> list_all P fs)"

lemma wire_ext_refl [simp, intro]: "wire_ext P io io"
  unfolding wire_ext_def by (rule exI [of _ "[]"]) simp

lemma wire_ext_same: "k_wire io' = k_wire io \<Longrightarrow> wire_ext P io io'"
  unfolding wire_ext_def by (rule exI [of _ "[]"]) simp

lemma wire_ext_trans [trans]: "wire_ext P a b \<Longrightarrow> wire_ext P b c \<Longrightarrow> wire_ext P a c"
  unfolding wire_ext_def
proof (elim exE conjE)
  fix fs gs
  assume "k_wire b = k_wire a @ map native_of fs" "list_all P fs"
    "k_wire c = k_wire b @ map native_of gs" "list_all P gs"
  then show "\<exists>hs. k_wire c = k_wire a @ map native_of hs \<and> list_all P hs"
    by (intro exI [of _ "fs @ gs"]) simp
qed

lemma wire_ext_mono: "wire_ext P a b \<Longrightarrow> (\<And>f. P f \<Longrightarrow> Q f) \<Longrightarrow> wire_ext Q a b"
  unfolding wire_ext_def by (metis list.pred_mono_strong)

lemma can_send_wire: "wire_ext (\<lambda>g. g = f) io (snd (can_send f io))"
proof -
  have "k_wire (snd (can_send f io)) = k_wire io \<or>
      k_wire (snd (can_send f io)) = k_wire io @ map native_of [f]"
    by (simp add: can_send_def socket_send_def native_of_def Let_def split: list.splits send_result.splits)
  then show ?thesis
    unfolding wire_ext_def by (elim disjE) (rule exI [of _ "[]"] exI [of _ "[f]"], simp)+
qed

lemma can_receive_wire [simp]: "k_wire (snd (can_receive io)) = k_wire io"
  by (simp add: can_receive_def socket_receive_def Let_def
      split: list.splits recv_result.splits option.splits)

lemma steady_now_wire [simp]: "k_wire (snd (steady_now io)) = k_wire io"
  by (simp add: steady_now_def split: list.splits)

lemma descriptor_kept [simp]:
  "descriptor (snd (can_send f io)) = descriptor io"
  "descriptor (snd (can_receive io)) = descriptor io"
  "descriptor (snd (steady_now io)) = descriptor io"
  by (simp_all add: can_send_def socket_send_def can_receive_def socket_receive_def steady_now_def
      Let_def split: list.splits send_result.splits recv_result.splits option.splits)

lemma snd_ebind: "snd (ebind m f s) = (case fst (m s) of Inl e \<Rightarrow> snd (m s) | Inr x \<Rightarrow> snd (f x (snd (m s))))"
  by (cases "m s") (simp add: ebind_def split: sum.splits)

lemma fst_ebind: "fst (ebind m f s) = (case fst (m s) of Inl e \<Rightarrow> Inl e | Inr x \<Rightarrow> fst (f x (snd (m s))))"
  by (cases "m s") (simp add: ebind_def split: sum.splits)

lemma elift_simps [simp]: "fst (elift r s) = r" "snd (elift r s) = s"
  by (simp_all add: elift_def)

lemma ereturn_simps [simp]: "fst (ereturn x s) = Inr x" "snd (ereturn x s) = s"
  by (simp_all add: ereturn_def)

lemma send_to_motors_wire:
  "wire_ext (\<lambda>f. \<exists>m \<in> set ms. build m = Inr f) io (snd (send_to_motors build ms io))"
proof (induction ms arbitrary: io)
  case Nil
  then show ?case by simp
next
  case (Cons m ms)
  show ?case
  proof (cases "build m")
    case (Inl e)
    then show ?thesis by (simp add: snd_ebind)
  next
    case (Inr f)
    have "wire_ext (\<lambda>f. \<exists>m \<in> set (m # ms). build m = Inr f) io (snd (can_send f io))"
      using can_send_wire by (rule wire_ext_mono) (simp add: Inr)
    moreover have "wire_ext (\<lambda>f. \<exists>m \<in> set (m # ms). build m = Inr f) (snd (can_send f io))
        (snd (send_to_motors build ms (snd (can_send f io))))"
      using Cons.IH by (rule wire_ext_mono) auto
    ultimately show ?thesis
      using wire_ext_trans by (fastforce simp: snd_ebind Inr split: sum.splits)
  qed
qed

lemma send_to_motors_descriptor [simp]:
  "descriptor (snd (send_to_motors build ms io)) = descriptor io"
  by (induction ms arbitrary: io) (simp_all add: snd_ebind split: sum.splits)

definition disable_frame :: "Motor list \<Rightarrow> CanFrame \<Rightarrow> bool" where
  "disable_frame ms f \<longleftrightarrow> (\<exists>m \<in> set ms. make_special_command (can_id m) disable_motor = Inr f)"

lemma try_disable_wire: "wire_ext (\<lambda>f. make_special_command (can_id m) disable_motor = Inr f) io (try_disable m io)"
  using can_send_wire [of _ io]
  by (auto simp: try_disable_def snd_ebind split: sum.splits intro: wire_ext_mono)

lemma fold_try_disable_wire: "wire_ext (disable_frame ms) io (fold try_disable ms io)"
proof (induction ms arbitrary: io)
  case Nil
  then show ?case by simp
next
  case (Cons m ms)
  have "wire_ext (disable_frame (m # ms)) io (try_disable m io)"
    using try_disable_wire by (rule wire_ext_mono) (simp add: disable_frame_def)
  moreover have "wire_ext (disable_frame (m # ms)) (try_disable m io) (fold try_disable ms (try_disable m io))"
    using Cons.IH by (rule wire_ext_mono) (auto simp: disable_frame_def)
  ultimately show ?case using wire_ext_trans by simp
qed

lemma fold_try_disable_descriptor [simp]: "descriptor (fold try_disable ms io) = descriptor io"
  by (induction ms arbitrary: io) (simp_all add: try_disable_def snd_ebind split: sum.splits)

lemma dm_send_disable_wire: "wire_ext (disable_frame (motors d)) (dm_io d) (dm_io (dm_send_disable d))"
  by (simp add: dm_send_disable_def fold_try_disable_wire)

subsection \<open>What an operation leaves alone\<close>

text \<open>An operation that changes nothing but the bus and the clock.\<close>

lemma with_io_state: "snd (with_io f d) = d\<lparr>dm_io := snd (f (dm_io d))\<rparr>"
  and with_io_result: "fst (with_io f d) = fst (f (dm_io d))"
  by (simp_all add: with_io_def split_beta)

lemma clock_now_state: "snd (clock_now d) = d\<lparr>dm_io := snd (steady_now (dm_io d))\<rparr>"
  and clock_now_result: "fst (clock_now d) = Inr (fst (steady_now (dm_io d)))"
  by (simp_all add: clock_now_def with_io_def split_beta)

lemma send_special_state:
  "snd (send_special c d) =
     d\<lparr>dm_io := snd (send_to_motors (\<lambda>m. make_special_command (can_id m) c) (motors d) (dm_io d))\<rparr>"
  by (simp add: send_special_def with_io_state)

text \<open>
  The part of the state the machine's decisions rest on: motors, machine, requests and shown
  states. The transmission leaves it alone.
\<close>

definition core :: "damiao \<Rightarrow> damiao" where
  "core d = d\<lparr>dm_io := undefined, special_rate_limiter := undefined,
             command_rate_limiter := undefined, last_disabled_poll_at := undefined\<rparr>"

lemma core_updates [simp]:
  "core (d\<lparr>dm_io := io\<rparr>) = core d"
  "core (d\<lparr>special_rate_limiter := l\<rparr>) = core d"
  "core (d\<lparr>command_rate_limiter := l\<rparr>) = core d"
  "core (d\<lparr>last_disabled_poll_at := t\<rparr>) = core d"
  by (simp_all add: core_def)

lemma core_fields:
  assumes "core d = core d'"
  shows "motors d = motors d'" "state_machine d = state_machine d'"
    "hardware_active d = hardware_active d'"
    "command_interfaces_active d = command_interfaces_active d'"
    "enable_request d = enable_request d'" "reset_generation d = reset_generation d'"
    "phase_state d = phase_state d'" "fault_latched_state d = fault_latched_state d'"
    "handled_reset_generation_state d = handled_reset_generation_state d'"
    "motion_allowed_state d = motion_allowed_state d'"
  using assms unfolding core_def by (cases d; cases d'; simp)+

lemma core_send_special [simp]: "core (snd (send_special c d)) = core d"
  by (simp add: send_special_state)

lemma core_special_due [simp]: "core (snd (special_due t d)) = core d"
  by (simp add: special_due_def split_beta)

lemma core_command_due [simp]: "core (snd (command_due t d)) = core d"
  by (simp add: command_due_def split_beta)

lemma core_and_due: "(\<And>d. core (snd (ask d)) = core d) \<Longrightarrow> core (snd (and_due b ask d)) = core d"
  by (simp add: and_due_def)

lemma core_transmit_special [simp]: "core (snd (transmit_special t a d)) = core d"
  by (simp add: transmit_special_def Let_def split_beta core_and_due)

lemma core_transmit_command [simp]: "core (snd (transmit_command t a d)) = core d"
  by (simp add: transmit_command_def Let_def split_beta core_and_due with_io_state snd_ebind
      split: sum.splits)

lemma core_dm_send_disable [simp]: "core (dm_send_disable d) = core d"
  by (simp add: dm_send_disable_def)

lemma core_clock_now [simp]: "core (snd (clock_now d)) = core d"
  by (simp add: clock_now_state)

end
