(* ===== verification/DamiaoHeadClaims.thy ===== *)
theory DamiaoHeadClaims
  imports DamiaoHead
begin

text \<open>
  Properties of the head's state machine and of its command limiter: what motion requires, how a
  fault is left, how long a transition lasts, how often a command is sent.
\<close>

subsection \<open>Inputs and runs\<close>

record head_input =
  in_now :: int
  in_enable :: bool
  in_generation :: u64
  in_motors :: "MotorStatus list"

definition head_next :: "head_input \<Rightarrow> head \<Rightarrow> HeadActions \<times> head" where
  "head_next i h = head_step (in_now i) (in_enable i) (in_generation i) (in_motors i) h"

text \<open>\<open>head_reaches h xs h'\<close>: the inputs \<open>xs\<close>, oldest first, take the machine from \<open>h\<close> to \<open>h'\<close>.\<close>

inductive head_reaches :: "head \<Rightarrow> head_input list \<Rightarrow> head \<Rightarrow> bool" for h where
  stay: "head_reaches h [] h"
| step: "head_reaches h xs h1 \<Longrightarrow> head_reaches h (xs @ [i]) (snd (head_next i h1))"

inductive_cases head_reaches_emptyE: "head_reaches h [] h'"

lemma head_reaches_inv: "head_reaches h xs h' \<Longrightarrow> head_inv h \<Longrightarrow> head_inv h'"
  by (induction rule: head_reaches.induct) (simp_all add: head_next_def head_step_inv)

lemma head_reaches_timeouts:
  "head_reaches h xs h' \<Longrightarrow> feedback_timeout h' = feedback_timeout h
     \<and> transition_timeout h' = transition_timeout h"
  by (induction rule: head_reaches.induct) (simp_all add: head_next_def)

subsection \<open>Motion\<close>

lemma allow_motion_iff_enabled:
  "allow_motion (fst (head_step now en gen motors h)) \<longleftrightarrow>
     head_phase (snd (head_step now en gen motors h)) = enabled"
  by (cases "head_phase h") (simp_all add: step_defs)

lemma step_enabled:
  assumes "head_phase (snd (head_step now en gen motors h)) = enabled"
  shows "en" "all_fresh h now motors" "all_status motors 1" "\<not> any_fault motors"
    "head_phase h = enabled \<or> head_phase h = enabling \<and> all_received_after_transition h motors"
  using assms
  by (cases "head_phase h"; auto simp: step_defs split: if_splits)+

lemma step_enabling:
  assumes "head_phase (snd (head_step now en gen motors h)) = enabling"
  shows "en" "all_fresh h now motors" "\<not> any_fault motors"
    "head_phase h = enabling \<and> transition_started_at (snd (head_step now en gen motors h)) = transition_started_at h
     \<or> head_phase h = disabled \<and> all_status motors 0 \<and>
       transition_started_at (snd (head_step now en gen motors h)) = now"
  using assms
  by (cases "head_phase h"; auto simp: step_defs split: if_splits)+

text \<open>
  C19: motion is allowed in a step exactly when the machine is then in the enabled phase, and only
  while enable is requested and both motors are heard from within the feedback timeout and report
  that they are enabled; the fault flag is then clear. No other phase allows motion, and a motor
  that is silent, faulted or disabled stops it in the same step.
\<close>

theorem motion_needs_both_motors_enabled:
  assumes "head_inv h"
  shows "allow_motion (fst (head_step now en gen motors h)) =
      (head_phase (snd (head_step now en gen motors h)) = enabled) \<and>
    (allow_motion (fst (head_step now en gen motors h)) \<longrightarrow>
      en \<and> \<not> fault_flag (snd (head_step now en gen motors h)) \<and>
      list_all (\<lambda>m. ms_valid m \<and> ms_status m = 1 \<and> ms_received_at m \<le> now \<and>
        now - ms_received_at m \<le> feedback_timeout h) motors)"
proof -
  have inv: "head_inv (snd (head_step now en gen motors h))"
    using assms by (rule head_step_inv)
  show ?thesis
  proof (intro conjI impI allow_motion_iff_enabled)
    assume "allow_motion (fst (head_step now en gen motors h))"
    then have e: "head_phase (snd (head_step now en gen motors h)) = enabled"
      by (simp add: allow_motion_iff_enabled)
    show "en" using step_enabled(1) [OF e] .
    show "\<not> fault_flag (snd (head_step now en gen motors h))"
      using inv e by (simp add: head_inv_def)
    show "list_all (\<lambda>m. ms_valid m \<and> ms_status m = 1 \<and> ms_received_at m \<le> now \<and>
        now - ms_received_at m \<le> feedback_timeout h) motors"
      using step_enabled(2,3) [OF e] by (auto simp: all_fresh_def all_status_def list_all_iff)
  qed
qed

definition report :: "u8 \<Rightarrow> int \<Rightarrow> MotorStatus" where
  "report s t = \<lparr>ms_valid = True, ms_status = s, ms_received_at = t\<rparr>"

definition sample_head :: head where
  "sample_head = the (new_head 50 250)"

definition enabled_head :: head where
  "enabled_head = snd (head_step 130 True 0 [report 1 120, report 1 125]
     (snd (head_step 100 True 0 [report 0 90, report 0 95] sample_head)))"

lemma sample_head_inv: "head_inv sample_head"
  using new_head_inv [of 50 250 sample_head] by (simp add: sample_head_def new_head_def)

lemma enabled_head_inv: "head_inv enabled_head"
  by (simp add: enabled_head_def head_step_inv sample_head_inv)

lemma enabled_head_phase: "head_phase enabled_head = enabled"
  by code_simp

lemma motion_needs_both_motors_enabled_witness:
  "allow_motion (fst (head_step 140 True 0 [report 1 135, report 1 136] enabled_head)) \<and>
   \<not> allow_motion (fst (head_step 180 True 0 [report 1 120, report 1 176] enabled_head)) \<and>
   head_phase (snd (head_step 180 True 0 [report 1 120, report 1 176] enabled_head)) \<noteq> enabled"
proof -
  have "allow_motion (fst (head_step 140 True 0 [report 1 135, report 1 136] enabled_head))"
    by code_simp
  moreover have "\<not> allow_motion (fst (head_step 180 True 0 [report 1 120, report 1 176] enabled_head))"
    by code_simp
  moreover note motion_needs_both_motors_enabled
    [OF enabled_head_inv, of 180 True 0 "[report 1 120, report 1 176]"]
  ultimately show ?thesis by blast
qed

subsection \<open>How the enabled phase is reached\<close>

text \<open>The inputs since the request that started the present enabling or enabled phase.\<close>

definition enabled_since :: "head \<Rightarrow> head_input \<Rightarrow> head_input list \<Rightarrow> bool" where
  "enabled_since h start rest \<longleftrightarrow>
     in_enable start \<and> all_fresh h (in_now start) (in_motors start) \<and> all_status (in_motors start) 0 \<and>
     list_all (\<lambda>i. in_enable i \<and> all_fresh h (in_now i) (in_motors i)
                   \<and> \<not> any_fault (in_motors i)) rest"

lemma all_fresh_cong: "feedback_timeout h = feedback_timeout h' \<Longrightarrow> all_fresh h = all_fresh h'"
  by (rule ext)+ (simp add: all_fresh_def)

lemma reaches_enabling:
  assumes "head_reaches h xs h'" "head_phase h = disabled" "head_phase h' = enabling"
  shows "\<exists>pre start rest. xs = pre @ start # rest \<and> enabled_since h start rest \<and>
    transition_started_at h' = in_now start"
  using assms
proof (induction rule: head_reaches.induct)
  case stay
  then show ?case by simp
next
  case (step xs h1 i)
  have fresh: "all_fresh h1 = all_fresh h"
    using head_reaches_timeouts [OF step.hyps] by (intro all_fresh_cong) simp
  note s = step_enabling [OF step.prems(2) [unfolded head_next_def], unfolded fresh]
  from s(4) show ?case
  proof (elim disjE conjE)
    assume p: "head_phase h1 = enabling"
      and t: "transition_started_at (snd (head_step (in_now i) (in_enable i) (in_generation i)
        (in_motors i) h1)) = transition_started_at h1"
    from step.IH [OF step.prems(1) p] obtain pre start rest
      where "xs = pre @ start # rest" "enabled_since h start rest"
        "transition_started_at h1 = in_now start" by blast
    with s t show ?thesis
      by (intro exI [of _ pre] exI [of _ start] exI [of _ "rest @ [i]"])
         (simp add: enabled_since_def head_next_def)
  next
    assume "all_status (in_motors i) 0"
      and "transition_started_at (snd (head_step (in_now i) (in_enable i) (in_generation i)
        (in_motors i) h1)) = in_now i"
    with s show ?thesis
      by (intro exI [of _ xs] exI [of _ i] exI [of _ "[]"])
         (simp add: enabled_since_def head_next_def)
  qed
qed

text \<open>
  The enabled phase has a history. Whatever happened before, a machine that started disabled and
  is enabled got there by a request made while both motors were heard from and reported disabled,
  followed by inputs that all kept the request up, with no motor silent or faulted; and one of
  them was a report of both motors, sent after that request, that they are enabled.
\<close>

theorem enabled_phase_has_been_requested:
  assumes "head_reaches h xs h'" "head_phase h = disabled" "head_phase h' = enabled"
  shows "\<exists>pre start mid ack rest. xs = pre @ start # mid @ ack # rest \<and>
    enabled_since h start (mid @ ack # rest) \<and> all_status (in_motors ack) 1 \<and>
    list_all (\<lambda>m. in_now start < ms_received_at m) (in_motors ack)"
  using assms
proof (induction rule: head_reaches.induct)
  case stay
  then show ?case by simp
next
  case (step xs h1 i)
  have fresh: "all_fresh h1 = all_fresh h"
    using head_reaches_timeouts [OF step.hyps] by (intro all_fresh_cong) simp
  note s = step_enabled [OF step.prems(2) [unfolded head_next_def], unfolded fresh]
  from s(5) show ?case
  proof (elim disjE conjE)
    assume "head_phase h1 = enabled"
    from step.IH [OF step.prems(1) this] obtain pre start mid ack rest
      where "xs = pre @ start # mid @ ack # rest" "enabled_since h start (mid @ ack # rest)"
        "all_status (in_motors ack) 1" "list_all (\<lambda>m. in_now start < ms_received_at m) (in_motors ack)"
      by blast
    with s show ?thesis
      by (intro exI [of _ pre] exI [of _ start] exI [of _ mid] exI [of _ ack] exI [of _ "rest @ [i]"])
         (simp add: enabled_since_def)
  next
    assume "head_phase h1 = enabling" and recv: "all_received_after_transition h1 (in_motors i)"
    from reaches_enabling [OF step.hyps step.prems(1) this(1)] obtain pre start rest
      where x: "xs = pre @ start # rest" "enabled_since h start rest"
        "transition_started_at h1 = in_now start" by blast
    have "list_all (\<lambda>m. in_now start < ms_received_at m) (in_motors i)"
      using recv x(3) by (auto simp: all_received_after_transition_def list_all_iff)
    with x s show ?thesis
      by (intro exI [of _ pre] exI [of _ start] exI [of _ rest] exI [of _ i] exI [of _ "[]"])
         (simp add: enabled_since_def)
  qed
qed

definition head_sample :: "int \<Rightarrow> bool \<Rightarrow> u64 \<Rightarrow> u8 \<Rightarrow> int \<Rightarrow> head_input" where
  "head_sample t en gen s r = \<lparr>in_now = t, in_enable = en, in_generation = gen,
                         in_motors = [report s r, report s r]\<rparr>"

lemma enabled_phase_has_been_requested_witness:
  "\<exists>pre start mid ack rest.
     [head_sample 100 True 0 0 90, head_sample 110 True 0 1 105] = pre @ start # mid @ ack # rest \<and>
     all_status (in_motors ack) 1"
proof -
  let ?h = "snd (head_next (head_sample 110 True 0 1 105) (snd (head_next (head_sample 100 True 0 0 90) sample_head)))"
  have "head_reaches sample_head (([] @ [head_sample 100 True 0 0 90]) @ [head_sample 110 True 0 1 105]) ?h"
    by (intro head_reaches.intros)
  moreover have "head_phase sample_head = disabled" "head_phase ?h = enabled"
    by code_simp+
  ultimately have "head_reaches sample_head [head_sample 100 True 0 0 90, head_sample 110 True 0 1 105] ?h"
      "head_phase sample_head = disabled" "head_phase ?h = enabled" by simp_all
  from enabled_phase_has_been_requested [OF this] show ?thesis by blast
qed

subsection \<open>How a latched fault is left\<close>

lemma fault_phase_step:
  assumes "head_inv h" "fault_phase (head_phase h)"
  shows "fault_phase (head_phase (snd (head_step now en gen motors h)))
           \<and> handled_generation (snd (head_step now en gen motors h)) = handled_generation h
         \<or> head_phase h = resetting \<and> head_phase (snd (head_step now en gen motors h)) = disabled
           \<and> \<not> en \<and> all_fresh h now motors \<and> all_status motors 0"
  using assms
  by (cases "head_phase h"; auto simp: step_defs split: if_splits)

text \<open>The request that a machine in one of the two reset phases is working on.\<close>

definition reset_requested :: "head \<Rightarrow> head_input list \<Rightarrow> bool" where
  "reset_requested h xs \<longleftrightarrow>
     (\<exists>pre r post. xs = pre @ r # post \<and> \<not> in_enable r \<and> in_generation r \<noteq> handled_generation h)"

lemma reset_requested_snoc: "reset_requested h xs \<Longrightarrow> reset_requested h (xs @ [i])"
  unfolding reset_requested_def by (metis append.assoc append_Cons)

lemma reaches_within_fault:
  assumes "head_reaches h xs h'" "head_phase h = fault_latched" "head_inv h"
  shows "(\<exists>pre c post. xs = pre @ c # post \<and> reset_requested h pre \<and> \<not> in_enable c \<and>
            all_fresh h (in_now c) (in_motors c) \<and> all_status (in_motors c) 0)
    \<or> fault_phase (head_phase h') \<and> handled_generation h' = handled_generation h
      \<and> (head_phase h' \<noteq> fault_latched \<longrightarrow> reset_requested h xs)"
  using assms
proof (induction rule: head_reaches.induct)
  case stay
  then show ?case by simp
next
  case (step xs h1 i)
  have fresh: "all_fresh h1 = all_fresh h"
    using head_reaches_timeouts [OF step.hyps] by (intro all_fresh_cong) simp
  have inv: "head_inv h1" using head_reaches_inv [OF step.hyps step.prems(2)] .
  from step.IH [OF step.prems] show ?case
  proof (elim disjE exE conjE)
    fix pre c post
    assume "xs = pre @ c # post" "reset_requested h pre" "\<not> in_enable c"
      "all_fresh h (in_now c) (in_motors c)" "all_status (in_motors c) 0"
    then show ?thesis
      by (intro disjI1 exI [of _ pre] exI [of _ c] exI [of _ "post @ [i]"]) simp
  next
    assume p: "fault_phase (head_phase h1)" and g: "handled_generation h1 = handled_generation h"
      and r: "head_phase h1 \<noteq> fault_latched \<longrightarrow> reset_requested h xs"
    have "reset_requested h (xs @ [i])"
      if "head_phase h1 = fault_latched" "head_phase (snd (head_next i h1)) \<noteq> fault_latched"
      using that g unfolding reset_requested_def head_next_def
      by (intro exI [of _ xs] exI [of _ i] exI [of _ "[]"])
         (auto simp: step_defs split: if_splits)
    then have r': "head_phase (snd (head_next i h1)) \<noteq> fault_latched \<longrightarrow> reset_requested h (xs @ [i])"
      using r reset_requested_snoc by blast
    from fault_phase_step [OF inv p, of "in_now i" "in_enable i" "in_generation i" "in_motors i"]
    show ?thesis
    proof (elim disjE conjE)
      assume "fault_phase (head_phase (snd (head_step (in_now i) (in_enable i) (in_generation i)
          (in_motors i) h1)))"
        and "handled_generation (snd (head_step (in_now i) (in_enable i) (in_generation i)
          (in_motors i) h1)) = handled_generation h1"
      with g r' show ?thesis by (simp add: head_next_def)
    next
      assume "head_phase h1 = resetting" "\<not> in_enable i" "all_fresh h1 (in_now i) (in_motors i)"
        "all_status (in_motors i) 0"
      with r fresh show ?thesis
        by (intro disjI1 exI [of _ xs] exI [of _ i] exI [of _ "[]"]) simp
    qed
  qed
qed

text \<open>
  C18: a latched fault is never forgotten. From the fault phase the flag is cleared only by a run in
  which a reset with a new generation was given while enable was withdrawn and, later, both motors
  were heard from and reported disabled with enable still withdrawn. A fault that goes away by
  itself, or an enable request, does not clear it.
\<close>

theorem latched_fault_needs_reset:
  assumes "head_reaches h xs h'" "head_inv h" "head_phase h = fault_latched" "\<not> fault_flag h'"
  shows "\<exists>before r mid c rest. xs = before @ r # mid @ c # rest \<and>
    \<not> in_enable r \<and> in_generation r \<noteq> handled_generation h \<and>
    \<not> in_enable c \<and> all_fresh h (in_now c) (in_motors c) \<and> all_status (in_motors c) 0"
proof -
  have "\<not> fault_phase (head_phase h')"
    using head_reaches_inv [OF assms(1,2)] assms(4) by (simp add: head_inv_def)
  with reaches_within_fault [OF assms(1,3,2)] obtain pre c post where
    "xs = pre @ c # post" "reset_requested h pre" "\<not> in_enable c"
    "all_fresh h (in_now c) (in_motors c)" "all_status (in_motors c) 0"
    by blast
  moreover from this(2) obtain before r mid where "pre = before @ r # mid"
    "\<not> in_enable r" "in_generation r \<noteq> handled_generation h"
    unfolding reset_requested_def by blast
  ultimately show ?thesis
    by (intro exI [of _ before] exI [of _ r] exI [of _ mid] exI [of _ c] exI [of _ post]) simp
qed

definition faulted_head :: head where
  "faulted_head = snd (force_fault sample_head)"

definition reset_inputs :: "head_input list" where
  "reset_inputs = [head_sample 100 False 1 0 95, head_sample 110 False 1 0 105,
                   head_sample 120 False 1 0 115]"

lemma latched_fault_needs_reset_witness:
  "\<exists>before r mid c rest. reset_inputs = before @ r # mid @ c # rest \<and>
    \<not> in_enable r \<and> in_generation r \<noteq> 0 \<and> all_status (in_motors c) 0"
proof -
  let ?h = "snd (head_next (head_sample 120 False 1 0 115) (snd (head_next (head_sample 110 False 1 0 105)
    (snd (head_next (head_sample 100 False 1 0 95) faulted_head)))))"
  have "head_reaches faulted_head ((([] @ [head_sample 100 False 1 0 95]) @ [head_sample 110 False 1 0 105])
      @ [head_sample 120 False 1 0 115]) ?h"
    by (intro head_reaches.intros)
  then have run: "head_reaches faulted_head reset_inputs ?h" by (simp add: reset_inputs_def)
  have inv: "head_inv faulted_head"
    unfolding faulted_head_def by (rule force_fault_inv [OF sample_head_inv])
  have s: "head_phase faulted_head = fault_latched" "\<not> fault_flag ?h" "handled_generation faulted_head = 0"
    by code_simp+
  from latched_fault_needs_reset [OF run inv s(1,2), unfolded s(3)] show ?thesis by blast
qed

subsection \<open>No transition outlives its timeout\<close>

definition transitional :: "handshake_phase \<Rightarrow> bool" where
  "transitional p \<longleftrightarrow> p = enabling \<or> p = disabling \<or> p = reset_disabling \<or> p = resetting"

text \<open>
  The machine does not hang in a transition. After every step, whatever the inputs, a machine
  that is enabling, disabling or resetting started that transition at most the transition timeout
  ago; a transition the motors do not complete in time ends in the latched fault with the disable
  command. The timeouts themselves never change.
\<close>

theorem transitions_meet_their_deadline:
  fixes h :: head
  assumes "head_inv h"
  shows "(\<not> transitional (head_phase (snd (head_step now en gen motors h))) \<or>
      now - transition_started_at (snd (head_step now en gen motors h)) \<le> transition_timeout h) \<and>
    (head_phase (snd (head_step now en gen motors h)) \<noteq> fault_latched \<or>
      send_disable (fst (head_step now en gen motors h))) \<and>
    transition_timeout (snd (head_step now en gen motors h)) = transition_timeout h"
  using assms
  by (cases "head_phase h") (auto simp: step_defs transitional_def head_inv_def)

lemma transitions_meet_their_deadline_witness:
  "send_disable (fst (head_step 351 True 0 [report 0 340, report 1 345]
     (snd (head_step 100 True 0 [report 0 90, report 0 95] sample_head))))"
proof -
  let ?h = "snd (head_step 100 True 0 [report 0 90, report 0 95] sample_head)"
  have "head_phase (snd (head_step 351 True 0 [report 0 340, report 1 345] ?h)) = fault_latched"
    by code_simp
  with transitions_meet_their_deadline [OF head_step_inv [OF sample_head_inv],
      of 351 True 0 "[report 0 340, report 1 345]" 100 True 0 "[report 0 90, report 0 95]"]
  show ?thesis by blast
qed

subsection \<open>At most one special command\<close>

lemma one_special_command:
  "\<not> (send_disable (fst (head_step now en gen motors h)) \<and> send_enable (fst (head_step now en gen motors h)))"
  "\<not> (send_disable (fst (head_step now en gen motors h)) \<and> send_clear_fault (fst (head_step now en gen motors h)))"
  "\<not> (send_enable (fst (head_step now en gen motors h)) \<and> send_clear_fault (fst (head_step now en gen motors h)))"
  by (cases "head_phase h"; simp add: step_defs)+

subsection \<open>The command rate\<close>

text \<open>The times of a run of calls at which \<open>due\<close> answers true.\<close>

fun emissions :: "limiter \<Rightarrow> int list \<Rightarrow> int list" where
  "emissions l [] = []"
| "emissions l (t # ts) =
    (let (now_due, l1) = due t l in (if now_due then t # emissions l1 ts else emissions l1 ts))"

lemma due_period [simp]: "limiter_period (snd (due t l)) = limiter_period l"
  by (simp add: due_def)

lemma due_last: "last_emitted_at (snd (due t l)) = (if fst (due t l) then Some t else last_emitted_at l)"
  by (simp add: due_def)

definition not_before :: "limiter \<Rightarrow> int \<Rightarrow> bool" where
  "not_before l t \<longleftrightarrow> (case last_emitted_at l of None \<Rightarrow> True | Some s \<Rightarrow> s \<le> t)"

definition spaced_from :: "limiter \<Rightarrow> int \<Rightarrow> bool" where
  "spaced_from l t \<longleftrightarrow> (case last_emitted_at l of None \<Rightarrow> True | Some s \<Rightarrow> s + limiter_period l \<le> t)"

lemma emissions_spaced:
  assumes "sorted ts" "list_all (not_before l) ts" "0 < limiter_period l"
  shows "sorted_wrt (\<lambda>a b. a + limiter_period l \<le> b) (emissions l ts) \<and>
    list_all (spaced_from l) (emissions l ts)"
  using assms
proof (induction ts arbitrary: l)
  case Nil
  then show ?case by simp
next
  case (Cons t ts)
  define l1 where "l1 = snd (due t l)"
  have p: "limiter_period l1 = limiter_period l" by (simp add: l1_def)
  show ?case
  proof (cases "fst (due t l)")
    case True
    then have last1: "last_emitted_at l1 = Some t" by (simp add: l1_def due_last)
    have "list_all (not_before l1) ts"
      using Cons.prems(1) by (auto simp: list_all_iff not_before_def last1)
    with Cons.IH [of l1] Cons.prems p
    have IH: "sorted_wrt (\<lambda>a b. a + limiter_period l \<le> b) (emissions l1 ts)"
        "list_all (spaced_from l1) (emissions l1 ts)" by simp_all
    then have later: "list_all (\<lambda>b. t + limiter_period l \<le> b) (emissions l1 ts)"
      by (simp add: spaced_from_def last1 p list_all_iff)
    have "spaced_from l t"
      using True Cons.prems(2)
      by (auto simp: due_def spaced_from_def not_before_def split: if_splits option.splits)
    moreover from this later Cons.prems(3) have "list_all (spaced_from l) (emissions l1 ts)"
      by (fastforce simp: spaced_from_def list_all_iff split: option.splits)
    ultimately show ?thesis
      using IH(1) later True
      by (simp add: Let_def split_beta l1_def [symmetric] list_all_iff)
  next
    case False
    then have "l1 = l" by (simp add: l1_def due_def split: if_splits)
    with Cons.IH [of l] Cons.prems False show ?thesis
      by (simp add: Let_def split_beta l1_def [symmetric])
  qed
qed

lemma spaced_length:
  fixes p :: int
  assumes "sorted_wrt (\<lambda>a b. a + p \<le> b) (e # es)" "0 < p"
  shows "e + int (length es) * p \<le> last (e # es)"
  using assms
proof (induction es arbitrary: e)
  case Nil
  then show ?case by simp
next
  case (Cons x xs)
  then have "x + int (length xs) * p \<le> last (x # xs)" by simp
  with Cons.prems show ?case by (simp add: algebra_simps)
qed

lemma sorted_le_last:
  fixes xs :: "int list"
  shows "sorted xs \<Longrightarrow> x \<in> set xs \<Longrightarrow> x \<le> last xs"
  by (induction xs) auto

lemma emissions_subset: "set (emissions l ts) \<subseteq> set ts"
  by (induction ts arbitrary: l) (auto simp: Let_def split: prod.splits if_splits)

text \<open>
  The limiter bounds the rate of the frames it guards. Asked at times of a clock that does not
  run backwards, a new limiter answers true the first time, never twice within its period, and so
  at most once more than the number of periods that fit into the interval of the calls.
\<close>

theorem limiter_bounds_rate:
  assumes "new_limiter period = Some l" "sorted (t # ts)"
  shows "hd (emissions l (t # ts)) = t \<and>
    sorted_wrt (\<lambda>a b. a + period \<le> b) (emissions l (t # ts)) \<and>
    int (length (emissions l (t # ts))) \<le> (last (t # ts) - t) div period + 1"
proof -
  have l: "0 < period" "limiter_period l = period" "last_emitted_at l = None"
    using assms(1) by (auto simp: new_limiter_def split: if_splits)
  have "list_all (not_before l) (t # ts)" by (simp add: not_before_def l list_all_iff)
  from emissions_spaced [OF assms(2) this] l
  have sp: "sorted_wrt (\<lambda>a b. a + period \<le> b) (emissions l (t # ts))" by simp
  have "fst (due t l)" by (simp add: due_def l)
  then obtain es where es: "emissions l (t # ts) = t # es"
    by (cases "due t l") (simp add: Let_def)
  have "last (t # es) \<in> set (t # ts)"
    using emissions_subset [of l "t # ts"] es by (metis last_in_set list.discI subsetD)
  then have "last (t # es) \<le> last (t # ts)"
    using assms(2) by (intro sorted_le_last)
  moreover have "t + int (length es) * period \<le> last (t # es)"
    using spaced_length [OF sp [unfolded es] l(1)] .
  ultimately have "int (length es) * period \<le> last (t # ts) - t" by linarith
  then have "int (length es) \<le> (last (t # ts) - t) div period"
    using zdiv_mono1 [of "int (length es) * period" _ period] l(1) by simp
  with sp es show ?thesis by simp
qed

lemma limiter_bounds_rate_witness:
  "emissions (the (new_limiter 4)) [10, 11, 12, 14, 15, 19] = [10, 14, 19] \<and>
   (3 :: int) \<le> (19 - 10) div 4 + 1"
proof -
  have l: "new_limiter 4 = Some (the (new_limiter 4))" by code_simp
  have e: "emissions (the (new_limiter 4)) [10, 11, 12, 14, 15, 19] = [10, 14, 19]" by code_simp
  from limiter_bounds_rate [OF l, of 10 "[11, 12, 14, 15, 19]", unfolded e] e show ?thesis by simp
qed

end
