(* ===== verification/DamiaoClaims.thy ===== *)
theory DamiaoClaims
  imports DamiaoBus DamiaoHeadClaims
begin

text \<open>
  Properties of the head plugin: which frames a control cycle may put on the bus, what a bad request
  does, what the shown interfaces mean, and that its operations keep the state well formed.
\<close>

subsection \<open>The phase after a cycle and the actions of the cycle\<close>

abbreviation plugin_phase :: "damiao \<Rightarrow> handshake_phase" where
  "plugin_phase d \<equiv> head_phase (the (state_machine d))"

lemma update_control_states_fields [simp]:
  "motors (update_control_states d) = motors d"
  "state_machine (update_control_states d) = state_machine d"
  "dm_io (update_control_states d) = dm_io d"
  "command_rate_limiter (update_control_states d) = command_rate_limiter d"
  "special_rate_limiter (update_control_states d) = special_rate_limiter d"
  "hardware_active (update_control_states d) = hardware_active d"
  "enable_request (update_control_states d) = enable_request d"
  "reset_generation (update_control_states d) = reset_generation d"
  by (simp_all add: update_control_states_def split: option.splits)

lemma head_step_actions:
  "send_enable (fst (head_step t en g ms h)) \<Longrightarrow> head_phase (snd (head_step t en g ms h)) = enabling"
  "send_clear_fault (fst (head_step t en g ms h)) \<Longrightarrow> head_phase (snd (head_step t en g ms h)) = resetting"
  "send_hold (fst (head_step t en g ms h)) \<Longrightarrow>
     head_phase (snd (head_step t en g ms h)) = enabling \<or> head_phase (snd (head_step t en g ms h)) = enabled"
  by (cases "head_phase h"; simp add: step_defs split: if_splits)+

lemma force_fault_simps [simp]:
  "head_phase (snd (force_fault h)) = fault_latched" "fault_flag (snd (force_fault h))"
  "fst (force_fault h) = actions False False False True False False"
  by (simp_all add: step_defs)

text \<open>
  \<open>advance\<close> in one equation: the step, the seeded commands, and the forced fault when motion is
  allowed with a command outside the limits.
\<close>

definition step_result :: "int \<Rightarrow> head \<Rightarrow> damiao \<Rightarrow> HeadActions \<times> head" where
  "step_result now h d =
     head_step now (f64_eq (enable_request d) (Fin 1)) (word_of_int (f64_to_int (reset_generation d)))
       (motor_statuses (motors d)) h"

definition seeded :: "HeadActions \<Rightarrow> Motor list \<Rightarrow> Motor list" where
  "seeded a ms = (if seed_hold a then map (\<lambda>m. m\<lparr>m_command := m_position m\<rparr>) ms else ms)"

lemma advance_facts:
  fixes now :: int and h :: head and d :: damiao
  defines "a \<equiv> fst (step_result now h d)" and "h1 \<equiv> snd (step_result now h d)"
  defines "ms \<equiv> seeded a (motors d)"
  defines "bad \<equiv> allow_motion a \<and> \<not> list_all command_in_range ms"
  shows "fst (advance now h d) = (if bad then actions False False False True False False else a)"
    "motors (snd (advance now h d)) = ms"
    "state_machine (snd (advance now h d)) = Some (if bad then snd (force_fault h1) else h1)"
    "dm_io (snd (advance now h d)) = dm_io d"
  unfolding a_def h1_def ms_def bad_def advance_def step_result_def [symmetric] seeded_def
    Let_def split_beta
  by (auto split: if_split)

subsection \<open>A sample plugin\<close>

definition sample_motor :: "u16 \<Rightarrow> u16 \<Rightarrow> Motor" where
  "sample_motor can master =
     \<lparr>can_id = can, master_id = master, velocity_limit = Fin (1 / 4), command_min = Fin (- 2),
      command_max = Fin 2,
      expected_profile = \<lparr>acceleration_krad_s2 = Fin 2, deceleration_krad_s2 = Fin (- 2),
        maximum_speed_rad_s = Fin 600\<rparr>,
      m_limits = \<lparr>position_max = Fin 12, velocity_max = Fin 50, torque_max = Fin 10\<rparr>,
      m_command = Fin 1, m_position = Fin 1, m_velocity = Fin 0, m_effort = Fin 0,
      m_fault_code = Fin 0, m_mos_temperature = Fin 30, m_motor_temperature = Fin 30,
      m_feedback_age_ms = Fin 0, m_enabled = Fin 0, m_status = 0, m_received_at = 90\<rparr>"

definition sample_io :: can_io where
  "sample_io = \<lparr>descriptor = 3, interface_index = 1, k_open = [], k_send = [], k_recv = [], k_poll = [],
     k_clock = [], k_now = 100, k_filters = [0x11, 0x12], k_wire = []\<rparr>"

text \<open>An active head whose two motors are disabled and have just been heard from.\<close>

definition sample_plugin :: damiao where
  "sample_plugin = update_control_states
     \<lparr>dm_io = sample_io, joint_names = [''yaw'', ''pitch''], gpio_name = ''head'',
      can_interface = ''can2'', configure_timeout_ms = 100, feedback_timeout_ms = 50,
      transition_timeout_ms = 250, disabled_poll_interval_ms = 20, command_rate_hz = Fin 250,
      max_rx_frames_per_cycle = 32, motors = [sample_motor 1 0x11, sample_motor 2 0x12],
      hardware_active = True, command_interfaces_active = False, enable_request = Fin 0,
      reset_generation = Fin 0, phase_state = Fin 0, fault_latched_state = Fin 0,
      handled_reset_generation_state = Fin 0, motion_allowed_state = Fin 0,
      state_machine = new_head 50 250, command_rate_limiter = new_limiter 4,
      special_rate_limiter = new_limiter 20, last_disabled_poll_at = 0\<rparr>"

subsection \<open>What may be on the bus\<close>

text \<open>The frames a cycle may emit, by the phase the machine is in afterwards.\<close>

definition permitted :: "damiao \<Rightarrow> CanFrame \<Rightarrow> bool" where
  "permitted d f \<longleftrightarrow>
     disable_frame (motors d) f \<or>
     plugin_phase d = resetting \<and> (\<exists>m \<in> set (motors d). make_special_command (can_id m) clear_fault = Inr f) \<or>
     plugin_phase d = enabling \<and> (\<exists>m \<in> set (motors d). make_special_command (can_id m) enable_motor = Inr f) \<or>
     (plugin_phase d = enabling \<or> plugin_phase d = enabled) \<and>
       (\<exists>m \<in> set (motors d). position_frame m = Inr f \<and> (plugin_phase d = enabled \<longrightarrow> command_in_range m))"

definition acts_match :: "HeadActions \<Rightarrow> damiao \<Rightarrow> bool" where
  "acts_match a d \<longleftrightarrow>
     (send_enable a \<longrightarrow> plugin_phase d = enabling) \<and>
     (send_clear_fault a \<longrightarrow> plugin_phase d = resetting) \<and>
     (send_hold a \<or> allow_motion a \<longrightarrow> plugin_phase d = enabling \<or> plugin_phase d = enabled) \<and>
     (plugin_phase d = enabled \<longrightarrow> list_all command_in_range (motors d))"

lemma advance_acts_match: "acts_match (fst (advance now h d)) (snd (advance now h d))"
proof -
  let ?a = "fst (step_result now h d)" and ?h1 = "snd (step_result now h d)"
  have s: "send_enable ?a \<Longrightarrow> head_phase ?h1 = enabling"
      "send_clear_fault ?a \<Longrightarrow> head_phase ?h1 = resetting"
      "send_hold ?a \<Longrightarrow> head_phase ?h1 = enabling \<or> head_phase ?h1 = enabled"
      "allow_motion ?a \<longleftrightarrow> head_phase ?h1 = enabled"
    unfolding step_result_def by (fact head_step_actions allow_motion_iff_enabled)+
  show ?thesis
  proof (cases "allow_motion ?a \<and> \<not> list_all command_in_range (seeded ?a (motors d))")
    case True
    then show ?thesis by (simp add: acts_match_def advance_facts) (simp add: actions_def)
  next
    case False
    then have F: "(allow_motion ?a \<and> \<not> list_all command_in_range (seeded ?a (motors d))) = False" by simp
    show ?thesis
      using s False by (auto simp: acts_match_def advance_facts F)
  qed
qed

lemma plugin_core_cong: "core d = core d' \<Longrightarrow> permitted d = permitted d'"
  by (rule ext) (simp add: permitted_def core_fields [of d d'])

lemma acts_match_core: "core d = core d' \<Longrightarrow> acts_match a d = acts_match a d'"
  by (simp add: acts_match_def core_fields [of d d'])

lemma send_special_wire:
  "wire_ext (\<lambda>f. \<exists>m \<in> set (motors d). make_special_command (can_id m) c = Inr f)
     (dm_io d) (dm_io (snd (send_special c d)))"
  using send_to_motors_wire by (simp add: send_special_state)

lemma and_due_io [simp]:
  "dm_io (snd (and_due b (special_due t) d)) = dm_io d"
  "dm_io (snd (and_due b (command_due t) d)) = dm_io d"
  by (simp_all add: and_due_def special_due_def command_due_def split_beta)

lemma and_due_wanted: "fst (and_due b ask d) \<Longrightarrow> b"
  by (simp add: and_due_def split: if_splits)

lemma transmit_special_wire:
  assumes "acts_match a d" "P = permitted d"
  shows "wire_ext P (dm_io d) (dm_io (snd (transmit_special t a d)))"
proof -
  define d1 where "d1 = snd (and_due (send_disable a) (special_due t) d)"
  define d2 where "d2 = snd (and_due (send_clear_fault a) (special_due t) d1)"
  define d3 where "d3 = snd (and_due (send_enable a) (special_due t) d2)"
  have io: "dm_io d1 = dm_io d" "dm_io d2 = dm_io d" "dm_io d3 = dm_io d"
    by (simp_all add: d1_def d2_def d3_def)
  have c: "core d1 = core d" "core d2 = core d" "core d3 = core d"
    by (simp_all add: d1_def d2_def d3_def core_and_due)
  note m = core_fields(1) [OF c(1)] core_fields(1) [OF c(2)] core_fields(1) [OF c(3)]
  have ext: "wire_ext P (dm_io d) (dm_io (snd (send_special k e)))"
    if "dm_io e = dm_io d" "motors e = motors d"
      "\<And>f. \<exists>m \<in> set (motors d). make_special_command (can_id m) k = Inr f \<Longrightarrow> permitted d f" for k e
    using send_special_wire [of e k] that assms(2) by (auto intro: wire_ext_mono)
  have p: "\<exists>m \<in> set (motors d). make_special_command (can_id m) disable_motor = Inr f \<Longrightarrow> permitted d f"
      "send_clear_fault a \<Longrightarrow> \<exists>m \<in> set (motors d). make_special_command (can_id m) clear_fault = Inr f \<Longrightarrow> permitted d f"
      "send_enable a \<Longrightarrow> \<exists>m \<in> set (motors d). make_special_command (can_id m) enable_motor = Inr f \<Longrightarrow> permitted d f"
      for f
    using assms(1) unfolding permitted_def disable_frame_def acts_match_def by blast+
  have e1: "wire_ext P (dm_io d) (dm_io (snd (send_special disable_motor d1)))"
    using io(1) m(1) p(1) by (rule ext)
  have e2: "wire_ext P (dm_io d) (dm_io (snd (send_special clear_fault d2)))" if "send_clear_fault a"
    using io(2) m(2) p(2) [OF that] by (rule ext)
  have e3: "wire_ext P (dm_io d) (dm_io (snd (send_special enable_motor d3)))" if "send_enable a"
    using io(3) m(3) p(3) [OF that] by (rule ext)
  have "snd (transmit_special t a d) =
    (if fst (and_due (send_disable a) (special_due t) d) then snd (send_special disable_motor d1)
     else if fst (and_due (send_clear_fault a) (special_due t) d1) then snd (send_special clear_fault d2)
     else if fst (and_due (send_enable a) (special_due t) d2) then snd (send_special enable_motor d3)
     else d3)"
    by (simp add: transmit_special_def Let_def split_beta d1_def d2_def d3_def)
  then show ?thesis
    using e1 e2 e3 io(3) and_due_wanted by (auto split: if_splits)
qed

lemma transmit_command_wire:
  assumes "acts_match a d" "P = permitted d"
  shows "wire_ext P (dm_io d) (dm_io (snd (transmit_command t a d)))"
proof -
  define w where "w \<longleftrightarrow> send_hold a \<or> allow_motion a"
  define d1 where "d1 = snd (and_due w (command_due t) d)"
  have io: "dm_io d1 = dm_io d" by (simp add: d1_def)
  have c: "core d1 = core d" by (simp add: d1_def core_and_due)
  note m = core_fields(1) [OF c]
  have e1: "wire_ext P (dm_io d) (dm_io (snd (with_io (send_to_motors position_frame (motors d1)) d1)))" if w
  proof -
    have "permitted d f" if "\<exists>m \<in> set (motors d). position_frame m = Inr f" for f
      using that \<open>w\<close> assms(1) unfolding permitted_def acts_match_def w_def list_all_iff by blast
    then show ?thesis
      using send_to_motors_wire [of "motors d1" position_frame "dm_io d1"]
      by (auto simp: with_io_state io m assms(2) intro: wire_ext_mono)
  qed
  have "wire_ext P (dm_io d) (dm_io (snd (send_special disable_motor d1)))"
    using send_special_wire [of d1 disable_motor] unfolding io m
    by (rule wire_ext_mono) (simp add: assms(2) permitted_def disable_frame_def)
  then have e2: "wire_ext P (dm_io d)
      (dm_io (snd (ebind (send_special disable_motor) (\<lambda>_ d. (Inr (), d\<lparr>last_disabled_poll_at := t\<rparr>)) d1)))"
    by (simp add: snd_ebind split: sum.splits)
  have "snd (transmit_command t a d) =
    (if fst (and_due w (command_due t) d) then snd (with_io (send_to_motors position_frame (motors d1)) d1)
     else if plugin_phase d1 = disabled \<and> disabled_poll_interval_ms d1 * 1000000 \<le> t - last_disabled_poll_at d1
     then snd (ebind (send_special disable_motor) (\<lambda>_ d. (Inr (), d\<lparr>last_disabled_poll_at := t\<rparr>)) d1)
     else d1)"
    by (simp add: transmit_command_def Let_def split_beta d1_def w_def)
  then show ?thesis using e1 e2 io and_due_wanted by (auto split: if_splits)
qed

text \<open>The state in which a cycle leaves the core, whether or not the transmission succeeds.\<close>

lemma write_body_wire:
  "wire_ext (permitted (snd (write_body d))) (dm_io d) (dm_io (snd (write_body d)))"
proof -
  define t where "t = fst (steady_now (dm_io d))"
  define d0 where "d0 = snd (clock_now d)"
  have io0: "dm_io d0 = snd (steady_now (dm_io d))" by (simp add: d0_def clock_now_state)
  show ?thesis
  proof (cases "requests_readable d0")
    case False
    define e where "e = update_control_states
      (d0\<lparr>state_machine := Some (snd (force_fault (the (state_machine d0))))\<rparr>)"
    have "snd (write_body d) = dm_send_disable e"
      using False by (simp add: write_body_def snd_ebind clock_now_result d0_def [symmetric] e_def)
    moreover have "wire_ext (permitted (dm_send_disable e)) (dm_io d) (dm_io (dm_send_disable e))"
      using dm_send_disable_wire [of e] plugin_core_cong [of "dm_send_disable e" e] io0
      by (auto simp: e_def wire_ext_def permitted_def list_all_iff)
    ultimately show ?thesis by simp
  next
    case True
    define a d1 where "a = fst (advance t (the (state_machine d0)) d0)"
      and "d1 = snd (advance t (the (state_machine d0)) d0)"
    define d2 where "d2 = snd (transmit_special t a d1)"
    have am: "acts_match a d1" unfolding a_def d1_def by (rule advance_acts_match)
    have c2: "core d2 = core d1" by (simp add: d2_def)
    have body: "snd (write_body d) =
        (case fst (transmit_special t a d1) of Inl _ \<Rightarrow> d2 | Inr _ \<Rightarrow> snd (transmit_command t a d2))"
      using True unfolding d2_def a_def d1_def t_def
      by (simp add: write_body_def snd_ebind clock_now_result d0_def [symmetric] split_beta Let_def)
    have c: "core (snd (write_body d)) = core d1"
      unfolding body by (simp add: c2 split: sum.splits)
    have P: "permitted (snd (write_body d)) = permitted d1" using c by (rule plugin_core_cong)
    have w1: "wire_ext (permitted d1) (dm_io d1) (dm_io d2)"
      unfolding d2_def using am refl by (rule transmit_special_wire)
    have w2: "wire_ext (permitted d1) (dm_io d2) (dm_io (snd (transmit_command t a d2)))"
      using am plugin_core_cong [OF c2] acts_match_core [OF c2]
      by (intro transmit_command_wire) simp_all
    have "wire_ext (permitted d1) (dm_io d) (dm_io d1)"
      by (rule wire_ext_same) (simp add: d1_def advance_facts io0)
    from wire_ext_trans [OF this w1] wire_ext_trans [OF wire_ext_trans [OF this w1] w2]
    show ?thesis unfolding P unfolding body by (simp split: sum.splits)
  qed
qed

text \<open>
  C15: what a control cycle may put on the bus. The frames that \<open>write\<close> adds are disable commands of
  the plugin's motors, and beyond these: fault clearing only if the machine is then resetting,
  enable commands only if it is enabling, and position commands only if it is enabling or enabled;
  every position command sent in the enabled phase carries a command inside the motor's
  configured range. This covers cycles that fail half way.
\<close>

theorem write_emits_only_permitted_frames:
  "wire_ext (permitted (snd (dm_write d))) (dm_io d) (dm_io (snd (dm_write d)))"
proof (cases "\<not> hardware_active d \<or> \<not> socket_is_open (dm_io d) \<or> state_machine d = None
        \<or> command_rate_limiter d = None \<or> special_rate_limiter d = None")
  case True
  then have "dm_write d = (OK, d)" unfolding dm_write_def by (rule if_P)
  then show ?thesis by simp
next
  case False
  then have w: "snd (dm_write d) = (case fst (write_body d) of Inr _ \<Rightarrow> snd (write_body d)
      | Inl _ \<Rightarrow> (dm_send_disable (snd (write_body d)))\<lparr>command_interfaces_active := False\<rparr>)"
    unfolding dm_write_def if_not_P [OF False] by (simp split: prod.splits sum.splits)
  have "wire_ext (permitted (snd (write_body d))) (dm_io d) (dm_io (dm_send_disable (snd (write_body d))))"
    using write_body_wire
  proof (rule wire_ext_trans)
    show "wire_ext (permitted (snd (write_body d))) (dm_io (snd (write_body d)))
        (dm_io (dm_send_disable (snd (write_body d))))"
      using dm_send_disable_wire by (rule wire_ext_mono) (simp add: permitted_def)
  qed
  moreover have "permitted (e\<lparr>command_interfaces_active := b\<rparr>) = permitted e" for e b
    by (rule ext) (simp add: permitted_def)
  moreover have "permitted (dm_send_disable e) = permitted e" for e
    by (rule plugin_core_cong) simp
  ultimately show ?thesis
    using write_body_wire unfolding w by (simp split: sum.splits)
qed

end
