(* ===== verification/DamiaoConfigure.thy ===== *)
theory DamiaoConfigure
  imports DamiaoSystem
begin

text \<open>
  Configuration of the head plugin (\<open>hw_can_damiao\<close>, \<open>damiao_system.cpp\<close>): the checks of \<open>on_init\<close> on the
  hardware description, and \<open>on_configure\<close>, which opens the bus, reads the motors' registers and
  waits for their first feedback. The waiting loops end because each round that finds the bus
  readable uses up a result of the poll script.
\<close>

subsection \<open>Numbers in parameters\<close>

definition digit_value :: "char \<Rightarrow> nat option" where
  "digit_value c =
    (let n = (of_char c :: nat) in
     if 48 \<le> n \<and> n \<le> 57 then Some (n - 48)
     else if 97 \<le> n \<and> n \<le> 102 then Some (n - 87)
     else if 65 \<le> n \<and> n \<le> 70 then Some (n - 55) else None)"

text \<open>The number of a nonempty run of digits of the base, and what follows the longest such run.\<close>

fun digits :: "nat \<Rightarrow> nat \<Rightarrow> string \<Rightarrow> nat \<times> nat \<times> string" where
  "digits base acc [] = (acc, 0, [])"
| "digits base acc (c # cs) =
    (case digit_value c of
       Some v \<Rightarrow> (if v < base
                 then let (r, n, rest) = digits base (acc * base + v) cs in (r, Suc n, rest)
                 else (acc, 0, c # cs))
     | None \<Rightarrow> (acc, 0, c # cs))"

text \<open>\<open>std::from_chars\<close> of the whole text into an integer type with the given range.\<close>

definition from_chars :: "int \<Rightarrow> int \<Rightarrow> string \<Rightarrow> int option" where
  "from_chars low high text =
    (let (sign, body) = (case text of c # cs \<Rightarrow> if c = CHR ''-'' \<and> low < 0 then (- 1, cs) else (1, text)
                                    | [] \<Rightarrow> (1, text));
         (v, n, rest) = digits 10 0 body; value = sign * int v
     in if n = 0 \<or> rest \<noteq> [] \<or> value < low \<or> high < value then None else Some value)"

text \<open>
  \<open>std::stod\<close> with the checks on the consumed length and on finiteness: the text as a whole is a
  decimal or hexadecimal number, leading white space allowed, whose value neither overflows nor
  loses bits to underflow. Every other text makes \<open>stod\<close> or the checks throw.
\<close>

definition is_space :: "char \<Rightarrow> bool" where
  "is_space c \<longleftrightarrow> (let n = (of_char c :: nat) in n = 32 \<or> 9 \<le> n \<and> n \<le> 13)"

definition sign_of :: "string \<Rightarrow> rat \<times> string" where
  "sign_of cs = (case cs of [] \<Rightarrow> (1, cs)
     | c # rest \<Rightarrow> if c = CHR ''-'' then (- 1, rest) else if c = CHR ''+'' then (1, rest) else (1, cs))"

definition exponent_of :: "char \<Rightarrow> char \<Rightarrow> string \<Rightarrow> int option" where
  "exponent_of lower upper cs = (case cs of [] \<Rightarrow> Some 0
     | c # rest \<Rightarrow>
        if c \<noteq> lower \<and> c \<noteq> upper then None
        else let (s, body) = sign_of rest; (v, n, rest1) = digits 10 0 body
             in if n = 0 \<or> rest1 \<noteq> [] then None else Some (\<lfloor>s\<rfloor> * int v))"

definition number_of :: "nat \<Rightarrow> int \<Rightarrow> char \<Rightarrow> char \<Rightarrow> string \<Rightarrow> rat option" where
  "number_of base exp_base lower upper cs =
    (let (v, n, rest) = digits base 0 cs;
         (v1, n1, rest1) = (case rest of
             c # cs1 \<Rightarrow> if c = CHR ''.'' then digits base v cs1 else (v, 0, rest)
           | [] \<Rightarrow> (v, 0, rest))
     in if n + n1 = 0 then None
        else case exponent_of lower upper rest1 of
               None \<Rightarrow> None
             | Some e \<Rightarrow> Some (of_nat v1 / of_nat base ^ n1 * of_int exp_base powi e))"

definition parse_double_text :: "string \<Rightarrow> exn + f64" where
  "parse_double_text text =
    (let (s, body) = sign_of (dropWhile is_space text);
         parsed = (case body of
             z # x # cs \<Rightarrow>
               (if z = CHR ''0'' \<and> (x = CHR ''x'' \<or> x = CHR ''X'')
                then number_of 16 2 (CHR ''p'') (CHR ''P'') cs
                else number_of 10 10 (CHR ''e'') (CHR ''E'') body)
           | _ \<Rightarrow> number_of 10 10 (CHR ''e'') (CHR ''E'') body)
     in case parsed of
          None \<Rightarrow> Inl (invalid_argument ''must be finite'')
        | Some q \<Rightarrow>
           (case f64_round (s * q) of
              Fin r \<Rightarrow> (if \<bar>q\<bar> < 2 powi (- 1022) \<and> r \<noteq> s * q then Inl (invalid_argument ''out of range'')
                        else Inr (Fin r))
            | _ \<Rightarrow> Inl (invalid_argument ''out of range'')))"

type_synonym params = "string \<Rightarrow> string option"

definition required_parameter :: "params \<Rightarrow> string \<Rightarrow> exn + string" where
  "required_parameter parameters name =
    (case parameters name of
       None \<Rightarrow> Inl (invalid_argument name)
     | Some text \<Rightarrow> if text = [] then Inl (invalid_argument name) else Inr text)"

definition parse_integer :: "int \<Rightarrow> int \<Rightarrow> params \<Rightarrow> string \<Rightarrow> exn + int" where
  "parse_integer low high parameters name =
    (case required_parameter parameters name of Inl e \<Rightarrow> Inl e | Inr text \<Rightarrow>
     (case from_chars low high text of
        None \<Rightarrow> Inl (invalid_argument name) | Some v \<Rightarrow> Inr v))"

definition parse_parameter_double :: "params \<Rightarrow> string \<Rightarrow> exn + f64" where
  "parse_parameter_double parameters name =
    (case required_parameter parameters name of Inl e \<Rightarrow> Inl e | Inr text \<Rightarrow> parse_double_text text)"

subsection \<open>The hardware description\<close>

record interface_info =
  if_name :: string
  if_min :: string
  if_max :: string

record component_info =
  ci_name :: string
  ci_command_interfaces :: "interface_info list"
  ci_state_interfaces :: "interface_info list"
  ci_parameters :: params

record hardware_info =
  hi_parameters :: params
  hi_sensors :: "component_info list"
  hi_gpios :: "component_info list"
  hi_joints :: "component_info list"

definition interface_names :: "interface_info list \<Rightarrow> string set" where
  "interface_names is = set (map if_name is)"

definition kStateInterfaces :: "string list" where
  "kStateInterfaces = [''position'', ''velocity'', ''effort'', ''fault_code'', ''mos_temperature'',
     ''motor_temperature'', ''feedback_age_ms'', ''enabled'']"

definition kControlCommandInterfaces :: "string list" where
  "kControlCommandInterfaces = [''enable_request'', ''reset_generation'']"

definition kControlStateInterfaces :: "string list" where
  "kControlStateInterfaces = [''phase'', ''fault_latched'', ''handled_reset_generation'', ''motion_allowed'']"

definition same_interfaces :: "interface_info list \<Rightarrow> string list \<Rightarrow> bool" where
  "same_interfaces is names \<longleftrightarrow> interface_names is = set names \<and> length is = length names"

text \<open>\<open>int\<close> is 32 bits, \<open>std::size_t\<close> 64 bits.\<close>

abbreviation "int_min \<equiv> - 2147483648 :: int"
abbreviation "int_max \<equiv> 2147483647 :: int"

definition joint_error :: "component_info \<Rightarrow> string list \<Rightarrow> bool" where
  "joint_error joint names \<longleftrightarrow> ci_name joint = [] \<or> ci_name joint \<in> set names"

definition joint_interfaces_error :: "component_info \<Rightarrow> bool" where
  "joint_interfaces_error joint \<longleftrightarrow>
     \<not> same_interfaces (ci_state_interfaces joint) kStateInterfaces \<or>
     length (ci_command_interfaces joint) \<noteq> 1 \<or>
     if_name (ci_command_interfaces joint ! 0) \<noteq> ''position''"

definition blank_motor :: Motor where
  "blank_motor = \<lparr>can_id = 0, master_id = 0, velocity_limit = Fin 0, command_min = Fin 0,
     command_max = Fin 0, expected_profile = \<lparr>acceleration_krad_s2 = Fin 0,
       deceleration_krad_s2 = Fin 0, maximum_speed_rad_s = Fin 0\<rparr>,
     m_limits = \<lparr>position_max = Fin 0, velocity_max = Fin 0, torque_max = Fin 0\<rparr>,
     m_command = Fin 0, m_position = Fin 0, m_velocity = Fin 0, m_effort = Fin 0,
     m_fault_code = Fin 0, m_mos_temperature = Fin 0, m_motor_temperature = Fin 0,
     m_feedback_age_ms = Fin 0, m_enabled = Fin 0, m_status = 0, m_received_at = 0\<rparr>"

definition rbind :: "exn + 'a \<Rightarrow> ('a \<Rightarrow> exn + 'b) \<Rightarrow> exn + 'b" where
  "rbind r f = (case r of Inl e \<Rightarrow> Inl e | Inr x \<Rightarrow> f x)"

text \<open>One joint: its motor, or the exception; the lists are the names and identifiers taken so far.\<close>

definition parse_joint :: "string list \<Rightarrow> u16 list \<Rightarrow> u16 list \<Rightarrow> component_info \<Rightarrow> exn + Motor" where
  "parse_joint names can_ids master_ids joint =
    (if joint_error joint names then Inl (invalid_argument ''names'')
     else if joint_interfaces_error joint then Inl (invalid_argument ''interfaces'')
     else rbind (parse_integer 0 65535 (ci_parameters joint) ''can_id'') (\<lambda>can_i.
          rbind (parse_integer 0 65535 (ci_parameters joint) ''master_id'') (\<lambda>master_i.
       let can = word_of_int can_i; master = word_of_int master_i in
       if can = 0 \<or> 0x0F < can \<or> 0x7FF < master then Inl (invalid_argument ''ID ranges'')
       else if can \<in> set can_ids \<or> master \<in> set master_ids then Inl (invalid_argument ''IDs not unique'')
       else rbind (parse_parameter_double (ci_parameters joint) ''velocity_limit'') (\<lambda>vel.
       let cmd = ci_command_interfaces joint ! 0 in
       if if_min cmd = [] \<or> if_max cmd = [] then Inl (invalid_argument ''min and max'')
       else rbind (parse_double_text (if_min cmd)) (\<lambda>low.
            rbind (parse_double_text (if_max cmd)) (\<lambda>high.
       if f64_le vel (Fin 0) \<or> f64_le high low then Inl (invalid_argument ''limits'')
       else rbind (parse_parameter_double (ci_parameters joint) ''acceleration_krad_s2'') (\<lambda>acc.
            rbind (parse_parameter_double (ci_parameters joint) ''deceleration_krad_s2'') (\<lambda>dec.
            rbind (parse_parameter_double (ci_parameters joint) ''maximum_speed_rad_s'') (\<lambda>spd.
       let profile = \<lparr>acceleration_krad_s2 = acc, deceleration_krad_s2 = dec, maximum_speed_rad_s = spd\<rparr> in
       if \<not> profile_valid profile then Inl (invalid_argument ''profile'')
       else Inr (blank_motor\<lparr>can_id := can, master_id := master, velocity_limit := vel,
              command_min := low, command_max := high, expected_profile := profile,
              m_command := NaN, m_position := NaN, m_velocity := NaN, m_effort := NaN,
              m_feedback_age_ms := PInf\<rparr>))))))))))"

fun parse_joints :: "string list \<Rightarrow> u16 list \<Rightarrow> u16 list \<Rightarrow> component_info list \<Rightarrow> exn + Motor list" where
  "parse_joints names can_ids master_ids [] = Inr []"
| "parse_joints names can_ids master_ids (j # js) =
    (case parse_joint names can_ids master_ids j of Inl e \<Rightarrow> Inl e | Inr m \<Rightarrow>
     case parse_joints (ci_name j # names) (can_id m # can_ids) (master_id m # master_ids) js of
       Inl e \<Rightarrow> Inl e | Inr ms \<Rightarrow> Inr (m # ms))"

definition control_error :: "component_info \<Rightarrow> bool" where
  "control_error control \<longleftrightarrow> ci_name control = [] \<or>
     \<not> same_interfaces (ci_command_interfaces control) kControlCommandInterfaces \<or>
     \<not> same_interfaces (ci_state_interfaces control) kControlStateInterfaces"

text \<open>The seven parameters of the hardware, assigned one after the other.\<close>

definition assign :: "exn + 'a \<Rightarrow> ('a \<Rightarrow> damiao \<Rightarrow> damiao) \<Rightarrow> damiao \<Rightarrow> (exn + unit) \<times> damiao" where
  "assign r f d = (case r of Inl e \<Rightarrow> (Inl e, d) | Inr v \<Rightarrow> (Inr (), f v d))"

definition parse_hardware_parameters :: "params \<Rightarrow> damiao \<Rightarrow> (exn + unit) \<times> damiao" where
  "parse_hardware_parameters p =
    ebind (assign (required_parameter p ''can_interface'') (\<lambda>v d. d\<lparr>can_interface := v\<rparr>)) (\<lambda>_.
    ebind (assign (parse_integer int_min int_max p ''configure_timeout_ms'')
             (\<lambda>v d. d\<lparr>configure_timeout_ms := v\<rparr>)) (\<lambda>_.
    ebind (assign (parse_integer int_min int_max p ''feedback_timeout_ms'')
             (\<lambda>v d. d\<lparr>feedback_timeout_ms := v\<rparr>)) (\<lambda>_.
    ebind (assign (parse_integer int_min int_max p ''transition_timeout_ms'')
             (\<lambda>v d. d\<lparr>transition_timeout_ms := v\<rparr>)) (\<lambda>_.
    ebind (assign (parse_parameter_double p ''command_rate_hz'') (\<lambda>v d. d\<lparr>command_rate_hz := v\<rparr>)) (\<lambda>_.
    ebind (assign (parse_integer int_min int_max p ''disabled_poll_interval_ms'')
             (\<lambda>v d. d\<lparr>disabled_poll_interval_ms := v\<rparr>)) (\<lambda>_.
    assign (parse_integer 0 18446744073709551615 p ''max_rx_frames_per_cycle'')
             (\<lambda>v d. d\<lparr>max_rx_frames_per_cycle := nat v\<rparr>)))))))"

definition parameters_in_range :: "damiao \<Rightarrow> bool" where
  "parameters_in_range d \<longleftrightarrow>
     \<not> (configure_timeout_ms d \<le> 0 \<or> feedback_timeout_ms d \<le> 0 \<or> transition_timeout_ms d \<le> 0
        \<or> f64_le (command_rate_hz d) (Fin 0) \<or> f64_less (Fin 1000) (command_rate_hz d)
        \<or> disabled_poll_interval_ms d \<le> 0 \<or> max_rx_frames_per_cycle d = 0
        \<or> 256 < max_rx_frames_per_cycle d)"

definition milliseconds :: "int \<Rightarrow> int" where
  "milliseconds ms = ms * 1000000"

definition command_period :: "f64 \<Rightarrow> int" where
  "command_period rate = f64_to_int (f64_mul (f64_div (Fin 1) rate) (Fin 1000000000))"

text \<open>\<open>emplace\<close> destroys the old value first, so a constructor that throws leaves none.\<close>

definition emplace_head :: "damiao \<Rightarrow> (exn + unit) \<times> damiao" where
  "emplace_head d =
    (case new_head (milliseconds (feedback_timeout_ms d)) (milliseconds (transition_timeout_ms d)) of
       None \<Rightarrow> (Inl (invalid_argument ''timeouts''), d\<lparr>state_machine := None\<rparr>)
     | Some h \<Rightarrow> (Inr (), d\<lparr>state_machine := Some h\<rparr>))"

definition emplace_limiters :: "damiao \<Rightarrow> (exn + unit) \<times> damiao" where
  "emplace_limiters d =
    (case new_limiter (command_period (command_rate_hz d)) of
       None \<Rightarrow> (Inl (invalid_argument ''period''), d\<lparr>command_rate_limiter := None\<rparr>)
     | Some l1 \<Rightarrow>
        (case new_limiter (milliseconds (disabled_poll_interval_ms d)) of
           None \<Rightarrow> (Inl (invalid_argument ''period''),
                    d\<lparr>command_rate_limiter := Some l1, special_rate_limiter := None\<rparr>)
         | Some l2 \<Rightarrow> (Inr (), d\<lparr>command_rate_limiter := Some l1, special_rate_limiter := Some l2\<rparr>)))"

definition init_body :: "hardware_info \<Rightarrow> damiao \<Rightarrow> (exn + unit) \<times> damiao" where
  "init_body info =
    ebind (eguard (hi_sensors info = [] \<and> length (hi_gpios info) = 1 \<and> length (hi_joints info) = 2)
             (invalid_argument ''two joints and one GPIO'')) (\<lambda>_.
    ebind (parse_hardware_parameters (hi_parameters info)) (\<lambda>_ d.
    if \<not> parameters_in_range d then (Inl (invalid_argument ''parameter ranges''), d)
    else if control_error (hi_gpios info ! 0) then (Inl (invalid_argument ''control GPIO''), d)
    else ebind (assign (parse_joints [ci_name (hi_gpios info ! 0)] [] [] (hi_joints info))
                  (\<lambda>ms d. d\<lparr>motors := ms\<rparr>)) (\<lambda>_.
    ebind emplace_head (\<lambda>_. ebind emplace_limiters (\<lambda>_ d.
      (Inr (), update_control_states (d\<lparr>enable_request := Fin 0, reset_generation := Fin 0\<rparr>))))) d))"

text \<open>
  \<open>base_ok\<close>: the result of \<open>SystemInterface::on_init\<close> of the framework, which keeps the description.
\<close>

definition dm_on_init :: "bool \<Rightarrow> hardware_info \<Rightarrow> damiao \<Rightarrow> return_type \<times> damiao" where
  "dm_on_init base_ok info d =
    (if \<not> base_ok then (ERROR, d)
     else case init_body info (d\<lparr>joint_names := map ci_name (hi_joints info),
                                 gpio_name := (case hi_gpios info of [] \<Rightarrow> [] | g # gs \<Rightarrow> ci_name g)\<rparr>) of
            (Inr _, d1) \<Rightarrow> (OK, d1)
          | (Inl _, d1) \<Rightarrow> (ERROR, d1\<lparr>motors := []\<rparr>))"

subsection \<open>Waiting for the motors\<close>

definition remaining_milliseconds :: "int \<Rightarrow> damiao \<Rightarrow> int \<times> damiao" where
  "remaining_milliseconds deadline =
    with_io (\<lambda>io. let (now, io1) = steady_now io
                  in (if deadline \<le> now then 0
                      else let remaining = deadline - now; ms = remaining div 1000000
                           in ms + (if ms * 1000000 < remaining then 1 else 0), io1))"

definition answers :: "Motor \<Rightarrow> motor_register \<Rightarrow> CanFrame \<Rightarrow> bool" where
  "answers m r frame \<longleftrightarrow>
     frame_id frame = master_id m \<and>
     \<not> (frame_data frame ! 0 \<noteq> ucast (can_id m AND 0xFF)
        \<or> frame_data frame ! 1 \<noteq> ucast (drop_bit 8 (can_id m) AND 0xFF)
        \<or> frame_data frame ! 2 \<noteq> 0x33 \<or> frame_data frame ! 3 \<noteq> register_code r)"

fun drain_register :: "nat \<Rightarrow> Motor \<Rightarrow> motor_register \<Rightarrow> damiao \<Rightarrow> (exn + u32 option) \<times> damiao" where
  "drain_register 0 m r = ereturn None"
| "drain_register (Suc n) m r =
    ebind (with_io can_receive) (\<lambda>received.
      case received of
        None \<Rightarrow> ereturn None
      | Some frame \<Rightarrow>
          (if \<not> answers m r frame then drain_register n m r
           else ebind (elift (decode_register_reply frame)) (\<lambda>reply.
             if rr_motor_id reply = can_id m then ereturn (Some (raw_value reply))
             else drain_register n m r)))"

fun drain_feedback :: "nat \<Rightarrow> nat \<Rightarrow> int \<Rightarrow> damiao \<Rightarrow> (exn + bool) \<times> damiao" where
  "drain_feedback 0 i previous = ereturn False"
| "drain_feedback (Suc n) i previous =
    ebind (with_io can_receive) (\<lambda>received.
      case received of
        None \<Rightarrow> ereturn False
      | Some frame \<Rightarrow>
          ebind clock_now (\<lambda>t. ebind (observe_frame frame t) (\<lambda>_ d.
            if previous < m_received_at (motors d ! i) then (Inr True, d)
            else drain_feedback n i previous d)))"

definition poll_script :: "damiao \<Rightarrow> poll_result list" where
  "poll_script d = k_poll (dm_io d)"

text \<open>
  The common loop of \<open>read_register\<close> and \<open>await_feedback\<close>: \<open>drain\<close> handles the frames of a
  readable bus and may produce the result; running out of time gives \<open>None\<close>.
\<close>

function wait_rounds ::
  "(damiao \<Rightarrow> (exn + 'a option) \<times> damiao) \<Rightarrow> int \<Rightarrow> damiao \<Rightarrow> (exn + 'a option) \<times> damiao" where
  "wait_rounds drain deadline d =
    (let (timeout, d1) = remaining_milliseconds deadline d in
     case with_io (can_wait_readable timeout) d1 of
       (Inl e, d2) \<Rightarrow> (Inl e, d2)
     | (Inr readable, d2) \<Rightarrow>
         (if \<not> readable then (Inr None, d2)
          else case drain d2 of
              (Inl e, d3) \<Rightarrow> (Inl e, d3)
            | (Inr (Some v), d3) \<Rightarrow> (Inr (Some v), d3)
            | (Inr None, d3) \<Rightarrow>
                (let (t, d4) = with_io steady_now d3
                 in if deadline \<le> t \<or> length (poll_script d) \<le> length (poll_script d4) then (Inr None, d4)
                    else wait_rounds drain deadline d4)))"
  by pat_completeness auto
termination
  by (relation "measure (\<lambda>(drain, deadline, d). length (poll_script d))") auto

declare wait_rounds.simps [simp del]

definition read_register :: "nat \<Rightarrow> motor_register \<Rightarrow> damiao \<Rightarrow> (exn + u32) \<times> damiao" where
  "read_register i r =
    (\<lambda>d. let m = motors d ! i in
      ebind (elift (make_register_read (can_id m) r)) (\<lambda>frame.
      ebind (with_io (can_send frame)) (\<lambda>_.
      ebind clock_now (\<lambda>now d.
        case wait_rounds (\<lambda>d. drain_register (max_rx_frames_per_cycle d) m r d)
               (now + milliseconds (configure_timeout_ms d)) d of
          (Inl e, d1) \<Rightarrow> (Inl e, d1)
        | (Inr (Some v), d1) \<Rightarrow> (Inr v, d1)
        | (Inr None, d1) \<Rightarrow> (Inl (runtime_error ''timed out reading register''), d1)))) d)"

definition await_feedback :: "nat \<Rightarrow> damiao \<Rightarrow> (exn + bool) \<times> damiao" where
  "await_feedback i =
    ebind clock_now (\<lambda>now d.
      let previous = m_received_at (motors d ! i) in
      case wait_rounds (\<lambda>d. case drain_feedback (max_rx_frames_per_cycle d) i previous d of
                             (Inl e, d1) \<Rightarrow> (Inl e, d1)
                           | (Inr got, d1) \<Rightarrow> (Inr (if got then Some () else None), d1))
             (now + milliseconds (configure_timeout_ms d)) d of
        (Inl e, d1) \<Rightarrow> (Inl e, d1)
      | (Inr r, d1) \<Rightarrow> (Inr (r \<noteq> None), d1))"

subsection \<open>\<open>on_configure\<close>\<close>

definition update_motor :: "nat \<Rightarrow> (Motor \<Rightarrow> Motor) \<Rightarrow> damiao \<Rightarrow> damiao" where
  "update_motor i f d = d\<lparr>motors := (motors d)[i := f (motors d ! i)]\<rparr>"

text \<open>A register read as a float and widened, as \<open>RegisterReply{...}.float_value()\<close> does.\<close>

definition read_float :: "nat \<Rightarrow> motor_register \<Rightarrow> damiao \<Rightarrow> (exn + f64) \<times> damiao" where
  "read_float i r = ebind (read_register i r) (\<lambda>raw. ereturn (f32_value raw))"

definition read_limits :: "nat \<Rightarrow> damiao \<Rightarrow> (exn + unit) \<times> damiao" where
  "read_limits i =
    ebind (read_float i position_max_register) (\<lambda>p d.
    ebind (read_float i velocity_max_register) (\<lambda>v d.
    ebind (read_float i torque_max_register) (\<lambda>t d.
      (Inr (), update_motor i (\<lambda>m. m\<lparr>m_limits := (m_limits m)\<lparr>torque_max := t\<rparr>\<rparr>) d))
      (update_motor i (\<lambda>m. m\<lparr>m_limits := (m_limits m)\<lparr>velocity_max := v\<rparr>\<rparr>) d))
      (update_motor i (\<lambda>m. m\<lparr>m_limits := (m_limits m)\<lparr>position_max := p\<rparr>\<rparr>) d))"

definition check_identity :: "nat \<Rightarrow> damiao \<Rightarrow> (exn + unit) \<times> damiao" where
  "check_identity i =
    ebind (read_register i can_id_register) (\<lambda>c.
    ebind (read_register i master_id_register) (\<lambda>m.
    ebind (read_register i can_timeout) (\<lambda>t.
    ebind (read_register i can_bitrate) (\<lambda>b d.
      (validate_motor_configuration
         \<lparr>mc_can_id = c, mc_master_id = m, timeout_ticks = t, bitrate_code = b\<rparr>
         (can_id (motors d ! i)) (master_id (motors d ! i)), d)))))"

definition check_profile :: "nat \<Rightarrow> damiao \<Rightarrow> (exn + unit) \<times> damiao" where
  "check_profile i =
    ebind (read_float i acceleration) (\<lambda>a.
    ebind (read_float i deceleration) (\<lambda>b.
    ebind (read_float i maximum_speed) (\<lambda>s d.
      (validate_trapezoidal_profile
         \<lparr>acceleration_krad_s2 = a, deceleration_krad_s2 = b, maximum_speed_rad_s = s\<rparr>
         (expected_profile (motors d ! i)), d))))"

definition limits_incompatible :: "Motor \<Rightarrow> bool" where
  "limits_incompatible m \<longleftrightarrow>
     \<not> limits_valid (m_limits m) \<or> f64_less (velocity_max (m_limits m)) (velocity_limit m)"

definition not_disabled_inside :: "Motor \<Rightarrow> bool" where
  "not_disabled_inside m \<longleftrightarrow>
     \<not> f64_eq (m_enabled m) (Fin 0) \<or> f64_less (m_position m) (command_min m)
     \<or> f64_less (command_max m) (m_position m)"

definition configure_motor :: "nat \<Rightarrow> damiao \<Rightarrow> (exn + unit) \<times> damiao" where
  "configure_motor i =
    ebind (check_identity i) (\<lambda>_.
    ebind (read_register i control_mode) (\<lambda>mode.
    ebind (eguard (mode = kPositionVelocityMode) (runtime_error ''mode 2'')) (\<lambda>_.
    ebind (read_limits i) (\<lambda>_.
    ebind (check_profile i) (\<lambda>_ d.
      if limits_incompatible (motors d ! i) then (Inl (runtime_error ''mapping limits''), d)
      else ebind (elift (make_special_command (can_id (motors d ! i)) disable_motor)) (\<lambda>frame.
           ebind (with_io (can_send frame)) (\<lambda>_.
           ebind (await_feedback i) (\<lambda>heard d.
             if \<not> heard then (Inl (runtime_error ''no initial feedback''), d)
             else if not_disabled_inside (motors d ! i)
             then (Inl (runtime_error ''not disabled inside limits''), d)
             else (Inr (), update_motor i (\<lambda>m. m\<lparr>m_command := m_position m\<rparr>) d)))) d)))))"

fun configure_motors :: "nat list \<Rightarrow> damiao \<Rightarrow> (exn + unit) \<times> damiao" where
  "configure_motors [] = ereturn ()"
| "configure_motors (i # is) = ebind (configure_motor i) (\<lambda>_. configure_motors is)"

definition first_step :: "damiao \<Rightarrow> (exn + unit) \<times> damiao" where
  "first_step = ebind clock_now (\<lambda>now d.
    (Inr (), update_control_states (d\<lparr>state_machine := Some (snd (head_step now False 0
       (fold (\<lambda>i statuses. statuses[i := \<lparr>ms_valid = True, ms_status = m_status (motors d ! i),
                                       ms_received_at = now\<rparr>])
             [0..<length (motors d)] [no_status, no_status]) (the (state_machine d))))\<rparr>)))"

definition configure_body :: "damiao \<Rightarrow> (exn + unit) \<times> damiao" where
  "configure_body d =
    ebind (with_io (can_open (can_interface d) (map master_id (motors d)))) (\<lambda>_.
    ebind (configure_motors [0..<length (motors d)]) (\<lambda>_ d.
      ebind emplace_head (\<lambda>_. first_step) (set_inactive d))) d"

definition dm_on_configure :: "damiao \<Rightarrow> return_type \<times> damiao" where
  "dm_on_configure d =
    (case configure_body d of
       (Inr _, d1) \<Rightarrow> (OK, d1)
     | (Inl _, d1) \<Rightarrow> (ERROR, close_bus (dm_send_disable d1)))"

end
