(* ===== verification/DamiaoEffects.thy ===== *)
theory DamiaoEffects
  imports DamiaoBus DamiaoConfigure
begin

text \<open>
  What the operations that wait for the motors may do to the plugin's state. The locale \<open>bus_effect\<close>
  is the interface: a reflexive and transitive relation that allows the single steps -- a system
  call that sends nothing, a quiet frame sent, a frame observed -- allows the loops over them.
\<close>

subsection \<open>Quiet frames\<close>

definition motor_ids :: "damiao \<Rightarrow> u16 list" where
  "motor_ids d = map can_id (motors d)"

definition quiet_frame :: "u16 list \<Rightarrow> CanFrame \<Rightarrow> bool" where
  "quiet_frame ids f \<longleftrightarrow>
     (\<exists>c \<in> set ids. make_special_command c disable_motor = Inr f \<or> (\<exists>r. make_register_read c r = Inr f))"

lemma can_wait_readable_wire [simp]: "k_wire (snd (can_wait_readable t io)) = k_wire io"
proof -
  have "k_wire (snd (wait_loop t io)) = k_wire io"
  proof (induction t io rule: wait_loop.induct)
    case (1 t io)
    have w: "k_wire (snd (socket_wait_readable t io)) = k_wire io"
      by (simp add: socket_wait_readable_def split: list.splits poll_result.splits)
    show ?case
      using 1 w by (subst wait_loop.simps) (auto simp: Let_def split: prod.splits)
  qed
  then show ?thesis by (simp add: can_wait_readable_def Let_def split_beta)
qed

lemma pop_open_wire [simp]: "k_wire (snd (pop_open io)) = k_wire io"
  by (simp add: pop_open_def split: list.splits)

lemma socket_close_wire [simp]: "k_wire (socket_close io) = k_wire io"
  by (simp add: socket_close_def)

lemma can_open_wire [simp]: "k_wire (snd (can_open name ids io)) = k_wire io"
  by (simp add: can_open_def socket_open_def Let_def split_beta)

lemma map_sum_eq_Inr: "map_sum f g r = Inr y \<longleftrightarrow> (\<exists>x. r = Inr x \<and> y = g x)"
  by (cases r) auto

lemma observe_loop_ids: "observe_loop f t ms = Inr ms' \<Longrightarrow> map can_id ms' = map can_id ms"
  by (induction ms arbitrary: ms')
     (auto simp: store_feedback_def map_sum_eq_Inr split: if_splits sum.splits)

lemma nth_motor_id: "motor_ids d = ids \<Longrightarrow> i < length ids \<Longrightarrow> can_id (motors d ! i) \<in> set ids"
  by (auto simp: motor_ids_def)

definition next_round ::
  "(damiao \<Rightarrow> (exn + 'a option) \<times> damiao) \<Rightarrow> int \<Rightarrow> nat \<Rightarrow> 'a option \<Rightarrow> damiao \<Rightarrow> (exn + 'a option) \<times> damiao" where
  "next_round drain deadline n r d3 =
    (case r of
       Some v \<Rightarrow> (Inr (Some v), d3)
     | None \<Rightarrow> (let (t, d4) = with_io steady_now d3
               in if deadline \<le> t \<or> n \<le> length (poll_script d4) then (Inr None, d4)
                  else wait_rounds drain deadline d4))"

lemma wait_rounds_unfold:
  "wait_rounds drain deadline d =
    (let (timeout, d1) = remaining_milliseconds deadline d in
     ebind (with_io (can_wait_readable timeout)) (\<lambda>readable.
       if \<not> readable then ereturn None
       else ebind drain (next_round drain deadline (length (poll_script d)))) d1)"
  by (subst wait_rounds.simps)
     (auto simp: ebind_def ereturn_def next_round_def Let_def split: prod.splits sum.splits option.splits)

subsection \<open>Effects of waiting on the bus\<close>

definition always :: "u16 list \<Rightarrow> (damiao \<Rightarrow> damiao \<Rightarrow> bool) \<Rightarrow> (damiao \<Rightarrow> 'a \<times> damiao) \<Rightarrow> bool" where
  "always ids R f \<longleftrightarrow> (\<forall>d. motor_ids d = ids \<longrightarrow> R d (snd (f d)))"

lemma alwaysD: "always ids R f \<Longrightarrow> motor_ids d = ids \<Longrightarrow> R d (snd (f d))"
  by (simp add: always_def)

lemma always_same_state: "always ids R f \<Longrightarrow> (\<And>d. snd (g d) = snd (f d)) \<Longrightarrow> always ids R g"
  by (simp add: always_def)

lemma always_on_state: "(\<And>e. motor_ids e = ids \<Longrightarrow> always ids R (f e)) \<Longrightarrow> always ids R (\<lambda>d. f d d)"
  by (simp add: always_def)

locale bus_effect =
  fixes R :: "damiao \<Rightarrow> damiao \<Rightarrow> bool" and ids :: "u16 list"
  assumes refl: "R d d"
    and trans: "R a b \<Longrightarrow> R b c \<Longrightarrow> R a c"
    and keeps_ids: "R a b \<Longrightarrow> motor_ids a = ids \<Longrightarrow> motor_ids b = ids"
    and silent: "k_wire k = k_wire (dm_io d) \<Longrightarrow> R d (d\<lparr>dm_io := k\<rparr>)"
    and sent: "motor_ids d = ids \<Longrightarrow> quiet_frame ids f \<Longrightarrow> R d (d\<lparr>dm_io := snd (can_send f (dm_io d))\<rparr>)"
    and observed: "observe_loop f t (motors d) = Inr ms \<Longrightarrow> R d (d\<lparr>motors := ms\<rparr>)"
begin

lemma always_ebind:
  assumes "always ids R f" "\<And>x. always ids R (g x)"
  shows "always ids R (ebind f g)"
  unfolding always_def
proof (intro allI impI)
  fix d assume d: "motor_ids d = ids"
  have f: "R d (snd (f d))" using assms(1) d by (rule alwaysD)
  have "R (snd (f d)) (snd (g x (snd (f d))))" for x
    using assms(2) keeps_ids [OF f d] by (rule alwaysD)
  with f trans show "R d (snd (ebind f g d))"
    by (fastforce simp: snd_ebind split: sum.splits)
qed

lemma always_values: "always ids R (ereturn x)" "always ids R (elift r)"
  "always ids R (eguard b e)" "always ids R (\<lambda>d. (r, d))"
  by (simp_all add: always_def exn_simps refl)

lemma always_if: "always ids R f \<Longrightarrow> always ids R g \<Longrightarrow> always ids R (\<lambda>d. if P d then f d else g d)"
  by (simp add: always_def)

lemma always_io: "(\<And>io. k_wire (snd (f io)) = k_wire io) \<Longrightarrow> always ids R (with_io f)"
  by (simp add: always_def with_io_state silent)

lemma always_clock: "always ids R clock_now" "always ids R (remaining_milliseconds deadline)"
  unfolding clock_now_def remaining_milliseconds_def
  by (rule always_io; simp add: split_beta)+

lemma always_calls: "always ids R (with_io can_receive)" "always ids R (with_io steady_now)"
  "always ids R (with_io (can_wait_readable t))" "always ids R (with_io (can_open name masters))"
  by (rule always_io; simp)+

text \<open>Building a frame and sending it, the frame being quiet.\<close>

lemma always_send:
  assumes "\<And>f. r = Inr f \<Longrightarrow> quiet_frame ids f" "\<And>f. r = Inr f \<Longrightarrow> always ids R (g f)"
  shows "always ids R (ebind (elift r) (\<lambda>f. ebind (with_io (can_send f)) (\<lambda>_. g f)))"
proof (cases r)
  case (Inl e)
  then show ?thesis by (simp add: always_def snd_ebind refl)
next
  case (Inr f)
  have "always ids R (with_io (can_send f))"
    using assms(1) Inr by (simp add: always_def with_io_state sent)
  then have "always ids R (ebind (with_io (can_send f)) (\<lambda>_. g f))"
    using assms(2) Inr by (intro always_ebind) auto
  then show ?thesis by (simp add: always_def snd_ebind Inr)
qed

lemma always_observe: "always ids R (observe_frame f t)"
  by (simp add: always_def observe_frame_def refl observed split: sum.splits)

lemmas always_rules = always_ebind always_values always_if always_clock always_calls always_observe

lemma always_receive_loop: "always ids R (receive_loop n)"
proof (induction n)
  case 0
  then show ?case by (simp add: always_values)
next
  case (Suc n)
  have "always ids R (case r of None \<Rightarrow> ereturn ()
      | Some frame \<Rightarrow> ebind clock_now (\<lambda>t. ebind (observe_frame frame t) (\<lambda>_. receive_loop n)))" for r
    using Suc by (cases r) (auto intro!: always_rules)
  then show ?case by (auto intro!: always_rules)
qed

lemma always_drain_register: "always ids R (drain_register n m r)"
proof (induction n)
  case 0
  then show ?case by (simp add: always_values)
next
  case (Suc n)
  have "always ids R (case x of None \<Rightarrow> ereturn None | Some frame \<Rightarrow>
      (if \<not> answers m r frame then drain_register n m r
       else ebind (elift (decode_register_reply frame)) (\<lambda>reply.
         if rr_motor_id reply = can_id m then ereturn (Some (raw_value reply))
         else drain_register n m r)))" for x
    using Suc by (cases x) (auto intro!: always_rules)
  then show ?case by (auto intro!: always_rules)
qed

lemma always_drain_feedback: "always ids R (drain_feedback n i previous)"
proof (induction n)
  case 0
  then show ?case by (simp add: always_values)
next
  case (Suc n)
  have "always ids R (\<lambda>d. if previous < m_received_at (motors d ! i) then (Inr True, d)
      else drain_feedback n i previous d)"
    using Suc by (intro always_if always_values)
  then have "always ids R (case x of None \<Rightarrow> ereturn False | Some frame \<Rightarrow>
      ebind clock_now (\<lambda>t. ebind (observe_frame frame t) (\<lambda>_ d.
        if previous < m_received_at (motors d ! i) then (Inr True, d)
        else drain_feedback n i previous d)))" for x
    by (cases x) (auto intro!: always_rules)
  then show ?case by (auto intro!: always_rules)
qed

lemma always_wait_rounds:
  assumes drain: "always ids R drain"
  shows "always ids R (wait_rounds drain deadline)"
proof -
  have "R d (snd (wait_rounds drain deadline d))" if "motor_ids d = ids" for d
    using that
  proof (induction d rule: measure_induct_rule [where f = "\<lambda>d. length (poll_script d)"])
    case (less d)
    have "R d3 (snd (next_round drain deadline (length (poll_script d)) r d3))"
      if d3: "motor_ids d3 = ids" for r d3
    proof -
      define d4 where "d4 = snd (with_io steady_now d3)"
      have r4: "R d3 d4" unfolding d4_def by (rule alwaysD [OF always_calls(2) d3])
      have "R d3 (snd (wait_rounds drain deadline d4))" if "length (poll_script d4) < length (poll_script d)"
        using r4 less.IH [OF that keeps_ids [OF r4 d3]] by (rule trans)
      with r4 show ?thesis
        by (simp add: next_round_def Let_def split_beta d4_def [symmetric] refl split: option.splits)
    qed
    then have "always ids R (next_round drain deadline (length (poll_script d)) r)" for r
      by (simp add: always_def)
    then have rest: "always ids R (ebind (with_io (can_wait_readable t)) (\<lambda>readable.
        if \<not> readable then ereturn None
        else ebind drain (next_round drain deadline (length (poll_script d)))))" for t
      using drain by (auto intro!: always_rules)
    have r1: "R d (snd (remaining_milliseconds deadline d))"
      by (rule alwaysD [OF always_clock(2) less.prems])
    show ?case
      unfolding wait_rounds_unfold [of drain deadline d] Let_def split_beta
      by (rule trans [OF r1 alwaysD [OF rest keeps_ids [OF r1 less.prems]]])
  qed
  then show ?thesis by (simp add: always_def)
qed

lemma always_read_register:
  assumes i: "i < length ids"
  shows "always ids R (read_register i r)"
proof -
  let ?wait = "\<lambda>m now d. wait_rounds (\<lambda>d. drain_register (max_rx_frames_per_cycle d) m r d)
    (now + milliseconds (configure_timeout_ms d)) d"
  let ?rest = "\<lambda>m now d. case ?wait m now d of
      (Inl e, d1) \<Rightarrow> (Inl e, d1)
    | (Inr (Some v), d1) \<Rightarrow> (Inr v, d1)
    | (Inr None, d1) \<Rightarrow> (Inl (runtime_error ''timed out reading register''), d1)"
  have drain: "always ids R (\<lambda>d. drain_register (max_rx_frames_per_cycle d) m r d)" for m
    using always_drain_register by (simp add: always_def)
  have wait: "always ids R (?wait m now)" for m now
    using always_wait_rounds [OF drain] by (simp add: always_def)
  have rest: "always ids R (?rest m now)" for m now
    by (rule always_same_state [OF wait [of m now]]) (simp split: prod.splits sum.splits option.splits)
  have "always ids R (ebind (elift (make_register_read (can_id m) r)) (\<lambda>frame.
      ebind (with_io (can_send frame)) (\<lambda>_. ebind clock_now (?rest m))))" if "can_id m \<in> set ids" for m
    using that rest by (intro always_send always_rules) (auto simp: quiet_frame_def)
  then have "R d (snd (ebind (elift (make_register_read (can_id m) r)) (\<lambda>frame.
      ebind (with_io (can_send frame)) (\<lambda>_. ebind clock_now (?rest m))) d))"
    if "motor_ids d = ids" "m = motors d ! i" for d m
    using that nth_motor_id [OF that(1) i] by (simp add: always_def)
  then show ?thesis unfolding always_def read_register_def Let_def by blast
qed

lemma always_await_feedback: "always ids R (await_feedback i)"
proof -
  let ?drain = "\<lambda>previous d. case drain_feedback (max_rx_frames_per_cycle d) i previous d of
      (Inl e, d1) \<Rightarrow> (Inl e, d1) | (Inr got, d1) \<Rightarrow> (Inr (if got then Some () else None), d1)"
  have drain: "always ids R (\<lambda>d. drain_feedback (max_rx_frames_per_cycle d) i previous d)" for previous
    using always_drain_feedback by (simp add: always_def)
  have "always ids R (?drain previous)" for previous
    by (rule always_same_state [OF drain [of previous]]) (simp split: prod.splits sum.splits)
  then have rounds: "always ids R (wait_rounds (?drain previous) deadline)" for previous deadline
    by (rule always_wait_rounds)
  have wait: "always ids R (\<lambda>d. wait_rounds (?drain (m_received_at (motors d ! i)))
      (now + milliseconds (configure_timeout_ms d)) d)" for now
    using rounds by (simp add: always_def)
  have "always ids R (\<lambda>d. let previous = m_received_at (motors d ! i) in
      case wait_rounds (?drain previous) (now + milliseconds (configure_timeout_ms d)) d of
        (Inl e, d1) \<Rightarrow> (Inl e, d1) | (Inr r, d1) \<Rightarrow> (Inr (r \<noteq> None), d1))" for now
    by (rule always_same_state [OF wait [of now]]) (simp add: Let_def split: prod.splits sum.splits)
  then show ?thesis unfolding await_feedback_def by (intro always_rules)
qed

lemma always_read_float: "i < length ids \<Longrightarrow> always ids R (read_float i r)"
  unfolding read_float_def by (intro always_rules always_read_register)

lemma always_checks:
  assumes "i < length ids"
  shows "always ids R (check_identity i)" "always ids R (check_profile i)"
  unfolding check_identity_def check_profile_def
  by (intro always_ebind always_read_register always_read_float assms; simp add: always_def refl)+

end

end
