(* ===== verification/DamiaoRun.thy ===== *)
theory DamiaoRun
  imports DamiaoClaims DamiaoEffects
begin

text \<open>
  The plugin as a whole: the events the framework, the controllers and the bus cause, and runs of
  them. The section on quiet operations shows that nothing but an active cycle's \<open>write\<close> commands a
  motor to move or to hold.
\<close>

subsection \<open>Events\<close>

text \<open>
  \<open>EvBus\<close> replaces the scripts of the environment: what the kernel and the clock will answer.
  \<open>EvRequest\<close> and \<open>EvCommand\<close> are controllers writing the command interfaces.
\<close>

datatype plugin_event =
    EvConfigure | EvActivate | EvDeactivate | EvCleanup | EvShutdown | EvError | EvRead | EvWrite
  | EvSwitch "string list" "string list"
  | EvRequest f64 f64
  | EvCommand nat f64
  | EvBus "open_script list" "send_result list" "recv_result list" "poll_result list" "int list"

fun plugin_step :: "plugin_event \<Rightarrow> damiao \<Rightarrow> damiao" where
  "plugin_step EvConfigure d = snd (dm_on_configure d)"
| "plugin_step EvActivate d = snd (dm_on_activate d)"
| "plugin_step EvDeactivate d = dm_on_deactivate d"
| "plugin_step EvCleanup d = dm_on_cleanup d"
| "plugin_step EvShutdown d = dm_on_shutdown d"
| "plugin_step EvError d = dm_on_error d"
| "plugin_step EvRead d = snd (dm_read d)"
| "plugin_step EvWrite d = snd (dm_write d)"
| "plugin_step (EvSwitch start stop) d =
     (if prepare_command_mode_switch start stop d = OK
      then snd (perform_command_mode_switch start stop d) else d)"
| "plugin_step (EvRequest en gen) d = d\<lparr>enable_request := en, reset_generation := gen\<rparr>"
| "plugin_step (EvCommand i v) d = update_motor i (\<lambda>m. m\<lparr>m_command := v\<rparr>) d"
| "plugin_step (EvBus opens sends recvs polls clock) d =
     d\<lparr>dm_io := (dm_io d)\<lparr>k_open := opens, k_send := sends, k_recv := recvs, k_poll := polls,
                         k_clock := clock\<rparr>\<rparr>"

definition plugin_run :: "plugin_event list \<Rightarrow> damiao \<Rightarrow> damiao" where
  "plugin_run es d = fold plugin_step es d"

lemma plugin_run_simps [simp]:
  "plugin_run [] d = d" "plugin_run (e # es) d = plugin_run es (plugin_step e d)"
  by (simp_all add: plugin_run_def)

subsection \<open>Quiet operations\<close>

text \<open>
  \<open>quiet d d'\<close>: the motors keep their identifiers, only quiet frames were added to the bus, and the
  hardware was not made active.
\<close>

definition quiet :: "damiao \<Rightarrow> damiao \<Rightarrow> bool" where
  "quiet d d' \<longleftrightarrow> motor_ids d' = motor_ids d \<and> wire_ext (quiet_frame (motor_ids d)) (dm_io d) (dm_io d')
     \<and> (hardware_active d' \<longrightarrow> hardware_active d)"

lemma quiet_refl [simp]: "quiet d d"
  by (simp add: quiet_def)

lemma quiet_trans [trans]: "quiet a b \<Longrightarrow> quiet b c \<Longrightarrow> quiet a c"
  unfolding quiet_def using wire_ext_trans by auto

lemma quiet_same:
  "motor_ids d' = motor_ids d \<Longrightarrow> k_wire (dm_io d') = k_wire (dm_io d) \<Longrightarrow>
     hardware_active d' \<longrightarrow> hardware_active d \<Longrightarrow> quiet d d'"
  by (simp add: quiet_def wire_ext_same)

interpretation quiet: bus_effect quiet ids for ids
proof unfold_locales
  fix a b c
  show "quiet a a" by simp
  show "quiet a b \<Longrightarrow> quiet b c \<Longrightarrow> quiet a c" by (rule quiet_trans)
  show "quiet a b \<Longrightarrow> motor_ids a = ids \<Longrightarrow> motor_ids b = ids" by (simp add: quiet_def)
next
  fix k and d :: damiao
  show "k_wire k = k_wire (dm_io d) \<Longrightarrow> quiet d (d\<lparr>dm_io := k\<rparr>)"
    by (simp add: quiet_same motor_ids_def)
next
  fix d :: damiao and f
  assume "motor_ids d = ids" "quiet_frame ids f"
  then show "quiet d (d\<lparr>dm_io := snd (can_send f (dm_io d))\<rparr>)"
    using can_send_wire [of f "dm_io d"]
    by (auto simp: quiet_def motor_ids_def intro: wire_ext_mono)
next
  fix f t ms and d :: damiao
  assume "observe_loop f t (motors d) = Inr ms"
  then show "quiet d (d\<lparr>motors := ms\<rparr>)"
    by (intro quiet_same) (simp_all add: motor_ids_def observe_loop_ids)
qed

subsection \<open>Configuration is quiet\<close>

lemma quiet_update_motor:
  assumes "\<And>m. can_id (f m) = can_id m"
  shows "quiet d (update_motor i f d)"
proof -
  have "motor_ids (update_motor i f d) = motor_ids d"
    by (cases "i < length (motors d)")
       (simp_all add: motor_ids_def update_motor_def map_update assms list_update_same_conv
          list_update_beyond)
  then show ?thesis by (rule quiet_same) (simp_all add: update_motor_def)
qed

lemma quiet_after_update:
  assumes "always ids quiet g" "\<And>m. can_id (f m) = can_id m"
  shows "always ids quiet (\<lambda>d. g (update_motor i f d))"
  unfolding always_def
proof (intro allI impI)
  fix d assume d: "motor_ids d = ids"
  have q: "quiet d (update_motor i f d)" using assms(2) by (rule quiet_update_motor)
  from alwaysD [OF assms(1) quiet.keeps_ids [OF q d]] show "quiet d (snd (g (update_motor i f d)))"
    by (rule quiet_trans [OF q])
qed

lemma quiet_configure_motor:
  assumes i: "i < length ids"
  shows "always ids quiet (configure_motor i)"
proof -
  have update: "always ids quiet (\<lambda>d. (r, update_motor i f d))"
    if "\<And>m. can_id (f m) = can_id m" for r :: "exn + unit" and f
    using quiet_update_motor [OF that] by (simp add: always_def)
  have limits: "always ids quiet (read_limits i)"
    unfolding read_limits_def
    by (intro quiet.always_ebind quiet.always_read_float i quiet_after_update update) simp_all
  let ?check = "\<lambda>heard d. if \<not> heard then (Inl (runtime_error ''no initial feedback''), d)
    else if not_disabled_inside (motors d ! i)
    then (Inl (runtime_error ''not disabled inside limits''), d)
    else (Inr (), update_motor i (\<lambda>m. m\<lparr>m_command := m_position m\<rparr>) d)"
  let ?probe = "\<lambda>c. ebind (elift (make_special_command c disable_motor)) (\<lambda>frame.
    ebind (with_io (can_send frame)) (\<lambda>_. ebind (await_feedback i) ?check))"
  have "quiet d (update_motor i (\<lambda>m. m\<lparr>m_command := m_position m\<rparr>) d)" for d
    by (rule quiet_update_motor) simp
  then have "always ids quiet (?check heard)" for heard
    by (simp add: always_def)
  then have "always ids quiet (?probe c)" if "c \<in> set ids" for c
    using that by (intro quiet.always_send quiet.always_ebind quiet.always_await_feedback)
      (auto simp: quiet_frame_def)
  then have "always ids quiet (\<lambda>d. if limits_incompatible (motors d ! i)
      then (Inl (runtime_error ''mapping limits''), d) else ?probe (can_id (motors d ! i)) d)"
    using nth_motor_id [OF _ i] by (simp add: always_def)
  then show ?thesis
    unfolding configure_motor_def
    by (intro quiet.always_ebind quiet.always_read_register quiet.always_values quiet.always_checks
        i limits)
qed

lemma quiet_configure_motors:
  "\<forall>i \<in> set is. i < length ids \<Longrightarrow> always ids quiet (configure_motors is)"
  by (induction "is") (simp_all add: quiet.always_values quiet.always_ebind quiet_configure_motor)

lemma quiet_emplace_head: "always ids quiet emplace_head"
  by (auto simp: always_def emplace_head_def motor_ids_def intro: quiet_same split: option.splits)

lemma quiet_first_step: "always ids quiet first_step"
  unfolding first_step_def
  by (intro quiet.always_rules) (auto simp: always_def motor_ids_def intro: quiet_same)

lemma quiet_set_inactive: "quiet d (set_inactive d)"
  by (simp add: quiet_same motor_ids_def set_inactive_def)

lemma quiet_configure_body: "quiet d (snd (configure_body d))"
proof -
  let ?ids = "motor_ids d"
  have reset: "always ?ids quiet (ebind emplace_head (\<lambda>_. first_step))"
    by (intro quiet.always_ebind quiet_emplace_head quiet_first_step)
  have "always ?ids quiet (\<lambda>d. ebind emplace_head (\<lambda>_. first_step) (set_inactive d))"
    unfolding always_def
  proof (intro allI impI)
    fix e assume "motor_ids e = ?ids"
    with quiet_set_inactive have "motor_ids (set_inactive e) = ?ids" by (rule quiet.keeps_ids)
    from alwaysD [OF reset this]
    show "quiet e (snd (ebind emplace_head (\<lambda>_. first_step) (set_inactive e)))"
      by (rule quiet_trans [OF quiet_set_inactive])
  qed
  then have "always ?ids quiet (ebind (with_io (can_open (can_interface d) (map master_id (motors d)))) (\<lambda>_.
      ebind (configure_motors [0..<length (motors d)]) (\<lambda>_ d.
        ebind emplace_head (\<lambda>_. first_step) (set_inactive d))))"
    by (intro quiet.always_ebind quiet.always_calls quiet_configure_motors) (simp_all add: motor_ids_def)
  then show ?thesis by (simp add: always_def configure_body_def)
qed

subsection \<open>Every event but a cycle's write is quiet\<close>

lemma quiet_send_disable: "quiet d (dm_send_disable d)"
proof -
  have "wire_ext (quiet_frame (motor_ids d)) (dm_io d) (dm_io (dm_send_disable d))"
    using dm_send_disable_wire
    by (rule wire_ext_mono) (auto simp: disable_frame_def quiet_frame_def motor_ids_def)
  moreover have "motor_ids (dm_send_disable d) = motor_ids d"
      "hardware_active (dm_send_disable d) = hardware_active d"
    by (simp_all add: dm_send_disable_def motor_ids_def)
  ultimately show ?thesis by (simp add: quiet_def)
qed

lemma quiet_close_bus: "quiet d (close_bus d)"
  by (simp add: close_bus_def quiet_same motor_ids_def)

lemma quiet_flags:
  "quiet d (set_inactive d)" "quiet d (d\<lparr>enable_request := en\<rparr>)"
  "quiet d (d\<lparr>enable_request := en, reset_generation := g\<rparr>)"
  "quiet d (d\<lparr>command_interfaces_active := b\<rparr>)"
  by (simp_all add: quiet_same motor_ids_def set_inactive_def)

lemma quiet_configure: "quiet d (snd (dm_on_configure d))"
  using quiet_configure_body [of d]
  by (auto simp: dm_on_configure_def split: prod.splits sum.splits
      intro: quiet_trans [OF quiet_trans [OF _ quiet_send_disable] quiet_close_bus])

lemma quiet_read: "quiet d (snd (dm_read d))"
proof -
  have loop: "always (motor_ids d) quiet (receive_loop n)" for n
    by (rule quiet.always_receive_loop)
  have "always (motor_ids d) quiet (\<lambda>d. (Inr (), d\<lparr>motors :=
      map (\<lambda>m. m\<lparr>m_feedback_age_ms := feedback_age now m\<rparr>) (motors d)\<rparr>))" for now
    by (simp add: always_def quiet_same motor_ids_def comp_def)
  then have "always (motor_ids d) quiet (ebind (receive_loop n) (\<lambda>_. ebind clock_now (\<lambda>now d.
      (Inr (), d\<lparr>motors := map (\<lambda>m. m\<lparr>m_feedback_age_ms := feedback_age now m\<rparr>) (motors d)\<rparr>))))" for n
    by (intro quiet.always_ebind quiet.always_clock loop)
  then have "quiet d (snd (read_body d))" by (simp add: always_def read_body_def)
  then show ?thesis
    by (auto simp: dm_read_def split: prod.splits sum.splits
        intro: quiet_trans [OF quiet_trans [OF _ quiet_send_disable] quiet_flags(4)])
qed

lemma seed_bounded_ids: "map can_id (snd (seed_bounded ms)) = map can_id ms"
  by (induction ms) (simp_all add: split_beta)

lemma quiet_switch: "quiet d (snd (perform_command_mode_switch start stop d))"
  by (rule quiet_same)
     (simp_all add: perform_command_mode_switch_def Let_def split_beta motor_ids_def
        seed_bounded_ids comp_def if_distrib)

lemma quiet_lifecycle:
  "quiet d (dm_on_deactivate d)" "quiet d (dm_on_cleanup d)"
  "quiet d (dm_on_shutdown d)" "quiet d (dm_on_error d)"
proof -
  have off: "quiet d (set_inactive (close_bus (dm_send_disable d)))"
    by (rule quiet_trans [OF quiet_trans [OF quiet_send_disable quiet_close_bus] quiet_flags(1)])
  show "quiet d (dm_on_cleanup d)" "quiet d (dm_on_shutdown d)" "quiet d (dm_on_error d)"
    using off by (simp_all add: dm_on_cleanup_def dm_on_shutdown_def dm_on_error_def)
  show "quiet d (dm_on_deactivate d)"
    unfolding dm_on_deactivate_def
    by (rule quiet_trans [OF quiet_trans [OF quiet_send_disable quiet_flags(2)] quiet_flags(1)])
qed

lemma quiet_step: "e \<noteq> EvWrite \<Longrightarrow> e \<noteq> EvActivate \<Longrightarrow> quiet d (plugin_step e d)"
proof (cases e)
  case (EvCommand i v)
  have "quiet d (update_motor i (\<lambda>m. m\<lparr>m_command := v\<rparr>) d)"
    by (rule quiet_update_motor) simp
  then show ?thesis by (simp add: EvCommand)
qed (simp_all add: quiet_configure quiet_read quiet_lifecycle quiet_switch quiet_flags
      quiet_same motor_ids_def)

text \<open>
  Only an active cycle commands the motors. Every other operation of the plugin -- configuration
  with its register reads and initial feedback, reading, mode switches, the lifecycle callbacks,
  interfaces written by controllers -- adds nothing to the bus but disable commands and register
  reads of the plugin's own motors: no enable, no fault clearing, no position, no register write.
\<close>

theorem only_write_commands_motors:
  assumes "e \<noteq> EvWrite"
  shows "motor_ids (plugin_step e d) = motor_ids d \<and>
    wire_ext (quiet_frame (motor_ids d)) (dm_io d) (dm_io (plugin_step e d))"
proof (cases "e = EvActivate")
  case True
  then show ?thesis
    by (simp add: dm_on_activate_def motor_ids_def)
next
  case False
  from quiet_step [OF assms this, of d] show ?thesis by (simp add: quiet_def)
qed

lemma only_write_commands_motors_witness:
  "wire_ext (quiet_frame (motor_ids sample_plugin)) (dm_io sample_plugin)
     (dm_io (plugin_step EvConfigure sample_plugin))"
  using only_write_commands_motors [of EvConfigure sample_plugin] by simp

subsection \<open>An inactive plugin\<close>

lemma inactive_write_idle: "\<not> hardware_active d \<Longrightarrow> dm_write d = (OK, d)"
  by (simp add: dm_write_def)

text \<open>
  A plugin that is not active keeps quiet. Until it is activated, no sequence of events -- cycles
  included, whatever the bus delivers and the controllers request -- puts anything on the bus but
  disable commands and register reads. In particular the motors stay without commands from
  deactivation, cleanup, shutdown or an error on.
\<close>

theorem inactive_plugin_stays_quiet:
  assumes "\<not> hardware_active d" "EvActivate \<notin> set es"
  shows "\<not> hardware_active (plugin_run es d) \<and>
    wire_ext (quiet_frame (motor_ids d)) (dm_io d) (dm_io (plugin_run es d))"
  using assms
proof (induction es arbitrary: d)
  case Nil
  then show ?case by simp
next
  case (Cons e es)
  have q: "quiet d (plugin_step e d)"
  proof (cases "e = EvWrite")
    case True
    with Cons.prems(1) show ?thesis by (simp add: inactive_write_idle)
  next
    case False
    with Cons.prems(2) show ?thesis by (intro quiet_step) auto
  qed
  then have "\<not> hardware_active (plugin_step e d)" using Cons.prems(1) by (auto simp: quiet_def)
  with Cons.IH [of "plugin_step e d"] Cons.prems(2) q show ?case
    using wire_ext_trans by (auto simp: quiet_def)
qed

lemma lifecycle_inactive:
  "\<not> hardware_active (dm_on_deactivate d)" "\<not> hardware_active (dm_on_cleanup d)"
  "\<not> hardware_active (dm_on_shutdown d)" "\<not> hardware_active (dm_on_error d)"
  by (simp_all add: dm_on_deactivate_def dm_on_cleanup_def dm_on_shutdown_def dm_on_error_def
      set_inactive_def)

lemma inactive_plugin_stays_quiet_witness:
  "\<not> hardware_active (plugin_run [EvRequest (Fin 1) (Fin 3), EvWrite, EvRead] (dm_on_deactivate sample_plugin)) \<and>
   wire_ext (quiet_frame (motor_ids (dm_on_deactivate sample_plugin))) (dm_io (dm_on_deactivate sample_plugin))
     (dm_io (plugin_run [EvRequest (Fin 1) (Fin 3), EvWrite, EvRead] (dm_on_deactivate sample_plugin)))"
  by (rule inactive_plugin_stays_quiet) (simp_all add: lifecycle_inactive)

end
