(* ===== verification/HeadHandshake.thy ===== *)
theory HeadHandshake
  imports DamiaoRun Handshake
begin

text \<open>
  The head plugin and the enable manager's view of it, joined: the interfaces the plugin exports
  (\<open>export_state_interfaces\<close>, \<open>export_command_interfaces\<close> of \<open>damiao_system.cpp\<close>) are the ones
  \<open>HandshakeDevice\<close> binds, reads and writes. The channel between the two is faithful, so what the
  manager believes of the head is what the plugin's state machine decided.
\<close>

subsection \<open>Exported interfaces\<close>

definition loan :: "string \<Rightarrow> string \<Rightarrow> f64 \<Rightarrow> loaned" where
  "loan owner name v = \<lparr>prefix_name = owner, interface_name = name, cell = v\<rparr>"

definition motor_state_interfaces :: "string \<Rightarrow> Motor \<Rightarrow> loaned list" where
  "motor_state_interfaces name m =
    [loan name ''position'' (m_position m), loan name ''velocity'' (m_velocity m),
     loan name ''effort'' (m_effort m), loan name ''fault_code'' (m_fault_code m),
     loan name ''mos_temperature'' (m_mos_temperature m),
     loan name ''motor_temperature'' (m_motor_temperature m),
     loan name ''feedback_age_ms'' (m_feedback_age_ms m), loan name ''enabled'' (m_enabled m)]"

definition export_state_interfaces :: "damiao \<Rightarrow> loaned list" where
  "export_state_interfaces d =
     concat (map (\<lambda>i. motor_state_interfaces (joint_names d ! i) (motors d ! i)) [0..<length (motors d)])
     @ [loan (gpio_name d) ''phase'' (phase_state d),
        loan (gpio_name d) ''fault_latched'' (fault_latched_state d),
        loan (gpio_name d) ''handled_reset_generation'' (handled_reset_generation_state d),
        loan (gpio_name d) ''motion_allowed'' (motion_allowed_state d)]"

definition export_command_interfaces :: "damiao \<Rightarrow> loaned list" where
  "export_command_interfaces d =
     map (\<lambda>i. loan (joint_names d ! i) ''position'' (m_command (motors d ! i))) [0..<length (motors d)]
     @ [loan (gpio_name d) ''enable_request'' (enable_request d),
        loan (gpio_name d) ''reset_generation'' (reset_generation d)]"

text \<open>The interfaces point into the plugin: what is written to them is in its state.\<close>

definition deliver :: "loaned list \<Rightarrow> damiao \<Rightarrow> damiao" where
  "deliver cs d =
     d\<lparr>motors := map (\<lambda>i. (motors d ! i)\<lparr>m_command := get_value cs i\<rparr>) [0..<length (motors d)],
       enable_request := get_value cs (length (motors d)),
       reset_generation := get_value cs (Suc (length (motors d)))\<rparr>"

subsection \<open>The device binds the control interfaces\<close>

lemma append_eq_rev: "x @ s = y @ t \<longleftrightarrow> rev s @ rev x = rev t @ rev y"
  by (metis rev_append rev_rev_ident)

lemma joint_state_name_neq:
  assumes "s \<in> set kStateInterfaces" "t \<in> set kControlStateInterfaces"
  shows "x @ ''/'' @ s \<noteq> g @ ''/'' @ t"
  using assms
  by (auto simp: kControlStateInterfaces_def kStateInterfaces_def append_eq_rev [of x] simp del: append_Cons append_Nil)

lemma joint_command_name_neq:
  assumes "t \<in> set kControlCommandInterfaces"
  shows "x @ ''/'' @ ''position'' \<noteq> g @ ''/'' @ t"
  using assms by (auto simp: kControlCommandInterfaces_def append_eq_rev [of x])

text \<open>The binding of a device to a plugin with two motors, as \<open>bind\<close> finds it.\<close>

definition bound_to_head :: "hs_device \<Rightarrow> bool" where
  "bound_to_head dev \<longleftrightarrow> hd_enable_command dev = Some 2 \<and> hd_reset_command dev = Some 3 \<and>
     hd_states dev = [Some 16, Some 17, Some 18, Some 19]"

lemma bind_states_append:
  "bind_states_loop names i (xs @ ys) dev =
     bind_states_loop names (i + length xs) ys (bind_states_loop names i xs dev)"
  by (induction xs arbitrary: i dev) simp_all

lemma bind_commands_append:
  "bind_commands_loop names i (xs @ ys) dev =
     bind_commands_loop names (i + length xs) ys (bind_commands_loop names i xs dev)"
  by (induction xs arbitrary: i dev) simp_all

lemma note_state_name_foreign:
  assumes "full_name x \<notin> set names"
  shows "note_state_name names i x dev = dev"
proof -
  have skip: "\<forall>k \<in> set ks. full_name x \<noteq> names ! k \<Longrightarrow>
      fold (\<lambda>k d. if full_name x = names ! k then d\<lparr>hd_states := (hd_states d)[k := Some i]\<rparr> else d) ks dev
        = dev" for ks
    by (induction ks) simp_all
  have "\<forall>k \<in> set [0..<length names]. full_name x \<noteq> names ! k"
    using assms nth_mem by auto
  from skip [OF this] show ?thesis by (simp only: note_state_name_def)
qed

lemma bind_states_foreign:
  "\<forall>x \<in> set xs. full_name x \<notin> set names \<Longrightarrow> bind_states_loop names i xs dev = dev"
  by (induction xs arbitrary: i) (simp_all add: note_state_name_foreign)

lemma bind_commands_foreign:
  "\<forall>x \<in> set xs. full_name x \<noteq> names ! 0 \<and> full_name x \<noteq> names ! 1 \<Longrightarrow>
     bind_commands_loop names i xs dev = dev"
  by (induction xs arbitrary: i) simp_all

lemma hd_names_control:
  "hd_state_interface_names dev = map (\<lambda>t. hd_gpio dev @ ''/'' @ t) kControlStateInterfaces"
  "hd_command_interface_names dev = map (\<lambda>t. hd_gpio dev @ ''/'' @ t) kControlCommandInterfaces"
  by (simp_all add: hd_state_interface_names_def hd_command_interface_names_def
      kControlStateInterfaces_def kControlCommandInterfaces_def)

lemma motor_interfaces_foreign:
  "\<forall>x \<in> set (motor_state_interfaces name m). full_name x \<notin> set (hd_state_interface_names dev)"
proof
  fix x assume "x \<in> set (motor_state_interfaces name m)"
  then obtain s where "full_name x = name @ ''/'' @ s" "s \<in> set kStateInterfaces"
    by (auto simp: motor_state_interfaces_def loan_def full_name_def kStateInterfaces_def)
  then show "full_name x \<notin> set (hd_state_interface_names dev)"
    using joint_state_name_neq by (auto simp: hd_names_control)
qed

lemma length_motor_state_interfaces [simp]: "length (motor_state_interfaces name m) = 8"
  by (simp add: motor_state_interfaces_def)

lemma bind_control_states:
  assumes "hd_gpio dev = g" "length (hd_states dev) = 4"
  shows "bind_states_loop (hd_state_interface_names dev) n
      [loan g ''phase'' p, loan g ''fault_latched'' f, loan g ''handled_reset_generation'' h,
       loan g ''motion_allowed'' m] dev =
    dev\<lparr>hd_states := [Some n, Some (Suc n), Some (Suc (Suc n)), Some (Suc (Suc (Suc n)))]\<rparr>"
proof -
  obtain a b c e where "hd_states dev = [a, b, c, e]"
    using assms(2) by (auto simp: length_Suc_conv numeral_eq_Suc)
  then show ?thesis
    using assms(1)
    by (simp add: hd_state_interface_names_def note_state_name_def full_name_def loan_def upt_rec)
qed

lemma hd_bind_head:
  assumes d: "length (motors d) = 2" and dev: "hd_gpio dev = gpio_name d"
  shows "hd_bind dev (export_command_interfaces d) (export_state_interfaces d) =
    (True, dev\<lparr>hd_enable_command := Some 2, hd_reset_command := Some 3,
               hd_states := [Some 16, Some 17, Some 18, Some 19]\<rparr>)"
proof -
  define dev0 where "dev0 = hd_release dev"
  have g: "hd_gpio dev0 = gpio_name d" by (simp add: dev0_def hd_release_def dev)
  obtain a b where m: "motors d = [a, b]" using d by (auto simp: length_Suc_conv numeral_2_eq_2)
  have c: "export_command_interfaces d =
      [loan (joint_names d ! 0) ''position'' (m_command a), loan (joint_names d ! 1) ''position'' (m_command b)]
      @ [loan (gpio_name d) ''enable_request'' (enable_request d),
         loan (gpio_name d) ''reset_generation'' (reset_generation d)]"
    by (simp add: export_command_interfaces_def m)
  have commands: "bind_commands_loop (hd_command_interface_names dev0) 0 (export_command_interfaces d) dev0
      = dev0\<lparr>hd_enable_command := Some 2, hd_reset_command := Some 3\<rparr>"
    unfolding c bind_commands_append
    using joint_command_name_neq
    by (subst bind_commands_foreign)
       (auto simp: hd_names_control kControlCommandInterfaces_def full_name_def loan_def g)
  define dev1 where "dev1 = dev0\<lparr>hd_enable_command := Some 2, hd_reset_command := Some 3\<rparr>"
  have dev1: "hd_gpio dev1 = gpio_name d" "length (hd_states dev1) = 4"
    using g by (simp_all add: dev1_def dev0_def hd_release_def)
  have x: "export_state_interfaces d =
      (motor_state_interfaces (joint_names d ! 0) a @ motor_state_interfaces (joint_names d ! 1) b)
      @ [loan (gpio_name d) ''phase'' (phase_state d),
         loan (gpio_name d) ''fault_latched'' (fault_latched_state d),
         loan (gpio_name d) ''handled_reset_generation'' (handled_reset_generation_state d),
         loan (gpio_name d) ''motion_allowed'' (motion_allowed_state d)]"
    by (simp add: export_state_interfaces_def m)
  have "bind_states_loop (hd_state_interface_names dev1) 0
      (motor_state_interfaces (joint_names d ! 0) a @ motor_state_interfaces (joint_names d ! 1) b) dev1 = dev1"
    using motor_interfaces_foreign by (intro bind_states_foreign) auto
  then have states: "bind_states_loop (hd_state_interface_names dev1) 0 (export_state_interfaces d) dev1
      = dev1\<lparr>hd_states := [Some 16, Some 17, Some 18, Some 19]\<rparr>"
    unfolding x bind_states_append [of _ _ "_ @ _"] by (simp add: bind_control_states [OF dev1] del: bind_states_loop.simps)
  show ?thesis
    unfolding hd_bind_def Let_def dev0_def [symmetric] commands dev1_def [symmetric] states
    by (simp add: dev1_def dev0_def hd_release_def)
qed

subsection \<open>A cycle's write, seen through the state it leaves\<close>

definition shown :: "damiao \<Rightarrow> bool" where
  "shown d \<longleftrightarrow> (\<exists>h. state_machine d = Some h \<and>
     phase_state d = f64_of_int (int (phase_code (head_phase h))) \<and>
     fault_latched_state d = (if fault_flag h then Fin 1 else Fin 0) \<and>
     handled_reset_generation_state d = f64_of_int (uint (handled_generation h)) \<and>
     motion_allowed_state d = (if head_phase h = enabled then Fin 1 else Fin 0))"

lemma shown_update: "state_machine d = Some h \<Longrightarrow> shown (update_control_states d)"
  by (simp add: shown_def update_control_states_def)

lemma shown_core: "core d = core d' \<Longrightarrow> shown d = shown d'"
  by (simp add: shown_def core_fields [of d d'])

definition ready :: "damiao \<Rightarrow> bool" where
  "ready d \<longleftrightarrow> hardware_active d \<and> socket_is_open (dm_io d) \<and> state_machine d \<noteq> None \<and>
     command_rate_limiter d \<noteq> None \<and> special_rate_limiter d \<noteq> None"

definition write_time :: "damiao \<Rightarrow> int" where
  "write_time d = fst (steady_now (dm_io d))"

definition commands_bad :: "head \<Rightarrow> damiao \<Rightarrow> bool" where
  "commands_bad h d \<longleftrightarrow>
     allow_motion (fst (step_result (write_time d) h d)) \<and>
     \<not> list_all command_in_range (seeded (fst (step_result (write_time d) h d)) (motors d))"

lemma dm_write_ready:
  "ready d \<Longrightarrow> snd (dm_write d) = (case fst (write_body d) of Inr _ \<Rightarrow> snd (write_body d)
      | Inl _ \<Rightarrow> (dm_send_disable (snd (write_body d)))\<lparr>command_interfaces_active := False\<rparr>)"
  by (auto simp: ready_def dm_write_def split: prod.splits sum.splits)

lemma advance_shown: "shown (snd (advance now h d))"
  unfolding advance_def Let_def split_beta
  by (auto simp: shown_update split: if_split)

lemma dm_write_result:
  assumes r: "ready d" "requests_readable d" and h: "state_machine d = Some h"
  defines "a \<equiv> fst (step_result (write_time d) h d)" and "h1 \<equiv> snd (step_result (write_time d) h d)"
  shows "motors (snd (dm_write d)) = seeded a (motors d)"
    "state_machine (snd (dm_write d)) = Some (if commands_bad h d then snd (force_fault h1) else h1)"
    "shown (snd (dm_write d))"
proof -
  define d0 where "d0 = snd (clock_now d)"
  have d0: "d0 = d\<lparr>dm_io := snd (steady_now (dm_io d))\<rparr>" by (simp add: d0_def clock_now_state)
  have rr: "requests_readable d0" "state_machine d0 = Some h"
    using r(2) h by (simp_all add: d0 requests_readable_def)
  define acts d1 where "acts = fst (advance (write_time d) h d0)" and "d1 = snd (advance (write_time d) h d0)"
  have body: "snd (write_body d) =
      snd (ebind (transmit_special (write_time d) acts) (\<lambda>_. transmit_command (write_time d) acts) d1)"
    using rr by (simp add: write_body_def snd_ebind clock_now_result d0_def [symmetric] split_beta Let_def
        acts_def d1_def write_time_def)
  have core: "core (snd (write_body d)) = core d1"
    unfolding body by (simp add: snd_ebind split: sum.splits)
  have w: "motors (snd (dm_write d)) = motors (snd (write_body d))"
      "state_machine (snd (dm_write d)) = state_machine (snd (write_body d))"
      "shown (snd (dm_write d)) = shown (snd (write_body d))"
    unfolding dm_write_ready [OF r(1)]
    by (simp_all add: dm_send_disable_def shown_def split: sum.splits)
  have same: "step_result t h d0 = step_result t h d" "motors d0 = motors d" for t
    by (simp_all add: d0 step_result_def)
  show "motors (snd (dm_write d)) = seeded a (motors d)"
    unfolding w core_fields(1) [OF core] d1_def advance_facts(2) by (simp add: same a_def)
  show "state_machine (snd (dm_write d)) = Some (if commands_bad h d then snd (force_fault h1) else h1)"
    unfolding w core_fields(2) [OF core] d1_def advance_facts(3)
    by (simp add: same commands_bad_def h1_def)
  show "shown (snd (dm_write d))"
    unfolding w shown_core [OF core] d1_def by (rule advance_shown)
qed

subsection \<open>The channel\<close>

text \<open>What a device shows after reading a plugin whose machine is \<open>h\<close>.\<close>

definition view :: "head \<Rightarrow> hs_device \<Rightarrow> hs_device" where
  "view h dev =
     dev\<lparr>hd_valid := True, hd_phase := head_phase h, hd_fault_latched := fault_flag h,
         hd_motion_allowed := (head_phase h = enabled), hd_handled_generation := handled_generation h,
         hd_published_status := pack True (fault_flag h) (head_phase h = enabled) (head_phase h)\<rparr>"

text \<open>A double holds every integer below \<open>2 ^ 53\<close>; generations count resets.\<close>

definition exact :: "u64 \<Rightarrow> bool" where
  "exact g \<longleftrightarrow> uint g \<le> 9007199254740991"

lemma exact_of_int: "exact g \<Longrightarrow> f64_of_int (uint g) = Fin (of_int (uint g))"
  by (rule f64_of_int_exact) (simp add: exact_def)

lemma export_state_values:
  assumes "length (motors d) = 2"
  shows "get_value (export_state_interfaces d) 16 = phase_state d"
    "get_value (export_state_interfaces d) 17 = fault_latched_state d"
    "get_value (export_state_interfaces d) 18 = handled_reset_generation_state d"
    "get_value (export_state_interfaces d) 19 = motion_allowed_state d"
  using assms
  by (simp_all add: export_state_interfaces_def get_value_def nth_append upt_rec loan_def)

lemma hd_read_head:
  assumes "bound_to_head dev" "length (motors d) = 2" "shown d" "state_machine d = Some h"
    "exact (handled_generation h)"
  shows "hd_read (export_state_interfaces d) dev = view h dev"
proof -
  let ?s = "export_state_interfaces d"
  have v: "hd_state_value dev ?s 0 = Fin (of_nat (phase_code (head_phase h)))"
    "hd_state_value dev ?s 1 = f64_of_bool (fault_flag h)"
    "hd_state_value dev ?s 2 = Fin (of_int (uint (handled_generation h)))"
    "hd_state_value dev ?s 3 = f64_of_bool (head_phase h = enabled)"
    using assms export_state_values [OF assms(2)] phase_code_le [of "head_phase h"]
    by (simp_all add: hd_state_value_def bound_to_head_def shown_def exact_of_int f64_of_bool_def
        f64_of_int_exact numeral_2_eq_2 numeral_3_eq_3)
  have dec: "decode_handshake_phase (hd_state_value dev ?s 0) = Some (head_phase h)"
    "exact_flag (hd_state_value dev ?s 1) = Some (fault_flag h)"
    "exact_flag (hd_state_value dev ?s 3) = Some (head_phase h = enabled)"
    "exact_generation (hd_state_value dev ?s 2) = Some (handled_generation h)"
    using v assms(5)
    by (simp_all add: decode_handshake_phase_eq_Some exact_generation_eq_Some exact_def)
  show ?thesis unfolding hd_read_def Let_def dec by (simp add: view_def)
qed

lemma deliver_write:
  assumes "bound_to_head dev" "length (motors d) = 2"
  shows "deliver (hd_write dev (export_command_interfaces d)) d =
    d\<lparr>enable_request := f64_of_bool (hd_enable_requested dev),
      reset_generation := f64_of_int (uint (hd_reset_generation dev))\<rparr>"
proof -
  obtain a b where m: "motors d = [a, b]" using assms(2) by (auto simp: length_Suc_conv numeral_2_eq_2)
  show ?thesis
    using assms(1)
    by (simp add: deliver_def hd_write_def set_command_def bound_to_head_def m export_command_interfaces_def
        get_value_def set_value_def loan_def nth_list_update numeral_2_eq_2 numeral_3_eq_3)
qed

subsection \<open>One cycle of manager and plugin\<close>

text \<open>
  The manager's device writes its requests, the plugin's \<open>write\<close> runs, and the next cycle's read
  shows the device the outcome.
\<close>

definition head_cycle :: "hs_device \<Rightarrow> damiao \<Rightarrow> hs_device \<times> damiao" where
  "head_cycle dev d =
    (let d1 = deliver (hd_write dev (export_command_interfaces d)) d; d2 = snd (dm_write d1)
     in (hd_read (export_state_interfaces d2) dev, d2))"

definition requested_step :: "hs_device \<Rightarrow> head \<Rightarrow> damiao \<Rightarrow> HeadActions \<times> head" where
  "requested_step dev h d =
     head_step (write_time d) (hd_enable_requested dev) (hd_reset_generation dev)
       (motor_statuses (motors d)) h"

definition hold_out_of_range :: "hs_device \<Rightarrow> head \<Rightarrow> damiao \<Rightarrow> bool" where
  "hold_out_of_range dev h d \<longleftrightarrow>
     allow_motion (fst (requested_step dev h d)) \<and>
     \<not> list_all command_in_range (seeded (fst (requested_step dev h d)) (motors d))"

text \<open>The machine after the cycle: the step, or a forced fault when a command is out of range.\<close>

definition next_head :: "hs_device \<Rightarrow> head \<Rightarrow> damiao \<Rightarrow> head" where
  "next_head dev h d =
    (if hold_out_of_range dev h d then snd (force_fault (snd (requested_step dev h d)))
     else snd (requested_step dev h d))"

lemma head_step_generations:
  "handled_generation (snd (head_step now en g ms h)) \<in> {handled_generation h, g, pending_generation h}"
  "pending_generation (snd (head_step now en g ms h)) \<in> {pending_generation h, g}"
  by (cases "head_phase h"; simp add: step_defs)+

definition linked :: "hs_device \<Rightarrow> head \<Rightarrow> damiao \<Rightarrow> bool" where
  "linked dev h d \<longleftrightarrow> bound_to_head dev \<and> ready d \<and> length (motors d) = 2 \<and> state_machine d = Some h \<and>
     exact (handled_generation h) \<and> exact (pending_generation h) \<and> exact (hd_reset_generation dev)"

lemma next_head_exact:
  assumes "linked dev h d"
  shows "exact (handled_generation (next_head dev h d))" "exact (pending_generation (next_head dev h d))"
proof -
  let ?h1 = "snd (requested_step dev h d)"
  have g: "handled_generation ?h1 \<in> {handled_generation h, hd_reset_generation dev, pending_generation h}"
    "pending_generation ?h1 \<in> {pending_generation h, hd_reset_generation dev}"
    unfolding requested_step_def by (rule head_step_generations)+
  have "handled_generation (next_head dev h d) = handled_generation ?h1"
    "pending_generation (next_head dev h d) = pending_generation ?h1"
    by (simp_all add: next_head_def force_fault_def latch_fault_def)
  with g assms show "exact (handled_generation (next_head dev h d))"
    "exact (pending_generation (next_head dev h d))"
    by (auto simp: linked_def)
qed

lemma head_cycle_result:
  assumes L: "linked dev h d"
  shows "state_machine (snd (head_cycle dev d)) = Some (next_head dev h d)"
    "fst (head_cycle dev d) = view (next_head dev h d) dev"
    "motors (snd (head_cycle dev d)) = seeded (fst (requested_step dev h d)) (motors d)"
proof -
  have l: "bound_to_head dev" "ready d" "length (motors d) = 2" "state_machine d = Some h"
    "exact (hd_reset_generation dev)"
    using L by (simp_all add: linked_def)
  define d1 where "d1 = deliver (hd_write dev (export_command_interfaces d)) d"
  have d1: "d1 = d\<lparr>enable_request := f64_of_bool (hd_enable_requested dev),
      reset_generation := f64_of_int (uint (hd_reset_generation dev))\<rparr>"
    unfolding d1_def using l(1,3) by (rule deliver_write)
  have d1_ready: "ready d1" "state_machine d1 = Some h" "motors d1 = motors d" "write_time d1 = write_time d"
    using l by (simp_all add: d1 ready_def write_time_def)
  define n where "n = uint (hd_reset_generation dev)"
  have gen: "reset_generation d1 = Fin (of_int n)" "0 \<le> n" "word_of_int n = hd_reset_generation dev"
    using exact_of_int [OF l(5), folded n_def] by (simp_all add: d1 n_def)
  have rr: "requests_readable d1"
    using gen(2) by (simp add: requests_readable_def gen(1)) (simp add: d1 f64_of_bool_def)
  have "f64_eq (enable_request d1) (Fin 1) = hd_enable_requested dev"
    by (simp add: d1 f64_of_bool_def)
  moreover have "word_of_int (f64_to_int (reset_generation d1)) = hd_reset_generation dev"
    by (simp add: gen(1,3))
  ultimately have step: "step_result (write_time d1) h d1 = requested_step dev h d"
    by (simp add: step_result_def requested_step_def d1_ready)
  have bad: "commands_bad h d1 = hold_out_of_range dev h d"
    unfolding commands_bad_def step hold_out_of_range_def d1_ready(3) by (rule refl)
  note res = dm_write_result [OF d1_ready(1) rr d1_ready(2), unfolded step bad d1_ready(3)]
  have sm: "state_machine (snd (dm_write d1)) = Some (next_head dev h d)"
    using res(2) by (simp add: next_head_def)
  then show "state_machine (snd (head_cycle dev d)) = Some (next_head dev h d)"
    by (simp add: head_cycle_def Let_def d1_def)
  show "motors (snd (head_cycle dev d)) = seeded (fst (requested_step dev h d)) (motors d)"
    using res(1) by (simp add: head_cycle_def Let_def d1_def)
  have "length (motors (snd (dm_write d1))) = 2"
    using res(1) l(3) by (simp add: seeded_def)
  from hd_read_head [OF l(1) this res(3) sm next_head_exact(1) [OF L]]
  show "fst (head_cycle dev d) = view (next_head dev h d) dev"
    by (simp add: head_cycle_def Let_def d1_def)
qed

text \<open>
  C16: the channel between the enable manager and the head is faithful. A cycle of manager and plugin,
  through the exported interfaces and the doubles they hold, is one step of the plugin's state
  machine on exactly the manager's request and generation (or the forced fault, when a command lies
  outside its limits), and the device then shows exactly the machine's phase, fault flag, motion
  permission and handled generation. This is the functional refinement of the cyclic exchange by
  the abstract step, as long as the generations are below \<open>2 ^ 53\<close>.
\<close>

theorem head_channel_refines_step:
  assumes "linked dev h d"
  shows "state_machine (snd (head_cycle dev d)) = Some (next_head dev h d) \<and>
    fst (head_cycle dev d) = view (next_head dev h d) dev"
  using head_cycle_result [OF assms] by simp

lemma enabled_next_head:
  assumes "head_phase (next_head dev h d) = enabled"
  shows "\<not> hold_out_of_range dev h d" "next_head dev h d = snd (requested_step dev h d)"
    "allow_motion (fst (requested_step dev h d))"
proof -
  show n: "\<not> hold_out_of_range dev h d"
    using assms by (auto simp: next_head_def)
  then show s: "next_head dev h d = snd (requested_step dev h d)" by (simp add: next_head_def)
  show "allow_motion (fst (requested_step dev h d))"
    using assms unfolding s requested_step_def by (simp add: allow_motion_iff_enabled)
qed

text \<open>
  C17: the manager is never told that a head is enabled that is not. When the manager's device reports
  enabled after a cycle, the manager itself requested enable in that cycle, both motors had been
  heard from within the feedback timeout and reported that they are enabled, and the command that
  the plugin holds for each motor is finite and inside the motor's limits.
\<close>

theorem enabled_report_is_true:
  assumes "linked dev h d" "hd_enabled (fst (head_cycle dev d))"
  shows "hd_enable_requested dev \<and>
    list_all (\<lambda>m. ms_valid m \<and> ms_status m = 1 \<and> write_time d - ms_received_at m \<le> feedback_timeout h)
      (motor_statuses (motors d)) \<and>
    list_all command_in_range (motors (snd (head_cycle dev d)))"
proof -
  have "hd_enabled (view (next_head dev h d) dev)"
    using assms(2) by (simp add: head_cycle_result [OF assms(1)])
  then have e: "head_phase (next_head dev h d) = enabled"
    by (simp add: hd_enabled_def view_def)
  note n = enabled_next_head [OF e]
  from e have s: "head_phase (snd (requested_step dev h d)) = enabled" by (simp add: n(2))
  note st = step_enabled [OF s [unfolded requested_step_def]]
  have "list_all command_in_range (motors (snd (head_cycle dev d)))"
    using n(1,3) by (simp add: head_cycle_result(3) [OF assms(1)] hold_out_of_range_def)
  moreover have "list_all (\<lambda>m. ms_valid m \<and> ms_status m = 1 \<and>
      write_time d - ms_received_at m \<le> feedback_timeout h) (motor_statuses (motors d))"
    using st(2,3) by (auto simp: all_fresh_def all_status_def list_all_iff)
  ultimately show ?thesis using st(1) by simp
qed

definition sample_device :: hs_device where
  "sample_device = snd (hd_bind (new_device ''head'') (export_command_interfaces sample_plugin)
     (export_state_interfaces sample_plugin))"

definition heard_from :: "u8 \<Rightarrow> int \<Rightarrow> damiao \<Rightarrow> damiao" where
  "heard_from s t d = d\<lparr>motors := map (\<lambda>m. m\<lparr>m_status := s, m_received_at := t\<rparr>) (motors d),
                       dm_io := (dm_io d)\<lparr>k_now := t + 10\<rparr>\<rparr>"

text \<open>The sample head after an enable request that the motors followed, ready for the next cycle.\<close>

definition enabling_plugin :: damiao where
  "enabling_plugin = heard_from 1 110
     (snd (head_cycle (hd_request_enable True sample_device) sample_plugin))"

lemma linked_bound: "bound_to_head (hd_request_enable b sample_device)"
proof -
  have "length (motors sample_plugin) = 2" "hd_gpio (new_device ''head'') = gpio_name sample_plugin"
    by (simp_all add: sample_plugin_def update_control_states_def new_device_def split: option.splits)
  from hd_bind_head [OF this] show ?thesis
    by (simp add: sample_device_def bound_to_head_def hd_request_enable_def)
qed

lemma enabling_linked:
  "linked (hd_request_enable True sample_device) (the (state_machine enabling_plugin)) enabling_plugin"
proof -
  have "ready enabling_plugin" "length (motors enabling_plugin) = 2" "state_machine enabling_plugin \<noteq> None"
    "exact (handled_generation (the (state_machine enabling_plugin)))"
    "exact (pending_generation (the (state_machine enabling_plugin)))"
    "exact (hd_reset_generation (hd_request_enable True sample_device))"
    by code_simp+
  with linked_bound show ?thesis by (auto simp: linked_def)
qed

lemma head_channel_refines_step_witness:
  "hd_phase (fst (head_cycle (hd_request_enable True sample_device) enabling_plugin)) = enabled"
proof -
  let ?n = "next_head (hd_request_enable True sample_device) (the (state_machine enabling_plugin)) enabling_plugin"
  have "head_phase ?n = enabled" by code_simp
  moreover have "fst (head_cycle (hd_request_enable True sample_device) enabling_plugin) =
      view ?n (hd_request_enable True sample_device)"
    using head_channel_refines_step [OF enabling_linked] by (rule conjunct2)
  ultimately show ?thesis by (simp add: view_def)
qed

lemma enabled_report_is_true_witness:
  "list_all command_in_range (motors (snd (head_cycle (hd_request_enable True sample_device) enabling_plugin)))"
proof -
  have "hd_enabled (fst (head_cycle (hd_request_enable True sample_device) enabling_plugin))"
    by code_simp
  from enabled_report_is_true [OF enabling_linked this] show ?thesis by (elim conjE)
qed

subsection \<open>A reset completes\<close>

text \<open>
  Motors that answer: between the previous cycle at \<open>prev\<close> and this input both were heard from, and
  they report disabled.
\<close>

definition answering :: "head \<Rightarrow> int \<Rightarrow> head_input \<Rightarrow> bool" where
  "answering h prev i \<longleftrightarrow>
     all_status (in_motors i) 0 \<and> all_fresh h (in_now i) (in_motors i) \<and>
     list_all (\<lambda>m. prev < ms_received_at m) (in_motors i) \<and> in_now i - prev \<le> transition_timeout h"

definition device_step :: "hs_device \<Rightarrow> head_input \<Rightarrow> head \<Rightarrow> head" where
  "device_step dev i h =
     snd (head_step (in_now i) (hd_enable_requested dev) (hd_reset_generation dev) (in_motors i) h)"

lemma answering_none_enabled: "all_status ms 0 \<Longrightarrow> none_enabled ms"
  by (auto simp: all_status_def none_enabled_def list_all_iff)

lemma answering_received:
  "answering h prev i \<Longrightarrow> transition_started_at h' = prev \<Longrightarrow>
     all_received_after_transition h' (in_motors i)"
  by (auto simp: answering_def all_received_after_transition_def all_status_def list_all_iff)

text \<open>
  C20: a reset succeeds. When the manager starts a reset of a head whose fault is latched and whose
  motors answer, the manager sees the reset complete after three cycles: the first withdraws the
  motors' enable, the second clears the fault, the third finds the motors disabled. The reset
  generation must be new to the plugin, which holds when both sides agree on the last one.
\<close>

theorem reset_completes_in_three_cycles:
  assumes "head_phase h = fault_latched" "hd_reset_generation dev + 1 \<noteq> handled_generation h"
    and "answering h (in_now i1) i2" "answering h (in_now i2) i3"
  shows "hd_reset_complete (view (device_step (hd_start_reset dev) i3
    (device_step (hd_start_reset dev) i2 (device_step (hd_start_reset dev) i1 h))) (hd_start_reset dev))"
proof -
  define g where "g = hd_reset_generation dev + 1"
  have dev: "hd_enable_requested (hd_start_reset dev) = False" "hd_reset_generation (hd_start_reset dev) = g"
    "hd_reset_target (hd_start_reset dev) = g"
    by (simp_all add: hd_start_reset_def Let_def g_def)
  define h1 where "h1 = transition reset_disabling (in_now i1) (h\<lparr>pending_generation := g\<rparr>)"
  have s1: "device_step (hd_start_reset dev) i1 h = h1"
    using assms(1,2) by (simp add: device_step_def dev step_defs h1_def g_def)
  have h1: "head_phase h1 = reset_disabling" "transition_started_at h1 = in_now i1"
    "transition_timeout h1 = transition_timeout h" "feedback_timeout h1 = feedback_timeout h"
    "pending_generation h1 = g"
    by (simp_all add: h1_def)
  define h2 where "h2 = transition resetting (in_now i2) h1"
  have "all_fresh h1 (in_now i2) (in_motors i2)"
    using assms(3) all_fresh_cong [OF h1(4)] by (simp add: answering_def)
  then have s2: "device_step (hd_start_reset dev) i2 h1 = h2"
    using assms(3) answering_received [OF assms(3) h1(2)]
    by (simp add: device_step_def dev head_step_def Let_def h1 h2_def answering_def answering_none_enabled)
  have h2: "head_phase h2 = resetting" "transition_started_at h2 = in_now i2"
    "transition_timeout h2 = transition_timeout h" "feedback_timeout h2 = feedback_timeout h"
    "pending_generation h2 = g"
    by (simp_all add: h2_def h1)
  have "all_fresh h2 (in_now i3) (in_motors i3)"
    using assms(4) all_fresh_cong [OF h2(4)] by (simp add: answering_def)
  then have s3: "device_step (hd_start_reset dev) i3 h2 =
      h2\<lparr>head_phase := disabled, fault_flag := False, handled_generation := g\<rparr>"
    using assms(4) answering_received [OF assms(4) h2(2)]
    by (simp add: device_step_def dev head_step_def Let_def h2 answering_def)
  show ?thesis
    unfolding s1 s2 s3
    by (simp add: hd_reset_complete_def hd_disabled_def hd_faulted_def view_def dev)
qed

lemma reset_completes_in_three_cycles_witness:
  "hd_reset_complete (view (device_step (hd_start_reset sample_device) (head_sample 120 False 0 0 115)
    (device_step (hd_start_reset sample_device) (head_sample 110 False 0 0 105)
      (device_step (hd_start_reset sample_device) (head_sample 100 False 0 3 90) faulted_head)))
    (hd_start_reset sample_device))"
proof (rule reset_completes_in_three_cycles)
  show "head_phase faulted_head = fault_latched" by code_simp
  show "hd_reset_generation sample_device + 1 \<noteq> handled_generation faulted_head" by code_simp
  show "answering faulted_head (in_now (head_sample 100 False 0 3 90)) (head_sample 110 False 0 0 105)"
    by code_simp
  show "answering faulted_head (in_now (head_sample 110 False 0 0 105)) (head_sample 120 False 0 0 115)"
    by code_simp
qed

end
