(* ===== verification/DamiaoCodec.thy ===== *)
theory DamiaoCodec
  imports DamiaoProtocol
begin

text \<open>
  Properties of the motor protocol: what is written to a register is what its echo decodes to,
  a position command is never taken for a special command, and decoded feedback stays within
  the mapping limits of the motor.
\<close>

subsection \<open>Register access\<close>

lemma register_header_length [simp]: "length (register_header m op r) = 8"
  by (simp add: register_header_def)

lemma kinds_of_register_write:
  assumes "make_register_write_float m r v = Inr f"
  shows "m \<noteq> 0" "m \<le> 0x0F" "isfinite (f32_value v)"
    "f = new_frame\<lparr>frame_id := kRegisterRequestId,
                   frame_data := put_u32_le (register_header m 0x55 (register_code r)) 4 v\<rparr>"
  using assms
  by (auto simp: make_register_write_float_def validate_motor_id_def write_float_le_Inr
      split: sum.splits if_splits)

lemma header_of_put:
  "i < 4 \<Longrightarrow> put_u32_le (register_header m op c) 4 v ! i = register_header m op c ! i"
  by (rule put_u32_le_nth_other) simp

lemma register_header_nth:
  "register_header m op c ! 0 = ucast (m AND 0xFF)"
  "register_header m op c ! Suc 0 = ucast (drop_bit 8 m AND 0xFF)"
  "register_header m op c ! 2 = op" "register_header m op c ! 3 = c"
  by (simp_all add: register_header_def)

lemma motor_id_small: "m \<le> (0x0F :: u16) \<Longrightarrow> \<not> 0x7FF < m"
  by (simp add: word_le_nat_alt word_less_nat_alt)

lemma decode_header:
  assumes "m \<le> 0x0F" "op = 0x33 \<or> op = 0x55" "bs = put_u32_le (register_header m op c) 4 v"
    "frame_id f \<le> 0x7FF" "frame_length f = 8" "frame_data f = bs"
  shows "decode_register_reply f =
    Inr \<lparr>rr_motor_id = m, rr_operation = op, rr_register_id = c, raw_value = v\<rparr>"
proof -
  have "read_u32_le bs 4 = v"
    unfolding assms(3) by (rule read_put_u32_le) simp
  moreover have "bs ! 0 = ucast (m AND 0xFF)" "bs ! 1 = ucast (drop_bit 8 m AND 0xFF)"
      "bs ! 2 = op" "bs ! 3 = c"
    unfolding assms(3) using header_of_put [of _ m op c v] by (simp_all add: register_header_nth)
  moreover have "ucast (ucast (m AND 0xFF) :: u8) OR push_bit 8 (ucast (ucast (drop_bit 8 m AND 0xFF) :: u8)) = m"
    by (rule motor_id_bytes_join)
  ultimately show ?thesis
    using assms(1,2,4-6) motor_id_small [of m]
    by (auto simp: decode_register_reply_def validate_frame_def frame_consts Let_def not_less)
qed

text \<open>
  C23: a register write survives the bus. When the motor echoes the bytes of a write command, under
  whatever master identifier, the decoder returns the motor, the operation 0x55, the register and
  the very 32 bits of the float that was written.
\<close>

theorem register_write_echo_roundtrip:
  assumes "make_register_write_float m r v = Inr f" "master \<le> 0x7FF"
  shows "decode_register_reply (f\<lparr>frame_id := master\<rparr>) =
    Inr \<lparr>rr_motor_id = m, rr_operation = 0x55, rr_register_id = register_code r, raw_value = v\<rparr>"
  using kinds_of_register_write [OF assms(1)] assms(2)
  by (intro decode_header [where v = v and op = "0x55"]) (simp_all add: frame_consts)

lemma register_write_echo_roundtrip_witness:
  "decode_register_reply ((projr (make_register_write_float 1 maximum_speed 0x41A00000))\<lparr>frame_id := 0x11\<rparr>)
     = Inr \<lparr>rr_motor_id = 1, rr_operation = 0x55, rr_register_id = 0x06, raw_value = 0x41A00000\<rparr>"
proof -
  have "make_register_write_float 1 maximum_speed 0x41A00000 =
      Inr (projr (make_register_write_float 1 maximum_speed 0x41A00000))"
    by code_simp
  from register_write_echo_roundtrip [OF this, of "0x11"] show ?thesis by simp
qed

subsection \<open>Position commands\<close>

lemma kinds_of_position_command:
  assumes "make_position_velocity_command m p v = Inr f"
  shows "m \<noteq> 0" "m \<le> 0x0F" "isfinite (f32_value p)" "isfinite (f32_value v)"
    "f64_less (Fin 0) (f32_value v)"
    "f = new_frame\<lparr>frame_id := 0x100 + m, frame_data := put_u32_le (put_u32_le (replicate 8 0) 0 p) 4 v\<rparr>"
proof -
  show *: "m \<noteq> 0" "m \<le> 0x0F" "isfinite (f32_value p)" "isfinite (f32_value v)"
    "f = new_frame\<lparr>frame_id := 0x100 + m, frame_data := put_u32_le (put_u32_le (replicate 8 0) 0 p) 4 v\<rparr>"
    using assms
    by (auto simp: make_position_velocity_command_def validate_motor_id_def write_float_le_Inr
        new_frame_def kPositionVelocityIdOffset_def split: sum.splits if_splits)
  have "\<not> f64_le (f32_value v) (Fin 0)"
    using assms by (auto simp: make_position_velocity_command_def split: sum.splits if_splits)
  with *(4) show "f64_less (Fin 0) (f32_value v)" by (cases "f32_value v") simp_all
qed

lemma position_command_fields:
  assumes "make_position_velocity_command m p v = Inr f"
  shows "frame_id f = 0x100 + m" "read_u32_le (frame_data f) 0 = p" "read_u32_le (frame_data f) 4 = v"
  using kinds_of_position_command [OF assms]
  by (simp_all add: read_put_u32_le read_put_u32_le_other)

lemma special_command_fields:
  assumes "make_special_command m c = Inr f"
  shows "frame_id f = 0x100 + m" "read_u32_le (frame_data f) 0 = 0xFFFFFFFF"
  using assms
  by (auto simp: make_special_command_def new_frame_def kPositionVelocityIdOffset_def
      read_u32_le_def split: sum.splits)

lemma f32_all_ones: "f32_value 0xFFFFFFFF = NaN"
  by (simp add: f32_value_def f32_exponent_def f32_mantissa_def)

text \<open>
  The two kinds of command share an identifier and are told apart by their payload alone. A
  position command carries the position in its first four bytes and the velocity limit in its
  last four, both finite and the limit positive, and therefore is never the frame of a special
  command (enable, disable, clear fault), whose first four bytes are no finite float.
\<close>

theorem position_command_is_no_special_command:
  assumes "make_position_velocity_command m p v = Inr f"
  shows "read_u32_le (frame_data f) 0 = p \<and> read_u32_le (frame_data f) 4 = v \<and>
    isfinite (f32_value p) \<and> isfinite (f32_value v) \<and> f64_less (Fin 0) (f32_value v) \<and>
    make_special_command n c \<noteq> Inr f"
proof -
  have "make_special_command n c \<noteq> Inr f"
  proof
    assume "make_special_command n c = Inr f"
    then have "p = 0xFFFFFFFF"
      using special_command_fields(2) position_command_fields(2) [OF assms] by simp
    with kinds_of_position_command(3) [OF assms] show False by (simp add: f32_all_ones)
  qed
  with kinds_of_position_command [OF assms] position_command_fields [OF assms] show ?thesis by simp
qed

lemma position_command_is_no_special_command_witness:
  "read_u32_le (frame_data (projr (make_position_velocity_command 2 0x3F000000 0x3E4CCCCD))) 0 = 0x3F000000 \<and>
   make_special_command 2 disable_motor \<noteq> make_position_velocity_command 2 0x3F000000 0x3E4CCCCD"
proof -
  have "make_position_velocity_command 2 0x3F000000 0x3E4CCCCD =
      Inr (projr (make_position_velocity_command 2 0x3F000000 0x3E4CCCCD))"
    by code_simp
  from position_command_is_no_special_command [OF this] this show ?thesis by metis
qed

subsection \<open>Feedback\<close>

lemma f32_value_dyadic:
  assumes "f32_value w = Fin q"
  obtains m e where "q = of_int m * 2 powi e" "\<bar>m\<bar> < 2 ^ 24" "- 149 \<le> e" "e \<le> 104"
proof -
  let ?s = "if f32_negative w then - 1 else 1 :: int"
  note b = f32_fields_bounds [of w]
  have E: "f32_exponent w \<noteq> 255" using assms by (auto simp: f32_value_def split: if_splits)
  show thesis
  proof (cases "f32_exponent w = 0")
    case True
    have "q = of_int (?s * f32_mantissa w) * 2 powi (- 149)"
      using assms True by (auto simp: f32_value_def)
    with b that [of "?s * f32_mantissa w" "- 149"] show thesis by (simp add: abs_mult)
  next
    case False
    have "q = of_int (?s * (f32_mantissa w + 8388608)) * 2 powi (f32_exponent w - 150)"
      using assms False E by (auto simp: f32_value_def algebra_simps)
    with b False E that [of "?s * (f32_mantissa w + 8388608)" "f32_exponent w - 150"] show thesis
      by (simp add: abs_mult)
  qed
qed

text \<open>Products of a float with an integer of at most 29 bits are doubles.\<close>

lemma f32_multiple_representable:
  assumes "f32_value w = Fin q" "\<bar>k\<bar> < 2 ^ 29"
  shows "representable (of_int k * q)"
proof -
  obtain m e where q: "q = of_int m * 2 powi e" "\<bar>m\<bar> < 2 ^ 24" "- 149 \<le> e" "e \<le> 104"
    using f32_value_dyadic [OF assms(1)] by blast
  have "\<bar>k\<bar> * \<bar>m\<bar> < 2 ^ 29 * 2 ^ 24"
    using assms(2) q(2) by (intro mult_strict_mono) auto
  then have km: "\<bar>k * m\<bar> < 2 ^ 53" by (simp add: abs_mult)
  have "\<bar>of_int (k * m) :: rat\<bar> < 2 ^ 53"
    using km by (metis of_int_abs of_int_less_iff of_int_numeral of_int_power)
  then have "\<bar>of_int (k * m) :: rat\<bar> * 2 powi e < 2 ^ 53 * 2 powi e"
    by (intro mult_strict_right_mono) auto
  also have "\<dots> = 2 powi (53 + e)" by (simp add: power_int_add)
  also have "\<dots> \<le> 2 powi 1024" using q(4) by (intro power_int_increasing) auto
  finally have "\<bar>of_int (k * m) * 2 powi e :: rat\<bar> < 2 ^ 1024"
    by (simp add: abs_mult power_int_abs)
  moreover have eq: "of_int k * q = of_int (k * m) * 2 powi e" by (simp add: q(1))
  ultimately show ?thesis
    unfolding representable_def using km q(3) by (intro f64_round_representable [OF eq]) auto
qed

lemma map_unsigned_bounded:
  assumes M: "f32_value w = Fin M" "0 < M" and r: "raw \<le> enc" "0 < enc" "enc \<le> 0xFFFF"
  shows "\<exists>v. map_unsigned raw (Fin M) enc = Fin v \<and> \<bar>v\<bar> \<le> M"
proof -
  define a b where "a = uint raw" and "b = uint enc"
  have ab: "0 \<le> a" "a \<le> b" "0 < b" "b \<le> 65535"
    using r by (simp_all add: a_def b_def word_le_def word_less_def)
  have ex: "f64_of_int a = Fin (of_int a)" "f64_of_int b = Fin (of_int b)"
    using ab by (simp_all add: f64_of_int_exact)
  have R: "representable (of_int 1 * M)" "representable (of_int 2 * M)" "representable (of_int (a * 2) * M)"
    using ab by (intro f32_multiple_representable [OF M(1)]; simp)+
  then have r2: "f64_round (2 * M) = Fin (2 * M)" "f64_round (of_int a * (2 * M)) = Fin (of_int a * (2 * M))"
    by (simp_all add: representable_def mult.assoc)
  have "of_int a * (2 * M) / of_int b \<le> 2 * M"
    using ab M(2) by (simp add: pos_divide_le_eq mult.commute mult_right_mono)
  moreover have "0 \<le> of_int a * (2 * M) / of_int b"
    using ab M(2) by simp
  ultimately obtain x where x: "f64_round (of_int a * (2 * M) / of_int b) = Fin x" "0 \<le> x" "x \<le> 2 * M"
    using f64_round_bounded' [OF R(2)] by auto
  have "\<bar>x - M\<bar> \<le> M" using x by auto
  then obtain v where "f64_round (x - M) = Fin v" "\<bar>v\<bar> \<le> M"
    using f64_round_bounded [OF R(1)] by auto
  with x ex r2 ab show ?thesis
    by (simp add: map_unsigned_def f64_sub_def a_def [symmetric] b_def [symmetric])
qed

lemma joined_fields_small:
  "push_bit 8 (ucast (a :: u8)) OR ucast (b :: u8) \<le> (0xFFFF :: u32)"
  "push_bit 4 (ucast (a :: u8)) OR ucast (drop_bit 4 (b :: u8)) \<le> (0x0FFF :: u32)"
  "push_bit 8 (ucast (a AND 0x0F :: u8)) OR ucast b \<le> (0x0FFF :: u32)"
proof -
  have small: "x \<le> mask n" if "take_bit n x = x" for x :: u32 and n
    using that by (metis take_bit_eq_mask word_and_le1)
  have m: "(0xFFFF :: u32) = mask 16" "(0x0FFF :: u32) = mask 12" "(0x0F :: u8) = mask 4"
    by (simp_all add: mask_eq_exp_minus_1)
  show "push_bit 8 (ucast a) OR ucast b \<le> (0xFFFF :: u32)"
    unfolding m by (rule small, rule bit_word_eqI) (auto simp: bit_simps dest: bit_imp_le_length)
  show "push_bit 4 (ucast a) OR ucast (drop_bit 4 b) \<le> (0x0FFF :: u32)"
    unfolding m by (rule small, rule bit_word_eqI) (auto simp: bit_simps dest: bit_imp_le_length)
  show "push_bit 8 (ucast (a AND 0x0F)) OR ucast b \<le> (0x0FFF :: u32)"
    unfolding m by (rule small, rule bit_word_eqI) (auto simp: bit_simps dest: bit_imp_le_length)
qed

lemma map_unsigned_bounded_f64:
  assumes "f32_value w = maximum" "isfinite maximum" "f64_less (Fin 0) maximum"
    "raw \<le> enc" "0 < enc" "enc \<le> 0xFFFF"
  shows "isfinite (map_unsigned raw maximum enc) \<and> f64_le (f64_abs (map_unsigned raw maximum enc)) maximum"
proof -
  obtain M where M: "maximum = Fin M" "0 < M" using assms(2,3) by (cases maximum) auto
  obtain v where "map_unsigned raw (Fin M) enc = Fin v" "\<bar>v\<bar> \<le> M"
    using map_unsigned_bounded [of w M raw enc] assms M by auto
  with M show ?thesis by simp
qed

lemma decoded_feedback_bounded:
  assumes "decode_feedback frame limits = Inr fb"
    "f32_value p = position_max limits" "f32_value v = velocity_max limits"
    "f32_value t = torque_max limits"
  shows "isfinite (mf_position fb) \<and> f64_le (f64_abs (mf_position fb)) (position_max limits) \<and>
    isfinite (mf_velocity fb) \<and> f64_le (f64_abs (mf_velocity fb)) (velocity_max limits) \<and>
    isfinite (mf_effort fb) \<and> f64_le (f64_abs (mf_effort fb)) (torque_max limits)"
proof -
  have valid: "limits_valid limits"
    using assms(1) by (auto simp: decode_feedback_def split: sum.splits if_splits)
  then have fin: "isfinite (position_max limits)" "f64_less (Fin 0) (position_max limits)"
      "isfinite (velocity_max limits)" "f64_less (Fin 0) (velocity_max limits)"
      "isfinite (torque_max limits)" "f64_less (Fin 0) (torque_max limits)"
    by (simp_all add: limits_valid_def)
  obtain a b c where fb: "mf_position fb = map_unsigned a (position_max limits) 0xFFFF"
      "mf_velocity fb = map_unsigned b (velocity_max limits) 0x0FFF"
      "mf_effort fb = map_unsigned c (torque_max limits) 0x0FFF"
      "a \<le> 0xFFFF" "b \<le> 0x0FFF" "c \<le> 0x0FFF"
    using assms(1) joined_fields_small
    by (auto simp: decode_feedback_def Let_def split: sum.splits if_splits)
  show ?thesis
    using map_unsigned_bounded_f64 [OF assms(2) fin(1,2) fb(4)]
      map_unsigned_bounded_f64 [OF assms(3) fin(3,4) fb(5)]
      map_unsigned_bounded_f64 [OF assms(4) fin(5,6) fb(6)]
    by (simp add: fb)
qed

lemma decoded_feedback_finite:
  assumes "decode_feedback frame limits = Inr fb"
    "f32_value p = position_max limits" "f32_value v = velocity_max limits"
    "f32_value t = torque_max limits"
  shows "isfinite (mf_position fb)"
  using decoded_feedback_bounded [OF assms] by simp

text \<open>
  C22: decoded feedback is finite and inside the mapping limits. When the limits are float register
  values and pass the validity check, every eight-byte feedback frame, whatever its bytes, decodes
  to a position, a velocity and an effort that are finite and whose magnitude is at most the limit,
  with all roundings of the double computation included.
\<close>

theorem decoded_feedback_within_limits:
  assumes "decode_feedback frame limits = Inr fb"
    "f32_value p = position_max limits" "f32_value v = velocity_max limits"
    "f32_value t = torque_max limits"
  shows "isfinite (mf_position fb) \<and> f64_le (f64_abs (mf_position fb)) (position_max limits) \<and>
    isfinite (mf_velocity fb) \<and> f64_le (f64_abs (mf_velocity fb)) (velocity_max limits) \<and>
    isfinite (mf_effort fb) \<and> f64_le (f64_abs (mf_effort fb)) (torque_max limits)"
  using assms by (rule decoded_feedback_bounded)

definition sample_limits :: MotorLimits where
  "sample_limits = \<lparr>position_max = Fin 12, velocity_max = Fin 50, torque_max = Fin 10\<rparr>"

definition sample_feedback :: CanFrame where
  "sample_feedback = \<lparr>frame_id = 0x11, frame_length = 8,
     frame_data = [0x11, 0xFF, 0xFF, 0x00, 0x0F, 0xFF, 0x20, 0x21]\<rparr>"

lemma decoded_feedback_within_limits_witness:
  "mf_position (projr (decode_feedback sample_feedback sample_limits)) = Fin 12 \<and>
   f64_le (f64_abs (mf_effort (projr (decode_feedback sample_feedback sample_limits)))) (Fin 10)"
proof -
  have d: "decode_feedback sample_feedback sample_limits =
      Inr (projr (decode_feedback sample_feedback sample_limits))"
    "mf_position (projr (decode_feedback sample_feedback sample_limits)) = Fin 12"
    by code_simp+
  have r: "f32_value 0x41400000 = position_max sample_limits"
    "f32_value 0x42480000 = velocity_max sample_limits"
    "f32_value 0x41200000 = torque_max sample_limits"
    by code_simp+
  have "torque_max sample_limits = Fin 10" by (simp add: sample_limits_def)
  moreover have "f64_le (f64_abs (mf_effort (projr (decode_feedback sample_feedback sample_limits))))
      (torque_max sample_limits)"
    using decoded_feedback_within_limits [OF d(1) r] by (elim conjE)
  ultimately show ?thesis using d(2) by (simp only: simp_thms)
qed

end
