(* ===== verification/DamiaoSetup.thy ===== *)
theory DamiaoSetup
  imports HeadHandshake DamiaoCodec
begin

text \<open>
  What the head plugin is like after \<open>on_init\<close> and \<open>on_configure\<close>, how it treats requests it cannot
  read, and how a position controller takes the joints over.
\<close>

subsection \<open>What waiting for feedback does to a motor\<close>

text \<open>The part of a motor that feedback does not touch.\<close>

definition fixed_part :: "Motor \<Rightarrow> u16 \<times> u16 \<times> f64 \<times> f64 \<times> f64 \<times> MotorLimits \<times> f64" where
  "fixed_part m = (can_id m, master_id m, velocity_limit m, command_min m, command_max m, m_limits m, m_command m)"

text \<open>Limits that are the widened values of float registers.\<close>

definition float_limits :: "Motor \<Rightarrow> bool" where
  "float_limits m \<longleftrightarrow> (\<exists>p v t. f32_value p = position_max (m_limits m) \<and>
     f32_value v = velocity_max (m_limits m) \<and> f32_value t = torque_max (m_limits m))"

definition heard_or_same :: "Motor \<Rightarrow> Motor \<Rightarrow> bool" where
  "heard_or_same m m' \<longleftrightarrow> fixed_part m' = fixed_part m \<and>
     (float_limits m \<longrightarrow> m_received_at m' = m_received_at m \<and> m_position m' = m_position m
        \<or> isfinite (m_position m'))"

definition settled :: "damiao \<Rightarrow> damiao \<Rightarrow> bool" where
  "settled d d' \<longleftrightarrow> list_all2 heard_or_same (motors d) (motors d')"

lemma float_limits_fixed: "fixed_part m = fixed_part m' \<Longrightarrow> float_limits m = float_limits m'"
  by (simp add: fixed_part_def float_limits_def)

lemma heard_or_same_refl [simp]: "heard_or_same m m"
  by (simp add: heard_or_same_def)

lemma heard_or_same_trans: "heard_or_same a b \<Longrightarrow> heard_or_same b c \<Longrightarrow> heard_or_same a c"
  using float_limits_fixed [of b a] by (auto simp: heard_or_same_def)

lemma observe_heard_or_same:
  "observe_loop f t ms = Inr ms' \<Longrightarrow> list_all2 heard_or_same ms ms'"
proof (induction ms arbitrary: ms')
  case Nil
  then show ?case by simp
next
  case (Cons m ms)
  have same: "list_all2 heard_or_same xs xs" for xs by (simp add: list_all2_refl)
  have "heard_or_same m (store_feedback fb t m)" if "decode_feedback f (m_limits m) = Inr fb" for fb
  proof -
    have "fixed_part (store_feedback fb t m) = fixed_part m"
      by (simp add: store_feedback_def fixed_part_def)
    moreover have "isfinite (m_position (store_feedback fb t m))" if "float_limits m"
      using that \<open>decode_feedback f (m_limits m) = Inr fb\<close> decoded_feedback_finite
      by (auto simp: float_limits_def store_feedback_def)
    ultimately show ?thesis by (simp add: heard_or_same_def)
  qed
  with Cons same show ?case
    by (auto simp: map_sum_eq_Inr split: if_splits sum.splits)
qed

lemma settled_ids: "settled d d' \<Longrightarrow> motor_ids d' = motor_ids d"
  unfolding settled_def motor_ids_def
  by (induction rule: list_all2_induct) (simp_all add: heard_or_same_def fixed_part_def)

interpretation settled: bus_effect settled ids for ids
proof unfold_locales
  fix a b c
  show "settled a a" by (simp add: settled_def list_all2_refl)
  show "settled a b \<Longrightarrow> settled b c \<Longrightarrow> settled a c"
    unfolding settled_def by (rule list_all2_trans [OF heard_or_same_trans])
  show "settled a b \<Longrightarrow> motor_ids a = ids \<Longrightarrow> motor_ids b = ids" by (simp add: settled_ids)
next
  fix k f and d :: damiao
  show "settled d (d\<lparr>dm_io := k\<rparr>)" "settled d (d\<lparr>dm_io := snd (can_send f (dm_io d))\<rparr>)"
    by (simp_all add: settled_def list_all2_refl)
next
  fix f t ms and d :: damiao
  assume "observe_loop f t (motors d) = Inr ms"
  then show "settled d (d\<lparr>motors := ms\<rparr>)"
    by (simp add: settled_def observe_heard_or_same)
qed

subsection \<open>A configured motor\<close>

lemma ebind_Inr:
  "ebind m f s = (Inr y, s') \<longleftrightarrow> (\<exists>x s1. m s = (Inr x, s1) \<and> f x s1 = (Inr y, s'))"
  by (auto simp: ebind_def split: prod.splits sum.splits)

text \<open>\<open>only i d d'\<close>: the motors other than \<open>i\<close> keep their fixed part, \<open>i\<close> its command limits.\<close>

definition only :: "nat \<Rightarrow> damiao \<Rightarrow> damiao \<Rightarrow> bool" where
  "only i d d' \<longleftrightarrow> length (motors d') = length (motors d) \<and>
     (\<forall>j < length (motors d). j \<noteq> i \<longrightarrow> fixed_part (motors d' ! j) = fixed_part (motors d ! j)) \<and>
     command_min (motors d' ! i) = command_min (motors d ! i) \<and>
     command_max (motors d' ! i) = command_max (motors d ! i)"

lemma only_refl [simp]: "only i d d"
  by (simp add: only_def)

lemma only_trans [trans]: "only i a b \<Longrightarrow> only i b c \<Longrightarrow> only i a c"
  by (auto simp: only_def)

lemma settled_nth:
  "settled d d' \<Longrightarrow> j < length (motors d) \<Longrightarrow> heard_or_same (motors d ! j) (motors d' ! j)"
  "settled d d' \<Longrightarrow> length (motors d') = length (motors d)"
  by (auto simp: settled_def list_all2_conv_all_nth)

lemma settled_index: "settled d d' \<Longrightarrow> j < length (motors d) \<Longrightarrow> j < length (motors d')"
  by (simp add: settled_nth(2))

lemma settled_only: "settled d d' \<Longrightarrow> i < length (motors d) \<Longrightarrow> only i d d'"
  using settled_nth [of d d'] by (auto simp: only_def heard_or_same_def fixed_part_def)

lemma update_only:
  assumes "\<And>m. command_min (f m) = command_min m \<and> command_max (f m) = command_max m"
  shows "only i d (update_motor i f d)"
  using assms by (cases "i < length (motors d)") (simp_all add: only_def update_motor_def list_update_beyond)

lemma always_settled: "always (motor_ids d) settled f \<Longrightarrow> f d = (r, d') \<Longrightarrow> settled d d'"
  using alwaysD [of "motor_ids d" settled f d] by simp

lemma read_float_result:
  assumes "read_float i r d = (Inr x, d')" "i < length (motors d)"
  shows "settled d d'" "\<exists>w. f32_value w = x"
proof -
  show "settled d d'"
    using assms by (intro always_settled [OF settled.always_read_float]) (auto simp: motor_ids_def)
  show "\<exists>w. f32_value w = x"
    using assms(1) by (auto simp: read_float_def ebind_Inr ereturn_def)
qed

lemma read_limits_result:
  assumes "read_limits i d = (Inr (), d')" "i < length (motors d)"
  shows "only i d d'" "float_limits (motors d' ! i)"
proof -
  obtain p v t d1 d2 d3 where
    p: "read_float i position_max_register d = (Inr p, d1)" and
    v: "read_float i velocity_max_register (update_motor i (\<lambda>m. m\<lparr>m_limits := (m_limits m)\<lparr>position_max := p\<rparr>\<rparr>) d1) = (Inr v, d2)" and
    t: "read_float i torque_max_register (update_motor i (\<lambda>m. m\<lparr>m_limits := (m_limits m)\<lparr>velocity_max := v\<rparr>\<rparr>) d2) = (Inr t, d3)" and
    d': "d' = update_motor i (\<lambda>m. m\<lparr>m_limits := (m_limits m)\<lparr>torque_max := t\<rparr>\<rparr>) d3"
    using assms(1) unfolding read_limits_def ebind_Inr by fastforce
  define e1 where "e1 = update_motor i (\<lambda>m. m\<lparr>m_limits := (m_limits m)\<lparr>position_max := p\<rparr>\<rparr>) d1"
  define e2 where "e2 = update_motor i (\<lambda>m. m\<lparr>m_limits := (m_limits m)\<lparr>velocity_max := v\<rparr>\<rparr>) d2"
  note s1 = read_float_result [OF p assms(2)]
  have i1: "i < length (motors d1)" "i < length (motors e1)"
    using settled_nth(2) [OF s1(1)] assms(2) by (simp_all add: e1_def update_motor_def)
  note s2 = read_float_result [OF v [folded e1_def] i1(2)]
  have i2: "i < length (motors d2)" "i < length (motors e2)"
    using settled_nth(2) [OF s2(1)] i1 by (simp_all add: e2_def update_motor_def)
  note s3 = read_float_result [OF t [folded e2_def] i2(2)]
  have i3: "i < length (motors d3)" using settled_nth(2) [OF s3(1)] i2 by simp
  have "only i d d1" by (rule settled_only [OF s1(1) assms(2)])
  also have "only i d1 e1" unfolding e1_def by (rule update_only) simp
  also have "only i e1 d2" by (rule settled_only [OF s2(1) i1(2)])
  also have "only i d2 e2" unfolding e2_def by (rule update_only) simp
  also have "only i e2 d3" by (rule settled_only [OF s3(1) i2(2)])
  also have "only i d3 d'" unfolding d' by (rule update_only) simp
  finally show "only i d d'" .
  have "position_max (m_limits (motors e1 ! i)) = p"
    using i1 by (simp add: e1_def update_motor_def)
  then have "position_max (m_limits (motors e2 ! i)) = p" "velocity_max (m_limits (motors e2 ! i)) = v"
    using settled_nth(1) [OF s2(1) i1(2)] i2
    by (simp_all add: e2_def update_motor_def heard_or_same_def fixed_part_def)
  then have "position_max (m_limits (motors d' ! i)) = p" "velocity_max (m_limits (motors d' ! i)) = v"
    "torque_max (m_limits (motors d' ! i)) = t"
    using settled_nth(1) [OF s3(1) i2(2)] i3
    by (simp_all add: d' update_motor_def heard_or_same_def fixed_part_def)
  with s1(2) s2(2) s3(2) show "float_limits (motors d' ! i)"
    by (simp add: float_limits_def)
qed

text \<open>Feedback that was waited for has been heard.\<close>

lemma wait_rounds_found:
  assumes "\<And>d d' v. drain d = (Inr (Some v), d') \<Longrightarrow> Q d'"
  shows "wait_rounds drain deadline d = (Inr (Some v), d') \<Longrightarrow> Q d'"
proof (induction d rule: measure_induct_rule [where f = "\<lambda>d. length (poll_script d)"])
  case (less d)
  from less.prems obtain d1 d2 r where
    r: "drain d1 = (Inr r, d2)" "next_round drain deadline (length (poll_script d)) r d2 = (Inr (Some v), d')"
    unfolding wait_rounds_unfold [of drain deadline d] Let_def split_beta
    by (auto simp: ebind_Inr ereturn_def split: if_splits)
  show ?case
  proof (cases r)
    case (Some x)
    with r assms show ?thesis by (simp add: next_round_def)
  next
    case None
    with r(2) have "length (poll_script (snd (with_io steady_now d2))) < length (poll_script d)"
      "wait_rounds drain deadline (snd (with_io steady_now d2)) = (Inr (Some v), d')"
      by (simp_all add: next_round_def Let_def split_beta split: if_splits)
    then show ?thesis by (rule less.IH)
  qed
qed

lemma drain_feedback_found:
  "drain_feedback n i previous d = (Inr True, d') \<Longrightarrow> previous < m_received_at (motors d' ! i)"
  by (induction n arbitrary: d)
     (auto simp: ebind_Inr ereturn_def split: option.splits if_splits)

lemma await_feedback_result:
  assumes "await_feedback i d = (Inr True, d')" "i < length (motors d)" "float_limits (motors d ! i)"
  shows "settled d d'" "isfinite (m_position (motors d' ! i))"
proof -
  show st: "settled d d'"
    using assms(1) by (intro always_settled [OF settled.always_await_feedback])
  let ?drain = "\<lambda>previous d. case drain_feedback (max_rx_frames_per_cycle d) i previous d of
      (Inl e, d1) \<Rightarrow> (Inl e, d1) | (Inr got, d1) \<Rightarrow> (Inr (if got then Some () else None), d1)"
  let ?wait = "\<lambda>now d1. wait_rounds (?drain (m_received_at (motors d1 ! i)))
    (now + milliseconds (configure_timeout_ms d1)) d1"
  obtain now d1 where c: "clock_now d = (Inr now, d1)" and
    r: "(case ?wait now d1 of (Inl e, d1) \<Rightarrow> (Inl e, d1) | (Inr r, d1) \<Rightarrow> (Inr (r \<noteq> None), d1)) = (Inr True, d')"
    using assms(1) unfolding await_feedback_def ebind_Inr Let_def by blast
  obtain v where w: "?wait now d1 = (Inr (Some v), d')"
    using r by (cases "?wait now d1") (auto split: sum.splits)
  have "previous < m_received_at (motors e' ! i)"
    if "?drain previous e = (Inr (Some x), e')" for previous e e' x
    using that drain_feedback_found by (auto split: prod.splits sum.splits if_splits)
  from wait_rounds_found [where Q = "\<lambda>d'. m_received_at (motors d1 ! i) < m_received_at (motors d' ! i)",
      OF this w]
  have "m_received_at (motors d1 ! i) < m_received_at (motors d' ! i)" .
  moreover have "motors d1 = motors d"
    using core_fields(1) [OF core_clock_now [of d]] c by simp
  ultimately show "isfinite (m_position (motors d' ! i))"
    using settled_nth(1) [OF st assms(2)] assms(3) by (auto simp: heard_or_same_def)
qed

definition configured :: "Motor \<Rightarrow> bool" where
  "configured m \<longleftrightarrow> limits_valid (m_limits m) \<and> \<not> f64_less (velocity_max (m_limits m)) (velocity_limit m) \<and>
     float_limits m \<and> command_in_range m"

lemma configured_fixed: "fixed_part m = fixed_part m' \<Longrightarrow> configured m = configured m'"
  by (simp add: configured_def fixed_part_def float_limits_def command_in_range_def)

definition finite_range :: "Motor \<Rightarrow> bool" where
  "finite_range m \<longleftrightarrow> isfinite (command_min m) \<and> isfinite (command_max m)"

lemma not_less_finite: "isfinite a \<Longrightarrow> isfinite b \<Longrightarrow> \<not> f64_less a b \<Longrightarrow> f64_le b a"
  by (cases a; cases b) auto

lemma configure_motor_result:
  assumes "configure_motor i d = (Inr (), d')" "i < length (motors d)" "finite_range (motors d ! i)"
  shows "only i d d'" "configured (motors d' ! i)"
proof -
  obtain d1 d2 d3 d4 d4' d5 d6 mode frame where
    idty: "check_identity i d = (Inr (), d1)" and mode: "read_register i control_mode d1 = (Inr mode, d2)" and
    lim: "read_limits i d2 = (Inr (), d3)" and prof: "check_profile i d3 = (Inr (), d4)" and
    ok: "\<not> limits_incompatible (motors d4 ! i)" and
    built: "elift (make_special_command (can_id (motors d4 ! i)) disable_motor) d4 = (Inr frame, d4')" and
    snt: "with_io (can_send frame) d4' = (Inr (), d5)" and
    heard: "await_feedback i d5 = (Inr True, d6)" and
    ins: "\<not> not_disabled_inside (motors d6 ! i)" and
    d': "d' = update_motor i (\<lambda>m. m\<lparr>m_command := m_position m\<rparr>) d6"
    using assms(1) unfolding configure_motor_def ebind_Inr
    by (auto simp: eguard_def ebind_Inr split: if_splits)
  have sent: "motors d5 = motors d4"
    using built snt by (auto simp: elift_def with_io_def split: prod.splits)
  have s1: "settled d d1"
    using idty assms(2) by (intro always_settled [OF settled.always_checks(1)]) (auto simp: motor_ids_def)
  then have i1: "i < length (motors d1)" using assms(2) by (rule settled_index)
  have s2: "settled d1 d2"
    using mode i1 by (intro always_settled [OF settled.always_read_register]) (auto simp: motor_ids_def)
  then have i2: "i < length (motors d2)" using i1 by (rule settled_index)
  note s3 = read_limits_result [OF lim i2]
  have i3: "i < length (motors d3)" using s3(1) i2 by (simp add: only_def)
  have s4: "settled d3 d4"
    using prof i3 by (intro always_settled [OF settled.always_checks(2)]) (auto simp: motor_ids_def)
  then have i4: "i < length (motors d4)" using i3 by (rule settled_index)
  have fl: "float_limits (motors d4 ! i)"
    using s3(2) settled_nth(1) [OF s4 i3] float_limits_fixed [of "motors d4 ! i" "motors d3 ! i"]
    by (simp add: heard_or_same_def)
  have s5: "only i d4 d5" by (simp add: only_def sent)
  have i5: "i < length (motors d5)" using sent i4 by simp
  note s6 = await_feedback_result [OF heard i5, unfolded sent, OF fl]
  have i6: "i < length (motors d6)" using settled_nth(2) [OF s6(1)] i5 by simp
  have "only i d d1" by (rule settled_only [OF s1 assms(2)])
  also have "only i d1 d2" by (rule settled_only [OF s2 i1])
  also have "only i d2 d3" by (rule s3(1))
  also have "only i d3 d4" by (rule settled_only [OF s4 i3])
  also have "only i d4 d5" by (rule s5)
  also have "only i d5 d6" by (rule settled_only [OF s6(1) i5])
  finally have o6: "only i d d6" .
  also have "only i d6 d'" unfolding d' by (rule update_only) simp
  finally show "only i d d'" .
  have f6: "fixed_part (motors d6 ! i) = fixed_part (motors d4 ! i)"
    using settled_nth(1) [OF s6(1) i5] sent by (simp add: heard_or_same_def)
  have m: "motors d' ! i = (motors d6 ! i)\<lparr>m_command := m_position (motors d6 ! i)\<rparr>"
    using i6 by (simp add: d' update_motor_def)
  have "isfinite (command_min (motors d6 ! i))" "isfinite (command_max (motors d6 ! i))"
    using o6 assms(3) by (simp_all add: only_def finite_range_def)
  then have "command_in_range (motors d' ! i)"
    using s6(2) ins by (simp add: m command_in_range_def not_disabled_inside_def not_less_finite)
  with f6 fl ok show "configured (motors d' ! i)"
    by (simp add: configured_def m limits_incompatible_def fixed_part_def float_limits_def)
qed

lemma configure_motors_result:
  assumes "configure_motors is d = (Inr (), d')" "\<forall>i \<in> set is. i < length (motors d)"
    "list_all finite_range (motors d)" "distinct is"
    "\<forall>i < length (motors d). i \<notin> set is \<longrightarrow> configured (motors d ! i)"
  shows "length (motors d') = length (motors d) \<and> list_all configured (motors d')"
  using assms
proof (induction "is" arbitrary: d)
  case Nil
  then show ?case by (auto simp: ereturn_def list_all_length)
next
  case (Cons i "is")
  then obtain d1 where c: "configure_motor i d = (Inr (), d1)" "configure_motors is d1 = (Inr (), d')"
    by (auto simp: ebind_Inr)
  have i: "i < length (motors d)" "finite_range (motors d ! i)"
    using Cons.prems by (auto simp: list_all_length)
  note r = configure_motor_result [OF c(1) i]
  have len: "length (motors d1) = length (motors d)" using r(1) by (simp add: only_def)
  have same: "fixed_part (motors d1 ! j) = fixed_part (motors d ! j)" if "j < length (motors d)" "j \<noteq> i" for j
    using r(1) that by (simp add: only_def)
  have fin: "finite_range (motors d1 ! j)" if "j < length (motors d)" for j
  proof (cases "j = i")
    case True
    then show ?thesis using r(1) i(2) by (simp add: only_def finite_range_def)
  next
    case False
    then show ?thesis
      using same [OF that False] Cons.prems(3) that
      by (simp add: finite_range_def fixed_part_def list_all_length)
  qed
  have "configured (motors d1 ! j)" if "j < length (motors d)" "j \<notin> set is" for j
  proof (cases "j = i")
    case True
    with r(2) show ?thesis by simp
  next
    case False
    with that Cons.prems(5) have "configured (motors d ! j)" by simp
    then show ?thesis using configured_fixed [OF same [OF that(1) False]] by simp
  qed
  with Cons.IH [OF c(2)] Cons.prems(2,4) fin len show ?case
    by (simp add: list_all_length)
qed

lemma new_head_fields:
  "new_head f t = Some h \<Longrightarrow> head_phase h = disabled \<and> \<not> fault_flag h"
  by (auto simp: new_head_def split: if_splits)

lemma disabled_step_phase:
  "head_phase h = disabled \<Longrightarrow> head_phase (snd (head_step now False g ms h)) \<in> {disabled, fault_latched}"
  by (simp add: step_defs)


subsection \<open>A configuration that succeeds\<close>

lemma profile_close_same:
  "profile_close (Fin a) (Fin a)"
proof -
  have "representable 1" by (simp add: representable_def f64_round_code [of 1])
  then obtain c where c: "f64_round (1 / 1000000) = Fin c" "0 \<le> c"
    using f64_round_bounded' [of 1 "1 / 1000000"] by auto
  have "f64_sub (Fin a) (Fin a) = Fin 0" by (simp add: f64_sub_def f64_round_def)
  moreover have "f64_le (Fin 0) (f64_max (Fin c) y)" for y
    using c(2) by (cases y) (auto simp: f64_max_def f64_le_def)
  ultimately show ?thesis by (simp add: profile_close_def c(1))
qed

lemma profile_close_code [code]:
  "profile_close lhs rhs =
    (if isfinite lhs \<and> lhs = rhs then True
     else f64_le (f64_abs (f64_sub lhs rhs))
       (f64_max (f64_round (1 / 1000000)) (f64_mul (f64_abs rhs) (f64_round (1 / 10000)))))"
proof (cases "isfinite lhs \<and> lhs = rhs")
  case True
  then show ?thesis using profile_close_same by (cases lhs) auto
next
  case False
  show ?thesis unfolding if_not_P [OF False] by (rule profile_close_def)
qed

text \<open>The motors' answers to the register reads and to the disable command.\<close>

definition reply :: "u8 \<Rightarrow> u16 \<Rightarrow> motor_register \<Rightarrow> u32 \<Rightarrow> recv_result" where
  "reply can master r v = RecvBytes 16 \<lparr>cf_id = ucast master, cf_dlc = 8,
     cf_data = put_u32_le [can, 0, 0x33, register_code r, 0, 0, 0, 0] 4 v\<rparr>"

definition motor_replies :: "u8 \<Rightarrow> u16 \<Rightarrow> recv_result list" where
  "motor_replies can master =
    [reply can master can_id_register (ucast can), reply can master master_id_register (ucast master),
     reply can master can_timeout 10000, reply can master can_bitrate 4, reply can master control_mode 2,
     reply can master position_max_register 0x41400000, reply can master velocity_max_register 0x42480000,
     reply can master torque_max_register 0x41200000, reply can master acceleration 0x40000000,
     reply can master deceleration 0xC0000000, reply can master maximum_speed 0x44160000,
     RecvBytes 16 \<lparr>cf_id = ucast master, cf_dlc = 8, cf_data = [can, 0xFF, 0xFF, 0, 0, 0, 30, 31]\<rparr>]"

definition unconfigured :: damiao where
  "unconfigured = sample_plugin\<lparr>motors := map (\<lambda>m. m\<lparr>command_max := Fin 20\<rparr>) (motors sample_plugin), max_rx_frames_per_cycle := 1, hardware_active := False,
     dm_io := sample_io\<lparr>descriptor := - 1, k_recv := motor_replies 1 0x11 @ motor_replies 2 0x12,
       k_poll := replicate 24 (Polled 1 False True)\<rparr>\<rparr>"




end
