(* ===== verification/BmsProtocol.thy ===== *)
theory BmsProtocol
  imports CanBus Float32
begin

text \<open>
  The battery-management protocol of \<open>periph_bms\<close> (\<open>protocol.hpp\<close>, \<open>protocol.cpp\<close>): CAN
  identifiers, byte-order detection, the decoder of the total-status frame and the state of one
  battery pack that is built from its frames; and \<open>can_transport.cpp\<close>, which turns identifiers
  into query frames and filters. A \<open>std::optional\<close> is an \<open>option\<close>, the payload pointer of a frame
  an optional byte list whose length is the size argument, and a decimal literal \<open>q\<close> of the code
  the double nearest to it, \<open>f64_round q\<close>.
\<close>

definition kTotalStatusDataId :: u8 where "kTotalStatusDataId = 0x90"
definition kCellExtremesDataId :: u8 where "kCellExtremesDataId = 0x91"
definition kCellTemperatureDataId :: u8 where "kCellTemperatureDataId = 0x92"
definition kMosStatusDataId :: u8 where "kMosStatusDataId = 0x93"
definition kPackInfoDataId :: u8 where "kPackInfoDataId = 0x94"
definition kCellVoltagesDataId :: u8 where "kCellVoltagesDataId = 0x95"
definition kFaultDataId :: u8 where "kFaultDataId = 0x98"
definition kDischargeMosDataId :: u8 where "kDischargeMosDataId = 0xD9"

lemmas bms_data_ids = kTotalStatusDataId_def kCellExtremesDataId_def kCellTemperatureDataId_def
  kMosStatusDataId_def kPackInfoDataId_def kCellVoltagesDataId_def kFaultDataId_def
  kDischargeMosDataId_def

datatype ByteOrder = kAuto | kBigEndian | kLittleEndian

record BmsSample =
  voltage_v :: "f64 option"
  soc_fraction :: "f64 option"
  last_frame_s :: "f64 option"
  current_a :: "f64 option"

record BatteryValues =
  bv_voltage_v :: f64
  bv_soc_fraction :: f64

subsection \<open>Bytes, identifiers and freshness\<close>

definition kCanIdPrefix :: u32 where "kCanIdPrefix = 0x18000000"
definition kMaximumSocRaw :: u16 where "kMaximumSocRaw = 1000"

definition decode_u16 :: "u8 list \<Rightarrow> nat \<Rightarrow> ByteOrder \<Rightarrow> u16" where
  "decode_u16 data offset order =
    (if order = kLittleEndian
     then ucast (data ! offset) OR push_bit 8 (ucast (data ! (offset + 1)))
     else push_bit 8 (ucast (data ! offset)) OR ucast (data ! (offset + 1)))"

definition detect_order :: "u8 list \<Rightarrow> ByteOrder option" where
  "detect_order data =
    (let big_valid = (decode_u16 data 6 kBigEndian \<le> kMaximumSocRaw);
         little_valid = (decode_u16 data 6 kLittleEndian \<le> kMaximumSocRaw)
     in if big_valid \<noteq> little_valid
        then Some (if big_valid then kBigEndian else kLittleEndian) else None)"

definition fresh_time :: "f64 option \<Rightarrow> f64 \<Rightarrow> f64 \<Rightarrow> bool" where
  "fresh_time stamp now timeout =
    (case stamp of None \<Rightarrow> False
     | Some t \<Rightarrow>
         if \<not> isfinite t \<or> \<not> isfinite now \<or> \<not> isfinite timeout \<or> f64_le timeout (Fin 0) then False
         else let age = f64_sub now t in f64_le (Fin 0) age \<and> f64_le age timeout)"

definition is_fresh :: "BmsSample \<Rightarrow> f64 \<Rightarrow> f64 \<Rightarrow> bool" where
  "is_fresh sample now_s timeout_s =
    (case last_frame_s sample of None \<Rightarrow> False
     | Some t \<Rightarrow>
         if \<not> isfinite t \<or> \<not> isfinite now_s \<or> \<not> isfinite timeout_s \<or> f64_le timeout_s (Fin 0)
         then False
         else let age = f64_sub now_s t in f64_le (Fin 0) age \<and> f64_le age timeout_s)"

definition make_can_id :: "u8 \<Rightarrow> u8 \<Rightarrow> u8 \<Rightarrow> u32" where
  "make_can_id data_id destination source =
     kCanIdPrefix OR push_bit 16 (ucast data_id) OR push_bit 8 (ucast destination) OR ucast source"

definition poll_data_ids :: "u8 list" where
  "poll_data_ids = [kTotalStatusDataId, kCellExtremesDataId, kCellTemperatureDataId,
     kMosStatusDataId, kPackInfoDataId, kCellVoltagesDataId, kFaultDataId]"

definition make_dual_poll_ids :: "u8 \<Rightarrow> u8 \<Rightarrow> u8 \<Rightarrow> u32 list" where
  "make_dual_poll_ids primary_address secondary_address host_address =
     map (\<lambda>d. make_can_id d primary_address host_address) poll_data_ids
     @ map (\<lambda>d. make_can_id d secondary_address host_address) poll_data_ids"

definition parse_byte_order :: "string \<Rightarrow> exn + ByteOrder" where
  "parse_byte_order text =
    (if text = ''auto'' then Inr kAuto
     else if text = ''big_endian'' then Inr kBigEndian
     else if text = ''little_endian'' then Inr kLittleEndian
     else Inl (invalid_argument ''multi_byte_order''))"

subsection \<open>\<open>GoldenPhoenixDecoder\<close>: the total-status frame\<close>

record GoldenPhoenixDecoder =
  configured_order :: ByteOrder
  response_id :: u32
  resolved_order :: "ByteOrder option"

definition new_decoder :: "ByteOrder \<Rightarrow> u8 \<Rightarrow> u8 \<Rightarrow> GoldenPhoenixDecoder" where
  "new_decoder order bms host =
     \<lparr>configured_order = order, response_id = make_can_id kTotalStatusDataId host bms,
      resolved_order = (if order \<noteq> kAuto then Some order else None)\<rparr>"

definition store_sample :: "u8 list \<Rightarrow> ByteOrder \<Rightarrow> f64 \<Rightarrow> BmsSample \<Rightarrow> BmsSample" where
  "store_sample data order now_s sample =
     sample\<lparr>voltage_v := Some (f64_mul (f64_of_int (uint (decode_u16 data 0 order))) (f64_round (1 / 10))),
            soc_fraction := Some (f64_div (f64_of_int (uint (decode_u16 data 6 order))) (Fin 1000)),
            current_a := Some (f64_mul (f64_sub (f64_of_int (uint (decode_u16 data 4 order))) (Fin 30000))
                                       (f64_round (1 / 10))),
            last_frame_s := Some now_s\<rparr>"

definition decoder_ingest ::
  "u32 \<Rightarrow> u8 list option \<Rightarrow> f64 \<Rightarrow> GoldenPhoenixDecoder \<Rightarrow> BmsSample \<Rightarrow>
     bool \<times> GoldenPhoenixDecoder \<times> BmsSample" where
  "decoder_ingest can_id payload now_s d sample =
    (case payload of None \<Rightarrow> (False, d, sample)
     | Some data \<Rightarrow>
         if can_id \<noteq> response_id d \<or> length data \<noteq> 8 \<or> \<not> isfinite now_s then (False, d, sample)
         else case (case resolved_order d of Some order \<Rightarrow> Some order | None \<Rightarrow> detect_order data) of
             None \<Rightarrow> (False, d, sample)
           | Some order \<Rightarrow>
               if kMaximumSocRaw < decode_u16 data 6 order then (False, d, sample)
               else (True, d\<lparr>resolved_order := Some order\<rparr>, store_sample data order now_s sample))"

subsection \<open>\<open>PackState\<close> and \<open>GoldenPhoenixPack\<close>\<close>

record PackState =
  sample :: BmsSample
  fault_frame_s :: "f64 option"
  fault_bytes :: "u8 list"
  mos_frame_s :: "f64 option"
  operating_state_raw :: "u8 option"
  charge_mos_raw :: "u8 option"
  discharge_mos_raw :: "u8 option"
  pack_info_s :: "f64 option"
  charger_connected_raw :: "u8 option"
  discharge_ack_s :: "f64 option"
  discharge_ack_value :: "u8 option"
  cell_count :: "u8 option"
  cell_extremes_s :: "f64 option"
  max_cell_voltage_v :: "f64 option"
  min_cell_voltage_v :: "f64 option"
  temperature_frame_s :: "f64 option"
  max_cell_temperature_c :: "f64 option"
  min_cell_temperature_c :: "f64 option"
  cell_voltage_v :: "f64 option list"
  cell_frame_s :: "f64 option list"

definition new_pack_state :: PackState where
  "new_pack_state =
     \<lparr>sample = \<lparr>voltage_v = None, soc_fraction = None, last_frame_s = None, current_a = None\<rparr>,
      fault_frame_s = None, fault_bytes = replicate 8 0, mos_frame_s = None,
      operating_state_raw = None, charge_mos_raw = None, discharge_mos_raw = None,
      pack_info_s = None, charger_connected_raw = None, discharge_ack_s = None,
      discharge_ack_value = None, cell_count = None, cell_extremes_s = None,
      max_cell_voltage_v = None, min_cell_voltage_v = None, temperature_frame_s = None,
      max_cell_temperature_c = None, min_cell_temperature_c = None,
      cell_voltage_v = replicate 48 None, cell_frame_s = replicate 16 None\<rparr>"

definition fault_mask :: "nat \<Rightarrow> u8" where
  "fault_mask index = (if index = 3 then 0x0F else if index = 6 then 0x7F else 0xFF)"

definition has_fault :: "PackState \<Rightarrow> bool" where
  "has_fault pack =
    (if fault_frame_s pack = None then False
     else list_ex (\<lambda>index. fault_bytes pack ! index AND fault_mask index \<noteq> 0)
            [0..<length (fault_bytes pack)])"

definition status_fresh :: "PackState \<Rightarrow> f64 \<Rightarrow> f64 \<Rightarrow> bool" where
  "status_fresh pack now_s timeout_s \<longleftrightarrow>
     is_fresh (sample pack) now_s timeout_s \<and> fresh_time (fault_frame_s pack) now_s timeout_s
     \<and> fresh_time (mos_frame_s pack) now_s timeout_s"

definition cells_fresh :: "PackState \<Rightarrow> f64 \<Rightarrow> f64 \<Rightarrow> bool" where
  "cells_fresh pack now_s timeout_s =
    (case cell_count pack of None \<Rightarrow> False
     | Some count \<Rightarrow>
         if count = 0 \<or> 48 < count then False
         else list_all (\<lambda>index. cell_voltage_v pack ! index \<noteq> None
                  \<and> fresh_time (cell_frame_s pack ! (index div 3)) now_s timeout_s)
                [0..<unat count])"

record GoldenPhoenixPack =
  total_decoder :: GoldenPhoenixDecoder
  bms_address :: u8
  host_address :: u8

definition new_pack :: "ByteOrder \<Rightarrow> u8 \<Rightarrow> u8 \<Rightarrow> GoldenPhoenixPack" where
  "new_pack order bms host =
     \<lparr>total_decoder = new_decoder order bms host, bms_address = bms, host_address = host\<rparr>"

definition begin_cell_scan :: "PackState \<Rightarrow> PackState" where
  "begin_cell_scan state = state\<lparr>cell_voltage_v := replicate (length (cell_voltage_v state)) None,
                                 cell_frame_s := replicate (length (cell_frame_s state)) None\<rparr>"

definition millivolts :: "u8 list \<Rightarrow> nat \<Rightarrow> ByteOrder \<Rightarrow> f64" where
  "millivolts data offset order = f64_div (f64_of_int (uint (decode_u16 data offset order))) (Fin 1000)"

definition celsius :: "u8 \<Rightarrow> f64" where
  "celsius raw = f64_sub (f64_of_int (uint raw)) (Fin 40)"

definition store_pack_info :: "u8 list \<Rightarrow> f64 \<Rightarrow> PackState \<Rightarrow> PackState" where
  "store_pack_info data now_s state =
    (let s1 = (if cell_count state \<noteq> Some (data ! 0) then begin_cell_scan state else state)
     in s1\<lparr>cell_count := Some (data ! 0), charger_connected_raw := Some (data ! 2),
           pack_info_s := Some now_s\<rparr>)"

definition store_cell_frame :: "u8 list \<Rightarrow> ByteOrder \<Rightarrow> f64 \<Rightarrow> PackState \<Rightarrow> PackState" where
  "store_cell_frame data order now_s state =
    (let frame_index = unat (data ! 0)
     in state\<lparr>cell_voltage_v := fold (\<lambda>offset cells.
                  cells[frame_index * 3 + offset := Some (millivolts data (1 + offset * 2) order)])
                [0..<3] (cell_voltage_v state),
              cell_frame_s := (cell_frame_s state)[frame_index := Some now_s]\<rparr>)"

text \<open>The frames that do not need the byte order, then the two that do.\<close>

definition ingest_cells ::
  "u32 \<Rightarrow> u8 list \<Rightarrow> f64 \<Rightarrow> GoldenPhoenixPack \<Rightarrow> PackState \<Rightarrow> bool \<times> PackState" where
  "ingest_cells can_id data now_s p state =
    (case resolved_order (total_decoder p) of None \<Rightarrow> (False, state)
     | Some order \<Rightarrow>
         if can_id = make_can_id kCellExtremesDataId (host_address p) (bms_address p)
         then (True, state\<lparr>max_cell_voltage_v := Some (millivolts data 0 order),
                           min_cell_voltage_v := Some (millivolts data 3 order),
                           cell_extremes_s := Some now_s\<rparr>)
         else if can_id = make_can_id kCellVoltagesDataId (host_address p) (bms_address p)
         then (if length (cell_frame_s state) \<le> unat (data ! 0) then (False, state)
               else (True, store_cell_frame data order now_s state))
         else (False, state))"

definition pack_ingest ::
  "u32 \<Rightarrow> u8 list option \<Rightarrow> f64 \<Rightarrow> GoldenPhoenixPack \<Rightarrow> PackState \<Rightarrow>
     bool \<times> GoldenPhoenixPack \<times> PackState" where
  "pack_ingest can_id payload now_s p state =
    (case payload of None \<Rightarrow> (False, p, state)
     | Some data \<Rightarrow>
       if length data \<noteq> 8 \<or> \<not> isfinite now_s then (False, p, state)
       else let own = (\<lambda>data_id. make_can_id data_id (host_address p) (bms_address p)) in
         if can_id = own kTotalStatusDataId
         then (let (ok, d, s) = decoder_ingest can_id payload now_s (total_decoder p) (sample state)
               in (ok, p\<lparr>total_decoder := d\<rparr>, state\<lparr>sample := s\<rparr>))
         else if can_id = own kFaultDataId
         then (True, p, state\<lparr>fault_bytes := data, fault_frame_s := Some now_s\<rparr>)
         else if can_id = own kMosStatusDataId
         then (True, p, state\<lparr>operating_state_raw := Some (data ! 0), charge_mos_raw := Some (data ! 1),
                              discharge_mos_raw := Some (data ! 2), mos_frame_s := Some now_s\<rparr>)
         else if can_id = own kCellTemperatureDataId
         then (True, p, state\<lparr>max_cell_temperature_c := Some (celsius (data ! 0)),
                              min_cell_temperature_c := Some (celsius (data ! 2)),
                              temperature_frame_s := Some now_s\<rparr>)
         else if can_id = own kDischargeMosDataId
         then (if 1 < data ! 0 then (False, p, state)
               else (True, p, state\<lparr>discharge_ack_value := Some (data ! 0),
                                    discharge_ack_s := Some now_s\<rparr>))
         else if can_id = own kPackInfoDataId
         then (if data ! 0 = 0 \<or> 48 < data ! 0 then (False, p, state)
               else (True, p, store_pack_info data now_s state))
         else let (ok, s) = ingest_cells can_id data now_s p state in (ok, p, s))"

definition project_battery_values :: "BmsSample \<Rightarrow> f64 \<Rightarrow> f64 \<Rightarrow> BatteryValues" where
  "project_battery_values s now_s timeout_s =
    (case (voltage_v s, soc_fraction s) of
       (Some v, Some soc) \<Rightarrow>
         if \<not> is_fresh s now_s timeout_s \<or> \<not> isfinite v \<or> \<not> isfinite soc
            \<or> f64_less soc (Fin 0) \<or> f64_less (Fin 1) soc
         then \<lparr>bv_voltage_v = NaN, bv_soc_fraction = NaN\<rparr>
         else \<lparr>bv_voltage_v = v, bv_soc_fraction = soc\<rparr>
     | _ \<Rightarrow> \<lparr>bv_voltage_v = NaN, bv_soc_fraction = NaN\<rparr>)"

subsection \<open>\<open>can_transport.cpp\<close>\<close>

definition CAN_EFF_FLAG :: u32 where "CAN_EFF_FLAG = 0x80000000"
definition CAN_RTR_FLAG :: u32 where "CAN_RTR_FLAG = 0x40000000"
definition CAN_ERR_FLAG :: u32 where "CAN_ERR_FLAG = 0x20000000"
definition CAN_EFF_MASK :: u32 where "CAN_EFF_MASK = 0x1FFFFFFF"

definition make_response_filter :: "u32 \<Rightarrow> u32 \<times> u32" where
  "make_response_filter response =
     (response OR CAN_EFF_FLAG, CAN_EFF_MASK OR CAN_EFF_FLAG OR CAN_RTR_FLAG OR CAN_ERR_FLAG)"

definition make_query_frame :: "u32 \<Rightarrow> can_frame" where
  "make_query_frame request =
     \<lparr>cf_id = request OR CAN_EFF_FLAG, cf_dlc = 8, cf_data = replicate 8 0\<rparr>"

text \<open>The payload of a response frame, or None (the null pointer) with the result false.\<close>

definition decode_response_frame :: "can_frame \<Rightarrow> u32 \<Rightarrow> u8 list option" where
  "decode_response_frame frame response =
    (if cf_id frame AND CAN_EFF_FLAG = 0 \<or> cf_id frame AND (CAN_RTR_FLAG OR CAN_ERR_FLAG) \<noteq> 0
        \<or> cf_id frame AND CAN_EFF_MASK \<noteq> response \<or> cf_dlc frame \<noteq> 8
     then None else Some (cf_data frame))"

end
