(* ===== verification/BmsDischarge.thy ===== *)
theory BmsDischarge
  imports BmsProtocol
begin

text \<open>
  \<open>DualBatteryController\<close> of \<open>periph_bms\<close> (\<open>dual_battery_controller.hpp\<close>,
  \<open>dual_battery_controller.cpp\<close>): the state machine that joins the second battery to the supply
  bus and takes it off again. Times, voltages and currents are doubles with their rounding. The
  accesses \<open>*x\<close> to optionals, all behind a test that they hold a value, are \<open>the\<close>.
\<close>

datatype DischargePhase =
    kWaitingForRelayOpen | kWaitingForPrimary | kWaitingForSecondary | kWaitingForJoinConditions
  | kWaitingForAck | kWaitingForMos | kWaitingForRelayClosed | kObservingSecondary | kRunning
  | kStoppingLoads | kStoppingSecondary | kOpeningRelay | kStoppingPrimary | kFaultLatched
  | kAwaitingIsolationPolicy

fun discharge_phase_name :: "DischargePhase \<Rightarrow> string" where
  "discharge_phase_name kWaitingForRelayOpen = ''waiting_for_relay_open''"
| "discharge_phase_name kWaitingForPrimary = ''waiting_for_primary''"
| "discharge_phase_name kWaitingForSecondary = ''waiting_for_secondary''"
| "discharge_phase_name kWaitingForJoinConditions = ''waiting_for_join_conditions''"
| "discharge_phase_name kWaitingForAck = ''waiting_for_ack''"
| "discharge_phase_name kWaitingForMos = ''waiting_for_mos''"
| "discharge_phase_name kWaitingForRelayClosed = ''waiting_for_relay_closed''"
| "discharge_phase_name kObservingSecondary = ''observing_secondary''"
| "discharge_phase_name kRunning = ''running''"
| "discharge_phase_name kStoppingLoads = ''stopping_loads''"
| "discharge_phase_name kStoppingSecondary = ''stopping_secondary''"
| "discharge_phase_name kOpeningRelay = ''opening_relay''"
| "discharge_phase_name kStoppingPrimary = ''stopping_primary''"
| "discharge_phase_name kFaultLatched = ''fault_latched''"
| "discharge_phase_name kAwaitingIsolationPolicy = ''awaiting_primary_mos_isolation_policy''"

datatype DischargeAction =
    Action_kNone | kStopLoads | kEnableSecondary | kDisableSecondary | kDisablePrimary
  | kCloseRelay | kOpenRelay

record DischargeSettings =
  status_timeout_s :: f64
  command_timeout_s :: f64
  set_observation_s :: f64
  stable_s :: f64
  max_voltage_delta_v :: f64
  trip_voltage_delta_v :: f64
  max_abs_current_a :: f64
  set_min_cell_voltage_v :: f64
  set_max_cell_voltage_v :: f64
  set_min_cell_temperature_c :: f64
  set_max_cell_temperature_c :: f64
  mos_on_raw :: u8
  mos_off_raw :: u8

record DischargeInputs =
  primary :: PackState
  secondary :: PackState
  in_now_s :: f64
  loads_stopped :: bool
  loads_stopped_s :: "f64 option"
  relay_closed :: "bool option"
  relay_feedback_s :: "f64 option"
  control_authorized :: bool

record DualBatteryController =
  settings :: DischargeSettings
  dc_phase :: DischargePhase
  command_s :: "f64 option"
  observation_s :: "f64 option"
  stable_since_s :: "f64 option"
  primary_healthy_seen :: bool
  secondary_healthy_seen :: bool
  primary_fault :: bool
  secondary_fault :: bool
  primary_isolation_attempted :: bool
  secondary_isolation_attempted :: bool

definition settings_valid :: "DischargeSettings \<Rightarrow> bool" where
  "settings_valid s \<longleftrightarrow> \<not> (
     \<not> isfinite (status_timeout_s s) \<or> f64_le (status_timeout_s s) (Fin 0)
   \<or> \<not> isfinite (command_timeout_s s) \<or> f64_le (command_timeout_s s) (Fin 0)
   \<or> \<not> isfinite (set_observation_s s) \<or> f64_le (set_observation_s s) (Fin 0)
   \<or> \<not> isfinite (stable_s s) \<or> f64_le (stable_s s) (Fin 0)
   \<or> \<not> isfinite (max_voltage_delta_v s) \<or> f64_less (max_voltage_delta_v s) (Fin 0)
   \<or> \<not> isfinite (trip_voltage_delta_v s)
   \<or> f64_less (trip_voltage_delta_v s) (max_voltage_delta_v s)
   \<or> \<not> isfinite (max_abs_current_a s) \<or> f64_less (max_abs_current_a s) (Fin 0)
   \<or> \<not> isfinite (set_min_cell_voltage_v s) \<or> \<not> isfinite (set_max_cell_voltage_v s)
   \<or> f64_le (set_min_cell_voltage_v s) (Fin 0)
   \<or> f64_le (set_max_cell_voltage_v s) (set_min_cell_voltage_v s)
   \<or> \<not> isfinite (set_min_cell_temperature_c s)
   \<or> \<not> isfinite (set_max_cell_temperature_c s)
   \<or> f64_le (set_max_cell_temperature_c s) (set_min_cell_temperature_c s)
   \<or> mos_on_raw s = mos_off_raw s)"

definition new_controller :: "DischargeSettings \<Rightarrow> exn + DualBatteryController" where
  "new_controller s =
    (if settings_valid s
     then Inr \<lparr>settings = s, dc_phase = kWaitingForRelayOpen, command_s = None,
               observation_s = None, stable_since_s = None, primary_healthy_seen = False,
               secondary_healthy_seen = False, primary_fault = False, secondary_fault = False,
               primary_isolation_attempted = False, secondary_isolation_attempted = False\<rparr>
     else Inl (invalid_argument ''settings''))"

subsection \<open>Tests on the inputs\<close>

definition feedback_fresh :: "DischargeSettings \<Rightarrow> f64 option \<Rightarrow> f64 \<Rightarrow> bool" where
  "feedback_fresh s stamp now_s =
    (case stamp of None \<Rightarrow> False
     | Some t \<Rightarrow> isfinite now_s \<and> isfinite t \<and> f64_le t now_s
                 \<and> f64_le (f64_sub now_s t) (status_timeout_s s))"


definition healthy :: "DischargeSettings \<Rightarrow> PackState \<Rightarrow> f64 \<Rightarrow> bool \<Rightarrow> bool" where
  "healthy s pack now_s require_mos_fresh =
    (if \<not> is_fresh (sample pack) now_s (status_timeout_s s)
        \<or> \<not> feedback_fresh s (fault_frame_s pack) now_s
        \<or> require_mos_fresh \<and> \<not> feedback_fresh s (mos_frame_s pack) now_s
        \<or> \<not> cells_fresh pack now_s (status_timeout_s s)
        \<or> \<not> feedback_fresh s (temperature_frame_s pack) now_s
        \<or> max_cell_temperature_c pack = None \<or> min_cell_temperature_c pack = None
        \<or> f64_less (the (min_cell_temperature_c pack)) (set_min_cell_temperature_c s)
        \<or> f64_less (set_max_cell_temperature_c s) (the (max_cell_temperature_c pack))
        \<or> cell_extremes_s pack = None \<or> \<not> feedback_fresh s (cell_extremes_s pack) now_s
        \<or> min_cell_voltage_v pack = None \<or> max_cell_voltage_v pack = None
        \<or> f64_less (the (min_cell_voltage_v pack)) (set_min_cell_voltage_v s)
        \<or> f64_less (set_max_cell_voltage_v s) (the (max_cell_voltage_v pack))
     then False
     else if list_ex (\<lambda>index. f64_less (the (cell_voltage_v pack ! index)) (set_min_cell_voltage_v s)
                \<or> f64_less (set_max_cell_voltage_v s) (the (cell_voltage_v pack ! index)))
             [0..<unat (the (cell_count pack))]
     then False
     else \<not> has_fault pack \<and> voltage_v (sample pack) \<noteq> None \<and> current_a (sample pack) \<noteq> None
          \<and> isfinite (the (voltage_v (sample pack))) \<and> isfinite (the (current_a (sample pack)))
          \<and> (operating_state_raw pack = Some 0 \<or> operating_state_raw pack = Some 2)
          \<and> charger_connected_raw pack = Some 0
          \<and> feedback_fresh s (pack_info_s pack) now_s)"

definition join_interlocks :: "DischargeSettings \<Rightarrow> DischargeInputs \<Rightarrow> bool" where
  "join_interlocks s i \<longleftrightarrow>
     discharge_mos_raw (primary i) = Some (mos_on_raw s)
     \<and> feedback_fresh s (mos_frame_s (primary i)) (in_now_s i)
     \<and> relay_closed i = Some False \<and> feedback_fresh s (relay_feedback_s i) (in_now_s i)"

definition current_within :: "DischargeSettings \<Rightarrow> PackState \<Rightarrow> bool" where
  "current_within s pack \<longleftrightarrow> f64_le (f64_abs (the (current_a (sample pack)))) (max_abs_current_a s)"

definition loads_safe_to_switch :: "DischargeSettings \<Rightarrow> DischargeInputs \<Rightarrow> bool" where
  "loads_safe_to_switch s i \<longleftrightarrow>
     loads_stopped i \<and> feedback_fresh s (loads_stopped_s i) (in_now_s i)
     \<and> is_fresh (sample (primary i)) (in_now_s i) (status_timeout_s s)
     \<and> is_fresh (sample (secondary i)) (in_now_s i) (status_timeout_s s)
     \<and> current_a (sample (primary i)) \<noteq> None \<and> current_a (sample (secondary i)) \<noteq> None
     \<and> isfinite (the (current_a (sample (primary i))))
     \<and> isfinite (the (current_a (sample (secondary i))))
     \<and> current_within s (primary i) \<and> current_within s (secondary i)"

definition voltage_delta :: "DischargeInputs \<Rightarrow> f64" where
  "voltage_delta i = f64_abs (f64_sub (the (voltage_v (sample (primary i))))
                                      (the (voltage_v (sample (secondary i)))))"

definition join_conditions :: "DischargeSettings \<Rightarrow> DischargeInputs \<Rightarrow> bool" where
  "join_conditions s i \<longleftrightarrow>
     control_authorized i \<and> loads_stopped i \<and> feedback_fresh s (loads_stopped_s i) (in_now_s i)
     \<and> join_interlocks s i
     \<and> healthy s (primary i) (in_now_s i) True \<and> healthy s (secondary i) (in_now_s i) True
     \<and> (discharge_mos_raw (secondary i) = Some (mos_off_raw s)
        \<or> discharge_mos_raw (secondary i) = Some (mos_on_raw s))
     \<and> f64_le (voltage_delta i) (max_voltage_delta_v s)
     \<and> current_within s (primary i) \<and> current_within s (secondary i)"

subsection \<open>Phases\<close>

definition stopping_phase :: "DischargePhase \<Rightarrow> bool" where
  "stopping_phase p \<longleftrightarrow> p \<in> {kStoppingLoads, kStoppingSecondary, kOpeningRelay, kStoppingPrimary,
     kFaultLatched, kAwaitingIsolationPolicy}"

definition waiting_before_command :: "DischargePhase \<Rightarrow> bool" where
  "waiting_before_command p \<longleftrightarrow> p = kWaitingForSecondary \<or> p = kWaitingForJoinConditions"

definition waiting_for_d9 :: "DischargePhase \<Rightarrow> bool" where
  "waiting_for_d9 p \<longleftrightarrow> p = kWaitingForAck \<or> p = kWaitingForMos"

definition expects_primary_supply :: "DischargePhase \<Rightarrow> bool" where
  "expects_primary_supply p \<longleftrightarrow> waiting_before_command p \<or> waiting_for_d9 p
     \<or> p = kWaitingForRelayClosed \<or> p = kObservingSecondary \<or> p = kRunning"

definition joining_phase :: "DischargePhase \<Rightarrow> bool" where
  "joining_phase p \<longleftrightarrow> p = kWaitingForAck \<or> p = kWaitingForMos \<or> p = kWaitingForRelayClosed
     \<or> p = kObservingSecondary"

definition connected_phase :: "DischargePhase \<Rightarrow> bool" where
  "connected_phase p \<longleftrightarrow> p = kObservingSecondary \<or> p = kRunning"

definition dc_latch_fault :: "bool \<Rightarrow> bool \<Rightarrow> DualBatteryController \<Rightarrow> DualBatteryController" where
  "dc_latch_fault p s c =
    (let c1 = c\<lparr>primary_fault := primary_fault c \<or> p, secondary_fault := secondary_fault c \<or> s\<rparr>
     in if \<not> stopping_phase (dc_phase c1) then c1\<lparr>dc_phase := kStoppingLoads\<rparr> else c1)"

subsection \<open>\<open>update\<close>\<close>

text \<open>The faults an update sees, computed from the phase before it.\<close>

definition sees_primary_fault :: "DischargeInputs \<Rightarrow> DualBatteryController \<Rightarrow> bool" where
  "sees_primary_fault i c \<longleftrightarrow>
     has_fault (primary i)
     \<or> primary_healthy_seen c
       \<and> \<not> healthy (settings c) (primary i) (in_now_s i) (\<not> waiting_before_command (dc_phase c))"

definition sees_secondary_fault :: "DischargeInputs \<Rightarrow> bool \<Rightarrow> bool \<Rightarrow> DualBatteryController \<Rightarrow> bool" where
  "sees_secondary_fault i primary_ok secondary_ok c \<longleftrightarrow>
     has_fault (secondary i)
   \<or> secondary_healthy_seen c \<and> \<not> secondary_ok
   \<or> waiting_for_d9 (dc_phase c) \<and> \<not> join_interlocks (settings c) i
   \<or> waiting_before_command (dc_phase c) \<and> relay_closed i = Some True
     \<and> feedback_fresh (settings c) (relay_feedback_s i) (in_now_s i)
   \<or> joining_phase (dc_phase c) \<and> primary_ok \<and> secondary_ok
     \<and> (f64_less (max_voltage_delta_v (settings c)) (voltage_delta i)
        \<or> f64_less (max_abs_current_a (settings c)) (f64_abs (the (current_a (sample (primary i)))))
        \<or> f64_less (max_abs_current_a (settings c)) (f64_abs (the (current_a (sample (secondary i)))))
        \<or> \<not> loads_stopped i
        \<or> \<not> feedback_fresh (settings c) (loads_stopped_s i) (in_now_s i))
   \<or> (joining_phase (dc_phase c) \<or> connected_phase (dc_phase c)) \<and> \<not> control_authorized i
   \<or> connected_phase (dc_phase c)
     \<and> (relay_closed i \<noteq> Some True
        \<or> \<not> feedback_fresh (settings c) (relay_feedback_s i) (in_now_s i)
        \<or> discharge_mos_raw (secondary i) \<noteq> Some (mos_on_raw (settings c)))
   \<or> connected_phase (dc_phase c) \<and> primary_ok \<and> secondary_ok
     \<and> f64_less (trip_voltage_delta_v (settings c)) (voltage_delta i)"

text \<open>\<open>answered_after stamp command\<close>: the readback is later than the command.\<close>

definition answered_after :: "f64 option \<Rightarrow> f64 option \<Rightarrow> bool" where
  "answered_after stamp command = (case (stamp, command) of
     (Some t, Some c) \<Rightarrow> f64_less c t | _ \<Rightarrow> False)"

definition command_timed_out :: "f64 \<Rightarrow> DualBatteryController \<Rightarrow> bool" where
  "command_timed_out now_s c = (case command_s c of None \<Rightarrow> False
     | Some t \<Rightarrow> f64_less (command_timeout_s (settings c)) (f64_sub now_s t))"

definition command_pending :: "f64 \<Rightarrow> DualBatteryController \<Rightarrow> bool" where
  "command_pending now_s c = (case command_s c of None \<Rightarrow> False
     | Some t \<Rightarrow> f64_le (f64_sub now_s t) (command_timeout_s (settings c)))"

definition stop_timed_out :: "DualBatteryController \<Rightarrow> DischargeAction \<times> DualBatteryController" where
  "stop_timed_out c = (kStopLoads, dc_latch_fault False True c)"

definition await_join ::
  "DischargeInputs \<Rightarrow> DualBatteryController \<Rightarrow> DischargeAction \<times> DualBatteryController" where
  "await_join i c =
    (if \<not> join_conditions (settings c) i then (Action_kNone, c\<lparr>stable_since_s := None\<rparr>)
     else case stable_since_s c of
       None \<Rightarrow> (Action_kNone, c\<lparr>stable_since_s := Some (in_now_s i)\<rparr>)
     | Some t \<Rightarrow>
         if f64_less (f64_sub (in_now_s i) t) (stable_s (settings c)) then (Action_kNone, c)
         else let c1 = c\<lparr>command_s := Some (in_now_s i)\<rparr> in
           if discharge_mos_raw (secondary i) = Some (mos_off_raw (settings c))
           then (kEnableSecondary, c1\<lparr>dc_phase := kWaitingForAck\<rparr>)
           else (kCloseRelay, c1\<lparr>dc_phase := kWaitingForRelayClosed\<rparr>))"

definition isolate_primary ::
  "DischargeInputs \<Rightarrow> DualBatteryController \<Rightarrow> DischargeAction \<times> DualBatteryController" where
  "isolate_primary i c =
    (if primary_fault c \<and> \<not> primary_isolation_attempted c
     then (kDisablePrimary, c\<lparr>dc_phase := kStoppingPrimary, primary_isolation_attempted := True,
                              command_s := Some (in_now_s i)\<rparr>)
     else (Action_kNone, c\<lparr>dc_phase := kFaultLatched\<rparr>))"

fun phase_step ::
  "DischargePhase \<Rightarrow> bool \<Rightarrow> bool \<Rightarrow> DischargeInputs \<Rightarrow> DualBatteryController \<Rightarrow>
     DischargeAction \<times> DualBatteryController" where
  "phase_step kWaitingForRelayOpen primary_ok secondary_ok i c =
    (if relay_closed i = Some False \<and> feedback_fresh (settings c) (relay_feedback_s i) (in_now_s i)
     then (Action_kNone, c\<lparr>dc_phase := kWaitingForPrimary\<rparr>)
     else if relay_closed i = Some True
             \<and> feedback_fresh (settings c) (relay_feedback_s i) (in_now_s i)
     then (kStopLoads, dc_latch_fault False True c)
     else (kStopLoads, c))"
| "phase_step kWaitingForPrimary primary_ok secondary_ok i c =
    (if primary_ok \<and> discharge_mos_raw (primary i) = Some (mos_on_raw (settings c))
     then (Action_kNone, c\<lparr>dc_phase := kWaitingForSecondary\<rparr>) else (Action_kNone, c))"
| "phase_step kWaitingForSecondary primary_ok secondary_ok i c =
    (if secondary_ok \<and> join_interlocks (settings c) i
     then (Action_kNone, c\<lparr>dc_phase := kWaitingForJoinConditions\<rparr>) else (Action_kNone, c))"
| "phase_step kWaitingForJoinConditions primary_ok secondary_ok i c = await_join i c"
| "phase_step kWaitingForAck primary_ok secondary_ok i c =
    (if answered_after (discharge_ack_s (secondary i)) (command_s c)
        \<and> discharge_ack_value (secondary i) = Some 1
     then (Action_kNone, c\<lparr>dc_phase := kWaitingForMos\<rparr>)
     else if command_timed_out (in_now_s i) c then stop_timed_out c
     else (Action_kNone, c))"
| "phase_step kWaitingForMos primary_ok secondary_ok i c =
    (if answered_after (mos_frame_s (secondary i)) (command_s c)
        \<and> discharge_mos_raw (secondary i) = Some (mos_on_raw (settings c))
     then (kCloseRelay, c\<lparr>command_s := Some (in_now_s i), dc_phase := kWaitingForRelayClosed\<rparr>)
     else if command_timed_out (in_now_s i) c then stop_timed_out c
     else (Action_kNone, c))"
| "phase_step kWaitingForRelayClosed primary_ok secondary_ok i c =
    (if relay_closed i = Some True \<and> feedback_fresh (settings c) (relay_feedback_s i) (in_now_s i)
        \<and> answered_after (relay_feedback_s i) (command_s c)
     then (Action_kNone, c\<lparr>observation_s := Some (in_now_s i), dc_phase := kObservingSecondary\<rparr>)
     else if command_timed_out (in_now_s i) c then stop_timed_out c
     else (Action_kNone, c))"
| "phase_step kObservingSecondary primary_ok secondary_ok i c =
    (case observation_s c of None \<Rightarrow> (Action_kNone, c)
     | Some t \<Rightarrow> if f64_le (set_observation_s (settings c)) (f64_sub (in_now_s i) t)
                 then (Action_kNone, c\<lparr>dc_phase := kRunning\<rparr>) else (Action_kNone, c))"
| "phase_step kRunning primary_ok secondary_ok i c = (Action_kNone, c)"
| "phase_step kStoppingLoads primary_ok secondary_ok i c =
    (if \<not> loads_safe_to_switch (settings c) i then (kStopLoads, c)
     else if secondary_fault c \<and> \<not> secondary_isolation_attempted c
     then (kDisableSecondary, c\<lparr>dc_phase := kStoppingSecondary,
             secondary_isolation_attempted := True, command_s := Some (in_now_s i)\<rparr>)
     else isolate_primary i c)"
| "phase_step kStoppingSecondary primary_ok secondary_ok i c =
    (if \<not> loads_safe_to_switch (settings c) i then (kStopLoads, c)
     else if (\<not> answered_after (mos_frame_s (secondary i)) (command_s c)
              \<or> discharge_mos_raw (secondary i) \<noteq> Some (mos_off_raw (settings c)))
             \<and> command_pending (in_now_s i) c
     then (kDisableSecondary, c)
     else (kOpenRelay, c\<lparr>dc_phase := kOpeningRelay, command_s := Some (in_now_s i)\<rparr>))"
| "phase_step kOpeningRelay primary_ok secondary_ok i c =
    (if relay_closed i = Some False \<and> feedback_fresh (settings c) (relay_feedback_s i) (in_now_s i)
     then isolate_primary i c
     else if command_timed_out (in_now_s i) c then isolate_primary i c
     else (kOpenRelay, c))"
| "phase_step kStoppingPrimary primary_ok secondary_ok i c =
    (if (\<not> answered_after (mos_frame_s (primary i)) (command_s c)
         \<or> discharge_mos_raw (primary i) \<noteq> Some (mos_off_raw (settings c)))
        \<and> command_pending (in_now_s i) c
     then (if \<not> loads_safe_to_switch (settings c) i then (kStopLoads, c) else (kDisablePrimary, c))
     else (Action_kNone, c\<lparr>dc_phase := kFaultLatched\<rparr>))"
| "phase_step kAwaitingIsolationPolicy primary_ok secondary_ok i c = (kStopLoads, c)"
| "phase_step kFaultLatched primary_ok secondary_ok i c =
    (if primary_fault c \<and> \<not> primary_isolation_attempted c
        \<or> secondary_fault c \<and> \<not> secondary_isolation_attempted c
     then (kStopLoads, c\<lparr>dc_phase := kStoppingLoads\<rparr>)
     else (if secondary_fault c then kOpenRelay else Action_kNone, c))"

definition reset_stable :: "DischargeInputs \<Rightarrow> DualBatteryController \<Rightarrow> DualBatteryController" where
  "reset_stable i c =
    (if waiting_before_command (dc_phase c) \<and> \<not> join_interlocks (settings c) i
     then c\<lparr>stable_since_s := None\<rparr> else c)"

definition supply_lost :: "DischargeInputs \<Rightarrow> DualBatteryController \<Rightarrow> bool" where
  "supply_lost i c \<longleftrightarrow>
     expects_primary_supply (dc_phase c)
     \<and> feedback_fresh (settings c) (mos_frame_s (primary i)) (in_now_s i)
     \<and> discharge_mos_raw (primary i) \<noteq> Some (mos_on_raw (settings c))"

definition dc_update ::
  "DischargeInputs \<Rightarrow> DualBatteryController \<Rightarrow> DischargeAction \<times> DualBatteryController" where
  "dc_update i c =
    (if \<not> isfinite (in_now_s i) then (kStopLoads, dc_latch_fault True True c)
     else if dc_phase c = kAwaitingIsolationPolicy then (kStopLoads, c)
     else let c1 = reset_stable i c in
       if supply_lost i c1
       then (kStopLoads, c1\<lparr>primary_fault := True, dc_phase := kAwaitingIsolationPolicy\<rparr>)
       else let primary_ok = healthy (settings c1) (primary i) (in_now_s i) True;
                secondary_ok = healthy (settings c1) (secondary i) (in_now_s i) True;
                c2 = c1\<lparr>primary_healthy_seen := primary_healthy_seen c1 \<or> primary_ok,
                        secondary_healthy_seen := secondary_healthy_seen c1 \<or> secondary_ok\<rparr>;
                pf = sees_primary_fault i c2;
                sf = sees_secondary_fault i primary_ok secondary_ok c2;
                c3 = (if pf \<or> sf then dc_latch_fault pf sf c2 else c2)
            in phase_step (dc_phase c3) primary_ok secondary_ok i c3)"

end
