(* ===== verification/FloatOps.thy ===== *)
theory FloatOps
  imports Float32
begin

text \<open>
  The operations of the C++ library on doubles beyond plain arithmetic: minimum, maximum, clamp,
  ceiling, fused multiply-add, square root and copysign, each with its correct rounding; and the
  extended precision of \<open>long double\<close> on the target (64 significant bits). As zero has one sign
  here, \<open>copysign\<close> takes it as positive.
\<close>

subsection \<open>Comparison based\<close>

definition std_min :: "f64 \<Rightarrow> f64 \<Rightarrow> f64" where
  "std_min a b = (if f64_less b a then b else a)"

definition std_max :: "f64 \<Rightarrow> f64 \<Rightarrow> f64" where
  "std_max a b = (if f64_less a b then b else a)"

definition std_clamp :: "f64 \<Rightarrow> f64 \<Rightarrow> f64 \<Rightarrow> f64" where
  "std_clamp v lo hi = (if f64_less v lo then lo else if f64_less hi v then hi else v)"

lemma f64_le_refl: "v \<noteq> NaN \<Longrightarrow> f64_le v v"
  by (cases v) (simp_all add: f64_le_def)

lemma f64_le_trans: "f64_le a b \<Longrightarrow> f64_le b c \<Longrightarrow> f64_le a c"
  by (cases a; cases b; cases c) (auto simp: f64_le_def)

lemma f64_le_not_NaN: "f64_le a b \<Longrightarrow> a \<noteq> NaN \<and> b \<noteq> NaN"
  by (cases a; cases b) auto

lemma f64_not_less: "a \<noteq> NaN \<Longrightarrow> b \<noteq> NaN \<Longrightarrow> \<not> f64_less a b \<longleftrightarrow> f64_le b a"
  by (cases a; cases b) (auto simp: f64_le_def)

lemma std_max_ge:
  "a \<noteq> NaN \<Longrightarrow> f64_le a (std_max a b)" "a \<noteq> NaN \<Longrightarrow> b \<noteq> NaN \<Longrightarrow> f64_le b (std_max a b)"
  by (cases a; cases b; auto simp: std_max_def f64_le_def)+

lemma std_min_le:
  "a \<noteq> NaN \<Longrightarrow> f64_le (std_min a b) a" "a \<noteq> NaN \<Longrightarrow> b \<noteq> NaN \<Longrightarrow> f64_le (std_min a b) b"
  by (cases a; cases b; auto simp: std_min_def f64_le_def)+

lemma isfinite_not_NaN: "isfinite v \<Longrightarrow> v \<noteq> NaN"
  by auto

lemma std_max_finite: "isfinite a \<Longrightarrow> isfinite b \<Longrightarrow> isfinite (std_max a b)"
  by (simp add: std_max_def)

lemma std_min_finite: "isfinite a \<Longrightarrow> isfinite b \<Longrightarrow> isfinite (std_min a b)"
  by (simp add: std_min_def)

subsection \<open>Ceiling, fused multiply-add, copysign\<close>

fun f64_ceil :: "f64 \<Rightarrow> f64" where
  "f64_ceil (Fin a) = Fin (of_int \<lceil>a\<rceil>)"
| "f64_ceil v = v"

fun f64_fma :: "f64 \<Rightarrow> f64 \<Rightarrow> f64 \<Rightarrow> f64" where
  "f64_fma (Fin a) (Fin b) (Fin c) = f64_round (a * b + c)"
| "f64_fma (Fin a) (Fin b) c = c"
| "f64_fma a b c = f64_add (f64_mul a b) c"

definition f64_copysign :: "f64 \<Rightarrow> f64 \<Rightarrow> f64" where
  "f64_copysign v s = (if f64_less s (Fin 0) then f64_neg (f64_abs v) else f64_abs v)"

subsection \<open>Square root\<close>

text \<open>The integer square root, bit by bit from the bit \<open>k\<close> down.\<close>

fun isqrt_bits :: "nat \<Rightarrow> nat \<Rightarrow> nat \<Rightarrow> nat" where
  "isqrt_bits 0 n r = (if (r + 1) * (r + 1) \<le> n then r + 1 else r)"
| "isqrt_bits (Suc k) n r =
     (let t = r + 2 ^ Suc k in isqrt_bits k n (if t * t \<le> n then t else r))"

lemma isqrt_bits_correct:
  assumes "r * r \<le> n" "n < (r + 2 ^ Suc k) * (r + 2 ^ Suc k)"
  shows "isqrt_bits k n r * isqrt_bits k n r \<le> n
    \<and> n < (isqrt_bits k n r + 1) * (isqrt_bits k n r + 1)"
  using assms
proof (induction k arbitrary: r)
  case 0
  then show ?case by (auto simp: algebra_simps)
next
  case (Suc k)
  let ?t = "r + 2 ^ Suc k"
  show ?case
  proof (cases "?t * ?t \<le> n")
    case True
    have "?t + 2 ^ Suc k = r + 2 ^ Suc (Suc k)" by simp
    with Suc.IH [of ?t] Suc.prems(2) True show ?thesis by (simp add: Let_def del: power_Suc)
  next
    case False
    with Suc.IH [of r] Suc.prems(1) show ?thesis by (simp add: Let_def del: power_Suc)
  qed
qed

text \<open>
  The square root to nearest: scaled so that the integer part of the radicand has 105 or 106
  bits, its root has 53.
\<close>

definition sqrt_scaled :: "rat \<Rightarrow> nat" where
  "sqrt_scaled x = (let m = isqrt_bits 53 (nat \<lfloor>x\<rfloor>) 0; h = of_nat m + 1 / 2
     in if h * h < x \<or> h * h = x \<and> odd m then m + 1 else m)"

fun f64_sqrt :: "f64 \<Rightarrow> f64" where
  "f64_sqrt (Fin a) =
     (if a < 0 then NaN else if a = 0 then Fin 0
      else let e = ilog2 a div 2 - 52
           in Fin (of_nat (sqrt_scaled (a / (2 powi e * 2 powi e))) * 2 powi e))"
| "f64_sqrt PInf = PInf"
| "f64_sqrt NInf = NaN"
| "f64_sqrt NaN = NaN"

text \<open>The scaled root is within one half of the exact one.\<close>

lemma sqrt_scaled_nearest:
  assumes "0 \<le> x" "x < 2 ^ 108"
  shows "of_nat (sqrt_scaled x) = 0 \<or>
      (of_nat (sqrt_scaled x) - 1 / 2) * (of_nat (sqrt_scaled x) - 1 / 2) \<le> x"
    "x \<le> (of_nat (sqrt_scaled x) + 1 / 2) * (of_nat (sqrt_scaled x) + 1 / 2)"
proof -
  define n where "n = nat \<lfloor>x\<rfloor>"
  define m where "m = isqrt_bits 53 n 0"
  have fx: "of_nat n \<le> x" "x < of_nat n + 1" using assms(1) floor_correct [of x] by (simp_all add: n_def)
  have "(of_nat n :: rat) < 2 ^ 108" using fx(1) assms(2) by linarith
  then have "n < 2 ^ 108" by (metis of_nat_less_iff of_nat_numeral of_nat_power)
  then have "n < (0 + 2 ^ Suc 53) * (0 + 2 ^ Suc 53)" by simp
  then have "m * m \<le> n \<and> n < (m + 1) * (m + 1)"
    using isqrt_bits_correct [of 0 n 53] by (simp add: m_def)
  then have "m * m \<le> n" "n + 1 \<le> (m + 1) * (m + 1)" by simp_all
  then have "(of_nat (m * m) :: rat) \<le> of_nat n" "(of_nat (n + 1) :: rat) \<le> of_nat ((m + 1) * (m + 1))"
    by (simp_all only: of_nat_le_iff)
  then have m: "(of_nat m * of_nat m :: rat) \<le> x" "x < (of_nat m + 1) * (of_nat m + 1)"
    using fx by (simp_all add: algebra_simps)
  have h: "(of_nat m - 1 / 2) * (of_nat m - 1 / 2) \<le> (of_nat m * of_nat m :: rat) \<or> m = 0"
    by (cases m) (simp_all add: algebra_simps)
  show "of_nat (sqrt_scaled x) = 0 \<or>
      (of_nat (sqrt_scaled x) - 1 / 2) * (of_nat (sqrt_scaled x) - 1 / 2) \<le> x"
    using m h by (auto simp: sqrt_scaled_def Let_def algebra_simps simp flip: n_def m_def)
  show "x \<le> (of_nat (sqrt_scaled x) + 1 / 2) * (of_nat (sqrt_scaled x) + 1 / 2)"
    using m by (auto simp: sqrt_scaled_def Let_def algebra_simps simp flip: n_def m_def)
qed

subsection \<open>Extended precision\<close>

text \<open>
  \<open>long double\<close> results: rounded to 64 significant bits. Its exponent range is never left by the
  values the code computes from doubles with one multiplication or division.
\<close>

definition f80_round :: "rat \<Rightarrow> rat" where
  "f80_round q =
     (if q = 0 then 0
      else let e = ilog2 \<bar>q\<bar> - 63 in of_int (round_half_even (q / 2 powi e)) * 2 powi e)"

text \<open>An integer of at most 64 bits is its own rounding.\<close>

lemma f80_round_of_int:
  assumes "\<bar>n\<bar> < 2 ^ 64"
  shows "f80_round (of_int n) = of_int n"
proof (cases "n = 0")
  case True
  then show ?thesis by (simp add: f80_round_def)
next
  case False
  define e where "e = ilog2 \<bar>of_int n :: rat\<bar> - 63"
  have "(of_int \<bar>n\<bar> :: rat) < of_int (2 ^ 64)" using assms by (simp only: of_int_less_iff)
  then have "\<bar>of_int n :: rat\<bar> < 2 powi 64" by simp
  then have "e \<le> 0" using False ilog2_upper [of "\<bar>of_int n\<bar>" 64] by (simp add: e_def)
  then obtain k where e: "e = - int k" by (metis add.inverse_inverse neg_0_le_iff_le nonneg_int_cases)
  have "(of_int n :: rat) / 2 powi e = of_int (n * 2 ^ k)"
    by (simp add: e power_int_minus divide_inverse)
  then have "round_half_even (of_int n / 2 powi e) = n * 2 ^ k"
    by (simp only: round_half_even_of_int)
  moreover have "(of_int (n * 2 ^ k) :: rat) * 2 powi e = of_int n"
    by (simp add: e power_int_minus)
  ultimately show ?thesis using False by (simp add: f80_round_def Let_def flip: e_def)
qed

lemma f80_round_code [code]:
  "f80_round q = (if snd (quotient_of q) = 1 \<and> \<bar>fst (quotient_of q)\<bar> < 18446744073709551616 then q
     else let e = ilog2 \<bar>q\<bar> - 63 in of_int (round_half_even (q / 2 powi e)) * 2 powi e)"
proof (cases "snd (quotient_of q) = 1 \<and> \<bar>fst (quotient_of q)\<bar> < 18446744073709551616")
  case True
  then obtain n where n: "quotient_of q = (n, 1)" "\<bar>n\<bar> < 2 ^ 64" by (cases "quotient_of q") auto
  have "q = of_int n" using quotient_of_div [OF n(1)] by simp
  then show ?thesis using f80_round_of_int [OF n(2)] True by simp
next
  case False
  have "q \<noteq> 0" using False by (auto simp: rat_zero_code)
  then show ?thesis unfolding f80_round_def if_not_P [OF False] by simp
qed

subsection \<open>Rounding does not pass a power of two\<close>

lemma ilog2_ge:
  assumes "2 powi k \<le> q"
  shows "k \<le> ilog2 q" "2 powi (ilog2 q) \<le> q"
proof -
  have q0: "0 < q" using assms by (rule less_le_trans [rotated]) simp
  show "k \<le> ilog2 q"
  proof (rule ccontr)
    assume "\<not> k \<le> ilog2 q"
    then have "2 powi (ilog2 q + 1) \<le> (2 powi k :: rat)" by (intro power_int_increasing) auto
    with assms ilog2_lt [OF q0] show False by simp
  qed
  show "2 powi (ilog2 q) \<le> q"
  proof (rule ccontr)
    assume "\<not> 2 powi (ilog2 q) \<le> q"
    then have "ilog2 q < ilog2 q" using q0 by (intro ilog2_upper) auto
    then show False by simp
  qed
qed

lemma f64_round_ge_power:
  assumes "representable b" "x \<le> b" "2 powi k \<le> x" "- 1074 \<le> k"
  obtains r where "f64_round x = Fin r" "2 powi k \<le> r" "r \<le> b"
proof -
  have x0: "0 < x" using assms(3) by (rule less_le_trans [rotated]) simp
  obtain r where r: "f64_round x = Fin r" "0 \<le> r" "r \<le> b"
    using f64_round_bounded' [OF assms(1) _ assms(2)] x0 by auto
  define l where "l = ilog2 x"
  define e where "e = max (l - 52) (- 1074)"
  have l: "k \<le> l" "2 powi l \<le> x" using ilog2_ge [OF assms(3)] by (simp_all add: l_def)
  then have "e \<le> l" using assms(4) by (simp add: e_def)
  have "(2 powi l :: rat) = of_int (2 ^ nat (l - e)) * 2 powi e"
  proof -
    have "(2 powi l :: rat) = 2 powi (l - e) * 2 powi e" by (simp flip: power_int_add)
    also have "(2 powi (l - e) :: rat) = 2 ^ nat (l - e)" using \<open>e \<le> l\<close> by (simp add: power_int_def)
    finally show ?thesis by simp
  qed
  then have lg: "of_int (2 ^ nat (l - e)) * 2 powi e \<le> x" "(2 powi l :: rat) = of_int (2 ^ nat (l - e)) * 2 powi e"
    using l(2) by simp_all
  then have "of_int (2 ^ nat (l - e)) \<le> x / 2 powi e"
    by (simp only: pos_le_divide_eq zero_less_power_int zero_less_numeral)
  then have "2 ^ nat (l - e) \<le> round_half_even (x / 2 powi e)" by (rule round_half_even_ge)
  then have "(of_int (2 ^ nat (l - e)) :: rat) * 2 powi e \<le> of_int (round_half_even (x / 2 powi e)) * 2 powi e"
    by (intro mult_right_mono) (simp_all only: of_int_le_iff, simp)
  moreover have "r = of_int (round_half_even (x / 2 powi e)) * 2 powi e"
    using r(1) x0 by (auto simp: f64_round_def Let_def e_def l_def split: if_splits)
  ultimately have "2 powi l \<le> r" using lg(2) by simp
  moreover have "(2 powi k :: rat) \<le> 2 powi l" using l(1) by (intro power_int_increasing) auto
  ultimately show thesis using that r by fastforce
qed

end
