(* ===== verification/BmsNode.thy ===== *)
theory BmsNode
  imports BmsDischarge FloatOps
begin

text \<open>
  \<open>BmsNode\<close> of \<open>periph_bms\<close> (\<open>bms_node.cpp\<close>): the parameters it accepts, the reader thread that owns
  the CAN socket (queries, answers and discharge control), the feedback callbacks and the values it
  publishes for a pack. Parameter values, ROS name resolution, the adapter's serial file and the
  subscriber counts are inputs; topics are written to the list \<open>published\<close>, frames to the kernel of
  the socket. A turn of the reader loop is one step: the callbacks only write the feedback fields,
  which a turn reads once, under their mutex.
\<close>

datatype bms_message = RelayCommand bool | LoadsStopRequest bool

record BmsParameters =
  par_transport :: string
  par_can_interface :: string
  par_serial :: string
  par_protocol :: string
  par_bitrate :: int
  par_automatic :: bool
  par_primary :: int
  par_secondary :: int
  par_host :: int
  par_order :: string
  par_request_period :: f64
  par_receive_timeout :: f64
  par_reconnect_period :: f64
  par_frame_timeout :: f64
  par_publish_period :: f64
  par_topic :: string
  par_secondary_topic :: string
  par_limits :: "u8 \<Rightarrow> u8 \<Rightarrow> DischargeSettings"
  par_mos_on :: int
  par_mos_off :: int
  par_relay_command :: string
  par_relay_feedback :: string
  par_loads_stop :: string
  par_loads_feedback :: string

text \<open>
  \<open>par_limits\<close> holds the eleven limits and times of the discharge control, waiting for the two MOS
  values that are checked before they are stored.
\<close>

record BmsNode =
  can_interface :: string
  expected_adapter_serial :: string
  automatic_discharge_control :: bool
  primary_address :: u8
  secondary_address :: u8
  node_host_address :: u8
  request_period_s :: f64
  receive_timeout_s :: f64
  reconnect_period_s :: f64
  frame_timeout_s :: f64
  request_ids :: "u32 list"
  response_ids :: "u32 list"
  node_controller :: "DualBatteryController option"
  primary_decoder :: GoldenPhoenixPack
  secondary_decoder :: GoldenPhoenixPack
  primary_state :: PackState
  secondary_state :: PackState
  fb_relay_closed :: "bool option"
  fb_relay_feedback_s :: "f64 option"
  fb_loads_stopped :: bool
  fb_loads_feedback_s :: "f64 option"
  request_index :: nat
  next_connect :: int
  next_request :: int
  next_control :: int
  bms_io :: can_io
  serial_line :: "string option"
  subscribed :: bool
  published :: "bms_message list"

definition on_io :: "(can_io \<Rightarrow> 'a \<times> can_io) \<Rightarrow> BmsNode \<Rightarrow> 'a \<times> BmsNode" where
  "on_io f n = (let (r, io) = f (bms_io n) in (r, n\<lparr>bms_io := io\<rparr>))"

subsection \<open>Construction\<close>

definition positive :: "f64 \<Rightarrow> bool" where
  "positive v \<longleftrightarrow> isfinite v \<and> \<not> f64_le v (Fin 0)"

definition address_ok :: "int \<Rightarrow> bool" where
  "address_ok a \<longleftrightarrow> 0 \<le> a \<and> a \<le> 255"

definition alnum :: "char \<Rightarrow> bool" where
  "alnum c \<longleftrightarrow> (let n = of_char c :: nat
     in 48 \<le> n \<and> n \<le> 57 \<or> 65 \<le> n \<and> n \<le> 90 \<or> 97 \<le> n \<and> n \<le> 122)"

definition valid_interface_name :: "string \<Rightarrow> bool" where
  "valid_interface_name name \<longleftrightarrow>
     name \<noteq> [] \<and> length name < 16
     \<and> list_all (\<lambda>ch. alnum ch \<or> ch = CHR ''_'' \<or> ch = CHR ''-'' \<or> ch = CHR ''.'') name
     \<and> name \<noteq> ''.'' \<and> name \<noteq> ''..''"

definition control_topics_ok :: "BmsParameters \<Rightarrow> bool" where
  "control_topics_ok p \<longleftrightarrow>
     par_relay_command p \<noteq> [] \<and> par_relay_feedback p \<noteq> [] \<and> par_loads_stop p \<noteq> []
     \<and> par_loads_feedback p \<noteq> [] \<and> par_relay_command p \<noteq> par_relay_feedback p
     \<and> par_loads_stop p \<noteq> par_loads_feedback p \<and> par_relay_command p \<noteq> par_loads_stop p"

definition mos_values_ok :: "BmsParameters \<Rightarrow> bool" where
  "mos_values_ok p \<longleftrightarrow> \<not> (par_mos_on p < 0 \<or> 255 < par_mos_on p \<or> par_mos_off p < 0
     \<or> 255 < par_mos_off p \<or> par_mos_on p = par_mos_off p)"

text \<open>\<open>make_controller\<close>: None without automatic control, else the controller or the exception.\<close>

definition make_controller :: "BmsParameters \<Rightarrow> exn + DualBatteryController option" where
  "make_controller p =
    (if \<not> par_automatic p then Inr None
     else if \<not> control_topics_ok p \<or> \<not> mos_values_ok p then Inl (invalid_argument ''topics and MOS values'')
     else case new_controller (par_limits p (word_of_int (par_mos_on p)) (word_of_int (par_mos_off p))) of
            Inl e \<Rightarrow> Inl e | Inr c \<Rightarrow> Inr (Some c))"

definition topics_collide :: "(string \<Rightarrow> string) \<Rightarrow> BmsParameters \<Rightarrow> bool" where
  "topics_collide resolve p \<longleftrightarrow> \<not> distinct (map resolve
     [par_relay_command p, par_relay_feedback p, par_loads_stop p, par_loads_feedback p])"

definition node_response_ids :: "u8 \<Rightarrow> u8 \<Rightarrow> u8 \<Rightarrow> u32 list" where
  "node_response_ids primary_addr secondary_addr host =
     map (\<lambda>d. make_can_id d host primary_addr) poll_data_ids
     @ map (\<lambda>d. make_can_id d host secondary_addr) poll_data_ids
     @ [make_can_id kDischargeMosDataId host primary_addr, make_can_id kDischargeMosDataId host secondary_addr]"

definition parameters_rejected :: "BmsParameters \<Rightarrow> bool" where
  "parameters_rejected p \<longleftrightarrow>
     par_transport p \<noteq> ''socketcan'' \<or> par_protocol p \<noteq> ''golden_phoenix_v1_1'' \<or> par_bitrate p \<noteq> 250000
     \<or> \<not> address_ok (par_primary p) \<or> \<not> address_ok (par_secondary p) \<or> \<not> address_ok (par_host p)
     \<or> par_primary p = par_secondary p \<or> par_primary p = par_host p \<or> par_secondary p = par_host p
     \<or> \<not> positive (par_request_period p) \<or> \<not> positive (par_receive_timeout p)
     \<or> \<not> positive (par_reconnect_period p) \<or> \<not> positive (par_frame_timeout p)
     \<or> \<not> positive (par_publish_period p) \<or> \<not> valid_interface_name (par_can_interface p)
     \<or> par_topic p = [] \<or> par_secondary_topic p = [] \<or> par_topic p = par_secondary_topic p"

text \<open>The start of \<open>reader_loop\<close> reads the clock once; the socket is closed.\<close>

definition new_bms_node :: "(string \<Rightarrow> string) \<Rightarrow> BmsParameters \<Rightarrow> can_io \<Rightarrow> exn + BmsNode" where
  "new_bms_node resolve p io =
    (if parameters_rejected p then Inl (invalid_argument ''parameters'')
     else case parse_byte_order (par_order p) of Inl e \<Rightarrow> Inl e | Inr order \<Rightarrow>
          case make_controller p of Inl e \<Rightarrow> Inl e | Inr controller \<Rightarrow>
       if par_automatic p \<and> topics_collide resolve p then Inl (invalid_argument ''topics collide'')
       else let first = word_of_int (par_primary p); second = word_of_int (par_secondary p);
                host = word_of_int (par_host p); (now, io1) = steady_now (socket_close io)
            in Inr \<lparr>can_interface = par_can_interface p, expected_adapter_serial = par_serial p,
                 automatic_discharge_control = par_automatic p, primary_address = first,
                 secondary_address = second, node_host_address = host,
                 request_period_s = par_request_period p, receive_timeout_s = par_receive_timeout p,
                 reconnect_period_s = par_reconnect_period p, frame_timeout_s = par_frame_timeout p,
                 request_ids = make_dual_poll_ids first second host,
                 response_ids = node_response_ids first second host, node_controller = controller,
                 primary_decoder = new_pack order first host, secondary_decoder = new_pack order second host,
                 primary_state = new_pack_state, secondary_state = new_pack_state,
                 fb_relay_closed = None, fb_relay_feedback_s = None, fb_loads_stopped = False,
                 fb_loads_feedback_s = None, request_index = 0, next_connect = now, next_request = now,
                 next_control = now, bms_io = io1, serial_line = None, subscribed = False, published = []\<rparr>)"

subsection \<open>Time\<close>

definition nanos_to_seconds :: "int \<Rightarrow> f64" where
  "nanos_to_seconds ns = f64_div (f64_of_int ns) (Fin 1000000000)"

definition monotonic_seconds :: "BmsNode \<Rightarrow> f64 \<times> BmsNode" where
  "monotonic_seconds n = (let (now, n1) = on_io steady_now n in (nanos_to_seconds now, n1))"

definition seconds_to_duration :: "f64 \<Rightarrow> int" where
  "seconds_to_duration seconds = f64_to_int (f64_mul seconds (Fin 1000000000))"

definition request_spacing :: "BmsNode \<Rightarrow> int" where
  "request_spacing n =
     seconds_to_duration (f64_div (request_period_s n) (f64_of_int (int (length (request_ids n)))))"

subsection \<open>Discharge control\<close>

text \<open>The command frame; its payload has the switch in the first byte.\<close>

definition discharge_frame :: "u8 \<Rightarrow> bool \<Rightarrow> BmsNode \<Rightarrow> can_frame" where
  "discharge_frame address enabled n =
     \<lparr>cf_id = CAN_EFF_FLAG OR make_can_id kDischargeMosDataId address (node_host_address n), cf_dlc = 8,
      cf_data = (replicate 8 0)[0 := (if enabled then 1 else 0)]\<rparr>"

definition send_discharge_command :: "u8 \<Rightarrow> bool \<Rightarrow> BmsNode \<Rightarrow> bool \<times> BmsNode" where
  "send_discharge_command address enabled n =
    (if \<not> socket_is_open (bms_io n) then (False, n)
     else let (result, n1) = on_io (socket_send (discharge_frame address enabled n)) n in (result = 0, n1))"

definition publish_bool :: "bms_message \<Rightarrow> BmsNode \<Rightarrow> BmsNode" where
  "publish_bool m n = n\<lparr>published := published n @ [m]\<rparr>"

definition control_inputs :: "f64 \<Rightarrow> BmsNode \<Rightarrow> DischargeInputs" where
  "control_inputs now_s n =
     \<lparr>primary = primary_state n, secondary = secondary_state n, in_now_s = now_s,
      loads_stopped = fb_loads_stopped n, loads_stopped_s = fb_loads_feedback_s n,
      relay_closed = fb_relay_closed n, relay_feedback_s = fb_relay_feedback_s n,
      control_authorized = subscribed n\<rparr>"

definition hold_relay :: "DischargeAction \<Rightarrow> DualBatteryController \<Rightarrow> bool option \<Rightarrow> bool" where
  "hold_relay action c relay \<longleftrightarrow>
     action \<noteq> kOpenRelay
   \<and> (dc_phase c = kWaitingForRelayClosed
      \<or> relay = Some True
        \<and> (dc_phase c = kObservingSecondary \<or> dc_phase c = kRunning \<or> dc_phase c = kStoppingLoads
           \<or> dc_phase c = kStoppingSecondary \<or> dc_phase c = kStoppingPrimary
           \<or> dc_phase c = kAwaitingIsolationPolicy
           \<or> dc_phase c = kFaultLatched \<and> \<not> secondary_fault c))"

fun carry_out :: "DischargeAction \<Rightarrow> BmsNode \<Rightarrow> BmsNode" where
  "carry_out Action_kNone n = n"
| "carry_out kStopLoads n = publish_bool (LoadsStopRequest True) n"
| "carry_out kEnableSecondary n = snd (send_discharge_command (secondary_address n) True n)"
| "carry_out kDisableSecondary n = snd (send_discharge_command (secondary_address n) False n)"
| "carry_out kDisablePrimary n = snd (send_discharge_command (primary_address n) False n)"
| "carry_out kCloseRelay n = publish_bool (RelayCommand True) n"
| "carry_out kOpenRelay n = publish_bool (RelayCommand False) n"

definition update_discharge_control :: "BmsNode \<Rightarrow> BmsNode" where
  "update_discharge_control n =
    (let (now_s, n1) = monotonic_seconds n;
         (action, c) = dc_update (control_inputs now_s n1) (the (node_controller n1));
         n2 = n1\<lparr>node_controller := Some c\<rparr>;
         n3 = (if hold_relay action c (fb_relay_closed n1) then publish_bool (RelayCommand True) n2 else n2)
     in carry_out action n3)"

subsection \<open>The reader thread\<close>

text \<open>Filters are recorded by their identifiers; the masks are exact.\<close>

definition connect_can :: "BmsNode \<Rightarrow> BmsNode" where
  "connect_can n =
    (if expected_adapter_serial n \<noteq> [] \<and> serial_line n \<noteq> Some (expected_adapter_serial n) then n
     else snd (on_io (socket_open (can_interface n)
                 (map (\<lambda>r. fst (make_response_filter r)) (response_ids n))) n))"

definition disconnect :: "BmsNode \<Rightarrow> BmsNode" where
  "disconnect n =
    (let n1 = n\<lparr>bms_io := socket_close (bms_io n)\<rparr>; (now, n2) = on_io steady_now n1
     in n2\<lparr>next_connect := now + seconds_to_duration (reconnect_period_s n2)\<rparr>)"

fun decode_response :: "u32 list \<Rightarrow> can_frame \<Rightarrow> u8 list option" where
  "decode_response [] frame = None"
| "decode_response (r # rs) frame =
    (case decode_response_frame frame r of None \<Rightarrow> decode_response rs frame | Some data \<Rightarrow> Some data)"

definition ingest_both :: "can_frame \<Rightarrow> u8 list \<Rightarrow> BmsNode \<Rightarrow> BmsNode" where
  "ingest_both frame data n =
    (let can_id = cf_id frame AND CAN_EFF_MASK; (stamp, n1) = monotonic_seconds n;
         (_, p1, s1) = pack_ingest can_id (Some data) stamp (primary_decoder n1) (primary_state n1);
         (_, p2, s2) = pack_ingest can_id (Some data) stamp (secondary_decoder n1) (secondary_state n1)
     in n1\<lparr>primary_decoder := p1, primary_state := s1, secondary_decoder := p2, secondary_state := s2\<rparr>)"

text \<open>The wait in milliseconds until the next deadline, at least one and at most the receive timeout.\<close>

definition wait_ms :: "int \<Rightarrow> BmsNode \<Rightarrow> int" where
  "wait_ms remaining_ns n =
    (let wait_s = std_max (f64_round (1 / 1000)) (std_min (receive_timeout_s n) (nanos_to_seconds remaining_ns))
     in f64_to_int (f64_ceil (f64_mul wait_s (Fin 1000))))"

definition receive_answer :: "BmsNode \<Rightarrow> BmsNode" where
  "receive_answer n =
    (let deadline = (if automatic_discharge_control n then min (next_request n) (next_control n)
                     else next_request n);
         (now, n1) = on_io steady_now n;
         (readable, n2) = on_io (socket_wait_readable (wait_ms (deadline - now) n1)) n1
     in if readable = 0 \<or> readable = - EINTR then n2
        else if readable < 0 then disconnect n2
        else let ((result, received), n3) = on_io socket_receive n2
             in case received of
                  Some frame \<Rightarrow>
                    (if result \<noteq> 1 then disconnect n3
                     else case decode_response (response_ids n3) frame of
                            None \<Rightarrow> n3 | Some data \<Rightarrow> ingest_both frame data n3)
                | None \<Rightarrow> disconnect n3)"

definition query_due :: "int \<Rightarrow> BmsNode \<Rightarrow> BmsNode" where
  "query_due now n =
    (if next_request n \<le> now
     then let (result, n1) = on_io (socket_send (make_query_frame (request_ids n ! request_index n))) n
          in if result \<noteq> 0 then disconnect n1
             else receive_answer (n1\<lparr>request_index := (request_index n1 + 1) mod length (request_ids n1),
                                     next_request := now + request_spacing n1\<rparr>)
     else receive_answer n)"

definition control_due :: "int \<Rightarrow> BmsNode \<Rightarrow> BmsNode" where
  "control_due now n =
    (if automatic_discharge_control n \<and> next_control n \<le> now
     then (update_discharge_control n)\<lparr>next_control := now + seconds_to_duration (request_period_s n)\<rparr>
     else n)"

definition connect_due :: "int \<Rightarrow> BmsNode \<Rightarrow> BmsNode" where
  "connect_due now n =
    (if \<not> socket_is_open (bms_io n) \<and> next_connect n \<le> now
     then (connect_can n)\<lparr>next_connect := now + seconds_to_duration (reconnect_period_s n),
                         request_index := 0, next_request := now\<rparr>
     else n)"

text \<open>One turn of \<open>reader_loop\<close>. The wait for a deadline without a socket changes nothing.\<close>

definition reader_turn :: "BmsNode \<Rightarrow> BmsNode" where
  "reader_turn n =
    (let (now, n1) = on_io steady_now n; n2 = connect_due now (control_due now n1)
     in if \<not> socket_is_open (bms_io n2) then n2 else query_due now n2)"

subsection \<open>Callbacks and the environment\<close>

definition relay_feedback :: "bool \<Rightarrow> BmsNode \<Rightarrow> BmsNode" where
  "relay_feedback contact n =
    (let (t, n1) = monotonic_seconds n in n1\<lparr>fb_relay_closed := Some contact, fb_relay_feedback_s := Some t\<rparr>)"

definition loads_feedback :: "bool \<Rightarrow> BmsNode \<Rightarrow> BmsNode" where
  "loads_feedback stopped n =
    (let (t, n1) = monotonic_seconds n in n1\<lparr>fb_loads_stopped := stopped, fb_loads_feedback_s := Some t\<rparr>)"

text \<open>What the world does between the steps: it changes the kernel's scripts, but not the frames sent.\<close>

definition world :: "can_io \<Rightarrow> bool \<Rightarrow> string option \<Rightarrow> BmsNode \<Rightarrow> BmsNode" where
  "world io subs line n =
     n\<lparr>bms_io := io\<lparr>k_wire := k_wire (bms_io n), descriptor := descriptor (bms_io n)\<rparr>,
       subscribed := subs, serial_line := line\<rparr>"

datatype bms_event = ReaderTurn | RelayFeedback bool | LoadsFeedback bool
  | World can_io bool "string option"

fun bms_step :: "bms_event \<Rightarrow> BmsNode \<Rightarrow> BmsNode" where
  "bms_step ReaderTurn n = reader_turn n"
| "bms_step (RelayFeedback b) n = relay_feedback b n"
| "bms_step (LoadsFeedback b) n = loads_feedback b n"
| "bms_step (World io subs line) n = world io subs line n"

subsection \<open>What is published for a pack\<close>

datatype supply_status = SupplyUnknown | SupplyCharging | SupplyDischarging
datatype supply_health = HealthUnknown | HealthUnspecFailure

record BatteryState =
  bs_present :: bool
  bs_voltage :: f64
  bs_current :: f64
  bs_percentage :: f64
  bs_status :: supply_status
  bs_health :: supply_health

text \<open>The message before its values are narrowed to \<open>float\<close>; constant and label fields are left out.\<close>

definition publish_pack :: "PackState \<Rightarrow> f64 \<Rightarrow> f64 \<Rightarrow> BatteryState" where
  "publish_pack pack timestamp timeout =
    (let fresh = status_fresh pack timestamp timeout;
         fault_fresh = (case fault_frame_s pack of None \<Rightarrow> False
            | Some t \<Rightarrow> f64_le t timestamp \<and> f64_le (f64_sub timestamp t) timeout);
         values = project_battery_values (sample pack) timestamp timeout;
         present = (fresh \<and> isfinite (bv_voltage_v values) \<and> isfinite (bv_soc_fraction values)
                    \<and> \<not> has_fault pack)
     in \<lparr>bs_present = present,
         bs_voltage = (if present then bv_voltage_v values else NaN),
         bs_current = (if present then case current_a (sample pack) of Some c \<Rightarrow> c | None \<Rightarrow> NaN else NaN),
         bs_percentage = (if present then bv_soc_fraction values else NaN),
         bs_status = (if present \<and> operating_state_raw pack = Some 1 then SupplyCharging
                      else if present \<and> operating_state_raw pack = Some 2 then SupplyDischarging
                      else SupplyUnknown),
         bs_health = (if fault_fresh \<and> has_fault pack then HealthUnspecFailure else HealthUnknown)\<rparr>)"

end
