(* ===== verification/BmsFacts.thy ===== *)
theory BmsFacts
  imports BmsDischarge
begin

text \<open>
  The library behind the claims on \<open>DualBatteryController\<close>: runs of the controller, its
  invariant, and the shape of one update by phase.
\<close>

definition dc_run :: "DischargeInputs list \<Rightarrow> DualBatteryController \<Rightarrow> DualBatteryController" where
  "dc_run is c = fold (\<lambda>i c. snd (dc_update i c)) is c"

lemma dc_run_simps [simp]:
  "dc_run [] c = c" "dc_run (i # is) c = dc_run is (snd (dc_update i c))"
  "dc_run (is @ [i]) c = snd (dc_update i (dc_run is c))"
  by (simp_all add: dc_run_def)

lemma dc_run_append: "dc_run (is @ js) c = dc_run js (dc_run is c)"
  by (simp add: dc_run_def)

subsection \<open>Comparisons of doubles\<close>

lemma not_less_le: "isfinite b \<Longrightarrow> v \<noteq> NaN \<Longrightarrow> \<not> f64_less b v \<longleftrightarrow> f64_le v b"
  by (cases b; cases v) (auto simp: f64_le_def)

lemma f64_abs_not_NaN: "v \<noteq> NaN \<Longrightarrow> f64_abs v \<noteq> NaN"
  by (cases v) auto

lemma f64_round_not_NaN: "f64_round q \<noteq> NaN"
  by (simp add: f64_round_def Let_def)

lemma f64_sub_not_NaN: "isfinite a \<Longrightarrow> isfinite b \<Longrightarrow> f64_sub a b \<noteq> NaN"
  by (cases a; cases b) (auto simp: f64_sub_def f64_round_not_NaN)

subsection \<open>Latching\<close>

lemma latch_fields [simp]:
  "settings (dc_latch_fault p s c) = settings c"
  "command_s (dc_latch_fault p s c) = command_s c"
  "observation_s (dc_latch_fault p s c) = observation_s c"
  "stable_since_s (dc_latch_fault p s c) = stable_since_s c"
  "primary_healthy_seen (dc_latch_fault p s c) = primary_healthy_seen c"
  "secondary_healthy_seen (dc_latch_fault p s c) = secondary_healthy_seen c"
  "primary_fault (dc_latch_fault p s c) \<longleftrightarrow> primary_fault c \<or> p"
  "secondary_fault (dc_latch_fault p s c) \<longleftrightarrow> secondary_fault c \<or> s"
  "primary_isolation_attempted (dc_latch_fault p s c) = primary_isolation_attempted c"
  "secondary_isolation_attempted (dc_latch_fault p s c) = secondary_isolation_attempted c"
  by (simp_all add: dc_latch_fault_def Let_def)

lemma latch_phase:
  "dc_phase (dc_latch_fault p s c) = (if stopping_phase (dc_phase c) then dc_phase c else kStoppingLoads)"
  by (simp add: dc_latch_fault_def Let_def)

lemma stopping_simps [simp, phase_simps]:
  "stopping_phase kStoppingLoads" "stopping_phase kStoppingSecondary" "stopping_phase kOpeningRelay"
  "stopping_phase kStoppingPrimary" "stopping_phase kFaultLatched"
  "stopping_phase kAwaitingIsolationPolicy"
  "\<not> stopping_phase kWaitingForRelayOpen" "\<not> stopping_phase kWaitingForPrimary"
  "\<not> stopping_phase kWaitingForSecondary" "\<not> stopping_phase kWaitingForJoinConditions"
  "\<not> stopping_phase kWaitingForAck" "\<not> stopping_phase kWaitingForMos"
  "\<not> stopping_phase kWaitingForRelayClosed" "\<not> stopping_phase kObservingSecondary"
  "\<not> stopping_phase kRunning"
  by (auto simp: stopping_phase_def)

lemma latch_stopping [simp]: "stopping_phase (dc_phase (dc_latch_fault p s c))"
  by (simp add: latch_phase)

lemma reset_stable_fields [simp]:
  "settings (reset_stable i c) = settings c" "dc_phase (reset_stable i c) = dc_phase c"
  "command_s (reset_stable i c) = command_s c" "observation_s (reset_stable i c) = observation_s c"
  "primary_healthy_seen (reset_stable i c) = primary_healthy_seen c"
  "secondary_healthy_seen (reset_stable i c) = secondary_healthy_seen c"
  "primary_fault (reset_stable i c) = primary_fault c"
  "secondary_fault (reset_stable i c) = secondary_fault c"
  "primary_isolation_attempted (reset_stable i c) = primary_isolation_attempted c"
  "secondary_isolation_attempted (reset_stable i c) = secondary_isolation_attempted c"
  by (simp_all add: reset_stable_def)

subsection \<open>One update\<close>

text \<open>The controller the phase is dispatched on, when an update gets that far.\<close>

definition seen :: "DischargeInputs \<Rightarrow> DualBatteryController \<Rightarrow> DualBatteryController" where
  "seen i c = (let c1 = reset_stable i c in
     c1\<lparr>primary_healthy_seen := primary_healthy_seen c1
          \<or> healthy (settings c1) (primary i) (in_now_s i) True,
        secondary_healthy_seen := secondary_healthy_seen c1
          \<or> healthy (settings c1) (secondary i) (in_now_s i) True\<rparr>)"

definition sees_fault :: "DischargeInputs \<Rightarrow> DualBatteryController \<Rightarrow> bool \<times> bool" where
  "sees_fault i c = (sees_primary_fault i (seen i c),
     sees_secondary_fault i (healthy (settings c) (primary i) (in_now_s i) True)
       (healthy (settings c) (secondary i) (in_now_s i) True) (seen i c))"

definition judged :: "DischargeInputs \<Rightarrow> DualBatteryController \<Rightarrow> DualBatteryController" where
  "judged i c = (let (pf, sf) = sees_fault i c
     in if pf \<or> sf then dc_latch_fault pf sf (seen i c) else seen i c)"

lemma seen_fields [simp]:
  "settings (seen i c) = settings c" "dc_phase (seen i c) = dc_phase c"
  "command_s (seen i c) = command_s c" "observation_s (seen i c) = observation_s c"
  "primary_healthy_seen (seen i c) \<longleftrightarrow>
     primary_healthy_seen c \<or> healthy (settings c) (primary i) (in_now_s i) True"
  "secondary_healthy_seen (seen i c) \<longleftrightarrow>
     secondary_healthy_seen c \<or> healthy (settings c) (secondary i) (in_now_s i) True"
  "primary_fault (seen i c) = primary_fault c" "secondary_fault (seen i c) = secondary_fault c"
  "primary_isolation_attempted (seen i c) = primary_isolation_attempted c"
  "secondary_isolation_attempted (seen i c) = secondary_isolation_attempted c"
  "stable_since_s (seen i c) = stable_since_s (reset_stable i c)"
  by (simp_all add: seen_def Let_def)

lemma judged_fields [simp]:
  "settings (judged i c) = settings c"
  "command_s (judged i c) = command_s c" "observation_s (judged i c) = observation_s c"
  "primary_healthy_seen (judged i c) = primary_healthy_seen (seen i c)"
  "secondary_healthy_seen (judged i c) = secondary_healthy_seen (seen i c)"
  "primary_isolation_attempted (judged i c) = primary_isolation_attempted c"
  "secondary_isolation_attempted (judged i c) = secondary_isolation_attempted c"
  "stable_since_s (judged i c) = stable_since_s (reset_stable i c)"
  "primary_fault (judged i c) \<longleftrightarrow> primary_fault c \<or> fst (sees_fault i c)"
  "secondary_fault (judged i c) \<longleftrightarrow> secondary_fault c \<or> snd (sees_fault i c)"
  by (auto simp: judged_def split: prod.split)

lemma judged_phase:
  "dc_phase (judged i c) =
     (if (fst (sees_fault i c) \<or> snd (sees_fault i c)) \<and> \<not> stopping_phase (dc_phase c)
      then kStoppingLoads else dc_phase c)"
  by (auto simp: judged_def latch_phase split: prod.split)

definition phase_update :: "DischargeInputs \<Rightarrow> DualBatteryController \<Rightarrow> DischargeAction \<times> DualBatteryController" where
  "phase_update i c = phase_step (dc_phase (judged i c))
     (healthy (settings c) (primary i) (in_now_s i) True)
     (healthy (settings c) (secondary i) (in_now_s i) True) i (judged i c)"

text \<open>The four ways an update goes.\<close>

lemma dc_update_cases:
  obtains (clock) "\<not> isfinite (in_now_s i)" "dc_update i c = (kStopLoads, dc_latch_fault True True c)"
  | (policy) "isfinite (in_now_s i)" "dc_phase c = kAwaitingIsolationPolicy"
      "dc_update i c = (kStopLoads, c)"
  | (lost) "isfinite (in_now_s i)" "supply_lost i (reset_stable i c)"
      "dc_phase c \<noteq> kAwaitingIsolationPolicy" "expects_primary_supply (dc_phase c)"
      "dc_update i c =
         (kStopLoads, (reset_stable i c)\<lparr>primary_fault := True, dc_phase := kAwaitingIsolationPolicy\<rparr>)"
  | (phase) "isfinite (in_now_s i)" "dc_phase c \<noteq> kAwaitingIsolationPolicy"
      "\<not> supply_lost i (reset_stable i c)" "dc_update i c = phase_update i c"
proof -
  consider "\<not> isfinite (in_now_s i)"
    | "isfinite (in_now_s i)" "dc_phase c = kAwaitingIsolationPolicy"
    | "isfinite (in_now_s i)" "dc_phase c \<noteq> kAwaitingIsolationPolicy" "supply_lost i (reset_stable i c)"
    | "isfinite (in_now_s i)" "dc_phase c \<noteq> kAwaitingIsolationPolicy" "\<not> supply_lost i (reset_stable i c)"
    by blast
  then show thesis
  proof cases
    case 1
    then show thesis by (intro clock) (simp_all add: dc_update_def)
  next
    case 2
    then show thesis by (intro policy) (simp_all add: dc_update_def)
  next
    case 3
    then show thesis by (intro lost) (simp_all add: dc_update_def supply_lost_def)
  next
    case 4
    have "dc_update i c = phase_update i c"
      using 4 by (simp add: dc_update_def phase_update_def judged_def sees_fault_def seen_def Let_def)
    with 4 show thesis by (intro phase)
  qed
qed

text \<open>What the steps of a phase leave alone.\<close>

lemma isolate_primary_fields [simp]:
  "settings (snd (isolate_primary i c)) = settings c"
  "stable_since_s (snd (isolate_primary i c)) = stable_since_s c"
  "primary_healthy_seen (snd (isolate_primary i c)) = primary_healthy_seen c"
  "secondary_healthy_seen (snd (isolate_primary i c)) = secondary_healthy_seen c"
  "primary_fault (snd (isolate_primary i c)) = primary_fault c"
  "secondary_fault (snd (isolate_primary i c)) = secondary_fault c"
  "secondary_isolation_attempted (snd (isolate_primary i c)) = secondary_isolation_attempted c"
  by (simp_all add: isolate_primary_def)

lemma await_join_fields [simp]:
  "settings (snd (await_join i c)) = settings c"
  "primary_healthy_seen (snd (await_join i c)) = primary_healthy_seen c"
  "secondary_healthy_seen (snd (await_join i c)) = secondary_healthy_seen c"
  "primary_fault (snd (await_join i c)) = primary_fault c"
  "secondary_fault (snd (await_join i c)) = secondary_fault c"
  "primary_isolation_attempted (snd (await_join i c)) = primary_isolation_attempted c"
  "secondary_isolation_attempted (snd (await_join i c)) = secondary_isolation_attempted c"
  by (simp_all add: await_join_def Let_def split: option.split)

lemma phase_step_fields [simp]:
  "settings (snd (phase_step p po so i c)) = settings c"
  "primary_healthy_seen (snd (phase_step p po so i c)) = primary_healthy_seen c"
  "secondary_healthy_seen (snd (phase_step p po so i c)) = secondary_healthy_seen c"
  by (cases p; simp add: stop_timed_out_def split: option.split)+

lemma dc_update_settings [simp]: "settings (snd (dc_update i c)) = settings c"
  by (cases rule: dc_update_cases [of i c]) (simp_all add: phase_update_def)

lemma dc_run_settings [simp]: "settings (dc_run is c) = settings c"
  by (induction "is" arbitrary: c) simp_all

subsection \<open>Stopping phases are final\<close>

lemma isolate_primary_stopping:
  "stopping_phase (dc_phase (snd (isolate_primary i c)))"
  "fst (isolate_primary i c) \<in> {kDisablePrimary, Action_kNone}"
  by (simp_all add: isolate_primary_def)

lemma phase_step_stopping:
  assumes "stopping_phase p" "stopping_phase (dc_phase c)"
  shows "stopping_phase (dc_phase (snd (phase_step p po so i c)))
    \<and> fst (phase_step p po so i c) \<notin> {kEnableSecondary, kCloseRelay}"
  using assms isolate_primary_stopping by (cases p) (auto simp: isolate_primary_def)

lemma stopping_update:
  assumes "stopping_phase (dc_phase c)"
  shows "stopping_phase (dc_phase (snd (dc_update i c)))
    \<and> fst (dc_update i c) \<notin> {kEnableSecondary, kCloseRelay}"
proof (cases rule: dc_update_cases [of i c])
  case phase
  have "stopping_phase (dc_phase (judged i c))" using assms by (simp add: judged_phase)
  then show ?thesis
    unfolding phase(4) phase_update_def by (intro phase_step_stopping) simp_all
qed (use assms in \<open>auto simp: expects_primary_supply_def waiting_before_command_def waiting_for_d9_def\<close>)

lemma stopping_run:
  "stopping_phase (dc_phase c) \<Longrightarrow> stopping_phase (dc_phase (dc_run is c))"
  by (induction "is" arbitrary: c) (simp_all add: stopping_update)

text \<open>An update that judges a fault ends in a stopping phase.\<close>

lemma fault_stops:
  assumes "fst (sees_fault i c) \<or> snd (sees_fault i c)"
  shows "stopping_phase (dc_phase (snd (dc_update i c)))"
proof (cases rule: dc_update_cases [of i c])
  case phase
  have "stopping_phase (dc_phase (judged i c))" using assms by (simp add: judged_phase)
  then show ?thesis
    unfolding phase(4) phase_update_def using phase_step_stopping by blast
qed simp_all

subsection \<open>The invariant\<close>

text \<open>
  Past the waits for a pack that pack has been seen healthy; an isolation is attempted only of
  a pack with a latched fault; the relay is opened only after the secondary's isolation; a
  command that is waited for has its time.
\<close>

definition bms_inv :: "DualBatteryController \<Rightarrow> bool" where
  "bms_inv c \<longleftrightarrow>
     (expects_primary_supply (dc_phase c) \<longrightarrow> primary_healthy_seen c)
   \<and> (expects_primary_supply (dc_phase c) \<longrightarrow> dc_phase c = kWaitingForSecondary \<or> secondary_healthy_seen c)
   \<and> (stopping_phase (dc_phase c) \<longrightarrow> primary_fault c \<or> secondary_fault c)
   \<and> (secondary_isolation_attempted c \<longrightarrow> secondary_fault c)
   \<and> (primary_isolation_attempted c \<longrightarrow> primary_fault c)
   \<and> (dc_phase c = kStoppingSecondary \<or> dc_phase c = kOpeningRelay \<longrightarrow> secondary_isolation_attempted c)
   \<and> (dc_phase c = kStoppingPrimary \<longrightarrow> primary_isolation_attempted c)
   \<and> (dc_phase c \<in> {kWaitingForRelayOpen, kWaitingForPrimary, kWaitingForSecondary}
        \<longrightarrow> stable_since_s c = None)
   \<and> (dc_phase c \<in> {kStoppingSecondary, kOpeningRelay, kStoppingPrimary} \<longrightarrow> command_s c \<noteq> None)"

lemmas dc_phase_sets = expects_primary_supply_def waiting_before_command_def waiting_for_d9_def
  joining_phase_def connected_phase_def

lemma new_controller_inv: "new_controller s = Inr c \<Longrightarrow> bms_inv c"
  by (auto simp: new_controller_def bms_inv_def dc_phase_sets split: if_splits)

lemma new_controller_settings: "new_controller s = Inr c \<Longrightarrow> settings c = s \<and> settings_valid s"
  by (auto simp: new_controller_def split: if_splits)

lemma latch_inv: "bms_inv c \<Longrightarrow> p \<or> s \<Longrightarrow> bms_inv (dc_latch_fault p s c)"
  by (cases "dc_phase c") (auto simp: bms_inv_def latch_phase dc_phase_sets)

lemma seen_inv: "bms_inv c \<Longrightarrow> bms_inv (seen i c)"
  by (auto simp: bms_inv_def reset_stable_def)

lemma judged_inv: "bms_inv c \<Longrightarrow> bms_inv (judged i c)"
  by (auto simp: judged_def intro: latch_inv seen_inv split: prod.split)

lemma isolate_primary_inv: "bms_inv c \<Longrightarrow> stopping_phase (dc_phase c) \<Longrightarrow> bms_inv (snd (isolate_primary i c))"
  by (auto simp: isolate_primary_def bms_inv_def dc_phase_sets)

lemma phase_step_inv:
  assumes "bms_inv c"
    and "po \<longrightarrow> primary_healthy_seen c" "so \<longrightarrow> secondary_healthy_seen c"
  shows "bms_inv (snd (phase_step (dc_phase c) po so i c))"
proof (cases "dc_phase c")
  case kStoppingLoads
  with assms show ?thesis
    by (auto intro: isolate_primary_inv) (auto simp: bms_inv_def dc_phase_sets)
next
  case kOpeningRelay
  with assms show ?thesis by (auto intro: isolate_primary_inv)
next
  case kWaitingForJoinConditions
  with assms show ?thesis
    by (auto simp: await_join_def bms_inv_def dc_phase_sets Let_def split: option.split)
qed (use assms in \<open>auto simp: bms_inv_def dc_phase_sets stop_timed_out_def latch_phase split: option.split\<close>)

lemma dc_update_inv:
  assumes "bms_inv c"
  shows "bms_inv (snd (dc_update i c))"
proof (cases rule: dc_update_cases [of i c])
  case clock
  with latch_inv [OF assms] show ?thesis by simp
next
  case lost
  with assms show ?thesis by (auto simp: bms_inv_def reset_stable_def dc_phase_sets)
next
  case phase
  show ?thesis
    unfolding phase(4) phase_update_def
    by (rule phase_step_inv [OF judged_inv [OF assms]]) simp_all
qed (use assms in simp)

lemma dc_run_inv: "bms_inv c \<Longrightarrow> bms_inv (dc_run is c)"
  by (induction "is" arbitrary: c) (simp_all add: dc_update_inv)

end
