(* ===== verification/BmsSample.thy ===== *)
theory BmsSample
  imports BmsFacts
begin

text \<open>
  Concrete packs, settings and inputs, taken from the repository's own tests of the controller,
  on which the claims are instantiated.
\<close>

definition sample_pack :: "f64 \<Rightarrow> u8 \<Rightarrow> PackState" where
  "sample_pack t mos = new_pack_state
     \<lparr>sample := \<lparr>voltage_v = Some (Fin 50), soc_fraction = Some (Fin 1), last_frame_s = Some t,
                current_a = Some (Fin 0)\<rparr>,
      fault_frame_s := Some t, mos_frame_s := Some t, operating_state_raw := Some 0,
      discharge_mos_raw := Some mos, pack_info_s := Some t, charger_connected_raw := Some 0,
      cell_count := Some 3, cell_extremes_s := Some t, max_cell_voltage_v := Some (Fin 3),
      min_cell_voltage_v := Some (Fin 3), temperature_frame_s := Some t,
      max_cell_temperature_c := Some (Fin 25), min_cell_temperature_c := Some (Fin 20),
      cell_voltage_v := replicate 3 (Some (Fin 3)) @ replicate 45 None,
      cell_frame_s := Some t # replicate 15 None\<rparr>"

definition sample_settings :: DischargeSettings where
  "sample_settings = \<lparr>status_timeout_s = Fin 10, command_timeout_s = Fin 1, set_observation_s = Fin 1,
     stable_s = Fin 1, max_voltage_delta_v = Fin 1, trip_voltage_delta_v = Fin 2,
     max_abs_current_a = Fin 5, set_min_cell_voltage_v = Fin 2, set_max_cell_voltage_v = Fin 4,
     set_min_cell_temperature_c = Fin 0, set_max_cell_temperature_c = Fin 45,
     mos_on_raw = 1, mos_off_raw = 0\<rparr>"

definition sample_inputs :: "rat \<Rightarrow> u8 \<Rightarrow> bool \<Rightarrow> DischargeInputs" where
  "sample_inputs t mos relay = \<lparr>primary = sample_pack (Fin t) 1, secondary = sample_pack (Fin t) mos,
     in_now_s = Fin t, loads_stopped = True, loads_stopped_s = Some (Fin t),
     relay_closed = Some relay, relay_feedback_s = Some (Fin t), control_authorized = True\<rparr>"

definition sample_controller :: DualBatteryController where
  "sample_controller = projr (new_controller sample_settings)"

text \<open>Three updates reach the join conditions, a fourth opens the stable window.\<close>

definition sample_waiting :: "DischargeInputs list" where
  "sample_waiting = map (\<lambda>t. sample_inputs t 1 False) [1, 2, 3, 4]"

lemma sample_controller_new: "new_controller sample_settings = Inr sample_controller"
  by code_simp

lemma sample_joins:
  "dc_phase (dc_run sample_waiting sample_controller) = kWaitingForJoinConditions"
  "fst (dc_update (sample_inputs 5 1 False) (dc_run sample_waiting sample_controller)) = kCloseRelay"
  by code_simp+

text \<open>The same packs joined, then a fault bit of the second pack, and its isolation.\<close>

definition sample_faulted :: "rat \<Rightarrow> u8 \<Rightarrow> DischargeInputs" where
  "sample_faulted t mos = (sample_inputs t mos True)
     \<lparr>secondary := (sample_pack (Fin t) mos)\<lparr>fault_bytes := [1, 0, 0, 0, 0, 0, 0, 0]\<rparr>\<rparr>"

lemma sample_has_fault: "has_fault (secondary (sample_faulted 6 1))"
  by code_simp

lemma sample_opens:
  "fst (dc_update (sample_faulted 7 0)
     (dc_run (sample_waiting @ [sample_inputs 5 1 False, sample_faulted 6 1]) sample_controller)) = kOpenRelay"
  by code_simp

end
