(* ===== verification/BmsClaims.thy ===== *)
theory BmsClaims
  imports BmsSample
begin

text \<open>
  What \<open>DualBatteryController\<close> guarantees: when it joins the second pack, that faults are final,
  in which order packs are isolated, and that an isolation comes to an end.
\<close>

subsection \<open>Joining\<close>

text \<open>In the phases that wait for the D9 answer, no judged fault means the packs may be joined.\<close>

lemma no_fault_joinable:
  assumes inv: "bms_inv c" and valid: "settings_valid (settings c)"
    and d9: "waiting_for_d9 (dc_phase c)" and ok: "\<not> fst (sees_fault i c)" "\<not> snd (sees_fault i c)"
    and mos: "discharge_mos_raw (secondary i) = Some (mos_on_raw (settings c))"
  shows "join_conditions (settings c) i"
proof -
  let ?s = "settings c" and ?h = "\<lambda>p. healthy (settings c) p (in_now_s i) True"
  have phases: "joining_phase (dc_phase c)" "\<not> waiting_before_command (dc_phase c)"
      "expects_primary_supply (dc_phase c)" "dc_phase c \<noteq> kWaitingForSecondary"
    using d9 by (auto simp: dc_phase_sets)
  with inv have seen: "primary_healthy_seen c" "secondary_healthy_seen c"
    by (auto simp: bms_inv_def)
  have hp: "?h (primary i)" and hs: "?h (secondary i)"
    using ok seen phases(2) by (auto simp: sees_fault_def sees_primary_fault_def sees_secondary_fault_def)
  have rest: "join_interlocks ?s i" "control_authorized i" "loads_stopped i"
      "feedback_fresh ?s (loads_stopped_s i) (in_now_s i)"
      "\<not> f64_less (max_voltage_delta_v ?s) (voltage_delta i)"
      "\<not> f64_less (max_abs_current_a ?s) (f64_abs (the (current_a (sample (primary i)))))"
      "\<not> f64_less (max_abs_current_a ?s) (f64_abs (the (current_a (sample (secondary i)))))"
    using ok(2) d9 phases(1) hp hs by (auto simp: sees_fault_def sees_secondary_fault_def)
  have fin: "isfinite (the (voltage_v (sample p)))" "isfinite (the (current_a (sample p)))"
    if "?h p" for p
    using that by (auto simp: healthy_def split: if_splits)
  have lim: "isfinite (max_voltage_delta_v ?s)" "isfinite (max_abs_current_a ?s)"
    using valid by (auto simp: settings_valid_def)
  have "voltage_delta i \<noteq> NaN"
    unfolding voltage_delta_def using fin(1) hp hs by (intro f64_abs_not_NaN f64_sub_not_NaN)
  moreover have "f64_abs (the (current_a (sample p))) \<noteq> NaN" if "?h p" for p
    using fin(2) [OF that] by (intro f64_abs_not_NaN) auto
  ultimately show ?thesis
    using rest hp hs mos lim by (simp add: join_conditions_def current_within_def not_less_le)
qed

lemma join_actions:
  assumes "fst (phase_step p po so i c) = a" "a = kEnableSecondary \<or> a = kCloseRelay"
  obtains "p = kWaitingForJoinConditions" "fst (await_join i c) = a"
  | "p = kWaitingForMos" "a = kCloseRelay" "discharge_mos_raw (secondary i) = Some (mos_on_raw (settings c))"
  using assms by (cases p) (auto simp: isolate_primary_def stop_timed_out_def split: if_splits option.splits)

lemma matched_when_joined:
  assumes c0: "new_controller s = Inr c0" and c: "c = dc_run is c0"
    and act: "fst (dc_update i c) = a" "a = kEnableSecondary \<or> a = kCloseRelay"
  shows "join_conditions s i
    \<and> discharge_mos_raw (secondary i) = Some (if a = kCloseRelay then mos_on_raw s else mos_off_raw s)"
proof -
  have s: "settings c = s" and valid: "settings_valid s" and inv: "bms_inv c"
    using new_controller_settings [OF c0] new_controller_inv [OF c0] by (auto simp: c dc_run_inv)
  have upd: "dc_update i c = phase_update i c"
    using act by (cases rule: dc_update_cases [of i c]) auto
  have step: "fst (phase_step (dc_phase (judged i c)) (healthy s (primary i) (in_now_s i) True)
      (healthy s (secondary i) (in_now_s i) True) i (judged i c)) = a"
    using act(1) by (simp add: upd phase_update_def s)
  from step act(2) show ?thesis
  proof (cases rule: join_actions)
    case 1
    then show ?thesis
      using act(2) s by (auto simp: await_join_def join_conditions_def Let_def split: if_splits option.splits)
  next
    case 2
    then have "dc_phase c = kWaitingForMos" "\<not> fst (sees_fault i c)" "\<not> snd (sees_fault i c)"
      by (auto simp: judged_phase split: if_splits)
    then have "join_conditions s i"
      using no_fault_joinable [OF inv, of i] valid 2(3) s by (simp add: dc_phase_sets)
    with 2 s show ?thesis by simp
  qed
qed

text \<open>
  C24: the second battery is switched on, and the relay closed, only between matched packs at rest.
  Whenever the controller returns \<open>kEnableSecondary\<close> or \<open>kCloseRelay\<close>, after any sequence of
  updates since its construction, the inputs of that update satisfy all of \<open>join_conditions\<close>
  (authorised, loads stopped, fresh open-relay feedback, primary on, both packs healthy, voltage
  difference and both currents within their limits), and the second pack's discharge MOS is
  reported off before it is enabled and on when the relay is closed. This covers the path on
  which the relay is closed several updates after the conditions were first examined.
\<close>

theorem packs_are_joined_only_when_matched:
  assumes c0: "new_controller s = Inr c0" and c: "c = dc_run is c0"
    and act: "fst (dc_update i c) = a" "a = kEnableSecondary \<or> a = kCloseRelay"
  shows "join_conditions s i
    \<and> discharge_mos_raw (secondary i) = Some (if a = kCloseRelay then mos_on_raw s else mos_off_raw s)"
  using assms by (rule matched_when_joined)

lemma packs_are_joined_only_when_matched_witness:
  "join_conditions sample_settings (sample_inputs 5 1 False)
   \<and> discharge_mos_raw (secondary (sample_inputs 5 1 False)) = Some (mos_on_raw sample_settings)"
  using packs_are_joined_only_when_matched [OF sample_controller_new refl sample_joins(2)] by simp

lemma await_window:
  assumes "dc_phase (snd (await_join i c)) = kWaitingForJoinConditions" "dc_phase c = kWaitingForJoinConditions"
    "stable_since_s (snd (await_join i c)) = Some t"
  shows "join_conditions (settings c) i \<and> (stable_since_s c = Some t \<or> t = in_now_s i)"
  using assms by (auto simp: await_join_def Let_def split: if_splits option.splits)

lemma enters_join:
  assumes "dc_phase (snd (phase_step p po so i c)) = kWaitingForJoinConditions" "dc_phase c = p"
  shows "p = kWaitingForJoinConditions \<or> p = kWaitingForSecondary"
proof (rule ccontr)
  assume "\<not> ?thesis"
  with assms show False
    by (cases p) (auto simp: isolate_primary_def stop_timed_out_def latch_phase split: if_splits option.splits)
qed

lemma join_window_step:
  assumes inv: "bms_inv c" and after: "dc_phase (snd (dc_update i c)) = kWaitingForJoinConditions"
    and t: "stable_since_s (snd (dc_update i c)) = Some t"
  shows "join_conditions (settings c) i
    \<and> (dc_phase c = kWaitingForJoinConditions \<and> stable_since_s c = Some t \<or> t = in_now_s i)"
proof (cases rule: dc_update_cases [of i c])
  case clock
  then show ?thesis using after by (auto simp: latch_phase split: if_splits)
next
  case phase
  note upd = phase(4) [unfolded phase_update_def]
  have stable: "stable_since_s (judged i c) = Some u \<Longrightarrow> stable_since_s c = Some u" for u
    by (auto simp: reset_stable_def split: if_splits)
  have "dc_phase (judged i c) = kWaitingForJoinConditions \<or> dc_phase (judged i c) = kWaitingForSecondary"
    using after unfolding upd by (rule enters_join) (rule refl)
  then show ?thesis
  proof
    assume J: "dc_phase (judged i c) = kWaitingForJoinConditions"
    then have "dc_phase c = kWaitingForJoinConditions"
      by (auto simp: judged_phase split: if_splits)
    moreover have "join_conditions (settings c) i
        \<and> (stable_since_s (judged i c) = Some t \<or> t = in_now_s i)"
      using await_window [of i "judged i c" t] after t J by (simp add: upd)
    ultimately show ?thesis using stable by blast
  next
    assume S: "dc_phase (judged i c) = kWaitingForSecondary"
    then have "dc_phase c = kWaitingForSecondary"
      by (auto simp: judged_phase split: if_splits)
    with inv have "stable_since_s c = None" by (simp add: bms_inv_def)
    with stable have "stable_since_s (judged i c) = None" by (cases "stable_since_s (judged i c)") auto
    with t S show ?thesis by (simp add: upd split: if_splits)
  qed
qed (use after in auto)

lemma join_window:
  assumes c0: "new_controller s = Inr c0"
    and "dc_phase (dc_run is c0) = kWaitingForJoinConditions" "stable_since_s (dc_run is c0) = Some t"
  shows "\<exists>pre mid. is = pre @ mid \<and> mid \<noteq> [] \<and> in_now_s (hd mid) = t
    \<and> (\<forall>j \<in> set mid. join_conditions s j)"
  using assms(2-3)
proof (induction "is" rule: rev_induct)
  case Nil
  with c0 show ?case by (auto simp: new_controller_def split: if_splits)
next
  case (snoc i "is")
  let ?c = "dc_run is c0"
  have "bms_inv ?c" "settings ?c = s"
    using c0 new_controller_inv new_controller_settings by (auto intro: dc_run_inv)
  with snoc.prems join_window_step [of ?c i t]
  have step: "join_conditions s i"
      "dc_phase ?c = kWaitingForJoinConditions \<and> stable_since_s ?c = Some t \<or> t = in_now_s i"
    by auto
  show ?case
  proof (cases "t = in_now_s i")
    case True
    with step(1) show ?thesis by (intro exI [of _ "is"] exI [of _ "[i]"]) simp
  next
    case False
    with step(2) snoc.IH obtain pre mid where
      "is = pre @ mid" "mid \<noteq> []" "in_now_s (hd mid) = t" "\<forall>j \<in> set mid. join_conditions s j"
      by blast
    with step(1) show ?thesis by (intro exI [of _ pre] exI [of _ "mid @ [i]"]) auto
  qed
qed

text \<open>
  C25: the stable window. The command that starts joining (switching the second pack on, or
  closing the relay when its MOS is on already) is given only after the join conditions held in
  every update of an uninterrupted series that ends with this one, and whose first update was
  at least \<open>stable_s\<close> earlier.
\<close>

theorem joining_waits_for_a_stable_window:
  assumes c0: "new_controller s = Inr c0" and c: "c = dc_run is c0"
    and before: "dc_phase c = kWaitingForJoinConditions"
    and act: "fst (dc_update i c) \<in> {kEnableSecondary, kCloseRelay}"
  shows "\<exists>pre mid. is = pre @ mid \<and> mid \<noteq> [] \<and> (\<forall>j \<in> set (mid @ [i]). join_conditions s j)
    \<and> \<not> f64_less (f64_sub (in_now_s i) (in_now_s (hd mid))) (stable_s s)"
proof -
  have s: "settings c = s" using new_controller_settings [OF c0] by (simp add: c)
  have upd: "dc_update i c = phase_update i c"
    using act by (cases rule: dc_update_cases [of i c]) auto
  with act have "dc_phase (judged i c) = kWaitingForJoinConditions"
    using before phase_step_stopping [of "dc_phase (judged i c)" "judged i c"]
    by (auto simp: phase_update_def judged_phase split: if_splits)
  with act upd obtain t where t: "stable_since_s (judged i c) = Some t"
      "\<not> f64_less (f64_sub (in_now_s i) t) (stable_s s)" "join_conditions s i"
    by (auto simp: phase_update_def await_join_def s Let_def split: if_splits option.splits)
  from t(1) have "stable_since_s c = Some t"
    by (auto simp: reset_stable_def split: if_splits)
  from join_window [OF c0, of "is" t] this before t show ?thesis by (auto simp: c)
qed

lemma joining_waits_for_a_stable_window_witness:
  "\<exists>pre mid. sample_waiting = pre @ mid \<and> mid \<noteq> []
     \<and> (\<forall>j \<in> set (mid @ [sample_inputs 5 1 False]). join_conditions sample_settings j)
     \<and> \<not> f64_less (f64_sub (in_now_s (sample_inputs 5 1 False)) (in_now_s (hd mid))) (stable_s sample_settings)"
  using joining_waits_for_a_stable_window [OF sample_controller_new refl sample_joins(1)] sample_joins(2)
  by simp

subsection \<open>Faults\<close>

text \<open>
  C26: a battery fault is final. Once an update sees a fault reported by either pack, or a clock
  that is not finite, the controller is in a stopping phase; whatever it is given afterwards, it
  stays in the stopping phases and never again enables the second pack or closes the relay.
\<close>

theorem fault_is_final:
  assumes "has_fault (primary i) \<or> has_fault (secondary i) \<or> \<not> isfinite (in_now_s i)"
  shows "stopping_phase (dc_phase (dc_run (i # is) c))
    \<and> fst (dc_update j (dc_run (i # is) c)) \<notin> {kEnableSecondary, kCloseRelay}"
proof -
  have "stopping_phase (dc_phase (snd (dc_update i c)))"
  proof (cases "isfinite (in_now_s i)")
    case True
    with assms have "fst (sees_fault i c) \<or> snd (sees_fault i c)"
      by (auto simp: sees_fault_def sees_primary_fault_def sees_secondary_fault_def)
    then show ?thesis by (rule fault_stops)
  qed (simp add: dc_update_def)
  then have "stopping_phase (dc_phase (dc_run (i # is) c))" by (simp add: stopping_run)
  with stopping_update show ?thesis by blast
qed

lemma fault_is_final_witness:
  "stopping_phase (dc_phase (dc_run [sample_faulted 6 1, sample_inputs 7 1 False] sample_controller))
   \<and> fst (dc_update (sample_inputs 8 1 False)
        (dc_run [sample_faulted 6 1, sample_inputs 7 1 False] sample_controller))
      \<notin> {kEnableSecondary, kCloseRelay}"
  by (rule fault_is_final) (simp add: sample_has_fault)

lemma isolates_secondary:
  assumes "secondary_isolation_attempted (snd (dc_update i c))" "\<not> secondary_isolation_attempted c"
  shows "fst (dc_update i c) = kDisableSecondary \<and> loads_safe_to_switch (settings c) i"
proof (cases rule: dc_update_cases [of i c])
  case phase
  have "\<not> secondary_isolation_attempted (judged i c)" using assms(2) by simp
  moreover have "secondary_isolation_attempted (snd (phase_update i c))"
    using assms(1) phase(4) by simp
  ultimately show ?thesis
    unfolding phase(4) phase_update_def
    by (cases "dc_phase (judged i c)") (auto simp: stop_timed_out_def split: if_splits option.splits)
qed (use assms in auto)

lemma attempted_run:
  assumes "secondary_isolation_attempted (dc_run is c0)" "\<not> secondary_isolation_attempted c0"
  shows "\<exists>pre j post. is = pre @ j # post \<and> fst (dc_update j (dc_run pre c0)) = kDisableSecondary
    \<and> loads_safe_to_switch (settings c0) j"
  using assms(1)
proof (induction "is" rule: rev_induct)
  case Nil
  with assms(2) show ?case by simp
next
  case (snoc i "is")
  show ?case
  proof (cases "secondary_isolation_attempted (dc_run is c0)")
    case True
    with snoc.IH obtain pre j post where "is = pre @ j # post"
      "fst (dc_update j (dc_run pre c0)) = kDisableSecondary" "loads_safe_to_switch (settings c0) j"
      by blast
    then show ?thesis by (intro exI [of _ pre] exI [of _ j] exI [of _ "post @ [i]"]) simp
  next
    case False
    with snoc.prems isolates_secondary [of i "dc_run is c0"] show ?thesis
      by (intro exI [of _ "is"] exI [of _ i] exI [of _ "[]"]) simp
  qed
qed

lemma open_relay_phase:
  assumes "fst (phase_step p po so i c) = kOpenRelay" "bms_inv c" "dc_phase c = p"
  shows "secondary_isolation_attempted c"
  using assms by (cases p) (auto simp: bms_inv_def isolate_primary_def await_join_def stop_timed_out_def
      Let_def split: if_splits option.splits)

text \<open>
  C28: the relay is opened last. An update returns \<open>kOpenRelay\<close> only with a latched fault of the
  second pack, and after an earlier update that commanded this pack's discharge MOS off with the
  loads reported stopped and both currents within the limit.
\<close>

theorem relay_opens_after_secondary_isolation:
  assumes c0: "new_controller s = Inr c0" and act: "fst (dc_update i (dc_run is c0)) = kOpenRelay"
  shows "secondary_fault (snd (dc_update i (dc_run is c0)))
    \<and> (\<exists>pre j post. is = pre @ j # post \<and> fst (dc_update j (dc_run pre c0)) = kDisableSecondary
         \<and> loads_safe_to_switch s j)"
proof -
  let ?c = "dc_run is c0"
  have inv: "bms_inv ?c" using c0 by (intro dc_run_inv new_controller_inv)
  have upd: "dc_update i ?c = phase_update i ?c"
    using act by (cases rule: dc_update_cases [of i ?c]) auto
  have "secondary_isolation_attempted (judged i ?c)"
    using act unfolding upd phase_update_def by (rule open_relay_phase) (simp_all add: judged_inv inv)
  then have att: "secondary_isolation_attempted ?c" by simp
  have "\<not> secondary_isolation_attempted c0" "settings c0 = s"
    using c0 by (auto simp: new_controller_def split: if_splits)
  with attempted_run [OF att] have "\<exists>pre j post. is = pre @ j # post
      \<and> fst (dc_update j (dc_run pre c0)) = kDisableSecondary \<and> loads_safe_to_switch s j"
    by simp
  moreover have "secondary_fault (snd (phase_step p po so i d))" if "secondary_fault d" for p po so d
    using that by (cases p) (auto simp: stop_timed_out_def split: option.split)
  then have "secondary_fault (snd (dc_update i ?c))"
    using inv att unfolding upd phase_update_def by (simp add: bms_inv_def)
  ultimately show ?thesis by blast
qed

lemma relay_opens_after_secondary_isolation_witness:
  "\<exists>pre j post. sample_waiting @ [sample_inputs 5 1 False, sample_faulted 6 1] = pre @ j # post
     \<and> fst (dc_update j (dc_run pre sample_controller)) = kDisableSecondary
     \<and> loads_safe_to_switch sample_settings j"
  using relay_opens_after_secondary_isolation [OF sample_controller_new sample_opens] by blast

lemma mos_off_step:
  assumes "fst (phase_step p po so i d) = kDisableSecondary
    \<or> fst (phase_step p po so i d) = kDisablePrimary \<and> p \<noteq> kOpeningRelay"
  shows "loads_safe_to_switch (settings d) i"
  using assms
  by (cases p) (auto simp: await_join_def stop_timed_out_def isolate_primary_def Let_def
      split: if_splits option.splits)

text \<open>
  A pack is switched off only without load, with one exception. \<open>kDisableSecondary\<close> is always
  returned with the loads freshly reported stopped and both currents within the limit;
  \<open>kDisablePrimary\<close> too, unless the controller was opening the relay.
\<close>

theorem mos_is_switched_off_without_load:
  assumes "fst (dc_update i c) = kDisableSecondary
    \<or> fst (dc_update i c) = kDisablePrimary \<and> dc_phase c \<noteq> kOpeningRelay"
  shows "loads_safe_to_switch (settings c) i"
proof (cases rule: dc_update_cases [of i c])
  case phase
  have "dc_phase (judged i c) = kOpeningRelay \<Longrightarrow> dc_phase c = kOpeningRelay"
    by (simp add: judged_phase split: if_splits)
  with assms have "loads_safe_to_switch (settings (judged i c)) i"
    unfolding phase(4) phase_update_def by (intro mos_off_step) blast
  then show ?thesis by simp
qed (use assms in auto)

text \<open>The exception is real: when the relay opens, the primary is switched off whatever the loads do.\<close>

definition sample_both_faulted :: "rat \<Rightarrow> bool \<Rightarrow> bool \<Rightarrow> DischargeInputs" where
  "sample_both_faulted t stopped relay = (sample_faulted t 0)
     \<lparr>primary := (sample_pack (Fin t) 1)\<lparr>fault_bytes := [1, 0, 0, 0, 0, 0, 0, 0]\<rparr>,
      loads_stopped := stopped, relay_closed := Some relay\<rparr>"

lemma primary_is_switched_off_under_load:
  "\<exists>is i. fst (dc_update i (dc_run is sample_controller)) = kDisablePrimary \<and> \<not> loads_stopped i"
proof (intro exI conjI)
  show "fst (dc_update (sample_both_faulted 8 False False)
     (dc_run [sample_both_faulted 6 True True, sample_both_faulted 7 True True] sample_controller))
     = kDisablePrimary"
    by code_simp
qed (simp add: sample_both_faulted_def)

subsection \<open>Isolation comes to an end\<close>

text \<open>An update that finds the loads safe to switch and the last command past its timeout.\<close>

definition late :: "DischargeInputs \<Rightarrow> DualBatteryController \<Rightarrow> bool" where
  "late i c \<longleftrightarrow> loads_safe_to_switch (settings c) i
     \<and> (command_s c = None \<or> command_timed_out (in_now_s i) c)"

text \<open>Every pack with a latched fault has been commanded off.\<close>

definition isolated :: "DualBatteryController \<Rightarrow> bool" where
  "isolated c \<longleftrightarrow> dc_phase c = kFaultLatched
     \<and> (primary_fault c \<longrightarrow> primary_isolation_attempted c)
     \<and> (secondary_fault c \<longrightarrow> secondary_isolation_attempted c)"

definition isolation_rank :: "DualBatteryController \<Rightarrow> nat" where
  "isolation_rank c =
     (if primary_isolation_attempted c then 0 else 7) + (if secondary_isolation_attempted c then 0 else 7)
     + (case dc_phase c of kStoppingLoads \<Rightarrow> 4 | kStoppingSecondary \<Rightarrow> 3 | kOpeningRelay \<Rightarrow> 2
        | kStoppingPrimary \<Rightarrow> (if secondary_isolation_attempted c then 1 else 6)
        | kFaultLatched \<Rightarrow> (if primary_isolation_attempted c \<and> secondary_isolation_attempted c then 0 else 5)
        | _ \<Rightarrow> 0)"

lemma f64_less_not_le: "f64_less a b \<Longrightarrow> \<not> f64_le b a"
  by (cases a; cases b) (auto simp: f64_le_def)

lemma late_command:
  assumes "bms_inv c" "late i c" "dc_phase c \<in> {kStoppingSecondary, kOpeningRelay, kStoppingPrimary}"
  shows "\<not> command_pending (in_now_s i) c" "command_timed_out (in_now_s i) c"
proof -
  have "command_s c \<noteq> None" using assms(1,3) by (auto simp: bms_inv_def)
  with assms(2) show "command_timed_out (in_now_s i) c" by (simp add: late_def)
  then show "\<not> command_pending (in_now_s i) c"
    by (auto simp: command_timed_out_def command_pending_def split: option.splits dest: f64_less_not_le)
qed

lemma isolation_step:
  assumes "bms_inv c" "stopping_phase (dc_phase c)" "dc_phase c \<noteq> kAwaitingIsolationPolicy" "late i c"
  shows "isolated (snd (dc_update i c)) \<or> isolation_rank (snd (dc_update i c)) < isolation_rank c"
    "dc_phase (snd (dc_update i c)) \<noteq> kAwaitingIsolationPolicy"
proof -
  have fin: "isfinite (in_now_s i)"
    using assms(4) by (auto simp: late_def loads_safe_to_switch_def feedback_fresh_def split: option.splits)
  have "\<not> supply_lost i (reset_stable i c)"
    using assms(2) by (auto simp: supply_lost_def dc_phase_sets)
  then have upd: "dc_update i c = phase_update i c"
    using fin assms(3) by (cases rule: dc_update_cases [of i c]) auto
  have ph: "dc_phase (judged i c) = dc_phase c" using assms(2) by (simp add: judged_phase)
  note inv = judged_inv [OF assms(1), of i]
  have pend: "\<not> command_pending (in_now_s i) (judged i c)" "command_timed_out (in_now_s i) (judged i c)"
    if "dc_phase c \<in> {kStoppingSecondary, kOpeningRelay, kStoppingPrimary}"
    using late_command [OF assms(1,4) that]
    unfolding command_pending_def command_timed_out_def judged_fields .
  have safe: "loads_safe_to_switch (settings c) i" using assms(4) by (simp add: late_def)
  show "isolated (snd (dc_update i c)) \<or> isolation_rank (snd (dc_update i c)) < isolation_rank c"
  proof (cases "dc_phase c")
    case kStoppingSecondary
    with pend(1) safe inv show ?thesis
      by (simp add: upd phase_update_def isolation_rank_def bms_inv_def ph)
  next
    case kOpeningRelay
    with pend(2) inv show ?thesis
      by (simp add: upd phase_update_def isolation_rank_def isolated_def isolate_primary_def bms_inv_def ph)
  next
    case kStoppingPrimary
    with pend(1) inv show ?thesis
      by (simp add: upd phase_update_def isolation_rank_def bms_inv_def ph)
  qed (use assms(2,3) inv safe in \<open>simp_all add: upd phase_update_def isolation_rank_def isolated_def
         isolate_primary_def bms_inv_def ph\<close>)
  show "dc_phase (snd (dc_update i c)) \<noteq> kAwaitingIsolationPolicy"
    using assms(2,3) unfolding upd phase_update_def ph
    by (cases "dc_phase c") (auto simp: isolate_primary_def ph)
qed

text \<open>Every update is late, until the isolation is complete.\<close>

fun timely :: "DischargeInputs list \<Rightarrow> DualBatteryController \<Rightarrow> bool" where
  "timely [] c = True"
| "timely (i # is) c = (isolated c \<or> late i c \<and> timely is (snd (dc_update i c)))"

lemma isolation_run:
  assumes "bms_inv c" "stopping_phase (dc_phase c)" "dc_phase c \<noteq> kAwaitingIsolationPolicy"
    and "isolation_rank c < length js" "timely js c"
  shows "\<exists>k \<le> length js. isolated (dc_run (take k js) c)"
  using assms
proof (induction js arbitrary: c)
  case (Cons j js)
  let ?d = "snd (dc_update j c)"
  consider "isolated c" | "\<not> isolated c" "isolated ?d" | "\<not> isolated c" "\<not> isolated ?d" by blast
  then show ?case
  proof cases
    case 1
    then show ?thesis by (intro exI [of _ 0]) simp
  next
    case 2
    then show ?thesis by (intro exI [of _ 1]) simp
  next
    case 3
    with Cons.prems(5) have "late j c" "timely js ?d" by simp_all
    note step = isolation_step [OF Cons.prems(1-3) this(1)]
    have "isolation_rank ?d < length js"
      using step(1) 3 Cons.prems(4) by simp
    then obtain k where "k \<le> length js" "isolated (dc_run (take k js) ?d)"
      using Cons.IH [of ?d] dc_update_inv [OF Cons.prems(1)] stopping_update [OF Cons.prems(2)] step(2)
        \<open>timely js ?d\<close>
      by blast
    then show ?thesis by (intro exI [of _ "Suc k"]) simp
  qed
qed simp

lemma isolation_rank_bound: "isolation_rank c \<le> 20"
  by (simp add: isolation_rank_def split: DischargePhase.split)


text \<open>A second pack that never answers, with the loads at rest and an update every two seconds.\<close>

definition sample_silence :: "DischargeInputs list" where
  "sample_silence = map (\<lambda>t. sample_faulted t 1) [7, 9, 11, 13] @ replicate 17 (sample_faulted 15 1)"


end
