(* ===== verification/BmsNodeClaims.thy ===== *)
theory BmsNodeClaims
  imports BmsNode BmsClaims
begin

text \<open>
  What the battery node as a whole does: without automatic control it only asks, and with it a
  closing relay command rests on the state that the frames of the bus built up.
\<close>

definition bms_run :: "bms_event list \<Rightarrow> BmsNode \<Rightarrow> BmsNode" where
  "bms_run es n = fold bms_step es n"

subsection \<open>Frame lemmas\<close>

lemma on_io_snd: "snd (on_io f n) = n\<lparr>bms_io := snd (f (bms_io n))\<rparr>"
  by (simp add: on_io_def split: prod.split)

lemma on_io_fst: "fst (on_io f n) = fst (f (bms_io n))"
  by (simp add: on_io_def split: prod.split)

lemma monotonic_snd: "snd (monotonic_seconds n) = n\<lparr>bms_io := snd (steady_now (bms_io n))\<rparr>"
  by (simp add: monotonic_seconds_def on_io_snd case_prod_beta)

lemma wire_kept [simp]:
  "k_wire (snd (steady_now io)) = k_wire io" "k_wire (socket_close io) = k_wire io"
  "k_wire (snd (socket_wait_readable t io)) = k_wire io" "k_wire (snd (socket_receive io)) = k_wire io"
  "k_wire (snd (socket_open name filters io)) = k_wire io"
  by (simp_all add: steady_now_def socket_close_def socket_wait_readable_def socket_receive_def
      socket_open_def pop_open_def Let_def split: list.splits poll_result.splits recv_result.splits prod.splits)

lemma socket_send_wire:
  "k_wire (snd (socket_send f io)) = k_wire io \<or> k_wire (snd (socket_send f io)) = k_wire io @ [f]"
  by (simp add: socket_send_def Let_def split: list.splits send_result.splits)

text \<open>What every operation but the discharge control leaves alone.\<close>

definition side :: "BmsNode \<Rightarrow> bool \<times> u32 list \<times> DualBatteryController option \<times> bms_message list" where
  "side n = (automatic_discharge_control n, request_ids n, node_controller n, published n)"

lemma side_updates [simp]:
  "side (n\<lparr>bms_io := io\<rparr>) = side n" "side (n\<lparr>next_connect := t\<rparr>) = side n"
  "side (n\<lparr>next_request := t\<rparr>) = side n" "side (n\<lparr>request_index := k\<rparr>) = side n"
  "side (n\<lparr>next_control := t\<rparr>) = side n"
  "side (n\<lparr>primary_decoder := p\<rparr>) = side n" "side (n\<lparr>primary_state := s\<rparr>) = side n"
  "side (n\<lparr>secondary_decoder := p\<rparr>) = side n" "side (n\<lparr>secondary_state := s\<rparr>) = side n"
  "side (n\<lparr>fb_relay_closed := c\<rparr>) = side n" "side (n\<lparr>fb_relay_feedback_s := u\<rparr>) = side n"
  "side (n\<lparr>fb_loads_stopped := b\<rparr>) = side n" "side (n\<lparr>fb_loads_feedback_s := u\<rparr>) = side n"
  "side (n\<lparr>subscribed := b\<rparr>) = side n" "side (n\<lparr>serial_line := l\<rparr>) = side n"
  by (simp_all add: side_def)

text \<open>
  \<open>asks n n'\<close>: between the two states nothing but queries of the poll plan went to the bus, nothing
  was published and the controller did not move.
\<close>

definition asks :: "BmsNode \<Rightarrow> BmsNode \<Rightarrow> bool" where
  "asks n n' \<longleftrightarrow> side n' = side n
     \<and> (\<exists>rs. k_wire (bms_io n') = k_wire (bms_io n) @ map make_query_frame rs \<and> set rs \<subseteq> set (request_ids n))
     \<and> (request_index n < length (request_ids n) \<longrightarrow> request_index n' < length (request_ids n'))"

lemma asks_refl: "asks n n"
  by (auto simp: asks_def intro: exI [of _ "[]"])

lemma asks_trans:
  assumes "asks a b" "asks b c"
  shows "asks a c"
proof -
  obtain rs qs where "k_wire (bms_io b) = k_wire (bms_io a) @ map make_query_frame rs" "set rs \<subseteq> set (request_ids a)"
    "k_wire (bms_io c) = k_wire (bms_io b) @ map make_query_frame qs" "set qs \<subseteq> set (request_ids b)"
    using assms by (auto simp: asks_def)
  with assms show ?thesis
    unfolding asks_def by (intro conjI exI [of _ "rs @ qs"]) (auto simp: side_def)
qed

lemma asks_silent:
  assumes "side n' = side n" "k_wire (bms_io n') = k_wire (bms_io n)" "request_index n' = request_index n"
  shows "asks n n'"
  using assms unfolding asks_def by (auto simp: side_def intro: exI [of _ "[]"])

lemma side_disconnect: "side (disconnect n) = side n" "k_wire (bms_io (disconnect n)) = k_wire (bms_io n)"
    "request_index (disconnect n) = request_index n"
  by (simp_all add: disconnect_def Let_def on_io_def split: prod.split)
    (metis snd_conv wire_kept(1,2))+

lemma asks_disconnect: "asks n (disconnect n)"
  by (rule asks_silent) (rule side_disconnect)+

lemma asks_io: "k_wire (snd (f (bms_io n))) = k_wire (bms_io n) \<Longrightarrow> asks n (snd (on_io f n))"
  by (rule asks_silent) (simp_all add: on_io_snd)

lemma asks_monotonic: "asks n (snd (monotonic_seconds n))"
  by (rule asks_silent) (simp_all add: monotonic_snd)

lemma asks_ingest: "asks n (ingest_both frame data n)"
proof (rule asks_trans [OF asks_monotonic])
  show "asks (snd (monotonic_seconds n)) (ingest_both frame data n)"
    by (rule asks_silent) (simp_all add: ingest_both_def Let_def split: prod.split)
qed

lemma asks_receive: "asks n (receive_answer n)"
proof -
  define deadline where "deadline = (if automatic_discharge_control n then min (next_request n) (next_control n)
                     else next_request n)"
  obtain now n1 where n1: "on_io steady_now n = (now, n1)" by (cases "on_io steady_now n")
  obtain readable n2 where n2: "on_io (socket_wait_readable (wait_ms (deadline - now) n1)) n1 = (readable, n2)"
    by (cases "on_io (socket_wait_readable (wait_ms (deadline - now) n1)) n1")
  obtain result received n3 where n3: "on_io socket_receive n2 = ((result, received), n3)"
    by (cases "on_io socket_receive n2") auto
  have a: "asks n n1" "asks n1 n2" "asks n2 n3"
    using asks_io [of steady_now n] asks_io [of "socket_wait_readable (wait_ms (deadline - now) n1)" n1]
      asks_io [of socket_receive n2] by (simp_all add: n1 n2 n3)
  have 2: "asks n n2" by (rule asks_trans [OF a(1,2)])
  have 3: "asks n n3" by (rule asks_trans [OF 2 a(3)])
  have "receive_answer n = n2 \<or> receive_answer n = disconnect n2 \<or> receive_answer n = disconnect n3
      \<or> receive_answer n = n3 \<or> (\<exists>f d. receive_answer n = ingest_both f d n3)"
    by (auto simp: receive_answer_def deadline_def [symmetric] Let_def n1 n2 n3 split: option.split)
  then show ?thesis
    using 2 3 asks_trans [OF 2 asks_disconnect] asks_trans [OF 3 asks_disconnect] asks_trans [OF 3 asks_ingest]
    by auto
qed

lemma asks_query: 
  assumes "request_index n < length (request_ids n)"
  shows "asks n (query_due now n)"
proof (cases "next_request n \<le> now")
  case True
  let ?q = "make_query_frame (request_ids n ! request_index n)"
  obtain result n1 where n1: "on_io (socket_send ?q) n = (result, n1)" by (cases "on_io (socket_send ?q) n")
  have n1': "n1 = n\<lparr>bms_io := snd (socket_send ?q (bms_io n))\<rparr>"
    using on_io_snd [of "socket_send ?q" n] n1 by simp
  have sent: "\<exists>rs. k_wire (bms_io n1) = k_wire (bms_io n) @ map make_query_frame rs \<and> set rs \<subseteq> set (request_ids n)"
    using socket_send_wire [of ?q "bms_io n"] assms
    by (auto simp: n1' intro: exI [of _ "[]"] exI [of _ "[request_ids n ! request_index n]"])
  have 1: "asks n n1" using sent assms unfolding asks_def by (simp add: n1')
  let ?n2 = "n1\<lparr>request_index := (request_index n1 + 1) mod length (request_ids n1),
                next_request := now + request_spacing n1\<rparr>"
  have "0 < length (request_ids n)" using assms by linarith
  then have 2: "asks n ?n2" using sent unfolding asks_def by (simp add: n1')
  show ?thesis
    using True asks_trans [OF 1 asks_disconnect] asks_trans [OF 2 asks_receive]
    by (simp add: query_due_def n1)
next
  case False
  then show ?thesis by (simp add: query_due_def asks_receive)
qed

lemma asks_connect: "0 < length (request_ids n) \<Longrightarrow> asks n (connect_due now n)"
  by (auto simp: connect_due_def connect_can_def on_io_snd asks_def intro: exI [of _ "[]"])

lemma asks_callbacks:
  "asks n (relay_feedback b n)" "asks n (loads_feedback b n)" "asks n (world io subs line n)"
proof -
  show "asks n (relay_feedback b n)"
    by (rule asks_trans [OF asks_monotonic], rule asks_silent)
      (simp_all add: relay_feedback_def split: prod.split)
  show "asks n (loads_feedback b n)"
    by (rule asks_trans [OF asks_monotonic], rule asks_silent)
      (simp_all add: loads_feedback_def split: prod.split)
  show "asks n (world io subs line n)"
    by (rule asks_silent) (simp_all add: world_def)
qed

text \<open>A turn is made of asking, with the discharge control in it when that is due.\<close>

lemma reader_turn_parts:
  obtains now n1 where "on_io steady_now n = (now, n1)" "asks n n1" "n1 = n\<lparr>bms_io := bms_io n1\<rparr>"
    "request_index (control_due now n1) < length (request_ids (control_due now n1)) \<Longrightarrow>
       asks (control_due now n1) (reader_turn n)"
proof -
  obtain now n1 where n1: "on_io steady_now n = (now, n1)" by (cases "on_io steady_now n")
  let ?c = "control_due now n1"
  show thesis
  proof
    show "on_io steady_now n = (now, n1)" by (rule n1)
    show "asks n n1" using asks_io [of steady_now n] by (simp add: n1)
    show "n1 = n\<lparr>bms_io := bms_io n1\<rparr>" using on_io_snd [of steady_now n] n1 by simp
    assume idx: "request_index ?c < length (request_ids ?c)"
    then have len: "0 < length (request_ids ?c)" by linarith
    note con = asks_connect [OF len, of now]
    then have "request_index (connect_due now ?c) < length (request_ids (connect_due now ?c))"
      using idx by (simp add: asks_def)
    from asks_trans [OF con asks_query [OF this, of now]] con show "asks ?c (reader_turn n)"
      by (simp add: reader_turn_def n1 Let_def)
  qed
qed

lemma step_only_asks:
  assumes "\<not> automatic_discharge_control n" "request_index n < length (request_ids n)"
  shows "asks n (bms_step e n)"
proof (cases e)
  case ReaderTurn
  obtain now n1 where t: "asks n n1" "n1 = n\<lparr>bms_io := bms_io n1\<rparr>"
    "request_index (control_due now n1) < length (request_ids (control_due now n1)) \<Longrightarrow>
       asks (control_due now n1) (reader_turn n)"
    using reader_turn_parts [of n] by blast
  have auto: "\<not> automatic_discharge_control n1" and idx: "request_index n1 < length (request_ids n1)"
    using t(1) assms by (auto simp: asks_def side_def)
  have c: "control_due now n1 = n1" using auto by (simp add: control_due_def)
  from t(3) idx have "asks n1 (reader_turn n)" by (simp add: c)
  with t(1) show ?thesis by (simp add: ReaderTurn asks_trans)
qed (simp_all add: asks_callbacks)

lemma run_only_asks:
  assumes "\<not> automatic_discharge_control n" "request_index n < length (request_ids n)"
  shows "asks n (bms_run es n)"
  using assms
proof (induction es arbitrary: n)
  case (Cons e es)
  note step = step_only_asks [OF Cons.prems, of e]
  then have "\<not> automatic_discharge_control (bms_step e n)"
    "request_index (bms_step e n) < length (request_ids (bms_step e n))"
    using Cons.prems by (auto simp: asks_def side_def)
  from asks_trans [OF step Cons.IH [OF this]] show ?case by (simp add: bms_run_def)
qed (simp add: bms_run_def asks_refl)

lemma new_node_fields:
  assumes "new_bms_node resolve p io = Inr n"
  shows "automatic_discharge_control n = par_automatic p" "request_index n = 0" "published n = []"
    "request_ids n = make_dual_poll_ids (word_of_int (par_primary p)) (word_of_int (par_secondary p))
       (word_of_int (par_host p))"
    "k_wire (bms_io n) = k_wire io" "make_controller p = Inr (node_controller n)"
proof -
  have "steady_now (socket_close io) = (t, io1) \<Longrightarrow> k_wire io1 = k_wire io" for t io1
    by (metis snd_conv wire_kept(1,2))
  then show "k_wire (bms_io n) = k_wire io"
    using assms by (auto simp: new_bms_node_def Let_def split: if_splits sum.splits prod.splits)
qed (use assms in \<open>auto simp: new_bms_node_def Let_def split: if_splits sum.splits prod.splits\<close>)

text \<open>
  Without automatic discharge control the node is read-only. Whatever happens on the bus and
  in the callbacks, every frame it sends is one of the fourteen queries of its poll plan, and it
  publishes no relay or load command.
\<close>

theorem node_without_control_only_asks:
  assumes "new_bms_node resolve p io = Inr n" "\<not> par_automatic p"
  shows "published (bms_run es n) = []
    \<and> (\<exists>rs. k_wire (bms_io (bms_run es n)) = k_wire io @ map make_query_frame rs
         \<and> set rs \<subseteq> set (make_dual_poll_ids (word_of_int (par_primary p))
                           (word_of_int (par_secondary p)) (word_of_int (par_host p))))"
proof -
  note f = new_node_fields [OF assms(1)]
  have "request_index n < length (request_ids n)"
    by (simp add: f make_dual_poll_ids_def poll_data_ids_def)
  from run_only_asks [OF _ this, of es] show ?thesis
    using assms(2) f by (auto simp: asks_def side_def)
qed

definition sample_parameters :: "bool \<Rightarrow> BmsParameters" where
  "sample_parameters automatic = \<lparr>par_transport = ''socketcan'', par_can_interface = ''can0'', par_serial = [],
     par_protocol = ''golden_phoenix_v1_1'', par_bitrate = 250000, par_automatic = automatic,
     par_primary = 1, par_secondary = 2, par_host = 0x40, par_order = ''auto'',
     par_request_period = Fin 14, par_receive_timeout = Fin 1, par_reconnect_period = Fin 2,
     par_frame_timeout = Fin 3, par_publish_period = Fin 5, par_topic = ''left'', par_secondary_topic = ''right'',
     par_limits = (\<lambda>on off. sample_settings\<lparr>mos_on_raw := on, mos_off_raw := off\<rparr>),
     par_mos_on = 1, par_mos_off = 0, par_relay_command = ''/bms/k2/command'',
     par_relay_feedback = ''/bms/k2/closed'', par_loads_stop = ''/bms/loads/stop_request'',
     par_loads_feedback = ''/bms/loads/stopped''\<rparr>"

definition sample_bms_io :: can_io where
  "sample_bms_io = \<lparr>descriptor = - 1, interface_index = 0, k_open = [], k_send = [], k_recv = [], k_poll = [],
     k_clock = [], k_now = 0, k_filters = [], k_wire = []\<rparr>"

definition sample_node :: "bool \<Rightarrow> BmsNode" where
  "sample_node automatic = projr (new_bms_node (\<lambda>t. t) (sample_parameters automatic) sample_bms_io)"

lemma sample_node_new: "new_bms_node (\<lambda>t. t) (sample_parameters b) sample_bms_io = Inr (sample_node b)"
  by (cases b; simp; code_simp)

lemma node_without_control_only_asks_witness:
  "published (bms_run [ReaderTurn, RelayFeedback True, ReaderTurn] (sample_node False)) = []"
  using node_without_control_only_asks [OF sample_node_new [of False]]
  by (simp add: sample_parameters_def)

subsection \<open>Closing the relay\<close>

lemma asks_side: "asks n n' \<Longrightarrow> side n' = side n"
  by (simp add: asks_def)

lemma carry_out_kept:
  "node_controller (carry_out a n) = node_controller n" "request_ids (carry_out a n) = request_ids n"
  "request_index (carry_out a n) = request_index n"
  "automatic_discharge_control (carry_out a n) = automatic_discharge_control n"
  by (cases a; simp add: publish_bool_def send_discharge_command_def on_io_def split: prod.split)+

lemma control_kept:
  "request_ids (update_discharge_control n) = request_ids n"
  "request_index (update_discharge_control n) = request_index n"
  "automatic_discharge_control (update_discharge_control n) = automatic_discharge_control n"
  "\<exists>i. node_controller (update_discharge_control n) = Some (snd (dc_update i (the (node_controller n))))"
  using monotonic_snd [of n]
  by (auto simp: update_discharge_control_def Let_def carry_out_kept publish_bool_def split: prod.split)
    (metis snd_conv)

text \<open>The controller of the node is always one that updates lead to from its construction.\<close>

definition node_inv :: "DischargeSettings \<Rightarrow> BmsNode \<Rightarrow> bool" where
  "node_inv s n \<longleftrightarrow> request_index n < length (request_ids n)
     \<and> (\<exists>c0 is. new_controller s = Inr c0 \<and> node_controller n = Some (dc_run is c0))"

lemma node_inv_asks: "asks n n' \<Longrightarrow> node_inv s n \<Longrightarrow> node_inv s n'"
  by (auto simp: node_inv_def asks_def side_def)

lemma node_inv_control:
  assumes "node_inv s n"
  shows "node_inv s (control_due now n)"
proof -
  obtain c0 "is" where c: "new_controller s = Inr c0" "node_controller n = Some (dc_run is c0)"
    using assms by (auto simp: node_inv_def)
  obtain i where "node_controller (update_discharge_control n) = Some (dc_run (is @ [i]) c0)"
    using control_kept(4) [of n] c(2) by auto
  then have "\<exists>is'. node_controller (update_discharge_control n) = Some (dc_run is' c0)" by blast
  with assms c show ?thesis by (auto simp: node_inv_def control_due_def control_kept)
qed

lemma node_inv_step:
  assumes "node_inv s n"
  shows "node_inv s (bms_step e n)"
proof (cases e)
  case ReaderTurn
  obtain now n1 where t: "asks n n1"
    "request_index (control_due now n1) < length (request_ids (control_due now n1)) \<Longrightarrow>
       asks (control_due now n1) (reader_turn n)"
    using reader_turn_parts [of n] by blast
  have "node_inv s (control_due now n1)"
    using t(1) assms by (intro node_inv_control) (rule node_inv_asks)
  with t(2) show ?thesis
    by (simp add: ReaderTurn node_inv_def [of s "control_due now n1"] node_inv_asks)
qed (simp_all add: node_inv_asks [OF asks_callbacks(1) assms] node_inv_asks [OF asks_callbacks(2) assms]
       node_inv_asks [OF asks_callbacks(3) assms])

lemma node_inv_run: "node_inv s n \<Longrightarrow> node_inv s (bms_run es n)"
  by (induction es arbitrary: n) (simp_all add: bms_run_def node_inv_step)

text \<open>Only \<open>kCloseRelay\<close> enters the wait for the relay.\<close>

lemma enters_relay_wait:
  assumes "dc_phase (snd (dc_update i c)) = kWaitingForRelayClosed" "dc_phase c \<noteq> kWaitingForRelayClosed"
  shows "fst (dc_update i c) = kCloseRelay"
proof (cases rule: dc_update_cases [of i c])
  case clock
  then show ?thesis using assms by (auto simp: latch_phase split: if_splits)
next
  case phase
  have "dc_phase (judged i c) \<noteq> kWaitingForRelayClosed"
    using assms(2) by (auto simp: judged_phase split: if_splits)
  then show ?thesis
    using assms(1) unfolding phase(4) phase_update_def
    by (cases "dc_phase (judged i c)")
      (auto simp: await_join_def isolate_primary_def stop_timed_out_def latch_phase Let_def
         split: if_splits option.splits)
qed (use assms in auto)

lemma carry_out_published:
  "published (carry_out a n) = published n @ (case a of kStopLoads \<Rightarrow> [LoadsStopRequest True]
     | kCloseRelay \<Rightarrow> [RelayCommand True] | kOpenRelay \<Rightarrow> [RelayCommand False] | _ \<Rightarrow> [])"
  by (cases a; simp add: publish_bool_def send_discharge_command_def on_io_def split: prod.split)

lemma control_closes:
  assumes "published (update_discharge_control n) = published n @ ms" "RelayCommand True \<in> set ms"
    and "fb_relay_closed n \<noteq> Some True" "dc_phase (the (node_controller n)) \<noteq> kWaitingForRelayClosed"
  shows "\<exists>now_s. fst (dc_update (control_inputs now_s n) (the (node_controller n))) = kCloseRelay"
proof -
  obtain now_s n1 where m: "monotonic_seconds n = (now_s, n1)" by (cases "monotonic_seconds n")
  have n1: "n1 = n\<lparr>bms_io := bms_io n1\<rparr>" using monotonic_snd [of n] m by simp
  have same: "control_inputs now_s n1 = control_inputs now_s n" "node_controller n1 = node_controller n"
    "fb_relay_closed n1 = fb_relay_closed n" "published n1 = published n"
    by (subst n1, simp add: control_inputs_def)+
  obtain a c where u: "dc_update (control_inputs now_s n) (the (node_controller n)) = (a, c)"
    by (cases "dc_update (control_inputs now_s n) (the (node_controller n))")
  have "a = kCloseRelay \<or> hold_relay a c (fb_relay_closed n)"
    using assms(1,2)
    by (cases a) (auto simp: update_discharge_control_def Let_def m same u carry_out_published publish_bool_def
        simp del: carry_out.simps split: if_splits)
  then have "a = kCloseRelay"
    using assms(3,4) enters_relay_wait [of "control_inputs now_s n" "the (node_controller n)"] u
    by (auto simp: hold_relay_def)
  with u show ?thesis by (intro exI [of _ now_s]) simp
qed

lemma turn_published:
  assumes "node_inv s n" "on_io steady_now n = (now, n1)"
  shows "published (reader_turn n) = published (control_due now n1)"
proof -
  have t: "asks n n1" "request_index (control_due now n1) < length (request_ids (control_due now n1)) \<Longrightarrow>
       asks (control_due now n1) (reader_turn n)"
    using reader_turn_parts [of n] assms(2) by (metis prod.inject)+
  have "node_inv s (control_due now n1)"
    using t(1) assms(1) by (intro node_inv_control) (rule node_inv_asks)
  with t(2) show ?thesis by (auto simp: node_inv_def side_def dest: asks_side)
qed

lemma new_node_inv:
  assumes "new_bms_node resolve p io = Inr n" "par_automatic p"
    and "s = par_limits p (word_of_int (par_mos_on p)) (word_of_int (par_mos_off p))"
  shows "node_inv s n"
  using new_node_fields [OF assms(1)] assms(2,3)
  by (auto simp: node_inv_def make_controller_def make_dual_poll_ids_def poll_data_ids_def
      split: if_splits sum.splits intro: exI [of _ "[]"])


definition sample_joining_node :: BmsNode where
  "sample_joining_node = (sample_node True)
     \<lparr>node_controller := Some (dc_run sample_waiting sample_controller),
      primary_state := sample_pack (Fin 5) 1, secondary_state := sample_pack (Fin 5) 1,
      fb_relay_closed := Some False, fb_relay_feedback_s := Some (Fin 5), fb_loads_stopped := True,
      fb_loads_feedback_s := Some (Fin 5), bms_io := sample_bms_io\<lparr>k_now := 5000000000\<rparr>,
      subscribed := True\<rparr>"

lemma sample_joining:
  "node_inv sample_settings sample_joining_node"
  "published (bms_step ReaderTurn sample_joining_node) = published sample_joining_node @ [RelayCommand True, RelayCommand True]"
  "fb_relay_closed sample_joining_node \<noteq> Some True"
  "dc_phase (the (node_controller sample_joining_node)) \<noteq> kWaitingForRelayClosed"
proof -
  show inv: "node_inv sample_settings sample_joining_node"
    using sample_controller_new new_node_fields(2,4) [OF sample_node_new [of True]]
    by (auto simp: node_inv_def sample_joining_node_def make_dual_poll_ids_def poll_data_ids_def)
  have "on_io steady_now sample_joining_node = (5000000000, sample_joining_node)"
    by (simp add: on_io_def steady_now_def sample_joining_node_def sample_bms_io_def)
  from turn_published [OF inv this]
  have turn: "published (reader_turn sample_joining_node) = published (control_due 5000000000 sample_joining_node)" .
  have "published (control_due 5000000000 sample_joining_node)
      = published sample_joining_node @ [RelayCommand True, RelayCommand True]"
    by code_simp
  with turn show "published (bms_step ReaderTurn sample_joining_node)
      = published sample_joining_node @ [RelayCommand True, RelayCommand True]"
    by (simp only: bms_step.simps)
qed (simp_all add: sample_joining_node_def sample_joins(1))


end
