(* ===== verification/BmsDecoding.thy ===== *)
theory BmsDecoding
  imports BmsProtocol
begin

text \<open>
  What the battery protocol decoder guarantees: identifiers separate the two packs, a pack that
  speaks one byte order is never misread, and the state of a pack keeps its ranges.
\<close>

subsection \<open>Bytes\<close>

text \<open>A 16-bit field as a pack that speaks the given order sends it.\<close>

definition put_u16 :: "ByteOrder \<Rightarrow> u16 \<Rightarrow> u8 list" where
  "put_u16 order raw =
    (if order = kLittleEndian then [ucast raw, ucast (drop_bit 8 raw)]
     else [ucast (drop_bit 8 raw), ucast raw])"

lemma put_u16_halves:
  fixes raw :: u16
  shows "(ucast (ucast raw :: u8) :: u16) OR push_bit 8 (ucast (ucast (drop_bit 8 raw) :: u8)) = raw"
proof (rule bit_word_eqI)
  fix n assume "n < LENGTH(16)"
  then consider "n < 8" | "8 \<le> n" "n < 16" by fastforce
  then show "bit ((ucast (ucast raw :: u8) :: u16) OR push_bit 8 (ucast (ucast (drop_bit 8 raw) :: u8))) n
      = bit raw n"
    by cases (auto simp: bit_simps less_diff_conv2)
qed

lemma decode_put_u16: "decode_u16 (xs @ put_u16 order raw @ ys) (length xs) order = raw"
  using put_u16_halves [of raw]
  by (simp add: decode_u16_def put_u16_def nth_append or.commute)

subsection \<open>Identifiers\<close>

lemma make_can_id_source [simp]: "(ucast (make_can_id d t s) :: u8) = s"
proof (rule bit_word_eqI)
  fix n assume n: "n < LENGTH(8)"
  have prefix: "kCanIdPrefix = push_bit 24 0x18" by (simp add: kCanIdPrefix_def push_bit_eq_mult)
  have "\<not> bit kCanIdPrefix n" if "n < 8"
    unfolding prefix bit_push_bit_iff using that by simp
  with n show "bit (ucast (make_can_id d t s) :: u8) n = bit s n"
    by (auto simp: make_can_id_def bit_simps)
qed

text \<open>The decoder of a pack listens to its own address; \<open>pack_ingest\<close> keeps it so.\<close>

definition pack_listens :: "GoldenPhoenixPack \<Rightarrow> bool" where
  "pack_listens p \<longleftrightarrow>
     response_id (total_decoder p) = make_can_id kTotalStatusDataId (host_address p) (bms_address p)"

lemma accepted_source:
  assumes "fst (pack_ingest can_id payload now_s p state)" "pack_listens p"
  shows "ucast can_id = bms_address p"
  using assms
  by (auto simp: pack_ingest_def ingest_cells_def Let_def decoder_ingest_def pack_listens_def
      split: option.splits if_splits prod.splits)

lemma foreign_ignored:
  assumes "ucast can_id \<noteq> bms_address p"
  shows "pack_ingest can_id payload now_s p state = (False, p, state)"
proof -
  have "can_id \<noteq> make_can_id d t (bms_address p)" for d t
    using assms by auto
  then show ?thesis
    by (auto simp: pack_ingest_def ingest_cells_def Let_def split: option.split)
qed

lemma pack_ingest_address:
  "bms_address (fst (snd (pack_ingest can_id payload now_s p state))) = bms_address p"
  "host_address (fst (snd (pack_ingest can_id payload now_s p state))) = host_address p"
  "pack_listens p \<Longrightarrow> pack_listens (fst (snd (pack_ingest can_id payload now_s p state)))"
  by (auto simp: pack_ingest_def Let_def decoder_ingest_def pack_listens_def
      split: option.split prod.split)

lemma new_pack_listens [simp]: "pack_listens (new_pack order bms host)" "bms_address (new_pack order bms host) = bms"
  by (simp_all add: new_pack_def new_decoder_def pack_listens_def)

subsection \<open>The state of a pack over a sequence of frames\<close>

text \<open>A frame with its identifier, payload and time stamp.\<close>

type_synonym bms_frame = "u32 \<times> u8 list option \<times> f64"

fun pack_run :: "bms_frame list \<Rightarrow> GoldenPhoenixPack \<times> PackState \<Rightarrow> GoldenPhoenixPack \<times> PackState" where
  "pack_run [] ps = ps"
| "pack_run ((can_id, payload, now_s) # fs) (p, s) =
     pack_run fs (snd (pack_ingest can_id payload now_s p s))"

lemma pack_run_append: "pack_run (fs @ gs) ps = pack_run gs (pack_run fs ps)"
  by (induction fs ps rule: pack_run.induct) simp_all

definition in_range :: "rat \<Rightarrow> rat \<Rightarrow> f64 option \<Rightarrow> bool" where
  "in_range lo hi v = (case v of Some (Fin q) \<Rightarrow> lo \<le> q \<and> q \<le> hi | _ \<Rightarrow> False)"

lemma within_Some_Fin [simp]: "in_range lo hi (Some (Fin q)) \<longleftrightarrow> lo \<le> q \<and> q \<le> hi"
  by (simp add: in_range_def)

definition sample_inv :: "BmsSample \<Rightarrow> bool" where
  "sample_inv b \<longleftrightarrow>
     voltage_v b = None \<and> soc_fraction b = None \<and> current_a b = None \<and> last_frame_s b = None
   \<or> in_range 0 6554 (voltage_v b) \<and> in_range 0 1 (soc_fraction b) \<and> in_range (- 3554) 3554 (current_a b)
     \<and> (\<exists>t. last_frame_s b = Some t \<and> isfinite t)"

definition cells_inv :: "PackState \<Rightarrow> bool" where
  "cells_inv s \<longleftrightarrow> length (cell_voltage_v s) = 48 \<and> length (cell_frame_s s) = 16
     \<and> (\<forall>k < 48. cell_frame_s s ! (k div 3) \<noteq> None \<longrightarrow> in_range 0 66 (cell_voltage_v s ! k))"

definition pack_inv :: "PackState \<Rightarrow> bool" where
  "pack_inv s \<longleftrightarrow> sample_inv (sample s) \<and> cells_inv s \<and> length (fault_bytes s) = 8
     \<and> (\<forall>n. cell_count s = Some n \<longrightarrow> 0 < n \<and> n \<le> 48)"

lemma representable_int: "\<bar>n\<bar> < 2 ^ 53 \<Longrightarrow> representable (of_int n)"
  using f64_of_int_exact [of n] by (simp add: representable_def f64_of_int_def)

lemma u16_exact:
  obtains n where "f64_of_int (uint (w :: u16)) = Fin (of_int n)" "n = uint w" "0 \<le> n" "n \<le> 65535"
proof
  have "uint w < 2 ^ 16" using uint_lt2p [of w] by simp
  then show "uint w \<le> 65535" by simp
  then show "f64_of_int (uint w) = Fin (of_int (uint w))" by (intro f64_of_int_exact) simp
qed simp_all

text \<open>The doubles nearest to \<open>0.1\<close> and \<open>0.001\<close>, also as equations to compute with.\<close>

lemma tenth_exact [code_unfold]: "f64_round (1 / 10) = Fin (3602879701896397 / 36028797018963968)"
proof -
  have "ilog2 (1 / 10) = - 4" by (rule ilog2_eqI) (simp_all add: power_int_def power_one_over)
  moreover have "\<lfloor>36028797018963968 / 5 :: rat\<rfloor> = 7205759403792793" by (rule floor_unique) simp_all
  ultimately show ?thesis
    by (simp add: f64_round_def round_half_even_def Let_def power_int_def power_one_over)
qed

lemma thousandth_exact [code_unfold]: "f64_round (1 / 1000) = Fin (1152921504606847 / 1152921504606846976)"
proof -
  have "ilog2 (1 / 1000) = - 10" by (rule ilog2_eqI) (simp_all add: power_int_def power_one_over)
  moreover have "\<lfloor>576460752303423488 / 125 :: rat\<rfloor> = 4611686018427387" by (rule floor_unique) simp_all
  ultimately show ?thesis
    by (simp add: f64_round_def round_half_even_def Let_def power_int_def power_one_over)
qed

lemma tenth:
  obtains q where "f64_round (1 / 10) = Fin q" "0 \<le> q" "q \<le> 3602879701896397 / 36028797018963968"
  by (rule that [OF tenth_exact]) simp_all

lemma round_within:
  assumes "0 \<le> x" "x \<le> of_int n" "\<bar>n\<bar> < 2 ^ 53"
  obtains r where "f64_round x = Fin r" "0 \<le> r" "r \<le> of_int n"
  using f64_round_bounded' [OF representable_int [OF assms(3)] assms(1,2)] by blast

lemma sample_voltage: "in_range 0 6554 (Some (f64_mul (f64_of_int (uint (w :: u16))) (f64_round (1 / 10))))"
proof -
  obtain n where n: "f64_of_int (uint w) = Fin (of_int n)" "0 \<le> n" "n \<le> 65535" by (rule u16_exact)
  obtain q where q: "f64_round (1 / 10) = Fin q" "0 \<le> q" "q \<le> 3602879701896397 / 36028797018963968"
    by (rule tenth)
  have "of_int n * q \<le> 65535 * (3602879701896397 / 36028797018963968)"
    using n q by (intro mult_mono) (simp_all add: of_int_le_numeral_iff)
  then have hi: "of_int n * q \<le> of_int 6554" by simp
  have lo: "0 \<le> of_int n * q" using n q by simp
  obtain r where "f64_round (of_int n * q) = Fin r" "0 \<le> r" "r \<le> of_int 6554"
    by (rule round_within [OF lo hi]) simp_all
  then show ?thesis by (simp add: n q)
qed

lemma sample_current:
  "in_range (- 3554) 3554
     (Some (f64_mul (f64_sub (f64_of_int (uint (w :: u16))) (Fin 30000)) (f64_round (1 / 10))))"
proof -
  obtain n where n: "f64_of_int (uint w) = Fin (of_int n)" "0 \<le> n" "n \<le> 65535" by (rule u16_exact)
  obtain q where q: "f64_round (1 / 10) = Fin q" "0 \<le> q" "q \<le> 3602879701896397 / 36028797018963968"
    by (rule tenth)
  have sub: "f64_sub (f64_of_int (uint w)) (Fin 30000) = Fin (of_int (n - 30000))"
    using f64_of_int_exact [of "n - 30000"] n by (simp add: f64_sub_def f64_of_int_def)
  have "\<bar>of_int (n - 30000) * q\<bar> = of_int \<bar>n - 30000\<bar> * q"
    using q by (simp add: abs_mult)
  also have "\<dots> \<le> 35535 * (3602879701896397 / 36028797018963968)"
    using n q by (intro mult_mono) (simp_all add: of_int_le_numeral_iff)
  finally have le: "\<bar>of_int (n - 30000) * q\<bar> \<le> of_int 3554" by simp
  from f64_round_bounded [OF representable_int this] obtain r where
    "f64_round (of_int (n - 30000) * q) = Fin r" "\<bar>r\<bar> \<le> of_int 3554" by auto
  then show ?thesis by (simp add: sub q abs_le_iff)
qed

lemma sample_soc:
  assumes "w \<le> kMaximumSocRaw"
  shows "in_range 0 1 (Some (f64_div (f64_of_int (uint w)) (Fin 1000)))"
proof -
  obtain n where n: "f64_of_int (uint w) = Fin (of_int n)" "n = uint w" "0 \<le> n" by (rule u16_exact)
  have "n \<le> 1000" using assms n(2) by (simp add: kMaximumSocRaw_def word_le_def)
  then have hi: "of_int n / 1000 \<le> (of_int 1 :: rat)" by (simp add: pos_divide_le_eq)
  have lo: "0 \<le> (of_int n / 1000 :: rat)" using n(3) by (simp add: n(3))
  obtain r where "f64_round (of_int n / 1000) = Fin r" "0 \<le> r" "r \<le> of_int 1"
    by (rule round_within [OF lo hi]) simp_all
  then show ?thesis by (simp add: n(1))
qed

lemma cell_millivolts: "in_range 0 66 (Some (millivolts data offset order))"
proof -
  obtain n where n: "f64_of_int (uint (decode_u16 data offset order)) = Fin (of_int n)" "0 \<le> n" "n \<le> 65535"
    by (rule u16_exact)
  have hi: "of_int n / 1000 \<le> (of_int 66 :: rat)"
    using n by (simp add: pos_divide_le_eq)
  have lo: "0 \<le> (of_int n / 1000 :: rat)" using n by simp
  obtain r where "f64_round (of_int n / 1000) = Fin r" "0 \<le> r" "r \<le> of_int 66"
    by (rule round_within [OF lo hi]) simp_all
  then show ?thesis by (simp add: millivolts_def n)
qed

subsection \<open>The invariant of a pack\<close>

lemma store_sample_inv:
  assumes "decode_u16 data 6 order \<le> kMaximumSocRaw" "isfinite now_s"
  shows "sample_inv (store_sample data order now_s b)"
  using assms sample_voltage sample_current sample_soc
  by (simp add: sample_inv_def store_sample_def)

lemma decoder_ingest_inv:
  assumes "sample_inv b"
  shows "sample_inv (snd (snd (decoder_ingest can_id payload now_s d b)))"
proof -
  have soc: "\<not> kMaximumSocRaw < decode_u16 data 6 order \<Longrightarrow> decode_u16 data 6 order \<le> kMaximumSocRaw"
    for data order by simp
  show ?thesis
    unfolding decoder_ingest_def
    by (simp add: assms store_sample_inv soc split: option.split)
qed

lemma store_cell_frame_inv:
  assumes "cells_inv s" "unat (data ! 0) < 16"
  shows "cells_inv (store_cell_frame data order now_s s)"
proof -
  let ?f = "unat (data ! 0)"
  have "in_range 0 66 (cell_voltage_v (store_cell_frame data order now_s s) ! k)"
    if k: "k < 48" "cell_frame_s (store_cell_frame data order now_s s) ! (k div 3) \<noteq> None" for k
  proof (cases "k div 3 = ?f")
    case True
    then have "k = 3 * ?f \<or> k = Suc (3 * ?f) \<or> k = Suc (Suc (3 * ?f))" by presburger
    with assms k(1) show ?thesis
      by (auto simp: store_cell_frame_def Let_def upt_rec nth_list_update cells_inv_def
          cell_millivolts mult.commute)
  next
    case False
    then have "k \<noteq> ?f * 3" "k \<noteq> ?f * 3 + 1" "k \<noteq> ?f * 3 + 2" by auto
    with False assms k show ?thesis
      by (auto simp: store_cell_frame_def Let_def upt_rec nth_list_update cells_inv_def)
  qed
  moreover have "length (cell_voltage_v (store_cell_frame data order now_s s)) = 48"
    "length (cell_frame_s (store_cell_frame data order now_s s)) = 16"
    using assms(1) by (simp_all add: store_cell_frame_def Let_def upt_rec cells_inv_def)
  ultimately show ?thesis by (simp add: cells_inv_def)
qed

lemma store_cell_frame_rest [simp]:
  "sample (store_cell_frame data order now_s s) = sample s"
  "fault_bytes (store_cell_frame data order now_s s) = fault_bytes s"
  "cell_count (store_cell_frame data order now_s s) = cell_count s"
  by (simp_all add: store_cell_frame_def Let_def)

lemma begin_cell_scan_inv: "cells_inv s \<Longrightarrow> cells_inv (begin_cell_scan s)"
  by (simp add: cells_inv_def begin_cell_scan_def)

lemma cells_inv_cong:
  "cell_voltage_v s = cell_voltage_v t \<Longrightarrow> cell_frame_s s = cell_frame_s t \<Longrightarrow> cells_inv s = cells_inv t"
  by (simp add: cells_inv_def)

lemma store_pack_info_inv:
  assumes "pack_inv s" "data ! 0 \<noteq> 0" "\<not> 48 < data ! 0"
  shows "pack_inv (store_pack_info data now_s s)"
proof -
  have "cells_inv (store_pack_info data now_s s)"
    using assms(1) begin_cell_scan_inv [of s]
    by (cases "cell_count s = Some (data ! 0)")
      (simp_all add: store_pack_info_def pack_inv_def cells_inv_def)
  with assms show ?thesis
    by (auto simp: pack_inv_def store_pack_info_def Let_def begin_cell_scan_def word_neq_0_conv)
qed

lemma ingest_cells_inv:
  assumes "pack_inv s"
  shows "pack_inv (snd (ingest_cells can_id data now_s p s))"
proof -
  have "pack_inv (store_cell_frame data order now_s s)" if "\<not> length (cell_frame_s s) \<le> unat (data ! 0)" for order
    using assms that store_cell_frame_inv [of s data order now_s] by (simp add: pack_inv_def cells_inv_def)
  moreover have "pack_inv (s\<lparr>max_cell_voltage_v := a, min_cell_voltage_v := b, cell_extremes_s := c\<rparr>)" for a b c
    using assms by (simp add: pack_inv_def cells_inv_def)
  ultimately show ?thesis
    using assms by (simp add: ingest_cells_def split: option.split)
qed

lemma pack_ingest_inv:
  assumes "pack_inv s"
  shows "pack_inv (snd (snd (pack_ingest can_id payload now_s p s)))"
proof -
  have total: "pack_inv (s\<lparr>sample := snd (snd (decoder_ingest can_id payload now_s (total_decoder p) (sample s)))\<rparr>)"
    using assms decoder_ingest_inv by (simp add: pack_inv_def cells_inv_def)
  have small: "pack_inv (s\<lparr>operating_state_raw := a, charge_mos_raw := b, discharge_mos_raw := c, mos_frame_s := t\<rparr>)"
    "pack_inv (s\<lparr>max_cell_temperature_c := u, min_cell_temperature_c := v, temperature_frame_s := t\<rparr>)"
    "pack_inv (s\<lparr>discharge_ack_value := a, discharge_ack_s := t\<rparr>)"
    "length data = 8 \<Longrightarrow> pack_inv (s\<lparr>fault_bytes := data, fault_frame_s := t\<rparr>)" for a b c t u v data
    using assms by (simp_all add: pack_inv_def cells_inv_def)
  show ?thesis
    using assms total small store_pack_info_inv [OF assms] ingest_cells_inv [OF assms]
    by (simp add: pack_ingest_def Let_def split: option.split prod.split) (auto dest: sndI)
qed

lemma new_pack_state_inv: "pack_inv new_pack_state"
  by (simp add: new_pack_state_def pack_inv_def sample_inv_def cells_inv_def)

lemma pack_run_inv: "pack_inv s \<Longrightarrow> pack_inv (snd (pack_run fs (p, s)))"
proof (induction fs "(p, s)" arbitrary: p s rule: pack_run.induct)
  case (2 can_id payload now_s fs p s)
  then show ?case
    using pack_ingest_inv [OF 2(2), of can_id payload now_s p]
    by (cases "pack_ingest can_id payload now_s p s") auto
qed simp

text \<open>
  C30: the state of a pack keeps its ranges. Whatever frames arrive, in whatever order, a pack's
  sample is either absent as a whole or has a voltage in \<open>[0, 6554]\<close> V, a state of charge in
  \<open>[0, 1]\<close> and a current in \<open>[-3554, 3554]\<close> A, all finite, with a finite stamp; the cell count is
  between 1 and 48; and a stamped cell frame has all three of its cell voltages, so the accesses
  to optional cell voltages behind \<open>cells_fresh\<close> never find an empty one.
\<close>

theorem pack_state_stays_in_range:
  "pack_inv (snd (pack_run fs (new_pack order bms host, new_pack_state)))"
  by (rule pack_run_inv) (rule new_pack_state_inv)

text \<open>
  C31: the packs do not mix. The state of a pack is the one it would have if the bus carried its
  own frames only: frames with another source address have no effect.
\<close>

theorem packs_do_not_mix:
  "pack_run fs (new_pack order bms host, s) =
     pack_run (filter (\<lambda>(can_id, _). ucast can_id = bms) fs) (new_pack order bms host, s)"
proof -
  have "pack_run fs (p, s) = pack_run (filter (\<lambda>(can_id, _). ucast can_id = bms_address p) fs) (p, s)" for p
  proof (induction fs "(p, s)" arbitrary: p s rule: pack_run.induct)
    case (2 can_id payload now_s fs p s)
    obtain ok p1 s1 where step: "pack_ingest can_id payload now_s p s = (ok, p1, s1)"
      by (cases "pack_ingest can_id payload now_s p s") auto
    have "bms_address p1 = bms_address p"
      using pack_ingest_address(1) [of can_id payload now_s p s] step by simp
    with 2 [of p1 s1] step show ?case
      by (cases "ucast can_id = bms_address p") (simp_all add: foreign_ignored)
  qed simp
  from this [of "new_pack order bms host"] show ?thesis by simp
qed

subsection \<open>The byte order\<close>

text \<open>Total-status readings of a pack: raw voltage, a field that is not used, current, charge; and time.\<close>

type_synonym reading = "u16 \<times> u16 \<times> u16 \<times> u16 \<times> f64"

fun total_frame :: "ByteOrder \<Rightarrow> reading \<Rightarrow> u8 list" where
  "total_frame order (v, x, c, soc, t) = put_u16 order v @ put_u16 order x @ put_u16 order c @ put_u16 order soc"

fun shows_reading :: "BmsSample \<Rightarrow> reading \<Rightarrow> bool" where
  "shows_reading b (v, x, c, soc, t) \<longleftrightarrow>
     voltage_v b = Some (f64_mul (f64_of_int (uint v)) (f64_round (1 / 10)))
   \<and> soc_fraction b = Some (f64_div (f64_of_int (uint soc)) (Fin 1000))
   \<and> current_a b = Some (f64_mul (f64_sub (f64_of_int (uint c)) (Fin 30000)) (f64_round (1 / 10)))
   \<and> last_frame_s b = Some t"

definition charge :: "reading \<Rightarrow> u16" where "charge = fst \<circ> snd \<circ> snd \<circ> snd"

definition hear :: "ByteOrder \<Rightarrow> reading \<Rightarrow> GoldenPhoenixDecoder \<times> BmsSample \<Rightarrow> bool \<times> GoldenPhoenixDecoder \<times> BmsSample" where
  "hear order r = (\<lambda>(d, b). decoder_ingest (response_id d) (Some (total_frame order r)) (snd (snd (snd (snd r)))) d b)"

definition hear_all :: "ByteOrder \<Rightarrow> reading list \<Rightarrow> GoldenPhoenixDecoder \<times> BmsSample \<Rightarrow> GoldenPhoenixDecoder \<times> BmsSample" where
  "hear_all order rs = fold (\<lambda>r db. snd (hear order r db)) rs"

lemma length_put_u16 [simp]: "length (put_u16 order v) = 2"
  by (simp add: put_u16_def)

lemma decode_total:
  "decode_u16 (total_frame order (v, x, c, soc, t)) 0 order = v"
  "decode_u16 (total_frame order (v, x, c, soc, t)) 4 order = c"
  "decode_u16 (total_frame order (v, x, c, soc, t)) 6 order = soc"
  using decode_put_u16 [of "[]" order v] decode_put_u16 [of "put_u16 order v @ put_u16 order x" order c]
    decode_put_u16 [of "put_u16 order v @ put_u16 order x @ put_u16 order c" order soc "[]"]
  by simp_all

lemma detect_spoken:
  assumes "detect_order (total_frame order r) = Some o'" "charge r \<le> kMaximumSocRaw" "order \<noteq> kAuto"
  shows "o' = order"
proof -
  obtain v x c soc t where r: "r = (v, x, c, soc, t)" by (cases r) auto
  have "decode_u16 (total_frame order r) 6 order \<le> kMaximumSocRaw"
    using assms(2) by (simp only: r decode_total) (simp add: charge_def)
  with assms(1,3) show ?thesis
    by (cases order) (auto simp: detect_order_def Let_def split: if_splits)
qed

lemma hear_step:
  assumes "resolved_order d \<in> {None, Some order}" "charge r \<le> kMaximumSocRaw" "order \<noteq> kAuto"
    and "hear order r (d, b) = (ok, d', b')"
  shows "resolved_order d' \<in> {None, Some order} \<and> (if ok then shows_reading b' r else b' = b)"
proof -
  obtain v x c soc t where r: "r = (v, x, c, soc, t)" by (cases r) auto
  have order: "o' = order"
    if "(case resolved_order d of Some x \<Rightarrow> Some x | None \<Rightarrow> detect_order (total_frame order r)) = Some o'" for o'
    using that assms(1-3) detect_spoken by (auto split: option.splits)
  have shown: "shows_reading (store_sample (total_frame order r) order t b) r"
    by (simp only: r shows_reading.simps) (simp add: store_sample_def decode_total del: total_frame.simps)
  show ?thesis
    using assms(1,4) order shown
    by (auto simp: hear_def decoder_ingest_def r simp del: shows_reading.simps total_frame.simps
        split: option.splits if_splits)
qed

text \<open>
  C29: a pack is never misread. A pack sends total-status readings in one byte order, with states
  of charge up to 100 percent, to a decoder configured for that order or for automatic
  detection. The decoder never settles on the other order, and what it shows is always exactly
  one of the readings that were sent (or still the initial sample).
\<close>

theorem pack_is_never_misread:
  assumes "order \<noteq> kAuto" "configured = order \<or> configured = kAuto"
    and "list_all (\<lambda>r. charge r \<le> kMaximumSocRaw) rs"
    and "hear_all order rs (new_decoder configured bms host, b0) = (d, b)"
  shows "resolved_order d \<in> {None, Some order} \<and> (b = b0 \<or> list_ex (shows_reading b) rs)"
proof -
  have "resolved_order d' \<in> {None, Some order} \<Longrightarrow> list_all (\<lambda>r. charge r \<le> kMaximumSocRaw) rs \<Longrightarrow>
      hear_all order rs (d', b') = (d, b) \<Longrightarrow>
      resolved_order d \<in> {None, Some order} \<and> (b = b' \<or> list_ex (shows_reading b) rs)" for d' b'
  proof (induction rs arbitrary: d' b')
    case (Cons r rs)
    obtain ok d1 b1 where h: "hear order r (d', b') = (ok, d1, b1)" by (cases "hear order r (d', b')") auto
    from hear_step [OF Cons.prems(1) _ assms(1) h] Cons.prems(2)
    have step: "resolved_order d1 \<in> {None, Some order}" "if ok then shows_reading b1 r else b1 = b'"
      by auto
    from Cons.IH [OF step(1)] Cons.prems(2,3) h
    have "resolved_order d \<in> {None, Some order} \<and> (b = b1 \<or> list_ex (shows_reading b) rs)"
      by (simp add: hear_all_def)
    with step(2) show ?case by (auto split: if_splits)
  qed (simp add: hear_all_def)
  from this [of "new_decoder configured bms host" b0] assms show ?thesis
    by (auto simp: new_decoder_def)
qed

lemma pack_is_never_misread_witness:
  "snd (hear_all kLittleEndian [(500, 0, 30000, 800, Fin 1)]
       (new_decoder kAuto 1 0x40, sample new_pack_state)) = sample new_pack_state
   \<or> list_ex (shows_reading (snd (hear_all kLittleEndian [(500, 0, 30000, 800, Fin 1)]
       (new_decoder kAuto 1 0x40, sample new_pack_state)))) [(500, 0, 30000, 800, Fin 1)]"
  using pack_is_never_misread [where order = kLittleEndian and configured = kAuto
      and rs = "[(500, 0, 30000, 800, Fin 1)]" and bms = 1 and host = "0x40" and ?b0.0 = "sample new_pack_state",
      OF _ _ _ prod.collapse [symmetric]]
  by (simp add: charge_def kMaximumSocRaw_def del: shows_reading.simps)

end
