(* ===== verification/RollingTypes.thy ===== *)
theory RollingTypes
  imports Float32
begin

text \<open>
  The data of \<open>ctrl_rolling_trajectory\<close> (\<open>rolling_types.hpp\<close>) and its joint list
  (\<open>axis_set.cpp\<close>). Session times are the 64-bit unsigned nanoseconds of the code. A trajectory
  image is the list of its effective points: the array behind it has 256 entries of which
  only the first \<open>point_count\<close> are ever copied or read.
\<close>

definition kAxisCount :: nat where "kAxisCount = 14"
definition kTransportMaxPoints :: nat where "kTransportMaxPoints = 256"

datatype RejectCode =
    Reject_kNone | kInvalidShape | kNonFinite | kNonMonotonicTime | kLateReplace | kTimeGap
  | kCapacityExceeded | kInsufficientHorizon | kPositionDiscontinuity | kVelocityDiscontinuity
  | kPositionLimit | kVelocityLimit | kAccelerationLimit | kNotStoppingViable
  | kSessionNotAccepting | kHorizonExceeded | kFinalNotAtRest

datatype SessionState =
    Session_kNone | kPriming | kRunning | Session_kStopping | Session_kHolding | kTerminated

datatype StopReason =
    Stop_kNone | kUpdateTimeout | kLowWater | kClockAnomaly | kInternalInvariant
  | kControllerDeactivated | kCompleted

text \<open>A null pointer is None; the count that goes with a pointer is the length of its list.\<close>

record PointView =
  pv_time_ns :: u64
  pv_positions :: "f64 list option"
  pv_velocities :: "f64 list option"

record BatchView =
  replace_from_ns :: u64
  bv_points :: "PointView list option"
  bv_final :: bool

record JointPoint =
  time_ns :: u64
  positions :: "f64 list"
  velocities :: "f64 list"

definition zero_axes :: "f64 list" where "zero_axes = replicate kAxisCount (Fin 0)"

definition new_joint_point :: JointPoint where
  "new_joint_point = \<lparr>time_ns = 0, positions = zero_axes, velocities = zero_axes\<rparr>"

record TrajectoryImage =
  points :: "JointPoint list"
  generation :: u64
  earliest_changed_ns :: u64
  im_final :: bool

definition new_image :: TrajectoryImage where
  "new_image = \<lparr>points = [], generation = 0, earliest_changed_ns = 0, im_final = False\<rparr>"

text \<open>Copying the effective part of an image is copying the image here.\<close>

definition copyTrajectoryImageEffective :: "TrajectoryImage \<Rightarrow> TrajectoryImage \<Rightarrow> TrajectoryImage" where
  "copyTrajectoryImageEffective source destination =
     destination\<lparr>points := points source, generation := generation source,
                 earliest_changed_ns := earliest_changed_ns source, im_final := im_final source\<rparr>"

lemma copy_image [simp]: "copyTrajectoryImageEffective source destination = source"
  by (simp add: copyTrajectoryImageEffective_def)

definition axis_indices :: "nat list" where "axis_indices = [0..<kAxisCount]"

text \<open>The joint names in protocol order, or the error.\<close>

definition parseJointNames :: "string list \<Rightarrow> string + string list" where
  "parseJointNames vs =
    (if length vs \<noteq> kAxisCount then Inl ''joints must contain exactly 14 names in protocol axis order''
     else if card (set vs) \<noteq> kAxisCount then Inl ''joints must be distinct''
     else if list_ex (\<lambda>axis. vs ! axis = []) axis_indices then Inl ''joints must not contain an empty name''
     else Inr (map (\<lambda>axis. vs ! axis) axis_indices))"

end
