(* ===== verification/RollingLimits.thy ===== *)
theory RollingLimits
  imports RollingTypes FloatOps
begin

text \<open>
  The cubic segments of \<open>ctrl_rolling_trajectory\<close> (\<open>cubic_hermite.cpp\<close>) and the limit checker
  (\<open>limit_checker.cpp\<close>). Every double operation is the rounded one, in the order of the source and
  without contraction. An operation that returns false and leaves its output parameter alone
  returns None.
\<close>

subsection \<open>Cubic segments\<close>

text \<open>\<open>64 * epsilon\<close>, a power of two.\<close>

definition kNormalizedRootTolerance :: f64 where
  "kNormalizedRootTolerance = Fin (1 / 70368744177664)"

record CubicHermite =
  start_position :: f64
  start_velocity :: f64
  end_position :: f64
  end_velocity :: f64
  duration_seconds :: f64
  c0 :: f64
  c1 :: f64
  c2 :: f64
  c3 :: f64

record ScalarKinematicState =
  ks_position :: f64
  ks_velocity :: f64
  ks_acceleration :: f64

record ScalarKinematicExtrema =
  position_min :: f64
  position_max :: f64
  velocity_positive :: f64
  velocity_negative :: f64
  acceleration_positive :: f64
  acceleration_negative :: f64

definition allFinite :: "CubicHermite \<Rightarrow> bool" where
  "allFinite s \<longleftrightarrow> isfinite (start_position s) \<and> isfinite (start_velocity s) \<and> isfinite (end_position s)
     \<and> isfinite (end_velocity s) \<and> isfinite (duration_seconds s) \<and> f64_less (Fin 0) (duration_seconds s)
     \<and> isfinite (c0 s) \<and> isfinite (c1 s) \<and> isfinite (c2 s) \<and> isfinite (c3 s)"

definition normalizedCandidate :: "f64 \<Rightarrow> f64 option" where
  "normalizedCandidate z =
    (if \<not> isfinite z \<or> f64_less z (f64_neg kNormalizedRootTolerance)
        \<or> f64_less (f64_add (Fin 1) kNormalizedRootTolerance) z
     then None else Some (std_clamp z (Fin 0) (Fin 1)))"

definition realRoots :: "f64 \<Rightarrow> f64 \<Rightarrow> f64 \<Rightarrow> f64 list" where
  "realRoots quadratic lin constant =
    (let scale = std_max (std_max (f64_abs quadratic) (f64_abs lin)) (f64_abs constant)
     in if \<not> isfinite scale \<or> f64_eq scale (Fin 0) then []
        else let a = f64_div quadratic scale; b = f64_div lin scale; c = f64_div constant scale
        in if f64_le (f64_abs a) kNormalizedRootTolerance
           then (if f64_less kNormalizedRootTolerance (f64_abs b) then [f64_div (f64_neg c) b] else [])
           else let d0 = f64_fma (f64_mul (Fin (- 4)) a) c (f64_mul b b);
                    discriminant_scale = f64_add (f64_mul b b) (f64_abs (f64_mul (f64_mul (Fin 4) a) c));
                    discriminant = (if f64_less d0 (Fin 0)
                         \<and> f64_le (f64_neg d0) (f64_mul kNormalizedRootTolerance discriminant_scale)
                       then Fin 0 else d0)
           in if f64_less discriminant (Fin 0) \<or> \<not> isfinite discriminant then []
              else let square_root = f64_sqrt discriminant
              in if f64_eq square_root (Fin 0) then [f64_div (f64_neg b) (f64_mul (Fin 2) a)]
                 else let q = f64_mul (Fin (- 1 / 2)) (f64_add b (f64_copysign square_root b))
                 in f64_div q a # (if \<not> f64_eq q (Fin 0) then [f64_div c q] else []))"

definition buildCubicHermite :: "f64 \<Rightarrow> f64 \<Rightarrow> f64 \<Rightarrow> f64 \<Rightarrow> f64 \<Rightarrow> CubicHermite option" where
  "buildCubicHermite sp sv ep ev d =
    (if \<not> isfinite sp \<or> \<not> isfinite sv \<or> \<not> isfinite ep \<or> \<not> isfinite ev \<or> \<not> isfinite d \<or> f64_le d (Fin 0)
     then None
     else let candidate = \<lparr>start_position = sp, start_velocity = sv, end_position = ep, end_velocity = ev,
                duration_seconds = d, c0 = sp, c1 = f64_mul d sv,
                c2 = f64_sub (f64_add (f64_sub (f64_mul (Fin (- 3)) sp) (f64_mul (f64_mul (Fin 2) d) sv))
                                      (f64_mul (Fin 3) ep))
                             (f64_mul d ev),
                c3 = f64_add (f64_sub (f64_add (f64_mul (Fin 2) sp) (f64_mul d sv)) (f64_mul (Fin 2) ep))
                             (f64_mul d ev)\<rparr>
          in if \<not> allFinite candidate then None else Some candidate)"

definition cubic_position :: "CubicHermite \<Rightarrow> f64 \<Rightarrow> f64" where
  "cubic_position s u =
    (if f64_eq u (Fin 0) then start_position s
     else if f64_eq u (Fin 1) then end_position s
     else f64_add (f64_mul (f64_add (f64_mul (f64_add (f64_mul (c3 s) u) (c2 s)) u) (c1 s)) u) (c0 s))"

definition cubic_velocity :: "CubicHermite \<Rightarrow> f64 \<Rightarrow> f64" where
  "cubic_velocity s u =
    (if f64_eq u (Fin 0) then start_velocity s
     else if f64_eq u (Fin 1) then end_velocity s
     else f64_div (f64_add (f64_mul (f64_add (f64_mul (f64_mul (Fin 3) (c3 s)) u) (f64_mul (Fin 2) (c2 s))) u) (c1 s))
                  (duration_seconds s))"

definition cubic_acceleration :: "CubicHermite \<Rightarrow> f64 \<Rightarrow> f64" where
  "cubic_acceleration s u =
     f64_div (f64_add (f64_mul (Fin 2) (c2 s)) (f64_mul (f64_mul (Fin 6) (c3 s)) u))
             (f64_mul (duration_seconds s) (duration_seconds s))"

definition sampleCubicHermite :: "CubicHermite \<Rightarrow> f64 \<Rightarrow> ScalarKinematicState option" where
  "sampleCubicHermite s u =
    (if \<not> allFinite s \<or> \<not> isfinite u \<or> f64_less u (Fin 0) \<or> f64_less (Fin 1) u then None
     else let candidate = \<lparr>ks_position = cubic_position s u, ks_velocity = cubic_velocity s u,
                           ks_acceleration = cubic_acceleration s u\<rparr>
          in if \<not> isfinite (ks_position candidate) \<or> \<not> isfinite (ks_velocity candidate)
                \<or> \<not> isfinite (ks_acceleration candidate) then None else Some candidate)"

definition addExtremumCandidate ::
  "CubicHermite \<Rightarrow> f64 \<Rightarrow> ScalarKinematicExtrema \<Rightarrow> ScalarKinematicExtrema option" where
  "addExtremumCandidate s z ex =
    (case normalizedCandidate z of None \<Rightarrow> Some ex
     | Some u \<Rightarrow> (case sampleCubicHermite s u of None \<Rightarrow> None
        | Some k \<Rightarrow> Some (ex\<lparr>position_min := std_min (position_min ex) (ks_position k),
                            position_max := std_max (position_max ex) (ks_position k)\<rparr>)))"

definition addVelocityCandidate ::
  "CubicHermite \<Rightarrow> f64 \<Rightarrow> ScalarKinematicExtrema \<Rightarrow> ScalarKinematicExtrema option" where
  "addVelocityCandidate s z ex =
    (case normalizedCandidate z of None \<Rightarrow> Some ex
     | Some u \<Rightarrow> (case sampleCubicHermite s u of None \<Rightarrow> None
        | Some k \<Rightarrow> Some (ex\<lparr>velocity_positive := std_max (velocity_positive ex) (ks_velocity k),
                            velocity_negative := std_max (velocity_negative ex) (f64_neg (ks_velocity k))\<rparr>)))"

fun add_roots ::
  "(f64 \<Rightarrow> ScalarKinematicExtrema \<Rightarrow> ScalarKinematicExtrema option) \<Rightarrow> f64 list \<Rightarrow>
     ScalarKinematicExtrema \<Rightarrow> ScalarKinematicExtrema option" where
  "add_roots add [] ex = Some ex"
| "add_roots add (r # rs) ex = (case add r ex of None \<Rightarrow> None | Some ex' \<Rightarrow> add_roots add rs ex')"

definition extrema_finite :: "ScalarKinematicExtrema \<Rightarrow> bool" where
  "extrema_finite ex \<longleftrightarrow> isfinite (position_min ex) \<and> isfinite (position_max ex)
     \<and> isfinite (velocity_positive ex) \<and> isfinite (velocity_negative ex)
     \<and> isfinite (acceleration_positive ex) \<and> isfinite (acceleration_negative ex)"

definition max3 :: "f64 \<Rightarrow> f64 \<Rightarrow> f64 \<Rightarrow> f64" where
  "max3 a b c = std_max (std_max a b) c"

definition end_extrema :: "ScalarKinematicState \<Rightarrow> ScalarKinematicState \<Rightarrow> ScalarKinematicExtrema" where
  "end_extrema s e =
     \<lparr>position_min = std_min (ks_position s) (ks_position e),
      position_max = std_max (ks_position s) (ks_position e),
      velocity_positive = max3 (ks_velocity s) (ks_velocity e) (Fin 0),
      velocity_negative = max3 (f64_neg (ks_velocity s)) (f64_neg (ks_velocity e)) (Fin 0),
      acceleration_positive = max3 (ks_acceleration s) (ks_acceleration e) (Fin 0),
      acceleration_negative = max3 (f64_neg (ks_acceleration s)) (f64_neg (ks_acceleration e)) (Fin 0)\<rparr>"

definition computeCubicHermiteExtrema :: "CubicHermite \<Rightarrow> ScalarKinematicExtrema option" where
  "computeCubicHermiteExtrema s =
    (case (sampleCubicHermite s (Fin 0), sampleCubicHermite s (Fin 1)) of
       (Some st, Some en) \<Rightarrow>
         (case add_roots (addExtremumCandidate s)
                 (realRoots (f64_mul (Fin 3) (c3 s)) (f64_mul (Fin 2) (c2 s)) (c1 s)) (end_extrema st en) of
            None \<Rightarrow> None
          | Some ex1 \<Rightarrow>
              (case add_roots (addVelocityCandidate s)
                      (realRoots (Fin 0) (f64_mul (Fin 6) (c3 s)) (f64_mul (Fin 2) (c2 s))) ex1 of
                 None \<Rightarrow> None
               | Some ex2 \<Rightarrow>
                   let ex = ex2\<lparr>velocity_positive := std_max (velocity_positive ex2) (Fin 0),
                                velocity_negative := std_max (velocity_negative ex2) (Fin 0)\<rparr>
                   in if \<not> extrema_finite ex then None else Some ex))
     | _ \<Rightarrow> None)"

subsection \<open>The limit checker\<close>

record AxisEnvelope =
  position_lower :: f64
  position_upper :: f64
  env_velocity_positive :: f64
  env_velocity_negative :: f64
  env_acceleration_positive :: f64
  env_acceleration_negative :: f64
  stop_acceleration_positive :: f64
  stop_acceleration_negative :: f64
  position_margin_lower :: f64
  position_margin_upper :: f64

type_synonym DynamicEnvelope = "AxisEnvelope list"
type_synonym SegmentExtrema = "ScalarKinematicExtrema list"

text \<open>The code, and the axis it is about (14 for none).\<close>

type_synonym SegmentCheckResult = "RejectCode \<times> nat"

record StoppingEnvelope =
  stop_duration_seconds :: f64
  lower_positions :: "f64 list"
  upper_positions :: "f64 list"

record LimitChecker =
  envelope :: DynamicEnvelope
  configured :: bool

definition safe_lower :: "AxisEnvelope \<Rightarrow> f64" where
  "safe_lower l = f64_add (position_lower l) (position_margin_lower l)"

definition safe_upper :: "AxisEnvelope \<Rightarrow> f64" where
  "safe_upper l = f64_sub (position_upper l) (position_margin_upper l)"

definition validAxisEnvelope :: "AxisEnvelope \<Rightarrow> bool" where
  "validAxisEnvelope l =
    (if \<not> (isfinite (position_lower l) \<and> isfinite (position_upper l) \<and> isfinite (env_velocity_positive l)
           \<and> isfinite (env_velocity_negative l) \<and> isfinite (env_acceleration_positive l)
           \<and> isfinite (env_acceleration_negative l) \<and> isfinite (stop_acceleration_positive l)
           \<and> isfinite (stop_acceleration_negative l) \<and> isfinite (position_margin_lower l)
           \<and> isfinite (position_margin_upper l)) then False
     else if f64_le (position_upper l) (position_lower l) \<or> f64_le (env_velocity_positive l) (Fin 0)
        \<or> f64_le (env_velocity_negative l) (Fin 0) \<or> f64_le (env_acceleration_positive l) (Fin 0)
        \<or> f64_le (env_acceleration_negative l) (Fin 0) \<or> f64_le (stop_acceleration_positive l) (Fin 0)
        \<or> f64_le (stop_acceleration_negative l) (Fin 0) \<or> f64_less (position_margin_lower l) (Fin 0)
        \<or> f64_less (position_margin_upper l) (Fin 0) then False
     else isfinite (safe_lower l) \<and> isfinite (safe_upper l) \<and> f64_less (safe_lower l) (safe_upper l))"

definition validEnvelope :: "DynamicEnvelope \<Rightarrow> bool" where
  "validEnvelope env \<longleftrightarrow> list_all validAxisEnvelope env"

definition limit_configure :: "DynamicEnvelope \<Rightarrow> LimitChecker \<Rightarrow> bool \<times> LimitChecker" where
  "limit_configure env l =
    (if \<not> validEnvelope env then (False, l\<lparr>configured := False\<rparr>)
     else (True, l\<lparr>envelope := env, configured := True\<rparr>))"

definition duration_of_ns :: "u64 \<Rightarrow> f64" where
  "duration_of_ns ns = f64_mul (f64_of_int (uint ns)) (f64_round (1 / 1000000000))"

definition axis_extrema :: "JointPoint \<Rightarrow> JointPoint \<Rightarrow> f64 \<Rightarrow> nat \<Rightarrow> ScalarKinematicExtrema option" where
  "axis_extrema start finish d axis =
    (case buildCubicHermite (positions start ! axis) (velocities start ! axis) (positions finish ! axis)
            (velocities finish ! axis) d of
       None \<Rightarrow> None | Some segment \<Rightarrow> computeCubicHermiteExtrema segment)"

text \<open>A loop over the axes that returns a code at the first axis with a property.\<close>

definition first_axis :: "(nat \<Rightarrow> bool) \<Rightarrow> nat option" where
  "first_axis P = find P axis_indices"

definition checkSegment ::
  "LimitChecker \<Rightarrow> JointPoint \<Rightarrow> JointPoint \<Rightarrow> SegmentExtrema \<Rightarrow> SegmentCheckResult \<times> SegmentExtrema" where
  "checkSegment l start finish extrema =
    (if \<not> configured l then ((kSessionNotAccepting, kAxisCount), extrema)
     else if time_ns finish \<le> time_ns start then ((kNonMonotonicTime, kAxisCount), extrema)
     else let d = duration_of_ns (time_ns finish - time_ns start) in
       case first_axis (\<lambda>axis. axis_extrema start finish d axis = None) of
         Some axis \<Rightarrow> ((kNonFinite, axis), extrema)
       | None \<Rightarrow>
           let candidate = map (\<lambda>axis. the (axis_extrema start finish d axis)) axis_indices in
           case first_axis (\<lambda>axis. f64_less (position_min (candidate ! axis)) (safe_lower (envelope l ! axis))
                  \<or> f64_less (safe_upper (envelope l ! axis)) (position_max (candidate ! axis))) of
             Some axis \<Rightarrow> ((kPositionLimit, axis), candidate)
           | None \<Rightarrow>
             (case first_axis (\<lambda>axis.
                 f64_less (env_velocity_positive (envelope l ! axis)) (velocity_positive (candidate ! axis))
               \<or> f64_less (env_velocity_negative (envelope l ! axis)) (velocity_negative (candidate ! axis))) of
                Some axis \<Rightarrow> ((kVelocityLimit, axis), candidate)
              | None \<Rightarrow>
                (case first_axis (\<lambda>axis.
                    f64_less (env_acceleration_positive (envelope l ! axis)) (acceleration_positive (candidate ! axis))
                  \<or> f64_less (env_acceleration_negative (envelope l ! axis)) (acceleration_negative (candidate ! axis))) of
                   Some axis \<Rightarrow> ((kAccelerationLimit, axis), candidate)
                 | None \<Rightarrow> ((Reject_kNone, kAxisCount), candidate))))"

definition stopping_duration :: "LimitChecker \<Rightarrow> SegmentExtrema \<Rightarrow> f64" where
  "stopping_duration l extrema =
     fold (\<lambda>axis d. std_max (std_max d (f64_div (velocity_positive (extrema ! axis))
                                              (stop_acceleration_positive (envelope l ! axis))))
                            (f64_div (velocity_negative (extrema ! axis))
                                     (stop_acceleration_negative (envelope l ! axis))))
       axis_indices (Fin 0)"

definition checkStoppingViability ::
  "LimitChecker \<Rightarrow> SegmentExtrema \<Rightarrow> StoppingEnvelope \<Rightarrow> SegmentCheckResult \<times> StoppingEnvelope" where
  "checkStoppingViability l extrema stopping =
    (if \<not> configured l then ((kSessionNotAccepting, kAxisCount), stopping)
     else case first_axis (\<lambda>axis. \<not> isfinite (position_min (extrema ! axis)) \<or> \<not> isfinite (position_max (extrema ! axis))
              \<or> \<not> isfinite (velocity_positive (extrema ! axis)) \<or> \<not> isfinite (velocity_negative (extrema ! axis))
              \<or> f64_less (velocity_positive (extrema ! axis)) (Fin 0)
              \<or> f64_less (velocity_negative (extrema ! axis)) (Fin 0)) of
         Some axis \<Rightarrow> ((kNonFinite, axis), stopping)
       | None \<Rightarrow>
         let d = stopping_duration l extrema in
         if \<not> isfinite d then ((kNonFinite, kAxisCount), stopping)
         else
           let lower = map (\<lambda>axis. f64_sub (position_min (extrema ! axis))
                  (f64_mul (f64_mul (Fin (1 / 2)) (velocity_negative (extrema ! axis))) d)) axis_indices;
               upper = map (\<lambda>axis. f64_add (position_max (extrema ! axis))
                  (f64_mul (f64_mul (Fin (1 / 2)) (velocity_positive (extrema ! axis))) d)) axis_indices;
               candidate = \<lparr>stop_duration_seconds = d, lower_positions = lower, upper_positions = upper\<rparr>
           in case first_axis (\<lambda>axis. \<not> isfinite (lower ! axis) \<or> \<not> isfinite (upper ! axis)) of
                Some axis \<Rightarrow> ((kNonFinite, axis), stopping)
              | None \<Rightarrow>
                (case first_axis (\<lambda>axis. f64_less (lower ! axis) (safe_lower (envelope l ! axis))
                        \<or> f64_less (safe_upper (envelope l ! axis)) (upper ! axis)) of
                   Some axis \<Rightarrow> ((kNotStoppingViable, axis), candidate)
                 | None \<Rightarrow> ((Reject_kNone, kAxisCount), candidate)))"

definition checkSpliceContinuity ::
  "JointPoint \<Rightarrow> JointPoint \<Rightarrow> f64 list \<Rightarrow> f64 list \<Rightarrow> RejectCode" where
  "checkSpliceContinuity expected replacement position_tolerance velocity_tolerance =
    (if first_axis (\<lambda>a. \<not> isfinite (positions expected ! a) \<or> \<not> isfinite (velocities expected ! a)
          \<or> \<not> isfinite (positions replacement ! a) \<or> \<not> isfinite (velocities replacement ! a)
          \<or> \<not> isfinite (position_tolerance ! a) \<or> \<not> isfinite (velocity_tolerance ! a)
          \<or> f64_less (position_tolerance ! a) (Fin 0) \<or> f64_less (velocity_tolerance ! a) (Fin 0)) \<noteq> None
     then kNonFinite
     else if first_axis (\<lambda>a. f64_less (position_tolerance ! a)
            (f64_abs (f64_sub (positions replacement ! a) (positions expected ! a)))) \<noteq> None
     then kPositionDiscontinuity
     else if first_axis (\<lambda>a. f64_less (velocity_tolerance ! a)
            (f64_abs (f64_sub (velocities replacement ! a) (velocities expected ! a)))) \<noteq> None
     then kVelocityDiscontinuity
     else Reject_kNone)"

end
