(* ===== verification/RollingBuffer.thy ===== *)
theory RollingBuffer
  imports RollingLimits
begin

text \<open>
  The plan of \<open>ctrl_rolling_trajectory\<close> (\<open>rolling_buffer.cpp\<close>): sampling of a trajectory image,
  directly and with the monotonic cursor of the control cycle, and the buffer that admits batches.
\<close>

subsection \<open>Sampling\<close>

definition copyPoint :: "PointView \<Rightarrow> JointPoint" where
  "copyPoint v = \<lparr>time_ns = pv_time_ns v, positions = take kAxisCount (the (pv_positions v)),
                  velocities = take kAxisCount (the (pv_velocities v))\<rparr>"

definition segment_state :: "JointPoint \<Rightarrow> JointPoint \<Rightarrow> f64 \<Rightarrow> f64 \<Rightarrow> nat \<Rightarrow> ScalarKinematicState option" where
  "segment_state start finish d u axis =
    (case buildCubicHermite (positions start ! axis) (velocities start ! axis) (positions finish ! axis)
            (velocities finish ! axis) d of
       None \<Rightarrow> None | Some segment \<Rightarrow> sampleCubicHermite segment u)"

definition sampleSegment :: "JointPoint \<Rightarrow> JointPoint \<Rightarrow> u64 \<Rightarrow> JointPoint option" where
  "sampleSegment start finish t =
    (let duration_ns = time_ns finish - time_ns start;
         d = duration_of_ns duration_ns;
         u = f64_div (f64_of_int (uint (t - time_ns start))) (f64_of_int (uint duration_ns))
     in if first_axis (\<lambda>axis. segment_state start finish d u axis = None) \<noteq> None then None
        else Some \<lparr>time_ns = t,
               positions = map (\<lambda>axis. ks_position (the (segment_state start finish d u axis))) axis_indices,
               velocities = map (\<lambda>axis. ks_velocity (the (segment_state start finish d u axis))) axis_indices\<rparr>)"

record MonotonicTrajectoryCursor =
  point_index :: nat
  cur_generation :: u64
  last_time_ns :: u64
  cur_initialized :: bool

definition new_cursor :: MonotonicTrajectoryCursor where
  "new_cursor = \<lparr>point_index = 0, cur_generation = 0, last_time_ns = 0, cur_initialized = False\<rparr>"

text \<open>The loop that moves an index to the last point not after a time.\<close>

function advance_index :: "JointPoint list \<Rightarrow> u64 \<Rightarrow> nat \<Rightarrow> nat" where
  "advance_index ps t i =
    (if i + 1 < length ps \<and> time_ns (ps ! (i + 1)) \<le> t then advance_index ps t (i + 1) else i)"
  by pat_completeness auto
termination by (relation "measure (\<lambda>(ps, t, i). length ps - i)") auto

declare advance_index.simps [simp del]

text \<open>The sampled point, the new cursor and the number of segments it moved on.\<close>

definition sampleTrajectoryImageMonotonic ::
  "TrajectoryImage \<Rightarrow> u64 \<Rightarrow> MonotonicTrajectoryCursor \<Rightarrow>
     (JointPoint \<times> MonotonicTrajectoryCursor \<times> nat) option" where
  "sampleTrajectoryImageMonotonic img t cursor =
    (let ps = points img in
     if ps = [] \<or> t < time_ns (ps ! 0) \<or> time_ns (ps ! (length ps - 1)) < t then None
     else let restart = (\<not> cur_initialized cursor \<or> cur_generation cursor \<noteq> generation img
                       \<or> t < last_time_ns cursor \<or> length ps \<le> point_index cursor);
              start = (if restart then 0 else point_index cursor);
              index = advance_index ps t start;
              moved = \<lparr>point_index = index, cur_generation = generation img, last_time_ns = t,
                       cur_initialized = True\<rparr>
          in if t = time_ns (ps ! index) then Some (ps ! index, moved, index - start)
             else if length ps \<le> index + 1 then None
             else case sampleSegment (ps ! index) (ps ! (index + 1)) t of
                    None \<Rightarrow> None | Some point \<Rightarrow> Some (point, moved, index - start))"

definition sampleTrajectoryImage :: "TrajectoryImage \<Rightarrow> u64 \<Rightarrow> JointPoint option" where
  "sampleTrajectoryImage img t = map_option fst (sampleTrajectoryImageMonotonic img t new_cursor)"

subsection \<open>The buffer\<close>

record BufferConfiguration =
  capacity :: nat
  max_horizon_ns :: u64
  splice_position_tolerance :: "f64 list"
  splice_velocity_tolerance :: "f64 list"

record AdmissionContext =
  execution_time_ns :: u64
  replaceable_from_ns :: u64
  minimum_horizon_ns :: u64
  active_generation :: u64
  priming :: bool

record RollingBuffer =
  configuration :: BufferConfiguration
  limit_checker :: LimitChecker
  buf_image :: TrajectoryImage
  anchor :: JointPoint

definition buffer_clear :: "RollingBuffer \<Rightarrow> RollingBuffer" where
  "buffer_clear b = b\<lparr>buf_image := new_image, anchor := new_joint_point\<rparr>"

definition buffer_configure ::
  "BufferConfiguration \<Rightarrow> DynamicEnvelope \<Rightarrow> RollingBuffer \<Rightarrow> bool \<times> RollingBuffer" where
  "buffer_configure cfg env b =
    (if capacity cfg < 2 \<or> kTransportMaxPoints < capacity cfg \<or> max_horizon_ns cfg = 0 then (False, b)
     else if first_axis (\<lambda>a. \<not> isfinite (splice_position_tolerance cfg ! a)
            \<or> \<not> isfinite (splice_velocity_tolerance cfg ! a)
            \<or> f64_less (splice_position_tolerance cfg ! a) (Fin 0)
            \<or> f64_less (splice_velocity_tolerance cfg ! a) (Fin 0)) \<noteq> None then (False, b)
     else let (ok, l) = limit_configure env (limit_checker b); b1 = b\<lparr>limit_checker := l\<rparr>
          in if \<not> ok then (False, b1) else (True, buffer_clear (b1\<lparr>configuration := cfg\<rparr>)))"

definition buffer_reset :: "JointPoint \<Rightarrow> RollingBuffer \<Rightarrow> bool \<times> RollingBuffer" where
  "buffer_reset start b =
    (if \<not> configured (limit_checker b) \<or> time_ns start \<noteq> 0 then (False, b)
     else if first_axis (\<lambda>a. \<not> isfinite (positions start ! a) \<or> \<not> f64_eq (velocities start ! a) (Fin 0)
            \<or> f64_less (positions start ! a) (safe_lower (envelope (limit_checker b) ! a))
            \<or> f64_less (safe_upper (envelope (limit_checker b) ! a)) (positions start ! a)) \<noteq> None
     then (False, b)
     else (True, (buffer_clear b)\<lparr>anchor := start\<rparr>))"

text \<open>The loop of \<open>validateInput\<close> over the points: the first code it returns.\<close>

definition point_code :: "PointView list \<Rightarrow> nat \<Rightarrow> RejectCode" where
  "point_code ps index =
    (case (pv_positions (ps ! index), pv_velocities (ps ! index)) of
       (Some qs, Some vs) \<Rightarrow>
         if length qs \<noteq> kAxisCount \<or> length vs \<noteq> kAxisCount then kInvalidShape
         else if first_axis (\<lambda>a. \<not> isfinite (qs ! a) \<or> \<not> isfinite (vs ! a)) \<noteq> None then kNonFinite
         else if 0 < index \<and> pv_time_ns (ps ! index) \<le> pv_time_ns (ps ! (index - 1)) then kNonMonotonicTime
         else Reject_kNone
     | _ \<Rightarrow> kInvalidShape)"

fun first_code :: "PointView list \<Rightarrow> nat list \<Rightarrow> RejectCode" where
  "first_code ps [] = Reject_kNone"
| "first_code ps (k # ks) = (if point_code ps k \<noteq> Reject_kNone then point_code ps k else first_code ps ks)"

definition validateInput :: "BatchView \<Rightarrow> RollingBuffer \<Rightarrow> RejectCode" where
  "validateInput batch b =
    (case bv_points batch of None \<Rightarrow> kInvalidShape
     | Some ps \<Rightarrow>
         if length ps < 2 then kInvalidShape
         else if capacity (configuration b) < length ps then kCapacityExceeded
         else if first_code ps [0..<length ps] \<noteq> Reject_kNone then first_code ps [0..<length ps]
         else if bv_final batch
                 \<and> \<not> list_all (\<lambda>v. f64_eq v (Fin 0)) (take kAxisCount (the (pv_velocities (last ps))))
         then kFinalNotAtRest
         else if pv_time_ns (ps ! 0) = replace_from_ns batch then Reject_kNone else kTimeGap)"

definition validateHorizon :: "TrajectoryImage \<Rightarrow> AdmissionContext \<Rightarrow> RollingBuffer \<Rightarrow> RejectCode" where
  "validateHorizon candidate ctx b =
    (let ps = points candidate; final_ns = time_ns (ps ! (length ps - 1)) in
     if execution_time_ns ctx < time_ns (ps ! 0) \<or> final_ns < execution_time_ns ctx then kTimeGap
     else let horizon = final_ns - execution_time_ns ctx in
       if \<not> priming ctx \<and> horizon \<le> minimum_horizon_ns ctx then kInsufficientHorizon
       else if max_horizon_ns (configuration b) < horizon then kHorizonExceeded else Reject_kNone)"

function count_before :: "JointPoint list \<Rightarrow> u64 \<Rightarrow> nat \<Rightarrow> nat \<Rightarrow> nat" where
  "count_before ps t start k =
    (if start + k < length ps \<and> time_ns (ps ! (start + k)) < t then count_before ps t start (k + 1) else k)"
  by pat_completeness auto
termination by (relation "measure (\<lambda>(ps, t, start, k). length ps - (start + k))") auto

declare count_before.simps [simp del]

text \<open>Where the batch is spliced in: the knot, the start of the kept history and its length.\<close>

definition find_splice ::
  "BatchView \<Rightarrow> AdmissionContext \<Rightarrow> RollingBuffer \<Rightarrow> RejectCode + JointPoint \<times> nat \<times> nat" where
  "find_splice batch ctx b =
    (let ps = points (buf_image b) in
     if ps = []
     then (if replace_from_ns batch \<noteq> 0 then Inl kTimeGap
           else if execution_time_ns ctx \<noteq> 0 then Inl kLateReplace
           else Inr (anchor b, 0, 0))
     else if replace_from_ns batch < replaceable_from_ns ctx then Inl kLateReplace
     else if execution_time_ns ctx < time_ns (ps ! 0)
             \<or> time_ns (ps ! (length ps - 1)) < execution_time_ns ctx then Inl kTimeGap
     else case sampleTrajectoryImage (buf_image b) (replace_from_ns batch) of
            None \<Rightarrow> Inl kTimeGap
          | Some knot \<Rightarrow>
              let history_start = advance_index ps (execution_time_ns ctx) 0
              in Inr (knot, history_start, count_before ps (replace_from_ns batch) history_start 0))"

definition spliced_image ::
  "BatchView \<Rightarrow> AdmissionContext \<Rightarrow> RollingBuffer \<Rightarrow> JointPoint \<Rightarrow> nat \<Rightarrow> nat \<Rightarrow> TrajectoryImage" where
  "spliced_image batch ctx b knot history_start prefix_count =
     \<lparr>points = take prefix_count (drop history_start (points (buf_image b)))
         @ knot # map copyPoint (tl (the (bv_points batch))),
      generation = generation (buf_image b) + 1,
      earliest_changed_ns =
        (if active_generation ctx < generation (buf_image b)
         then min (earliest_changed_ns (buf_image b)) (replace_from_ns batch) else replace_from_ns batch),
      im_final = bv_final batch\<rparr>"

text \<open>The check of one new segment, and the loop over them.\<close>

definition check_new_segment :: "LimitChecker \<Rightarrow> JointPoint \<Rightarrow> JointPoint \<Rightarrow> RejectCode" where
  "check_new_segment l start finish =
    (let (direct, extrema) = checkSegment l start finish [] in
     if fst direct \<noteq> Reject_kNone then fst direct
     else fst (fst (checkStoppingViability l extrema
            \<lparr>stop_duration_seconds = Fin 0, lower_positions = zero_axes, upper_positions = zero_axes\<rparr>)))"

fun check_suffix :: "LimitChecker \<Rightarrow> JointPoint list \<Rightarrow> RejectCode" where
  "check_suffix l (p # q # ps) =
     (if check_new_segment l p q \<noteq> Reject_kNone then check_new_segment l p q else check_suffix l (q # ps))"
| "check_suffix l ps = Reject_kNone"

text \<open>The candidate is an output parameter: an early rejection leaves the caller's value in it.\<close>

definition prepare ::
  "BatchView \<Rightarrow> AdmissionContext \<Rightarrow> TrajectoryImage \<Rightarrow> RollingBuffer \<Rightarrow> RejectCode \<times> TrajectoryImage" where
  "prepare batch ctx untouched b =
    (let input = validateInput batch b in
     if input \<noteq> Reject_kNone then (input, untouched)
     else if generation (buf_image b) = - 1 then (kSessionNotAccepting, untouched)
     else case find_splice batch ctx b of
       Inl code \<Rightarrow> (code, untouched)
     | Inr (knot, history_start, prefix_count) \<Rightarrow>
         let continuity = checkSpliceContinuity knot (copyPoint (the (bv_points batch) ! 0))
               (splice_position_tolerance (configuration b)) (splice_velocity_tolerance (configuration b))
         in if continuity \<noteq> Reject_kNone then (continuity, untouched)
            else if capacity (configuration b) < prefix_count + length (the (bv_points batch))
            then (kCapacityExceeded, untouched)
            else let candidate = spliced_image batch ctx b knot history_start prefix_count;
                     horizon = validateHorizon candidate ctx b
                 in if horizon \<noteq> Reject_kNone then (horizon, candidate)
                    else (check_suffix (limit_checker b) (drop prefix_count (points candidate)), candidate))"

definition commit :: "TrajectoryImage \<Rightarrow> AdmissionContext \<Rightarrow> RollingBuffer \<Rightarrow> RejectCode \<times> RollingBuffer" where
  "commit candidate ctx b =
    (if earliest_changed_ns candidate < replaceable_from_ns ctx then (kLateReplace, b)
     else let horizon = validateHorizon candidate ctx b in
       if horizon \<noteq> Reject_kNone then (horizon, b)
       else (Reject_kNone, b\<lparr>buf_image := copyTrajectoryImageEffective candidate (buf_image b)\<rparr>))"

end
