(* ===== verification/RollingStop.thy ===== *)
theory RollingStop
  imports RollingLimits
begin

text \<open>
  The stop trajectory and the stopping horizon of \<open>ctrl_rolling_trajectory\<close>
  (\<open>session_core.cpp\<close>). Output parameters that are left alone on failure are None.
\<close>

datatype StopTrajectoryState = kIdle | kStopping | kHolding

record SchedulingGuard =
  one_cycle_detection_ns :: u64
  stop_time_growth_ns :: u64
  non_rt_to_rt_visibility_ns :: u64
  period_quantization_ns :: u64

record StopTrajectory =
  stop_limits :: LimitChecker
  stop_start :: JointPoint
  accelerations :: "f64 list"
  terminal_positions :: "f64 list"
  stop_duration_s :: f64
  stop_duration_ns :: u64
  stop_state :: StopTrajectoryState

definition new_limit_checker :: LimitChecker where
  "new_limit_checker = \<lparr>envelope = [], configured = False\<rparr>"

definition new_stop :: StopTrajectory where
  "new_stop = \<lparr>stop_limits = new_limit_checker, stop_start = new_joint_point, accelerations = zero_axes,
     terminal_positions = zero_axes, stop_duration_s = Fin 0, stop_duration_ns = 0, stop_state = kIdle\<rparr>"

definition addWithoutOverflow :: "u64 \<Rightarrow> u64 \<Rightarrow> u64 option" where
  "addWithoutOverflow v increment = (if - 1 - v < increment then None else Some (v + increment))"

text \<open>The product of a double and \<open>1.0e9L\<close> in extended precision.\<close>

definition durationToNanoseconds :: "f64 \<Rightarrow> u64 option" where
  "durationToNanoseconds d =
    (case d of
       Fin s \<Rightarrow> if s < 0 then None
         else let nanoseconds = \<lceil>f80_round (s * 1000000000)\<rceil>
              in if nanoseconds < 0 \<or> 2 ^ 64 - 1 < nanoseconds then None else Some (word_of_int nanoseconds)
     | _ \<Rightarrow> None)"

definition stop_configure :: "DynamicEnvelope \<Rightarrow> StopTrajectory \<Rightarrow> bool \<times> StopTrajectory" where
  "stop_configure env s =
    (if stop_state s \<noteq> kIdle then (False, s)
     else let (ok, l) = limit_configure env (stop_limits s) in (ok, s\<lparr>stop_limits := l\<rparr>))"

definition directional_limit :: "AxisEnvelope \<Rightarrow> f64 \<Rightarrow> f64" where
  "directional_limit l velocity =
    (if f64_le (Fin 0) velocity then stop_acceleration_positive l else stop_acceleration_negative l)"

definition required_stop_duration :: "LimitChecker \<Rightarrow> JointPoint \<Rightarrow> f64" where
  "required_stop_duration l desired =
     fold (\<lambda>a d. std_max d (f64_div (f64_abs (velocities desired ! a))
                                   (directional_limit (envelope l ! a) (velocities desired ! a))))
       axis_indices (Fin 0)"

definition stop_acceleration :: "f64 \<Rightarrow> f64 \<Rightarrow> f64" where
  "stop_acceleration velocity d = (if f64_eq d (Fin 0) then Fin 0 else f64_div (f64_neg velocity) d)"

definition terminal_position :: "f64 \<Rightarrow> f64 \<Rightarrow> f64 \<Rightarrow> f64" where
  "terminal_position position velocity d =
     f64_add position (f64_mul (f64_mul (Fin (1 / 2)) velocity) d)"

definition stop_axis_rejected :: "LimitChecker \<Rightarrow> JointPoint \<Rightarrow> f64 \<Rightarrow> nat \<Rightarrow> bool" where
  "stop_axis_rejected l desired d a \<longleftrightarrow>
    (let v = velocities desired ! a; acc = stop_acceleration v d;
         final_position = terminal_position (positions desired ! a) v d; limits = envelope l ! a
     in \<not> isfinite acc \<or> \<not> isfinite final_position \<or> f64_less final_position (safe_lower limits)
        \<or> f64_less (safe_upper limits) final_position \<or> f64_less (directional_limit limits v) (f64_abs acc))"

definition stop_begin :: "JointPoint \<Rightarrow> StopTrajectory \<Rightarrow> bool \<times> StopTrajectory" where
  "stop_begin desired s =
    (let l = stop_limits s in
     if \<not> configured l \<or> stop_state s \<noteq> kIdle then (False, s)
     else if first_axis (\<lambda>a. \<not> isfinite (positions desired ! a) \<or> \<not> isfinite (velocities desired ! a)) \<noteq> None
     then (False, s)
     else let d = required_stop_duration l desired in
       if \<not> isfinite d then (False, s)
       else case durationToNanoseconds d of
              None \<Rightarrow> (False, s)
            | Some ns \<Rightarrow>
                if first_axis (stop_axis_rejected l desired d) \<noteq> None then (False, s)
                else (True, s\<lparr>stop_start := desired,
                    accelerations := map (\<lambda>a. stop_acceleration (velocities desired ! a) d) axis_indices,
                    terminal_positions :=
                      map (\<lambda>a. terminal_position (positions desired ! a) (velocities desired ! a) d) axis_indices,
                    stop_duration_s := d, stop_duration_ns := ns,
                    stop_state := (if f64_eq d (Fin 0) then kHolding else kStopping)\<rparr>))"

definition stop_position :: "StopTrajectory \<Rightarrow> f64 \<Rightarrow> nat \<Rightarrow> f64" where
  "stop_position s t a =
     f64_add (f64_add (positions (stop_start s) ! a) (f64_mul (velocities (stop_start s) ! a) t))
             (f64_mul (f64_mul (f64_mul (Fin (1 / 2)) (accelerations s ! a)) t) t)"

definition stop_velocity :: "StopTrajectory \<Rightarrow> f64 \<Rightarrow> nat \<Rightarrow> f64" where
  "stop_velocity s t a = f64_add (velocities (stop_start s) ! a) (f64_mul (accelerations s ! a) t)"

definition stop_sample :: "u64 \<Rightarrow> StopTrajectory \<Rightarrow> JointPoint option \<times> StopTrajectory" where
  "stop_sample elapsed_ns s =
    (if stop_state s = kIdle then (None, s)
     else if - 1 - time_ns (stop_start s) < elapsed_ns then (None, s)
     else let t_ns = time_ns (stop_start s) + elapsed_ns;
              completed = (stop_state s = kHolding \<or> stop_duration_ns s \<le> elapsed_ns);
              elapsed = duration_of_ns elapsed_ns
          in if completed
             then (Some \<lparr>time_ns = t_ns, positions = terminal_positions s, velocities = zero_axes\<rparr>,
                   s\<lparr>stop_state := kHolding\<rparr>)
             else if first_axis (\<lambda>a. \<not> isfinite (stop_position s elapsed a) \<or> \<not> isfinite (stop_velocity s elapsed a)) \<noteq> None
             then (None, s)
             else (Some \<lparr>time_ns = t_ns, positions = map (stop_position s elapsed) axis_indices,
                         velocities = map (stop_velocity s elapsed) axis_indices\<rparr>, s))"

definition hasSufficientStoppingHorizon :: "u64 \<Rightarrow> u64 \<Rightarrow> u64 \<Rightarrow> SchedulingGuard \<Rightarrow> bool" where
  "hasSufficientStoppingHorizon execution_ns buffered_until_ns stop_ns guard =
    (if buffered_until_ns < execution_ns then False
     else case addWithoutOverflow stop_ns (one_cycle_detection_ns guard) of None \<Rightarrow> False | Some r1 \<Rightarrow>
          case addWithoutOverflow r1 (stop_time_growth_ns guard) of None \<Rightarrow> False | Some r2 \<Rightarrow>
          case addWithoutOverflow r2 (non_rt_to_rt_visibility_ns guard) of None \<Rightarrow> False | Some r3 \<Rightarrow>
          case addWithoutOverflow r3 (period_quantization_ns guard) of None \<Rightarrow> False | Some required \<Rightarrow>
          required < buffered_until_ns - execution_ns)"

end
