(* ===== verification/RollingSnapshot.thy ===== *)
theory RollingSnapshot
  imports RollingTypes
begin

text \<open>
  \<open>RollingSnapshotExchange\<close> (\<open>rolling_snapshot.cpp\<close>): the triple buffer that hands trajectories
  from the callback thread to the control cycle without a lock. The two operations are split at
  their accesses to the shared atomic \<open>middle_\<close>: the producer fills its slot and then exchanges
  indices, the consumer looks at the dirty bit and then exchanges indices. A step relation
  interleaves these accesses; between them a slot that is being filled is in an arbitrary state
  (the value None below), as a reader would see it torn.
\<close>

record RollingSnapshot =
  snap_session_epoch :: u64
  trajectory :: TrajectoryImage
  arrival_time_ns :: u64
  snap_publication_sequence :: u64

definition kDirty :: nat where "kDirty = 4"
definition kIndexMask :: nat where "kIndexMask = 3"

text \<open>A slot is None while the producer writes it.\<close>

record RollingSnapshotExchange =
  slots :: "RollingSnapshot option list"
  middle :: nat
  writing :: nat
  reading :: nat
  publication_sequence :: u64

definition blank_snapshot :: RollingSnapshot where
  "blank_snapshot = \<lparr>snap_session_epoch = 0, trajectory = new_image, arrival_time_ns = 0,
                     snap_publication_sequence = 0\<rparr>"

definition new_exchange :: RollingSnapshotExchange where
  "new_exchange = \<lparr>slots = replicate 3 (Some blank_snapshot), middle = 1, writing = 2, reading = 0,
                   publication_sequence = 0\<rparr>"

subsection \<open>The producer\<close>

definition publish_refused :: "RollingSnapshotExchange \<Rightarrow> bool" where
  "publish_refused x \<longleftrightarrow> publication_sequence x = - 1"

text \<open>Filling starts (the slot is torn), and is complete with the sequence number.\<close>

definition begin_fill :: "RollingSnapshotExchange \<Rightarrow> RollingSnapshotExchange" where
  "begin_fill x = x\<lparr>slots := (slots x)[writing x := None]\<rparr>"

definition complete_fill ::
  "u64 \<Rightarrow> TrajectoryImage \<Rightarrow> u64 \<Rightarrow> RollingSnapshotExchange \<Rightarrow> RollingSnapshotExchange" where
  "complete_fill epoch img arrival x =
     x\<lparr>slots := (slots x)[writing x := Some \<lparr>snap_session_epoch = epoch, trajectory = img,
          arrival_time_ns = arrival, snap_publication_sequence = publication_sequence x + 1\<rparr>],
       publication_sequence := publication_sequence x + 1\<rparr>"

definition publish_exchange :: "RollingSnapshotExchange \<Rightarrow> RollingSnapshotExchange" where
  "publish_exchange x =
     x\<lparr>middle := writing x OR kDirty, writing := middle x AND kIndexMask\<rparr>"

definition publish ::
  "u64 \<Rightarrow> TrajectoryImage \<Rightarrow> u64 \<Rightarrow> RollingSnapshotExchange \<Rightarrow> bool \<times> RollingSnapshotExchange" where
  "publish epoch img arrival x =
    (if publish_refused x then (False, x)
     else (True, publish_exchange (complete_fill epoch img arrival (begin_fill x))))"

subsection \<open>The consumer\<close>

definition dirty :: "RollingSnapshotExchange \<Rightarrow> bool" where
  "dirty x \<longleftrightarrow> middle x AND kDirty \<noteq> 0"

definition acquire_exchange :: "RollingSnapshotExchange \<Rightarrow> RollingSnapshotExchange" where
  "acquire_exchange x = x\<lparr>middle := reading x, reading := middle x AND kIndexMask\<rparr>"

text \<open>The pointer that is returned points to the slot of the consumer; None is the null pointer.\<close>

definition acquire :: "RollingSnapshotExchange \<Rightarrow> RollingSnapshot option \<times> RollingSnapshotExchange" where
  "acquire x =
    (if \<not> dirty x then (None, x)
     else let x1 = acquire_exchange x in (slots x1 ! reading x1, x1))"

definition latestPublicationSequence :: "RollingSnapshotExchange \<Rightarrow> u64" where
  "latestPublicationSequence x = publication_sequence x"

subsection \<open>Interleaving\<close>

text \<open>
  Where the two threads are: the producer between filling and exchanging, the consumer between
  the dirty test and the exchange. \<open>published\<close> lists what was published, in the order of the
  exchanges; \<open>acquired\<close> what the consumer was handed.
\<close>

datatype producer_at = PIdle | PFilling u64 TrajectoryImage u64 | PFilled

record exchange_run =
  exchange :: RollingSnapshotExchange
  producer :: producer_at
  consumer_saw_dirty :: bool
  published :: "RollingSnapshot list"
  acquired :: "RollingSnapshot list"

definition initial_run :: exchange_run where
  "initial_run = \<lparr>exchange = new_exchange, producer = PIdle, consumer_saw_dirty = False,
                  published = [], acquired = []\<rparr>"

inductive exchange_step :: "exchange_run \<Rightarrow> exchange_run \<Rightarrow> bool" where
  publish_begins: "producer r = PIdle \<Longrightarrow> \<not> publish_refused (exchange r) \<Longrightarrow>
    exchange_step r (r\<lparr>exchange := begin_fill (exchange r), producer := PFilling e i a\<rparr>)"
| publish_fills: "producer r = PFilling e i a \<Longrightarrow>
    exchange_step r (r\<lparr>exchange := complete_fill e i a (exchange r), producer := PFilled\<rparr>)"
| publish_exchanges: "producer r = PFilled \<Longrightarrow> x = exchange r \<Longrightarrow>
    exchange_step r (r\<lparr>exchange := publish_exchange x, producer := PIdle,
                       published := published r @ [the (slots x ! writing x)]\<rparr>)"
| acquire_tests: "\<not> consumer_saw_dirty r \<Longrightarrow> dirty (exchange r) \<Longrightarrow>
    exchange_step r (r\<lparr>consumer_saw_dirty := True\<rparr>)"
| acquire_exchanges: "consumer_saw_dirty r \<Longrightarrow> x = acquire_exchange (exchange r) \<Longrightarrow>
    exchange_step r (r\<lparr>exchange := x, consumer_saw_dirty := False,
                       acquired := acquired r @ [the (slots x ! reading x)]\<rparr>)"

inductive exchange_reaches :: "exchange_run \<Rightarrow> bool" where
  reach_init: "exchange_reaches initial_run"
| reach_step: "exchange_reaches r \<Longrightarrow> exchange_step r r' \<Longrightarrow> exchange_reaches r'"

text \<open>Without interruption the steps make up the two operations.\<close>

lemma publish_steps:
  assumes "producer r = PIdle" "fst (publish e i a (exchange r))"
  shows "exchange_step\<^sup>*\<^sup>* r (r\<lparr>exchange := snd (publish e i a (exchange r)),
     published := published r @ [the (slots (complete_fill e i a (begin_fill (exchange r))) ! writing (exchange r))]\<rparr>)"
proof -
  have ok: "\<not> publish_refused (exchange r)" using assms(2) by (simp add: publish_def split: if_splits)
  let ?r1 = "r\<lparr>exchange := begin_fill (exchange r), producer := PFilling e i a\<rparr>"
  let ?r2 = "?r1\<lparr>exchange := complete_fill e i a (exchange ?r1), producer := PFilled\<rparr>"
  let ?r3 = "?r2\<lparr>exchange := publish_exchange (exchange ?r2), producer := PIdle,
     published := published ?r2 @ [the (slots (exchange ?r2) ! writing (exchange ?r2))]\<rparr>"
  have "exchange_step r ?r1" using assms(1) ok by (rule publish_begins)
  moreover have "exchange_step ?r1 ?r2" by (rule publish_fills) simp
  moreover have "exchange_step ?r2 ?r3" by (rule publish_exchanges) simp_all
  moreover have "?r3 = r\<lparr>exchange := snd (publish e i a (exchange r)),
     published := published r @ [the (slots (complete_fill e i a (begin_fill (exchange r))) ! writing (exchange r))]\<rparr>"
    using ok assms(1) by (cases r) (simp add: publish_def complete_fill_def begin_fill_def)
  ultimately show ?thesis by (metis (no_types, lifting) converse_rtranclp_into_rtranclp rtranclp.rtrancl_refl)
qed

lemma acquire_steps:
  assumes "\<not> consumer_saw_dirty r" "acquire (exchange r) = (Some s, x)"
  shows "exchange_step\<^sup>*\<^sup>* r (r\<lparr>exchange := x, acquired := acquired r @ [s]\<rparr>)"
proof -
  have d: "dirty (exchange r)" and x: "x = acquire_exchange (exchange r)" "slots x ! reading x = Some s"
    using assms(2) by (auto simp: acquire_def Let_def split: if_splits)
  let ?r1 = "r\<lparr>consumer_saw_dirty := True\<rparr>"
  have "exchange_step r ?r1" using assms(1) d by (rule acquire_tests)
  moreover have "exchange_step ?r1 (?r1\<lparr>exchange := x, consumer_saw_dirty := False,
     acquired := acquired ?r1 @ [the (slots x ! reading x)]\<rparr>)"
    by (rule acquire_exchanges) (simp_all add: x(1))
  moreover have "?r1\<lparr>exchange := x, consumer_saw_dirty := False,
     acquired := acquired ?r1 @ [the (slots x ! reading x)]\<rparr> = r\<lparr>exchange := x, acquired := acquired r @ [s]\<rparr>"
    using assms(1) x(2) by (cases r) simp
  ultimately show ?thesis by (metis (no_types, lifting) converse_rtranclp_into_rtranclp rtranclp.rtrancl_refl)
qed

subsection \<open>Index arithmetic\<close>

text \<open>\<open>middle_\<close> is a slot index, with bit 2 set when dirty.\<close>

lemma index_bits:
  "m < 3 \<Longrightarrow> m AND kIndexMask = m" "m < 3 \<Longrightarrow> m AND kDirty = 0"
  "m < 3 \<Longrightarrow> m OR kDirty = m + 4" "m < 3 \<Longrightarrow> (m + 4) AND kIndexMask = m"
  "m < 3 \<Longrightarrow> (m + 4) AND kDirty \<noteq> 0"
proof -
  have "m < 3 \<Longrightarrow> m = 0 \<or> m = 1 \<or> m = 2" by auto
  then show "m < 3 \<Longrightarrow> m AND kIndexMask = m" "m < 3 \<Longrightarrow> m AND kDirty = 0"
    "m < 3 \<Longrightarrow> m OR kDirty = m + 4" "m < 3 \<Longrightarrow> (m + 4) AND kIndexMask = m"
    "m < 3 \<Longrightarrow> (m + 4) AND kDirty \<noteq> 0"
    by (auto simp: kIndexMask_def kDirty_def)
qed

subsection \<open>The invariant\<close>

text \<open>
  The three indices are three different slots. The middle slot, when dirty, is the last
  publication; the consumer's slot is the last one it was handed. Sequence numbers count the
  publications.
\<close>

definition seq :: "RollingSnapshot \<Rightarrow> nat" where
  "seq s = unat (snap_publication_sequence s)"

definition indices_ok :: "RollingSnapshotExchange \<Rightarrow> nat \<Rightarrow> bool" where
  "indices_ok x m \<longleftrightarrow> length (slots x) = 3 \<and> m < 3 \<and> writing x < 3 \<and> reading x < 3
     \<and> (middle x = m \<or> middle x = m + 4)
     \<and> writing x \<noteq> m \<and> reading x \<noteq> m \<and> reading x \<noteq> writing x"

definition handed_ok :: "exchange_run \<Rightarrow> nat \<Rightarrow> bool" where
  "handed_ok r m \<longleftrightarrow>
     (dirty (exchange r) \<longrightarrow> published r \<noteq> [] \<and> slots (exchange r) ! m = Some (last (published r)))
   \<and> (acquired r \<noteq> [] \<longrightarrow> slots (exchange r) ! reading (exchange r) = Some (last (acquired r))
        \<and> (if dirty (exchange r) then seq (last (acquired r)) < length (published r)
           else seq (last (acquired r)) \<le> length (published r)))
   \<and> sorted_wrt (\<lambda>s t. seq s < seq t) (acquired r) \<and> set (acquired r) \<subseteq> set (published r)"

definition producer_ok :: "exchange_run \<Rightarrow> bool" where
  "producer_ok r \<longleftrightarrow>
     (\<forall>k < length (published r). seq (published r ! k) = Suc k)
   \<and> (case producer r of
        PFilled \<Rightarrow> (\<exists>s. slots (exchange r) ! writing (exchange r) = Some s \<and> seq s = Suc (length (published r)))
          \<and> unat (publication_sequence (exchange r)) = Suc (length (published r))
      | PFilling e i a \<Rightarrow> unat (publication_sequence (exchange r)) = length (published r)
          \<and> publication_sequence (exchange r) \<noteq> - 1
      | PIdle \<Rightarrow> unat (publication_sequence (exchange r)) = length (published r))"

definition exchange_inv :: "exchange_run \<Rightarrow> bool" where
  "exchange_inv r \<longleftrightarrow> (\<exists>m. indices_ok (exchange r) m \<and> handed_ok r m) \<and> producer_ok r
     \<and> (consumer_saw_dirty r \<longrightarrow> dirty (exchange r))"

lemma dirty_iff: "indices_ok x m \<Longrightarrow> dirty x \<longleftrightarrow> middle x = m + 4"
  using index_bits(2,5) [of m] by (auto simp: indices_ok_def dirty_def)

lemma middle_index: "indices_ok x m \<Longrightarrow> middle x AND kIndexMask = m"
  using index_bits(1,4) [of m] by (auto simp: indices_ok_def)

lemma initial_inv: "exchange_inv initial_run"
  unfolding exchange_inv_def
  by (intro conjI exI [of _ 1])
    (auto simp: initial_run_def new_exchange_def indices_ok_def handed_ok_def producer_ok_def dirty_def
      kDirty_def numeral_3_eq_3)

lemma unat_increment: "(w :: u64) \<noteq> - 1 \<Longrightarrow> unat (w + 1) = Suc (unat w)"
  by (metis Suc_eq_plus1 add.commute add_eq_0_iff2 unatSuc)

lemma begin_fill_inv:
  assumes "exchange_inv r" "producer r = PIdle" "\<not> publish_refused (exchange r)"
  shows "exchange_inv (r\<lparr>exchange := begin_fill (exchange r), producer := PFilling e i a\<rparr>)"
proof -
  obtain m where m: "indices_ok (exchange r) m" "handed_ok r m" using assms(1) by (auto simp: exchange_inv_def)
  have "indices_ok (begin_fill (exchange r)) m" using m(1) by (auto simp: indices_ok_def begin_fill_def)
  moreover have "handed_ok (r\<lparr>exchange := begin_fill (exchange r), producer := PFilling e i a\<rparr>) m"
    using m by (auto simp: handed_ok_def begin_fill_def dirty_def indices_ok_def)
  ultimately show ?thesis
    using assms by (auto simp: exchange_inv_def producer_ok_def begin_fill_def dirty_def publish_refused_def)
qed

lemma complete_fill_inv:
  assumes "exchange_inv r" "producer r = PFilling e i a"
  shows "exchange_inv (r\<lparr>exchange := complete_fill e i a (exchange r), producer := PFilled\<rparr>)"
proof -
  obtain m where m: "indices_ok (exchange r) m" "handed_ok r m" using assms(1) by (auto simp: exchange_inv_def)
  have "indices_ok (complete_fill e i a (exchange r)) m"
    using m(1) by (auto simp: indices_ok_def complete_fill_def)
  moreover have "handed_ok (r\<lparr>exchange := complete_fill e i a (exchange r), producer := PFilled\<rparr>) m"
    using m by (auto simp: handed_ok_def complete_fill_def dirty_def indices_ok_def)
  moreover have "writing (exchange r) < length (slots (exchange r))"
    using m(1) by (simp add: indices_ok_def)
  ultimately show ?thesis
    using assms by (auto simp: exchange_inv_def producer_ok_def complete_fill_def dirty_def seq_def unat_increment)
qed

lemma last_published: "producer_ok r \<Longrightarrow> published r \<noteq> [] \<Longrightarrow> seq (last (published r)) = length (published r)"
  by (simp add: producer_ok_def last_conv_nth)

lemma publish_exchange_inv:
  assumes "exchange_inv r" "producer r = PFilled"
  shows "exchange_inv (r\<lparr>exchange := publish_exchange (exchange r), producer := PIdle,
     published := published r @ [the (slots (exchange r) ! writing (exchange r))]\<rparr>)" (is "exchange_inv ?r")
proof -
  let ?x = "exchange r"
  obtain m where m: "indices_ok ?x m" "handed_ok r m" using assms(1) by (auto simp: exchange_inv_def)
  obtain s where s: "slots ?x ! writing ?x = Some s" "seq s = Suc (length (published r))"
    "unat (publication_sequence ?x) = Suc (length (published r))"
    using assms by (auto simp: exchange_inv_def producer_ok_def)
  have x': "publish_exchange ?x = ?x\<lparr>middle := writing ?x + 4, writing := m\<rparr>"
    using m(1) index_bits(3) [of "writing ?x"] by (simp add: publish_exchange_def middle_index) (simp add: indices_ok_def)
  have ind: "indices_ok (publish_exchange ?x) (writing ?x)" using m(1) by (auto simp: x' indices_ok_def)
  have d: "dirty (publish_exchange ?x)" using dirty_iff [OF ind] by (simp add: x')
  have "handed_ok ?r (writing ?x)"
    using m(2) s d by (auto simp: handed_ok_def x' split: if_splits)
  moreover have "producer_ok ?r"
    using assms s by (auto simp: exchange_inv_def producer_ok_def x' nth_append less_Suc_eq)
  ultimately show ?thesis using ind d by (auto simp: exchange_inv_def)
qed

lemma acquire_exchange_inv:
  assumes "exchange_inv r" "consumer_saw_dirty r"
  shows "published r \<noteq> [] \<and> slots (exchange r) ! (middle (exchange r) AND kIndexMask) = Some (last (published r))
     \<and> (acquired r \<noteq> [] \<longrightarrow> seq (last (acquired r)) < seq (last (published r)))" (is ?handed)
    "exchange_inv (r\<lparr>exchange := acquire_exchange (exchange r), consumer_saw_dirty := False,
       acquired := acquired r @ [the (slots (acquire_exchange (exchange r)) ! reading (acquire_exchange (exchange r)))]\<rparr>)"
      (is "exchange_inv ?r")
proof -
  let ?x = "exchange r"
  obtain m where m: "indices_ok ?x m" "handed_ok r m" using assms(1) by (auto simp: exchange_inv_def)
  have p: "producer_ok r" and d: "dirty ?x" using assms by (auto simp: exchange_inv_def)
  have x': "acquire_exchange ?x = ?x\<lparr>middle := reading ?x, reading := m\<rparr>"
    by (simp add: acquire_exchange_def middle_index [OF m(1)])
  show h: ?handed
    using m(2) d last_published [OF p] by (auto simp: middle_index [OF m(1)] handed_ok_def)
  have ind: "indices_ok (acquire_exchange ?x) (reading ?x)" using m(1) by (auto simp: x' indices_ok_def)
  have nd: "\<not> dirty (acquire_exchange ?x)" using dirty_iff [OF ind] by (simp add: x')
  have "sorted_wrt (\<lambda>s t. seq s < seq t) (acquired r @ [last (published r)])"
  proof (cases "acquired r" rule: rev_cases)
    case (snoc as a)
    have "sorted_wrt (\<lambda>s t. seq s < seq t) (as @ [a])" using m(2) snoc by (simp add: handed_ok_def)
    moreover have "seq a < seq (last (published r))" using h snoc by simp
    ultimately show ?thesis using snoc by (force simp: sorted_wrt_append)
  qed simp
  then have "handed_ok ?r (reading ?x)"
    using m d nd last_published [OF p] by (auto simp: handed_ok_def x' indices_ok_def)
  moreover have "producer_ok ?r"
    using p by (auto simp: producer_ok_def x' split: producer_at.splits)
  ultimately show "exchange_inv ?r" using ind by (auto simp: exchange_inv_def)
qed

lemma exchange_step_inv: "exchange_step r r' \<Longrightarrow> exchange_inv r \<Longrightarrow> exchange_inv r'"
proof (induction rule: exchange_step.induct)
  case (publish_begins r e i a)
  then show ?case by (intro begin_fill_inv)
next
  case (publish_fills r e i a)
  then show ?case by (intro complete_fill_inv)
next
  case (publish_exchanges r x)
  then show ?case using publish_exchange_inv [of r] by simp
next
  case (acquire_tests r)
  then show ?case by (cases "producer r") (auto simp: exchange_inv_def handed_ok_def producer_ok_def)
next
  case (acquire_exchanges r x)
  then show ?case using acquire_exchange_inv(2) [of r] by simp
qed

lemma exchange_reaches_inv: "exchange_reaches r \<Longrightarrow> exchange_inv r"
  by (induction rule: exchange_reaches.induct) (auto intro: initial_inv exchange_step_inv)

subsection \<open>The abstract register\<close>

text \<open>
  A register that holds what was published: a read hands out the last publication, which must
  be newer than everything handed out before.
\<close>

inductive register_step ::
  "RollingSnapshot list \<times> RollingSnapshot list \<Rightarrow> RollingSnapshot list \<times> RollingSnapshot list \<Rightarrow> bool" where
  register_write: "register_step (ps, as) (ps @ [s], as)"
| register_read: "ps \<noteq> [] \<Longrightarrow> \<forall>a \<in> set as. seq a < seq (last ps) \<Longrightarrow> register_step (ps, as) (ps, as @ [last ps])"

definition register_view :: "exchange_run \<Rightarrow> RollingSnapshot list \<times> RollingSnapshot list" where
  "register_view r = (published r, acquired r)"

lemma acquired_older:
  assumes "exchange_inv r" "acquired r \<noteq> []" "a \<in> set (acquired r)"
  shows "seq a \<le> seq (last (acquired r))"
proof -
  have "sorted_wrt (\<lambda>s t. seq s < seq t) (acquired r)"
    using assms(1) by (auto simp: exchange_inv_def handed_ok_def)
  then have "sorted_wrt (\<lambda>s t. seq s < seq t) (butlast (acquired r) @ [last (acquired r)])"
    using assms(2) by simp
  then have "\<forall>b \<in> set (butlast (acquired r)). seq b < seq (last (acquired r))"
    by (simp only: sorted_wrt_append) simp
  moreover have "a \<in> set (butlast (acquired r)) \<or> a = last (acquired r)"
    using assms(2,3) by (metis append_butlast_last_id rotate1.simps(2) set_ConsD set_rotate1 in_set_butlastD
        insertE list.set(2))
  ultimately show ?thesis by fastforce
qed

text \<open>
  C35: the lock-free exchange is an atomic register. In every interleaving of the accesses of the
  producer and the consumer, each step is invisible or is one step of the register: a
  publication appears whole, and an acquisition hands out exactly the last publication, newer
  than every earlier one. In between, the slot of the consumer keeps the snapshot it was handed,
  even while the producer fills and publishes.
\<close>

theorem exchange_refines_register:
  assumes "exchange_reaches r" "exchange_step r r'"
  shows "(register_view r' = register_view r \<or> register_step (register_view r) (register_view r'))
    \<and> (acquired r' \<noteq> [] \<longrightarrow> slots (exchange r') ! reading (exchange r') = Some (last (acquired r')))"
proof
  have inv: "exchange_inv r" using assms(1) by (rule exchange_reaches_inv)
  have "exchange_inv r'" using assms(2) inv by (rule exchange_step_inv)
  then show "acquired r' \<noteq> [] \<longrightarrow> slots (exchange r') ! reading (exchange r') = Some (last (acquired r'))"
    by (auto simp: exchange_inv_def handed_ok_def)
  show "register_view r' = register_view r \<or> register_step (register_view r) (register_view r')"
    using assms(2)
  proof cases
    case (publish_exchanges x)
    then show ?thesis by (auto simp: register_view_def intro: register_write)
  next
    case (acquire_exchanges x)
    note h = acquire_exchange_inv(1) [OF inv acquire_exchanges(2)]
    have "the (slots x ! reading x) = last (published r)"
      using h by (simp add: acquire_exchanges(3) acquire_exchange_def)
    moreover have "\<forall>a \<in> set (acquired r). seq a < seq (last (published r))"
      using h acquired_older [OF inv] by fastforce
    ultimately show ?thesis
      using h by (auto simp: acquire_exchanges(1) register_view_def intro: register_read)
  qed (simp_all add: register_view_def)
qed

text \<open>The producer fills the next slot while the consumer acquires the first publication.\<close>

lemma sample_exchange:
  obtains r r' where "exchange_reaches r" "exchange_step r r'" "acquired r' \<noteq> []"
    "producer r' = PFilling 1 new_image 6"
proof -
  let ?s0 = "initial_run"
  let ?s1 = "?s0\<lparr>exchange := begin_fill (exchange ?s0), producer := PFilling 1 new_image 5\<rparr>"
  let ?s2 = "?s1\<lparr>exchange := complete_fill 1 new_image 5 (exchange ?s1), producer := PFilled\<rparr>"
  let ?s3 = "?s2\<lparr>exchange := publish_exchange (exchange ?s2), producer := PIdle,
      published := published ?s2 @ [the (slots (exchange ?s2) ! writing (exchange ?s2))]\<rparr>"
  let ?s4 = "?s3\<lparr>consumer_saw_dirty := True\<rparr>"
  let ?s5 = "?s4\<lparr>exchange := begin_fill (exchange ?s4), producer := PFilling 1 new_image 6\<rparr>"
  let ?s6 = "?s5\<lparr>exchange := acquire_exchange (exchange ?s5), consumer_saw_dirty := False,
      acquired := acquired ?s5 @ [the (slots (acquire_exchange (exchange ?s5)) ! reading (acquire_exchange (exchange ?s5)))]\<rparr>"
  have 1: "exchange_reaches ?s1"
    by (rule reach_step [OF reach_init], rule publish_begins)
      (simp_all add: initial_run_def publish_refused_def new_exchange_def)
  have 2: "exchange_reaches ?s2" by (rule reach_step [OF 1], rule publish_fills) simp
  have 3: "exchange_reaches ?s3" by (rule reach_step [OF 2], rule publish_exchanges) simp_all
  have 4: "exchange_reaches ?s4"
    by (rule reach_step [OF 3], rule acquire_tests)
      (simp_all add: initial_run_def new_exchange_def begin_fill_def complete_fill_def publish_exchange_def
        dirty_def kDirty_def)
  have 5: "exchange_reaches ?s5"
    by (rule reach_step [OF 4], rule publish_begins)
      (simp_all add: initial_run_def new_exchange_def begin_fill_def complete_fill_def publish_exchange_def
        publish_refused_def)
  have 6: "exchange_step ?s5 ?s6" by (rule acquire_exchanges) simp_all
  show thesis by (rule that [OF 5 6]) simp_all
qed

lemma exchange_refines_register_witness:
  "\<exists>r r'. acquired r' \<noteq> [] \<and> producer r' = PFilling 1 new_image 6
     \<and> (register_view r' = register_view r \<or> register_step (register_view r) (register_view r'))
     \<and> slots (exchange r') ! reading (exchange r') = Some (last (acquired r'))"
  by (rule sample_exchange) (use exchange_refines_register in blast)

end
