(* ===== verification/RollingController.thy ===== *)
theory RollingController
  imports RollingBuffer RollingStop RollingSnapshot
begin

text \<open>
  The control cycle of \<open>RollingTrajectoryController\<close> (\<open>rolling_trajectory_controller.cpp\<close>): the
  state of the controller and every operation of its real-time thread. A member is a field of
  the same name. The pointer \<open>rt_active_trajectory_\<close> is the index of the slot of the snapshot
  exchange it points into, so that a slot handed back to the producer is seen as such. The flag
  \<open>initial_handoff_gate_\<close> is held by the real-time thread only inside one cycle, so the field
  says whether the callback thread holds it.
\<close>

subsection \<open>State\<close>

datatype SnapshotConsumeResult = kNoChange | kAccepted | kInvalid

datatype PublicResult =
    ACCEPTED | WRONG_EPOCH | STALE_SEQUENCE | LATE_REPLACE | SPLICE_MISMATCH | LIMIT_EXCEEDED
  | NOT_STOPPABLE | HORIZON_EXCEEDED | NOT_ACCEPTING | FINAL_NOT_AT_REST | INVALID_BATCH

datatype PublicStop =
    STOP_NONE | STOP_UPDATE_TIMEOUT | STOP_BUFFER_END | STOP_DEACTIVATED | STOP_COMPLETED | STOP_INTERNAL

record RuntimeConfiguration =
  buffer_capacity :: nat
  rc_max_horizon_ns :: u64
  update_timeout_ns :: u64
  replace_lead_ns :: u64
  state_publish_period_ns :: u64
  nominal_controller_period_ns :: u64
  maximum_controller_period_ns :: u64
  scheduling_guard :: SchedulingGuard
  feedback_age_limit_ms :: f64
  takeover_tolerances :: "f64 list"
  splice_position_tolerances :: "f64 list"
  splice_velocity_tolerances :: "f64 list"
  joints :: "string list"

record RollingTrajectoryController =
  observed_positions :: "f64 list"
  desired_positions :: "f64 list"
  desired_velocities :: "f64 list"
  observed_feedback_age_ms :: f64
  ctl_envelope :: DynamicEnvelope
  runtime_configuration :: RuntimeConfiguration
  buffer :: RollingBuffer
  snapshot_exchange :: RollingSnapshotExchange
  activation_epoch :: u32
  last_sequence :: u64
  epoch_sequence :: u64
  last_result :: PublicResult
  previous_stop_reason :: PublicStop
  session_origin_ns :: int
  rt_session_state :: SessionState
  stop_reason :: StopReason
  ctl_execution_time_ns :: u64
  ctl_active_generation :: u64
  buffered_until_ns :: u64
  ctl_replaceable_from_ns :: u64
  prime_start_ns :: int
  session_epoch :: u64
  session_publication_floor :: u64
  rt_state_version :: u64
  rt_state_session_epoch :: u64
  initial_handoff_gate :: bool
  stop_requested :: bool
  ctl_configured :: bool
  parameters_frozen :: bool
  active :: bool
  rt_observed_session_epoch :: u64
  rt_publication_floor :: u64
  rt_consumed_publication_sequence :: u64
  rt_last_accepted_arrival_ns :: u64
  rt_stop_elapsed_ns :: u64
  rt_active_trajectory :: "nat option"
  rt_sampling_cursor :: MonotonicTrajectoryCursor
  rt_desired :: JointPoint
  rt_stop_trajectory :: StopTrajectory
  commands :: "f64 list"

type_synonym ctl = RollingTrajectoryController

text \<open>The trajectory behind the pointer.\<close>

definition active_image :: "ctl \<Rightarrow> TrajectoryImage" where
  "active_image c = trajectory (the (slots (snapshot_exchange c) ! the (rt_active_trajectory c)))"

subsection \<open>Times and limits\<close>

definition steadyNowNs :: "int \<Rightarrow> u64" where
  "steadyNowNs nanoseconds = (if nanoseconds < 0 then 0 else word_of_int nanoseconds)"

definition elapsedExceeds :: "u64 \<Rightarrow> u64 \<Rightarrow> u64 \<Rightarrow> bool" where
  "elapsedExceeds now_ns start_ns limit_ns \<longleftrightarrow> now_ns < start_ns \<or> limit_ns < now_ns - start_ns"

definition validPeriod :: "int \<Rightarrow> ctl \<Rightarrow> bool" where
  "validPeriod period_ns c \<longleftrightarrow> 0 < period_ns
     \<and> (word_of_int period_ns :: u64) \<le> maximum_controller_period_ns (runtime_configuration c)"

definition addTime :: "u64 \<Rightarrow> u64 \<Rightarrow> u64 option" where
  "addTime value_ns increment_ns =
    (if - 1 - value_ns < increment_ns then None else Some (value_ns + increment_ns))"

definition axis_valid :: "AxisEnvelope \<Rightarrow> f64 \<Rightarrow> f64 \<Rightarrow> bool" where
  "axis_valid limits position velocity \<longleftrightarrow>
     isfinite position \<and> isfinite velocity \<and> \<not> f64_less position (safe_lower limits)
   \<and> \<not> f64_less (safe_upper limits) position \<and> \<not> f64_less (env_velocity_positive limits) velocity
   \<and> \<not> f64_less velocity (f64_neg (env_velocity_negative limits))"

definition desiredIsValid :: "JointPoint \<Rightarrow> ctl \<Rightarrow> bool" where
  "desiredIsValid desired c \<longleftrightarrow>
     list_all (\<lambda>a. axis_valid (ctl_envelope c ! a) (positions desired ! a) (velocities desired ! a)) axis_indices"

text \<open>
  The stop duration in extended precision. Every velocity is finite here and every stop limit of
  a valid envelope is a positive finite double, so no special value occurs.
\<close>

fun f64_rat :: "f64 \<Rightarrow> rat" where
  "f64_rat (Fin q) = q"
| "f64_rat _ = 0"

definition axis_duration :: "AxisEnvelope \<Rightarrow> f64 \<Rightarrow> rat" where
  "axis_duration limits velocity = f80_round (\<bar>f64_rat velocity\<bar> / f64_rat (directional_limit limits velocity))"

definition calculateStopDurationNs :: "JointPoint \<Rightarrow> ctl \<Rightarrow> u64 option" where
  "calculateStopDurationNs desired c =
    (if \<not> desiredIsValid desired c then None
     else let d = fold (\<lambda>a d. max d (axis_duration (ctl_envelope c ! a) (velocities desired ! a)))
                       axis_indices 0;
              nanoseconds = \<lceil>f80_round (d * 1000000000)\<rceil>
          in if nanoseconds < 0 \<or> 2 ^ 64 - 1 < nanoseconds then None else Some (word_of_int nanoseconds))"

subsection \<open>A new session epoch\<close>

definition hold_point :: "ctl \<Rightarrow> JointPoint" where
  "hold_point c = new_joint_point\<lparr>positions := map (\<lambda>a. desired_positions c ! a) axis_indices,
                                  velocities := zero_axes\<rparr>"

definition resetRtEpoch :: "u64 \<Rightarrow> ctl \<Rightarrow> bool \<times> ctl" where
  "resetRtEpoch epoch c =
    (if session_publication_floor c = 0 then (False, c)
     else if \<not> desiredIsValid (hold_point c) c then (False, c)
     else let (ok, stop) = stop_configure (ctl_envelope c) new_stop in
       if \<not> ok then (False, c)
       else (True, c\<lparr>rt_active_trajectory := None, rt_sampling_cursor := new_cursor, rt_desired := hold_point c,
              rt_stop_trajectory := stop, rt_publication_floor := session_publication_floor c,
              rt_consumed_publication_sequence := session_publication_floor c - 1,
              rt_last_accepted_arrival_ns := 0, rt_stop_elapsed_ns := 0, ctl_execution_time_ns := 0,
              ctl_active_generation := 0, buffered_until_ns := 0, ctl_replaceable_from_ns := 0,
              rt_observed_session_epoch := epoch\<rparr>))"

subsection \<open>Taking over a published trajectory\<close>

text \<open>Whether a snapshot that is new for this session is refused.\<close>

definition snapshot_refused :: "bool \<Rightarrow> RollingSnapshot \<Rightarrow> ctl \<Rightarrow> bool" where
  "snapshot_refused is_priming snapshot c \<longleftrightarrow>
    (let t = trajectory snapshot; execution_ns = ctl_execution_time_ns c in
       snap_session_epoch snapshot \<noteq> rt_observed_session_epoch c \<or> generation t \<le> ctl_active_generation c
     \<or> (if is_priming then execution_ns \<noteq> 0 \<or> time_ns (points t ! 0) \<noteq> 0
        else execution_ns < time_ns (points t ! 0) \<or> time_ns (points t ! (length (points t) - 1)) < execution_ns
          \<or> earliest_changed_ns t < ctl_replaceable_from_ns c
            \<and> \<not> (execution_ns = 0 \<and> earliest_changed_ns t = 0)))"

definition consumeLatestRtTrajectory :: "bool \<Rightarrow> ctl \<Rightarrow> SnapshotConsumeResult \<times> ctl" where
  "consumeLatestRtTrajectory is_priming c =
    (case acquire (snapshot_exchange c) of
       (None, x) \<Rightarrow> (kNoChange, c\<lparr>snapshot_exchange := x\<rparr>)
     | (Some snapshot, x) \<Rightarrow>
        let d1 = c\<lparr>snapshot_exchange := x\<rparr>; t = trajectory snapshot; execution_ns = ctl_execution_time_ns c in
        if snap_publication_sequence snapshot < rt_publication_floor c
           \<or> snap_publication_sequence snapshot \<le> rt_consumed_publication_sequence c then (kNoChange, d1)
        else if snapshot_refused is_priming snapshot c then (kInvalid, d1)
        else case sampleTrajectoryImageMonotonic t execution_ns new_cursor of
               None \<Rightarrow> (kInvalid, d1)
             | Some (candidate, cursor, advances) \<Rightarrow>
               if \<not> desiredIsValid candidate c then (kInvalid, d1)
               else case addTime execution_ns (replace_lead_ns (runtime_configuration c)) of
                      None \<Rightarrow> (kInvalid, d1)
                    | Some boundary_ns \<Rightarrow>
                        (kAccepted, d1\<lparr>rt_active_trajectory := Some (reading x), rt_sampling_cursor := cursor,
                           rt_desired := candidate,
                           rt_consumed_publication_sequence := snap_publication_sequence snapshot,
                           rt_last_accepted_arrival_ns := arrival_time_ns snapshot,
                           ctl_active_generation := generation t,
                           buffered_until_ns := time_ns (points t ! (length (points t) - 1)),
                           ctl_replaceable_from_ns := boundary_ns,
                           rt_session_state := (if is_priming then kRunning else rt_session_state c)\<rparr>))"

subsection \<open>Stopping\<close>

text \<open>\<open>compare_exchange_strong\<close> from \<open>kNone\<close>: the first reason stays.\<close>

definition set_stop_reason :: "StopReason \<Rightarrow> ctl \<Rightarrow> ctl" where
  "set_stop_reason reason c = (if stop_reason c = Stop_kNone then c\<lparr>stop_reason := reason\<rparr> else c)"

definition beginRtStop :: "StopReason \<Rightarrow> ctl \<Rightarrow> bool \<times> ctl" where
  "beginRtStop reason c =
    (if rt_session_state c = Session_kStopping \<or> rt_session_state c = Session_kHolding then (True, c)
     else if rt_session_state c \<noteq> kPriming \<and> rt_session_state c \<noteq> kRunning then (False, c)
     else let d1 = set_stop_reason reason c; (ok, stop) = stop_begin (rt_desired c) (rt_stop_trajectory c) in
       if \<not> ok then (False, d1\<lparr>rt_stop_trajectory := stop\<rparr>)
       else let d2 = d1\<lparr>rt_stop_trajectory := stop, rt_stop_elapsed_ns := 0, stop_requested := False\<rparr> in
         if stop_state stop = kHolding
         then (case stop_sample 0 stop of
                 (None, stop') \<Rightarrow> (False, d2\<lparr>rt_stop_trajectory := stop'\<rparr>)
               | (Some terminal, stop') \<Rightarrow>
                   if \<not> desiredIsValid terminal c then (False, d2\<lparr>rt_stop_trajectory := stop'\<rparr>)
                   else (True, d2\<lparr>rt_stop_trajectory := stop', rt_desired := terminal,
                                  rt_session_state := Session_kHolding\<rparr>))
         else (True, d2\<lparr>rt_session_state := Session_kStopping\<rparr>))"

definition stop_increment :: "int \<Rightarrow> ctl \<Rightarrow> u64" where
  "stop_increment period_ns c =
    (if stop_reason c \<noteq> kClockAnomaly \<and> validPeriod period_ns c then word_of_int period_ns
     else nominal_controller_period_ns (runtime_configuration c))"

definition advanceRtStop :: "int \<Rightarrow> ctl \<Rightarrow> bool \<times> ctl" where
  "advanceRtStop period_ns c =
    (let increment_ns = stop_increment period_ns c in
     case (addTime (rt_stop_elapsed_ns c) increment_ns, addTime (ctl_execution_time_ns c) increment_ns) of
       (Some next_elapsed_ns, Some next_execution_ns) \<Rightarrow>
         (case stop_sample next_elapsed_ns (rt_stop_trajectory c) of
            (None, stop) \<Rightarrow> (False, c\<lparr>rt_stop_trajectory := stop\<rparr>)
          | (Some candidate, stop) \<Rightarrow>
              if \<not> desiredIsValid candidate c then (False, c\<lparr>rt_stop_trajectory := stop\<rparr>)
              else (True, c\<lparr>rt_stop_trajectory := stop, rt_desired := candidate,
                            rt_stop_elapsed_ns := next_elapsed_ns, ctl_execution_time_ns := next_execution_ns,
                            rt_session_state := (if stop_state stop = kHolding then Session_kHolding
                                                 else rt_session_state c)\<rparr>))
     | _ \<Rightarrow> (False, c))"

subsection \<open>Following a trajectory\<close>

definition updateRtReplaceableBoundary :: "ctl \<Rightarrow> bool \<times> ctl" where
  "updateRtReplaceableBoundary c =
    (case addTime (ctl_execution_time_ns c) (replace_lead_ns (runtime_configuration c)) of
       None \<Rightarrow> (False, c) | Some boundary_ns \<Rightarrow> (True, c\<lparr>ctl_replaceable_from_ns := boundary_ns\<rparr>))"

text \<open>
  Sampling moves the cursor even when the sample turns out to be invalid: the cursor is an
  output of its own.
\<close>

definition advance_along :: "u64 \<Rightarrow> ctl \<Rightarrow> bool \<times> ctl" where
  "advance_along next_execution_ns c =
    (case sampleTrajectoryImageMonotonic (active_image c) next_execution_ns (rt_sampling_cursor c) of
       None \<Rightarrow> (False, c)
     | Some (candidate, cursor, advances) \<Rightarrow>
         if \<not> desiredIsValid candidate c then (False, c\<lparr>rt_sampling_cursor := cursor\<rparr>)
         else (True, c\<lparr>rt_sampling_cursor := cursor, rt_desired := candidate,
                       ctl_execution_time_ns := next_execution_ns\<rparr>))"

definition advanceRtFinal :: "int \<Rightarrow> ctl \<Rightarrow> bool \<times> ctl" where
  "advanceRtFinal period_ns c =
    (case addTime (ctl_execution_time_ns c) (word_of_int period_ns) of
       None \<Rightarrow> (False, c)
     | Some next_ns \<Rightarrow>
         let completed = (buffered_until_ns c \<le> next_ns);
             (ok, d1) = advance_along (if completed then buffered_until_ns c else next_ns) c in
         if \<not> ok then (False, d1)
         else if \<not> completed then updateRtReplaceableBoundary d1
         else (True, (set_stop_reason kCompleted d1)\<lparr>rt_session_state := Session_kHolding\<rparr>))"

text \<open>Falling back to a stop when a step of the cycle failed.\<close>

definition or_stop :: "StopReason \<Rightarrow> bool \<times> ctl \<Rightarrow> bool \<times> ctl" where
  "or_stop reason r = (if fst r then r else beginRtStop reason (snd r))"

definition advanceRtPlan :: "int \<Rightarrow> ctl \<Rightarrow> bool \<times> ctl" where
  "advanceRtPlan period_ns c =
    (case calculateStopDurationNs (rt_desired c) c of
       None \<Rightarrow> beginRtStop kInternalInvariant c
     | Some stop_ns \<Rightarrow>
         if \<not> hasSufficientStoppingHorizon (ctl_execution_time_ns c) (buffered_until_ns c) stop_ns
               (scheduling_guard (runtime_configuration c))
         then beginRtStop kLowWater c
         else case addTime (ctl_execution_time_ns c) (word_of_int period_ns) of
                None \<Rightarrow> beginRtStop kInternalInvariant c
              | Some next_ns \<Rightarrow>
                  let (ok, d1) = advance_along next_ns c in
                  or_stop kInternalInvariant (if \<not> ok then (False, d1) else updateRtReplaceableBoundary d1))"

subsection \<open>The control cycle\<close>

definition update_priming :: "int \<Rightarrow> ctl \<Rightarrow> bool \<times> ctl" where
  "update_priming time_now c =
    (if stop_requested c then beginRtStop kInternalInvariant c
     else if prime_start_ns c \<le> time_now \<and> \<not> initial_handoff_gate c
     then let (consumed, d1) = consumeLatestRtTrajectory True c in
       if consumed = kInvalid then beginRtStop kInternalInvariant d1 else (True, d1)
     else (True, c))"

definition update_running :: "int \<Rightarrow> u64 \<Rightarrow> ctl \<Rightarrow> bool \<times> ctl" where
  "update_running period_ns steady_now c =
    (if stop_requested c then beginRtStop kInternalInvariant c
     else if ctl_execution_time_ns c = 0 \<and> initial_handoff_gate c then (True, c)
     else let (consumed, d1) = consumeLatestRtTrajectory False c in
       if consumed = kInvalid then beginRtStop kInternalInvariant d1
       else if \<not> validPeriod period_ns d1 then beginRtStop kClockAnomaly d1
       else if im_final (active_image d1) then or_stop kInternalInvariant (advanceRtFinal period_ns d1)
       else if elapsedExceeds steady_now (rt_last_accepted_arrival_ns d1)
                 (update_timeout_ns (runtime_configuration d1))
       then beginRtStop kUpdateTimeout d1
       else advanceRtPlan period_ns d1)"

definition writeRtDesired :: "ctl \<Rightarrow> bool \<times> ctl" where
  "writeRtDesired c =
    (if \<not> desiredIsValid (rt_desired c) c then (False, c)
     else (True, c\<lparr>commands := map (\<lambda>a. positions (rt_desired c) ! a) axis_indices,
                   desired_positions := map (\<lambda>a. positions (rt_desired c) ! a) axis_indices,
                   desired_velocities := map (\<lambda>a. velocities (rt_desired c) ! a) axis_indices,
                   rt_state_session_epoch := rt_observed_session_epoch c\<rparr>))"

text \<open>
  What the cycle is given: the time and period of the call, the steady clock and the state
  interfaces. The callback thread may run between the two loads of the session epoch in each of
  the three attempts to read the session; \<open>others\<close> is what it does there.
\<close>

record cycle_input =
  time_now_ns :: int
  cycle_period_ns :: int
  steady_now_ns :: u64
  position_states :: "f64 list"
  feedback_age_state :: f64

text \<open>None: the epoch reset failed; else whether a coherent session was read, and its state.\<close>

fun read_session :: "(nat \<Rightarrow> ctl \<Rightarrow> ctl) \<Rightarrow> nat list \<Rightarrow> ctl \<Rightarrow> (bool \<times> SessionState) option \<times> ctl" where
  "read_session others [] c = (Some (False, rt_session_state c), c)"
| "read_session others (attempt # rest) c =
    (let epoch_before = session_epoch c;
         (ok, d1) = (if epoch_before \<noteq> rt_observed_session_epoch c then resetRtEpoch epoch_before c else (True, c))
     in if \<not> ok then (None, d1)
        else let d2 = others attempt d1; s = rt_session_state d1 in
          if epoch_before = session_epoch d2 then (Some (True, s), d2) else read_session others rest d2)"

definition update_session :: "cycle_input \<Rightarrow> SessionState \<Rightarrow> ctl \<Rightarrow> bool \<times> ctl" where
  "update_session i s c =
    (case s of
       kPriming \<Rightarrow> update_priming (time_now_ns i) c
     | kRunning \<Rightarrow> update_running (cycle_period_ns i) (steady_now_ns i) c
     | Session_kStopping \<Rightarrow> advanceRtStop (cycle_period_ns i) c
     | Session_kHolding \<Rightarrow> (True, c\<lparr>rt_desired := (rt_desired c)\<lparr>velocities := zero_axes\<rparr>\<rparr>)
     | Session_kNone \<Rightarrow> (True, c\<lparr>rt_desired := (rt_desired c)\<lparr>velocities := zero_axes\<rparr>\<rparr>)
     | kTerminated \<Rightarrow> (True, c))"

text \<open>The cycle between the two increments of the state version.\<close>

definition update_body :: "(nat \<Rightarrow> ctl \<Rightarrow> ctl) \<Rightarrow> cycle_input \<Rightarrow> ctl \<Rightarrow> bool \<times> ctl" where
  "update_body others i c =
    (let d1 = c\<lparr>observed_positions := map (\<lambda>a. position_states i ! a) axis_indices,
                observed_feedback_age_ms := feedback_age_state i\<rparr>
     in case read_session others [0, 1, 2] d1 of
          (None, d2) \<Rightarrow> (False, d2)
        | (Some (coherent, s), d2) \<Rightarrow>
            if \<not> coherent then writeRtDesired d2
            else let (ok, d3) = update_session i s d2 in
              if \<not> ok then (False, d3) else writeRtDesired d3)"

definition update :: "(nat \<Rightarrow> ctl \<Rightarrow> ctl) \<Rightarrow> cycle_input \<Rightarrow> ctl \<Rightarrow> bool \<times> ctl" where
  "update others i c =
    (if \<not> active c then (True, c)
     else let (ok, d1) = update_body others i (c\<lparr>rt_state_version := rt_state_version c + 1\<rparr>)
          in (ok, d1\<lparr>rt_state_version := rt_state_version d1 + 1\<rparr>))"

end
