(* ===== verification/RollingSession.thy ===== *)
theory RollingSession
  imports RollingController Semantic
begin

text \<open>
  The callback thread of \<open>RollingTrajectoryController\<close>: the view of the real-time state it takes
  without a lock, the admission of a batch and the published state
  (\<open>rolling_trajectory_state.cpp\<close>, \<open>rolling_trajectory_session.cpp\<close>).
\<close>

subsection \<open>The view of the real-time state\<close>

record RtStateView =
  view_session_epoch :: u64
  view_session_state :: SessionState
  view_active_generation :: u64
  view_execution_time_ns :: u64
  view_replaceable_from_ns :: u64
  view_desired :: JointPoint

text \<open>
  One attempt makes 35 loads, and other threads may run between any two of them: load \<open>k\<close> sees
  the state \<open>m k\<close>.
\<close>

definition loaded_view :: "(nat \<Rightarrow> ctl) \<Rightarrow> RtStateView" where
  "loaded_view m =
     \<lparr>view_session_epoch = rt_state_session_epoch (m 1), view_session_state = rt_session_state (m 2),
      view_active_generation = ctl_active_generation (m 3),
      view_execution_time_ns = ctl_execution_time_ns (m 4),
      view_replaceable_from_ns = ctl_replaceable_from_ns (m 5),
      view_desired = \<lparr>time_ns = ctl_execution_time_ns (m 4),
         positions = map (\<lambda>a. desired_positions (m (6 + 2 * a)) ! a) axis_indices,
         velocities = map (\<lambda>a. desired_velocities (m (7 + 2 * a)) ! a) axis_indices\<rparr>\<rparr>"

definition version_after :: nat where "version_after = 34"

definition read_attempt :: "(nat \<Rightarrow> ctl) \<Rightarrow> RtStateView option" where
  "read_attempt m =
    (if odd (rt_state_version (m 0)) then None
     else if rt_state_version (m 0) = rt_state_version (m version_after)
        \<and> even (rt_state_version (m version_after)) \<and> desiredIsValid (view_desired (loaded_view m)) (m 0)
     then Some (loaded_view m) else None)"

text \<open>The attempts, eight in the code; attempt \<open>j\<close> sees the states \<open>obs j\<close>.\<close>

fun read_attempts :: "(nat \<Rightarrow> nat \<Rightarrow> ctl) \<Rightarrow> nat list \<Rightarrow> RtStateView option" where
  "read_attempts obs [] = None"
| "read_attempts obs (j # js) =
     (case read_attempt (obs j) of Some v \<Rightarrow> Some v | None \<Rightarrow> read_attempts obs js)"

definition kMaximumReadAttempts :: nat where "kMaximumReadAttempts = 8"

definition readRtStateView :: "(nat \<Rightarrow> nat \<Rightarrow> ctl) \<Rightarrow> RtStateView option" where
  "readRtStateView obs = read_attempts obs [0..<kMaximumReadAttempts]"

subsection \<open>The admission context\<close>

definition blank_context :: AdmissionContext where
  "blank_context = \<lparr>execution_time_ns = 0, replaceable_from_ns = 0, minimum_horizon_ns = 0,
                    active_generation = 0, priming = False\<rparr>"

text \<open>The stop duration and the four guards, or None when a sum overflows.\<close>

definition guarded_horizon :: "SchedulingGuard \<Rightarrow> u64 \<Rightarrow> u64 option" where
  "guarded_horizon guard stop_ns =
    (case addTime stop_ns (one_cycle_detection_ns guard) of None \<Rightarrow> None | Some r1 \<Rightarrow>
     case addTime r1 (stop_time_growth_ns guard) of None \<Rightarrow> None | Some r2 \<Rightarrow>
     case addTime r2 (non_rt_to_rt_visibility_ns guard) of None \<Rightarrow> None | Some r3 \<Rightarrow>
     addTime r3 (period_quantization_ns guard))"

definition buildAdmissionContext :: "(nat \<Rightarrow> nat \<Rightarrow> ctl) \<Rightarrow> ctl \<Rightarrow> AdmissionContext option" where
  "buildAdmissionContext obs c =
    (if rt_session_state c = kPriming \<and> ctl_active_generation c = 0
     then Some (blank_context\<lparr>priming := True\<rparr>)
     else case readRtStateView obs of
            None \<Rightarrow> None
          | Some view \<Rightarrow>
              if view_session_state view \<noteq> kRunning \<or> view_session_epoch view \<noteq> session_epoch c then None
              else case calculateStopDurationNs (view_desired view) c of
                     None \<Rightarrow> None
                   | Some stop_ns \<Rightarrow>
                       (case guarded_horizon (scheduling_guard (runtime_configuration c)) stop_ns of
                          None \<Rightarrow> None
                        | Some minimum_ns \<Rightarrow>
                            Some \<lparr>execution_time_ns = view_execution_time_ns view,
                                  replaceable_from_ns = view_replaceable_from_ns view,
                                  minimum_horizon_ns = minimum_ns,
                                  active_generation = view_active_generation view, priming = False\<rparr>))"

subsection \<open>Public values\<close>

fun publicResult :: "RejectCode \<Rightarrow> PublicResult" where
  "publicResult Reject_kNone = ACCEPTED"
| "publicResult kLateReplace = LATE_REPLACE"
| "publicResult kPositionDiscontinuity = SPLICE_MISMATCH"
| "publicResult kVelocityDiscontinuity = SPLICE_MISMATCH"
| "publicResult kPositionLimit = LIMIT_EXCEEDED"
| "publicResult kVelocityLimit = LIMIT_EXCEEDED"
| "publicResult kAccelerationLimit = LIMIT_EXCEEDED"
| "publicResult kNotStoppingViable = NOT_STOPPABLE"
| "publicResult kCapacityExceeded = HORIZON_EXCEEDED"
| "publicResult kInsufficientHorizon = HORIZON_EXCEEDED"
| "publicResult kHorizonExceeded = HORIZON_EXCEEDED"
| "publicResult kSessionNotAccepting = NOT_ACCEPTING"
| "publicResult kFinalNotAtRest = FINAL_NOT_AT_REST"
| "publicResult _ = INVALID_BATCH"

fun publicStopReason :: "StopReason \<Rightarrow> PublicStop" where
  "publicStopReason Stop_kNone = STOP_NONE"
| "publicStopReason kUpdateTimeout = STOP_UPDATE_TIMEOUT"
| "publicStopReason kLowWater = STOP_BUFFER_END"
| "publicStopReason kControllerDeactivated = STOP_DEACTIVATED"
| "publicStopReason kCompleted = STOP_COMPLETED"
| "publicStopReason _ = STOP_INTERNAL"

datatype PublicState = HOLDING | STARTING | RUNNING | STOPPING

record StateMessage =
  msg_epoch :: u32
  msg_state :: PublicState
  msg_last_sequence :: u64
  msg_last_result :: PublicResult
  msg_stop_reason :: PublicStop

definition trajectory_pending :: "ctl \<Rightarrow> bool" where
  "trajectory_pending c \<longleftrightarrow> rt_session_state c = kPriming \<and> points (buf_image (buffer c)) = []"

definition buildPublicState :: "ctl \<Rightarrow> StateMessage" where
  "buildPublicState c =
     \<lparr>msg_epoch = activation_epoch c,
      msg_state = (case rt_session_state c of
                     kPriming \<Rightarrow> (if trajectory_pending c then HOLDING else STARTING)
                   | kRunning \<Rightarrow> RUNNING | Session_kStopping \<Rightarrow> STOPPING | _ \<Rightarrow> HOLDING),
      msg_last_sequence = last_sequence c, msg_last_result = last_result c,
      msg_stop_reason = (if trajectory_pending c then previous_stop_reason c
                         else publicStopReason (stop_reason c))\<rparr>"

subsection \<open>Starting a session\<close>

definition takeover_refused :: "ctl \<Rightarrow> bool" where
  "takeover_refused c \<longleftrightarrow>
     first_axis (\<lambda>a. \<not> isfinite (observed_positions c ! a)
       \<or> f64_less (takeover_tolerances (runtime_configuration c) ! a)
                  (f64_abs (f64_sub (desired_positions c ! a) (observed_positions c ! a)))) \<noteq> None"

definition startSession :: "int \<Rightarrow> ctl \<Rightarrow> PublicResult \<times> ctl" where
  "startSession start_ns c =
    (if \<not> Semantic.feedback_fresh (observed_feedback_age_ms c) (RollingController.feedback_age_limit_ms (runtime_configuration c))
     then (NOT_ACCEPTING, c)
     else if takeover_refused c then (NOT_ACCEPTING, c)
     else let epoch = session_epoch c; publication = latestPublicationSequence (snapshot_exchange c) in
       if epoch = - 1 \<or> publication = - 1 then (NOT_ACCEPTING, c)
       else let (ok, b) = buffer_reset (new_joint_point\<lparr>positions := map (\<lambda>a. desired_positions c ! a) axis_indices\<rparr>)
                            (buffer c) in
         if \<not> ok then (LIMIT_EXCEEDED, c\<lparr>buffer := b\<rparr>)
         else (ACCEPTED, c\<lparr>buffer := b,
           previous_stop_reason := (if stop_reason c \<noteq> Stop_kNone then publicStopReason (stop_reason c)
                                    else previous_stop_reason c),
           session_origin_ns := start_ns, ctl_execution_time_ns := 0, ctl_active_generation := 0,
           buffered_until_ns := 0, ctl_replaceable_from_ns := 0, prime_start_ns := start_ns,
           session_publication_floor := publication + 1, stop_reason := Stop_kNone, stop_requested := False,
           session_epoch := epoch + 1, rt_session_state := kPriming\<rparr>))"

subsection \<open>Admission of a batch\<close>

text \<open>The message, with its times in nanoseconds.\<close>

record MessagePoint =
  mp_time_from_start_ns :: int
  mp_positions :: "f64 list"
  mp_velocities :: "f64 list"

record BatchMessage =
  bm_epoch :: u32
  bm_sequence :: u64
  bm_replace_from_ns :: int
  bm_points :: "MessagePoint list"
  bm_final :: bool

text \<open>
  The steps of \<open>admitBatch\<close> between which the real-time thread may run: up to the batch view,
  the preparation, the commit, the publication. A step yields a result that ends the admission
  (Inl) or goes on (Inr).
\<close>

definition batch_view :: "int \<Rightarrow> BatchMessage \<Rightarrow> BatchView" where
  "batch_view offset_ns m =
     \<lparr>replace_from_ns = word_of_int offset_ns,
      bv_points = Some (map (\<lambda>p. \<lparr>pv_time_ns = word_of_int (offset_ns + mp_time_from_start_ns p),
                                  pv_positions = Some (mp_positions p), pv_velocities = Some (mp_velocities p)\<rparr>)
                            (bm_points m)),
      bv_final = bm_final m\<rparr>"

text \<open>The offset of the batch in the session: of the running one, or of one that starts here.\<close>

definition batch_offset :: "int \<Rightarrow> BatchMessage \<Rightarrow> ctl \<Rightarrow> (PublicResult + int) \<times> ctl" where
  "batch_offset now_ns m c =
    (if rt_session_state c = kRunning \<or> rt_session_state c = kPriming \<and> points (buf_image (buffer c)) \<noteq> []
     then (Inr (bm_replace_from_ns m - session_origin_ns c), c)
     else if rt_session_state c = Session_kStopping \<or> rt_session_state c = kTerminated
     then (Inl NOT_ACCEPTING, c)
     else if sint (rc_max_horizon_ns (runtime_configuration c)) < bm_replace_from_ns m - now_ns
     then (Inl HORIZON_EXCEEDED, c)
     else let (started, c1) = startSession (bm_replace_from_ns m) c in
       if started \<noteq> ACCEPTED then (Inl started, c1) else (Inr 0, c1))"

definition admit_open :: "int \<Rightarrow> BatchMessage \<Rightarrow> ctl \<Rightarrow> (PublicResult + BatchView) \<times> ctl" where
  "admit_open now_ns m c =
    (if bm_epoch m \<noteq> activation_epoch c then (Inl WRONG_EPOCH, c)
     else if bm_sequence m \<le> epoch_sequence c then (Inl STALE_SEQUENCE, c)
     else let d1 = c\<lparr>epoch_sequence := bm_sequence m\<rparr> in
       if bm_points m = [] \<or> kTransportMaxPoints < length (bm_points m) then (Inl INVALID_BATCH, d1)
       else if bm_replace_from_ns m - now_ns < sint (replace_lead_ns (runtime_configuration d1))
       then (Inl LATE_REPLACE, d1)
       else case batch_offset now_ns m d1 of
              (Inl result, d2) \<Rightarrow> (Inl result, d2)
            | (Inr offset_ns, d2) \<Rightarrow>
                if offset_ns < 0 then (Inl LATE_REPLACE, d2)
                else if list_ex (\<lambda>p. offset_ns + mp_time_from_start_ns p < 0) (bm_points m)
                then (Inl INVALID_BATCH, d2)
                else (Inr (batch_view offset_ns m), d2))"

definition admit_prepare :: "(nat \<Rightarrow> nat \<Rightarrow> ctl) \<Rightarrow> BatchView \<Rightarrow> ctl \<Rightarrow> PublicResult + TrajectoryImage" where
  "admit_prepare obs batch c =
    (case buildAdmissionContext obs c of
       None \<Rightarrow> Inl NOT_ACCEPTING
     | Some ctx \<Rightarrow>
         let (code, candidate) = prepare batch ctx new_image (buffer c)
         in if code \<noteq> Reject_kNone then Inl (publicResult code) else Inr candidate)"

definition admit_commit :: "(nat \<Rightarrow> nat \<Rightarrow> ctl) \<Rightarrow> TrajectoryImage \<Rightarrow> ctl \<Rightarrow> (PublicResult + unit) \<times> ctl" where
  "admit_commit obs candidate c =
    (case buildAdmissionContext obs c of
       None \<Rightarrow> (Inl NOT_ACCEPTING, c)
     | Some ctx \<Rightarrow>
         let (code, b) = commit candidate ctx (buffer c)
         in if code \<noteq> Reject_kNone then (Inl (publicResult code), c\<lparr>buffer := b\<rparr>)
            else (Inr (), c\<lparr>buffer := b\<rparr>))"

definition admit_publish :: "u64 \<Rightarrow> ctl \<Rightarrow> PublicResult \<times> ctl" where
  "admit_publish steady_now c =
    (let (ok, x) = publish (session_epoch c) (buf_image (buffer c)) steady_now (snapshot_exchange c) in
     if ok then (ACCEPTED, c\<lparr>snapshot_exchange := x\<rparr>)
     else (NOT_ACCEPTING, (set_stop_reason kInternalInvariant c)\<lparr>stop_requested := True\<rparr>))"

text \<open>
  The admission as a whole: \<open>others k\<close> is what the other threads do before step \<open>k\<close>; a view of
  the real-time state that is read in one piece.
\<close>

definition at_once :: "ctl \<Rightarrow> nat \<Rightarrow> nat \<Rightarrow> ctl" where
  "at_once c = (\<lambda>_ _. c)"

definition admitBatch ::
  "(nat \<Rightarrow> ctl \<Rightarrow> ctl) \<Rightarrow> int \<Rightarrow> u64 \<Rightarrow> BatchMessage \<Rightarrow> ctl \<Rightarrow> PublicResult \<times> ctl" where
  "admitBatch others now_ns steady_now m c =
    (case admit_open now_ns m c of
       (Inl result, d1) \<Rightarrow> (result, d1)
     | (Inr batch, d1) \<Rightarrow>
         let d2 = others 1 d1 in
         (case admit_prepare (at_once d2) batch d2 of
            Inl result \<Rightarrow> (result, d2)
          | Inr candidate \<Rightarrow>
              (case admit_commit (at_once (others 2 d2)) candidate (others 2 d2) of
                 (Inl result, d3) \<Rightarrow> (result, d3)
               | (Inr _, d3) \<Rightarrow> admit_publish steady_now (others 3 d3))))"

definition handleBatch ::
  "(nat \<Rightarrow> ctl \<Rightarrow> ctl) \<Rightarrow> int \<Rightarrow> u64 \<Rightarrow> BatchMessage option \<Rightarrow> ctl \<Rightarrow> ctl" where
  "handleBatch others now_ns steady_now message c =
    (case message of
       None \<Rightarrow> c
     | Some m \<Rightarrow>
         if \<not> active c then c
         else let (result, d1) = admitBatch others now_ns steady_now m (c\<lparr>initial_handoff_gate := True\<rparr>)
              in d1\<lparr>last_result := result, last_sequence := bm_sequence m, initial_handoff_gate := False\<rparr>)"

end
