(* ===== verification/RollingConfigure.thy ===== *)
theory RollingConfigure
  imports RollingSession
begin

text \<open>
  The lifecycle of \<open>RollingTrajectoryController\<close>: configuration
  (\<open>rolling_trajectory_configure.cpp\<close>), activation and deactivation
  (\<open>rolling_trajectory_controller.cpp\<close>). The parameter server is a record of the values it
  returns; publishers, timers and subscriptions are left out.
\<close>

record RollingParameters =
  par_joints :: "string list"
  joint_position_lower :: "f64 list"
  joint_position_upper :: "f64 list"
  joint_velocity_limits :: "f64 list"
  joint_acceleration_limits :: "f64 list"
  position_margin :: f64
  par_buffer_capacity :: int
  max_horizon_ms :: int
  update_timeout_ms :: int
  replace_lead_ms :: int
  state_publish_period_ms :: int
  nominal_controller_period_ms :: int
  maximum_controller_period_ms :: int
  one_cycle_detection_guard_ms :: int
  stop_time_growth_guard_ms :: int
  non_rt_to_rt_visibility_guard_ms :: int
  period_quantization_guard_ms :: int
  par_feedback_age_limit_ms :: f64
  par_takeover_tolerances :: "f64 list"
  par_splice_position_tolerances :: "f64 list"
  par_splice_velocity_tolerances :: "f64 list"

definition kManagedParameterNames :: "string list" where
  "kManagedParameterNames =
     [''joints'', ''joint_position_lower'', ''joint_position_upper'', ''joint_velocity_limits'',
      ''joint_acceleration_limits'', ''position_margin'', ''buffer_capacity'', ''max_horizon_ms'',
      ''update_timeout_ms'', ''replace_lead_ms'', ''state_publish_period_ms'',
      ''nominal_controller_period_ms'', ''maximum_controller_period_ms'', ''one_cycle_detection_guard_ms'',
      ''stop_time_growth_guard_ms'', ''non_rt_to_rt_visibility_guard_ms'', ''period_quantization_guard_ms'',
      ''feedback_age_limit_ms'', ''takeover_tolerances'', ''splice_position_tolerances'',
      ''splice_velocity_tolerances'']"

definition isManagedParameter :: "string \<Rightarrow> bool" where
  "isManagedParameter name \<longleftrightarrow> name \<in> set kManagedParameterNames"

text \<open>The callback that vetoes parameter changes: whether they are accepted.\<close>

definition rolling_parameters_accepted :: "string list \<Rightarrow> ctl \<Rightarrow> bool" where
  "rolling_parameters_accepted names c \<longleftrightarrow>
     \<not> parameters_frozen c \<or> \<not> list_ex isManagedParameter names"

definition kNanosecondsPerMillisecond :: int where "kNanosecondsPerMillisecond = 1000000"

definition millisecondsToNanoseconds :: "int \<Rightarrow> u64 option" where
  "millisecondsToNanoseconds milliseconds =
    (if milliseconds \<le> 0 then None
     else if (2 ^ 64 - 1) div kNanosecondsPerMillisecond < milliseconds then None
     else Some (word_of_int milliseconds * word_of_int kNanosecondsPerMillisecond))"

text \<open>\<open>read_duration\<close> on the parameters in the order of the code, up to the first error.\<close>

fun read_durations :: "(string \<times> int) list \<Rightarrow> string + u64 list" where
  "read_durations [] = Inr []"
| "read_durations ((name, ms) # rest) =
    (case millisecondsToNanoseconds ms of
       None \<Rightarrow> Inl (name @ '' must be a positive, representable integer millisecond value'')
     | Some ns \<Rightarrow> (case read_durations rest of Inl e \<Rightarrow> Inl e | Inr nss \<Rightarrow> Inr (ns # nss)))"

definition durations_of :: "RollingParameters \<Rightarrow> (string \<times> int) list" where
  "durations_of p =
     [(''max_horizon_ms'', max_horizon_ms p), (''update_timeout_ms'', update_timeout_ms p),
      (''replace_lead_ms'', replace_lead_ms p), (''state_publish_period_ms'', state_publish_period_ms p),
      (''nominal_controller_period_ms'', nominal_controller_period_ms p),
      (''maximum_controller_period_ms'', maximum_controller_period_ms p),
      (''one_cycle_detection_guard_ms'', one_cycle_detection_guard_ms p),
      (''stop_time_growth_guard_ms'', stop_time_growth_guard_ms p),
      (''non_rt_to_rt_visibility_guard_ms'', non_rt_to_rt_visibility_guard_ms p),
      (''period_quantization_guard_ms'', period_quantization_guard_ms p)]"

text \<open>\<open>read_axis_values\<close>: the first list that does not have 14 values.\<close>

definition axis_values_error :: "(string \<times> f64 list) list \<Rightarrow> string option" where
  "axis_values_error vs =
     map_option (\<lambda>(name, _). name @ '' must contain exactly 14 values in protocol axis order'')
       (find (\<lambda>(_, values). length values \<noteq> kAxisCount) vs)"

definition axis_values_of :: "RollingParameters \<Rightarrow> (string \<times> f64 list) list" where
  "axis_values_of p =
     [(''takeover_tolerances'', par_takeover_tolerances p),
      (''splice_position_tolerances'', par_splice_position_tolerances p),
      (''splice_velocity_tolerances'', par_splice_velocity_tolerances p),
      (''joint_position_lower'', joint_position_lower p), (''joint_position_upper'', joint_position_upper p),
      (''joint_velocity_limits'', joint_velocity_limits p),
      (''joint_acceleration_limits'', joint_acceleration_limits p)]"

definition envelope_of :: "RollingParameters \<Rightarrow> DynamicEnvelope" where
  "envelope_of p =
     map (\<lambda>a. \<lparr>position_lower = joint_position_lower p ! a, position_upper = joint_position_upper p ! a,
              env_velocity_positive = joint_velocity_limits p ! a,
              env_velocity_negative = joint_velocity_limits p ! a,
              env_acceleration_positive = joint_acceleration_limits p ! a,
              env_acceleration_negative = joint_acceleration_limits p ! a,
              stop_acceleration_positive = joint_acceleration_limits p ! a,
              stop_acceleration_negative = joint_acceleration_limits p ! a,
              position_margin_lower = position_margin p, position_margin_upper = position_margin p\<rparr>)
       axis_indices"

text \<open>The configuration the durations and the other parameters make up, when they are consistent.\<close>

definition runtime_candidate :: "RollingParameters \<Rightarrow> string list \<Rightarrow> u64 list \<Rightarrow> string + RuntimeConfiguration" where
  "runtime_candidate p names ns =
    (let candidate = \<lparr>buffer_capacity = nat (par_buffer_capacity p), rc_max_horizon_ns = ns ! 0,
           update_timeout_ns = ns ! 1, replace_lead_ns = ns ! 2, state_publish_period_ns = ns ! 3,
           nominal_controller_period_ns = ns ! 4, maximum_controller_period_ns = ns ! 5,
           scheduling_guard = \<lparr>one_cycle_detection_ns = ns ! 6, stop_time_growth_ns = ns ! 7,
             non_rt_to_rt_visibility_ns = ns ! 8, period_quantization_ns = ns ! 9\<rparr>,
           feedback_age_limit_ms = par_feedback_age_limit_ms p,
           takeover_tolerances = par_takeover_tolerances p,
           splice_position_tolerances = par_splice_position_tolerances p,
           splice_velocity_tolerances = par_splice_velocity_tolerances p, joints = names\<rparr>
     in if maximum_controller_period_ns candidate < nominal_controller_period_ns candidate
           \<or> update_timeout_ns candidate < maximum_controller_period_ns candidate
           \<or> rc_max_horizon_ns candidate < replace_lead_ns candidate
        then Inl ''controller periods, update timeout, replace lead, and horizon are inconsistent''
        else if \<not> isfinite (par_feedback_age_limit_ms p) \<or> f64_le (par_feedback_age_limit_ms p) (Fin 0)
        then Inl ''feedback_age_limit_ms must be finite and positive''
        else case axis_values_error (axis_values_of p) of
               Some e \<Rightarrow> Inl e | None \<Rightarrow> Inr candidate)"

definition buffer_configuration_of :: "RuntimeConfiguration \<Rightarrow> BufferConfiguration" where
  "buffer_configuration_of r =
     \<lparr>capacity = buffer_capacity r, max_horizon_ns = rc_max_horizon_ns r,
      splice_position_tolerance = splice_position_tolerances r,
      splice_velocity_tolerance = splice_velocity_tolerances r\<rparr>"

text \<open>The error, or nothing; a buffer whose configuration fails half-way keeps what it has.\<close>

definition loadRuntimeConfiguration :: "RollingParameters \<Rightarrow> ctl \<Rightarrow> string option \<times> ctl" where
  "loadRuntimeConfiguration p c =
    (case parseJointNames (par_joints p) of
       Inl e \<Rightarrow> (Some e, c)
     | Inr names \<Rightarrow>
        if par_buffer_capacity p < 2 \<or> int kTransportMaxPoints < par_buffer_capacity p
        then (Some ''buffer_capacity must be in [2, 256]'', c)
        else case read_durations (durations_of p) of
          Inl e \<Rightarrow> (Some e, c)
        | Inr ns \<Rightarrow>
          (case runtime_candidate p names ns of
             Inl e \<Rightarrow> (Some e, c)
           | Inr candidate \<Rightarrow>
              let env = envelope_of p;
                  (ok, b) = buffer_configure (buffer_configuration_of candidate) env (buffer c);
                  (stop_ok, stop) = stop_configure env new_stop
              in if \<not> ok then (Some ''buffer configuration or robot-model limits are invalid'', c\<lparr>buffer := b\<rparr>)
                 else if \<not> stop_ok then (Some ''buffer configuration or robot-model limits are invalid'', c\<lparr>buffer := b\<rparr>)
                 else (None, c\<lparr>buffer := b, ctl_envelope := env, rt_stop_trajectory := stop,
                               runtime_configuration := candidate\<rparr>)))"

text \<open>True is SUCCESS, False is ERROR.\<close>

definition on_configure :: "RollingParameters \<Rightarrow> ctl \<Rightarrow> bool \<times> ctl" where
  "on_configure p c =
    (let d1 = c\<lparr>ctl_configured := False, active := False\<rparr> in
     case loadRuntimeConfiguration p d1 of
       (Some e, d2) \<Rightarrow> (False, d2)
     | (None, d2) \<Rightarrow>
        (True, d2\<lparr>observed_positions := zero_axes, desired_positions := zero_axes, desired_velocities := zero_axes,
          observed_feedback_age_ms := Fin 0, rt_session_state := Session_kNone, stop_reason := Stop_kNone,
          ctl_execution_time_ns := 0, ctl_active_generation := 0, buffered_until_ns := 0,
          ctl_replaceable_from_ns := 0, prime_start_ns := 0, session_epoch := 0,
          session_publication_floor := 1, rt_state_version := 0, rt_state_session_epoch := 0,
          initial_handoff_gate := False, ctl_configured := True, parameters_frozen := True\<rparr>))"

definition kFeedbackAgeInterface :: string where
  "kFeedbackAgeInterface = ''ethercat_domain/process_data_age_ms''"

definition command_interface_configuration :: "ctl \<Rightarrow> string list" where
  "command_interface_configuration c = map (\<lambda>joint. joint @ ''/position'') (joints (runtime_configuration c))"

definition state_interface_configuration :: "ctl \<Rightarrow> string list" where
  "state_interface_configuration c =
     map (\<lambda>joint. joint @ ''/position'') (joints (runtime_configuration c)) @ [kFeedbackAgeInterface]"

text \<open>An axis whose interfaces are not the expected ones, or whose command is not where the joint is.\<close>

definition activation_refused :: "loaned list \<Rightarrow> loaned list \<Rightarrow> ctl \<Rightarrow> nat \<Rightarrow> bool" where
  "activation_refused cmds sts c a \<longleftrightarrow>
    (let expected = joints (runtime_configuration c) ! a @ ''/position'';
         source_command = get_value cmds a; actual = get_value sts a
     in full_name (cmds ! a) \<noteq> expected \<or> full_name (sts ! a) \<noteq> expected
      \<or> \<not> isfinite source_command \<or> \<not> isfinite actual
      \<or> f64_less (takeover_tolerances (runtime_configuration c) ! a) (f64_abs (f64_sub source_command actual)))"

definition on_activate :: "loaned list \<Rightarrow> loaned list \<Rightarrow> ctl \<Rightarrow> bool \<times> ctl" where
  "on_activate cmds sts c =
    (let d1 = c\<lparr>active := False\<rparr> in
     if \<not> ctl_configured c \<or> length cmds \<noteq> kAxisCount \<or> length sts \<noteq> kAxisCount + 1 then (False, d1)
     else if first_axis (activation_refused cmds sts c) \<noteq> None then (False, d1)
     else if full_name (sts ! kAxisCount) \<noteq> kFeedbackAgeInterface then (False, d1)
     else
       let source_commands = map (get_value cmds) axis_indices;
           actual_positions = map (get_value sts) axis_indices;
           d2 = d1\<lparr>buffer := buffer_clear (buffer d1), activation_epoch := activation_epoch d1 + 1,
                   epoch_sequence := 0, last_sequence := 0, last_result := ACCEPTED,
                   previous_stop_reason := STOP_NONE, session_origin_ns := 0, stop_requested := False,
                   rt_active_trajectory := None, rt_sampling_cursor := new_cursor,
                   rt_desired := new_joint_point\<lparr>positions := source_commands, velocities := zero_axes\<rparr>\<rparr>;
           (ok, stop) = stop_configure (ctl_envelope d2) new_stop;
           d3 = d2\<lparr>rt_stop_trajectory := stop\<rparr>
       in if \<not> ok then (False, d3)
          else (True, d3\<lparr>rt_observed_session_epoch := 0, rt_publication_floor := 1,
            rt_consumed_publication_sequence := 0, rt_last_accepted_arrival_ns := 0, rt_stop_elapsed_ns := 0,
            rt_session_state := Session_kNone, stop_reason := Stop_kNone, ctl_execution_time_ns := 0,
            ctl_active_generation := 0, buffered_until_ns := 0, ctl_replaceable_from_ns := 0,
            prime_start_ns := 0, session_epoch := 0, session_publication_floor := 1, rt_state_version := 0,
            rt_state_session_epoch := 0, initial_handoff_gate := False,
            observed_positions := actual_positions, desired_positions := source_commands,
            desired_velocities := zero_axes, observed_feedback_age_ms := get_value sts kAxisCount,
            active := True\<rparr>))"

definition on_deactivate :: "ctl \<Rightarrow> ctl" where
  "on_deactivate c =
     c\<lparr>active := False, buffer := buffer_clear (buffer c), stop_requested := False,
       stop_reason := kControllerDeactivated, rt_session_state := kTerminated,
       session_epoch := session_epoch c + 1, rt_state_session_epoch := session_epoch c + 1\<rparr>"

end
