(* ===== verification/RollingFacts.thy ===== *)
theory RollingFacts
  imports RollingBuffer RollingStop
begin

text \<open>
  Facts on the pieces of \<open>ctrl_rolling_trajectory\<close>: the search over the axes, the index that
  sampling finds, and the arithmetic of times.
\<close>

subsection \<open>Axes\<close>

lemma first_axis_None: "first_axis P = None \<longleftrightarrow> (\<forall>a < kAxisCount. \<not> P a)"
  by (auto simp: first_axis_def find_None_iff axis_indices_def)

lemma first_axis_Some: "first_axis P \<noteq> None \<longleftrightarrow> (\<exists>a < kAxisCount. P a)"
  using first_axis_None [of P] by auto

lemma axis_indices_nth [simp]: "a < kAxisCount \<Longrightarrow> axis_indices ! a = a" "length axis_indices = kAxisCount"
  by (simp_all add: axis_indices_def)

lemma map_axis_nth [simp]: "a < kAxisCount \<Longrightarrow> map f axis_indices ! a = f a"
  by (simp add: axis_indices_def)

lemma zero_axes_nth [simp]: "a < kAxisCount \<Longrightarrow> zero_axes ! a = Fin 0" "length zero_axes = kAxisCount"
  by (simp_all add: zero_axes_def)

subsection \<open>Times\<close>

lemma u64_room: "\<not> - 1 - (v :: u64) < n \<longleftrightarrow> uint v + uint n < 2 ^ 64"
proof -
  have "uint (- 1 - v :: u64) = 2 ^ 64 - 1 - uint v"
    by (subst uint_sub_if') (use uint_lt2p [of v] in \<open>simp add: unsigned_minus_1_eq_mask mask_eq_exp_minus_1\<close>)
  then show ?thesis by (auto simp: word_less_def)
qed

lemma uint_add_small: "uint (v :: u64) + uint n < 2 ^ 64 \<Longrightarrow> uint (v + n) = uint v + uint n"
  by (subst uint_plus_if') simp

lemma addWithoutOverflow_eq:
  "addWithoutOverflow v n = (if uint v + uint n < 2 ^ 64 then Some (v + n) else None)"
  using u64_room [of v n] by (auto simp: addWithoutOverflow_def)

subsection \<open>The index of a time\<close>

definition increasing :: "JointPoint list \<Rightarrow> bool" where
  "increasing ps \<longleftrightarrow> sorted_wrt (\<lambda>p q. time_ns p < time_ns q) ps"

lemma increasing_nth: "increasing ps \<Longrightarrow> i < j \<Longrightarrow> j < length ps \<Longrightarrow> time_ns (ps ! i) < time_ns (ps ! j)"
  by (simp add: increasing_def sorted_wrt_iff_nth_less)

lemma increasing_le: "increasing ps \<Longrightarrow> i \<le> j \<Longrightarrow> j < length ps \<Longrightarrow> time_ns (ps ! i) \<le> time_ns (ps ! j)"
  using increasing_nth [of ps i j] by (cases "i = j") auto

definition index_at :: "JointPoint list \<Rightarrow> u64 \<Rightarrow> nat \<Rightarrow> bool" where
  "index_at ps t j \<longleftrightarrow> j < length ps \<and> time_ns (ps ! j) \<le> t \<and> (j + 1 < length ps \<longrightarrow> t < time_ns (ps ! (j + 1)))"

lemma advance_index_at:
  "i < length ps \<Longrightarrow> time_ns (ps ! i) \<le> t \<Longrightarrow> index_at ps t (advance_index ps t i)"
proof (induction ps t i rule: advance_index.induct)
  case (1 ps t i)
  show ?case
  proof (cases "i + 1 < length ps \<and> time_ns (ps ! (i + 1)) \<le> t")
    case True
    with 1 show ?thesis by (subst advance_index.simps) simp
  next
    case False
    with 1(2,3) show ?thesis by (subst advance_index.simps) (auto simp: index_at_def not_le)
  qed
qed

lemma index_at_unique:
  assumes "increasing ps" "index_at ps t j" "index_at ps t k"
  shows "j = k"
proof (rule ccontr)
  have no: False if "index_at ps t i" "index_at ps t l" "i < l" for i l
    using that increasing_le [OF assms(1), of "i + 1" l] by (auto simp: index_at_def)
  assume "j \<noteq> k"
  then show False using no [of j k] no [of k j] assms(2,3) by linarith
qed

lemma advance_index_eq:
  assumes "increasing ps" "i < length ps" "time_ns (ps ! i) \<le> t"
  shows "advance_index ps t i = advance_index ps t 0"
proof -
  have "time_ns (ps ! 0) \<le> t" using increasing_le [OF assms(1), of 0 i] assms(2,3) by simp
  then have "index_at ps t (advance_index ps t 0)" using assms(2) by (intro advance_index_at) auto
  then show ?thesis using index_at_unique [OF assms(1) advance_index_at [OF assms(2,3)]] by simp
qed

subsection \<open>Sampling\<close>

text \<open>What a sample is, given the index of its time.\<close>

definition sample_at :: "JointPoint list \<Rightarrow> u64 \<Rightarrow> nat \<Rightarrow> JointPoint option" where
  "sample_at ps t j =
    (if t = time_ns (ps ! j) then Some (ps ! j)
     else if length ps \<le> j + 1 then None else sampleSegment (ps ! j) (ps ! (j + 1)) t)"

definition in_span :: "JointPoint list \<Rightarrow> u64 \<Rightarrow> bool" where
  "in_span ps t \<longleftrightarrow> ps \<noteq> [] \<and> time_ns (ps ! 0) \<le> t \<and> t \<le> time_ns (ps ! (length ps - 1))"

definition cursor_start :: "TrajectoryImage \<Rightarrow> u64 \<Rightarrow> MonotonicTrajectoryCursor \<Rightarrow> nat" where
  "cursor_start img t cursor =
    (if \<not> cur_initialized cursor \<or> cur_generation cursor \<noteq> generation img
        \<or> t < last_time_ns cursor \<or> length (points img) \<le> point_index cursor
     then 0 else point_index cursor)"

definition cursor_at :: "TrajectoryImage \<Rightarrow> u64 \<Rightarrow> nat \<Rightarrow> MonotonicTrajectoryCursor" where
  "cursor_at img t j = \<lparr>point_index = j, cur_generation = generation img, last_time_ns = t, cur_initialized = True\<rparr>"

lemma sample_monotonic_eq:
  "sampleTrajectoryImageMonotonic img t cursor =
     (let j = advance_index (points img) t (cursor_start img t cursor) in
      if \<not> in_span (points img) t then None
      else map_option (\<lambda>p. (p, cursor_at img t j, j - cursor_start img t cursor)) (sample_at (points img) t j))"
  unfolding sampleTrajectoryImageMonotonic_def
  by (auto simp: Let_def in_span_def cursor_start_def cursor_at_def sample_at_def not_le not_less split: option.splits)

lemma cursor_start_new [simp]: "cursor_start img t new_cursor = 0"
  by (simp add: cursor_start_def new_cursor_def)

lemma sampleTrajectoryImage_eq:
  "sampleTrajectoryImage img t =
     (if \<not> in_span (points img) t then None else sample_at (points img) t (advance_index (points img) t 0))"
  by (simp add: sampleTrajectoryImage_def sample_monotonic_eq Let_def option.map_comp comp_def option.map_ident)

text \<open>A cursor left by a sample of the same image points at a knot not after its last time.\<close>

definition cursor_tracks :: "TrajectoryImage \<Rightarrow> MonotonicTrajectoryCursor \<Rightarrow> bool" where
  "cursor_tracks img cursor \<longleftrightarrow>
     (cur_initialized cursor \<and> cur_generation cursor = generation img \<and> point_index cursor < length (points img)
      \<longrightarrow> time_ns (points img ! point_index cursor) \<le> last_time_ns cursor)"

lemma cursor_tracks_new [simp]: "cursor_tracks img new_cursor"
  by (simp add: cursor_tracks_def new_cursor_def)

lemma tracked_index:
  assumes "increasing (points img)" "cursor_tracks img cursor" "in_span (points img) t"
  shows "advance_index (points img) t (cursor_start img t cursor) = advance_index (points img) t 0"
  using assms by (auto simp: cursor_start_def cursor_tracks_def intro!: advance_index_eq)

lemma tracked_sample:
  assumes "increasing (points img)" "cursor_tracks img cursor"
  shows "map_option fst (sampleTrajectoryImageMonotonic img t cursor) = sampleTrajectoryImage img t"
  using tracked_index [OF assms]
  by (auto simp: sample_monotonic_eq Let_def sampleTrajectoryImage_eq option.map_comp comp_def option.map_ident)

lemma sampled_cursor:
  assumes "increasing (points img)" "cursor_tracks img cursor"
    "sampleTrajectoryImageMonotonic img t cursor = Some (p, cursor', n)"
  shows "cursor' = cursor_at img t (advance_index (points img) t 0)" "in_span (points img) t"
    "index_at (points img) t (advance_index (points img) t 0)"
proof -
  show span: "in_span (points img) t"
    using assms(3) by (auto simp: sample_monotonic_eq Let_def split: if_splits)
  then show "cursor' = cursor_at img t (advance_index (points img) t 0)"
    using assms(3) tracked_index [OF assms(1,2) span] by (auto simp: sample_monotonic_eq Let_def)
  show "index_at (points img) t (advance_index (points img) t 0)"
    using span by (intro advance_index_at) (auto simp: in_span_def)
qed

lemma cursor_at_tracks:
  "index_at (points img) t j \<Longrightarrow> (generation img' = generation img \<Longrightarrow> points img' = points img) \<Longrightarrow>
     cursor_tracks img' (cursor_at img t j)"
  by (auto simp: cursor_tracks_def cursor_at_def index_at_def)

end
