(* ===== verification/RollingPlan.thy ===== *)
theory RollingPlan
  imports RollingFacts RollingController
begin

text \<open>
  What the limit checker and the admission of a batch guarantee, and the invariant of the plan in
  the buffer.
\<close>

subsection \<open>Extrema contain the ends of a segment\<close>

definition covers :: "ScalarKinematicExtrema \<Rightarrow> f64 \<Rightarrow> f64 \<Rightarrow> bool" where
  "covers ex p v \<longleftrightarrow> f64_le (position_min ex) p \<and> f64_le p (position_max ex)
     \<and> f64_le v (velocity_positive ex) \<and> f64_le (f64_neg v) (velocity_negative ex)"

lemma std_max_above: "f64_le a b \<Longrightarrow> f64_le a (std_max b c)"
  using std_max_ge(1) [of b c] f64_le_not_NaN f64_le_trans by blast

lemma std_min_below: "f64_le b a \<Longrightarrow> f64_le (std_min b c) a"
  using std_min_le(1) [of b c] f64_le_not_NaN f64_le_trans by blast

lemma add_candidate_covers:
  "addExtremumCandidate s z ex = Some ex' \<Longrightarrow> covers ex p v \<Longrightarrow> covers ex' p v"
  "addVelocityCandidate s z ex = Some ex' \<Longrightarrow> covers ex p v \<Longrightarrow> covers ex' p v"
  by (auto simp: addExtremumCandidate_def addVelocityCandidate_def covers_def std_max_above std_min_below
      split: option.splits)

lemma add_roots_covers:
  assumes "\<And>z ex ex'. add z ex = Some ex' \<Longrightarrow> covers ex p v \<Longrightarrow> covers ex' p v"
  shows "add_roots add rs ex = Some ex' \<Longrightarrow> covers ex p v \<Longrightarrow> covers ex' p v"
  by (induction rs arbitrary: ex) (auto split: option.splits dest: assms)

lemma end_extrema_covers:
  assumes "isfinite (ks_position a)" "isfinite (ks_velocity a)" "isfinite (ks_position b)" "isfinite (ks_velocity b)"
  shows "covers (end_extrema a b) (ks_position a) (ks_velocity a)"
    "covers (end_extrema a b) (ks_position b) (ks_velocity b)"
  using assms
  by (auto simp: covers_def end_extrema_def max3_def isfinite_iff std_max_def std_min_def)

lemma sample_ends:
  "sampleCubicHermite s (Fin 0) = Some k \<Longrightarrow> ks_position k = start_position s \<and> ks_velocity k = start_velocity s"
  "sampleCubicHermite s (Fin 1) = Some k \<Longrightarrow> ks_position k = end_position s \<and> ks_velocity k = end_velocity s"
  by (auto simp: sampleCubicHermite_def Let_def cubic_position_def cubic_velocity_def split: if_splits)

lemma sample_finite:
  "sampleCubicHermite s u = Some k \<Longrightarrow> isfinite (ks_position k) \<and> isfinite (ks_velocity k)"
  by (auto simp: sampleCubicHermite_def Let_def split: if_splits)

lemma computed_extrema_cover:
  assumes "computeCubicHermiteExtrema s = Some ex"
  shows "covers ex (start_position s) (start_velocity s)" "covers ex (end_position s) (end_velocity s)"
proof -
  obtain a b where ends: "sampleCubicHermite s (Fin 0) = Some a" "sampleCubicHermite s (Fin 1) = Some b"
    using assms by (auto simp: computeCubicHermiteExtrema_def split: option.splits)
  then obtain ex1 ex2 where roots:
    "add_roots (addExtremumCandidate s) (realRoots (f64_mul (Fin 3) (c3 s)) (f64_mul (Fin 2) (c2 s)) (c1 s))
       (end_extrema a b) = Some ex1"
    "add_roots (addVelocityCandidate s) (realRoots (Fin 0) (f64_mul (Fin 6) (c3 s)) (f64_mul (Fin 2) (c2 s))) ex1
       = Some ex2"
    and ex: "ex = ex2\<lparr>velocity_positive := std_max (velocity_positive ex2) (Fin 0),
                      velocity_negative := std_max (velocity_negative ex2) (Fin 0)\<rparr>"
    using assms by (auto simp: computeCubicHermiteExtrema_def Let_def split: option.splits if_splits)
  have "covers ex p v" if "covers (end_extrema a b) p v" for p v
  proof -
    have "covers ex1 p v"
      by (rule add_roots_covers [OF _ roots(1) that]) (rule add_candidate_covers(1))
    then have "covers ex2 p v"
      by (rule add_roots_covers [OF _ roots(2), rotated]) (rule add_candidate_covers(2))
    then show ?thesis by (simp add: ex covers_def std_max_above)
  qed
  moreover note end_extrema_covers [of a b]
  ultimately show "covers ex (start_position s) (start_velocity s)" "covers ex (end_position s) (end_velocity s)"
    using sample_ends(1) [OF ends(1)] sample_ends(2) [OF ends(2)] sample_finite [OF ends(1)] sample_finite [OF ends(2)]
    by auto
qed

lemma axis_extrema_cover:
  assumes "axis_extrema p q d a = Some ex"
  shows "covers ex (positions p ! a) (velocities p ! a)" "covers ex (positions q ! a) (velocities q ! a)"
    "isfinite (positions p ! a)" "isfinite (velocities p ! a)" "isfinite (positions q ! a)" "isfinite (velocities q ! a)"
proof -
  obtain s where s: "buildCubicHermite (positions p ! a) (velocities p ! a) (positions q ! a) (velocities q ! a) d = Some s"
    "computeCubicHermiteExtrema s = Some ex"
    using assms by (auto simp: axis_extrema_def split: option.splits)
  have f: "start_position s = positions p ! a" "start_velocity s = velocities p ! a"
    "end_position s = positions q ! a" "end_velocity s = velocities q ! a" "allFinite s"
    using s(1) by (auto simp: buildCubicHermite_def Let_def split: if_splits)
  show "covers ex (positions p ! a) (velocities p ! a)" "covers ex (positions q ! a) (velocities q ! a)"
    using computed_extrema_cover [OF s(2)] f by simp_all
  show "isfinite (positions p ! a)" "isfinite (velocities p ! a)" "isfinite (positions q ! a)" "isfinite (velocities q ! a)"
    using f by (auto simp: allFinite_def)
qed

subsection \<open>A checked segment has both ends inside the limits\<close>

definition point_valid :: "DynamicEnvelope \<Rightarrow> JointPoint \<Rightarrow> bool" where
  "point_valid env p \<longleftrightarrow> (\<forall>a < kAxisCount. axis_valid (env ! a) (positions p ! a) (velocities p ! a))"

lemma desiredIsValid_iff: "desiredIsValid p c \<longleftrightarrow> point_valid (ctl_envelope c) p"
  by (auto simp: desiredIsValid_def point_valid_def list_all_iff axis_indices_def)

lemma covered_valid:
  assumes "covers ex p v" "isfinite p" "isfinite v"
    "\<not> f64_less (position_min ex) (safe_lower l)" "\<not> f64_less (safe_upper l) (position_max ex)"
    "\<not> f64_less (env_velocity_positive l) (velocity_positive ex)"
    "\<not> f64_less (env_velocity_negative l) (velocity_negative ex)"
  shows "axis_valid l p v"
proof -
  have below: "\<not> f64_less b lo" if "f64_le a b" "\<not> f64_less a lo" for a b lo
    using that by (cases a; cases b; cases lo) (auto simp: f64_le_def)
  have above: "\<not> f64_less hi a" if "f64_le a b" "\<not> f64_less hi b" for a b hi
    using that by (cases a; cases b; cases hi) (auto simp: f64_le_def)
  have neg: "\<not> f64_less w (f64_neg m)" if "\<not> f64_less m (f64_neg w)" for w m
    using that by (cases w; cases m) auto
  have c: "f64_le (position_min ex) p" "f64_le p (position_max ex)" "f64_le v (velocity_positive ex)"
    "f64_le (f64_neg v) (velocity_negative ex)"
    using assms(1) by (simp_all add: covers_def)
  show ?thesis
    unfolding axis_valid_def
    using assms(2,3) below [OF c(1) assms(4)] above [OF c(2) assms(5)] above [OF c(3) assms(6)]
      neg [OF above [OF c(4) assms(7)]] by blast
qed

lemma checked_segment:
  assumes "checkSegment l p q ex = ((Reject_kNone, n), ex')"
  shows "configured l" "time_ns p < time_ns q" "point_valid (envelope l) p" "point_valid (envelope l) q"
proof -
  show "configured l" "time_ns p < time_ns q"
    using assms by (auto simp: checkSegment_def not_le split: if_splits)
  define d where "d = duration_of_ns (time_ns q - time_ns p)"
  define cand where "cand = map (\<lambda>axis. the (axis_extrema p q d axis)) axis_indices"
  have some: "first_axis (\<lambda>axis. axis_extrema p q d axis = None) = None"
    using assms by (auto simp: checkSegment_def Let_def simp flip: d_def split: if_splits option.splits)
  then have pos: "first_axis (\<lambda>axis. f64_less (position_min (cand ! axis)) (safe_lower (envelope l ! axis))
        \<or> f64_less (safe_upper (envelope l ! axis)) (position_max (cand ! axis))) = None"
    using assms by (auto simp: checkSegment_def Let_def simp flip: d_def cand_def split: if_splits option.splits)
  with some have vel: "first_axis (\<lambda>axis. f64_less (env_velocity_positive (envelope l ! axis)) (velocity_positive (cand ! axis))
        \<or> f64_less (env_velocity_negative (envelope l ! axis)) (velocity_negative (cand ! axis))) = None"
    using assms by (auto simp: checkSegment_def Let_def simp flip: d_def cand_def split: if_splits option.splits)
  have "axis_valid (envelope l ! a) (positions p ! a) (velocities p ! a)
      \<and> axis_valid (envelope l ! a) (positions q ! a) (velocities q ! a)" if a: "a < kAxisCount" for a
  proof -
    obtain ex where ex: "axis_extrema p q d a = Some ex" using some a by (auto simp: first_axis_None)
    then have "cand ! a = ex" using a by (simp add: cand_def)
    with pos vel a have "\<not> f64_less (position_min ex) (safe_lower (envelope l ! a))"
      "\<not> f64_less (safe_upper (envelope l ! a)) (position_max ex)"
      "\<not> f64_less (env_velocity_positive (envelope l ! a)) (velocity_positive ex)"
      "\<not> f64_less (env_velocity_negative (envelope l ! a)) (velocity_negative ex)"
      by (auto simp: first_axis_None)
    then show ?thesis using axis_extrema_cover [OF ex] by (blast intro: covered_valid)
  qed
  then show "point_valid (envelope l) p" "point_valid (envelope l) q"
    by (auto simp: point_valid_def)
qed

lemma checked_suffix:
  assumes "check_suffix l (p # q # ps) = Reject_kNone"
  shows "\<forall>r \<in> set (p # q # ps). point_valid (envelope l) r" "increasing (p # q # ps)" "configured l"
proof -
  have "(\<forall>r \<in> set (p # q # ps). point_valid (envelope l) r) \<and> increasing (p # q # ps) \<and> configured l"
    using assms
  proof (induction ps arbitrary: p q)
    case Nil
    obtain c n ex where ch: "checkSegment l p q [] = ((c, n), ex)" by (metis surj_pair)
    then have "c = Reject_kNone" using Nil by (auto simp: check_new_segment_def split: if_splits)
    then show ?case using checked_segment [OF ch [unfolded \<open>c = _\<close>]] by (simp add: increasing_def)
  next
    case (Cons r ps)
    obtain c n ex where ch: "checkSegment l p q [] = ((c, n), ex)" by (metis surj_pair)
    then have "c = Reject_kNone" using Cons.prems by (auto simp: check_new_segment_def split: if_splits)
    moreover have "check_suffix l (q # r # ps) = Reject_kNone" using Cons.prems by (simp split: if_splits)
    ultimately show ?case
      using checked_segment [of l p q "[]" n ex] ch Cons.IH [of q r] by (auto simp: increasing_def)
  qed
  then show "\<forall>r \<in> set (p # q # ps). point_valid (envelope l) r" "increasing (p # q # ps)" "configured l" by auto
qed

subsection \<open>An accepted batch\<close>

lemma first_code_none: "first_code ps ks = Reject_kNone \<longleftrightarrow> (\<forall>k \<in> set ks. point_code ps k = Reject_kNone)"
  by (induction ks) auto

definition batch_accepted :: "BatchView \<Rightarrow> PointView list \<Rightarrow> RollingBuffer \<Rightarrow> bool" where
  "batch_accepted batch ps b \<longleftrightarrow> bv_points batch = Some ps \<and> 2 \<le> length ps
     \<and> (\<forall>k < length ps. point_code ps k = Reject_kNone)
     \<and> (bv_final batch \<longrightarrow> list_all (\<lambda>v. f64_eq v (Fin 0)) (take kAxisCount (the (pv_velocities (last ps)))))
     \<and> pv_time_ns (ps ! 0) = replace_from_ns batch"

lemma validated_batch:
  "validateInput batch b = Reject_kNone \<Longrightarrow> \<exists>ps. batch_accepted batch ps b"
  by (auto simp: validateInput_def batch_accepted_def first_code_none not_less split: option.splits if_splits)

lemma accepted_point:
  assumes "point_code ps k = Reject_kNone"
  obtains qs vs where "pv_positions (ps ! k) = Some qs" "pv_velocities (ps ! k) = Some vs"
    "length qs = kAxisCount" "length vs = kAxisCount"
    "0 < k \<longrightarrow> pv_time_ns (ps ! (k - 1)) < pv_time_ns (ps ! k)"
  using assms by (auto simp: point_code_def not_le split: option.splits if_splits)

definition axes_14 :: "JointPoint \<Rightarrow> bool" where
  "axes_14 p \<longleftrightarrow> length (positions p) = kAxisCount \<and> length (velocities p) = kAxisCount"

lemma copied_point:
  "point_code ps k = Reject_kNone \<Longrightarrow> axes_14 (copyPoint (ps ! k)) \<and> time_ns (copyPoint (ps ! k)) = pv_time_ns (ps ! k)"
  by (erule accepted_point) (simp add: axes_14_def copyPoint_def)

text \<open>What a successful preparation says.\<close>

definition prepared ::
  "BatchView \<Rightarrow> AdmissionContext \<Rightarrow> RollingBuffer \<Rightarrow> PointView list \<Rightarrow> JointPoint \<Rightarrow> nat \<Rightarrow> nat \<Rightarrow> bool" where
  "prepared batch ctx b ps knot h n \<longleftrightarrow> batch_accepted batch ps b \<and> generation (buf_image b) \<noteq> - 1
     \<and> find_splice batch ctx b = Inr (knot, h, n) \<and> n + length ps \<le> capacity (configuration b)
     \<and> validateHorizon (spliced_image batch ctx b knot h n) ctx b = Reject_kNone
     \<and> check_suffix (limit_checker b) (drop n (points (spliced_image batch ctx b knot h n))) = Reject_kNone"

lemma find_splice_code: "find_splice batch ctx b = Inl code \<Longrightarrow> code \<noteq> Reject_kNone"
  by (auto simp: find_splice_def Let_def split: if_splits option.splits)

lemma prepare_success:
  assumes "prepare batch ctx u b = (Reject_kNone, img)"
  obtains ps knot h n where "prepared batch ctx b ps knot h n" "img = spliced_image batch ctx b knot h n"
proof -
  have v: "validateInput batch b = Reject_kNone" using assms by (auto simp: prepare_def Let_def split: if_splits)
  then obtain ps where ps: "batch_accepted batch ps b" using validated_batch by blast
  then have pts: "the (bv_points batch) = ps" by (simp add: batch_accepted_def)
  obtain knot h n where fs: "find_splice batch ctx b = Inr (knot, h, n)"
    using assms v find_splice_code [of batch ctx b] by (auto simp: prepare_def Let_def split: if_splits sum.splits)
  have "generation (buf_image b) \<noteq> - 1" "n + length ps \<le> capacity (configuration b)"
    "validateHorizon (spliced_image batch ctx b knot h n) ctx b = Reject_kNone"
    "check_suffix (limit_checker b) (drop n (points (spliced_image batch ctx b knot h n))) = Reject_kNone"
    "img = spliced_image batch ctx b knot h n"
    using assms v fs pts by (auto simp: prepare_def Let_def split: if_splits)
  with that fs ps show thesis by (auto simp: prepared_def)
qed

subsection \<open>The invariant of the plan\<close>

definition plan_ok :: "RollingBuffer \<Rightarrow> bool" where
  "plan_ok b \<longleftrightarrow> (let ps = points (buf_image b) in
       increasing ps \<and> length ps \<le> capacity (configuration b)
     \<and> (\<forall>p \<in> set ps. axes_14 p \<and> point_valid (envelope (limit_checker b)) p)
     \<and> (im_final (buf_image b) \<and> ps \<noteq> [] \<longrightarrow> velocities (last ps) = zero_axes)
     \<and> axes_14 (anchor b) \<and> time_ns (anchor b) = 0)"

lemma count_before_props:
  assumes "s + k \<le> length ps" "\<forall>i < k. time_ns (ps ! (s + i)) < t"
  shows "s + count_before ps t s k \<le> length ps \<and> (\<forall>i < count_before ps t s k. time_ns (ps ! (s + i)) < t)"
  using assms
proof (induction ps t s k rule: count_before.induct)
  case (1 ps t s k)
  show ?case
  proof (cases "s + k < length ps \<and> time_ns (ps ! (s + k)) < t")
    case True
    then have "s + count_before ps t s (k + 1) \<le> length ps \<and> (\<forall>i < count_before ps t s (k + 1). time_ns (ps ! (s + i)) < t)"
      using 1 by (intro 1(1)) (auto simp: less_Suc_eq)
    with True show ?thesis by (simp add: count_before.simps [of ps t s k])
  next
    case False
    with 1(2,3) show ?thesis by (auto simp: count_before.simps [of ps t s k])
  qed
qed

lemma sampled_point:
  assumes "sampleTrajectoryImage img t = Some p"
  shows "time_ns p = t" "(\<forall>q \<in> set (points img). axes_14 q) \<Longrightarrow> axes_14 p"
proof -
  define j where "j = advance_index (points img) t 0"
  have span: "in_span (points img) t" and at: "sample_at (points img) t j = Some p"
    using assms by (auto simp: sampleTrajectoryImage_eq j_def split: if_splits)
  have j: "j < length (points img)"
    using advance_index_at [of 0 "points img" t] span by (auto simp: j_def in_span_def index_at_def)
  show "time_ns p = t" "(\<forall>q \<in> set (points img). axes_14 q) \<Longrightarrow> axes_14 p"
    using at j by (auto simp: sample_at_def sampleSegment_def Let_def axes_14_def split: if_splits)
qed

text \<open>The knot of the splice: at the time of the replacement, after the points that are kept.\<close>

lemma splice_props:
  assumes "plan_ok b" "find_splice batch ctx b = Inr (knot, h, n)"
  shows "axes_14 knot" "time_ns knot = replace_from_ns batch" "h + n \<le> length (points (buf_image b))"
    "\<forall>i < n. time_ns (points (buf_image b) ! (h + i)) < replace_from_ns batch"
proof -
  let ?ps = "points (buf_image b)"
  have "axes_14 knot \<and> time_ns knot = replace_from_ns batch \<and> h + n \<le> length ?ps
      \<and> (\<forall>i < n. time_ns (?ps ! (h + i)) < replace_from_ns batch)"
  proof (cases "?ps = []")
    case True
    then show ?thesis using assms by (auto simp: find_splice_def plan_ok_def Let_def split: if_splits)
  next
    case False
    then have late: "\<not> execution_time_ns ctx < time_ns (?ps ! 0)"
      and s: "sampleTrajectoryImage (buf_image b) (replace_from_ns batch) = Some knot"
      and h: "h = advance_index ?ps (execution_time_ns ctx) 0" and n: "n = count_before ?ps (replace_from_ns batch) h 0"
      using assms(2) by (auto simp: find_splice_def Let_def split: if_splits option.splits)
    have "h < length ?ps"
      using advance_index_at [of 0 ?ps "execution_time_ns ctx"] False late by (auto simp: h index_at_def not_less)
    then have "h + n \<le> length ?ps \<and> (\<forall>i < n. time_ns (?ps ! (h + i)) < replace_from_ns batch)"
      using count_before_props [of h 0 ?ps "replace_from_ns batch"] by (simp add: n)
    moreover have "\<forall>q \<in> set ?ps. axes_14 q" using assms(1) by (auto simp: plan_ok_def Let_def)
    ultimately show ?thesis using sampled_point [OF s] by blast
  qed
  then show "axes_14 knot" "time_ns knot = replace_from_ns batch" "h + n \<le> length ?ps"
    "\<forall>i < n. time_ns (?ps ! (h + i)) < replace_from_ns batch" by auto
qed

lemma spliced_points:
  assumes "h + n \<le> length (points (buf_image b))" "bv_points batch = Some ps"
  shows "points (spliced_image batch ctx b knot h n)
      = take n (drop h (points (buf_image b))) @ knot # map copyPoint (tl ps)"
    "drop n (points (spliced_image batch ctx b knot h n)) = knot # map copyPoint (tl ps)"
    "length (points (spliced_image batch ctx b knot h n)) = n + Suc (length (tl ps))"
  using assms by (simp_all add: spliced_image_def)

lemma final_velocities:
  assumes "list_all (\<lambda>v. f64_eq v (Fin 0)) vs" "length vs = kAxisCount"
  shows "vs = zero_axes"
proof (rule nth_equalityI)
  fix i assume "i < length vs"
  then have "f64_eq (vs ! i) (Fin 0)" using assms(1) by (simp add: list_all_length)
  then show "vs ! i = zero_axes ! i" using \<open>i < length vs\<close> assms(2) by (cases "vs ! i") simp_all
qed (simp add: assms(2))

lemma accepted_last:
  assumes "batch_accepted batch ps b" "bv_final batch"
  shows "velocities (copyPoint (last ps)) = zero_axes"
proof -
  have "ps \<noteq> []" using assms(1) by (auto simp: batch_accepted_def)
  then have k: "length ps - 1 < length ps" "last ps = ps ! (length ps - 1)"
    by (simp_all add: last_conv_nth)
  then have "axes_14 (copyPoint (last ps))" using assms(1) copied_point by (auto simp: batch_accepted_def)
  then show ?thesis
    using assms by (intro final_velocities) (auto simp: batch_accepted_def axes_14_def copyPoint_def)
qed

lemma prepared_plan_ok:
  assumes inv: "plan_ok b" and prep: "prepared batch ctx b ps knot h n"
  shows "plan_ok (b\<lparr>buf_image := spliced_image batch ctx b knot h n\<rparr>)"
proof -
  let ?old = "points (buf_image b)" and ?img = "spliced_image batch ctx b knot h n"
  have acc: "batch_accepted batch ps b" and fs: "find_splice batch ctx b = Inr (knot, h, n)"
    and cap: "n + length ps \<le> capacity (configuration b)"
    and chk: "check_suffix (limit_checker b) (drop n (points ?img)) = Reject_kNone"
    using prep by (simp_all add: prepared_def)
  note sp = splice_props [OF inv fs]
  have bps: "bv_points batch = Some ps" "2 \<le> length ps" using acc by (simp_all add: batch_accepted_def)
  note pts = spliced_points [OF sp(3) bps(1), of ctx knot]
  obtain p0 p1 rest where ps: "ps = p0 # p1 # rest" using bps(2)
    by (cases ps; cases "tl ps") auto
  have suffix: "\<forall>r \<in> set (knot # map copyPoint (tl ps)). point_valid (envelope (limit_checker b)) r"
    "increasing (knot # map copyPoint (tl ps))"
    using checked_suffix [of "limit_checker b" knot "copyPoint p1" "map copyPoint rest"] chk pts(2) ps by simp_all
  have prefix: "increasing (take n (drop h ?old))"
    using inv by (simp add: plan_ok_def Let_def increasing_def sorted_wrt_take sorted_wrt_drop)
  have kept: "time_ns p < time_ns knot" if p: "p \<in> set (take n (drop h ?old))" for p
  proof -
    obtain i where "i < length (take n (drop h ?old))" "take n (drop h ?old) ! i = p"
      using p unfolding in_set_conv_nth by blast
    then show ?thesis using sp(2,4) by auto
  qed
  have "increasing (points ?img)"
    using prefix suffix(2) kept unfolding pts(1) increasing_def sorted_wrt_append
    by (auto dest: order_less_trans)
  moreover have "axes_14 (copyPoint p)" if "p \<in> set (tl ps)" for p
  proof -
    have "p \<in> set ps" using that by (auto dest: list.set_sel(2) simp: ps)
    then obtain k where "k < length ps" "p = ps ! k" by (auto simp: in_set_conv_nth)
    then show ?thesis using acc copied_point [of ps k] by (simp add: batch_accepted_def)
  qed
  then have "\<forall>p \<in> set (points ?img). axes_14 p \<and> point_valid (envelope (limit_checker b)) p"
    using suffix(1) sp(1) inv unfolding pts(1)
    by (auto simp: plan_ok_def Let_def dest!: in_set_takeD in_set_dropD)
  moreover have "velocities (last (points ?img)) = zero_axes" if "im_final ?img"
    using accepted_last [OF acc] that pts(1) ps by (auto simp: spliced_image_def last_map split: if_splits)
  moreover have "length (points ?img) \<le> capacity (configuration b)" using pts(3) cap bps(2) by simp
  ultimately show ?thesis using inv by (auto simp: plan_ok_def Let_def)
qed

subsection \<open>The operations of the buffer\<close>

definition new_buffer :: RollingBuffer where
  "new_buffer = \<lparr>configuration = \<lparr>capacity = 0, max_horizon_ns = 0, splice_position_tolerance = zero_axes,
       splice_velocity_tolerance = zero_axes\<rparr>,
     limit_checker = new_limit_checker, buf_image = new_image, anchor = new_joint_point\<rparr>"

text \<open>
  Any sequence of configurations, resets, clearings and admissions. Time passes between the
  preparation and the commit of a batch, so the commit has a context of its own.
\<close>

inductive buffer_step :: "RollingBuffer \<Rightarrow> RollingBuffer \<Rightarrow> bool" where
  step_configure: "buffer_step b (snd (buffer_configure cfg env b))"
| step_clear: "buffer_step b (buffer_clear b)"
| step_reset: "axes_14 start \<Longrightarrow> buffer_step b (snd (buffer_reset start b))"
| step_admit: "prepare batch ctx u b = (Reject_kNone, img) \<Longrightarrow> buffer_step b (snd (commit img ctx' b))"

inductive buffer_reaches :: "RollingBuffer \<Rightarrow> bool" where
  buffer_init: "buffer_reaches new_buffer"
| buffer_next: "buffer_reaches b \<Longrightarrow> buffer_step b b' \<Longrightarrow> buffer_reaches b'"

lemma cleared_plan_ok: "plan_ok (buffer_clear b)"
  by (simp add: plan_ok_def buffer_clear_def new_image_def increasing_def axes_14_def new_joint_point_def)

lemma cleared_anchor_ok: "axes_14 start \<Longrightarrow> time_ns start = 0 \<Longrightarrow> plan_ok ((buffer_clear b)\<lparr>anchor := start\<rparr>)"
  by (simp add: plan_ok_def buffer_clear_def new_image_def increasing_def)

lemma configured_plan_ok:
  assumes "plan_ok b"
  shows "plan_ok (snd (buffer_configure cfg env b))"
proof -
  have "plan_ok (b\<lparr>limit_checker := (limit_checker b)\<lparr>configured := False\<rparr>\<rparr>)"
    using assms by (simp add: plan_ok_def)
  then show ?thesis
    using assms cleared_plan_ok by (auto simp: buffer_configure_def limit_configure_def Let_def)
qed

lemma committed_plan_ok:
  assumes "plan_ok b" "prepare batch ctx u b = (Reject_kNone, img)"
  shows "plan_ok (snd (commit img ctx' b))"
proof -
  obtain ps knot h n where p: "prepared batch ctx b ps knot h n" "img = spliced_image batch ctx b knot h n"
    using assms(2) by (rule prepare_success)
  have "plan_ok (b\<lparr>buf_image := img\<rparr>)" using prepared_plan_ok [OF assms(1) p(1)] p(2) by simp
  then show ?thesis using assms(1) by (simp add: commit_def Let_def)
qed

lemma buffer_step_ok: "buffer_step b b' \<Longrightarrow> plan_ok b \<Longrightarrow> plan_ok b'"
proof (induction rule: buffer_step.induct)
  case (step_configure b cfg env)
  then show ?case by (rule configured_plan_ok)
next
  case (step_clear b)
  then show ?case using cleared_plan_ok by blast
next
  case (step_reset start b)
  then show ?case using cleared_anchor_ok [of start b] by (simp add: buffer_reset_def)
next
  case (step_admit batch ctx u b img ctx')
  then show ?case using committed_plan_ok by blast
qed

lemma new_buffer_ok: "plan_ok new_buffer"
  by (simp add: plan_ok_def new_buffer_def new_image_def increasing_def axes_14_def new_joint_point_def)

lemma reached_plan_ok: "buffer_reaches b \<Longrightarrow> plan_ok b"
  by (induction rule: buffer_reaches.induct) (auto intro: new_buffer_ok buffer_step_ok)

end
