(* ===== verification/RollingSystem.thy ===== *)
theory RollingSystem
  imports RollingConfigure RollingPlan
begin

text \<open>
  The real-time cycle of \<open>RollingTrajectoryController\<close> with the callback thread beside it. A step
  is a cycle, a lifecycle transition or one step of the admission of a batch; the callback
  thread may also run between the two loads of the session epoch in a cycle.
\<close>

subsection \<open>Steps\<close>

text \<open>
  The steps of the callback thread. A candidate that is committed was prepared against the same
  buffer; the views of the real-time state may be read at any moments.
\<close>

inductive callback_step :: "ctl \<Rightarrow> ctl \<Rightarrow> bool" where
  cb_gate: "callback_step c (c\<lparr>initial_handoff_gate := g\<rparr>)"
| cb_open: "callback_step c (snd (admit_open now_ns m c))"
| cb_commit: "admit_prepare obs batch d = Inr candidate \<Longrightarrow> buffer d = buffer c \<Longrightarrow>
    callback_step c (snd (admit_commit obs' candidate c))"
| cb_publish: "callback_step c (snd (admit_publish steady_now c))"
| cb_result: "callback_step c (c\<lparr>last_result := r, last_sequence := n, initial_handoff_gate := False\<rparr>)"

definition new_runtime :: RuntimeConfiguration where
  "new_runtime = \<lparr>buffer_capacity = 0, rc_max_horizon_ns = 0, update_timeout_ns = 0, replace_lead_ns = 0,
     state_publish_period_ns = 0, nominal_controller_period_ns = 0, maximum_controller_period_ns = 0,
     scheduling_guard = \<lparr>one_cycle_detection_ns = 0, stop_time_growth_ns = 0, non_rt_to_rt_visibility_ns = 0,
       period_quantization_ns = 0\<rparr>,
     feedback_age_limit_ms = Fin 0, takeover_tolerances = zero_axes, splice_position_tolerances = zero_axes,
     splice_velocity_tolerances = zero_axes, joints = []\<rparr>"

definition new_controller :: ctl where
  "new_controller = \<lparr>observed_positions = zero_axes, desired_positions = zero_axes, desired_velocities = zero_axes,
     observed_feedback_age_ms = Fin 0, ctl_envelope = [], runtime_configuration = new_runtime,
     buffer = new_buffer, snapshot_exchange = new_exchange, activation_epoch = 0, last_sequence = 0,
     epoch_sequence = 0, last_result = ACCEPTED, previous_stop_reason = STOP_NONE, session_origin_ns = 0,
     rt_session_state = Session_kNone, stop_reason = Stop_kNone, ctl_execution_time_ns = 0,
     ctl_active_generation = 0, buffered_until_ns = 0, ctl_replaceable_from_ns = 0, prime_start_ns = 0,
     session_epoch = 0, session_publication_floor = 1, rt_state_version = 0, rt_state_session_epoch = 0,
     initial_handoff_gate = False, stop_requested = False, ctl_configured = False, parameters_frozen = False,
     active = False, rt_observed_session_epoch = 0, rt_publication_floor = 1,
     rt_consumed_publication_sequence = 0, rt_last_accepted_arrival_ns = 0, rt_stop_elapsed_ns = 0,
     rt_active_trajectory = None, rt_sampling_cursor = new_cursor, rt_desired = new_joint_point,
     rt_stop_trajectory = new_stop, commands = []\<rparr>"

text \<open>
  The controller manager takes a controller whose cycle fails out of the loop; in the runs
  considered here the deactivation follows such a cycle before another one.
\<close>

inductive rolling_step :: "ctl \<Rightarrow> ctl \<Rightarrow> bool" where
  sys_callback: "callback_step c d \<Longrightarrow> rolling_step c d"
| sys_update: "(\<And>k d. callback_step\<^sup>*\<^sup>* d (others k d)) \<Longrightarrow> update others i c = (True, d) \<Longrightarrow> rolling_step c d"
| sys_failed: "(\<And>k d. callback_step\<^sup>*\<^sup>* d (others k d)) \<Longrightarrow> update others i c = (False, d) \<Longrightarrow>
    rolling_step c (on_deactivate d)"
| sys_configure: "rt_session_state c \<noteq> kRunning \<Longrightarrow> rolling_step c (snd (on_configure p c))"
| sys_activate: "rt_session_state c \<noteq> kRunning \<Longrightarrow> rolling_step c (snd (on_activate cmds sts c))"
| sys_deactivate: "rolling_step c (on_deactivate c)"

inductive rolling_reaches :: "ctl \<Rightarrow> bool" where
  rolling_init: "rolling_reaches new_controller"
| rolling_next: "rolling_reaches c \<Longrightarrow> rolling_step c d \<Longrightarrow> rolling_reaches d"

subsection \<open>The exchange between its operations\<close>

definition snapshot_ok :: "RollingSnapshotExchange \<Rightarrow> nat \<Rightarrow> bool" where
  "snapshot_ok x k \<longleftrightarrow> (\<exists>s. slots x ! k = Some s \<and> increasing (points (trajectory s))
     \<and> snap_publication_sequence s \<le> publication_sequence x)"

definition slot_sequence :: "RollingSnapshotExchange \<Rightarrow> nat \<Rightarrow> u64" where
  "slot_sequence x k = snap_publication_sequence (the (slots x ! k))"

definition exchange_ok :: "RollingSnapshotExchange \<Rightarrow> bool" where
  "exchange_ok x \<longleftrightarrow> (\<exists>m. indices_ok x m \<and> (\<forall>k < 3. snapshot_ok x k)
     \<and> (dirty x \<longrightarrow> slot_sequence x m = publication_sequence x
          \<and> slot_sequence x (reading x) < publication_sequence x))"

lemma new_exchange_ok: "exchange_ok new_exchange"
  unfolding exchange_ok_def
  by (rule exI [of _ 1])
    (auto simp: new_exchange_def indices_ok_def snapshot_ok_def dirty_def kDirty_def blank_snapshot_def
      new_image_def increasing_def less_Suc_eq numeral_3_eq_3)

lemma word_less_increment: "(w :: u64) \<noteq> - 1 \<Longrightarrow> w < w + 1"
  using unat_increment [of w] by (simp add: word_less_nat_alt)

lemma publish_ok:
  assumes "exchange_ok x" "increasing (points img)" "publish e img a x = (ok, x')"
  shows "exchange_ok x'" "reading x' = reading x" "slots x' ! reading x = slots x ! reading x"
proof -
  have "exchange_ok x' \<and> reading x' = reading x \<and> slots x' ! reading x = slots x ! reading x"
  proof (cases "publish_refused x")
    case True
    then show ?thesis using assms by (simp add: publish_def)
  next
    case False
    then have w: "publication_sequence x \<noteq> - 1" by (simp add: publish_refused_def)
    obtain m where m: "indices_ok x m" "\<forall>k < 3. snapshot_ok x k" using assms(1) by (auto simp: exchange_ok_def)
    let ?s = "\<lparr>snap_session_epoch = e, trajectory = img, arrival_time_ns = a,
       snap_publication_sequence = publication_sequence x + 1\<rparr>"
    have bits: "middle x AND kIndexMask = m" "writing x OR kDirty = writing x + 4"
      using middle_index [OF m(1)] index_bits(3) [of "writing x"] m(1) by (auto simp: indices_ok_def)
    have x': "x' = x\<lparr>slots := (slots x)[writing x := Some ?s], publication_sequence := publication_sequence x + 1,
        middle := writing x + 4, writing := m\<rparr>"
      using assms(3) False
      by (auto simp: publish_def publish_exchange_def complete_fill_def begin_fill_def bits)
    have ind: "indices_ok x' (writing x)" using m(1) by (auto simp: x' indices_ok_def)
    have le: "v \<le> publication_sequence x \<Longrightarrow> v < publication_sequence x + 1" for v
      by (rule le_less_trans [OF _ word_less_increment [OF w]])
    have len: "writing x < length (slots x)" "reading x \<noteq> writing x" "reading x < 3"
      using m(1) by (auto simp: indices_ok_def)
    have "snapshot_ok x' k" if "k < 3" for k
    proof (cases "k = writing x")
      case True
      then show ?thesis using len assms(2) by (simp add: snapshot_ok_def x')
    next
      case False
      obtain s where s: "slots x ! k = Some s" "increasing (points (trajectory s))"
        "snap_publication_sequence s \<le> publication_sequence x"
        using m(2) \<open>k < 3\<close> by (auto simp: snapshot_ok_def)
      then have "slots x' ! k = Some s" "snap_publication_sequence s \<le> publication_sequence x'"
        using less_imp_le [OF le [OF s(3)]] False by (simp_all add: x')
      then show ?thesis using s(2) by (auto simp: snapshot_ok_def)
    qed
    moreover have "slot_sequence x' (reading x) < publication_sequence x'"
    proof -
      obtain s where "slots x ! reading x = Some s" "snap_publication_sequence s \<le> publication_sequence x"
        using m(2) len(3) by (auto simp: snapshot_ok_def)
      then show ?thesis using le len(2) by (simp add: slot_sequence_def x')
    qed
    moreover have "slot_sequence x' (writing x) = publication_sequence x'"
      using len(1) by (simp add: slot_sequence_def x')
    ultimately have "exchange_ok x'"
      unfolding exchange_ok_def using ind by (intro exI [of _ "writing x"]) (auto simp: x')
    then show ?thesis using len(2) by (simp add: x')
  qed
  then show "exchange_ok x'" "reading x' = reading x" "slots x' ! reading x = slots x ! reading x" by auto
qed

lemma acquire_ok:
  assumes "exchange_ok x" "acquire x = (r, x')"
  shows "exchange_ok x'"
    "r = None \<Longrightarrow> x' = x"
    "r = Some s \<Longrightarrow> slots x' ! reading x' = Some s \<and> slot_sequence x (reading x) < snap_publication_sequence s
       \<and> increasing (points (trajectory s))"
proof -
  obtain m where m: "indices_ok x m" "\<forall>k < 3. snapshot_ok x k"
    "dirty x \<longrightarrow> slot_sequence x m = publication_sequence x \<and> slot_sequence x (reading x) < publication_sequence x"
    using assms(1) by (auto simp: exchange_ok_def)
  have b: "middle x AND kIndexMask = m" "m < 3" "reading x < 3"
    using middle_index [OF m(1)] m(1) by (auto simp: indices_ok_def)
  obtain t where t: "slots x ! m = Some t" "increasing (points (trajectory t))"
    using m(2) b(2) by (auto simp: snapshot_ok_def)
  show "exchange_ok x'"
  proof (cases "dirty x")
    case False
    then show ?thesis using assms by (simp add: acquire_def)
  next
    case True
    then have x': "x' = x\<lparr>middle := reading x, reading := m\<rparr>"
      using assms(2) b by (simp add: acquire_def acquire_exchange_def Let_def)
    have "indices_ok x' (reading x)" using m(1) by (auto simp: x' indices_ok_def)
    moreover have "\<not> dirty x'" using index_bits(2) [OF b(3)] by (simp add: x' dirty_def)
    moreover have "\<forall>k < 3. snapshot_ok x' k" using m(2) by (simp add: x' snapshot_ok_def)
    ultimately show ?thesis unfolding exchange_ok_def by blast
  qed
  show "r = None \<Longrightarrow> x' = x"
    using assms(2) t b by (auto simp: acquire_def acquire_exchange_def Let_def split: if_splits)
  show "r = Some s \<Longrightarrow> slots x' ! reading x' = Some s \<and> slot_sequence x (reading x) < snap_publication_sequence s
       \<and> increasing (points (trajectory s))"
    using assms(2) t b m(3) by (auto simp: acquire_def acquire_exchange_def slot_sequence_def Let_def split: if_splits)
qed

end
