(* ===== verification/RollingInvariant.thy ===== *)
theory RollingInvariant
  imports RollingSystem
begin

text \<open>
  The invariant of \<open>RollingTrajectoryController\<close>: while it runs, the trajectory it follows is the
  snapshot in the consumer's slot of the exchange, and what it commands is that trajectory at the
  execution time.
\<close>

subsection \<open>What the callback thread leaves alone\<close>

definition rt_fields_same :: "ctl \<Rightarrow> ctl \<Rightarrow> bool" where
  "rt_fields_same c d \<longleftrightarrow>
     rt_observed_session_epoch d = rt_observed_session_epoch c \<and> rt_publication_floor d = rt_publication_floor c
   \<and> rt_consumed_publication_sequence d = rt_consumed_publication_sequence c
   \<and> rt_active_trajectory d = rt_active_trajectory c \<and> rt_sampling_cursor d = rt_sampling_cursor c
   \<and> rt_desired d = rt_desired c \<and> rt_stop_trajectory d = rt_stop_trajectory c
   \<and> rt_stop_elapsed_ns d = rt_stop_elapsed_ns c \<and> commands d = commands c
   \<and> ctl_envelope d = ctl_envelope c \<and> runtime_configuration d = runtime_configuration c
   \<and> desired_positions d = desired_positions c \<and> desired_velocities d = desired_velocities c
   \<and> active d = active c \<and> rt_state_version d = rt_state_version c
   \<and> rt_last_accepted_arrival_ns d = rt_last_accepted_arrival_ns c"

definition session_same :: "ctl \<Rightarrow> ctl \<Rightarrow> bool" where
  "session_same c d \<longleftrightarrow>
     rt_session_state d = rt_session_state c \<and> ctl_execution_time_ns d = ctl_execution_time_ns c
   \<and> ctl_active_generation d = ctl_active_generation c \<and> buffered_until_ns d = buffered_until_ns c
   \<and> ctl_replaceable_from_ns d = ctl_replaceable_from_ns c"

definition parts_ok :: "ctl \<Rightarrow> bool" where
  "parts_ok c \<longleftrightarrow> exchange_ok (snapshot_exchange c) \<and> plan_ok (buffer c)"

text \<open>A new session takes a new epoch, and only a new session touches the real-time state.\<close>

definition callback_frame :: "ctl \<Rightarrow> ctl \<Rightarrow> bool" where
  "callback_frame c d \<longleftrightarrow> rt_fields_same c d \<and> session_epoch c \<le> session_epoch d
     \<and> (if session_epoch d = session_epoch c then session_same c d else rt_session_state d = kPriming)
     \<and> reading (snapshot_exchange d) = reading (snapshot_exchange c)
     \<and> slots (snapshot_exchange d) ! reading (snapshot_exchange c)
         = slots (snapshot_exchange c) ! reading (snapshot_exchange c)"

lemma callback_frame_refl: "callback_frame c c"
  by (simp add: callback_frame_def rt_fields_same_def session_same_def)

lemma callback_frame_trans:
  assumes "callback_frame a b" "callback_frame b c"
  shows "callback_frame a c"
proof -
  have e: "session_epoch a \<le> session_epoch b" "session_epoch b \<le> session_epoch c"
    using assms by (simp_all add: callback_frame_def)
  have s: "if session_epoch c = session_epoch a then session_same a c else rt_session_state c = kPriming"
  proof (cases "session_epoch c = session_epoch a")
    case True
    then have "session_epoch b = session_epoch a" using e by simp
    then show ?thesis using assms True by (simp add: callback_frame_def session_same_def)
  next
    case False
    then show ?thesis using assms by (auto simp: callback_frame_def session_same_def split: if_splits)
  qed
  show ?thesis
    using assms e s unfolding callback_frame_def rt_fields_same_def by auto
qed

lemma startSession_frame:
  assumes "startSession start_ns c = (r, d)"
  shows "r = ACCEPTED \<Longrightarrow> rt_fields_same c d \<and> session_epoch c < session_epoch d \<and> rt_session_state d = kPriming
      \<and> snapshot_exchange d = snapshot_exchange c"
    "r \<noteq> ACCEPTED \<Longrightarrow> \<exists>b. d = c\<lparr>buffer := b\<rparr>"
    "plan_ok (buffer c) \<Longrightarrow> plan_ok (buffer d)"
proof -
  have "session_epoch c \<noteq> - 1 \<Longrightarrow> session_epoch c < session_epoch c + 1" by (rule word_less_increment)
  then show "r = ACCEPTED \<Longrightarrow> rt_fields_same c d \<and> session_epoch c < session_epoch d \<and> rt_session_state d = kPriming
      \<and> snapshot_exchange d = snapshot_exchange c"
    using assms by (auto simp: startSession_def rt_fields_same_def Let_def split: if_splits prod.splits)
  show "r \<noteq> ACCEPTED \<Longrightarrow> \<exists>b. d = c\<lparr>buffer := b\<rparr>"
    using assms
    by (auto simp: startSession_def Let_def split: if_splits prod.splits) (metis RollingTrajectoryController.surjective RollingTrajectoryController.update_convs(7))+
  let ?start = "new_joint_point\<lparr>positions := map (\<lambda>a. desired_positions c ! a) axis_indices\<rparr>"
  have start: "axes_14 ?start" "time_ns ?start = 0" by (simp_all add: axes_14_def new_joint_point_def)
  have reset: "plan_ok (snd (buffer_reset ?start (buffer c)))" if "plan_ok (buffer c)"
    using buffer_step_ok [OF step_reset [OF start(1)] that] .
  show "plan_ok (buffer c) \<Longrightarrow> plan_ok (buffer d)"
    using assms reset by (auto simp: startSession_def Let_def split: if_splits prod.splits)
qed

lemma buffer_only_frame: "callback_frame c (c\<lparr>buffer := b\<rparr>)"
  by (simp add: callback_frame_def rt_fields_same_def session_same_def)

lemma startSession_callback:
  assumes "startSession start_ns c = (r, d)" "parts_ok c"
  shows "callback_frame c d \<and> parts_ok d"
proof -
  note f = startSession_frame [OF assms(1)]
  have x: "snapshot_exchange d = snapshot_exchange c" and fr: "callback_frame c d"
    using f(1,2) buffer_only_frame [of c]
    by (cases "r = ACCEPTED"; force simp: callback_frame_def rt_fields_same_def session_same_def)+
  then show ?thesis using f(3) assms(2) by (simp add: parts_ok_def)
qed

lemma batch_offset_callback:
  assumes "batch_offset now_ns m c = (r, d)" "parts_ok c"
  shows "callback_frame c d \<and> parts_ok d"
proof -
  obtain r' d' where s: "startSession (bm_replace_from_ns m) c = (r', d')" by (cases "startSession (bm_replace_from_ns m) c")
  show ?thesis
    using assms startSession_callback [OF s assms(2)] callback_frame_refl [of c]
    by (auto simp: batch_offset_def s split: if_splits)
qed

lemma admit_open_callback:
  assumes "parts_ok c"
  shows "callback_frame c (snd (admit_open now_ns m c)) \<and> parts_ok (snd (admit_open now_ns m c))"
proof -
  let ?c = "c\<lparr>epoch_sequence := bm_sequence m\<rparr>"
  have f: "callback_frame c ?c" "parts_ok ?c"
    using assms by (simp_all add: callback_frame_def rt_fields_same_def session_same_def parts_ok_def)
  obtain r d where b: "batch_offset now_ns m ?c = (r, d)" by (cases "batch_offset now_ns m ?c")
  note g = batch_offset_callback [OF b f(2)]
  have "snd (admit_open now_ns m c) \<in> {c, ?c, d}"
    by (simp add: admit_open_def b Let_def split: sum.split)
  then show ?thesis
    using assms callback_frame_refl [of c] f g callback_frame_trans [OF f(1)] by auto
qed

lemma admit_commit_callback:
  assumes "parts_ok c" "admit_prepare obs batch e = Inr candidate" "buffer e = buffer c"
  shows "callback_frame c (snd (admit_commit obs' candidate c)) \<and> parts_ok (snd (admit_commit obs' candidate c))"
proof -
  obtain ctx where p: "prepare batch ctx new_image (buffer c) = (Reject_kNone, candidate)"
    using assms(2,3) by (auto simp: admit_prepare_def split: option.splits prod.splits if_splits)
  have "plan_ok (snd (commit candidate ctx' (buffer c)))" for ctx'
    using committed_plan_ok [OF _ p] assms(1) by (simp add: parts_ok_def)
  then have "\<exists>b. snd (admit_commit obs' candidate c) = c\<lparr>buffer := b\<rparr> \<and> plan_ok b"
  proof (cases "buildAdmissionContext obs' c")
    case None
    then show ?thesis using assms(1) by (intro exI [of _ "buffer c"]) (simp add: admit_commit_def parts_ok_def)
  next
    case (Some ctx')
    obtain code b where cb: "commit candidate ctx' (buffer c) = (code, b)" by (cases "commit candidate ctx' (buffer c)")
    have "plan_ok b" using committed_plan_ok [OF _ p, of ctx'] assms(1) cb by (simp add: parts_ok_def)
    then show ?thesis using Some cb by (auto simp: admit_commit_def)
  qed
  then show ?thesis using buffer_only_frame [of c] assms(1) by (auto simp: parts_ok_def)
qed

lemma admit_publish_callback:
  assumes "parts_ok c"
  shows "callback_frame c (snd (admit_publish steady_now c)) \<and> parts_ok (snd (admit_publish steady_now c))"
proof -
  obtain ok x where p: "publish (session_epoch c) (buf_image (buffer c)) steady_now (snapshot_exchange c) = (ok, x)"
    by (cases "publish (session_epoch c) (buf_image (buffer c)) steady_now (snapshot_exchange c)")
  have i: "increasing (points (buf_image (buffer c)))" using assms by (simp add: parts_ok_def plan_ok_def Let_def)
  have "exchange_ok (snapshot_exchange c)" using assms by (simp add: parts_ok_def)
  note q = publish_ok [OF this i p]
  show ?thesis
    using assms q
    by (auto simp: admit_publish_def p set_stop_reason_def callback_frame_def rt_fields_same_def session_same_def parts_ok_def)
qed

lemma callback_step_frame: "callback_step c d \<Longrightarrow> parts_ok c \<Longrightarrow> callback_frame c d \<and> parts_ok d"
proof (induction rule: callback_step.induct)
  case (cb_gate c g)
  then show ?case by (simp add: callback_frame_def rt_fields_same_def session_same_def parts_ok_def)
next
  case (cb_open c now_ns m)
  then show ?case by (rule admit_open_callback)
next
  case (cb_commit obs batch d candidate c obs')
  then show ?case by (intro admit_commit_callback [of c obs batch d candidate obs'])
next
  case (cb_publish c steady_now)
  then show ?case by (rule admit_publish_callback)
next
  case (cb_result c r n)
  then show ?case by (simp add: callback_frame_def rt_fields_same_def session_same_def parts_ok_def)
qed

lemma callback_steps_frame: "callback_step\<^sup>*\<^sup>* c d \<Longrightarrow> parts_ok c \<Longrightarrow> callback_frame c d \<and> parts_ok d"
proof (induction rule: rtranclp_induct)
  case base
  then show ?case by (simp add: callback_frame_refl)
next
  case (step d e)
  then show ?case using callback_step_frame [OF step(2)] callback_frame_trans by blast
qed

subsection \<open>Following a trajectory\<close>

definition followed :: "ctl \<Rightarrow> RollingSnapshot \<Rightarrow> bool" where
  "followed c s \<longleftrightarrow>
     rt_active_trajectory c = Some (reading (snapshot_exchange c))
   \<and> slots (snapshot_exchange c) ! reading (snapshot_exchange c) = Some s
   \<and> increasing (points (trajectory s))
   \<and> snap_publication_sequence s = rt_consumed_publication_sequence c
   \<and> rt_publication_floor c \<le> rt_consumed_publication_sequence c
   \<and> generation (trajectory s) = ctl_active_generation c
   \<and> cursor_tracks (trajectory s) (rt_sampling_cursor c)
   \<and> sampleTrajectoryImage (trajectory s) (ctl_execution_time_ns c) = Some (rt_desired c)
   \<and> buffered_until_ns c = time_ns (points (trajectory s) ! (length (points (trajectory s)) - 1))
   \<and> desiredIsValid (rt_desired c) c"

definition following :: "ctl \<Rightarrow> bool" where
  "following c \<longleftrightarrow> session_epoch c = rt_observed_session_epoch c \<and> (\<exists>s. followed c s)"

definition rolling_inv :: "ctl \<Rightarrow> bool" where
  "rolling_inv c \<longleftrightarrow> parts_ok c \<and> (rt_session_state c = kRunning \<longrightarrow> following c)"

lemma active_image_followed: "followed c s \<Longrightarrow> active_image c = trajectory s"
  by (simp add: followed_def active_image_def)

lemma callback_keeps_following:
  assumes "callback_frame c d" "session_epoch d = session_epoch c" "following c"
  shows "following d"
  using assms
  by (auto simp: following_def followed_def callback_frame_def rt_fields_same_def session_same_def desiredIsValid_def)

lemma callback_keeps_inv:
  assumes "callback_step\<^sup>*\<^sup>* c d" "rolling_inv c"
  shows "rolling_inv d"
proof -
  have f: "callback_frame c d" "parts_ok d" using callback_steps_frame [OF assms(1)] assms(2) by (auto simp: rolling_inv_def)
  have "following d" if r: "rt_session_state d = kRunning"
  proof -
    have e: "session_epoch d = session_epoch c" using f(1) r by (auto simp: callback_frame_def split: if_splits)
    then have "rt_session_state c = kRunning" using f(1) r by (simp add: callback_frame_def session_same_def)
    then show ?thesis using assms(2) callback_keeps_following [OF f(1) e] by (simp add: rolling_inv_def)
  qed
  then show ?thesis using f(2) by (simp add: rolling_inv_def)
qed

subsection \<open>The operations of the cycle\<close>

definition same_parts :: "ctl \<Rightarrow> ctl \<Rightarrow> bool" where
  "same_parts c d \<longleftrightarrow> snapshot_exchange d = snapshot_exchange c \<and> buffer d = buffer c"

lemma same_parts_ok: "same_parts c d \<Longrightarrow> parts_ok c \<Longrightarrow> parts_ok d"
  by (simp add: same_parts_def parts_ok_def)

lemma same_parts_trans: "same_parts a b \<Longrightarrow> same_parts b c \<Longrightarrow> same_parts a c"
  by (simp add: same_parts_def)

lemma set_stop_reason_frame [frame]:
  "same_parts c (set_stop_reason reason c)" "rt_session_state (set_stop_reason reason c) = rt_session_state c"
  "session_epoch (set_stop_reason reason c) = session_epoch c"
  by (simp_all add: set_stop_reason_def same_parts_def)

lemma beginRtStop_result:
  assumes "beginRtStop reason c = (ok, d)"
  shows "same_parts c d" "ok \<Longrightarrow> rt_session_state d = Session_kStopping \<or> rt_session_state d = Session_kHolding"
  using assms
  by (auto simp: beginRtStop_def same_parts_def set_stop_reason_def Let_def
      split: if_splits prod.splits option.splits)

lemma advanceRtStop_result:
  assumes "advanceRtStop period_ns c = (ok, d)"
  shows "same_parts c d"
    "ok \<Longrightarrow> rt_session_state d = rt_session_state c \<or> rt_session_state d = Session_kHolding"
  using assms
  by (auto simp: advanceRtStop_def same_parts_def Let_def split: if_splits prod.splits option.splits)

lemma resetRtEpoch_result:
  assumes "resetRtEpoch epoch c = (ok, d)"
  shows "same_parts c d" "rt_session_state d = rt_session_state c" "session_epoch d = session_epoch c"
    "ok \<Longrightarrow> rt_observed_session_epoch d = epoch"
  using assms by (auto simp: resetRtEpoch_def same_parts_def split: if_splits prod.splits)

lemma advance_along_result:
  assumes "advance_along next_ns c = (ok, d)"
  shows "same_parts c d" "ok \<Longrightarrow> followed c s \<Longrightarrow> followed d s"
    "rt_session_state d = rt_session_state c" "session_epoch d = session_epoch c"
    "rt_observed_session_epoch d = rt_observed_session_epoch c"
    "stop_reason d = stop_reason c" "ctl_envelope d = ctl_envelope c"
    "ok \<Longrightarrow> ctl_execution_time_ns d = next_ns"
proof -
  show "same_parts c d" "rt_session_state d = rt_session_state c" "session_epoch d = session_epoch c"
    "rt_observed_session_epoch d = rt_observed_session_epoch c" "stop_reason d = stop_reason c"
    "ctl_envelope d = ctl_envelope c" "ok \<Longrightarrow> ctl_execution_time_ns d = next_ns"
    using assms by (auto simp: advance_along_def same_parts_def split: option.splits prod.splits if_splits)
  assume ok: ok and f: "followed c s"
  obtain candidate cursor n where smp:
    "sampleTrajectoryImageMonotonic (trajectory s) next_ns (rt_sampling_cursor c) = Some (candidate, cursor, n)"
    and d: "desiredIsValid candidate c" "d = c\<lparr>rt_sampling_cursor := cursor, rt_desired := candidate,
       ctl_execution_time_ns := next_ns\<rparr>"
    using assms ok by (auto simp: advance_along_def active_image_followed [OF f] split: option.splits prod.splits if_splits)
  have inc: "increasing (points (trajectory s))" and tr: "cursor_tracks (trajectory s) (rt_sampling_cursor c)"
    using f by (simp_all add: followed_def)
  have "sampleTrajectoryImage (trajectory s) next_ns = Some candidate"
    using tracked_sample [OF inc tr, of next_ns] smp by simp
  moreover have "cursor_tracks (trajectory s) cursor"
    using sampled_cursor [OF inc tr smp] cursor_at_tracks [of "trajectory s"] by simp
  ultimately show "followed d s" using f d by (simp add: followed_def desiredIsValid_def)
qed

lemma boundary_result:
  assumes "updateRtReplaceableBoundary c = (ok, d)"
  shows "same_parts c d" "followed c s \<Longrightarrow> followed d s" "rt_session_state d = rt_session_state c"
    "session_epoch d = session_epoch c" "rt_observed_session_epoch d = rt_observed_session_epoch c"
  using assms
  by (auto simp: updateRtReplaceableBoundary_def same_parts_def followed_def desiredIsValid_def split: option.splits)

lemma consume_result:
  assumes "consumeLatestRtTrajectory p c = (r, d)" "parts_ok c" "session_epoch c = rt_observed_session_epoch c"
  shows "parts_ok d" "r = kAccepted \<Longrightarrow> following d"
    "rt_session_state d = (if r = kAccepted \<and> p then kRunning else rt_session_state c)"
    "r = kNoChange \<Longrightarrow> following c \<Longrightarrow> d = c"
    "session_epoch d = rt_observed_session_epoch d"
proof -
  obtain a x where acq: "acquire (snapshot_exchange c) = (a, x)" by (cases "acquire (snapshot_exchange c)")
  have xok: "exchange_ok (snapshot_exchange c)" using assms(2) by (simp add: parts_ok_def)
  note A = acquire_ok [OF xok acq]
  show "rt_session_state d = (if r = kAccepted \<and> p then kRunning else rt_session_state c)"
    "session_epoch d = rt_observed_session_epoch d"
    using assms(1,3)
    by (auto simp: consumeLatestRtTrajectory_def acq Let_def split: option.splits if_splits prod.splits)
  have "snapshot_exchange d = x" "buffer d = buffer c"
    using assms(1)
    by (auto simp: consumeLatestRtTrajectory_def acq Let_def split: option.splits if_splits prod.splits)
  then show "parts_ok d" using A(1) assms(2) by (simp add: parts_ok_def)
  show "following d" if acc: "r = kAccepted"
  proof -
    obtain s where a: "a = Some s" using assms(1) acc
      by (auto simp: consumeLatestRtTrajectory_def acq split: option.splits)
    note S = A(3) [OF a]
    obtain candidate cursor n boundary where smp:
      "sampleTrajectoryImageMonotonic (trajectory s) (ctl_execution_time_ns c) new_cursor = Some (candidate, cursor, n)"
      and ok: "desiredIsValid candidate c" "\<not> snap_publication_sequence s < rt_publication_floor c"
      and d: "d = c\<lparr>snapshot_exchange := x, rt_active_trajectory := Some (reading x), rt_sampling_cursor := cursor,
           rt_desired := candidate, rt_consumed_publication_sequence := snap_publication_sequence s,
           rt_last_accepted_arrival_ns := arrival_time_ns s, ctl_active_generation := generation (trajectory s),
           buffered_until_ns := time_ns (points (trajectory s) ! (length (points (trajectory s)) - 1)),
           ctl_replaceable_from_ns := boundary,
           rt_session_state := (if p then kRunning else rt_session_state c)\<rparr>"
      using assms(1) acc unfolding consumeLatestRtTrajectory_def acq a
      by (auto simp: Let_def split: if_splits option.splits prod.splits)
    have "sampleTrajectoryImage (trajectory s) (ctl_execution_time_ns c) = Some candidate"
      using tracked_sample [of "trajectory s" new_cursor "ctl_execution_time_ns c"] S smp by simp
    moreover have "cursor_tracks (trajectory s) cursor"
      using sampled_cursor [OF _ cursor_tracks_new smp] S cursor_at_tracks [of "trajectory s"] by simp
    ultimately have "followed d s" using S ok by (simp add: d followed_def desiredIsValid_def not_less)
    then show ?thesis using assms(3) by (auto simp: following_def d)
  qed
  show "d = c" if nc: "r = kNoChange" "following c"
  proof (cases a)
    case None
    then show ?thesis using assms(1) A(2) by (simp add: consumeLatestRtTrajectory_def acq)
  next
    case (Some s)
    obtain s0 where "followed c s0" using nc(2) by (auto simp: following_def)
    then have "rt_consumed_publication_sequence c < snap_publication_sequence s"
      "rt_publication_floor c < snap_publication_sequence s"
      using A(3) [OF Some] by (auto simp: followed_def slot_sequence_def)
    then show ?thesis
      using assms(1) nc(1) by (auto simp: consumeLatestRtTrajectory_def acq Some Let_def split: option.splits if_splits prod.splits)
  qed
qed

subsection \<open>The cycle\<close>

text \<open>A step that succeeded has left the running state or still follows its trajectory.\<close>

definition step_ok :: "bool \<times> ctl \<Rightarrow> bool" where
  "step_ok r \<longleftrightarrow> parts_ok (snd r) \<and> (fst r \<longrightarrow> rolling_inv (snd r))"

lemma stop_step_ok: "parts_ok c \<Longrightarrow> step_ok (beginRtStop reason c)"
proof -
  obtain ok d where r: "beginRtStop reason c = (ok, d)" by (cases "beginRtStop reason c")
  assume "parts_ok c"
  then show ?thesis
    using beginRtStop_result [OF r] same_parts_ok [of c d] by (auto simp: r step_ok_def rolling_inv_def)
qed

lemma or_stop_ok: "step_ok r \<Longrightarrow> step_ok (or_stop reason r)"
  using stop_step_ok [of "snd r" reason] by (simp add: or_stop_def step_ok_def)

lemma boundary_step_ok:
  assumes "parts_ok c" "following c"
  shows "step_ok (updateRtReplaceableBoundary c)"
proof -
  obtain ok d where r: "updateRtReplaceableBoundary c = (ok, d)" by (cases "updateRtReplaceableBoundary c")
  note b = boundary_result [OF r]
  have "following d" using assms(2) b(2,4,5) by (auto simp: following_def)
  then show ?thesis using assms(1) same_parts_ok [OF b(1)] r by (simp add: step_ok_def rolling_inv_def)
qed

lemma advance_along_following:
  assumes "advance_along next_ns c = (True, d)" "following c"
  shows "following d"
  using advance_along_result [OF assms(1)] assms(2) by (auto simp: following_def)

lemma advanceRtPlan_ok:
  assumes "parts_ok c" "following c"
  shows "step_ok (advanceRtPlan period_ns c)"
proof -
  have along: "step_ok (case advance_along n c of (ok, d) \<Rightarrow>
      or_stop kInternalInvariant (if \<not> ok then (False, d) else updateRtReplaceableBoundary d))" for n
  proof -
    obtain ok d where r: "advance_along n c = (ok, d)" by (cases "advance_along n c")
    have p: "parts_ok d" using same_parts_ok [OF advance_along_result(1) [OF r] assms(1)] .
    show ?thesis
    proof (cases ok)
      case True
      then show ?thesis using r p boundary_step_ok advance_along_following [of n c d] assms(2)
        by (auto intro: or_stop_ok)
    next
      case False
      then have "step_ok (or_stop kInternalInvariant (False, d))" using p by (intro or_stop_ok) (simp add: step_ok_def)
      then show ?thesis using r False by simp
    qed
  qed
  then show ?thesis
    using stop_step_ok [OF assms(1)] unfolding advanceRtPlan_def Let_def
    by (simp split: option.split)
qed

lemma advanceRtFinal_ok:
  assumes "parts_ok c" "following c"
  shows "step_ok (advanceRtFinal period_ns c)"
proof (cases "addTime (ctl_execution_time_ns c) (word_of_int period_ns)")
  case None
  then show ?thesis using assms(1) by (simp add: advanceRtFinal_def step_ok_def)
next
  case (Some next_ns)
  define n where "n = (if buffered_until_ns c \<le> next_ns then buffered_until_ns c else next_ns)"
  obtain ok d where r: "advance_along n c = (ok, d)" by (cases "advance_along n c")
  have p: "parts_ok d" using same_parts_ok [OF advance_along_result(1) [OF r] assms(1)] .
  have f: "advanceRtFinal period_ns c = (if \<not> ok then (False, d)
      else if \<not> buffered_until_ns c \<le> next_ns then updateRtReplaceableBoundary d
      else (True, (set_stop_reason kCompleted d)\<lparr>rt_session_state := Session_kHolding\<rparr>))"
    using r by (simp add: advanceRtFinal_def Some Let_def n_def)
  have "parts_ok ((set_stop_reason kCompleted d)\<lparr>rt_session_state := Session_kHolding\<rparr>)"
    using p by (simp add: parts_ok_def set_stop_reason_def)
  then show ?thesis
    using p boundary_step_ok [OF p] advance_along_following [of n c d] r assms(2)
    by (auto simp: f step_ok_def rolling_inv_def)
qed

lemma update_running_ok:
  assumes "parts_ok c" "following c"
  shows "step_ok (update_running period_ns steady_now c)"
proof -
  obtain r d where con: "consumeLatestRtTrajectory False c = (r, d)" by (cases "consumeLatestRtTrajectory False c")
  have e: "session_epoch c = rt_observed_session_epoch c" using assms(2) by (simp add: following_def)
  note C = consume_result [OF con assms(1) e]
  have f: "following d" if "r \<noteq> kInvalid"
    using that C(2,4) assms(2) by (cases r) auto
  show ?thesis
    using stop_step_ok [OF assms(1)] stop_step_ok [OF C(1)] advanceRtPlan_ok [OF C(1)]
      or_stop_ok [OF advanceRtFinal_ok [OF C(1)]] f assms
    by (auto simp: update_running_def con step_ok_def rolling_inv_def)
qed

lemma update_priming_ok:
  assumes "parts_ok c" "rt_session_state c = kPriming" "session_epoch c = rt_observed_session_epoch c"
  shows "step_ok (update_priming time_now c)"
proof -
  obtain r d where con: "consumeLatestRtTrajectory True c = (r, d)" by (cases "consumeLatestRtTrajectory True c")
  note C = consume_result [OF con assms(1,3)]
  show ?thesis
    using stop_step_ok [OF assms(1)] stop_step_ok [OF C(1)] C assms(1,2)
    by (cases r) (auto simp: update_priming_def con step_ok_def rolling_inv_def)
qed

lemma update_session_ok:
  assumes "rolling_inv c" "session_epoch c = rt_observed_session_epoch c" "s = rt_session_state c"
  shows "step_ok (update_session i s c)"
proof (cases s)
  case kPriming
  then show ?thesis using update_priming_ok assms by (simp add: update_session_def rolling_inv_def)
next
  case kRunning
  then show ?thesis using update_running_ok assms by (simp add: update_session_def rolling_inv_def)
next
  case Session_kStopping
  obtain ok d where r: "advanceRtStop (cycle_period_ns i) c = (ok, d)" by (cases "advanceRtStop (cycle_period_ns i) c")
  show ?thesis
    using advanceRtStop_result [OF r] same_parts_ok [of c d] Session_kStopping assms r
    by (auto simp: update_session_def step_ok_def rolling_inv_def)
qed (use assms in \<open>auto simp: update_session_def step_ok_def rolling_inv_def parts_ok_def\<close>)

lemma write_step_ok: "rolling_inv c \<Longrightarrow> step_ok (writeRtDesired c)"
  by (auto simp: writeRtDesired_def step_ok_def rolling_inv_def parts_ok_def following_def followed_def desiredIsValid_def)

lemma read_session_ok:
  assumes "\<And>k d. callback_step\<^sup>*\<^sup>* d (others k d)" "rolling_inv c" "read_session others ks c = (r, d)"
  shows "parts_ok d" "r \<noteq> None \<Longrightarrow> rolling_inv d"
    "r = Some (True, s) \<Longrightarrow> s = rt_session_state d \<and> session_epoch d = rt_observed_session_epoch d"
proof -
  have "parts_ok d \<and> (r \<noteq> None \<longrightarrow> rolling_inv d)
      \<and> (r = Some (True, s) \<longrightarrow> s = rt_session_state d \<and> session_epoch d = rt_observed_session_epoch d)"
    using assms(2,3)
  proof (induction ks arbitrary: c)
    case Nil
    then show ?case by (auto simp: rolling_inv_def)
  next
    case (Cons k ks)
    obtain ok d1 where r1: "(if session_epoch c \<noteq> rt_observed_session_epoch c then resetRtEpoch (session_epoch c) c
        else (True, c)) = (ok, d1)" by (meson surj_pair)
    have e1: "session_epoch d1 = session_epoch c" "rt_session_state d1 = rt_session_state c" "parts_ok d1"
      "ok \<Longrightarrow> rt_observed_session_epoch d1 = session_epoch c"
    proof -
      have "same_parts c d1 \<and> session_epoch d1 = session_epoch c \<and> rt_session_state d1 = rt_session_state c
          \<and> (ok \<longrightarrow> rt_observed_session_epoch d1 = session_epoch c)"
      proof (cases "session_epoch c = rt_observed_session_epoch c")
        case True
        then show ?thesis using r1 by (auto simp: same_parts_def)
      next
        case False
        then have "resetRtEpoch (session_epoch c) c = (ok, d1)" using r1 by simp
        then show ?thesis using resetRtEpoch_result by blast
      qed
      then show "session_epoch d1 = session_epoch c" "rt_session_state d1 = rt_session_state c" "parts_ok d1"
        "ok \<Longrightarrow> rt_observed_session_epoch d1 = session_epoch c"
        using same_parts_ok [of c d1] Cons.prems(1) by (simp_all add: rolling_inv_def)
    qed
    have inv1: "rolling_inv d1"
    proof -
      have "d1 = c" if "rt_session_state c = kRunning"
        using that Cons.prems(1) r1 by (auto simp: rolling_inv_def following_def)
      then show ?thesis using e1 Cons.prems(1) by (auto simp: rolling_inv_def)
    qed
    define d2 where "d2 = others k d1"
    have cb: "callback_step\<^sup>*\<^sup>* d1 d2" unfolding d2_def by (rule assms(1))
    have inv2: "rolling_inv d2" using callback_keeps_inv [OF cb inv1] .
    have fr: "callback_frame d1 d2" using callback_steps_frame [OF cb e1(3)] by simp
    have rd: "read_session others (k # ks) c = (if \<not> ok then (None, d1)
        else if session_epoch c = session_epoch d2 then (Some (True, rt_session_state d1), d2)
        else read_session others ks d2)"
      using r1 by (simp add: d2_def Let_def)
    show ?case
    proof (cases "ok \<and> session_epoch c \<noteq> session_epoch d2")
      case True
      then show ?thesis using Cons.IH [OF inv2] Cons.prems(2) rd by simp
    next
      case False
      then show ?thesis
        using Cons.prems(2) rd e1 inv2 fr
        by (auto simp: callback_frame_def session_same_def rt_fields_same_def rolling_inv_def split: if_splits)
    qed
  qed
  then show "parts_ok d" "r \<noteq> None \<Longrightarrow> rolling_inv d"
    "r = Some (True, s) \<Longrightarrow> s = rt_session_state d \<and> session_epoch d = rt_observed_session_epoch d" by auto
qed

lemma observed_inv: "rolling_inv c \<Longrightarrow> rolling_inv (c\<lparr>observed_positions := ps, observed_feedback_age_ms := a\<rparr>)"
  "rolling_inv c \<Longrightarrow> rolling_inv (c\<lparr>rt_state_version := v\<rparr>)" "parts_ok c \<Longrightarrow> parts_ok (c\<lparr>rt_state_version := v\<rparr>)"
  by (auto simp: rolling_inv_def parts_ok_def following_def followed_def desiredIsValid_def)

lemma update_body_ok:
  assumes "\<And>k d. callback_step\<^sup>*\<^sup>* d (others k d)" "rolling_inv c"
  shows "step_ok (update_body others i c)"
proof -
  let ?c = "c\<lparr>observed_positions := map (\<lambda>a. position_states i ! a) axis_indices,
               observed_feedback_age_ms := feedback_age_state i\<rparr>"
  obtain r d where rd: "read_session others [0, 1, 2] ?c = (r, d)" by (meson surj_pair)
  note R = read_session_ok [OF assms(1) observed_inv(1) [OF assms(2)] rd]
  have body: "update_body others i c = (case r of None \<Rightarrow> (False, d)
      | Some (coherent, s) \<Rightarrow> if \<not> coherent then writeRtDesired d
          else case update_session i s d of (ok, e) \<Rightarrow> if \<not> ok then (False, e) else writeRtDesired e)"
    unfolding update_body_def Let_def rd by (auto split: option.split)
  show ?thesis
  proof (cases r)
    case None
    then show ?thesis using R(1) by (simp add: body step_ok_def)
  next
    case (Some q)
    obtain coherent s where q: "q = (coherent, s)" by (cases q)
    have inv: "rolling_inv d" using R(2) Some by simp
    show ?thesis
    proof (cases coherent)
      case False
      then show ?thesis using Some q write_step_ok [OF inv] by (simp add: body)
    next
      case True
      have us: "step_ok (update_session i s d)"
        using R(3) [of s] Some q True by (intro update_session_ok [OF inv]) simp_all
      obtain ok e where e: "update_session i s d = (ok, e)" by (meson surj_pair)
      show ?thesis
        using Some q True us e write_step_ok [of e] by (auto simp: body step_ok_def)
    qed
  qed
qed

lemma update_ok:
  assumes "\<And>k d. callback_step\<^sup>*\<^sup>* d (others k d)" "rolling_inv c"
  shows "step_ok (update others i c)"
proof -
  obtain ok d where r: "update_body others i (c\<lparr>rt_state_version := rt_state_version c + 1\<rparr>) = (ok, d)" by (meson surj_pair)
  have s: "step_ok (ok, d)" unfolding r [symmetric] by (rule update_body_ok [OF assms(1) observed_inv(2) [OF assms(2)]])
  show ?thesis
  proof (cases "active c")
    case False
    then show ?thesis using assms(2) by (simp add: update_def step_ok_def rolling_inv_def)
  next
    case True
    then have "update others i c = (ok, d\<lparr>rt_state_version := rt_state_version d + 1\<rparr>)"
      by (simp add: update_def r)
    then show ?thesis using s observed_inv(2,3) [of d] by (simp add: step_ok_def)
  qed
qed

subsection \<open>The invariant holds in every run\<close>

lemma deactivate_inv: "parts_ok c \<Longrightarrow> rolling_inv (on_deactivate c)"
  by (simp add: rolling_inv_def parts_ok_def on_deactivate_def cleared_plan_ok)

lemma configure_inv:
  assumes "rolling_inv c" "rt_session_state c \<noteq> kRunning"
  shows "rolling_inv (snd (on_configure p c))"
proof -
  obtain e d where l: "loadRuntimeConfiguration p (c\<lparr>ctl_configured := False, active := False\<rparr>) = (e, d)"
    by (meson surj_pair)
  have ok: "plan_ok (snd (buffer_configure cfg env (buffer c)))" for cfg env
    using configured_plan_ok assms(1) by (simp add: rolling_inv_def parts_ok_def)
  have "parts_ok d \<and> rt_session_state d = rt_session_state c"
    using l assms(1) ok
    by (auto simp: loadRuntimeConfiguration_def rolling_inv_def parts_ok_def Let_def
        split: sum.splits if_splits prod.splits) (metis snd_conv)+
  then show ?thesis
    using assms(2) by (auto simp: on_configure_def l Let_def rolling_inv_def parts_ok_def split: option.split)
qed

lemma activate_inv:
  assumes "rolling_inv c" "rt_session_state c \<noteq> kRunning"
  shows "rolling_inv (snd (on_activate cmds sts c))"
  using assms cleared_plan_ok
  by (auto simp: on_activate_def Let_def rolling_inv_def parts_ok_def split: prod.split if_split)

lemma new_rolling_inv: "rolling_inv new_controller"
  by (simp add: rolling_inv_def parts_ok_def new_controller_def new_exchange_ok new_buffer_ok)

lemma rolling_step_inv: "rolling_step c d \<Longrightarrow> rolling_inv c \<Longrightarrow> rolling_inv d"
proof (induction rule: rolling_step.induct)
  case (sys_callback c d)
  then show ?case using callback_keeps_inv [of c d] by blast
next
  case (sys_update others i c d)
  then show ?case using update_ok [of others c i] by (simp add: step_ok_def)
next
  case (sys_failed others i c d)
  then show ?case using update_ok [of others c i] deactivate_inv by (simp add: step_ok_def)
next
  case (sys_configure c p)
  then show ?case by (intro configure_inv)
next
  case (sys_activate c cmds sts)
  then show ?case by (intro activate_inv)
next
  case (sys_deactivate c)
  then show ?case by (intro deactivate_inv) (simp add: rolling_inv_def)
qed

lemma rolling_reaches_inv: "rolling_reaches c \<Longrightarrow> rolling_inv c"
  by (induction rule: rolling_reaches.induct) (auto intro: new_rolling_inv rolling_step_inv)

end
