(* ===== verification/RollingClaims.thy ===== *)
theory RollingClaims
  imports RollingFacts
begin

text \<open>
  Properties of sampling, of the stopping horizon and of the stop trajectory of
  \<open>ctrl_rolling_trajectory\<close>.
\<close>

subsection \<open>Sampling with the cursor\<close>

text \<open>A series of samples, at any times and of any images, through one cursor.\<close>

fun sample_run :: "(TrajectoryImage \<times> u64) list \<Rightarrow> MonotonicTrajectoryCursor \<Rightarrow> JointPoint option list" where
  "sample_run [] cursor = []"
| "sample_run ((img, t) # qs) cursor =
    (case sampleTrajectoryImageMonotonic img t cursor of
       None \<Rightarrow> None # sample_run qs cursor
     | Some (p, cursor', n) \<Rightarrow> Some p # sample_run qs cursor')"

text \<open>The times of each image increase, and a generation number names one image.\<close>

definition images_named :: "(TrajectoryImage \<times> u64) list \<Rightarrow> bool" where
  "images_named qs \<longleftrightarrow> (\<forall>q \<in> set qs. increasing (points (fst q)))
     \<and> (\<forall>q \<in> set qs. \<forall>r \<in> set qs. generation (fst q) = generation (fst r) \<longrightarrow> points (fst q) = points (fst r))"

lemma images_named_Cons:
  assumes "images_named (q # qs)"
  shows "images_named qs" "increasing (points (fst q))"
    "r \<in> set qs \<Longrightarrow> generation (fst r) = generation (fst q) \<Longrightarrow> points (fst r) = points (fst q)"
  using assms unfolding images_named_def list.set by blast+

lemma sample_run_exact:
  assumes "images_named qs" "\<forall>q \<in> set qs. cursor_tracks (fst q) cursor"
  shows "sample_run qs cursor = map (\<lambda>(img, t). sampleTrajectoryImage img t) qs"
  using assms
proof (induction qs arbitrary: cursor)
  case Nil
  then show ?case by simp
next
  case (Cons q qs)
  obtain img t where q: "q = (img, t)" by (cases q)
  have inc: "increasing (points img)" and tr: "cursor_tracks img cursor"
    using images_named_Cons(2) [OF Cons.prems(1)] Cons.prems(2) q by simp_all
  note rest = images_named_Cons(1) [OF Cons.prems(1)]
  show ?case
  proof (cases "sampleTrajectoryImageMonotonic img t cursor")
    case None
    then have "sampleTrajectoryImage img t = None" using tracked_sample [OF inc tr, of t] by simp
    moreover have "sample_run qs cursor = map (\<lambda>(img, t). sampleTrajectoryImage img t) qs"
      using rest Cons.prems(2) by (intro Cons.IH) simp_all
    ultimately show ?thesis using None q by simp
  next
    case (Some r)
    obtain p cursor' n where r: "r = (p, cursor', n)" by (cases r)
    note s = sampled_cursor [OF inc tr, of t p cursor' n]
    have "cursor_tracks (fst q') cursor'" if "q' \<in> set qs" for q'
      unfolding s(1) [OF Some [unfolded r]]
      by (rule cursor_at_tracks [OF s(3) [OF Some [unfolded r]]]) (use images_named_Cons(3) [OF Cons.prems(1) that] q in simp)
    then have "sample_run qs cursor' = map (\<lambda>(img, t). sampleTrajectoryImage img t) qs"
      using rest by (intro Cons.IH) simp_all
    moreover have "sampleTrajectoryImage img t = Some p" using tracked_sample [OF inc tr, of t] Some r by simp
    ultimately show ?thesis using Some r q by simp
  qed
qed

text \<open>
  C38: the cursor of the control cycle is only an optimisation. Whatever images are sampled at
  whatever times through one cursor, forwards or backwards, as long as the times of each image
  increase and a generation number names one image, every sample is the one a search from the
  first point gives.
\<close>

theorem cursor_sampling_is_exact:
  assumes "images_named qs"
  shows "sample_run qs new_cursor = map (\<lambda>(img, t). sampleTrajectoryImage img t) qs"
  by (rule sample_run_exact [OF assms]) simp

definition still_point :: "u64 \<Rightarrow> JointPoint" where
  "still_point t = new_joint_point\<lparr>time_ns := t\<rparr>"

definition still_image :: TrajectoryImage where
  "still_image = \<lparr>points = map still_point [0, 10, 20], generation = 1, earliest_changed_ns = 0, im_final = True\<rparr>"

lemma cursor_sampling_is_exact_witness:
  "sample_run [(still_image, 10), (still_image, 20), (still_image, 0), (still_image, 21)] new_cursor
     = [Some (still_point 10), Some (still_point 20), Some (still_point 0), None]"
proof -
  have inc: "increasing (points still_image)"
    by (simp add: still_image_def increasing_def still_point_def)
  have "advance_index (points still_image) 10 0 = 1" "advance_index (points still_image) 20 0 = 2"
    "advance_index (points still_image) 0 0 = 0"
    by (simp_all add: still_image_def still_point_def advance_index.simps)
  then have "sampleTrajectoryImage still_image 10 = Some (still_point 10)"
    "sampleTrajectoryImage still_image 20 = Some (still_point 20)"
    "sampleTrajectoryImage still_image 0 = Some (still_point 0)" "sampleTrajectoryImage still_image 21 = None"
    by (simp_all add: sampleTrajectoryImage_eq in_span_def sample_at_def still_image_def still_point_def)
  then show ?thesis
    by (subst cursor_sampling_is_exact) (simp_all add: inc images_named_def)
qed

subsection \<open>The stopping horizon\<close>

text \<open>
  C39: the control cycle may go on exactly when the buffered motion is longer than the stop and
  the four scheduling guards together, as unbounded integers: neither the sum nor the difference
  of the 64-bit times can wrap around.
\<close>

theorem stopping_horizon_is_exact:
  "hasSufficientStoppingHorizon execution_ns until_ns stop_ns guard \<longleftrightarrow>
     uint execution_ns + uint stop_ns + uint (one_cycle_detection_ns guard) + uint (stop_time_growth_ns guard)
       + uint (non_rt_to_rt_visibility_ns guard) + uint (period_quantization_ns guard) < uint until_ns"
proof -
  obtain e u d g1 g2 g3 g4 :: int where v: "uint execution_ns = e" "uint until_ns = u" "uint stop_ns = d"
    "uint (one_cycle_detection_ns guard) = g1" "uint (stop_time_growth_ns guard) = g2"
    "uint (non_rt_to_rt_visibility_ns guard) = g3" "uint (period_quantization_ns guard) = g4"
    and b: "0 \<le> e" "u < 2 ^ 64" "0 \<le> d" "0 \<le> g1" "0 \<le> g2" "0 \<le> g3" "0 \<le> g4"
    using uint_lt2p [of until_ns] by simp
  have sub: "uint (until_ns - execution_ns) = u - e" if "\<not> until_ns < execution_ns"
    using that by (simp add: uint_sub_if' not_less word_le_def v)
  have late: "until_ns < execution_ns \<longleftrightarrow> u < e" by (simp add: word_less_def v)
  show ?thesis
    unfolding hasSufficientStoppingHorizon_def addWithoutOverflow_eq
    using b by (auto simp: uint_add_small v word_less_def [of "_ + _"] sub late)
qed

subsection \<open>The stop trajectory\<close>

text \<open>Samples at a series of elapsed times.\<close>

fun stop_samples :: "u64 list \<Rightarrow> StopTrajectory \<Rightarrow> JointPoint option list \<times> StopTrajectory" where
  "stop_samples [] s = ([], s)"
| "stop_samples (t # ts) s =
    (let (p, s1) = stop_sample t s; (ps, s2) = stop_samples ts s1 in (p # ps, s2))"

declare stop_samples.simps(2) [simp del]

lemma stop_samples_Cons [simp]:
  "fst (stop_samples (t # ts) s) = fst (stop_sample t s) # fst (stop_samples ts (snd (stop_sample t s)))"
  "snd (stop_samples (t # ts) s) = snd (stop_samples ts (snd (stop_sample t s)))"
  by (simp_all add: stop_samples.simps(2) case_prod_beta Let_def)

definition at_rest_inside :: "DynamicEnvelope \<Rightarrow> JointPoint \<Rightarrow> bool" where
  "at_rest_inside env p \<longleftrightarrow> velocities p = zero_axes
     \<and> (\<forall>a < kAxisCount. isfinite (positions p ! a) \<and> \<not> f64_less (positions p ! a) (safe_lower (env ! a))
          \<and> \<not> f64_less (safe_upper (env ! a)) (positions p ! a))"

lemma stop_begin_terminal:
  assumes "stop_begin desired s = (True, s1)"
  shows "stop_limits s1 = stop_limits s" "stop_start s1 = desired" "stop_state s1 \<noteq> kIdle"
    "at_rest_inside (envelope (stop_limits s)) \<lparr>time_ns = t, positions = terminal_positions s1, velocities = zero_axes\<rparr>"
  using assms
  by (auto simp: stop_begin_def Let_def at_rest_inside_def first_axis_None stop_axis_rejected_def
      split: if_splits option.splits)

lemma stop_sample_frame [frame]:
  "stop_limits (snd (stop_sample t s)) = stop_limits s" "stop_start (snd (stop_sample t s)) = stop_start s"
  "terminal_positions (snd (stop_sample t s)) = terminal_positions s"
  "stop_duration_ns (snd (stop_sample t s)) = stop_duration_ns s"
  "stop_state s \<noteq> kIdle \<Longrightarrow> stop_state (snd (stop_sample t s)) \<noteq> kIdle"
  "stop_state s = kHolding \<Longrightarrow> stop_state (snd (stop_sample t s)) = kHolding"
  by (auto simp: stop_sample_def Let_def)

lemma stop_sample_completed:
  assumes "stop_state s \<noteq> kIdle" "stop_state s = kHolding \<or> stop_duration_ns s \<le> t"
    "uint (time_ns (stop_start s)) + uint t < 2 ^ 64"
  shows "stop_sample t s = (Some \<lparr>time_ns = time_ns (stop_start s) + t, positions = terminal_positions s,
     velocities = zero_axes\<rparr>, s\<lparr>stop_state := kHolding\<rparr>)"
  using assms u64_room [of "time_ns (stop_start s)" t] by (auto simp: stop_sample_def Let_def)

lemma holding_samples:
  assumes "stop_state s = kHolding" "\<forall>t \<in> set ts. uint (time_ns (stop_start s)) + uint t < 2 ^ 64"
  shows "fst (stop_samples ts s) = map (\<lambda>t. Some \<lparr>time_ns = time_ns (stop_start s) + t,
     positions = terminal_positions s, velocities = zero_axes\<rparr>) ts"
  using assms
proof (induction ts arbitrary: s)
  case (Cons t ts)
  have s: "stop_sample t s = (Some \<lparr>time_ns = time_ns (stop_start s) + t, positions = terminal_positions s,
     velocities = zero_axes\<rparr>, s\<lparr>stop_state := kHolding\<rparr>)"
    using Cons.prems by (intro stop_sample_completed) auto
  have "fst (stop_samples ts (s\<lparr>stop_state := kHolding\<rparr>)) = map (\<lambda>t. Some \<lparr>time_ns = time_ns (stop_start s) + t,
     positions = terminal_positions s, velocities = zero_axes\<rparr>) ts"
    using Cons.prems Cons.IH [of "s\<lparr>stop_state := kHolding\<rparr>"] by simp
  then show ?case by (simp add: s)
qed simp

text \<open>
  C40: a stop that has begun ends at rest for good. Let a stop begin and be sampled any number of
  times; the first sample at or after its duration is a point at rest inside the safe position
  limits of every axis, and so is every later sample, at whatever elapsed time it is taken, in
  the same positions: the stop neither resumes nor drifts.
\<close>

theorem stop_ends_at_rest:
  assumes "stop_begin desired s = (True, s1)" "stop_samples before s1 = (ps, s2)"
    "stop_duration_ns s1 \<le> t" "\<forall>u \<in> set (t # later). uint (time_ns desired) + uint u < 2 ^ 64"
  shows "\<exists>rest. at_rest_inside (envelope (stop_limits s)) rest
    \<and> fst (stop_samples (t # later) s2) = map (\<lambda>u. Some (rest\<lparr>time_ns := time_ns desired + u\<rparr>)) (t # later)"
proof -
  note b = stop_begin_terminal [OF assms(1)]
  have "stop_start s2 = stop_start s1 \<and> terminal_positions s2 = terminal_positions s1
      \<and> stop_duration_ns s2 = stop_duration_ns s1 \<and> stop_state s2 \<noteq> kIdle"
    using assms(2) b(3)
  proof (induction before arbitrary: s1 ps)
    case (Cons u us)
    let ?q = "snd (stop_sample u s1)"
    have "stop_samples us ?q = (fst (stop_samples us ?q), s2)"
      using Cons.prems(1) stop_samples_Cons(2) [of u us s1] by (simp add: prod_eq_iff)
    from Cons.IH [OF this] show ?case using Cons.prems(2) stop_sample_frame [where t = u and s = s1] by simp
  qed simp
  then have s2: "stop_start s2 = desired" "terminal_positions s2 = terminal_positions s1"
    "stop_duration_ns s2 = stop_duration_ns s1" "stop_state s2 \<noteq> kIdle"
    using b(2) by simp_all
  let ?rest = "\<lparr>time_ns = 0, positions = terminal_positions s1, velocities = zero_axes\<rparr>"
  have "stop_sample t s2 = (Some (?rest\<lparr>time_ns := time_ns desired + t\<rparr>), s2\<lparr>stop_state := kHolding\<rparr>)"
    using assms(3,4) s2 by (subst stop_sample_completed) auto
  moreover have "fst (stop_samples later (s2\<lparr>stop_state := kHolding\<rparr>))
      = map (\<lambda>u. Some (?rest\<lparr>time_ns := time_ns desired + u\<rparr>)) later"
    using assms(4) s2 by (subst holding_samples) auto
  ultimately have "fst (stop_samples (t # later) s2) = map (\<lambda>u. Some (?rest\<lparr>time_ns := time_ns desired + u\<rparr>)) (t # later)"
    by simp
  then show ?thesis using b(4) by blast
qed

text \<open>Every axis moves at 2 and is stopped at 1 per second squared.\<close>

definition sample_axis :: AxisEnvelope where
  "sample_axis = \<lparr>position_lower = Fin (- 10), position_upper = Fin 10, env_velocity_positive = Fin 3,
     env_velocity_negative = Fin 3, env_acceleration_positive = Fin 1, env_acceleration_negative = Fin 1,
     stop_acceleration_positive = Fin 1, stop_acceleration_negative = Fin 1, position_margin_lower = Fin 0,
     position_margin_upper = Fin 0\<rparr>"

definition sample_envelope :: DynamicEnvelope where
  "sample_envelope = replicate kAxisCount sample_axis"

definition sample_stop :: StopTrajectory where
  "sample_stop = new_stop\<lparr>stop_limits := \<lparr>envelope = sample_envelope, configured = True\<rparr>\<rparr>"

definition moving_point :: JointPoint where
  "moving_point = new_joint_point\<lparr>velocities := replicate kAxisCount (Fin 2)\<rparr>"

definition sample_stopping :: StopTrajectory where
  "sample_stopping = sample_stop\<lparr>stop_start := moving_point, accelerations := replicate kAxisCount (Fin (- 1)),
     terminal_positions := replicate kAxisCount (Fin 2), stop_duration_s := Fin 2,
     stop_duration_ns := 2000000000, stop_state := kStopping\<rparr>"

lemma sample_stop_begins: "stop_begin moving_point sample_stop = (True, sample_stopping)"
  by code_simp

lemma stop_ends_at_rest_witness:
  "\<exists>rest. at_rest_inside sample_envelope rest
    \<and> fst (stop_samples [2000000000, 1000000000, 3000000000] sample_stopping)
      = [Some (rest\<lparr>time_ns := 2000000000\<rparr>), Some (rest\<lparr>time_ns := 1000000000\<rparr>),
         Some (rest\<lparr>time_ns := 3000000000\<rparr>)]"
  using stop_ends_at_rest [OF sample_stop_begins, of "[]" "[]" sample_stopping 2000000000 "[1000000000, 3000000000]"]
  by (simp add: sample_stopping_def sample_stop_def moving_point_def new_joint_point_def)

end
