(* ===== verification/RollingPlanClaims.thy ===== *)
theory RollingPlanClaims
  imports RollingSample
begin

text \<open>
  Properties of the plan buffer of \<open>ctrl_rolling_trajectory\<close> (\<open>rolling_buffer.cpp\<close>).
\<close>

subsection \<open>Two batches at rest\<close>

definition still_view :: "u64 \<Rightarrow> PointView" where
  "still_view t = \<lparr>pv_time_ns = t, pv_positions = Some zero_axes, pv_velocities = Some zero_axes\<rparr>"

definition still_batch :: "u64 list \<Rightarrow> bool \<Rightarrow> BatchView" where
  "still_batch ts fin = \<lparr>replace_from_ns = hd ts, bv_points = Some (map still_view ts), bv_final = fin\<rparr>"

definition sample_configuration :: BufferConfiguration where
  "sample_configuration = \<lparr>capacity = 8, max_horizon_ns = 10000000000, splice_position_tolerance = zero_axes,
     splice_velocity_tolerance = zero_axes\<rparr>"

definition sample_buffer :: "TrajectoryImage \<Rightarrow> RollingBuffer" where
  "sample_buffer img = \<lparr>configuration = sample_configuration, limit_checker = sample_checker, buf_image = img,
     anchor = still_point 0\<rparr>"

definition still_plan :: "u64 list \<Rightarrow> u64 \<Rightarrow> u64 \<Rightarrow> bool \<Rightarrow> TrajectoryImage" where
  "still_plan ts g changed fin =
     \<lparr>points = map still_point ts, generation = g, earliest_changed_ns = changed, im_final = fin\<rparr>"

definition first_context :: AdmissionContext where
  "first_context = \<lparr>execution_time_ns = 0, replaceable_from_ns = 0, minimum_horizon_ns = 0, active_generation = 0,
     priming = True\<rparr>"

definition later_context :: AdmissionContext where
  "later_context = \<lparr>execution_time_ns = 0, replaceable_from_ns = 1000000000, minimum_horizon_ns = 1000000000,
     active_generation = 1, priming = False\<rparr>"

lemma still_copy: "copyPoint (still_view t) = still_point t"
  by (simp add: copyPoint_def still_view_def still_point_def new_joint_point_def)

lemma still_continuity: "checkSpliceContinuity (still_point t) (still_point u) zero_axes zero_axes = Reject_kNone"
  by (simp add: checkSpliceContinuity_def first_axis_None f64_sub_def)

lemma sample_buffer_configured:
  "buffer_configure sample_configuration sample_envelope new_buffer = (True, sample_buffer new_image)"
proof -
  have "validEnvelope sample_envelope" by code_simp
  then show ?thesis
    by (simp add: buffer_configure_def sample_configuration_def kTransportMaxPoints_def first_axis_None
        limit_configure_def buffer_clear_def new_buffer_def sample_buffer_def sample_checker_def
        still_point_def new_joint_point_def new_limit_checker_def Let_def)
qed

lemma first_prepared:
  "prepare (still_batch [0, 2000000000, 4000000000] False) first_context u (sample_buffer new_image)
     = (Reject_kNone, still_plan [0, 2000000000, 4000000000] 1 0 False)"
proof -
  let ?b = "still_batch [0, 2000000000, 4000000000] False"
  have v: "validateInput ?b (sample_buffer new_image) = Reject_kNone" by code_simp
  have f: "find_splice ?b first_context (sample_buffer new_image) = Inr (still_point 0, 0, 0)"
    by (simp add: find_splice_def still_batch_def first_context_def sample_buffer_def new_image_def)
  have i: "spliced_image ?b first_context (sample_buffer new_image) (still_point 0) 0 0
      = still_plan [0, 2000000000, 4000000000] 1 0 False"
    by (simp add: spliced_image_def still_batch_def first_context_def sample_buffer_def new_image_def still_plan_def still_copy)
  have h: "validateHorizon (still_plan [0, 2000000000, 4000000000] 1 0 False) first_context (sample_buffer new_image)
      = Reject_kNone"
    by (simp add: validateHorizon_def still_plan_def first_context_def sample_buffer_def sample_configuration_def)
  have "check_new_segment sample_checker (still_point 0) (still_point 2000000000) = Reject_kNone"
    "check_new_segment sample_checker (still_point 2000000000) (still_point 4000000000) = Reject_kNone"
    by (rule still_segment_checked; simp)+
  then show ?thesis
    unfolding prepare_def v
    by (simp add: f i h still_continuity Let_def)
       (simp add: sample_buffer_def new_image_def sample_configuration_def still_batch_def still_plan_def
         still_copy still_continuity)
qed

lemma first_committed:
  "commit (still_plan [0, 2000000000, 4000000000] 1 0 False) first_context (sample_buffer new_image)
     = (Reject_kNone, sample_buffer (still_plan [0, 2000000000, 4000000000] 1 0 False))"
  by (simp add: commit_def validateHorizon_def still_plan_def first_context_def sample_buffer_def sample_configuration_def)

definition running_buffer :: RollingBuffer where
  "running_buffer = sample_buffer (still_plan [0, 2000000000, 4000000000] 1 0 False)"

lemma running_buffer_reached: "buffer_reaches running_buffer"
proof -
  have "buffer_reaches (sample_buffer new_image)"
    using buffer_next [OF buffer_init step_configure [of new_buffer sample_configuration sample_envelope]]
    by (simp add: sample_buffer_configured)
  from buffer_next [OF this step_admit [OF first_prepared [of new_image], of first_context]]
  show ?thesis by (simp add: first_committed running_buffer_def)
qed

lemma later_prepared:
  "prepare (still_batch [2000000000, 6000000000] True) later_context u running_buffer
     = (Reject_kNone, still_plan [0, 2000000000, 6000000000] 2 2000000000 True)"
proof -
  let ?b = "still_batch [2000000000, 6000000000] True"
  have v: "validateInput ?b running_buffer = Reject_kNone" by code_simp
  have a: "advance_index (map still_point [0, 2000000000, 4000000000]) 2000000000 0 = 1"
    "advance_index (map still_point [0, 2000000000, 4000000000]) 0 0 = 0"
    "count_before (map still_point [0, 2000000000, 4000000000]) 2000000000 0 0 = 1"
    by (simp_all add: advance_index.simps count_before.simps)
  have s: "sampleTrajectoryImage (still_plan [0, 2000000000, 4000000000] 1 0 False) 2000000000
      = Some (still_point 2000000000)"
    using a by (simp add: sampleTrajectoryImage_eq still_plan_def in_span_def sample_at_def)
  have f: "find_splice ?b later_context running_buffer = Inr (still_point 2000000000, 0, Suc 0)"
    using s a by (simp add: find_splice_def still_batch_def later_context_def running_buffer_def sample_buffer_def)
      (simp add: still_plan_def)
  have i: "spliced_image ?b later_context running_buffer (still_point 2000000000) 0 (Suc 0)
      = still_plan [0, 2000000000, 6000000000] 2 2000000000 True"
    by (simp add: spliced_image_def still_batch_def later_context_def sample_buffer_def running_buffer_def
        still_plan_def still_copy)
  have h: "validateHorizon (still_plan [0, 2000000000, 6000000000] 2 2000000000 True) later_context running_buffer
      = Reject_kNone"
    by (simp add: validateHorizon_def still_plan_def later_context_def sample_buffer_def running_buffer_def
        sample_configuration_def)
  have "check_new_segment sample_checker (still_point 2000000000) (still_point 6000000000) = Reject_kNone"
    by (rule still_segment_checked; simp)
  then show ?thesis
    unfolding prepare_def v
    by (simp add: f i h still_continuity Let_def)
       (simp add: sample_buffer_def running_buffer_def sample_configuration_def still_batch_def still_plan_def
         still_copy still_continuity)
qed

lemma later_committed:
  "commit (still_plan [0, 2000000000, 6000000000] 2 2000000000 True) later_context running_buffer
     = (Reject_kNone, sample_buffer (still_plan [0, 2000000000, 6000000000] 2 2000000000 True))"
  by (simp add: commit_def validateHorizon_def still_plan_def later_context_def sample_buffer_def running_buffer_def
      sample_configuration_def)

subsection \<open>The plan\<close>

text \<open>
  C36: the plan can always be followed. Whatever batches are offered, in whatever order and with
  whatever contents, after any sequence of configurations, resets, clearings and admissions the
  times of the plan strictly increase, it has no more points than the capacity, every knot has
  one finite position and velocity per axis inside the safe position limits and the velocity
  limits, and a final plan ends at rest.
\<close>

theorem plan_is_always_sound:
  assumes "buffer_reaches b" "ps = points (buf_image b)"
  shows "increasing ps \<and> length ps \<le> capacity (configuration b)
    \<and> (\<forall>p \<in> set ps. axes_14 p \<and> point_valid (envelope (limit_checker b)) p)
    \<and> (im_final (buf_image b) \<and> ps \<noteq> [] \<longrightarrow> velocities (last ps) = zero_axes)"
  using reached_plan_ok [OF assms(1)] assms(2) by (simp add: plan_ok_def Let_def)

lemma plan_is_always_sound_witness:
  "increasing (map still_point [0, 2000000000, 4000000000]) \<and> point_valid sample_envelope (still_point 2000000000)"
  using plan_is_always_sound [OF running_buffer_reached refl]
  by (simp add: running_buffer_def sample_buffer_def still_plan_def sample_checker_def)

subsection \<open>What an admission leaves alone\<close>

lemma prefix_nth:
  assumes "h + n \<le> length old" "k < n"
  shows "(take n (drop h old) @ rest) ! k = old ! (h + k)"
  using assms by (simp add: nth_append)

lemma index_at_eq:
  assumes "increasing ps" "index_at ps t j"
  shows "advance_index ps t 0 = j"
proof -
  have "time_ns (ps ! 0) \<le> t" "0 < length ps"
    using increasing_le [OF assms(1), of 0 j] assms(2) by (auto simp: index_at_def)
  then show ?thesis using index_at_unique [OF assms(1) advance_index_at assms(2)] by auto
qed

lemma sample_by_index:
  assumes "increasing (points img)" "index_at (points img) t j" "t \<le> time_ns (points img ! (length (points img) - 1))"
  shows "sampleTrajectoryImage img t = sample_at (points img) t j"
proof -
  have "points img \<noteq> []" "time_ns (points img ! 0) \<le> t"
    using increasing_le [OF assms(1), of 0 j] assms(2) by (auto simp: index_at_def)
  then show ?thesis
    using assms(3) index_at_eq [OF assms(1,2)] by (simp add: sampleTrajectoryImage_eq in_span_def)
qed

text \<open>Two images that share the points around a time give the same sample.\<close>

lemma sample_shared:
  assumes inc: "increasing (points old)" "increasing (points new)"
    and shared: "\<forall>k < n. points new ! k = points old ! (h + k)" "h + n \<le> length (points old)" "n < length (points new)"
    and t: "time_ns (points old ! h) \<le> t" "k < n" "t \<le> time_ns (points old ! (h + k))"
  shows "sampleTrajectoryImage new t = sampleTrajectoryImage old t"
proof -
  define j where "j = advance_index (points old) t h"
  have j: "index_at (points old) t j" unfolding j_def using t shared(2) by (intro advance_index_at) auto
  have "h \<le> j"
  proof (rule ccontr)
    assume "\<not> h \<le> j"
    then have "time_ns (points old ! (j + 1)) \<le> time_ns (points old ! h)"
      using t(2) shared(2) by (intro increasing_le [OF inc(1)]) auto
    then show False using j t(1) \<open>\<not> h \<le> j\<close> shared(2) t(2) by (auto simp: index_at_def)
  qed
  have jk: "j \<le> h + k"
  proof (rule ccontr)
    assume "\<not> j \<le> h + k"
    then have "time_ns (points old ! (h + k)) < time_ns (points old ! j)"
      using j by (intro increasing_nth [OF inc(1)]) (auto simp: index_at_def)
    then show False using j t(3) by (auto simp: index_at_def)
  qed
  define i where "i = j - h"
  have ji: "j = h + i" "i < n" using \<open>h \<le> j\<close> jk t(2) by (simp_all add: i_def)
  have here: "points new ! i = points old ! j" using shared(1) ji by simp
  have next_up: "points new ! (i + 1) = points old ! (j + 1)" if "t \<noteq> time_ns (points old ! j)"
  proof -
    have "j \<noteq> h + k" using that t(3) j by (auto simp: index_at_def)
    then have "i + 1 < n" using jk t(2) by (simp add: ji)
    then show ?thesis using shared(1) ji(1) by simp
  qed
  have inside: "j + 1 < length (points old)" if "t \<noteq> time_ns (points old ! j)"
  proof -
    have "j \<noteq> h + k" using that t(3) j by (auto simp: index_at_def)
    then show ?thesis using jk t(2) shared(2) by simp
  qed
  have after: "t < time_ns (points new ! (i + 1))"
  proof (cases "t = time_ns (points old ! j)")
    case True
    have "time_ns (points new ! i) < time_ns (points new ! (i + 1))"
      using ji(2) shared(3) by (intro increasing_nth [OF inc(2)]) auto
    then show ?thesis using True here by simp
  next
    case False
    then show ?thesis using j inside next_up by (simp add: index_at_def)
  qed
  have new_i: "index_at (points new) t i"
    using j here after ji(2) shared(3) by (auto simp: index_at_def)
  have "t \<le> time_ns (points new ! (length (points new) - 1))"
    using order_trans [OF less_imp_le [OF after] increasing_le [OF inc(2), of "i + 1" "length (points new) - 1"]]
      ji(2) shared(3) by auto
  moreover have "t \<le> time_ns (points old ! (length (points old) - 1))"
    using order_trans [OF t(3) increasing_le [OF inc(1), of "h + k" "length (points old) - 1"]] t(2) shared(2) by auto
  ultimately show ?thesis
    using sample_by_index [OF inc(1) j] sample_by_index [OF inc(2) new_i] here next_up inside ji(2) shared(3)
    by (cases "t = time_ns (points old ! j)") (simp_all add: sample_at_def)
qed

lemma committed_image:
  "commit img ctx' b = (Reject_kNone, b') \<Longrightarrow> buf_image b' = img"
  by (auto simp: commit_def Let_def split: if_splits)

lemma nonempty_splice:
  assumes "find_splice batch ctx b = Inr (knot, h, n)" "points (buf_image b) \<noteq> []"
  shows "h = advance_index (points (buf_image b)) (execution_time_ns ctx) 0"
    "n = count_before (points (buf_image b)) (replace_from_ns batch) h 0"
    "sampleTrajectoryImage (buf_image b) (replace_from_ns batch) = Some knot"
    "time_ns (points (buf_image b) ! 0) \<le> execution_time_ns ctx"
  using assms by (auto simp: find_splice_def Let_def not_less split: if_splits option.splits)

lemma count_before_ge: "k \<le> count_before ps t s k"
proof (induction ps t s k rule: count_before.induct)
  case (1 ps t s k)
  then show ?case by (cases "s + k < length ps \<and> time_ns (ps ! (s + k)) < t") (auto simp: count_before.simps [of ps t s k])
qed

lemma counted_all:
  assumes "increasing ps" "s + i < length ps" "time_ns (ps ! (s + i)) < t"
  shows "i < count_before ps t s 0"
proof -
  have "k \<le> i \<Longrightarrow> i < count_before ps t s k" for k
  proof (induction "i - k" arbitrary: k)
    case 0
    then have "count_before ps t s k = count_before ps t s (k + 1)" using assms by (simp add: count_before.simps [of ps t s k])
    then show ?case using 0 count_before_ge [of "k + 1" ps t s] by simp
  next
    case (Suc m)
    then have "time_ns (ps ! (s + k)) \<le> time_ns (ps ! (s + i))" using assms(2) by (intro increasing_le [OF assms(1)]) auto
    then have "time_ns (ps ! (s + k)) < t" using assms(3) by simp
    then have "count_before ps t s k = count_before ps t s (k + 1)"
      using assms(2) Suc by (simp add: count_before.simps [of ps t s k])
    then show ?case using Suc by simp
  qed
  then show ?thesis by simp
qed



end
