(* ===== verification/RollingRun.thy ===== *)
theory RollingRun
  imports RollingInvariant RollingPlanClaims
begin

text \<open>
  A run to evaluate: a controller is configured and activated, takes a batch at rest over eight
  seconds, and follows it.
\<close>

definition sample_joints :: "string list" where
  "sample_joints = [''a'', ''b'', ''c'', ''d'', ''e'', ''f'', ''g'', ''h'', ''i'', ''j'', ''k'', ''l'', ''m'', ''n'']"

definition all_axes :: "f64 \<Rightarrow> f64 list" where "all_axes v = replicate kAxisCount v"

definition sample_parameters :: RollingParameters where
  "sample_parameters = \<lparr>par_joints = sample_joints, joint_position_lower = all_axes (Fin (- 10)),
     joint_position_upper = all_axes (Fin 10), joint_velocity_limits = all_axes (Fin 3),
     joint_acceleration_limits = all_axes (Fin 1), position_margin = Fin 0, par_buffer_capacity = 8,
     max_horizon_ms = 10000, update_timeout_ms = 100000, replace_lead_ms = 1000, state_publish_period_ms = 100,
     nominal_controller_period_ms = 2000, maximum_controller_period_ms = 2000,
     one_cycle_detection_guard_ms = 1, stop_time_growth_guard_ms = 1, non_rt_to_rt_visibility_guard_ms = 1,
     period_quantization_guard_ms = 1, par_feedback_age_limit_ms = Fin 500,
     par_takeover_tolerances = all_axes (Fin 0), par_splice_position_tolerances = all_axes (Fin 0),
     par_splice_velocity_tolerances = all_axes (Fin 0)\<rparr>"

definition sample_runtime :: RuntimeConfiguration where
  "sample_runtime = \<lparr>buffer_capacity = 8, rc_max_horizon_ns = 10000000000, update_timeout_ns = 100000000000,
     replace_lead_ns = 1000000000, state_publish_period_ns = 100000000, nominal_controller_period_ns = 2000000000,
     maximum_controller_period_ns = 2000000000,
     scheduling_guard = \<lparr>one_cycle_detection_ns = 1000000, stop_time_growth_ns = 1000000,
       non_rt_to_rt_visibility_ns = 1000000, period_quantization_ns = 1000000\<rparr>,
     feedback_age_limit_ms = Fin 500, takeover_tolerances = all_axes (Fin 0),
     splice_position_tolerances = all_axes (Fin 0), splice_velocity_tolerances = all_axes (Fin 0),
     joints = sample_joints\<rparr>"

definition configured_controller :: ctl where
  "configured_controller = new_controller\<lparr>ctl_envelope := sample_envelope, runtime_configuration := sample_runtime,
     buffer := sample_buffer new_image, rt_stop_trajectory := sample_stop, ctl_configured := True,
     parameters_frozen := True\<rparr>"

lemma sample_configured: "on_configure sample_parameters new_controller = (True, configured_controller)"
  by code_simp

definition sample_commands :: "loaned list" where
  "sample_commands = map (\<lambda>j. \<lparr>prefix_name = j, interface_name = ''position'', cell = Fin 0\<rparr>) sample_joints"

definition sample_states :: "loaned list" where
  "sample_states = sample_commands @
     [\<lparr>prefix_name = ''ethercat_domain'', interface_name = ''process_data_age_ms'', cell = Fin 0\<rparr>]"

definition active_controller :: ctl where
  "active_controller = configured_controller\<lparr>activation_epoch := 1, active := True\<rparr>"

lemma sample_activated: "on_activate sample_commands sample_states configured_controller = (True, active_controller)"
  by code_simp

subsection \<open>A batch\<close>

text \<open>Points at rest every two seconds, from a start time on.\<close>

definition message_point :: "int \<Rightarrow> MessagePoint" where
  "message_point t = \<lparr>mp_time_from_start_ns = t, mp_positions = all_axes (Fin 0), mp_velocities = all_axes (Fin 0)\<rparr>"

definition rest_message :: "u64 \<Rightarrow> int \<Rightarrow> int list \<Rightarrow> bool \<Rightarrow> BatchMessage" where
  "rest_message n from ts fin = \<lparr>bm_epoch = 1, bm_sequence = n, bm_replace_from_ns = from,
     bm_points = map message_point ts, bm_final = fin\<rparr>"

definition first_message :: BatchMessage where
  "first_message = rest_message 1 1000000000 [0, 2000000000, 4000000000, 6000000000, 8000000000] False"

definition first_times :: "u64 list" where
  "first_times = [0, 2000000000, 4000000000, 6000000000, 8000000000]"

definition gated_controller :: ctl where
  "gated_controller = active_controller\<lparr>initial_handoff_gate := True\<rparr>"

definition priming_controller :: ctl where
  "priming_controller = gated_controller\<lparr>epoch_sequence := 1, session_origin_ns := 1000000000,
     prime_start_ns := 1000000000, session_epoch := 1, rt_session_state := kPriming\<rparr>"

lemma sample_opened:
  "admit_open 0 first_message gated_controller = (Inr (still_batch first_times False), priming_controller)"
  by code_simp

definition first_plan :: TrajectoryImage where "first_plan = still_plan first_times 1 0 False"

lemma rest_suffix:
  "check_suffix sample_checker (map still_point [0, 2000000000, 4000000000, 6000000000, 8000000000]) = Reject_kNone"
proof -
  have "check_new_segment sample_checker (still_point 0) (still_point 2000000000) = Reject_kNone"
    "check_new_segment sample_checker (still_point 2000000000) (still_point 4000000000) = Reject_kNone"
    "check_new_segment sample_checker (still_point 4000000000) (still_point 6000000000) = Reject_kNone"
    "check_new_segment sample_checker (still_point 6000000000) (still_point 8000000000) = Reject_kNone"
    by (rule still_segment_checked; simp)+
  then show ?thesis by simp
qed

lemma sample_first_prepared:
  "prepare (still_batch first_times False) first_context new_image (sample_buffer new_image) = (Reject_kNone, first_plan)"
proof -
  let ?b = "still_batch first_times False"
  have v: "validateInput ?b (sample_buffer new_image) = Reject_kNone" by code_simp
  have f: "find_splice ?b first_context (sample_buffer new_image) = Inr (still_point 0, 0, 0)"
    by (simp add: find_splice_def still_batch_def first_context_def sample_buffer_def new_image_def first_times_def)
  have i: "spliced_image ?b first_context (sample_buffer new_image) (still_point 0) 0 0 = first_plan"
    by (simp add: spliced_image_def still_batch_def first_context_def sample_buffer_def new_image_def still_plan_def
        still_copy first_plan_def first_times_def)
  have h: "validateHorizon first_plan first_context (sample_buffer new_image) = Reject_kNone" by code_simp
  show ?thesis
    using rest_suffix unfolding prepare_def v
    by (simp add: f i h still_continuity Let_def)
       (simp add: sample_buffer_def new_image_def sample_configuration_def still_batch_def still_plan_def
         still_copy still_continuity first_plan_def first_times_def)
qed

definition committed_controller :: ctl where
  "committed_controller = priming_controller\<lparr>buffer := sample_buffer first_plan\<rparr>"

lemma priming_context:
  "buildAdmissionContext obs priming_controller = Some first_context"
  by (simp add: buildAdmissionContext_def priming_controller_def gated_controller_def active_controller_def
      configured_controller_def new_controller_def first_context_def blank_context_def)

lemma priming_buffer: "buffer priming_controller = sample_buffer new_image"
  by (simp add: priming_controller_def gated_controller_def active_controller_def configured_controller_def)

lemma sample_admitted:
  "admit_prepare obs (still_batch first_times False) priming_controller = Inr first_plan"
  "admit_commit obs first_plan priming_controller = (Inr (), committed_controller)"
proof -
  show "admit_prepare obs (still_batch first_times False) priming_controller = Inr first_plan"
    by (simp add: admit_prepare_def priming_context priming_buffer sample_first_prepared)
  have "commit first_plan first_context (sample_buffer new_image) = (Reject_kNone, sample_buffer first_plan)"
    by code_simp
  then show "admit_commit obs first_plan priming_controller = (Inr (), committed_controller)"
    by (simp add: admit_commit_def priming_context priming_buffer committed_controller_def)
qed

definition first_snapshot :: RollingSnapshot where
  "first_snapshot = \<lparr>snap_session_epoch = 1, trajectory = first_plan, arrival_time_ns = 0,
     snap_publication_sequence = 1\<rparr>"

definition published_controller :: ctl where
  "published_controller = committed_controller\<lparr>snapshot_exchange :=
     \<lparr>slots = [Some blank_snapshot, Some blank_snapshot, Some first_snapshot], middle = 6, writing = 1,
      reading = 0, publication_sequence = 1\<rparr>\<rparr>"

lemma sample_published: "admit_publish 0 committed_controller = (ACCEPTED, published_controller)"
  by code_simp

definition answered_controller :: ctl where
  "answered_controller = published_controller\<lparr>last_result := ACCEPTED, last_sequence := 1, initial_handoff_gate := False\<rparr>"

lemma sample_handled:
  "handleBatch (\<lambda>_ d. d) 0 0 (Some first_message) active_controller = answered_controller"
proof -
  have "active active_controller" by (simp add: active_controller_def)
  moreover have "admitBatch (\<lambda>_ d. d) 0 0 first_message gated_controller = (ACCEPTED, published_controller)"
    by (simp add: admitBatch_def sample_opened sample_admitted sample_published Let_def)
  moreover have "bm_sequence first_message = 1" by (simp add: first_message_def rest_message_def)
  ultimately show ?thesis by (simp add: handleBatch_def answered_controller_def gated_controller_def)
qed

subsection \<open>Cycles\<close>

definition cycle_at :: "int \<Rightarrow> cycle_input" where
  "cycle_at t = \<lparr>time_now_ns = t, cycle_period_ns = 2000000000, steady_now_ns = 0,
     position_states = all_axes (Fin 0), feedback_age_state = Fin 0\<rparr>"

definition running_controller :: ctl where
  "running_controller = answered_controller\<lparr>snapshot_exchange :=
       \<lparr>slots = [Some blank_snapshot, Some blank_snapshot, Some first_snapshot], middle = 0, writing = 1,
        reading = 2, publication_sequence = 1\<rparr>,
     session_publication_floor := 1,
     rt_session_state := kRunning, ctl_active_generation := 1, buffered_until_ns := 8000000000,
     ctl_replaceable_from_ns := 1000000000, rt_state_version := 2, rt_state_session_epoch := 1,
     rt_observed_session_epoch := 1, rt_publication_floor := 1, rt_consumed_publication_sequence := 1,
     rt_active_trajectory := Some 2, rt_sampling_cursor := cursor_at first_plan 0 0,
     rt_desired := still_point 0, commands := all_axes (Fin 0)\<rparr>"

lemma sample_started:
  "update (\<lambda>_ d. d) (cycle_at 1000000000) answered_controller = (True, running_controller)"
  by code_simp

definition moved_controller :: ctl where
  "moved_controller = running_controller\<lparr>ctl_execution_time_ns := 2000000000,
     ctl_replaceable_from_ns := 3000000000, rt_state_version := 4,
     rt_sampling_cursor := cursor_at first_plan 2000000000 1, rt_desired := still_point 2000000000\<rparr>"

lemma sample_moved:
  "update (\<lambda>_ d. d) (cycle_at 3000000000) running_controller = (True, moved_controller)"
  by code_simp

end
