(* ===== verification/RollingRunClaims.thy ===== *)
theory RollingRunClaims
  imports RollingRun
begin

text \<open>
  Properties of the control cycle of \<open>RollingTrajectoryController\<close>, with the callback thread
  interleaved.
\<close>

subsection \<open>The sample run is a run\<close>

definition undisturbed :: "nat \<Rightarrow> ctl \<Rightarrow> ctl" where "undisturbed = (\<lambda>_ d. d)"

lemma undisturbed_steps: "callback_step\<^sup>*\<^sup>* d (undisturbed k d)"
  by (simp add: undisturbed_def)

lemma answered_reached: "rolling_reaches answered_controller"
proof -
  have "rolling_step new_controller configured_controller"
    using sys_configure [of new_controller sample_parameters] by (simp add: sample_configured) (simp add: new_controller_def)
  then have 1: "rolling_reaches configured_controller" by (rule rolling_next [OF rolling_init])
  have "rolling_step configured_controller active_controller"
    using sys_activate [of configured_controller sample_commands sample_states]
    by (simp add: sample_activated) (simp add: configured_controller_def new_controller_def)
  then have 2: "rolling_reaches active_controller" by (rule rolling_next [OF 1])
  have "callback_step active_controller gated_controller"
    using cb_gate [of active_controller True] by (simp add: gated_controller_def)
  then have 3: "rolling_reaches gated_controller" using rolling_next [OF 2] sys_callback by blast
  have "callback_step gated_controller priming_controller"
    using cb_open [of gated_controller 0 first_message] by (simp add: sample_opened)
  then have 4: "rolling_reaches priming_controller" using rolling_next [OF 3] sys_callback by blast
  have "callback_step priming_controller committed_controller"
    using cb_commit [OF sample_admitted(1) refl, of "at_once priming_controller"] by (simp add: sample_admitted(2))
  then have 5: "rolling_reaches committed_controller" using rolling_next [OF 4] sys_callback by blast
  have "callback_step committed_controller published_controller"
    using cb_publish [of committed_controller 0] by (simp add: sample_published)
  then have 6: "rolling_reaches published_controller" using rolling_next [OF 5] sys_callback by blast
  have "callback_step published_controller answered_controller"
    using cb_result [of published_controller 1 ACCEPTED] by (simp add: answered_controller_def)
  then show ?thesis using rolling_next [OF 6] sys_callback by blast
qed

lemma running_reached: "rolling_reaches running_controller"
  using rolling_next [OF answered_reached sys_update [OF undisturbed_steps]] sample_started
  unfolding undisturbed_def by blast

lemma moved_reached: "rolling_reaches moved_controller"
  using rolling_next [OF running_reached sys_update [OF undisturbed_steps]] sample_moved
  unfolding undisturbed_def by blast

subsection \<open>Following the plan\<close>

text \<open>
  C33: while it runs the controller follows an admitted plan exactly. In every run, however the
  callback thread interleaves with the cycles, a running controller points into the slot of the
  exchange it holds itself, which is never the one the producer may write; the trajectory there
  has strictly increasing times; and the desired point is that trajectory at the execution time,
  inside the limits of every axis.
\<close>

theorem running_follows_the_plan:
  assumes "rolling_reaches c" "rt_session_state c = kRunning"
  shows "rt_active_trajectory c = Some (reading (snapshot_exchange c))
    \<and> writing (snapshot_exchange c) \<noteq> reading (snapshot_exchange c)
    \<and> increasing (points (active_image c))
    \<and> sampleTrajectoryImage (active_image c) (ctl_execution_time_ns c) = Some (rt_desired c)
    \<and> desiredIsValid (rt_desired c) c"
proof -
  have inv: "rolling_inv c" using assms(1) by (rule rolling_reaches_inv)
  then obtain s where s: "followed c s" using assms(2) by (auto simp: rolling_inv_def following_def)
  have "exchange_ok (snapshot_exchange c)" using inv by (simp add: rolling_inv_def parts_ok_def)
  then have "writing (snapshot_exchange c) \<noteq> reading (snapshot_exchange c)" by (auto simp: exchange_ok_def indices_ok_def)
  then show ?thesis using s active_image_followed [OF s] by (simp add: followed_def)
qed

lemma running_follows_the_plan_witness:
  "sampleTrajectoryImage first_plan 2000000000 = Some (still_point 2000000000)
    \<and> desiredIsValid (still_point 2000000000) moved_controller"
proof -
  have m: "rt_session_state moved_controller = kRunning" "active_image moved_controller = first_plan"
    "ctl_execution_time_ns moved_controller = 2000000000" "rt_desired moved_controller = still_point 2000000000"
    by (simp_all add: moved_controller_def running_controller_def active_image_def first_snapshot_def)
  show ?thesis using running_follows_the_plan [OF moved_reached m(1)] by (simp add: m)
qed

subsection \<open>What is commanded\<close>

text \<open>Only the last operation of a cycle writes the command interfaces, and none the limits.\<close>

definition outputs_same :: "ctl \<Rightarrow> ctl \<Rightarrow> bool" where
  "outputs_same c d \<longleftrightarrow> commands d = commands c \<and> ctl_envelope d = ctl_envelope c"

lemma outputs_trans: "outputs_same a b \<Longrightarrow> outputs_same b c \<Longrightarrow> outputs_same a c"
  by (simp add: outputs_same_def)

lemma outputs_refl [simp]: "outputs_same c c"
  by (simp add: outputs_same_def)

lemma set_stop_reason_outputs [simp]: "outputs_same c (set_stop_reason r c)"
  by (simp add: set_stop_reason_def outputs_same_def)

lemma stop_outputs: "outputs_same c (snd (beginRtStop reason c))"
  by (auto simp: beginRtStop_def outputs_same_def set_stop_reason_def Let_def split: prod.split option.split)

lemma advance_stop_outputs: "outputs_same c (snd (advanceRtStop period_ns c))"
  by (auto simp: advanceRtStop_def outputs_same_def Let_def split: prod.split option.split)

lemma along_outputs: "outputs_same c (snd (advance_along n c))"
  by (auto simp: advance_along_def outputs_same_def split: prod.split option.split)

lemma boundary_outputs: "outputs_same c (snd (updateRtReplaceableBoundary c))"
  by (auto simp: updateRtReplaceableBoundary_def outputs_same_def split: option.split)

lemma or_stop_outputs: "outputs_same c (snd r) \<Longrightarrow> outputs_same c (snd (or_stop reason r))"
  using stop_outputs [of "snd r" reason] outputs_trans by (auto simp: or_stop_def)

lemma consume_outputs: "outputs_same c (snd (consumeLatestRtTrajectory p c))"
  by (auto simp: consumeLatestRtTrajectory_def outputs_same_def Let_def split: prod.split option.split)

lemma reset_outputs: "outputs_same c (snd (resetRtEpoch e c))"
  by (auto simp: resetRtEpoch_def outputs_same_def split: prod.split)

lemma final_outputs: "outputs_same c (snd (advanceRtFinal period_ns c))"
proof (cases "addTime (ctl_execution_time_ns c) (word_of_int period_ns)")
  case None
  then show ?thesis by (simp add: advanceRtFinal_def)
next
  case (Some next_ns)
  obtain ok d where r: "advance_along (if buffered_until_ns c \<le> next_ns then buffered_until_ns c else next_ns) c = (ok, d)"
    by (meson surj_pair)
  have d: "outputs_same c d" using along_outputs [of c] r by (metis snd_conv)
  then show ?thesis
    using outputs_trans [OF d boundary_outputs [of d]] outputs_trans [OF d set_stop_reason_outputs [of d kCompleted]]
    by (auto simp: advanceRtFinal_def Some r Let_def outputs_same_def)
qed

lemma plan_outputs: "outputs_same c (snd (advanceRtPlan period_ns c))"
proof -
  have "outputs_same c (snd (case advance_along n c of (ok, d) \<Rightarrow>
      or_stop kInternalInvariant (if \<not> ok then (False, d) else updateRtReplaceableBoundary d)))" for n
  proof -
    obtain ok d where r: "advance_along n c = (ok, d)" by (meson surj_pair)
    have d: "outputs_same c d" using along_outputs [of c n] r by simp
    then show ?thesis using outputs_trans [OF d boundary_outputs [of d]] by (simp add: r or_stop_outputs)
  qed
  then show ?thesis
    using stop_outputs unfolding advanceRtPlan_def Let_def by (simp split: option.split)
qed

lemma session_outputs: "outputs_same c (snd (update_session i s c))"
proof -
  have con: "outputs_same c d" if "consumeLatestRtTrajectory p c = (r, d)" for p r d
    using consume_outputs [of c p] that by simp
  have run: "outputs_same c (snd (update_running period_ns steady_now c))" for period_ns steady_now
    using con outputs_trans stop_outputs or_stop_outputs [OF final_outputs] plan_outputs
    by (auto simp: update_running_def split: prod.split) blast+
  have prime: "outputs_same c (snd (update_priming time_now c))" for time_now
    using con outputs_trans stop_outputs by (auto simp: update_priming_def split: prod.split) blast+
  show ?thesis
    by (cases s) (use run prime advance_stop_outputs in \<open>auto simp: update_session_def outputs_same_def\<close>)
qed

lemma read_session_outputs:
  assumes "\<And>k d. callback_step\<^sup>*\<^sup>* d (others k d)" "parts_ok c"
  shows "outputs_same c (snd (read_session others ks c))"
  using assms(2)
proof (induction ks arbitrary: c)
  case Nil
  then show ?case by simp
next
  case (Cons k ks)
  obtain ok d where r: "(if session_epoch c \<noteq> rt_observed_session_epoch c then resetRtEpoch (session_epoch c) c
      else (True, c)) = (ok, d)" by (meson surj_pair)
  have d: "outputs_same c d" "parts_ok d"
  proof -
    have "outputs_same c d \<and> same_parts c d"
      using r reset_outputs [of c "session_epoch c"] resetRtEpoch_result(1) [of "session_epoch c" c ok d]
      by (cases "session_epoch c = rt_observed_session_epoch c") (auto simp: same_parts_def)
    then show "outputs_same c d" "parts_ok d" using same_parts_ok [of c d] Cons.prems by simp_all
  qed
  have "callback_frame d (others k d) \<and> parts_ok (others k d)"
    by (rule callback_steps_frame [OF assms(1) d(2)])
  then have e: "outputs_same d (others k d)" "parts_ok (others k d)"
    by (simp_all add: callback_frame_def rt_fields_same_def outputs_same_def)
  have "read_session others (k # ks) c = (if \<not> ok then (None, d)
      else if session_epoch c = session_epoch (others k d) then (Some (True, rt_session_state d), others k d)
      else read_session others ks (others k d))"
    using r by (simp add: Let_def)
  then show ?case
    using d(1) outputs_trans [OF d(1) e(1)] outputs_trans [OF outputs_trans [OF d(1) e(1)] Cons.IH [OF e(2)]]
    by simp
qed

lemma write_result:
  assumes "writeRtDesired c = (ok, d)"
  shows "ok \<Longrightarrow> \<forall>a < kAxisCount. axis_valid (ctl_envelope c ! a) (commands d ! a) (desired_velocities d ! a)"
    "ok \<Longrightarrow> length (commands d) = kAxisCount" "\<not> ok \<Longrightarrow> d = c" "ctl_envelope d = ctl_envelope c"
  using assms by (auto simp: writeRtDesired_def desiredIsValid_iff point_valid_def split: if_splits)

lemma update_body_outputs:
  assumes "\<And>k d. callback_step\<^sup>*\<^sup>* d (others k d)" "parts_ok c" "update_body others i c = (ok, d)"
  shows "(\<exists>e. outputs_same c e \<and> writeRtDesired e = (ok, d)) \<or> \<not> ok \<and> outputs_same c d"
proof -
  let ?c = "c\<lparr>observed_positions := map (\<lambda>a. position_states i ! a) axis_indices,
               observed_feedback_age_ms := feedback_age_state i\<rparr>"
  have c': "parts_ok ?c" "outputs_same c ?c" using assms(2) by (simp_all add: parts_ok_def outputs_same_def)
  obtain r e where rd: "read_session others [0, 1, 2] ?c = (r, e)" by (meson surj_pair)
  have e: "outputs_same c e"
    using outputs_trans [OF c'(2) read_session_outputs [where others = others and ks = "[0, 1, 2]", OF assms(1) c'(1)]] rd by (metis snd_conv)
  have body: "update_body others i c = (case r of None \<Rightarrow> (False, e)
      | Some (coherent, s) \<Rightarrow> if \<not> coherent then writeRtDesired e
          else case update_session i s e of (ok, f) \<Rightarrow> if \<not> ok then (False, f) else writeRtDesired f)"
    unfolding update_body_def Let_def rd by (auto split: option.split)
  show ?thesis
  proof (cases r)
    case None
    then show ?thesis using assms(3) body e by auto
  next
    case (Some q)
    obtain coherent s where q: "q = (coherent, s)" by (cases q)
    obtain ok' f where f: "update_session i s e = (ok', f)" by (meson surj_pair)
    have "outputs_same c f" using outputs_trans [OF e session_outputs [of e i s]] f by simp
    then show ?thesis using assms(3) body e Some q f by (auto split: if_splits)
  qed
qed

text \<open>
  C34: nothing outside the limits is ever commanded. In every run a cycle that succeeds on an
  active controller leaves all 14 command interfaces at finite positions inside the safe limits,
  with velocities inside the velocity limits; a cycle that fails leaves them as they were, and an
  inactive controller leaves them alone.
\<close>

theorem commands_stay_inside_limits:
  assumes "rolling_reaches c" "\<And>k d. callback_step\<^sup>*\<^sup>* d (others k d)" "update others i c = (ok, d)"
  shows "if active c \<and> ok
    then length (commands d) = kAxisCount
      \<and> (\<forall>a < kAxisCount. axis_valid (ctl_envelope c ! a) (commands d ! a) (desired_velocities d ! a))
    else commands d = commands c"
proof (cases "active c")
  case False
  then show ?thesis using assms(3) by (simp add: update_def)
next
  case True
  let ?c = "c\<lparr>rt_state_version := rt_state_version c + 1\<rparr>"
  obtain d' where b: "update_body others i ?c = (ok, d')" and d: "d = d'\<lparr>rt_state_version := rt_state_version d' + 1\<rparr>"
    using assms(3) True by (auto simp: update_def Let_def split: prod.splits)
  have "rolling_inv c" using assms(1) by (rule rolling_reaches_inv)
  then have "parts_ok ?c" by (simp add: rolling_inv_def parts_ok_def)
  from update_body_outputs [OF assms(2) this b] show ?thesis
  proof
    assume "\<exists>e. outputs_same ?c e \<and> writeRtDesired e = (ok, d')"
    then obtain e where e: "outputs_same ?c e" "writeRtDesired e = (ok, d')" by blast
    show ?thesis using True e(1) write_result [OF e(2)] by (auto simp: d outputs_same_def)
  next
    assume "\<not> ok \<and> outputs_same ?c d'"
    then show ?thesis by (simp add: d outputs_same_def)
  qed
qed

lemma commands_stay_inside_limits_witness:
  "list_all (\<lambda>a. axis_valid (ctl_envelope running_controller ! a) (commands moved_controller ! a)
     (desired_velocities moved_controller ! a)) [0..<kAxisCount]"
  using commands_stay_inside_limits [OF running_reached undisturbed_steps sample_moved [folded undisturbed_def]]
  by (simp add: list_all_iff running_controller_def answered_controller_def published_controller_def
      committed_controller_def priming_controller_def gated_controller_def active_controller_def)

end
